(* ===== verification/Prelude.thy ===== *)
theory Prelude
  imports Main "HOL-Library.Word"
begin

text \<open>
  Shared vocabulary of the D10V development: the C integer types of the sources as word types, the
  theorem collections the components fill, and the generic facts on words and lists that more than
  one component needs.

  The sources are compiled for a 32-bit host (\<open>int\<close> and \<open>long\<close> have 32 bits, \<open>long long\<close> has 64,
  see \<open>src/README.md\<close> and \<open>src/src/sim/common/sim-types.h\<close>). A C value of a signed type is the word
  with the same bits; signed comparison, arithmetic shift and widening are written out with
  \<open><s\<close>, \<open>signed_drop_bit\<close> and \<open>scast\<close>. Signed arithmetic wraps, as it does in the code gcc 2.95
  produces.
\<close>

unbundle bit_operations_syntax

section \<open>The C types of the sources\<close>

type_synonym uint8 = "8 word"
type_synonym uint16 = "16 word"
type_synonym int16 = "16 word"
type_synonym uint32 = "32 word"
type_synonym int32 = "32 word"
type_synonym uint64 = "64 word"
type_synonym int64 = "64 word"

section \<open>Theorem collections\<close>

named_theorems sim_macro "definitions of the accessor macros of the simulator state"
named_theorems op_def "definitions of the instruction functions"
named_theorems slot_simp "rewrite rules for pending and flushing write-back slots"
named_theorems frame_simp "what an operation leaves unchanged"

section \<open>Casts\<close>

text \<open>Widening keeps the unsigned (signed) value, and narrowing after widening is the identity.\<close>

lemma uint_ucast_up:
  "LENGTH('a) \<le> LENGTH('b) \<Longrightarrow> uint (ucast (x :: 'a::len word) :: 'b::len word) = uint x"
  by transfer (simp add: min_def)

lemma unat_ucast_up:
  "LENGTH('a) \<le> LENGTH('b) \<Longrightarrow> unat (ucast (x :: 'a::len word) :: 'b::len word) = unat x"
  by transfer (simp add: min_def)

lemma sint_scast_up:
  "LENGTH('a) \<le> LENGTH('b) \<Longrightarrow> sint (scast (x :: 'a::len word) :: 'b::len word) = sint x"
  by (simp add: sint_up_scast is_up)

lemma ucast_up_down:
  "LENGTH('a) \<le> LENGTH('b) \<Longrightarrow> ucast (ucast (x :: 'a::len word) :: 'b::len word) = x"
  by (simp add: ucast_up_ucast_id is_up)

lemma ucast_16_32_16 [simp]: "ucast (ucast (x :: uint16) :: uint32) = x"
  by (simp add: ucast_up_down)

lemma ucast_16_64_16 [simp]: "ucast (ucast (x :: uint16) :: uint64) = x"
  by (simp add: ucast_up_down)

lemma ucast_8_16_8 [simp]: "ucast (ucast (x :: uint8) :: uint16) = x"
  by (simp add: ucast_up_down)

lemma ucast_8_32_8 [simp]: "ucast (ucast (x :: uint8) :: uint32) = x"
  by (simp add: ucast_up_down)

lemma unat_ucast_16_32 [simp]: "unat (ucast (x :: uint16) :: uint32) = unat x"
  by (simp add: unat_ucast_up)

lemma ucast_16_32_inject [simp]: "(ucast (x :: uint16) :: uint32) = ucast y \<longleftrightarrow> x = y"
  by (metis ucast_16_32_16)

lemma ucast_16_32_less [simp]: "(ucast (x :: uint16) :: uint32) < ucast y \<longleftrightarrow> x < y"
  by (simp add: word_less_nat_alt)

lemma ucast_scast_up: "LENGTH('a) \<le> LENGTH('b::len) \<Longrightarrow> ucast (scast x :: 'b word) = x" for x :: "'a::len word"
  by (intro bit_word_eqI) (auto simp: bit_simps)

lemma sint_ucast_16_32: "sint (ucast c :: int32) = uint c" for c :: uint16
proof -
  have "- (2 ^ 31) \<le> uint c" by (rule order_trans [OF _ uint_ge_0]) simp
  moreover have "uint c < 2 ^ 31" using uint_lt2p [of c] by simp
  ultimately have "signed_take_bit 31 (uint c) = uint c" by (rule signed_take_bit_int_eq_self)
  then show ?thesis by (simp add: sint_uint uint_ucast_up)
qed

lemma word_sle_16_32: "(ucast a :: int32) <=s ucast b \<longleftrightarrow> a \<le> b" for a b :: uint16
  by (simp add: word_sle_eq sint_ucast_16_32 word_le_def)

section \<open>Sign extension\<close>

text \<open>
  The sources extend the sign of an \<open>n+1\<close>-bit field with the expression
  \<open>((x & mask) ^ ~(mask >> 1)) + (1 << n)\<close>. It is the \<open>signed_take_bit\<close> of the library.
\<close>

lemma sext_eq_signed_take_bit:
  fixes x :: "'a::len word"
  shows "((x AND mask (Suc n)) XOR NOT (mask n)) + 2 ^ n = signed_take_bit n x"
proof (cases "bit x n")
  case True
  have "(x AND mask (Suc n)) XOR NOT (mask n) = (x AND mask n) OR NOT (mask (Suc n))"
    using True by (auto intro!: bit_word_eqI simp: bit_simps less_Suc_eq)
  moreover have "((x AND mask n) OR NOT (mask (Suc n))) + 2 ^ n
      = ((x AND mask n) OR NOT (mask (Suc n))) OR 2 ^ n"
    by (rule disjunctive_add_eq_or) (auto intro!: bit_word_eqI simp: bit_simps bit_exp_iff)
  moreover have "((x AND mask n) OR NOT (mask (Suc n))) OR 2 ^ n = signed_take_bit n x"
    using True
    by (auto intro!: bit_word_eqI simp: bit_simps bit_exp_iff min_def dest: bit_imp_le_length)
  ultimately show ?thesis by simp
next
  case False
  have "(x AND mask (Suc n)) XOR NOT (mask n) = (x AND mask n) OR NOT (mask n)"
    using False by (auto intro!: bit_word_eqI simp: bit_simps less_Suc_eq)
  moreover have "\<dots> = (x AND mask n) + NOT (mask n)"
    by (rule disjunctive_add_eq_or [symmetric]) (auto intro!: bit_word_eqI simp: bit_simps)
  moreover have "x AND mask n = signed_take_bit n x"
    using False by (auto intro!: bit_word_eqI simp: bit_simps min_def less_le split: if_splits)
  ultimately show ?thesis by (simp add: minus_exp_eq_not_mask [symmetric])
qed

lemma sint_signed_take_bit:
  fixes x :: "'a::len word"
  assumes "n < LENGTH('a)"
  shows "sint (signed_take_bit n x) = signed_take_bit n (uint x)"
proof (rule bit_eqI)
  fix k
  show "bit (sint (signed_take_bit n x)) k = bit (signed_take_bit n (uint x)) k"
    using assms by (auto simp: bit_simps min_def not_less)
qed

section \<open>Masks\<close>

lemma and_idem_left [simp]: "(m :: 'a::len word) AND (m AND x) = m AND x"
  by (simp flip: and.assoc)

lemma and_not_self [simp]: "(x :: 'a::len word) AND NOT x = 0"
  by (auto intro!: bit_word_eqI simp: bit_simps)

lemma not_and_self [simp]: "NOT x AND (x :: 'a::len word) = 0"
  by (auto intro!: bit_word_eqI simp: bit_simps)

lemma and_zero_iff: "(x :: 'a::len word) AND w = 0 \<longleftrightarrow> (\<forall>n. \<not> (bit x n \<and> bit w n))"
  by (auto simp: bit_eq_iff bit_simps dest: bit_imp_le_length)

lemma and_zero_combine:
  fixes x :: "'a::len word"
  shows "x AND w = 0 \<Longrightarrow> y AND w = 0 \<Longrightarrow> ((x AND m) OR y) AND w = 0"
  by (auto simp: and_zero_iff bit_simps)

section \<open>Lists\<close>

text \<open>The first element of a list that satisfies a predicate: every table search of the sources.\<close>

lemma find_append: "find P (xs @ ys) = (case find P xs of None \<Rightarrow> find P ys | Some x \<Rightarrow> Some x)"
  by (induction xs) auto

lemma find_filter_implied:
  "(\<And>x. x \<in> set xs \<Longrightarrow> P x \<Longrightarrow> Q x) \<Longrightarrow> find P (filter Q xs) = find P xs"
  by (induction xs) auto

section \<open>Truncation is a homomorphism\<close>

lemma ucast_down:
  assumes "LENGTH('b::len) \<le> LENGTH('a::len)"
  shows "(ucast (x + y :: 'a word) :: 'b word) = ucast x + ucast y"
    "(ucast (x - y :: 'a word) :: 'b word) = ucast x - ucast y"
    "(ucast (- x :: 'a word) :: 'b word) = - ucast x"
    "(ucast (x * y :: 'a word) :: 'b word) = ucast x * ucast y"
  using assms
  by (auto intro!: word_uint_eqI
      simp: unsigned_ucast_eq uint_word_arith_bintrs take_bit_add take_bit_diff take_bit_minus take_bit_mult min_def)

section \<open>Carry and borrow\<close>

lemma carry_add: "a > a + b \<longleftrightarrow> 2 ^ LENGTH('a) \<le> uint a + uint b" for a b :: "'a::len word"
  using uint_lt2p [of a] uint_lt2p [of b] uint_ge_0 [of b] by (auto simp: word_less_def uint_plus_if')

section \<open>Search in hashed buckets\<close>

lemma find_map: "find P (map f xs) = map_option f (find (P \<circ> f) xs)"
  by (induction xs) simp_all

lemma find_upt_Some_iff: "find P [0 ..< n] = Some i \<longleftrightarrow> i < n \<and> P i \<and> (\<forall>j < i. \<not> P j)"
  by (auto simp: find_Some_iff)

text \<open>Appending elements to the bucket of their hash gives, per bucket, the elements in order.\<close>

lemma length_foldl_buckets [simp]:
  "length (foldl (\<lambda>ht x. ht[f x := ht ! f x @ [g x]]) ht xs) = length ht"
  by (induction xs arbitrary: ht) simp_all

lemma foldl_buckets:
  "h < length ht \<Longrightarrow>
   foldl (\<lambda>ht x. ht[f x := ht ! f x @ [g x]]) ht xs ! h = ht ! h @ map g (filter (\<lambda>x. f x = h) xs)"
  by (induction xs arbitrary: ht) (auto simp: nth_list_update)

text \<open>
  A search that looks only into the bucket of its key is a search of the whole table, when every
  element that matches a key has the hash of the key.
\<close>

locale hashed_search =
  fixes matches :: "'k \<Rightarrow> 'e \<Rightarrow> bool" and hash_e :: "'e \<Rightarrow> nat" and hash_k :: "'k \<Rightarrow> nat"
    and valid :: "'e \<Rightarrow> bool"
  assumes matches_hash: "valid e \<Longrightarrow> matches k e \<Longrightarrow> hash_e e = hash_k k"
begin

lemma find_bucket:
  "list_all valid es \<Longrightarrow>
   find (matches k) (filter (\<lambda>e. hash_e e = hash_k k) es) = find (matches k) es"
  by (induction es) (auto simp: matches_hash)

end

end
