(* ===== verification/D10V_Sim.thy ===== *)
theory D10V_Sim
  imports Prelude
begin

text \<open>
  The state of the D10V simulator and the macros that read and write it:
  \<open>src/src/sim/d10v/d10v_sim.h\<close>, and \<open>move_to_cr\<close> of \<open>src/src/sim/d10v/simops.c\<close>.

  The globals \<open>State\<close>, \<open>OP\<close>, \<open>ins_type_counters\<close> and \<open>stop_simulator\<close> are the fields of one record
  that every operation takes and returns; \<open>status\<close> tells whether the simulator is still running. A register write does not change a register: it appends
  a write-back slot, and \<open>SLOT_FLUSH\<close> commits all pending slots, oldest first, at the end of the
  instruction. The theory proves the laws of that buffer (locale \<open>writeback\<close>) and the properties of
  the sign-extension macros.
\<close>

section \<open>Data\<close>

datatype ins_type =
    INS_UNKNOWN | INS_COND_TRUE | INS_COND_FALSE | INS_COND_JUMP | INS_CYCLES | INS_LONG
  | INS_LEFTRIGHT | INS_RIGHTLEFT | INS_PARALLEL
  | INS_LEFT | INS_LEFT_PARALLEL | INS_LEFT_COND_TEST | INS_LEFT_COND_EXE | INS_LEFT_NOPS
  | INS_RIGHT | INS_RIGHT_PARALLEL | INS_RIGHT_COND_TEST | INS_RIGHT_COND_EXE | INS_RIGHT_NOPS

text \<open>
  The simulator runs, has called \<open>exit\<close>, has been replaced by an \<open>execve\<close>, or has crashed (it has
  dereferenced a null pointer or read an array out of bounds).
\<close>

datatype run_status = Running | Exited | Replaced | Crashed

text \<open>
  Host memory the simulator points into: the instruction memory, the data memory, a segment of the
  unified memory, and \<open>NULL\<close> displaced by an offset (a segment whose allocation failed).
\<close>

datatype ptr = Imem nat | Dmem nat | Umem nat nat | Null nat

text \<open>
  A write-back slot. The \<open>dest\<close> pointer of \<open>struct slot\<close> always points at an element of one of the
  four register arrays of \<open>State\<close>; \<open>sizeof\<close> of that element is 2 for \<open>regs\<close>, \<open>cregs\<close> and \<open>sp\<close> and 8
  for \<open>a\<close>, so the \<open>size\<close> field and the member of the \<open>slot_data\<close> unions in use are the constructor
  of the slot. The arguments are the destination, the mask and the data.
\<close>

datatype dest2 = Regs nat | Cregs nat | Sp nat

datatype slot =
    Slot_2 dest2 uint16 uint16
  | Slot_8 nat uint64 uint64

record sim =
  regs :: "uint16 list"
  cregs :: "uint16 list"
  sp :: "uint16 list"
  acc :: "int64 list"
  slot :: "slot list"
  trace_psw :: uint16
  exe :: bool
  exception :: int
  pc_changed :: bool
  imem :: bool
  umem :: "bool list"
  mem :: "ptr \<Rightarrow> uint8"
  calloc_ok :: bool
  ins_type :: ins_type
  ins_type_counters :: "ins_type \<Rightarrow> uint32"
  OP :: "uint16 list"
  stop_simulator :: bool
  status :: run_status

definition NR_SLOTS :: nat where
  "NR_SLOTS = 16"

definition SP_IDX :: nat where
  "SP_IDX = 15"

text \<open>
  \<open>boot\<close> is the zero-initialised static state of the program, \<open>c\<close> the host's answer to \<open>calloc\<close>.
\<close>

definition boot :: "bool \<Rightarrow> sim" where
  "boot c = \<lparr>regs = replicate 16 0, cregs = replicate 16 0, sp = replicate 2 0, acc = replicate 2 0,
     slot = [], trace_psw = 0, exe = False, exception = 0, pc_changed = False, imem = False,
     umem = replicate 128 False, mem = (\<lambda>_. 0), calloc_ok = c, ins_type = INS_UNKNOWN,
     ins_type_counters = (\<lambda>_. 0), OP = replicate 4 0, stop_simulator = False, status = Running\<rparr>"

section \<open>Write-back slots\<close>

definition SLOT_PEND_MASK :: "dest2 \<Rightarrow> uint16 \<Rightarrow> uint16 \<Rightarrow> sim \<Rightarrow> sim" where
  "SLOT_PEND_MASK dst msk val s = s\<lparr>slot := slot s @ [Slot_2 dst msk val]\<rparr>"

definition SLOT_PEND :: "dest2 \<Rightarrow> uint16 \<Rightarrow> sim \<Rightarrow> sim" where
  "SLOT_PEND dst val s = SLOT_PEND_MASK dst 0 val s"

definition SLOT_PEND_MASK_8 :: "nat \<Rightarrow> uint64 \<Rightarrow> uint64 \<Rightarrow> sim \<Rightarrow> sim" where
  "SLOT_PEND_MASK_8 n msk val s = s\<lparr>slot := slot s @ [Slot_8 n msk val]\<rparr>"

definition SLOT_PEND_8 :: "nat \<Rightarrow> uint64 \<Rightarrow> sim \<Rightarrow> sim" where
  "SLOT_PEND_8 n val s = SLOT_PEND_MASK_8 n 0 val s"

fun flush_slot :: "slot \<Rightarrow> sim \<Rightarrow> sim" where
  "flush_slot (Slot_2 (Regs n) m d) s = s\<lparr>regs := (regs s)[n := (regs s ! n AND m) OR d]\<rparr>"
| "flush_slot (Slot_2 (Cregs n) m d) s = s\<lparr>cregs := (cregs s)[n := (cregs s ! n AND m) OR d]\<rparr>"
| "flush_slot (Slot_2 (Sp n) m d) s = s\<lparr>sp := (sp s)[n := (sp s ! n AND m) OR d]\<rparr>"
| "flush_slot (Slot_8 n m d) s = s\<lparr>acc := (acc s)[n := (acc s ! n AND m) OR d]\<rparr>"

definition SLOT_FLUSH :: "sim \<Rightarrow> sim" where
  "SLOT_FLUSH s = (fold flush_slot (slot s) s)\<lparr>slot := []\<rparr>"

section \<open>Registers and the processor status word\<close>

abbreviation (input) "PSW_CR \<equiv> 0 :: nat"
abbreviation (input) "BPSW_CR \<equiv> 1 :: nat"
abbreviation (input) "PC_CR \<equiv> 2 :: nat"
abbreviation (input) "BPC_CR \<equiv> 3 :: nat"
abbreviation (input) "DPSW_CR \<equiv> 4 :: nat"
abbreviation (input) "DPC_CR \<equiv> 5 :: nat"
abbreviation (input) "RPT_C_CR \<equiv> 7 :: nat"
abbreviation (input) "RPT_S_CR \<equiv> 8 :: nat"
abbreviation (input) "RPT_E_CR \<equiv> 9 :: nat"
abbreviation (input) "MOD_S_CR \<equiv> 10 :: nat"
abbreviation (input) "MOD_E_CR \<equiv> 11 :: nat"
abbreviation (input) "IBA_CR \<equiv> 14 :: nat"

abbreviation (input) "PSW_SM_BIT \<equiv> 0x8000 :: uint16"
abbreviation (input) "PSW_EA_BIT \<equiv> 0x2000 :: uint16"
abbreviation (input) "PSW_DB_BIT \<equiv> 0x1000 :: uint16"
abbreviation (input) "PSW_DM_BIT \<equiv> 0x0800 :: uint16"
abbreviation (input) "PSW_IE_BIT \<equiv> 0x0400 :: uint16"
abbreviation (input) "PSW_RP_BIT \<equiv> 0x0200 :: uint16"
abbreviation (input) "PSW_MD_BIT \<equiv> 0x0100 :: uint16"
abbreviation (input) "PSW_FX_BIT \<equiv> 0x0080 :: uint16"
abbreviation (input) "PSW_ST_BIT \<equiv> 0x0040 :: uint16"
abbreviation (input) "PSW_F0_BIT \<equiv> 0x0008 :: uint16"
abbreviation (input) "PSW_F1_BIT \<equiv> 0x0004 :: uint16"
abbreviation (input) "PSW_C_BIT \<equiv> 0x0001 :: uint16"

definition PSW_MASK :: uint16 where
  "PSW_MASK = PSW_SM_BIT OR PSW_EA_BIT OR PSW_DB_BIT OR PSW_DM_BIT OR PSW_IE_BIT OR PSW_RP_BIT
     OR PSW_MD_BIT OR PSW_FX_BIT OR PSW_ST_BIT OR PSW_F0_BIT OR PSW_F1_BIT OR PSW_C_BIT"

text \<open>Reads. \<open>GPR\<close>, \<open>CREG\<close> and \<open>HELD_SP\<close> promote to \<open>int\<close>, \<open>ACC\<close> is an \<open>int64\<close>.\<close>

definition GPR :: "sim \<Rightarrow> nat \<Rightarrow> int32" where
  "GPR s n = ucast (regs s ! n)"

definition GPR32 :: "sim \<Rightarrow> nat \<Rightarrow> uint32" where
  "GPR32 s n = push_bit 16 (ucast (regs s ! n)) OR ucast (regs s ! (n + 1))"

definition CREG :: "sim \<Rightarrow> nat \<Rightarrow> int32" where
  "CREG s n = ucast (cregs s ! n)"

definition HELD_SP :: "sim \<Rightarrow> nat \<Rightarrow> int32" where
  "HELD_SP s n = ucast (sp s ! n)"

definition ACC :: "sim \<Rightarrow> nat \<Rightarrow> int64" where
  "ACC s n = acc s ! n"

definition PSW :: "sim \<Rightarrow> uint16" where
  "PSW s = cregs s ! PSW_CR"

definition PSW_bit :: "uint16 \<Rightarrow> sim \<Rightarrow> bool" where
  "PSW_bit m s \<longleftrightarrow> PSW s AND m \<noteq> 0"

abbreviation (input) "PSW_SM \<equiv> PSW_bit PSW_SM_BIT"
abbreviation (input) "PSW_DB \<equiv> PSW_bit PSW_DB_BIT"
abbreviation (input) "PSW_RP \<equiv> PSW_bit PSW_RP_BIT"
abbreviation (input) "PSW_MD \<equiv> PSW_bit PSW_MD_BIT"
abbreviation (input) "PSW_FX \<equiv> PSW_bit PSW_FX_BIT"
abbreviation (input) "PSW_ST \<equiv> PSW_bit PSW_ST_BIT"
abbreviation (input) "PSW_F0 \<equiv> PSW_bit PSW_F0_BIT"
abbreviation (input) "PSW_F1 \<equiv> PSW_bit PSW_F1_BIT"
abbreviation (input) "PSW_C \<equiv> PSW_bit PSW_C_BIT"

abbreviation (input) "PC s \<equiv> CREG s PC_CR"
abbreviation (input) "BPSW s \<equiv> CREG s BPSW_CR"
abbreviation (input) "BPC s \<equiv> CREG s BPC_CR"
abbreviation (input) "DPSW s \<equiv> CREG s DPSW_CR"
abbreviation (input) "DPC s \<equiv> CREG s DPC_CR"
abbreviation (input) "RPT_C s \<equiv> CREG s RPT_C_CR"
abbreviation (input) "RPT_S s \<equiv> CREG s RPT_S_CR"
abbreviation (input) "RPT_E s \<equiv> CREG s RPT_E_CR"
abbreviation (input) "MOD_S s \<equiv> CREG s MOD_S_CR"
abbreviation (input) "MOD_E s \<equiv> CREG s MOD_E_CR"
abbreviation (input) "IBA s \<equiv> CREG s IBA_CR"

text \<open>
  Writes. The value of a register write is cast to the 16 bits of the register, whatever integer
  type the expression has; \<open>SET_ACC\<close> keeps 40 bits.
\<close>

abbreviation (input) "MASK40 \<equiv> 0xffffffffff :: int64"
abbreviation (input) "MASK32 \<equiv> 0xffffffff :: int64"
abbreviation (input) "MAX32 \<equiv> 0x7fffffff :: int64"
abbreviation (input) "MIN32 \<equiv> 0xff80000000 :: int64"

definition SET_GPR :: "nat \<Rightarrow> 'a::len word \<Rightarrow> sim \<Rightarrow> sim" where
  "SET_GPR n val s = SLOT_PEND (Regs n) (ucast val) s"

definition SET_HELD_SP :: "nat \<Rightarrow> int32 \<Rightarrow> sim \<Rightarrow> sim" where
  "SET_HELD_SP n val s = SLOT_PEND (Sp n) (ucast val) s"

definition SET_ACC :: "nat \<Rightarrow> int64 \<Rightarrow> sim \<Rightarrow> sim" where
  "SET_ACC n val s = SLOT_PEND_8 n (val AND MASK40) s"

text \<open>
  Signals of the host, as Linux on i386 numbers them, and the two private codes of \<open>d10v_sim.h\<close>.
\<close>

abbreviation (input) "SIGILL \<equiv> 4 :: int"
abbreviation (input) "SIGTRAP \<equiv> 5 :: int"
abbreviation (input) "SIGBUS \<equiv> 7 :: int"
abbreviation (input) "SIGINT \<equiv> 2 :: int"
abbreviation (input) "SIG_D10V_STOP \<equiv> - 1 :: int"
abbreviation (input) "SIG_D10V_EXIT \<equiv> - 2 :: int"

text \<open>
  \<open>move_to_cr\<close> returns the value it wrote and the new state. Its message on an illegal \<open>ST\<close> bit is
  not modelled, the exception is.
\<close>

definition move_to_psw :: "uint16 \<Rightarrow> uint16 \<Rightarrow> sim \<Rightarrow> sim" where
  "move_to_psw msk val s =
     (let s = (if msk AND PSW_SM_BIT = 0
               then let new_sm = (val AND PSW_SM_BIT \<noteq> 0);
                        s1 = SET_HELD_SP (of_bool (PSW_SM s)) (GPR s SP_IDX) s
                    in if PSW_SM s \<noteq> new_sm
                       then SET_GPR SP_IDX (HELD_SP s1 (of_bool new_sm)) s1
                       else s1
               else s);
          s = (if msk AND (PSW_ST_BIT OR PSW_FX_BIT) = 0
                  \<and> val AND PSW_ST_BIT \<noteq> 0 \<and> \<not> val AND PSW_FX_BIT \<noteq> 0
               then s\<lparr>exception := SIGILL\<rparr> else s)
      in s\<lparr>trace_psw := (trace_psw s AND msk) OR val\<rparr>)"

definition move_to_cr :: "nat \<Rightarrow> uint16 \<Rightarrow> uint16 \<Rightarrow> sim \<Rightarrow> uint16 \<times> sim" where
  "move_to_cr cr msk val s =
     (let val = (if cr = PSW_CR \<or> cr = BPSW_CR \<or> cr = DPSW_CR then val AND PSW_MASK
                 else if cr = MOD_S_CR \<or> cr = MOD_E_CR then val AND NOT 1
                 else val);
          s = (if cr = PSW_CR then move_to_psw msk val s else s);
          s = (if (cregs s ! cr) AND NOT msk \<noteq> val
               then SLOT_PEND_MASK (Cregs cr) msk val s else s)
      in (val, s))"

definition SET_CREG :: "nat \<Rightarrow> 'a::len word \<Rightarrow> sim \<Rightarrow> sim" where
  "SET_CREG n val s = snd (move_to_cr n 0 (ucast val) s)"

definition SET_PSW_BIT :: "uint16 \<Rightarrow> bool \<Rightarrow> sim \<Rightarrow> sim" where
  "SET_PSW_BIT m val s = snd (move_to_cr PSW_CR (NOT m) (if val then m else 0) s)"

abbreviation (input) "SET_PSW_IE \<equiv> SET_PSW_BIT PSW_IE_BIT"
abbreviation (input) "SET_PSW_RP \<equiv> SET_PSW_BIT PSW_RP_BIT"
abbreviation (input) "SET_PSW_F0 \<equiv> SET_PSW_BIT PSW_F0_BIT"
abbreviation (input) "SET_PSW_F1 \<equiv> SET_PSW_BIT PSW_F1_BIT"
abbreviation (input) "SET_PSW_C \<equiv> SET_PSW_BIT PSW_C_BIT"

abbreviation (input) "SET_PC \<equiv> SET_CREG PC_CR"

text \<open>
  \<open>opn\<close> is \<open>OP[i]\<close> as an array index, \<open>opv\<close> is \<open>OP[i]\<close> promoted to \<open>int\<close>.
  \<open>SET_GPR32\<close> writes the register pair of operand 0. Only bits 16 to 31 of \<open>val >> 16\<close> reach the
  register, so the logical shift stands for the arithmetic one of a signed \<open>val\<close>.
\<close>

definition opn :: "sim \<Rightarrow> nat \<Rightarrow> nat" where
  "opn s i = unat (OP s ! i)"

definition opv :: "sim \<Rightarrow> nat \<Rightarrow> int32" where
  "opv s i = ucast (OP s ! i)"

definition SET_GPR32 :: "'a::len word \<Rightarrow> sim \<Rightarrow> sim" where
  "SET_GPR32 val s =
     (let s = SET_GPR (opn s 0 + 0) (drop_bit 16 val) s in SET_GPR (opn s 0 + 1) val s)"

text \<open>Post-increment and post-decrement, with the wrap-around of modulo addressing.\<close>

definition INC_ADDR :: "nat \<Rightarrow> int32 \<Rightarrow> sim \<Rightarrow> sim" where
  "INC_ADDR x i s =
     (if PSW_MD s \<and> GPR s x = (MOD_E s AND NOT (i - 1))
      then SET_GPR x (MOD_S s) s
      else SET_GPR x (GPR s x + i) s)"

definition JMP :: "'a::len word \<Rightarrow> sim \<Rightarrow> sim" where
  "JMP x s = (SET_PC x s)\<lparr>pc_changed := True\<rparr>"

section \<open>Sign extension macros\<close>

definition SEXT3 :: "int32 \<Rightarrow> int32" where
  "SEXT3 x = ((x AND 0x7) XOR NOT 3) + 4"

definition SEXT4 :: "int32 \<Rightarrow> int32" where
  "SEXT4 x = ((x AND 0xf) XOR NOT 7) + 8"

definition SEXT8 :: "int32 \<Rightarrow> int32" where
  "SEXT8 x = ((x AND 0xff) XOR NOT 0x7f) + 0x80"

definition SEXT16 :: "int32 \<Rightarrow> int32" where
  "SEXT16 x = ((x AND 0xffff) XOR NOT 0x7fff) + 0x8000"

definition SEXT40 :: "int64 \<Rightarrow> int64" where
  "SEXT40 x = ((x AND 0xffffffffff) XOR NOT 0x7fffffffff) + 0x8000000000"

definition SEXT44 :: "int64 \<Rightarrow> int64" where
  "SEXT44 x = ((x AND 0xfffffffffff) XOR NOT 0x7ffffffffff) + 0x80000000000"

definition SEXT56 :: "int64 \<Rightarrow> int64" where
  "SEXT56 x = ((x AND 0xffffffffffffff) XOR NOT 0x7fffffffffffff) + 0x80000000000000"

section \<open>Sign extension is correct\<close>

lemma SEXT3_eq: "SEXT3 x = signed_take_bit 2 x"
  using sext_eq_signed_take_bit [of x 2] by (simp add: SEXT3_def mask_numeral mask_eq_exp_minus_1)

lemma SEXT4_eq: "SEXT4 x = signed_take_bit 3 x"
  using sext_eq_signed_take_bit [of x 3] by (simp add: SEXT4_def mask_eq_exp_minus_1)

lemma SEXT8_eq: "SEXT8 x = signed_take_bit 7 x"
  using sext_eq_signed_take_bit [of x 7] by (simp add: SEXT8_def mask_eq_exp_minus_1)

lemma SEXT16_eq: "SEXT16 x = signed_take_bit 15 x"
  using sext_eq_signed_take_bit [of x 15] by (simp add: SEXT16_def mask_eq_exp_minus_1)

lemma SEXT40_eq: "SEXT40 x = signed_take_bit 39 x"
  using sext_eq_signed_take_bit [of x 39] by (simp add: SEXT40_def mask_eq_exp_minus_1)

lemma SEXT44_eq: "SEXT44 x = signed_take_bit 43 x"
  using sext_eq_signed_take_bit [of x 43] by (simp add: SEXT44_def mask_eq_exp_minus_1)

lemma SEXT56_eq: "SEXT56 x = signed_take_bit 55 x"
  using sext_eq_signed_take_bit [of x 55] by (simp add: SEXT56_def mask_eq_exp_minus_1)

lemmas SEXT_eq = SEXT3_eq SEXT4_eq SEXT8_eq SEXT16_eq SEXT40_eq SEXT44_eq SEXT56_eq

lemma sint_SEXT40: "sint (SEXT40 x) = signed_take_bit 39 (uint x)"
  by (simp add: SEXT40_eq sint_signed_take_bit)

lemma sint_SEXT8: "sint (SEXT8 x) = signed_take_bit 7 (uint x)"
  by (simp add: SEXT8_eq sint_signed_take_bit)

section \<open>Setters in closed form\<close>

text \<open>
  Every setter only appends slots. For the flags, \<open>move_to_cr\<close> appends one exactly when the flag
  changes; for a whole control register it appends one exactly when the register changes.
\<close>

lemmas [slot_simp] =
  SLOT_PEND_MASK_def SLOT_PEND_def SLOT_PEND_MASK_8_def SLOT_PEND_8_def SET_GPR_def SET_HELD_SP_def SET_ACC_def
  SET_GPR32_def JMP_def opn_def

definition psw_flag :: "uint16 \<Rightarrow> bool" where
  "psw_flag m \<longleftrightarrow> m \<in> {PSW_F0_BIT, PSW_F1_BIT, PSW_C_BIT, PSW_IE_BIT, PSW_RP_BIT}"

lemma psw_flag_simps [simp]:
  "psw_flag PSW_F0_BIT" "psw_flag PSW_F1_BIT" "psw_flag PSW_C_BIT" "psw_flag PSW_IE_BIT"
  "psw_flag PSW_RP_BIT"
  by (simp_all add: psw_flag_def)

lemma and_single_bit:
  "(x :: 'a::len word) AND (2 ^ n) = (if bit x n then 2 ^ n else 0)"
  by (auto intro!: bit_word_eqI simp: bit_simps bit_exp_iff)

lemma psw_flag_exp: "psw_flag m \<Longrightarrow> \<exists>n \<in> {0, 2, 3, 9, 10}. m = 2 ^ n"
  by (auto simp: psw_flag_def)

lemma psw_flag_test:
  assumes "psw_flag m"
  shows "(x AND m = (if v then m else 0)) \<longleftrightarrow> ((x AND m \<noteq> 0) = v)"
proof -
  from assms obtain n where "m = 2 ^ n" and "n < 16" using psw_flag_exp by fastforce
  then show ?thesis by (auto simp: and_single_bit)
qed

lemma psw_flag_masks:
  assumes "psw_flag m"
  shows "NOT m AND PSW_SM_BIT \<noteq> 0" "NOT m AND (PSW_ST_BIT OR PSW_FX_BIT) \<noteq> 0"
    "m AND PSW_MASK = m" "m \<noteq> 0"
  using assms by (auto simp: psw_flag_def PSW_MASK_def)

lemma SET_PSW_BIT_eq [slot_simp]:
  assumes "psw_flag m"
  shows "SET_PSW_BIT m v s =
     s\<lparr>trace_psw := (trace_psw s AND NOT m) OR (if v then m else 0),
       slot := slot s @ (if PSW_bit m s = v then []
                         else [Slot_2 (Cregs PSW_CR) (NOT m) (if v then m else 0)])\<rparr>"
proof -
  have "(if v then m else 0) AND PSW_MASK = (if v then m else 0)"
    using psw_flag_masks [OF assms] by simp
  moreover have "(cregs s ! 0 AND m \<noteq> (if v then m else 0)) \<longleftrightarrow> PSW_bit m s \<noteq> v"
    using psw_flag_test [OF assms, of "cregs s ! 0" v] by (auto simp: PSW_bit_def PSW_def)
  ultimately show ?thesis
    using psw_flag_masks [OF assms]
    by (simp add: SET_PSW_BIT_def move_to_cr_def move_to_psw_def Let_def SLOT_PEND_MASK_def)
qed

definition cr_val :: "nat \<Rightarrow> uint16 \<Rightarrow> uint16" where
  "cr_val cr val =
     (if cr = PSW_CR \<or> cr = BPSW_CR \<or> cr = DPSW_CR then val AND PSW_MASK
      else if cr = MOD_S_CR \<or> cr = MOD_E_CR then val AND NOT 1 else val)"

lemma SET_CREG_eq [slot_simp]:
  "cr \<noteq> PSW_CR \<Longrightarrow> SET_CREG cr val s =
     s\<lparr>slot := slot s @ (if cregs s ! cr = cr_val cr (ucast val) then []
                         else [Slot_2 (Cregs cr) 0 (cr_val cr (ucast val))])\<rparr>"
  by (simp add: SET_CREG_def move_to_cr_def cr_val_def Let_def SLOT_PEND_MASK_def)

lemma SET_CREG_psw_eq [slot_simp]:
  "SET_CREG PSW_CR val s =
     (let v = ucast val AND PSW_MASK; sm = (v AND PSW_SM_BIT \<noteq> 0) in
      s\<lparr>trace_psw := v,
        exception := (if v AND PSW_ST_BIT \<noteq> 0 \<and> v AND PSW_FX_BIT = 0 then SIGILL
                      else exception s),
        slot := slot s @ [Slot_2 (Sp (of_bool (PSW_SM s))) 0 (regs s ! SP_IDX)]
          @ (if PSW_SM s = sm then [] else [Slot_2 (Regs SP_IDX) 0 (sp s ! of_bool sm)])
          @ (if cregs s ! PSW_CR = v then [] else [Slot_2 (Cregs PSW_CR) 0 v])\<rparr>)"
  by (simp add: SET_CREG_def move_to_cr_def move_to_psw_def Let_def slot_simp GPR_def HELD_SP_def)

lemma INC_ADDR_eq [slot_simp]:
  "INC_ADDR x i s = s\<lparr>slot := slot s @
     [Slot_2 (Regs x) 0 (if PSW_MD s \<and> GPR s x = (MOD_E s AND NOT (i - 1)) then cregs s ! MOD_S_CR
                         else ucast (GPR s x + i))]\<rparr>"
  by (simp add: INC_ADDR_def slot_simp CREG_def)

section \<open>Registers are read in the state before the instruction\<close>

text \<open>
  Registers are only written by \<open>SLOT_FLUSH\<close>: updating any other field keeps every register read.
\<close>

lemma GPR_update [simp]:
  "GPR (s\<lparr>slot := sl\<rparr>) n = GPR s n"
  "GPR (s\<lparr>trace_psw := tp\<rparr>) n = GPR s n"
  "GPR (s\<lparr>exe := ex\<rparr>) n = GPR s n"
  "GPR (s\<lparr>exception := ec\<rparr>) n = GPR s n"
  "GPR (s\<lparr>pc_changed := pcc\<rparr>) n = GPR s n"
  "GPR (s\<lparr>imem := im\<rparr>) n = GPR s n"
  "GPR (s\<lparr>umem := um\<rparr>) n = GPR s n"
  "GPR (s\<lparr>mem := me\<rparr>) n = GPR s n"
  "GPR (s\<lparr>ins_type := it\<rparr>) n = GPR s n"
  "GPR (s\<lparr>ins_type_counters := ic\<rparr>) n = GPR s n"
  "GPR (s\<lparr>OP := ops\<rparr>) n = GPR s n"
  "GPR (s\<lparr>stop_simulator := st\<rparr>) n = GPR s n"
  "GPR (s\<lparr>status := exd\<rparr>) n = GPR s n"
  "GPR (s\<lparr>calloc_ok := cok\<rparr>) n = GPR s n"
  by (simp_all add: GPR_def)

lemma CREG_update [simp]:
  "CREG (s\<lparr>slot := sl\<rparr>) n = CREG s n"
  "CREG (s\<lparr>trace_psw := tp\<rparr>) n = CREG s n"
  "CREG (s\<lparr>exe := ex\<rparr>) n = CREG s n"
  "CREG (s\<lparr>exception := ec\<rparr>) n = CREG s n"
  "CREG (s\<lparr>pc_changed := pcc\<rparr>) n = CREG s n"
  "CREG (s\<lparr>imem := im\<rparr>) n = CREG s n"
  "CREG (s\<lparr>umem := um\<rparr>) n = CREG s n"
  "CREG (s\<lparr>mem := me\<rparr>) n = CREG s n"
  "CREG (s\<lparr>ins_type := it\<rparr>) n = CREG s n"
  "CREG (s\<lparr>ins_type_counters := ic\<rparr>) n = CREG s n"
  "CREG (s\<lparr>OP := ops\<rparr>) n = CREG s n"
  "CREG (s\<lparr>stop_simulator := st\<rparr>) n = CREG s n"
  "CREG (s\<lparr>status := exd\<rparr>) n = CREG s n"
  "CREG (s\<lparr>calloc_ok := cok\<rparr>) n = CREG s n"
  by (simp_all add: CREG_def)

lemma HELD_SP_update [simp]:
  "HELD_SP (s\<lparr>slot := sl\<rparr>) n = HELD_SP s n"
  "HELD_SP (s\<lparr>trace_psw := tp\<rparr>) n = HELD_SP s n"
  "HELD_SP (s\<lparr>exe := ex\<rparr>) n = HELD_SP s n"
  "HELD_SP (s\<lparr>exception := ec\<rparr>) n = HELD_SP s n"
  "HELD_SP (s\<lparr>pc_changed := pcc\<rparr>) n = HELD_SP s n"
  "HELD_SP (s\<lparr>imem := im\<rparr>) n = HELD_SP s n"
  "HELD_SP (s\<lparr>umem := um\<rparr>) n = HELD_SP s n"
  "HELD_SP (s\<lparr>mem := me\<rparr>) n = HELD_SP s n"
  "HELD_SP (s\<lparr>ins_type := it\<rparr>) n = HELD_SP s n"
  "HELD_SP (s\<lparr>ins_type_counters := ic\<rparr>) n = HELD_SP s n"
  "HELD_SP (s\<lparr>OP := ops\<rparr>) n = HELD_SP s n"
  "HELD_SP (s\<lparr>stop_simulator := st\<rparr>) n = HELD_SP s n"
  "HELD_SP (s\<lparr>status := exd\<rparr>) n = HELD_SP s n"
  "HELD_SP (s\<lparr>calloc_ok := cok\<rparr>) n = HELD_SP s n"
  by (simp_all add: HELD_SP_def)

lemma ACC_update [simp]:
  "ACC (s\<lparr>slot := sl\<rparr>) n = ACC s n"
  "ACC (s\<lparr>trace_psw := tp\<rparr>) n = ACC s n"
  "ACC (s\<lparr>exe := ex\<rparr>) n = ACC s n"
  "ACC (s\<lparr>exception := ec\<rparr>) n = ACC s n"
  "ACC (s\<lparr>pc_changed := pcc\<rparr>) n = ACC s n"
  "ACC (s\<lparr>imem := im\<rparr>) n = ACC s n"
  "ACC (s\<lparr>umem := um\<rparr>) n = ACC s n"
  "ACC (s\<lparr>mem := me\<rparr>) n = ACC s n"
  "ACC (s\<lparr>ins_type := it\<rparr>) n = ACC s n"
  "ACC (s\<lparr>ins_type_counters := ic\<rparr>) n = ACC s n"
  "ACC (s\<lparr>OP := ops\<rparr>) n = ACC s n"
  "ACC (s\<lparr>stop_simulator := st\<rparr>) n = ACC s n"
  "ACC (s\<lparr>status := exd\<rparr>) n = ACC s n"
  "ACC (s\<lparr>calloc_ok := cok\<rparr>) n = ACC s n"
  by (simp_all add: ACC_def)

lemma PSW_bit_update [simp]:
  "PSW_bit m (s\<lparr>slot := sl\<rparr>) = PSW_bit m s"
  "PSW_bit m (s\<lparr>trace_psw := tp\<rparr>) = PSW_bit m s"
  "PSW_bit m (s\<lparr>exe := ex\<rparr>) = PSW_bit m s"
  "PSW_bit m (s\<lparr>exception := ec\<rparr>) = PSW_bit m s"
  "PSW_bit m (s\<lparr>pc_changed := pcc\<rparr>) = PSW_bit m s"
  "PSW_bit m (s\<lparr>imem := im\<rparr>) = PSW_bit m s"
  "PSW_bit m (s\<lparr>umem := um\<rparr>) = PSW_bit m s"
  "PSW_bit m (s\<lparr>mem := me\<rparr>) = PSW_bit m s"
  "PSW_bit m (s\<lparr>ins_type := it\<rparr>) = PSW_bit m s"
  "PSW_bit m (s\<lparr>ins_type_counters := ic\<rparr>) = PSW_bit m s"
  "PSW_bit m (s\<lparr>OP := ops\<rparr>) = PSW_bit m s"
  "PSW_bit m (s\<lparr>stop_simulator := st\<rparr>) = PSW_bit m s"
  "PSW_bit m (s\<lparr>status := exd\<rparr>) = PSW_bit m s"
  "PSW_bit m (s\<lparr>calloc_ok := cok\<rparr>) = PSW_bit m s"
  by (simp_all add: PSW_bit_def PSW_def)

lemma PSW_update [simp]:
  "PSW (s\<lparr>slot := sl\<rparr>) = PSW s"
  "PSW (s\<lparr>trace_psw := tp\<rparr>) = PSW s"
  "PSW (s\<lparr>exe := ex\<rparr>) = PSW s"
  "PSW (s\<lparr>exception := ec\<rparr>) = PSW s"
  "PSW (s\<lparr>pc_changed := pcc\<rparr>) = PSW s"
  "PSW (s\<lparr>imem := im\<rparr>) = PSW s"
  "PSW (s\<lparr>umem := um\<rparr>) = PSW s"
  "PSW (s\<lparr>mem := me\<rparr>) = PSW s"
  "PSW (s\<lparr>ins_type := it\<rparr>) = PSW s"
  "PSW (s\<lparr>ins_type_counters := ic\<rparr>) = PSW s"
  "PSW (s\<lparr>OP := ops\<rparr>) = PSW s"
  "PSW (s\<lparr>stop_simulator := st\<rparr>) = PSW s"
  "PSW (s\<lparr>status := exd\<rparr>) = PSW s"
  "PSW (s\<lparr>calloc_ok := cok\<rparr>) = PSW s"
  by (simp_all add: PSW_def)

lemma GPR32_update [simp]:
  "GPR32 (s\<lparr>slot := sl\<rparr>) n = GPR32 s n"
  "GPR32 (s\<lparr>trace_psw := tp\<rparr>) n = GPR32 s n"
  "GPR32 (s\<lparr>exe := ex\<rparr>) n = GPR32 s n"
  "GPR32 (s\<lparr>exception := ec\<rparr>) n = GPR32 s n"
  "GPR32 (s\<lparr>pc_changed := pcc\<rparr>) n = GPR32 s n"
  "GPR32 (s\<lparr>imem := im\<rparr>) n = GPR32 s n"
  "GPR32 (s\<lparr>umem := um\<rparr>) n = GPR32 s n"
  "GPR32 (s\<lparr>mem := me\<rparr>) n = GPR32 s n"
  "GPR32 (s\<lparr>ins_type := it\<rparr>) n = GPR32 s n"
  "GPR32 (s\<lparr>ins_type_counters := ic\<rparr>) n = GPR32 s n"
  "GPR32 (s\<lparr>OP := ops\<rparr>) n = GPR32 s n"
  "GPR32 (s\<lparr>stop_simulator := st\<rparr>) n = GPR32 s n"
  "GPR32 (s\<lparr>status := exd\<rparr>) n = GPR32 s n"
  "GPR32 (s\<lparr>calloc_ok := cok\<rparr>) n = GPR32 s n"
  by (simp_all add: GPR32_def)

section \<open>Well-formed states\<close>

definition wf_sim :: "sim \<Rightarrow> bool" where
  "wf_sim s \<longleftrightarrow> length (regs s) = 16 \<and> length (cregs s) = 16 \<and> length (sp s) = 2
     \<and> length (acc s) = 2 \<and> length (umem s) = 128 \<and> length (OP s) = 4"

text \<open>
  The invariant of the architected registers: reserved \<open>PSW\<close> bits are clear in \<open>PSW\<close>, \<open>BPSW\<close> and
  \<open>DPSW\<close>, the modulo limits are even, an accumulator has 40 bits.
\<close>

fun cr_ok :: "nat \<Rightarrow> uint16 \<Rightarrow> bool" where
  "cr_ok n v \<longleftrightarrow> (n \<in> {PSW_CR, BPSW_CR, DPSW_CR} \<longrightarrow> v AND NOT PSW_MASK = 0)
     \<and> (n \<in> {MOD_S_CR, MOD_E_CR} \<longrightarrow> v AND 1 = 0)"

definition arch_ok :: "sim \<Rightarrow> bool" where
  "arch_ok s \<longleftrightarrow> (\<forall>n < 16. cr_ok n (cregs s ! n)) \<and> (\<forall>n < 2. acc s ! n AND NOT MASK40 = 0)"

fun slot_ok :: "slot \<Rightarrow> bool" where
  "slot_ok (Slot_2 (Regs n) m d) \<longleftrightarrow> n < 16"
| "slot_ok (Slot_2 (Cregs n) m d) \<longleftrightarrow> n < 16 \<and> cr_ok n d"
| "slot_ok (Slot_2 (Sp n) m d) \<longleftrightarrow> n < 2"
| "slot_ok (Slot_8 n m d) \<longleftrightarrow> n < 2 \<and> d AND NOT MASK40 = 0"

lemma cr_ok_combine: "cr_ok n x \<Longrightarrow> cr_ok n y \<Longrightarrow> cr_ok n ((x AND m) OR y)"
  by (simp add: and_zero_combine)

lemma cr_ok_cr_val: "cr_ok n (cr_val n v)"
  by (auto simp: cr_val_def and_zero_iff bit_simps)

declare cr_ok.simps [simp del]

text \<open>A state from which an instruction may be issued: well-formed, and every pending slot is too.\<close>

definition sim_ok :: "sim \<Rightarrow> bool" where
  "sim_ok s \<longleftrightarrow> wf_sim s \<and> arch_ok s \<and> list_all slot_ok (slot s)"

lemma flush_slot_ok:
  assumes "wf_sim s" and "arch_ok s" and "slot_ok x"
  shows "wf_sim (flush_slot x s)" "arch_ok (flush_slot x s)"
  using assms
  by (induction x s rule: flush_slot.induct)
     (auto simp: wf_sim_def arch_ok_def nth_list_update cr_ok_combine and_zero_combine)

lemma fold_flush_ok:
  assumes "wf_sim s" and "arch_ok s" and "list_all slot_ok xs"
  shows "wf_sim (fold flush_slot xs s) \<and> arch_ok (fold flush_slot xs s)"
  using assms by (induction xs arbitrary: s) (auto simp: flush_slot_ok)

lemma SLOT_FLUSH_ok: "sim_ok s \<Longrightarrow> sim_ok (SLOT_FLUSH s)"
  using fold_flush_ok [of s "slot s"] by (auto simp: sim_ok_def SLOT_FLUSH_def wf_sim_def arch_ok_def)

lemma fold_flush_fields [simp]:
  "status (fold flush_slot xs s) = status s" "exception (fold flush_slot xs s) = exception s"
  "pc_changed (fold flush_slot xs s) = pc_changed s" "mem (fold flush_slot xs s) = mem s"
  "umem (fold flush_slot xs s) = umem s" "stop_simulator (fold flush_slot xs s) = stop_simulator s"
  "OP (fold flush_slot xs s) = OP s" "calloc_ok (fold flush_slot xs s) = calloc_ok s"
proof -
  have "status (flush_slot x s) = status s \<and> exception (flush_slot x s) = exception s
      \<and> pc_changed (flush_slot x s) = pc_changed s \<and> mem (flush_slot x s) = mem s
      \<and> umem (flush_slot x s) = umem s \<and> stop_simulator (flush_slot x s) = stop_simulator s
      \<and> OP (flush_slot x s) = OP s \<and> calloc_ok (flush_slot x s) = calloc_ok s" for x s
    by (induction x s rule: flush_slot.induct) simp_all
  then show
    "status (fold flush_slot xs s) = status s" "exception (fold flush_slot xs s) = exception s"
    "pc_changed (fold flush_slot xs s) = pc_changed s" "mem (fold flush_slot xs s) = mem s"
    "umem (fold flush_slot xs s) = umem s" "stop_simulator (fold flush_slot xs s) = stop_simulator s"
    "OP (fold flush_slot xs s) = OP s" "calloc_ok (fold flush_slot xs s) = calloc_ok s"
    by (induction xs arbitrary: s) simp_all
qed

lemma SLOT_FLUSH_fields [simp]:
  "status (SLOT_FLUSH s) = status s" "exception (SLOT_FLUSH s) = exception s"
  "pc_changed (SLOT_FLUSH s) = pc_changed s" "mem (SLOT_FLUSH s) = mem s"
  "umem (SLOT_FLUSH s) = umem s" "stop_simulator (SLOT_FLUSH s) = stop_simulator s"
  "OP (SLOT_FLUSH s) = OP s" "calloc_ok (SLOT_FLUSH s) = calloc_ok s"
  by (simp_all add: SLOT_FLUSH_def)

lemma slot_SLOT_FLUSH [simp]: "slot (SLOT_FLUSH s) = []"
  by (simp add: SLOT_FLUSH_def)

section \<open>The write-back buffer as an interface\<close>

text \<open>
  What the instruction functions rely on: a pending write is invisible until the commit; the
  commit applies the pending writes in order, each keeping the masked bits of its target; after
  the commit nothing is pending.
\<close>

locale writeback =
  fixes rd :: "'s \<Rightarrow> 'l \<Rightarrow> 'v::len word"
    and pend :: "'l \<Rightarrow> 'v word \<Rightarrow> 'v word \<Rightarrow> 's \<Rightarrow> 's"
    and commit :: "'s \<Rightarrow> 's"
    and idle :: "'s \<Rightarrow> bool"
    and valid :: "'s \<Rightarrow> 'l \<Rightarrow> bool"
  assumes rd_pend: "rd (pend l m d s) l' = rd s l'"
    and commit_idle: "idle s \<Longrightarrow> rd (commit s) l = rd s l"
    and idle_commit: "idle (commit s)"
    and commit_pend: "valid s l \<Longrightarrow> rd (commit (pend l m d s)) l' =
          (if l' = l then (rd (commit s) l AND m) OR d else rd (commit s) l')"
    and valid_pend: "valid (pend l m d s) l' = valid s l'"
begin

lemma full_write: "valid s l \<Longrightarrow> rd (commit (pend l 0 d s)) l = d"
  by (simp add: commit_pend)

lemma last_full_write_wins:
  "valid s l \<Longrightarrow> rd (commit (pend l 0 d (pend l m d' s))) l = d"
  by (simp add: full_write valid_pend)

lemma masked_write_keeps:
  "valid s l \<Longrightarrow> idle s \<Longrightarrow> d AND m = 0 \<Longrightarrow> rd (commit (pend l m d s)) l AND m = rd s l AND m"
  by (auto simp: commit_pend commit_idle and_zero_iff bit_eq_iff bit_simps)

lemma disjoint_writes:
  assumes "valid s l" and "idle s" and "l' \<noteq> l" and "valid s l'"
  shows "rd (commit (pend l' 0 d' (pend l 0 d s))) l = d"
    "rd (commit (pend l' 0 d' (pend l 0 d s))) l' = d'"
  using assms by (simp_all add: commit_pend valid_pend)

lemma commit_twice: "rd (commit (commit s)) l = rd (commit s) l"
  by (simp add: commit_idle idle_commit)

end

fun rd16 :: "sim \<Rightarrow> dest2 \<Rightarrow> uint16" where
  "rd16 s (Regs n) = regs s ! n"
| "rd16 s (Cregs n) = cregs s ! n"
| "rd16 s (Sp n) = sp s ! n"

fun valid16 :: "sim \<Rightarrow> dest2 \<Rightarrow> bool" where
  "valid16 s (Regs n) \<longleftrightarrow> n < length (regs s)"
| "valid16 s (Cregs n) \<longleftrightarrow> n < length (cregs s)"
| "valid16 s (Sp n) \<longleftrightarrow> n < length (sp s)"

text \<open>
  \<open>fold flush_slot\<close> reads and writes the register files only, and \<open>slot\<close> not at all.
\<close>

lemma flush_slot_slot_update:
  "flush_slot x (s\<lparr>slot := ys\<rparr>) = (flush_slot x s)\<lparr>slot := ys\<rparr>"
  by (induction x s rule: flush_slot.induct) simp_all

lemma fold_flush_slot_update:
  "fold flush_slot xs (s\<lparr>slot := ys\<rparr>) = (fold flush_slot xs s)\<lparr>slot := ys\<rparr>"
  by (induction xs arbitrary: s) (simp_all add: flush_slot_slot_update)

lemma SLOT_FLUSH_append:
  "SLOT_FLUSH (s\<lparr>slot := slot s @ xs\<rparr>) = fold flush_slot xs (SLOT_FLUSH s)"
  by (simp add: SLOT_FLUSH_def fold_flush_slot_update)

lemma length_flush_slot [simp]:
  "length (regs (flush_slot x s)) = length (regs s)"
  "length (cregs (flush_slot x s)) = length (cregs s)"
  "length (sp (flush_slot x s)) = length (sp s)"
  "length (acc (flush_slot x s)) = length (acc s)"
  by (induction x s rule: flush_slot.induct, simp_all)+

lemma length_fold_flush [simp]:
  "length (regs (fold flush_slot xs s)) = length (regs s)"
  "length (cregs (fold flush_slot xs s)) = length (cregs s)"
  "length (sp (fold flush_slot xs s)) = length (sp s)"
  "length (acc (fold flush_slot xs s)) = length (acc s)"
  by (induction xs arbitrary: s, simp_all)+

lemma length_SLOT_FLUSH [simp]:
  "length (regs (SLOT_FLUSH s)) = length (regs s)"
  "length (cregs (SLOT_FLUSH s)) = length (cregs s)"
  "length (sp (SLOT_FLUSH s)) = length (sp s)"
  "length (acc (SLOT_FLUSH s)) = length (acc s)"
  by (simp_all add: SLOT_FLUSH_def)

lemma rd16_flush_slot:
  "valid16 s l \<Longrightarrow> rd16 (flush_slot (Slot_2 l m d) s) l' =
     (if l' = l then (rd16 s l AND m) OR d else rd16 s l')"
  by (cases l; cases l') auto

lemma valid16_SLOT_FLUSH [simp]: "valid16 (SLOT_FLUSH s) l = valid16 s l"
  by (cases l) simp_all

interpretation wb16: writeback rd16 SLOT_PEND_MASK SLOT_FLUSH "\<lambda>s. slot s = []" valid16
proof
  fix s :: sim and l l' m d
  show "rd16 (SLOT_PEND_MASK l m d s) l' = rd16 s l'"
    by (cases l') (simp_all add: SLOT_PEND_MASK_def)
  show "slot s = [] \<Longrightarrow> rd16 (SLOT_FLUSH s) l = rd16 s l"
    by (cases l) (simp_all add: SLOT_FLUSH_def)
  show "slot (SLOT_FLUSH s) = []" by simp
  show "valid16 s l \<Longrightarrow> rd16 (SLOT_FLUSH (SLOT_PEND_MASK l m d s)) l' =
      (if l' = l then (rd16 (SLOT_FLUSH s) l AND m) OR d else rd16 (SLOT_FLUSH s) l')"
    by (simp only: SLOT_PEND_MASK_def SLOT_FLUSH_append)
       (simp del: flush_slot.simps add: rd16_flush_slot)
  show "valid16 (SLOT_PEND_MASK l m d s) l' = valid16 s l'"
    by (cases l') (simp_all add: SLOT_PEND_MASK_def)
qed

interpretation wb40: writeback "\<lambda>s n. acc s ! n" SLOT_PEND_MASK_8 SLOT_FLUSH "\<lambda>s. slot s = []"
  "\<lambda>s n. n < length (acc s)"
  by unfold_locales
     (simp_all add: SLOT_PEND_MASK_8_def SLOT_FLUSH_append fold_flush_slot_update nth_list_update SLOT_FLUSH_def)

end
