(* ===== verification/D10V_Mem.thy ===== *)
theory D10V_Mem
  imports D10V_Sim
begin

text \<open>
  Simulated memory: the byte-order routines of \<open>src/src/sim/d10v/endian.c\<close> (the portable branch, to
  which the inline assembly of the other branches is equivalent), the address translation and the
  transfer routines of \<open>src/src/sim/d10v/interp.c\<close>, and the access macros of \<open>d10v_sim.h\<close>.

  A host pointer is a value of type \<open>ptr\<close>: the block it points into and the offset. The contents of
  all blocks are one function \<open>mem\<close>; \<open>umem s ! i\<close> says whether segment \<open>i\<close> of the unified memory has
  been allocated. \<open>calloc_ok\<close> is the answer of the host's \<open>calloc\<close>.
\<close>

abbreviation (input) "IMEM_SIZE \<equiv> 18 :: nat"
abbreviation (input) "DMEM_SIZE \<equiv> 16 :: nat"
abbreviation (input) "UMEM_SIZE \<equiv> 17 :: nat"
abbreviation (input) "UMEM_SEGMENTS \<equiv> 128 :: nat"

section \<open>Byte order\<close>

fun ptr_add :: "ptr \<Rightarrow> nat \<Rightarrow> ptr" where
  "ptr_add (Imem n) k = Imem (n + k)"
| "ptr_add (Dmem n) k = Dmem (n + k)"
| "ptr_add (Umem g n) k = Umem g (n + k)"
| "ptr_add (Null n) k = Null (n + k)"

definition get_word :: "(ptr \<Rightarrow> uint8) \<Rightarrow> ptr \<Rightarrow> uint16" where
  "get_word m x = push_bit 8 (ucast (m x)) + ucast (m (ptr_add x 1))"

definition get_longword :: "(ptr \<Rightarrow> uint8) \<Rightarrow> ptr \<Rightarrow> uint32" where
  "get_longword m x = push_bit 24 (ucast (m x)) + push_bit 16 (ucast (m (ptr_add x 1)))
     + push_bit 8 (ucast (m (ptr_add x 2))) + ucast (m (ptr_add x 3))"

definition get_longlong :: "(ptr \<Rightarrow> uint8) \<Rightarrow> ptr \<Rightarrow> int64" where
  "get_longlong m x =
     (let top = get_longword m x; bottom = get_longword m (ptr_add x 4)
      in push_bit 32 (ucast top) OR ucast bottom)"

definition write_word :: "ptr \<Rightarrow> uint16 \<Rightarrow> (ptr \<Rightarrow> uint8) \<Rightarrow> ptr \<Rightarrow> uint8" where
  "write_word addr data m =
     m(addr := ucast (drop_bit 8 data AND 0xff), ptr_add addr 1 := ucast (data AND 0xff))"

definition write_longword :: "ptr \<Rightarrow> uint32 \<Rightarrow> (ptr \<Rightarrow> uint8) \<Rightarrow> ptr \<Rightarrow> uint8" where
  "write_longword addr data m =
     m(addr := ucast (drop_bit 24 data AND 0xff), ptr_add addr 1 := ucast (drop_bit 16 data AND 0xff),
       ptr_add addr 2 := ucast (drop_bit 8 data AND 0xff), ptr_add addr 3 := ucast (data AND 0xff))"

definition write_longlong :: "ptr \<Rightarrow> int64 \<Rightarrow> (ptr \<Rightarrow> uint8) \<Rightarrow> ptr \<Rightarrow> uint8" where
  "write_longlong addr data m =
     write_longword (ptr_add addr 4) (ucast data)
       (write_longword addr (ucast (signed_drop_bit 32 data)) m)"

section \<open>Address translation\<close>

text \<open>
  The map registers live in the on-chip data memory. \<open>dmem_addr\<close> translates their addresses without
  consulting them (see \<open>dmem_addr_map_register\<close>), so they are read directly.
\<close>

definition IMAP0 :: "sim \<Rightarrow> uint16" where
  "IMAP0 s = get_word (mem s) (Dmem 0xff00)"

definition IMAP1 :: "sim \<Rightarrow> uint16" where
  "IMAP1 s = get_word (mem s) (Dmem 0xff02)"

definition DMAP :: "sim \<Rightarrow> uint16" where
  "DMAP s = get_word (mem s) (Dmem 0xff04)"

definition calloc_umem :: "nat \<Rightarrow> sim \<Rightarrow> sim" where
  "calloc_umem seg s =
     s\<lparr>umem := (umem s)[seg := True],
       mem := (\<lambda>p. case p of Umem g n \<Rightarrow> if g = seg then 0 else mem s p | _ \<Rightarrow> mem s p)\<rparr>"

definition dmem_addr :: "uint32 \<Rightarrow> sim \<Rightarrow> ptr \<times> sim" where
  "dmem_addr addr s =
     (let addr = addr AND 0xffff in
      if addr > 0xbfff then
        (Dmem (unat addr), if addr AND 0xfff0 \<noteq> 0xff00 then s\<lparr>exception := SIGBUS\<rparr> else s)
      else if addr > 0x7fff then
        (if DMAP s AND 0x1000 \<noteq> 0 then
           (Imem (unat (DMAP s AND 0xf) * 0x4000 + unat (addr - 0x8000)), s)
         else
           (let seg = unat (drop_bit 3 (DMAP s AND 0x3ff));
                off = unat (DMAP s AND 7) * 0x4000 + unat (addr - 0x8000)
            in if umem s ! seg then (Umem seg off, s)
               else if calloc_ok s then (Umem seg off, calloc_umem seg s)
               else (Null off, s\<lparr>exception := SIGBUS\<rparr>)))
      else (Dmem (unat addr), s))"

text \<open>
  \<open>imem_addr\<close> returns \<open>NULL\<close> (\<open>None\<close>) for a segment that is not allocated. It masks the map register
  with \<open>0xff\<close> although \<open>State.umem\<close> has 128 elements; a read beyond the array is \<open>Inl\<close>.
\<close>

datatype fault = Umem_out_of_bounds nat

definition imem_addr :: "uint32 \<Rightarrow> sim \<Rightarrow> fault + ptr option" where
  "imem_addr pc s =
     (let imap = (if pc AND 0x20000 \<noteq> 0 then IMAP1 s else IMAP0 s);
          seg = unat (imap AND 0xff)
      in if imap AND 0x1000 \<noteq> 0 then Inr (Some (Imem (unat pc)))
         else if UMEM_SEGMENTS \<le> seg then Inl (Umem_out_of_bounds seg)
         else if \<not> umem s ! seg then Inr None
         else Inr (Some (Umem seg (unat (pc AND 0x1ffff)))))"

section \<open>Access macros\<close>

definition RB :: "uint32 \<Rightarrow> sim \<Rightarrow> uint8 \<times> sim" where
  "RB x s = (let (p, s) = dmem_addr x s in (mem s p, s))"

definition SB :: "uint32 \<Rightarrow> int32 \<Rightarrow> sim \<Rightarrow> sim" where
  "SB addr data s = (let (p, s) = dmem_addr addr s in s\<lparr>mem := (mem s)(p := ucast (data AND 0xff))\<rparr>)"

definition RW :: "uint32 \<Rightarrow> sim \<Rightarrow> uint16 \<times> sim" where
  "RW x s = (let (p, s) = dmem_addr x s in (get_word (mem s) p, s))"

definition SW :: "uint32 \<Rightarrow> 'a::len word \<Rightarrow> sim \<Rightarrow> sim" where
  "SW addr data s =
     (let (p, s) = dmem_addr addr s in s\<lparr>mem := write_word p (ucast data) (mem s)\<rparr>)"

definition RLW :: "uint32 \<Rightarrow> sim \<Rightarrow> uint32 \<times> sim" where
  "RLW x s = (let (p, s) = dmem_addr x s in (get_longword (mem s) p, s))"

definition SLW :: "uint32 \<Rightarrow> uint32 \<Rightarrow> sim \<Rightarrow> sim" where
  "SLW addr data s =
     (let (p, s) = dmem_addr addr s in s\<lparr>mem := write_longword p data (mem s)\<rparr>)"

section \<open>Transfers from and to the debugger\<close>

text \<open>
  \<open>sim_size\<close> (re)allocates all memory: the on-chip memories and the segments 0, 1, 2 and 127 of the
  unified memory, all zero. When an allocation fails it exits, modelled as \<open>None\<close>.
\<close>

definition sim_size :: "sim \<Rightarrow> sim option" where
  "sim_size s =
     (if calloc_ok s
      then Some (s\<lparr>imem := True, mem := (\<lambda>_. 0),
                   umem := map (\<lambda>i. i \<in> {0, 1, 2, UMEM_SEGMENTS - 1}) [0 ..< UMEM_SEGMENTS]\<rparr>)
      else None)"

text \<open>
  One byte of a transfer through an address translation: \<open>None\<close> when the pointer is \<open>NULL\<close>,
  otherwise the buffer and the state after the copy.
\<close>

definition xfer_byte :: "ptr option \<Rightarrow> nat \<Rightarrow> bool \<Rightarrow> uint8 list \<Rightarrow> sim \<Rightarrow> (uint8 list \<times> sim) option" where
  "xfer_byte p byte write_p buffer s =
     (case p of
        None \<Rightarrow> None
      | Some p \<Rightarrow>
          if p = Null 0 then None
          else if write_p then Some (buffer, s\<lparr>mem := (mem s)(p := buffer ! byte)\<rparr>)
          else Some (buffer[byte := mem s p], s))"

fun xfer_dmap :: "uint32 \<Rightarrow> nat \<Rightarrow> nat \<Rightarrow> bool \<Rightarrow> uint8 list \<Rightarrow> sim \<Rightarrow> nat \<times> uint8 list \<times> sim" where
  "xfer_dmap addr byte 0 write_p buffer s = (byte, buffer, s)"
| "xfer_dmap addr byte (Suc k) write_p buffer s =
     (let (p, s) = dmem_addr (addr + of_nat byte) s in
      case xfer_byte (Some p) byte write_p buffer s of
        None \<Rightarrow> (byte, buffer, s)
      | Some (buffer, s) \<Rightarrow> xfer_dmap addr (byte + 1) k write_p buffer s)"

fun xfer_imap :: "uint32 \<Rightarrow> nat \<Rightarrow> nat \<Rightarrow> bool \<Rightarrow> uint8 list \<Rightarrow> sim \<Rightarrow> nat \<times> uint8 list \<times> sim" where
  "xfer_imap addr byte 0 write_p buffer s = (byte, buffer, s)"
| "xfer_imap addr byte (Suc k) write_p buffer s =
     (case imem_addr (addr + of_nat byte) s of
        Inl _ \<Rightarrow> (byte, buffer, s\<lparr>status := Crashed\<rparr>)
      | Inr p \<Rightarrow>
          (case xfer_byte p byte write_p buffer s of
             None \<Rightarrow> (byte, buffer, s)
           | Some (buffer, s) \<Rightarrow> xfer_imap addr (byte + 1) k write_p buffer s))"

text \<open>The two \<open>memcpy\<close> calls at the end of \<open>xfer_mem\<close>: \<open>size\<close> bytes between a block and the buffer.\<close>

fun copy_in :: "ptr \<Rightarrow> uint8 list \<Rightarrow> (ptr \<Rightarrow> uint8) \<Rightarrow> ptr \<Rightarrow> uint8" where
  "copy_in p [] m = m"
| "copy_in p (b # bs) m = copy_in (ptr_add p 1) bs (m(p := b))"

definition copy_out :: "ptr \<Rightarrow> nat \<Rightarrow> (ptr \<Rightarrow> uint8) \<Rightarrow> uint8 list" where
  "copy_out p n m = map (\<lambda>i. m (ptr_add p i)) [0 ..< n]"

definition xfer_memcpy :: "ptr \<Rightarrow> nat \<Rightarrow> bool \<Rightarrow> uint8 list \<Rightarrow> sim \<Rightarrow> nat \<times> uint8 list \<times> sim" where
  "xfer_memcpy memory sz write_p buffer s =
     (if write_p then (sz, buffer, s\<lparr>mem := copy_in memory (take sz buffer) (mem s)\<rparr>)
      else (sz, copy_out memory sz (mem s) @ drop sz buffer, s))"

text \<open>The unified-memory case (\<open>0x12\<close>), into which the case for instruction memory (\<open>0x11\<close>) falls.\<close>

definition xfer_umem :: "uint32 \<Rightarrow> nat \<Rightarrow> bool \<Rightarrow> uint8 list \<Rightarrow> sim \<Rightarrow> nat \<times> uint8 list \<times> sim" where
  "xfer_umem addr sz write_p buffer s =
     (let startsegment = unat (drop_bit UMEM_SIZE addr);
          startoffset = unat (addr AND 0x1ffff);
          endsegment = unat (drop_bit UMEM_SIZE (addr + of_nat sz));
          endoffset = unat ((addr + of_nat sz) AND 0x1ffff)
      in if startsegment \<noteq> endsegment \<and> \<not> (endsegment = startsegment + 1 \<and> endoffset = 0)
         then (0, buffer, s)
         else
           (let s = (if \<not> umem s ! startsegment \<and> calloc_ok s then calloc_umem startsegment s else s)
            in if \<not> umem s ! startsegment then (0, buffer, s)
               else xfer_memcpy (Umem startsegment startoffset) sz write_p buffer s))"

definition xfer_mem :: "uint32 \<Rightarrow> uint8 list \<Rightarrow> nat \<Rightarrow> bool \<Rightarrow> sim \<Rightarrow> nat \<times> uint8 list \<times> sim" where
  "xfer_mem addr buffer sz write_p s =
     (let segment = drop_bit 24 addr AND 0xff;
          addr = addr AND 0x00ffffff
      in if segment = 0x00 then xfer_dmap addr 0 sz write_p buffer s
         else if segment = 0x01 then xfer_imap addr 0 sz write_p buffer s
         else if segment = 0x10 then
           (let addr = addr AND 0xffff
            in if addr + of_nat sz > 0x10000 then (0, buffer, s)
               else xfer_memcpy (Dmem (unat addr)) sz write_p buffer s)
         else if segment = 0x11 then
           (let addr = addr AND 0x3ffff
            in if addr + of_nat sz > 0x40000 then (0, buffer, s)
               else xfer_umem addr sz write_p buffer s)
         else if segment = 0x12 then xfer_umem addr sz write_p buffer s
         else (0, buffer, s))"

definition sim_write :: "uint32 \<Rightarrow> uint8 list \<Rightarrow> nat \<Rightarrow> sim \<Rightarrow> nat \<times> uint8 list \<times> sim" where
  "sim_write addr buffer sz s = xfer_mem addr buffer sz True s"

definition sim_read :: "uint32 \<Rightarrow> uint8 list \<Rightarrow> nat \<Rightarrow> sim \<Rightarrow> nat \<times> uint8 list \<times> sim" where
  "sim_read addr buffer sz s = xfer_mem addr buffer sz False s"

section \<open>What memory accesses leave alone\<close>

text \<open>
  An access through \<open>dmem_addr\<close> may raise an exception, allocate a segment and (for a store) change
  memory; nothing else.
\<close>

lemma dmem_addr_frame [simp]:
  "regs (snd (dmem_addr a s)) = regs s"
  "cregs (snd (dmem_addr a s)) = cregs s"
  "sp (snd (dmem_addr a s)) = sp s"
  "acc (snd (dmem_addr a s)) = acc s"
  "slot (snd (dmem_addr a s)) = slot s"
  "trace_psw (snd (dmem_addr a s)) = trace_psw s"
  "exe (snd (dmem_addr a s)) = exe s"
  "pc_changed (snd (dmem_addr a s)) = pc_changed s"
  "imem (snd (dmem_addr a s)) = imem s"
  "calloc_ok (snd (dmem_addr a s)) = calloc_ok s"
  "ins_type (snd (dmem_addr a s)) = ins_type s"
  "ins_type_counters (snd (dmem_addr a s)) = ins_type_counters s"
  "OP (snd (dmem_addr a s)) = OP s"
  "stop_simulator (snd (dmem_addr a s)) = stop_simulator s"
  "status (snd (dmem_addr a s)) = status s"
  "length (umem (snd (dmem_addr a s))) = length (umem s)"
  by (simp_all add: dmem_addr_def calloc_umem_def Let_def)

lemma RB_frame [simp]:
  "regs (snd (RB a s)) = regs s"
  "cregs (snd (RB a s)) = cregs s"
  "sp (snd (RB a s)) = sp s"
  "acc (snd (RB a s)) = acc s"
  "slot (snd (RB a s)) = slot s"
  "trace_psw (snd (RB a s)) = trace_psw s"
  "exe (snd (RB a s)) = exe s"
  "pc_changed (snd (RB a s)) = pc_changed s"
  "imem (snd (RB a s)) = imem s"
  "calloc_ok (snd (RB a s)) = calloc_ok s"
  "ins_type (snd (RB a s)) = ins_type s"
  "ins_type_counters (snd (RB a s)) = ins_type_counters s"
  "OP (snd (RB a s)) = OP s"
  "stop_simulator (snd (RB a s)) = stop_simulator s"
  "status (snd (RB a s)) = status s"
  "length (umem (snd (RB a s))) = length (umem s)"
  by (simp_all add: RB_def case_prod_beta)

lemma RW_frame [simp]:
  "regs (snd (RW a s)) = regs s"
  "cregs (snd (RW a s)) = cregs s"
  "sp (snd (RW a s)) = sp s"
  "acc (snd (RW a s)) = acc s"
  "slot (snd (RW a s)) = slot s"
  "trace_psw (snd (RW a s)) = trace_psw s"
  "exe (snd (RW a s)) = exe s"
  "pc_changed (snd (RW a s)) = pc_changed s"
  "imem (snd (RW a s)) = imem s"
  "calloc_ok (snd (RW a s)) = calloc_ok s"
  "ins_type (snd (RW a s)) = ins_type s"
  "ins_type_counters (snd (RW a s)) = ins_type_counters s"
  "OP (snd (RW a s)) = OP s"
  "stop_simulator (snd (RW a s)) = stop_simulator s"
  "status (snd (RW a s)) = status s"
  "length (umem (snd (RW a s))) = length (umem s)"
  by (simp_all add: RW_def case_prod_beta)

lemma RLW_frame [simp]:
  "regs (snd (RLW a s)) = regs s"
  "cregs (snd (RLW a s)) = cregs s"
  "sp (snd (RLW a s)) = sp s"
  "acc (snd (RLW a s)) = acc s"
  "slot (snd (RLW a s)) = slot s"
  "trace_psw (snd (RLW a s)) = trace_psw s"
  "exe (snd (RLW a s)) = exe s"
  "pc_changed (snd (RLW a s)) = pc_changed s"
  "imem (snd (RLW a s)) = imem s"
  "calloc_ok (snd (RLW a s)) = calloc_ok s"
  "ins_type (snd (RLW a s)) = ins_type s"
  "ins_type_counters (snd (RLW a s)) = ins_type_counters s"
  "OP (snd (RLW a s)) = OP s"
  "stop_simulator (snd (RLW a s)) = stop_simulator s"
  "status (snd (RLW a s)) = status s"
  "length (umem (snd (RLW a s))) = length (umem s)"
  by (simp_all add: RLW_def case_prod_beta)

lemma SB_frame [simp]:
  "regs (SB a d s) = regs s"
  "cregs (SB a d s) = cregs s"
  "sp (SB a d s) = sp s"
  "acc (SB a d s) = acc s"
  "slot (SB a d s) = slot s"
  "trace_psw (SB a d s) = trace_psw s"
  "exe (SB a d s) = exe s"
  "pc_changed (SB a d s) = pc_changed s"
  "imem (SB a d s) = imem s"
  "calloc_ok (SB a d s) = calloc_ok s"
  "ins_type (SB a d s) = ins_type s"
  "ins_type_counters (SB a d s) = ins_type_counters s"
  "OP (SB a d s) = OP s"
  "stop_simulator (SB a d s) = stop_simulator s"
  "status (SB a d s) = status s"
  "length (umem (SB a d s)) = length (umem s)"
  by (simp_all add: SB_def case_prod_beta)

lemma SW_frame [simp]:
  "regs (SW a d s) = regs s"
  "cregs (SW a d s) = cregs s"
  "sp (SW a d s) = sp s"
  "acc (SW a d s) = acc s"
  "slot (SW a d s) = slot s"
  "trace_psw (SW a d s) = trace_psw s"
  "exe (SW a d s) = exe s"
  "pc_changed (SW a d s) = pc_changed s"
  "imem (SW a d s) = imem s"
  "calloc_ok (SW a d s) = calloc_ok s"
  "ins_type (SW a d s) = ins_type s"
  "ins_type_counters (SW a d s) = ins_type_counters s"
  "OP (SW a d s) = OP s"
  "stop_simulator (SW a d s) = stop_simulator s"
  "status (SW a d s) = status s"
  "length (umem (SW a d s)) = length (umem s)"
  by (simp_all add: SW_def case_prod_beta)

lemma SLW_frame [simp]:
  "regs (SLW a d s) = regs s"
  "cregs (SLW a d s) = cregs s"
  "sp (SLW a d s) = sp s"
  "acc (SLW a d s) = acc s"
  "slot (SLW a d s) = slot s"
  "trace_psw (SLW a d s) = trace_psw s"
  "exe (SLW a d s) = exe s"
  "pc_changed (SLW a d s) = pc_changed s"
  "imem (SLW a d s) = imem s"
  "calloc_ok (SLW a d s) = calloc_ok s"
  "ins_type (SLW a d s) = ins_type s"
  "ins_type_counters (SLW a d s) = ins_type_counters s"
  "OP (SLW a d s) = OP s"
  "stop_simulator (SLW a d s) = stop_simulator s"
  "status (SLW a d s) = status s"
  "length (umem (SLW a d s)) = length (umem s)"
  by (simp_all add: SLW_def case_prod_beta)

end
