(* ===== verification/Simops_Alu.thy ===== *)
theory Simops_Alu
  imports D10V_Mem
begin

text \<open>
  The instruction functions of \<open>src/src/sim/d10v/simops.c\<close> on 16-bit registers and register pairs:
  arithmetic, logic, shifts, bit operations, comparisons, moves and the flag instructions. Each
  definition has the name of the C function. Tracing output is not modelled; the simulator runs
  with \<open>d10v_debug = 0\<close>.
\<close>

section \<open>Arithmetic\<close>

definition OP_4607 :: "sim \<Rightarrow> sim" where \<comment> \<open>abs\<close>
  [op_def]: "OP_4607 s =
     (let s = SET_PSW_F1 (PSW_F0 s) s;
          tmp = (ucast (GPR s (opn s 0)) :: int16);
          (tmp, s) = (if tmp <s 0 then (- tmp, SET_PSW_F0 True s) else (tmp, SET_PSW_F0 False s))
      in SET_GPR (opn s 0) tmp s)"

definition OP_200 :: "sim \<Rightarrow> sim" where \<comment> \<open>add\<close>
  [op_def]: "OP_200 s =
     (let a = (ucast (GPR s (opn s 0)) :: uint16);
          b = (ucast (GPR s (opn s 1)) :: uint16);
          tmp = a + b;
          s = SET_PSW_C (a > tmp) s
      in SET_GPR (opn s 0) tmp s)"

definition OP_1200 :: "sim \<Rightarrow> sim" where \<comment> \<open>add2w\<close>
  [op_def]: "OP_1200 s =
     (let a = push_bit 16 (GPR s (opn s 0)) OR GPR s (opn s 0 + 1);
          b = push_bit 16 (GPR s (opn s 1)) OR GPR s (opn s 1 + 1);
          tmp = a + b;
          s = SET_PSW_C (tmp < a) s;
          s = SET_GPR (opn s 0 + 0) (drop_bit 16 tmp) s
      in SET_GPR (opn s 0 + 1) (tmp AND 0xFFFF) s)"

definition OP_1000000 :: "sim \<Rightarrow> sim" where \<comment> \<open>add3\<close>
  [op_def]: "OP_1000000 s =
     (let a = (ucast (GPR s (opn s 1)) :: uint16);
          b = OP s ! 2;
          tmp = a + b;
          s = SET_PSW_C (tmp < a) s
      in SET_GPR (opn s 0) tmp s)"

definition OP_201 :: "sim \<Rightarrow> sim" where \<comment> \<open>addi\<close>
  [op_def]: "OP_201 s =
     (let a = (ucast (GPR s (opn s 0)) :: uint16);
          s = (if OP s ! 1 = 0 then s\<lparr>OP := (OP s)[1 := 16]\<rparr> else s);
          b = OP s ! 1;
          tmp = a + b;
          s = SET_PSW_C (tmp < a) s
      in SET_GPR (opn s 0) tmp s)"

definition OP_14002800 :: "sim \<Rightarrow> sim" where \<comment> \<open>divs\<close>
  [op_def]: "OP_14002800 s =
     (let foo = (ucast (push_bit 1 (GPR s (opn s 0)) OR drop_bit 15 (GPR s (opn s 0 + 1))) :: uint16);
          tmp = (ucast ((scast foo :: int32) - scast (ucast (GPR s (opn s 1)) :: int16)) :: uint16);
          tmpf = (if GPR s (opn s 1) <=s ucast foo then 1 else 0 :: uint16);
          hi = (if tmpf = 1 then tmp else foo);
          lo = (ucast (push_bit 1 (GPR s (opn s 0 + 1)) OR ucast tmpf) :: uint16);
          s = SET_GPR (opn s 0 + 0) hi s
      in SET_GPR (opn s 0 + 1) lo s)"

definition OP_2E00 :: "sim \<Rightarrow> sim" where \<comment> \<open>mul\<close>
  [op_def]: "OP_2E00 s =
     (let tmp = (ucast (GPR s (opn s 0) * GPR s (opn s 1)) :: int16)
      in SET_GPR (opn s 0) tmp s)"

definition OP_4605 :: "sim \<Rightarrow> sim" where \<comment> \<open>neg\<close>
  [op_def]: "OP_4605 s =
     (let tmp = (ucast (- GPR s (opn s 0)) :: int16)
      in SET_GPR (opn s 0) tmp s)"

definition OP_0 :: "sim \<Rightarrow> sim" where \<comment> \<open>sub\<close>
  [op_def]: "OP_0 s =
     (let a = (ucast (GPR s (opn s 0)) :: uint16);
          b = (ucast (GPR s (opn s 1)) :: uint16);
          tmp = a - b;
          s = SET_PSW_C (a \<ge> b) s
      in SET_GPR (opn s 0) tmp s)"

definition OP_1000 :: "sim \<Rightarrow> sim" where \<comment> \<open>sub2w\<close>
  [op_def]: "OP_1000 s =
     (let a = push_bit 16 (GPR s (opn s 0)) OR GPR s (opn s 0 + 1);
          b = push_bit 16 (GPR s (opn s 1)) OR GPR s (opn s 1 + 1);
          tmp = a - b;
          s = SET_PSW_C (a \<ge> b) s
      in SET_GPR32 tmp s)"

definition OP_1 :: "sim \<Rightarrow> sim" where \<comment> \<open>subi\<close>
  [op_def]: "OP_1 s =
     (let s = (if OP s ! 1 = 0 then s\<lparr>OP := (OP s)[1 := 16]\<rparr> else s);
          tmp = (ucast (ucast (GPR s (opn s 0)) :: uint16) :: uint32)
                + ucast (ucast (- opv s 1) :: uint16);
          s = SET_PSW_C (tmp \<ge> push_bit 16 1) s
      in SET_GPR (opn s 0) tmp s)"

definition OP_2600 :: "sim \<Rightarrow> sim" where \<comment> \<open>max\<close>
  [op_def]: "OP_2600 s =
     (let s = SET_PSW_F1 (PSW_F0 s) s;
          (tmp, s) = (if (ucast (GPR s (opn s 0)) :: int16) <s ucast (GPR s (opn s 1))
                      then (ucast (GPR s (opn s 1)) :: int16, SET_PSW_F0 True s)
                      else (ucast (GPR s (opn s 0)), SET_PSW_F0 False s))
      in SET_GPR (opn s 0) tmp s)"

definition OP_2601 :: "sim \<Rightarrow> sim" where \<comment> \<open>min\<close>
  [op_def]: "OP_2601 s =
     (let s = SET_PSW_F1 (PSW_F0 s) s;
          (tmp, s) = (if (ucast (GPR s (opn s 1)) :: int16) <s ucast (GPR s (opn s 0))
                      then (ucast (GPR s (opn s 1)) :: int16, SET_PSW_F0 True s)
                      else (ucast (GPR s (opn s 0)), SET_PSW_F0 False s))
      in SET_GPR (opn s 0) tmp s)"

section \<open>Logic and bits\<close>

definition OP_C00 :: "sim \<Rightarrow> sim" where \<comment> \<open>and\<close>
  [op_def]: "OP_C00 s =
     (let tmp = (ucast (GPR s (opn s 0) AND GPR s (opn s 1)) :: uint16) in SET_GPR (opn s 0) tmp s)"

definition OP_6000000 :: "sim \<Rightarrow> sim" where \<comment> \<open>and3\<close>
  [op_def]: "OP_6000000 s =
     (let tmp = (ucast (GPR s (opn s 1) AND opv s 2) :: uint16) in SET_GPR (opn s 0) tmp s)"

definition OP_C01 :: "sim \<Rightarrow> sim" where \<comment> \<open>bclri\<close>
  [op_def]: "OP_C01 s =
     (let tmp = (ucast (GPR s (opn s 0) AND NOT (drop_bit (opn s 1) 0x8000)) :: int16)
      in SET_GPR (opn s 0) tmp s)"

definition OP_A01 :: "sim \<Rightarrow> sim" where \<comment> \<open>bnoti\<close>
  [op_def]: "OP_A01 s =
     (let tmp = (ucast (GPR s (opn s 0) XOR (drop_bit (opn s 1) 0x8000)) :: int16)
      in SET_GPR (opn s 0) tmp s)"

definition OP_801 :: "sim \<Rightarrow> sim" where \<comment> \<open>bseti\<close>
  [op_def]: "OP_801 s =
     (let tmp = (ucast (GPR s (opn s 0) OR (drop_bit (opn s 1) 0x8000)) :: int16)
      in SET_GPR (opn s 0) tmp s)"

definition OP_E01 :: "sim \<Rightarrow> sim" where \<comment> \<open>btsti\<close>
  [op_def]: "OP_E01 s =
     (let s = SET_PSW_F1 (PSW_F0 s) s
      in SET_PSW_F0 (GPR s (opn s 0) AND (drop_bit (opn s 1) 0x8000) \<noteq> 0) s)"

definition OP_4603 :: "sim \<Rightarrow> sim" where \<comment> \<open>not\<close>
  [op_def]: "OP_4603 s =
     (let tmp = (ucast (NOT (GPR s (opn s 0))) :: int16) in SET_GPR (opn s 0) tmp s)"

definition OP_800 :: "sim \<Rightarrow> sim" where \<comment> \<open>or\<close>
  [op_def]: "OP_800 s =
     (let tmp = (ucast (GPR s (opn s 0) OR GPR s (opn s 1)) :: int16) in SET_GPR (opn s 0) tmp s)"

definition OP_4000000 :: "sim \<Rightarrow> sim" where \<comment> \<open>or3\<close>
  [op_def]: "OP_4000000 s =
     (let tmp = (ucast (GPR s (opn s 1) OR opv s 2) :: int16) in SET_GPR (opn s 0) tmp s)"

definition OP_A00 :: "sim \<Rightarrow> sim" where \<comment> \<open>xor\<close>
  [op_def]: "OP_A00 s =
     (let tmp = (ucast (GPR s (opn s 0) XOR GPR s (opn s 1)) :: int16) in SET_GPR (opn s 0) tmp s)"

definition OP_5000000 :: "sim \<Rightarrow> sim" where \<comment> \<open>xor3\<close>
  [op_def]: "OP_5000000 s =
     (let tmp = (ucast (GPR s (opn s 1) XOR opv s 2) :: int16) in SET_GPR (opn s 0) tmp s)"

definition OP_7000000 :: "sim \<Rightarrow> sim" where \<comment> \<open>tst0i\<close>
  [op_def]: "OP_7000000 s =
     (let s = SET_PSW_F1 (PSW_F0 s) s in SET_PSW_F0 (GPR s (opn s 0) AND opv s 1 \<noteq> 0) s)"

definition OP_F000000 :: "sim \<Rightarrow> sim" where \<comment> \<open>tst1i\<close>
  [op_def]: "OP_F000000 s =
     (let s = SET_PSW_F1 (PSW_F0 s) s in SET_PSW_F0 (NOT (GPR s (opn s 0)) AND opv s 1 \<noteq> 0) s)"

section \<open>Shifts\<close>

definition OP_2200 :: "sim \<Rightarrow> sim" where \<comment> \<open>sll\<close>
  [op_def]: "OP_2200 s =
     (let tmp = (ucast (push_bit (unat (GPR s (opn s 1) AND 0xf)) (GPR s (opn s 0))) :: int16)
      in SET_GPR (opn s 0) tmp s)"

definition OP_2201 :: "sim \<Rightarrow> sim" where \<comment> \<open>slli\<close>
  [op_def]: "OP_2201 s =
     (let tmp = (ucast (push_bit (opn s 1) (GPR s (opn s 0))) :: int16)
      in SET_GPR (opn s 0) tmp s)"

definition OP_460B :: "sim \<Rightarrow> sim" where \<comment> \<open>slx\<close>
  [op_def]: "OP_460B s =
     (let tmp = (ucast (push_bit 1 (GPR s (opn s 0)) OR of_bool (PSW_F0 s)) :: int16)
      in SET_GPR (opn s 0) tmp s)"

definition OP_2400 :: "sim \<Rightarrow> sim" where \<comment> \<open>sra\<close>
  [op_def]: "OP_2400 s =
     (let tmp = (ucast (signed_drop_bit (unat (GPR s (opn s 1) AND 0xf))
                   (scast (ucast (GPR s (opn s 0)) :: int16) :: int32)) :: int16)
      in SET_GPR (opn s 0) tmp s)"

definition OP_2401 :: "sim \<Rightarrow> sim" where \<comment> \<open>srai\<close>
  [op_def]: "OP_2401 s =
     (let tmp = (ucast (signed_drop_bit (opn s 1)
                   (scast (ucast (GPR s (opn s 0)) :: int16) :: int32)) :: int16)
      in SET_GPR (opn s 0) tmp s)"

definition OP_2000 :: "sim \<Rightarrow> sim" where \<comment> \<open>srl\<close>
  [op_def]: "OP_2000 s =
     (let tmp = (ucast (signed_drop_bit (unat (GPR s (opn s 1) AND 0xf)) (GPR s (opn s 0))) :: int16)
      in SET_GPR (opn s 0) tmp s)"

definition OP_2001 :: "sim \<Rightarrow> sim" where \<comment> \<open>srli\<close>
  [op_def]: "OP_2001 s =
     (let tmp = (ucast (signed_drop_bit (opn s 1) (GPR s (opn s 0))) :: int16)
      in SET_GPR (opn s 0) tmp s)"

definition OP_4609 :: "sim \<Rightarrow> sim" where \<comment> \<open>srx\<close>
  [op_def]: "OP_4609 s =
     (let tmp = (push_bit 15 (of_bool (PSW_F0 s)) :: uint16);
          tmp = (ucast (signed_drop_bit 1 (GPR s (opn s 0)) OR ucast tmp) :: uint16)
      in SET_GPR (opn s 0) tmp s)"

section \<open>Comparisons\<close>

definition OP_600 :: "sim \<Rightarrow> sim" where \<comment> \<open>cmp\<close>
  [op_def]: "OP_600 s =
     (let s = SET_PSW_F1 (PSW_F0 s) s
      in SET_PSW_F0 ((ucast (GPR s (opn s 0)) :: int16) <s ucast (GPR s (opn s 1))) s)"

definition OP_400 :: "sim \<Rightarrow> sim" where \<comment> \<open>cmpeq\<close>
  [op_def]: "OP_400 s =
     (let s = SET_PSW_F1 (PSW_F0 s) s in SET_PSW_F0 (GPR s (opn s 0) = GPR s (opn s 1)) s)"

definition OP_401 :: "sim \<Rightarrow> sim" where \<comment> \<open>cmpeqi.s\<close>
  [op_def]: "OP_401 s =
     (let s = SET_PSW_F1 (PSW_F0 s) s
      in SET_PSW_F0 (GPR s (opn s 0) = ucast (ucast (SEXT4 (opv s 1)) :: uint16)) s)"

definition OP_2000000 :: "sim \<Rightarrow> sim" where \<comment> \<open>cmpeqi.l\<close>
  [op_def]: "OP_2000000 s =
     (let s = SET_PSW_F1 (PSW_F0 s) s in SET_PSW_F0 (GPR s (opn s 0) = opv s 1) s)"

definition OP_601 :: "sim \<Rightarrow> sim" where \<comment> \<open>cmpi.s\<close>
  [op_def]: "OP_601 s =
     (let s = SET_PSW_F1 (PSW_F0 s) s
      in SET_PSW_F0 ((ucast (GPR s (opn s 0)) :: int16) <s ucast (SEXT4 (opv s 1))) s)"

definition OP_3000000 :: "sim \<Rightarrow> sim" where \<comment> \<open>cmpi.l\<close>
  [op_def]: "OP_3000000 s =
     (let s = SET_PSW_F1 (PSW_F0 s) s
      in SET_PSW_F0 ((ucast (GPR s (opn s 0)) :: int16) <s OP s ! 1) s)"

definition OP_4600 :: "sim \<Rightarrow> sim" where \<comment> \<open>cmpu\<close>
  [op_def]: "OP_4600 s =
     (let s = SET_PSW_F1 (PSW_F0 s) s in SET_PSW_F0 (GPR s (opn s 0) <s GPR s (opn s 1)) s)"

definition OP_23000000 :: "sim \<Rightarrow> sim" where \<comment> \<open>cmpui\<close>
  [op_def]: "OP_23000000 s =
     (let s = SET_PSW_F1 (PSW_F0 s) s in SET_PSW_F0 (GPR s (opn s 0) <s opv s 1) s)"

section \<open>Moves and flags\<close>

definition OP_4001 :: "sim \<Rightarrow> sim" where \<comment> \<open>ldi.s\<close>
  [op_def]: "OP_4001 s =
     (let tmp = (ucast (SEXT4 (opv s 1)) :: int16) in SET_GPR (opn s 0) tmp s)"

definition OP_20000000 :: "sim \<Rightarrow> sim" where \<comment> \<open>ldi.l\<close>
  [op_def]: "OP_20000000 s = (let tmp = OP s ! 1 in SET_GPR (opn s 0) tmp s)"

definition OP_4000 :: "sim \<Rightarrow> sim" where \<comment> \<open>mv\<close>
  [op_def]: "OP_4000 s =
     (let tmp = (ucast (GPR s (opn s 1)) :: int16) in SET_GPR (opn s 0) tmp s)"

definition OP_5000 :: "sim \<Rightarrow> sim" where \<comment> \<open>mv2w\<close>
  [op_def]: "OP_5000 s = (let tmp = GPR32 s (opn s 1) in SET_GPR32 tmp s)"

definition OP_5400 :: "sim \<Rightarrow> sim" where \<comment> \<open>mvb\<close>
  [op_def]: "OP_5400 s =
     (let tmp = (ucast (SEXT8 (GPR s (opn s 1) AND 0xff)) :: int16) in SET_GPR (opn s 0) tmp s)"

definition OP_4400 :: "sim \<Rightarrow> sim" where \<comment> \<open>mvf0f\<close>
  [op_def]: "OP_4400 s =
     (if \<not> PSW_F0 s then (let tmp = (ucast (GPR s (opn s 1)) :: int16) in SET_GPR (opn s 0) tmp s)
      else s)"

definition OP_4401 :: "sim \<Rightarrow> sim" where \<comment> \<open>mvf0t\<close>
  [op_def]: "OP_4401 s =
     (if PSW_F0 s then (let tmp = (ucast (GPR s (opn s 1)) :: int16) in SET_GPR (opn s 0) tmp s)
      else s)"

definition OP_5401 :: "sim \<Rightarrow> sim" where \<comment> \<open>mvub\<close>
  [op_def]: "OP_5401 s =
     (let tmp = (ucast (GPR s (opn s 1) AND 0xff) :: int16) in SET_GPR (opn s 0) tmp s)"

definition OP_4E09 :: "sim \<Rightarrow> sim" where \<comment> \<open>cpfg\<close>
  [op_def]: "OP_4E09 s =
     (let val = (if opn s 1 = 0 then PSW_F0 s else if opn s 1 = 1 then PSW_F1 s else PSW_C s)
      in if opn s 0 = 0 then SET_PSW_F0 val s else SET_PSW_F1 val s)"

definition OP_4611 :: "sim \<Rightarrow> sim" where \<comment> \<open>setf0f\<close>
  [op_def]: "OP_4611 s =
     (let tmp = (if \<not> PSW_F0 s then 1 else 0 :: int16) in SET_GPR (opn s 0) tmp s)"

definition OP_4613 :: "sim \<Rightarrow> sim" where \<comment> \<open>setf0t\<close>
  [op_def]: "OP_4613 s =
     (let tmp = (if PSW_F0 s then 1 else 0 :: int16) in SET_GPR (opn s 0) tmp s)"

definition OP_4E04 :: "sim \<Rightarrow> sim" where \<comment> \<open>exef0f\<close>
  [op_def]: "OP_4E04 s = s\<lparr>exe := \<not> PSW_F0 s\<rparr>"

definition OP_4E24 :: "sim \<Rightarrow> sim" where \<comment> \<open>exef0t\<close>
  [op_def]: "OP_4E24 s = s\<lparr>exe := PSW_F0 s\<rparr>"

definition OP_4E40 :: "sim \<Rightarrow> sim" where \<comment> \<open>exef1f\<close>
  [op_def]: "OP_4E40 s = s\<lparr>exe := \<not> PSW_F1 s\<rparr>"

definition OP_4E42 :: "sim \<Rightarrow> sim" where \<comment> \<open>exef1t\<close>
  [op_def]: "OP_4E42 s = s\<lparr>exe := PSW_F1 s\<rparr>"

definition OP_4E00 :: "sim \<Rightarrow> sim" where \<comment> \<open>exefaf\<close>
  [op_def]: "OP_4E00 s = s\<lparr>exe := \<not> PSW_F0 s \<and> \<not> PSW_F1 s\<rparr>"

definition OP_4E02 :: "sim \<Rightarrow> sim" where \<comment> \<open>exefat\<close>
  [op_def]: "OP_4E02 s = s\<lparr>exe := \<not> PSW_F0 s \<and> PSW_F1 s\<rparr>"

definition OP_4E20 :: "sim \<Rightarrow> sim" where \<comment> \<open>exetaf\<close>
  [op_def]: "OP_4E20 s = s\<lparr>exe := PSW_F0 s \<and> \<not> PSW_F1 s\<rparr>"

definition OP_4E22 :: "sim \<Rightarrow> sim" where \<comment> \<open>exetat\<close>
  [op_def]: "OP_4E22 s = s\<lparr>exe := PSW_F0 s \<and> PSW_F1 s\<rparr>"

definition count_dec :: "ins_type \<Rightarrow> sim \<Rightarrow> sim" where
  [op_def]: "count_dec t s = s\<lparr>ins_type_counters := (ins_type_counters s)(t := ins_type_counters s t - 1)\<rparr>"

definition count_inc :: "ins_type \<Rightarrow> sim \<Rightarrow> sim" where
  [op_def]: "count_inc t s = s\<lparr>ins_type_counters := (ins_type_counters s)(t := ins_type_counters s t + 1)\<rparr>"

definition OP_5E00 :: "sim \<Rightarrow> sim" where \<comment> \<open>nop\<close>
  [op_def]: "OP_5E00 s =
     (let s = count_dec (ins_type s) s in
      case ins_type s of
        INS_LEFT_PARALLEL \<Rightarrow>
          count_inc INS_LEFT_NOPS (count_inc INS_RIGHT (count_dec INS_RIGHT_PARALLEL s))
      | INS_LEFT \<Rightarrow> count_inc INS_LEFT_NOPS s
      | INS_LEFT_COND_EXE \<Rightarrow> count_inc INS_LEFT_NOPS s
      | INS_RIGHT_PARALLEL \<Rightarrow>
          count_inc INS_RIGHT_NOPS (count_inc INS_LEFT (count_dec INS_LEFT_PARALLEL s))
      | INS_RIGHT \<Rightarrow> count_inc INS_RIGHT_NOPS s
      | INS_RIGHT_COND_EXE \<Rightarrow> count_inc INS_RIGHT_NOPS s
      | _ \<Rightarrow> count_inc INS_UNKNOWN s)"

end
