(* ===== verification/Simops_Acc.thy ===== *)
theory Simops_Acc
  imports D10V_Mem
begin

text \<open>
  The instruction functions of \<open>src/src/sim/d10v/simops.c\<close> on the two 40-bit accumulators:
  arithmetic, multiply-accumulate, moves, rounding and shifts. An accumulator is an \<open>int64\<close>; an
  \<open>int\<close> operand of an \<open>int64\<close> expression is sign-extended (\<open>scast\<close>), an unsigned one is
  zero-extended (\<open>ucast\<close>), and \<open>>>\<close> on \<open>int64\<close> is \<open>signed_drop_bit\<close>. Messages and tracing are not
  modelled.
\<close>

section \<open>Shared expressions\<close>

text \<open>
  The register pair at \<open>n\<close> as an \<open>int\<close>, written \<open>(GPR (n) << 16) | GPR (n + 1)\<close> and
  \<open>SEXT16 (GPR (n)) << 16 | GPR (n + 1)\<close> in the source.
\<close>

definition PAIR :: "sim \<Rightarrow> nat \<Rightarrow> int32" where
  "PAIR s n = push_bit 16 (GPR s n) OR GPR s (n + 1)"

definition SPAIR :: "sim \<Rightarrow> nat \<Rightarrow> int32" where
  "SPAIR s n = push_bit 16 (SEXT16 (GPR s n)) OR GPR s (n + 1)"

text \<open>
  The saturation block \<open>if (PSW_ST) ... else tmp = (tmp & MASK40)\<close> that ends the accumulator
  arithmetic; \<open>lo\<close> is the constant of its second comparison.
\<close>

definition sat_acc :: "int64 \<Rightarrow> sim \<Rightarrow> int64 \<Rightarrow> int64" where
  "sat_acc lo s tmp =
     (if PSW_ST s then
        (if MAX32 <s tmp then MAX32 else if tmp <s lo then MIN32 else tmp AND MASK40)
      else tmp AND MASK40)"

text \<open>The saturation block of \<open>addac3s\<close> and \<open>subac3s\<close>, which sets \<open>F0\<close> when it clips.\<close>

definition sat_pair :: "int64 \<Rightarrow> sim \<Rightarrow> int64 \<times> sim" where
  "sat_pair tmp s =
     (if MAX32 <s tmp then (0x7fffffff, SET_PSW_F0 True s)
      else if tmp <s MIN32 then (0x80000000, SET_PSW_F0 True s)
      else (tmp, SET_PSW_F0 False s))"

section \<open>Arithmetic\<close>

definition OP_5607 :: "sim \<Rightarrow> sim" where \<comment> \<open>abs\<close>
  [op_def]: "OP_5607 s =
     (let s = SET_PSW_F1 (PSW_F0 s) s;
          tmp = SEXT40 (ACC s (opn s 0));
          (tmp, s) = (if tmp <s 0
                      then (sat_acc MIN32 s (- tmp), SET_PSW_F0 True s)
                      else (tmp AND MASK40, SET_PSW_F0 False s))
      in SET_ACC (opn s 0) tmp s)"

definition OP_1201 :: "sim \<Rightarrow> sim" where \<comment> \<open>add\<close>
  [op_def]: "OP_1201 s =
     (let tmp = SEXT40 (ACC s (opn s 0)) + scast (SPAIR s (opn s 1))
      in SET_ACC (opn s 0) (sat_acc MIN32 s tmp) s)"

definition OP_1203 :: "sim \<Rightarrow> sim" where \<comment> \<open>add\<close>
  [op_def]: "OP_1203 s =
     (let tmp = SEXT40 (ACC s (opn s 0)) + SEXT40 (ACC s (opn s 1))
      in SET_ACC (opn s 0) (sat_acc MIN32 s tmp) s)"

definition OP_17000200 :: "sim \<Rightarrow> sim" where \<comment> \<open>addac3\<close>
  [op_def]: "OP_17000200 s =
     (let tmp = SEXT40 (ACC s (opn s 2)) + SEXT40 (scast (PAIR s (opn s 1)));
          s = SET_GPR (opn s 0 + 0) (signed_drop_bit 16 tmp AND 0xffff) s
      in SET_GPR (opn s 0 + 1) (tmp AND 0xffff) s)"

definition OP_17000202 :: "sim \<Rightarrow> sim" where \<comment> \<open>addac3\<close>
  [op_def]: "OP_17000202 s =
     (let tmp = SEXT40 (ACC s (opn s 1)) + SEXT40 (ACC s (opn s 2));
          s = SET_GPR (opn s 0 + 0) (signed_drop_bit 16 tmp AND 0xffff) s
      in SET_GPR (opn s 0 + 1) (tmp AND 0xffff) s)"

definition OP_17001200 :: "sim \<Rightarrow> sim" where \<comment> \<open>addac3s\<close>
  [op_def]: "OP_17001200 s =
     (let s = SET_PSW_F1 (PSW_F0 s) s;
          tmp = SEXT40 (ACC s (opn s 2)) + SEXT40 (scast (PAIR s (opn s 1)));
          (tmp, s) = sat_pair tmp s;
          s = SET_GPR (opn s 0 + 0) (signed_drop_bit 16 tmp AND 0xffff) s
      in SET_GPR (opn s 0 + 1) (tmp AND 0xffff) s)"

definition OP_17001202 :: "sim \<Rightarrow> sim" where \<comment> \<open>addac3s\<close>
  [op_def]: "OP_17001202 s =
     (let s = SET_PSW_F1 (PSW_F0 s) s;
          tmp = SEXT40 (ACC s (opn s 1)) + SEXT40 (ACC s (opn s 2));
          (tmp, s) = sat_pair tmp s;
          s = SET_GPR (opn s 0 + 0) (signed_drop_bit 16 tmp AND 0xffff) s
      in SET_GPR (opn s 0 + 1) (tmp AND 0xffff) s)"

definition OP_5605 :: "sim \<Rightarrow> sim" where \<comment> \<open>neg\<close>
  [op_def]: "OP_5605 s =
     (let tmp = - SEXT40 (ACC s (opn s 0))
      in SET_ACC (opn s 0) (sat_acc MIN32 s tmp) s)"

definition OP_1223 :: "sim \<Rightarrow> sim" where \<comment> \<open>sadd\<close>
  [op_def]: "OP_1223 s =
     (let tmp = SEXT40 (ACC s (opn s 0)) + signed_drop_bit 16 (SEXT40 (ACC s (opn s 1)))
      in SET_ACC (opn s 0) (sat_acc MIN32 s tmp) s)"

definition OP_1001 :: "sim \<Rightarrow> sim" where \<comment> \<open>sub\<close>
  [op_def]: "OP_1001 s =
     (let tmp = SEXT40 (ACC s (opn s 0)) - scast (SPAIR s (opn s 1))
      in SET_ACC (opn s 0) (sat_acc MIN32 s tmp) s)"

definition OP_1003 :: "sim \<Rightarrow> sim" where \<comment> \<open>sub\<close>
  [op_def]: "OP_1003 s =
     (let tmp = SEXT40 (ACC s (opn s 0)) - SEXT40 (ACC s (opn s 1))
      in SET_ACC (opn s 0) (sat_acc MIN32 s tmp) s)"

definition OP_17000000 :: "sim \<Rightarrow> sim" where \<comment> \<open>subac3\<close>
  [op_def]: "OP_17000000 s =
     (let tmp = SEXT40 (scast (PAIR s (opn s 1))) - SEXT40 (ACC s (opn s 2))
      in SET_GPR32 tmp s)"

definition OP_17000002 :: "sim \<Rightarrow> sim" where \<comment> \<open>subac3\<close>
  [op_def]: "OP_17000002 s =
     (let tmp = SEXT40 (ACC s (opn s 1)) - SEXT40 (ACC s (opn s 2))
      in SET_GPR32 tmp s)"

definition OP_17001000 :: "sim \<Rightarrow> sim" where \<comment> \<open>subac3s\<close>
  [op_def]: "OP_17001000 s =
     (let s = SET_PSW_F1 (PSW_F0 s) s;
          tmp = SEXT40 (scast (PAIR s (opn s 1))) - SEXT40 (ACC s (opn s 2));
          (tmp, s) = sat_pair tmp s
      in SET_GPR32 tmp s)"

definition OP_17001002 :: "sim \<Rightarrow> sim" where \<comment> \<open>subac3s\<close>
  [op_def]: "OP_17001002 s =
     (let s = SET_PSW_F1 (PSW_F0 s) s;
          tmp = SEXT40 (ACC s (opn s 1)) - SEXT40 (ACC s (opn s 2));
          (tmp, s) = sat_pair tmp s
      in SET_GPR32 tmp s)"

section \<open>Comparisons, maximum and minimum\<close>

definition OP_1603 :: "sim \<Rightarrow> sim" where \<comment> \<open>cmp\<close>
  [op_def]: "OP_1603 s =
     (let s = SET_PSW_F1 (PSW_F0 s) s
      in SET_PSW_F0 (SEXT40 (ACC s (opn s 0)) <s SEXT40 (ACC s (opn s 1))) s)"

definition OP_1403 :: "sim \<Rightarrow> sim" where \<comment> \<open>cmpeq\<close>
  [op_def]: "OP_1403 s =
     (let s = SET_PSW_F1 (PSW_F0 s) s
      in SET_PSW_F0 (ACC s (opn s 0) AND MASK40 = ACC s (opn s 1) AND MASK40) s)"

definition OP_3600 :: "sim \<Rightarrow> sim" where \<comment> \<open>max\<close>
  [op_def]: "OP_3600 s =
     (let s = SET_PSW_F1 (PSW_F0 s) s;
          tmp = (scast (SPAIR s (opn s 1)) :: int64);
          (tmp, s) = (if SEXT40 (ACC s (opn s 0)) <s tmp
                      then (tmp AND MASK40, SET_PSW_F0 True s)
                      else (ACC s (opn s 0), SET_PSW_F0 False s))
      in SET_ACC (opn s 0) tmp s)"

definition OP_3602 :: "sim \<Rightarrow> sim" where \<comment> \<open>max\<close>
  [op_def]: "OP_3602 s =
     (let s = SET_PSW_F1 (PSW_F0 s) s;
          (tmp, s) = (if SEXT40 (ACC s (opn s 0)) <s SEXT40 (ACC s (opn s 1))
                      then (ACC s (opn s 1), SET_PSW_F0 True s)
                      else (ACC s (opn s 0), SET_PSW_F0 False s))
      in SET_ACC (opn s 0) tmp s)"

definition OP_3601 :: "sim \<Rightarrow> sim" where \<comment> \<open>min\<close>
  [op_def]: "OP_3601 s =
     (let s = SET_PSW_F1 (PSW_F0 s) s;
          tmp = (scast (SPAIR s (opn s 1)) :: int64);
          (tmp, s) = (if tmp <s SEXT40 (ACC s (opn s 0))
                      then (tmp AND MASK40, SET_PSW_F0 True s)
                      else (ACC s (opn s 0), SET_PSW_F0 False s))
      in SET_ACC (opn s 0) tmp s)"

definition OP_3603 :: "sim \<Rightarrow> sim" where \<comment> \<open>min\<close>
  [op_def]: "OP_3603 s =
     (let s = SET_PSW_F1 (PSW_F0 s) s;
          (tmp, s) = (if SEXT40 (ACC s (opn s 1)) <s SEXT40 (ACC s (opn s 0))
                      then (ACC s (opn s 1), SET_PSW_F0 True s)
                      else (ACC s (opn s 0), SET_PSW_F0 False s))
      in SET_ACC (opn s 0) tmp s)"

section \<open>Normalisation\<close>

text \<open>
  The loops of the two \<open>exp\<close> instructions: \<open>n\<close> iterations are left, \<open>i\<close> and \<open>foo\<close> are the loop's
  variables; the result is the value of \<open>i\<close> at the \<open>return\<close> in the body, if it is reached.
\<close>

fun exp_loop :: "nat \<Rightarrow> int32 \<Rightarrow> 'a::len word \<Rightarrow> 'a word \<Rightarrow> int32 option" where
  "exp_loop 0 i foo tmp = None"
| "exp_loop (Suc n) i foo tmp =
     (if tmp AND foo \<noteq> 0 then Some i else exp_loop n (i + 1) (drop_bit 1 foo) tmp)"

definition OP_15002A00 :: "sim \<Rightarrow> sim" where \<comment> \<open>exp\<close>
  [op_def]: "OP_15002A00 s =
     (let tmp = (if 0 <=s (ucast (GPR s (opn s 1)) :: int16) then PAIR s (opn s 1)
                 else NOT (PAIR s (opn s 1)))
      in case exp_loop 16 1 0x40000000 tmp of
           Some i \<Rightarrow> SET_GPR (opn s 0) (i - 1) s
         | None \<Rightarrow> SET_GPR (opn s 0) (16 :: int32) s)"

definition OP_15002A02 :: "sim \<Rightarrow> sim" where \<comment> \<open>exp\<close>
  [op_def]: "OP_15002A02 s =
     (let tmp = SEXT40 (ACC s (opn s 1));
          tmp = (if tmp <s 0 then NOT tmp AND MASK40 else tmp)
      in case exp_loop 24 1 0x4000000000 tmp of
           Some i \<Rightarrow> SET_GPR (opn s 0) (i - 9) s
         | None \<Rightarrow> SET_GPR (opn s 0) (16 :: int32) s)"

section \<open>Multiplication\<close>

text \<open>
  The products: signed by signed, signed by unsigned (both computed as \<open>int\<close>), unsigned by unsigned
  (computed as \<open>uint32\<close>).
\<close>

definition mul_ss :: "sim \<Rightarrow> int64" where
  "mul_ss s = SEXT40 (scast ((scast (ucast (GPR s (opn s 1)) :: int16) :: int32)
                             * scast (ucast (GPR s (opn s 2)) :: int16)))"

definition mul_su :: "sim \<Rightarrow> int64" where
  "mul_su s = SEXT40 (scast ((scast (ucast (GPR s (opn s 1)) :: int16) :: int32) * GPR s (opn s 2)))"

definition mul_uu :: "sim \<Rightarrow> uint64" where
  "mul_uu s = (let src1 = (ucast (ucast (GPR s (opn s 1)) :: uint16) :: uint32);
                   src2 = (ucast (ucast (GPR s (opn s 2)) :: uint16) :: uint32)
               in ucast (src1 * src2))"

definition OP_2A00 :: "sim \<Rightarrow> sim" where \<comment> \<open>mac\<close>
  [op_def]: "OP_2A00 s =
     (let tmp = mul_ss s;
          tmp = (if PSW_FX s then SEXT40 (push_bit 1 tmp AND MASK40) else tmp);
          tmp = (if PSW_ST s \<and> MAX32 <s tmp then MAX32 else tmp);
          tmp = tmp + SEXT40 (ACC s (opn s 0))
      in SET_ACC (opn s 0) (sat_acc MIN32 s tmp) s)"

definition OP_1A00 :: "sim \<Rightarrow> sim" where \<comment> \<open>macsu\<close>
  [op_def]: "OP_1A00 s =
     (let tmp = mul_su s;
          tmp = (if PSW_FX s then SEXT40 (push_bit 1 tmp AND MASK40) else tmp);
          tmp = (SEXT40 (ACC s (opn s 0)) + tmp) AND MASK40
      in SET_ACC (opn s 0) tmp s)"

definition OP_3A00 :: "sim \<Rightarrow> sim" where \<comment> \<open>macu\<close>
  [op_def]: "OP_3A00 s =
     (let tmp = mul_uu s;
          tmp = (if PSW_FX s then push_bit 1 tmp else tmp);
          tmp = (ACC s (opn s 0) + tmp) AND MASK40
      in SET_ACC (opn s 0) tmp s)"

definition OP_2800 :: "sim \<Rightarrow> sim" where \<comment> \<open>msb\<close>
  [op_def]: "OP_2800 s =
     (let tmp = mul_ss s;
          tmp = (if PSW_FX s then SEXT40 (push_bit 1 tmp AND MASK40) else tmp);
          tmp = (if PSW_ST s \<and> MAX32 <s tmp then MAX32 else tmp);
          tmp = SEXT40 (ACC s (opn s 0)) - tmp
      in SET_ACC (opn s 0) (sat_acc MIN32 s tmp) s)"

definition OP_1800 :: "sim \<Rightarrow> sim" where \<comment> \<open>msbsu\<close>
  [op_def]: "OP_1800 s =
     (let tmp = mul_su s;
          tmp = (if PSW_FX s then SEXT40 (push_bit 1 tmp AND MASK40) else tmp);
          tmp = (SEXT40 (ACC s (opn s 0)) - tmp) AND MASK40
      in SET_ACC (opn s 0) tmp s)"

definition OP_3800 :: "sim \<Rightarrow> sim" where \<comment> \<open>msbu\<close>
  [op_def]: "OP_3800 s =
     (let tmp = mul_uu s;
          tmp = (if PSW_FX s then push_bit 1 tmp else tmp);
          tmp = (ACC s (opn s 0) - tmp) AND MASK40
      in SET_ACC (opn s 0) tmp s)"

definition OP_2C00 :: "sim \<Rightarrow> sim" where \<comment> \<open>mulx\<close>
  [op_def]: "OP_2C00 s =
     (let tmp = mul_ss s;
          tmp = (if PSW_FX s then SEXT40 (push_bit 1 tmp AND MASK40) else tmp);
          tmp = (if PSW_ST s \<and> MAX32 <s tmp then MAX32 else tmp AND MASK40)
      in SET_ACC (opn s 0) tmp s)"

definition OP_1C00 :: "sim \<Rightarrow> sim" where \<comment> \<open>mulxsu\<close>
  [op_def]: "OP_1C00 s =
     (let tmp = mul_su s;
          tmp = (if PSW_FX s then push_bit 1 tmp else tmp);
          tmp = tmp AND MASK40
      in SET_ACC (opn s 0) tmp s)"

definition OP_3C00 :: "sim \<Rightarrow> sim" where \<comment> \<open>mulxu\<close>
  [op_def]: "OP_3C00 s =
     (let tmp = mul_uu s;
          tmp = (if PSW_FX s then push_bit 1 tmp else tmp);
          tmp = tmp AND MASK40
      in SET_ACC (opn s 0) tmp s)"

section \<open>Moves\<close>

definition OP_5601 :: "sim \<Rightarrow> sim" where \<comment> \<open>clrac\<close>
  [op_def]: "OP_5601 s = SET_ACC (opn s 0) 0 s"

definition OP_3E00 :: "sim \<Rightarrow> sim" where \<comment> \<open>mv2wfac\<close>
  [op_def]: "OP_3E00 s =
     (let tmp = (ucast (ACC s (opn s 1)) :: int32) in SET_GPR32 tmp s)"

definition OP_3E01 :: "sim \<Rightarrow> sim" where \<comment> \<open>mv2wtac\<close>
  [op_def]: "OP_3E01 s =
     (let tmp = scast (SPAIR s (opn s 0)) AND MASK40 in SET_ACC (opn s 1) tmp s)"

definition OP_3E03 :: "sim \<Rightarrow> sim" where \<comment> \<open>mvac\<close>
  [op_def]: "OP_3E03 s = (let tmp = ACC s (opn s 1) in SET_ACC (opn s 0) tmp s)"

definition OP_1E04 :: "sim \<Rightarrow> sim" where \<comment> \<open>mvfacg\<close>
  [op_def]: "OP_1E04 s =
     (let tmp = (ucast (signed_drop_bit 32 (ACC s (opn s 1)) AND 0xff) :: int16)
      in SET_GPR (opn s 0) tmp s)"

definition OP_1E00 :: "sim \<Rightarrow> sim" where \<comment> \<open>mvfachi\<close>
  [op_def]: "OP_1E00 s =
     (let tmp = (ucast (signed_drop_bit 16 (ACC s (opn s 1))) :: int16)
      in SET_GPR (opn s 0) tmp s)"

definition OP_1E02 :: "sim \<Rightarrow> sim" where \<comment> \<open>mvfaclo\<close>
  [op_def]: "OP_1E02 s =
     (let tmp = (ucast (ACC s (opn s 1)) :: int16) in SET_GPR (opn s 0) tmp s)"

definition OP_1E41 :: "sim \<Rightarrow> sim" where \<comment> \<open>mvtacg\<close>
  [op_def]: "OP_1E41 s =
     (let tmp = (ACC s (opn s 1) AND MASK32)
                OR push_bit 32 (scast (GPR s (opn s 0) AND 0xff) :: int64)
      in SET_ACC (opn s 1) tmp s)"

definition OP_1E01 :: "sim \<Rightarrow> sim" where \<comment> \<open>mvtachi\<close>
  [op_def]: "OP_1E01 s =
     (let tmp = ACC s (opn s 1) AND 0xffff;
          tmp = (scast (push_bit 16 (SEXT16 (GPR s (opn s 0)))) OR tmp) AND MASK40
      in SET_ACC (opn s 1) tmp s)"

definition OP_1E21 :: "sim \<Rightarrow> sim" where \<comment> \<open>mvtaclo\<close>
  [op_def]: "OP_1E21 s =
     (let tmp = scast (SEXT16 (GPR s (opn s 0))) AND MASK40 in SET_ACC (opn s 1) tmp s)"

section \<open>Rounding\<close>

text \<open>\<open>tmp <<= shift\<close> or \<open>tmp >>= -shift\<close>, by the sign of the 3-bit count.\<close>

definition shift_by :: "int32 \<Rightarrow> int64 \<Rightarrow> int64" where
  "shift_by shift tmp =
     (if 0 <=s shift then push_bit (unat shift) tmp else signed_drop_bit (unat (- shift)) tmp)"

definition OP_5201 :: "sim \<Rightarrow> sim" where \<comment> \<open>rac\<close>
  [op_def]: "OP_5201 s =
     (let shift = SEXT3 (opv s 2);
          s = (if OP s ! 1 \<noteq> 0 then s\<lparr>exception := SIGILL\<rparr> else s);
          s = SET_PSW_F1 (PSW_F0 s) s;
          tmp = SEXT56 (push_bit 16 (ACC s 0) OR (ACC s 1 AND 0xffff));
          tmp = shift_by shift tmp;
          tmp = tmp + 0x8000;
          tmp = signed_drop_bit 16 tmp;
          (tmp, s) = (if SEXT44 0x0007fffffff <s tmp then (0x7fffffff, SET_PSW_F0 True s)
                      else if tmp <s SEXT44 0xfff80000000 then (0x80000000, SET_PSW_F0 True s)
                      else (tmp, SET_PSW_F0 False s))
      in SET_GPR32 tmp s)"

definition OP_4201 :: "sim \<Rightarrow> sim" where \<comment> \<open>rachi\<close>
  [op_def]: "OP_4201 s =
     (let shift = SEXT3 (opv s 2);
          s = SET_PSW_F1 (PSW_F0 s) s;
          tmp = shift_by shift (SEXT40 (ACC s (opn s 1)));
          tmp = tmp + 0x8000;
          (tmp, s) = (if SEXT44 0x0007fffffff <s tmp then (0x7fff, SET_PSW_F0 True s)
                      else if tmp <s SEXT44 0xfff80000000 then (0x8000, SET_PSW_F0 True s)
                      else (signed_drop_bit 16 tmp, SET_PSW_F0 False s))
      in SET_GPR (opn s 0) tmp s)"

section \<open>Shifts\<close>

definition OP_3200 :: "sim \<Rightarrow> sim" where \<comment> \<open>sll\<close>
  [op_def]: "OP_3200 s =
     (if GPR s (opn s 1) AND 31 <=s 16 then
        (let tmp = push_bit (unat (GPR s (opn s 1) AND 31)) (SEXT40 (ACC s (opn s 0)))
         in SET_ACC (opn s 0) (sat_acc 0xffffff80000000 s tmp) s)
      else s\<lparr>exception := SIGILL\<rparr>)"

definition OP_3201 :: "sim \<Rightarrow> sim" where \<comment> \<open>slli\<close>
  [op_def]: "OP_3201 s =
     (let s = (if OP s ! 1 = 0 then s\<lparr>OP := (OP s)[1 := 16]\<rparr> else s);
          tmp = push_bit (opn s 1) (SEXT40 (ACC s (opn s 0)))
      in SET_ACC (opn s 0) (sat_acc 0xffffff80000000 s tmp) s)"

definition OP_3400 :: "sim \<Rightarrow> sim" where \<comment> \<open>sra\<close>
  [op_def]: "OP_3400 s =
     (if GPR s (opn s 1) AND 31 <=s 16 then
        (let tmp = signed_drop_bit (unat (GPR s (opn s 1) AND 31)) (SEXT40 (ACC s (opn s 0)))
                   AND MASK40
         in SET_ACC (opn s 0) tmp s)
      else s\<lparr>exception := SIGILL\<rparr>)"

definition OP_3401 :: "sim \<Rightarrow> sim" where \<comment> \<open>srai\<close>
  [op_def]: "OP_3401 s =
     (let s = (if OP s ! 1 = 0 then s\<lparr>OP := (OP s)[1 := 16]\<rparr> else s);
          tmp = signed_drop_bit (opn s 1) (SEXT40 (ACC s (opn s 0))) AND MASK40
      in SET_ACC (opn s 0) tmp s)"

definition OP_3000 :: "sim \<Rightarrow> sim" where \<comment> \<open>srl\<close>
  [op_def]: "OP_3000 s =
     (if GPR s (opn s 1) AND 31 <=s 16 then
        (let tmp = signed_drop_bit (unat (GPR s (opn s 1) AND 31)) (ACC s (opn s 0) AND MASK40)
         in SET_ACC (opn s 0) tmp s)
      else s\<lparr>exception := SIGILL\<rparr>)"

definition OP_3001 :: "sim \<Rightarrow> sim" where \<comment> \<open>srli\<close>
  [op_def]: "OP_3001 s =
     (let s = (if OP s ! 1 = 0 then s\<lparr>OP := (OP s)[1 := 16]\<rparr> else s);
          tmp = drop_bit (opn s 1) (ACC s (opn s 0) AND MASK40)
      in SET_ACC (opn s 0) tmp s)"

end
