(* ===== verification/Simops_Mem.thy ===== *)
theory Simops_Mem
  imports D10V_Mem
begin

text \<open>
  The load and store instructions of \<open>src/src/sim/d10v/simops.c\<close>. A load reads through
  \<open>dmem_addr\<close>, which may raise a bus error or allocate a segment of unified memory, and pends its
  register write; a store changes memory at once.
\<close>

section \<open>Loads\<close>

definition OP_30000000 :: "sim \<Rightarrow> sim" where \<comment> \<open>ld\<close>
  [op_def]: "OP_30000000 s =
     (let (tmp, s) = RW (opv s 1 + GPR s (opn s 2)) s in SET_GPR (opn s 0) tmp s)"

definition OP_6401 :: "sim \<Rightarrow> sim" where \<comment> \<open>ld\<close>
  [op_def]: "OP_6401 s =
     (let (tmp, s) = RW (GPR s (opn s 1)) s;
          s = SET_GPR (opn s 0) tmp s
      in INC_ADDR (opn s 1) (- 2) s)"

definition OP_6001 :: "sim \<Rightarrow> sim" where \<comment> \<open>ld\<close>
  [op_def]: "OP_6001 s =
     (let (tmp, s) = RW (GPR s (opn s 1)) s;
          s = SET_GPR (opn s 0) tmp s
      in INC_ADDR (opn s 1) 2 s)"

definition OP_6000 :: "sim \<Rightarrow> sim" where \<comment> \<open>ld\<close>
  [op_def]: "OP_6000 s =
     (let (tmp, s) = RW (GPR s (opn s 1)) s in SET_GPR (opn s 0) tmp s)"

definition OP_31000000 :: "sim \<Rightarrow> sim" where \<comment> \<open>ld2w\<close>
  [op_def]: "OP_31000000 s =
     (let addr = (ucast (GPR s (opn s 2)) :: uint16);
          (tmp, s) = RLW (opv s 1 + ucast addr) s
      in SET_GPR32 tmp s)"

definition OP_6601 :: "sim \<Rightarrow> sim" where \<comment> \<open>ld2w\<close>
  [op_def]: "OP_6601 s =
     (let addr = (ucast (GPR s (opn s 1)) :: uint16);
          (tmp, s) = RLW (ucast addr) s;
          s = SET_GPR32 tmp s
      in INC_ADDR (opn s 1) (- 4) s)"

definition OP_6201 :: "sim \<Rightarrow> sim" where \<comment> \<open>ld2w\<close>
  [op_def]: "OP_6201 s =
     (let addr = (ucast (GPR s (opn s 1)) :: uint16);
          (tmp, s) = RLW (ucast addr) s;
          s = SET_GPR32 tmp s
      in INC_ADDR (opn s 1) 4 s)"

definition OP_6200 :: "sim \<Rightarrow> sim" where \<comment> \<open>ld2w\<close>
  [op_def]: "OP_6200 s =
     (let addr = (ucast (GPR s (opn s 1)) :: uint16);
          (tmp, s) = RLW (ucast addr + 0) s
      in SET_GPR32 tmp s)"

definition OP_38000000 :: "sim \<Rightarrow> sim" where \<comment> \<open>ldb\<close>
  [op_def]: "OP_38000000 s =
     (let (b, s) = RB (opv s 1 + GPR s (opn s 2)) s;
          tmp = (ucast (SEXT8 (ucast b)) :: int16)
      in SET_GPR (opn s 0) tmp s)"

definition OP_7000 :: "sim \<Rightarrow> sim" where \<comment> \<open>ldb\<close>
  [op_def]: "OP_7000 s =
     (let (b, s) = RB (GPR s (opn s 1)) s;
          tmp = (ucast (SEXT8 (ucast b)) :: int16)
      in SET_GPR (opn s 0) tmp s)"

definition OP_39000000 :: "sim \<Rightarrow> sim" where \<comment> \<open>ldub\<close>
  [op_def]: "OP_39000000 s =
     (let (b, s) = RB (opv s 1 + GPR s (opn s 2)) s;
          tmp = (ucast b :: int16)
      in SET_GPR (opn s 0) tmp s)"

definition OP_7200 :: "sim \<Rightarrow> sim" where \<comment> \<open>ldub\<close>
  [op_def]: "OP_7200 s =
     (let (b, s) = RB (GPR s (opn s 1)) s;
          tmp = (ucast b :: int16)
      in SET_GPR (opn s 0) tmp s)"

section \<open>Stores\<close>

definition OP_34000000 :: "sim \<Rightarrow> sim" where \<comment> \<open>st\<close>
  [op_def]: "OP_34000000 s =
     SW (opv s 1 + GPR s (opn s 2)) (GPR s (opn s 0)) s"

definition OP_6800 :: "sim \<Rightarrow> sim" where \<comment> \<open>st\<close>
  [op_def]: "OP_6800 s =
     SW (GPR s (opn s 1)) (GPR s (opn s 0)) s"

definition OP_6C1F :: "sim \<Rightarrow> sim" where \<comment> \<open>st\<close>
  [op_def]: "OP_6C1F s =
     (let addr = (ucast (GPR s (opn s 1) - 2) :: uint16) in
      if OP s ! 1 \<noteq> 15 then s\<lparr>exception := SIGILL\<rparr>
      else (let s = SW (ucast addr) (GPR s (opn s 0)) s in SET_GPR (opn s 1) addr s))"

definition OP_6801 :: "sim \<Rightarrow> sim" where \<comment> \<open>st\<close>
  [op_def]: "OP_6801 s =
     (let s = SW (GPR s (opn s 1)) (GPR s (opn s 0)) s in INC_ADDR (opn s 1) 2 s)"

definition OP_6C01 :: "sim \<Rightarrow> sim" where \<comment> \<open>st\<close>
  [op_def]: "OP_6C01 s =
     (if OP s ! 1 = 15 then s\<lparr>exception := SIGILL\<rparr>
      else (let s = SW (GPR s (opn s 1)) (GPR s (opn s 0)) s in INC_ADDR (opn s 1) (- 2) s))"

definition OP_35000000 :: "sim \<Rightarrow> sim" where \<comment> \<open>st2w\<close>
  [op_def]: "OP_35000000 s =
     (let s = SW (GPR s (opn s 2) + opv s 1 + 0) (GPR s (opn s 0 + 0)) s
      in SW (GPR s (opn s 2) + opv s 1 + 2) (GPR s (opn s 0 + 1)) s)"

definition OP_6A00 :: "sim \<Rightarrow> sim" where \<comment> \<open>st2w\<close>
  [op_def]: "OP_6A00 s =
     (let s = SW (GPR s (opn s 1) + 0) (GPR s (opn s 0 + 0)) s
      in SW (GPR s (opn s 1) + 2) (GPR s (opn s 0 + 1)) s)"

definition OP_6E1F :: "sim \<Rightarrow> sim" where \<comment> \<open>st2w\<close>
  [op_def]: "OP_6E1F s =
     (let addr = (ucast (GPR s (opn s 1) - 4) :: uint16) in
      if OP s ! 1 \<noteq> 15 then s\<lparr>exception := SIGILL\<rparr>
      else (let s = SW (ucast addr + 0) (GPR s (opn s 0 + 0)) s;
                s = SW (ucast addr + 2) (GPR s (opn s 0 + 1)) s
            in SET_GPR (opn s 1) addr s))"

definition OP_6A01 :: "sim \<Rightarrow> sim" where \<comment> \<open>st2w\<close>
  [op_def]: "OP_6A01 s =
     (let s = SW (GPR s (opn s 1) + 0) (GPR s (opn s 0 + 0)) s;
          s = SW (GPR s (opn s 1) + 2) (GPR s (opn s 0 + 1)) s
      in INC_ADDR (opn s 1) 4 s)"

definition OP_6E01 :: "sim \<Rightarrow> sim" where \<comment> \<open>st2w\<close>
  [op_def]: "OP_6E01 s =
     (if OP s ! 1 = 15 then s\<lparr>exception := SIGILL\<rparr>
      else (let s = SW (GPR s (opn s 1) + 0) (GPR s (opn s 0 + 0)) s;
                s = SW (GPR s (opn s 1) + 2) (GPR s (opn s 0 + 1)) s
            in INC_ADDR (opn s 1) (- 4) s))"

definition OP_3C000000 :: "sim \<Rightarrow> sim" where \<comment> \<open>stb\<close>
  [op_def]: "OP_3C000000 s =
     SB (GPR s (opn s 2) + opv s 1) (GPR s (opn s 0)) s"

definition OP_7800 :: "sim \<Rightarrow> sim" where \<comment> \<open>stb\<close>
  [op_def]: "OP_7800 s =
     SB (GPR s (opn s 1)) (GPR s (opn s 0)) s"

end
