(* ===== verification/Simops_Ctl.thy ===== *)
theory Simops_Ctl
  imports D10V_Mem
begin

text \<open>
  The control instructions of \<open>src/src/sim/d10v/simops.c\<close>: branches, jumps, moves from and to
  control registers, repeat blocks, returns from exceptions, and the trap instruction with the
  system calls that trap 15 simulates.

  The host is not part of the simulator. A system call is a request to it, and \<open>host\<close>, a parameter of
  the trap instruction, gives its answer as a function of the slot of the packet the instruction
  is in, the request, and memory. The theorems hold for every host.
\<close>

section \<open>Branches and jumps\<close>

definition OP_4900 :: "sim \<Rightarrow> sim" where \<comment> \<open>bl.s\<close>
  [op_def]: "OP_4900 s =
     (let s = SET_GPR 13 (PC s + 1) s in JMP (PC s + SEXT8 (opv s 0)) s)"

definition OP_24800000 :: "sim \<Rightarrow> sim" where \<comment> \<open>bl.l\<close>
  [op_def]: "OP_24800000 s =
     (let s = SET_GPR 13 (PC s + 1) s in JMP (PC s + opv s 0) s)"

definition OP_4800 :: "sim \<Rightarrow> sim" where \<comment> \<open>bra.s\<close>
  [op_def]: "OP_4800 s = JMP (PC s + SEXT8 (opv s 0)) s"

definition OP_24000000 :: "sim \<Rightarrow> sim" where \<comment> \<open>bra.l\<close>
  [op_def]: "OP_24000000 s = JMP (PC s + opv s 0) s"

definition OP_4A00 :: "sim \<Rightarrow> sim" where \<comment> \<open>brf0f.s\<close>
  [op_def]: "OP_4A00 s = (if \<not> PSW_F0 s then JMP (PC s + SEXT8 (opv s 0)) s else s)"

definition OP_25000000 :: "sim \<Rightarrow> sim" where \<comment> \<open>brf0f.l\<close>
  [op_def]: "OP_25000000 s = (if \<not> PSW_F0 s then JMP (PC s + opv s 0) s else s)"

definition OP_4B00 :: "sim \<Rightarrow> sim" where \<comment> \<open>brf0t.s\<close>
  [op_def]: "OP_4B00 s = (if PSW_F0 s then JMP (PC s + SEXT8 (opv s 0)) s else s)"

definition OP_25800000 :: "sim \<Rightarrow> sim" where \<comment> \<open>brf0t.l\<close>
  [op_def]: "OP_25800000 s = (if PSW_F0 s then JMP (PC s + opv s 0) s else s)"

definition OP_4D00 :: "sim \<Rightarrow> sim" where \<comment> \<open>jl\<close>
  [op_def]: "OP_4D00 s =
     (let s = SET_GPR 13 (PC s + 1) s in JMP (GPR s (opn s 0)) s)"

definition OP_4C00 :: "sim \<Rightarrow> sim" where \<comment> \<open>jmp\<close>
  [op_def]: "OP_4C00 s = JMP (GPR s (opn s 0)) s"

section \<open>Control registers, repeat blocks, exceptions\<close>

abbreviation (input) "TRAP_VECTOR_START \<equiv> 0xffc4 :: int32"
abbreviation (input) "DBT_VECTOR_START \<equiv> 0xffd4 :: int32"

definition OP_5200 :: "sim \<Rightarrow> sim" where \<comment> \<open>mvfc\<close>
  [op_def]: "OP_5200 s =
     (let tmp = (ucast (CREG s (opn s 1)) :: int16) in SET_GPR (opn s 0) tmp s)"

definition OP_5600 :: "sim \<Rightarrow> sim" where \<comment> \<open>mvtc\<close>
  [op_def]: "OP_5600 s =
     (let tmp = (ucast (GPR s (opn s 0)) :: int16) in SET_CREG (opn s 1) tmp s)"

definition OP_27000000 :: "sim \<Rightarrow> sim" where \<comment> \<open>rep\<close>
  [op_def]: "OP_27000000 s =
     (let s = SET_CREG RPT_S_CR (PC s + 1) s;
          s = SET_CREG RPT_E_CR (PC s + opv s 1) s;
          s = SET_CREG RPT_C_CR (GPR s (opn s 0)) s;
          s = SET_PSW_RP True s;
          s = (if GPR s (opn s 0) = 0 then s\<lparr>exception := SIGILL\<rparr> else s)
      in if OP s ! 1 < 4 then s\<lparr>exception := SIGILL\<rparr> else s)"

definition OP_2F000000 :: "sim \<Rightarrow> sim" where \<comment> \<open>repi\<close>
  [op_def]: "OP_2F000000 s =
     (let s = SET_CREG RPT_S_CR (PC s + 1) s;
          s = SET_CREG RPT_E_CR (PC s + opv s 1) s;
          s = SET_CREG RPT_C_CR (opv s 0) s;
          s = SET_PSW_RP True s;
          s = (if OP s ! 0 = 0 then s\<lparr>exception := SIGILL\<rparr> else s)
      in if OP s ! 1 < 4 then s\<lparr>exception := SIGILL\<rparr> else s)"

definition OP_5F60 :: "sim \<Rightarrow> sim" where \<comment> \<open>rtd\<close>
  [op_def]: "OP_5F60 s = (let s = SET_CREG PSW_CR (DPSW s) s in JMP (DPC s) s)"

definition OP_5F40 :: "sim \<Rightarrow> sim" where \<comment> \<open>rte\<close>
  [op_def]: "OP_5F40 s = (let s = SET_CREG PSW_CR (BPSW s) s in JMP (BPC s) s)"

definition OP_5FC0 :: "sim \<Rightarrow> sim" where \<comment> \<open>sleep\<close>
  [op_def]: "OP_5FC0 s = SET_PSW_IE True s"

definition OP_5F80 :: "sim \<Rightarrow> sim" where \<comment> \<open>wait\<close>
  [op_def]: "OP_5F80 s = SET_PSW_IE True s"

definition OP_5FE0 :: "sim \<Rightarrow> sim" where \<comment> \<open>stop\<close>
  [op_def]: "OP_5FE0 s = s\<lparr>exception := SIG_D10V_STOP\<rparr>"

definition OP_5F20 :: "sim \<Rightarrow> sim" where \<comment> \<open>dbt\<close>
  [op_def]: "OP_5F20 s =
     (if ins_type s = INS_LEFT \<or> ins_type s = INS_RIGHT then
        (let s = SET_CREG DPC_CR (PC s + 1) s;
             s = SET_CREG DPSW_CR (PSW s) s;
             s = SET_CREG PSW_CR
                   (PSW_DM_BIT OR (PSW s AND (PSW_F0_BIT OR PSW_F1_BIT OR PSW_C_BIT))) s
         in JMP DBT_VECTOR_START s)
      else s\<lparr>exception := SIGTRAP\<rparr>)"

section \<open>System calls\<close>

text \<open>Numbers from \<open>src/src/newlib/libc/sys/d10v/sys/syscall.h\<close>.\<close>

abbreviation (input) "SYS_exit \<equiv> 1 :: int32"
abbreviation (input) "SYS_fork \<equiv> 2 :: int32"
abbreviation (input) "SYS_read \<equiv> 3 :: int32"
abbreviation (input) "SYS_write \<equiv> 4 :: int32"
abbreviation (input) "SYS_open \<equiv> 5 :: int32"
abbreviation (input) "SYS_close \<equiv> 6 :: int32"
abbreviation (input) "SYS_execv \<equiv> 11 :: int32"
abbreviation (input) "SYS_chmod \<equiv> 15 :: int32"
abbreviation (input) "SYS_chown \<equiv> 16 :: int32"
abbreviation (input) "SYS_lseek \<equiv> 19 :: int32"
abbreviation (input) "SYS_getpid \<equiv> 20 :: int32"
abbreviation (input) "SYS_stat \<equiv> 38 :: int32"
abbreviation (input) "SYS_pipe \<equiv> 42 :: int32"
abbreviation (input) "SYS_execve \<equiv> 59 :: int32"
abbreviation (input) "SYS_kill \<equiv> 60 :: int32"

text \<open>
  Requests to the host, with the arguments the simulator passes, and the answer: the value
  returned, the bytes a read delivers, the descriptors of a pipe, the fields of \<open>struct stat\<close>, and
  whether an \<open>execve\<close> has replaced the simulator.
\<close>

datatype sysreq =
    Host_fork
  | Host_kill int32 int32
  | Host_execve ptr ptr "ptr option"
  | Host_pipe
  | Host_read int32 ptr int32
  | Host_write_stdout ptr int32
  | Host_write int32 ptr int32
  | Host_lseek int32 int32 int32
  | Host_close int32
  | Host_open ptr int32
  | Host_stat ptr
  | Host_chown ptr int32 int32
  | Host_chmod ptr int32

record host_stat =
  st_dev :: uint32
  st_ino :: uint32
  st_mode :: uint32
  st_nlink :: uint32
  st_uid :: uint32
  st_gid :: uint32
  st_rdev :: uint32
  st_size :: uint32
  st_atime :: uint32
  st_mtime :: uint32
  st_ctime :: uint32

record sysres =
  sys_ret :: uint32
  sys_data :: "uint8 list"
  sys_fd0 :: uint32
  sys_fd1 :: uint32
  sys_stat :: host_stat
  sys_replaced :: bool

text \<open>
  The host: its answers, and the error number that the callback's \<open>get_errno\<close> reports after a call.
\<close>

record host =
  host_call :: "ins_type \<Rightarrow> sysreq \<Rightarrow> (ptr \<Rightarrow> uint8) \<Rightarrow> sysres"
  host_errno :: "sim \<Rightarrow> int32"

definition ask :: "host \<Rightarrow> sysreq \<Rightarrow> sim \<Rightarrow> sysres" where
  "ask host r s = host_call host (ins_type s) r (mem s)"

text \<open>
  The registers of a call. \<open>RETVAL\<close> and \<open>RETVAL32\<close> return the value they store as the local
  variable \<open>result\<close>.
\<close>

abbreviation (input) "FUNC s \<equiv> GPR s 4"
abbreviation (input) "PARM1 s \<equiv> GPR s 0"
abbreviation (input) "PARM2 s \<equiv> GPR s 1"
abbreviation (input) "PARM3 s \<equiv> GPR s 2"
abbreviation (input) "PARM4 s \<equiv> GPR s 3"

definition RETVAL :: "uint32 \<Rightarrow> sim \<Rightarrow> uint32 \<times> sim" where
  "RETVAL x s = (x, SET_GPR 0 x s)"

definition RETVAL32 :: "uint32 \<Rightarrow> sim \<Rightarrow> uint32 \<times> sim" where
  "RETVAL32 x s = (let s = SET_GPR 0 (drop_bit 16 x) s in (x, SET_GPR 1 x s))"

definition RETERR :: "int32 \<Rightarrow> sim \<Rightarrow> sim" where
  "RETERR x s = SET_GPR 4 x s"

text \<open>
  The signal table of \<open>SYS_kill\<close>: \<open>os_sig\<close> for a D10V signal number, on a Linux host, which defines
  neither \<open>SIGEMT\<close> nor \<open>SIGLOST\<close>.
\<close>

definition kill_os_sig :: "int32 \<Rightarrow> int" where
  "kill_os_sig n =
     (case map_of (zip [1, 2, 3, 4, 5, 6, 8, 9, 10, 11, 12, 13, 14, 15, 16, 17, 18, 19, 20,
                        21, 22, 23, 24, 25, 26, 27, 28, 30, 31]
                       [1, 2, 3, 4, 5, 6, 8, 9, 7, 11, 31, 13, 14, 15, 23, 19, 20, 18, 17,
                        21, 22, 29, 24, 25, 26, 27, 28, 10, 12]) n of
        Some os_sig \<Rightarrow> os_sig
      | None \<Rightarrow> - 1)"

definition do_kill :: "host \<Rightarrow> sim \<Rightarrow> uint32 \<times> sim" where
  "do_kill host s =
     (if PARM1 s = 47 then (0, s\<lparr>exception := sint (PARM2 s)\<rparr>)
      else if kill_os_sig (PARM2 s) = - 1 then (0, s\<lparr>exception := SIGILL\<rparr>)
      else RETVAL (sys_ret (ask host (Host_kill (PARM1 s) (PARM2 s)) s)) s)"

definition do_execve :: "host \<Rightarrow> bool \<Rightarrow> sim \<Rightarrow> uint32 \<times> sim" where
  "do_execve host env s =
     (let (p1, s) = dmem_addr (PARM1 s) s;
          (p2, s) = dmem_addr (PARM2 s) s;
          (p3, s) = (if env then let (p, s) = dmem_addr (PARM3 s) s in (Some p, s) else (None, s));
          r = ask host (Host_execve p1 p2 p3) s
      in if sys_replaced r then (0, s\<lparr>status := Replaced\<rparr>) else RETVAL (sys_ret r) s)"

definition do_pipe :: "host \<Rightarrow> sim \<Rightarrow> uint32 \<times> sim" where
  "do_pipe host s =
     (let buf = (ucast (PARM1 s) :: uint16);
          r = ask host Host_pipe s;
          (result, s) = RETVAL (sys_ret r) s;
          s = SW (ucast buf) (sys_fd0 r) s;
          buf = buf + 2;
          s = SW (ucast buf) (sys_fd1 r) s
      in (result, s))"

definition do_read :: "host \<Rightarrow> sim \<Rightarrow> uint32 \<times> sim" where
  "do_read host s =
     (let (p, s) = dmem_addr (PARM2 s) s;
          r = ask host (Host_read (PARM1 s) p (PARM3 s)) s;
          s = s\<lparr>mem := copy_in p (take (unat (PARM3 s)) (sys_data r)) (mem s)\<rparr>
      in RETVAL (sys_ret r) s)"

definition do_write :: "host \<Rightarrow> sim \<Rightarrow> uint32 \<times> sim" where
  "do_write host s =
     (let (p, s) = dmem_addr (PARM2 s) s;
          r = (if PARM1 s = 1 then ask host (Host_write_stdout p (PARM3 s)) s
               else ask host (Host_write (PARM1 s) p (PARM3 s)) s)
      in RETVAL (sys_ret r) s)"

definition do_lseek :: "host \<Rightarrow> sim \<Rightarrow> uint32 \<times> sim" where
  "do_lseek host s =
     (let off = (if push_bit 16 (PARM2 s) \<noteq> 0 \<or> PARM3 s \<noteq> 0 then 1 else 0)
      in RETVAL32 (sys_ret (ask host (Host_lseek (PARM1 s) off (PARM4 s)) s)) s)"

definition do_stat :: "host \<Rightarrow> sim \<Rightarrow> uint32 \<times> sim" where
  "do_stat host s =
     (let (p, s) = dmem_addr (PARM1 s) s;
          r = ask host (Host_stat p) s;
          h = sys_stat r;
          (result, s) = RETVAL (sys_ret r) s;
          buf = (ucast (ucast (PARM2 s) :: uint16) :: uint32);
          s = SW buf (st_dev h) s;
          s = SW (buf + 2) (st_ino h) s;
          s = SW (buf + 4) (st_mode h) s;
          s = SW (buf + 6) (st_nlink h) s;
          s = SW (buf + 8) (st_uid h) s;
          s = SW (buf + 10) (st_gid h) s;
          s = SW (buf + 12) (st_rdev h) s;
          s = SLW (buf + 16) (st_size h) s;
          s = SLW (buf + 20) (st_atime h) s;
          s = SLW (buf + 28) (st_mtime h) s;
          s = SLW (buf + 36) (st_ctime h) s
      in (result, s))"

definition do_path :: "host \<Rightarrow> (ptr \<Rightarrow> sysreq) \<Rightarrow> sim \<Rightarrow> uint32 \<times> sim" where
  "do_path host req s =
     (let (p, s) = dmem_addr (PARM1 s) s in RETVAL (sys_ret (ask host (req p) s)) s)"

text \<open>
  The dispatcher of trap 15. An unknown function number ends the simulator in the callback
  \<open>error\<close>, which does not return.
\<close>

definition syscall :: "host \<Rightarrow> sim \<Rightarrow> uint32 \<times> sim" where
  "syscall host s =
     (if FUNC s = SYS_fork then RETVAL (sys_ret (ask host Host_fork s)) s
      else if FUNC s = SYS_getpid then RETVAL 47 s
      else if FUNC s = SYS_kill then do_kill host s
      else if FUNC s = SYS_execve then do_execve host True s
      else if FUNC s = SYS_execv then do_execve host False s
      else if FUNC s = SYS_pipe then do_pipe host s
      else if FUNC s = SYS_read then do_read host s
      else if FUNC s = SYS_write then do_write host s
      else if FUNC s = SYS_lseek then do_lseek host s
      else if FUNC s = SYS_close then RETVAL (sys_ret (ask host (Host_close (PARM1 s)) s)) s
      else if FUNC s = SYS_open then do_path host (\<lambda>p. Host_open p (PARM2 s)) s
      else if FUNC s = SYS_exit then (0, s\<lparr>exception := SIG_D10V_EXIT\<rparr>)
      else if FUNC s = SYS_stat then do_stat host s
      else if FUNC s = SYS_chown then do_path host (\<lambda>p. Host_chown p (PARM2 s) (PARM3 s)) s
      else if FUNC s = SYS_chmod then do_path host (\<lambda>p. Host_chmod p (PARM2 s)) s
      else (0, s\<lparr>status := Exited\<rparr>))"

definition trap_vector :: "sim \<Rightarrow> sim" where
  "trap_vector s =
     (let vec = (ucast (opv s 0 + TRAP_VECTOR_START) :: uint16);
          s = SET_CREG BPC_CR (PC s + 1) s;
          s = SET_CREG BPSW_CR (PSW s) s;
          s = SET_CREG PSW_CR (PSW s AND PSW_SM_BIT) s
      in JMP vec s)"

definition OP_5F00 :: "host \<Rightarrow> sim \<Rightarrow> sim" where \<comment> \<open>trap\<close>
  [op_def]: "OP_5F00 host s =
     (if OP s ! 0 \<noteq> 15 then trap_vector s
      else (let (result, s) = syscall host s in
            if status s \<noteq> Running then s
            else if (ucast result :: uint16) = ucast (- 1 :: int32)
                 then RETERR (host_errno host s) s
                 else RETERR 0 s))"

end
