(* ===== verification/D10V_Opc.thy ===== *)
theory D10V_Opc
  imports Prelude
begin

text \<open>
  The D10V instruction set: the constants of \<open>src/src/include/opcode/d10v.h\<close>, the register, operand
  and opcode tables of \<open>src/src/opcodes/d10v-opc.c\<close>, and the table that
  \<open>src/src/sim/d10v/gencode.c\<close> generates from them for the simulator. A table is the list of its
  entries without the terminating entry. The theory proves the facts about the tables that the
  decoder, the disassembler and the assembler depend on.
\<close>

section \<open>Constants\<close>

abbreviation (input) "FM00 \<equiv> 0 :: uint32"
abbreviation (input) "FM01 \<equiv> 0x40000000 :: uint32"
abbreviation (input) "FM10 \<equiv> 0x80000000 :: uint32"
abbreviation (input) "FM11 \<equiv> 0xC0000000 :: uint32"
abbreviation (input) "NOP \<equiv> 0x5e00 :: uint32"
abbreviation (input) "OPCODE_DIVS \<equiv> 0x14002800 :: uint32"

abbreviation (input) "SHORT_OPCODE \<equiv> 1 :: uint32"
abbreviation (input) "LONG_OPCODE \<equiv> 8 :: uint32"
abbreviation (input) "SHORT_2 \<equiv> 1 :: uint32"
abbreviation (input) "SHORT_B \<equiv> 3 :: uint32"
abbreviation (input) "LONG_B \<equiv> 8 :: uint32"
abbreviation (input) "LONG_L \<equiv> 10 :: uint32"
abbreviation (input) "LONG_R \<equiv> 12 :: uint32"
abbreviation (input) "OPCODE_FAKE \<equiv> 32 :: uint32"

abbreviation (input) "EITHER \<equiv> 0 :: uint32"
abbreviation (input) "IU \<equiv> 1 :: uint32"
abbreviation (input) "MU \<equiv> 2 :: uint32"
abbreviation (input) "BOTH \<equiv> 3 :: uint32"

abbreviation (input) "PARONLY \<equiv> 1 :: uint32"
abbreviation (input) "SEQ \<equiv> 2 :: uint32"
abbreviation (input) "PAR \<equiv> 4 :: uint32"
abbreviation (input) "BRANCH_LINK \<equiv> 8 :: uint32"
abbreviation (input) "RMEM \<equiv> 16 :: uint32"
abbreviation (input) "WMEM \<equiv> 32 :: uint32"
abbreviation (input) "RF0 \<equiv> 64 :: uint32"
abbreviation (input) "WF0 \<equiv> 128 :: uint32"
abbreviation (input) "WCAR \<equiv> 256 :: uint32"
abbreviation (input) "BRANCH \<equiv> 512 :: uint32"

abbreviation (input) "OPERAND_EVEN \<equiv> 1 :: uint32"
abbreviation (input) "OPERAND_ODD \<equiv> 2 :: uint32"
abbreviation (input) "OPERAND_DEST \<equiv> 4 :: uint32"
abbreviation (input) "OPERAND_NUM \<equiv> 8 :: uint32"
abbreviation (input) "OPERAND_ADDR \<equiv> 0x10 :: uint32"
abbreviation (input) "OPERAND_REG \<equiv> 0x20 :: uint32"
abbreviation (input) "OPERAND_PLUS \<equiv> 0x40 :: uint32"
abbreviation (input) "OPERAND_MINUS \<equiv> 0x80 :: uint32"
abbreviation (input) "OPERAND_ATSIGN \<equiv> 0x100 :: uint32"
abbreviation (input) "OPERAND_ATPAR \<equiv> 0x200 :: uint32"
abbreviation (input) "OPERAND_ACC0 \<equiv> 0x400 :: uint32"
abbreviation (input) "OPERAND_ACC1 \<equiv> 0x800 :: uint32"
abbreviation (input) "OPERAND_FFLAG \<equiv> 0x1000 :: uint32"
abbreviation (input) "OPERAND_CFLAG \<equiv> 0x2000 :: uint32"
abbreviation (input) "OPERAND_CONTROL \<equiv> 0x4000 :: uint32"
abbreviation (input) "OPERAND_ATMINUS \<equiv> 0x8000 :: uint32"
abbreviation (input) "OPERAND_SIGNED \<equiv> 0x10000 :: uint32"
abbreviation (input) "OPERAND_SHIFT \<equiv> 0x20000 :: uint32"
abbreviation (input) "OPERAND_GPR \<equiv> 0x40000 :: uint32"
abbreviation (input) "REGISTER_MASK \<equiv> 0xFF :: uint32"

section \<open>Tables\<close>

record pd_reg =
  reg_name :: string
  reg_pname :: "string option"
  reg_value :: uint32

record d10v_operand =
  opnd_bits :: nat
  opnd_shift :: nat
  opnd_flags :: uint32

record d10v_opcode =
  op_name :: string
  op_format :: uint32
  op_cycles :: nat
  op_unit :: uint32
  op_exec_type :: uint32
  op_opcode :: uint32
  op_mask :: uint32
  op_operands :: "nat list"

definition d10v_predefined_registers :: "pd_reg list" where
  "d10v_predefined_registers =
   [pd_reg.make ''a0'' None (OPERAND_ACC0 + 0),
    pd_reg.make ''a1'' None (OPERAND_ACC1 + 1),
    pd_reg.make ''bpc'' None (OPERAND_CONTROL + 3),
    pd_reg.make ''bpsw'' None (OPERAND_CONTROL + 1),
    pd_reg.make ''c'' None (OPERAND_CFLAG + 3),
    pd_reg.make ''cr0'' (Some ''psw'') OPERAND_CONTROL,
    pd_reg.make ''cr1'' (Some ''bpsw'') (OPERAND_CONTROL + 1),
    pd_reg.make ''cr10'' (Some ''mod_s'') (OPERAND_CONTROL + 10),
    pd_reg.make ''cr11'' (Some ''mod_e'') (OPERAND_CONTROL + 11),
    pd_reg.make ''cr12'' None (OPERAND_CONTROL + 12),
    pd_reg.make ''cr13'' None (OPERAND_CONTROL + 13),
    pd_reg.make ''cr14'' (Some ''iba'') (OPERAND_CONTROL + 14),
    pd_reg.make ''cr15'' None (OPERAND_CONTROL + 15),
    pd_reg.make ''cr2'' (Some ''pc'') (OPERAND_CONTROL + 2),
    pd_reg.make ''cr3'' (Some ''bpc'') (OPERAND_CONTROL + 3),
    pd_reg.make ''cr4'' (Some ''dpsw'') (OPERAND_CONTROL + 4),
    pd_reg.make ''cr5'' (Some ''dpc'') (OPERAND_CONTROL + 5),
    pd_reg.make ''cr6'' None (OPERAND_CONTROL + 6),
    pd_reg.make ''cr7'' (Some ''rpt_c'') (OPERAND_CONTROL + 7),
    pd_reg.make ''cr8'' (Some ''rpt_s'') (OPERAND_CONTROL + 8),
    pd_reg.make ''cr9'' (Some ''rpt_e'') (OPERAND_CONTROL + 9),
    pd_reg.make ''dpc'' None (OPERAND_CONTROL + 5),
    pd_reg.make ''dpsw'' None (OPERAND_CONTROL + 4),
    pd_reg.make ''f0'' None (OPERAND_FFLAG + 0),
    pd_reg.make ''f1'' None (OPERAND_FFLAG + 1),
    pd_reg.make ''iba'' None (OPERAND_CONTROL + 14),
    pd_reg.make ''link'' (Some ''r13'') (OPERAND_GPR + 13),
    pd_reg.make ''mod_e'' None (OPERAND_CONTROL + 11),
    pd_reg.make ''mod_s'' None (OPERAND_CONTROL + 10),
    pd_reg.make ''pc'' None (OPERAND_CONTROL + 2),
    pd_reg.make ''psw'' None (OPERAND_CONTROL + 0),
    pd_reg.make ''r0'' None (OPERAND_GPR + 0),
    pd_reg.make ''r0-r1'' None (OPERAND_GPR + 0),
    pd_reg.make ''r1'' None (OPERAND_GPR + 1),
    pd_reg.make ''r1'' None (OPERAND_GPR + 1),
    pd_reg.make ''r10'' None (OPERAND_GPR + 10),
    pd_reg.make ''r10-r11'' None (OPERAND_GPR + 10),
    pd_reg.make ''r11'' None (OPERAND_GPR + 11),
    pd_reg.make ''r12'' None (OPERAND_GPR + 12),
    pd_reg.make ''r12-r13'' None (OPERAND_GPR + 12),
    pd_reg.make ''r13'' None (OPERAND_GPR + 13),
    pd_reg.make ''r14'' None (OPERAND_GPR + 14),
    pd_reg.make ''r14-r15'' None (OPERAND_GPR + 14),
    pd_reg.make ''r15'' (Some ''sp'') (OPERAND_GPR + 15),
    pd_reg.make ''r2'' None (OPERAND_GPR + 2),
    pd_reg.make ''r2-r3'' None (OPERAND_GPR + 2),
    pd_reg.make ''r3'' None (OPERAND_GPR + 3),
    pd_reg.make ''r4'' None (OPERAND_GPR + 4),
    pd_reg.make ''r4-r5'' None (OPERAND_GPR + 4),
    pd_reg.make ''r5'' None (OPERAND_GPR + 5),
    pd_reg.make ''r6'' None (OPERAND_GPR + 6),
    pd_reg.make ''r6-r7'' None (OPERAND_GPR + 6),
    pd_reg.make ''r7'' None (OPERAND_GPR + 7),
    pd_reg.make ''r8'' None (OPERAND_GPR + 8),
    pd_reg.make ''r8-r9'' None (OPERAND_GPR + 8),
    pd_reg.make ''r9'' None (OPERAND_GPR + 9),
    pd_reg.make ''rpt_c'' None (OPERAND_CONTROL + 7),
    pd_reg.make ''rpt_e'' None (OPERAND_CONTROL + 9),
    pd_reg.make ''rpt_s'' None (OPERAND_CONTROL + 8),
    pd_reg.make ''sp'' None (OPERAND_GPR + 15)]"

definition d10v_reg_name_cnt :: nat where
  "d10v_reg_name_cnt = length d10v_predefined_registers"

text \<open>Operand codes are indexes into \<open>d10v_operands\<close>.\<close>

abbreviation (input) "UNUSED \<equiv> 0 :: nat"
abbreviation (input) "RSRC \<equiv> 1 :: nat"
abbreviation (input) "RDST \<equiv> 2 :: nat"
abbreviation (input) "ASRC \<equiv> 3 :: nat"
abbreviation (input) "ASRC0ONLY \<equiv> 4 :: nat"
abbreviation (input) "ADST \<equiv> 5 :: nat"
abbreviation (input) "RSRCE \<equiv> 6 :: nat"
abbreviation (input) "RDSTE \<equiv> 7 :: nat"
abbreviation (input) "NUM16 \<equiv> 8 :: nat"
abbreviation (input) "NUM3 \<equiv> 9 :: nat"
abbreviation (input) "NUM4 \<equiv> 10 :: nat"
abbreviation (input) "UNUM4 \<equiv> 11 :: nat"
abbreviation (input) "UNUM4S \<equiv> 12 :: nat"
abbreviation (input) "UNUM8 \<equiv> 13 :: nat"
abbreviation (input) "UNUM16 \<equiv> 14 :: nat"
abbreviation (input) "ANUM16 \<equiv> 15 :: nat"
abbreviation (input) "ANUM8 \<equiv> 16 :: nat"
abbreviation (input) "ASRC2 \<equiv> 17 :: nat"
abbreviation (input) "RSRC2 \<equiv> 18 :: nat"
abbreviation (input) "RSRC2E \<equiv> 19 :: nat"
abbreviation (input) "ASRC0 \<equiv> 20 :: nat"
abbreviation (input) "ADST0 \<equiv> 21 :: nat"
abbreviation (input) "FFSRC \<equiv> 22 :: nat"
abbreviation (input) "CFSRC \<equiv> 23 :: nat"
abbreviation (input) "FDST \<equiv> 24 :: nat"
abbreviation (input) "ATSIGN \<equiv> 25 :: nat"
abbreviation (input) "ATPAR \<equiv> 26 :: nat"
abbreviation (input) "PLUS \<equiv> 27 :: nat"
abbreviation (input) "MINUS \<equiv> 28 :: nat"
abbreviation (input) "ATMINUS \<equiv> 29 :: nat"
abbreviation (input) "CSRC \<equiv> 30 :: nat"
abbreviation (input) "CDST \<equiv> 31 :: nat"

definition d10v_operands :: "d10v_operand list" where
  "d10v_operands =
   [d10v_operand.make 0 0 0,
    d10v_operand.make 4 1 (OPERAND_GPR OR OPERAND_REG),
    d10v_operand.make 4 5 (OPERAND_DEST OR OPERAND_GPR OR OPERAND_REG),
    d10v_operand.make 1 4 (OPERAND_ACC0 OR OPERAND_ACC1 OR OPERAND_REG),
    d10v_operand.make 1 4 (OPERAND_ACC0 OR OPERAND_REG),
    d10v_operand.make 1 8 (OPERAND_DEST OR OPERAND_ACC0 OR OPERAND_ACC1 OR OPERAND_REG),
    d10v_operand.make 4 1 (OPERAND_EVEN OR OPERAND_GPR OR OPERAND_REG),
    d10v_operand.make 4 5 (OPERAND_EVEN OR OPERAND_DEST OR OPERAND_GPR OR OPERAND_REG),
    d10v_operand.make 16 0 (OPERAND_NUM OR OPERAND_SIGNED),
    d10v_operand.make 3 1 (OPERAND_NUM OR OPERAND_SIGNED),
    d10v_operand.make 4 1 (OPERAND_NUM OR OPERAND_SIGNED),
    d10v_operand.make 4 1 OPERAND_NUM,
    d10v_operand.make 4 1 (OPERAND_NUM OR OPERAND_SHIFT),
    d10v_operand.make 8 16 OPERAND_NUM,
    d10v_operand.make 16 0 OPERAND_NUM,
    d10v_operand.make 16 0 (OPERAND_ADDR OR OPERAND_SIGNED),
    d10v_operand.make 8 0 (OPERAND_ADDR OR OPERAND_SIGNED),
    d10v_operand.make 1 8 (OPERAND_ACC0 OR OPERAND_ACC1 OR OPERAND_REG),
    d10v_operand.make 4 5 (OPERAND_GPR OR OPERAND_REG),
    d10v_operand.make 4 5 (OPERAND_GPR OR OPERAND_REG OR OPERAND_EVEN),
    d10v_operand.make 1 0 (OPERAND_ACC0 OR OPERAND_ACC1 OR OPERAND_REG),
    d10v_operand.make 1 0 (OPERAND_ACC0 OR OPERAND_ACC1 OR OPERAND_REG OR OPERAND_DEST),
    d10v_operand.make 2 1 (OPERAND_REG OR OPERAND_FFLAG),
    d10v_operand.make 2 1 (OPERAND_REG OR OPERAND_CFLAG),
    d10v_operand.make 1 5 (OPERAND_REG OR OPERAND_FFLAG OR OPERAND_DEST),
    d10v_operand.make 0 0 OPERAND_ATSIGN,
    d10v_operand.make 0 0 OPERAND_ATPAR,
    d10v_operand.make 0 0 OPERAND_PLUS,
    d10v_operand.make 0 0 OPERAND_MINUS,
    d10v_operand.make 0 0 OPERAND_ATMINUS,
    d10v_operand.make 4 1 (OPERAND_REG OR OPERAND_CONTROL),
    d10v_operand.make 4 5 (OPERAND_REG OR OPERAND_CONTROL OR OPERAND_DEST)]"

definition d10v_opcodes :: "d10v_opcode list" where
  "d10v_opcodes =
   [d10v_opcode.make ''abs'' SHORT_2 1 EITHER (PAR OR WF0) 0x4607 0x7e1f [RDST],
    d10v_opcode.make ''abs'' SHORT_2 1 IU (PAR OR WF0) 0x5607 0x7eff [ADST],
    d10v_opcode.make ''add'' SHORT_2 1 EITHER (PAR OR WCAR) 0x0200 0x7e01 [RDST, RSRC],
    d10v_opcode.make ''add'' SHORT_2 1 IU PAR 0x1201 0x7ee3 [ADST, RSRCE],
    d10v_opcode.make ''add'' SHORT_2 1 IU PAR 0x1203 0x7eef [ADST, ASRC],
    d10v_opcode.make ''add2w'' SHORT_2 2 IU (PAR OR WCAR) 0x1200 0x7e23 [RDSTE, RSRCE],
    d10v_opcode.make ''add3'' LONG_L 1 MU (SEQ OR WCAR) 0x1000000 0x3f000000 [RDST, RSRC, NUM16],
    d10v_opcode.make ''addac3'' LONG_R 1 IU SEQ 0x17000200 0x3ffffe22 [RDSTE, RSRCE, ASRC0],
    d10v_opcode.make ''addac3'' LONG_R 1 IU SEQ 0x17000202 0x3ffffe2e [RDSTE, ASRC, ASRC0],
    d10v_opcode.make ''addac3s'' LONG_R 1 IU SEQ 0x17001200 0x3ffffe22 [RDSTE, RSRCE, ASRC0],
    d10v_opcode.make ''addac3s'' LONG_R 1 IU SEQ 0x17001202 0x3ffffe2e [RDSTE, ASRC, ASRC0],
    d10v_opcode.make ''addi'' SHORT_2 1 EITHER (PAR OR WCAR) 0x201 0x7e01 [RDST, UNUM4S],
    d10v_opcode.make ''and'' SHORT_2 1 EITHER PAR 0xc00 0x7e01 [RDST, RSRC],
    d10v_opcode.make ''and3'' LONG_L 1 MU SEQ 0x6000000 0x3f000000 [RDST, RSRC, NUM16],
    d10v_opcode.make ''bclri'' SHORT_2 1 IU PAR 0xc01 0x7e01 [RDST, UNUM4],
    d10v_opcode.make ''bl'' OPCODE_FAKE 0 0 0 0 0 [0, 8, 16, 0],
    d10v_opcode.make ''bl.s'' SHORT_B 3 MU (BRANCH_LINK OR PAR) 0x4900 0x7f00 [ANUM8],
    d10v_opcode.make ''bl.l'' LONG_B 3 MU (BRANCH_LINK OR SEQ) 0x24800000 0x3fff0000 [ANUM16],
    d10v_opcode.make ''bnoti'' SHORT_2 1 IU PAR 0xa01 0x7e01 [RDST, UNUM4],
    d10v_opcode.make ''bra'' OPCODE_FAKE 0 0 0 0 0 [0, 8, 16, 0],
    d10v_opcode.make ''bra.s'' SHORT_B 3 MU (BRANCH OR PAR) 0x4800 0x7f00 [ANUM8],
    d10v_opcode.make ''bra.l'' LONG_B 3 MU (BRANCH OR SEQ) 0x24000000 0x3fff0000 [ANUM16],
    d10v_opcode.make ''brf0f'' OPCODE_FAKE 0 0 0 0 0 [0, 8, 16, 0],
    d10v_opcode.make ''brf0f.s'' SHORT_B 3 MU (BRANCH OR PAR OR RF0) 0x4a00 0x7f00 [ANUM8],
    d10v_opcode.make ''brf0f.l'' LONG_B 3 MU SEQ 0x25000000 0x3fff0000 [ANUM16],
    d10v_opcode.make ''brf0t'' OPCODE_FAKE 0 0 0 0 0 [0, 8, 16, 0],
    d10v_opcode.make ''brf0t.s'' SHORT_B 3 MU (BRANCH OR PAR OR RF0) 0x4b00 0x7f00 [ANUM8],
    d10v_opcode.make ''brf0t.l'' LONG_B 3 MU SEQ 0x25800000 0x3fff0000 [ANUM16],
    d10v_opcode.make ''bseti'' SHORT_2 1 IU PAR 0x801 0x7e01 [RDST, UNUM4],
    d10v_opcode.make ''btsti'' SHORT_2 1 IU (PAR OR WF0) 0xe01 0x7e01 [RDST, UNUM4],
    d10v_opcode.make ''clrac'' SHORT_2 1 IU PAR 0x5601 0x7eff [ADST],
    d10v_opcode.make ''cmp'' SHORT_2 1 EITHER (PAR OR WF0) 0x600 0x7e01 [RSRC2, RSRC],
    d10v_opcode.make ''cmp'' SHORT_2 1 IU (PAR OR WF0) 0x1603 0x7eef [ASRC2, ASRC],
    d10v_opcode.make ''cmpeq'' SHORT_2 1 EITHER (PAR OR WF0) 0x400 0x7e01 [RSRC2, RSRC],
    d10v_opcode.make ''cmpeq'' SHORT_2 1 IU (PAR OR WF0) 0x1403 0x7eef [ASRC2, ASRC],
    d10v_opcode.make ''cmpeqi'' OPCODE_FAKE 0 0 0 0 0 [1, 4, 16, 0],
    d10v_opcode.make ''cmpeqi.s'' SHORT_2 1 EITHER (PAR OR WF0) 0x401 0x7e01 [RSRC2, NUM4],
    d10v_opcode.make ''cmpeqi.l'' LONG_L 1 MU SEQ 0x2000000 0x3f0f0000 [RSRC2, NUM16],
    d10v_opcode.make ''cmpi'' OPCODE_FAKE 0 0 0 0 0 [1, 4, 16, 0],
    d10v_opcode.make ''cmpi.s'' SHORT_2 1 EITHER (PAR OR WF0) 0x601 0x7e01 [RSRC2, NUM4],
    d10v_opcode.make ''cmpi.l'' LONG_L 1 MU SEQ 0x3000000 0x3f0f0000 [RSRC2, NUM16],
    d10v_opcode.make ''cmpu'' SHORT_2 1 EITHER (PAR OR WF0) 0x4600 0x7e01 [RSRC2, RSRC],
    d10v_opcode.make ''cmpui'' LONG_L 1 MU SEQ 0x23000000 0x3f0f0000 [RSRC2, UNUM16],
    d10v_opcode.make ''cpfg'' SHORT_2 1 MU PAR 0x4e09 0x7fd9 [FDST, FFSRC],
    d10v_opcode.make ''cpfg'' SHORT_2 1 MU PAR 0x4e09 0x7fd9 [FDST, CFSRC],
    d10v_opcode.make ''dbt'' SHORT_2 5 MU PAR 0x5f20 0x7fff [],
    d10v_opcode.make ''divs'' LONG_L 1 BOTH SEQ 0x14002800 0x3f10fe21 [RDSTE, RSRC],
    d10v_opcode.make ''exef0f'' SHORT_2 1 EITHER PARONLY 0x4e04 0x7fff [],
    d10v_opcode.make ''exef0t'' SHORT_2 1 EITHER PARONLY 0x4e24 0x7fff [],
    d10v_opcode.make ''exef1f'' SHORT_2 1 EITHER PARONLY 0x4e40 0x7fff [],
    d10v_opcode.make ''exef1t'' SHORT_2 1 EITHER PARONLY 0x4e42 0x7fff [],
    d10v_opcode.make ''exefaf'' SHORT_2 1 EITHER PARONLY 0x4e00 0x7fff [],
    d10v_opcode.make ''exefat'' SHORT_2 1 EITHER PARONLY 0x4e02 0x7fff [],
    d10v_opcode.make ''exetaf'' SHORT_2 1 EITHER PARONLY 0x4e20 0x7fff [],
    d10v_opcode.make ''exetat'' SHORT_2 1 EITHER PARONLY 0x4e22 0x7fff [],
    d10v_opcode.make ''exp'' LONG_R 1 IU SEQ 0x15002a00 0x3ffffe03 [RDST, RSRCE],
    d10v_opcode.make ''exp'' LONG_R 1 IU SEQ 0x15002a02 0x3ffffe0f [RDST, ASRC],
    d10v_opcode.make ''jl'' SHORT_2 3 MU (BRANCH_LINK OR PAR) 0x4d00 0x7fe1 [RSRC],
    d10v_opcode.make ''jmp'' SHORT_2 3 MU (BRANCH OR PAR) 0x4c00 0x7fe1 [RSRC],
    d10v_opcode.make ''ld'' LONG_L 1 MU SEQ 0x30000000 0x3f000000 [RDST, ATPAR, NUM16, RSRC],
    d10v_opcode.make ''ld'' SHORT_2 1 MU (PAR OR RMEM) 0x6401 0x7e01 [RDST, ATSIGN, RSRC, MINUS],
    d10v_opcode.make ''ld'' SHORT_2 1 MU (PAR OR RMEM) 0x6001 0x7e01 [RDST, ATSIGN, RSRC, PLUS],
    d10v_opcode.make ''ld'' SHORT_2 1 MU (PAR OR RMEM) 0x6000 0x7e01 [RDST, ATSIGN, RSRC],
    d10v_opcode.make ''ld2w'' LONG_L 1 MU SEQ 0x31000000 0x3f100000 [RDSTE, ATPAR, NUM16, RSRC],
    d10v_opcode.make ''ld2w'' SHORT_2 1 MU (PAR OR RMEM) 0x6601 0x7e21 [RDSTE, ATSIGN, RSRC, MINUS],
    d10v_opcode.make ''ld2w'' SHORT_2 1 MU (PAR OR RMEM) 0x6201 0x7e21 [RDSTE, ATSIGN, RSRC, PLUS],
    d10v_opcode.make ''ld2w'' SHORT_2 1 MU (PAR OR RMEM) 0x6200 0x7e21 [RDSTE, ATSIGN, RSRC],
    d10v_opcode.make ''ldb'' LONG_L 1 MU SEQ 0x38000000 0x3f000000 [RDST, ATPAR, NUM16, RSRC],
    d10v_opcode.make ''ldb'' SHORT_2 1 MU (PAR OR RMEM) 0x7000 0x7e01 [RDST, ATSIGN, RSRC],
    d10v_opcode.make ''ldi'' OPCODE_FAKE 0 0 0 0 0 [1, 4, 16, 0],
    d10v_opcode.make ''ldi.s'' SHORT_2 1 EITHER (PAR OR RMEM) 0x4001 0x7e01 [RDST, NUM4],
    d10v_opcode.make ''ldi.l'' LONG_L 1 MU SEQ 0x20000000 0x3f0f0000 [RDST, NUM16],
    d10v_opcode.make ''ldub'' LONG_L 1 MU SEQ 0x39000000 0x3f000000 [RDST, ATPAR, NUM16, RSRC],
    d10v_opcode.make ''ldub'' SHORT_2 1 MU (PAR OR RMEM) 0x7200 0x7e01 [RDST, ATSIGN, RSRC],
    d10v_opcode.make ''mac'' SHORT_2 1 IU PAR 0x2a00 0x7e00 [ADST0, RSRC2, RSRC],
    d10v_opcode.make ''macsu'' SHORT_2 1 IU PAR 0x1a00 0x7e00 [ADST0, RSRC2, RSRC],
    d10v_opcode.make ''macu'' SHORT_2 1 IU PAR 0x3a00 0x7e00 [ADST0, RSRC2, RSRC],
    d10v_opcode.make ''max'' SHORT_2 1 IU (PAR OR WF0) 0x2600 0x7e01 [RDST, RSRC],
    d10v_opcode.make ''max'' SHORT_2 1 IU (PAR OR WF0) 0x3600 0x7ee3 [ADST, RSRCE],
    d10v_opcode.make ''max'' SHORT_2 1 IU (PAR OR WF0) 0x3602 0x7eef [ADST, ASRC],
    d10v_opcode.make ''min'' SHORT_2 1 IU (PAR OR WF0) 0x2601 0x7e01 [RDST, RSRC],
    d10v_opcode.make ''min'' SHORT_2 1 IU (PAR OR WF0) 0x3601 0x7ee3 [ADST, RSRCE],
    d10v_opcode.make ''min'' SHORT_2 1 IU (PAR OR WF0) 0x3603 0x7eef [ADST, ASRC],
    d10v_opcode.make ''msb'' SHORT_2 1 IU PAR 0x2800 0x7e00 [ADST0, RSRC2, RSRC],
    d10v_opcode.make ''msbsu'' SHORT_2 1 IU PAR 0x1800 0x7e00 [ADST0, RSRC2, RSRC],
    d10v_opcode.make ''msbu'' SHORT_2 1 IU PAR 0x3800 0x7e00 [ADST0, RSRC2, RSRC],
    d10v_opcode.make ''mul'' SHORT_2 1 IU PAR 0x2e00 0x7e01 [RDST, RSRC],
    d10v_opcode.make ''mulx'' SHORT_2 1 IU PAR 0x2c00 0x7e00 [ADST0, RSRC2, RSRC],
    d10v_opcode.make ''mulxsu'' SHORT_2 1 IU PAR 0x1c00 0x7e00 [ADST0, RSRC2, RSRC],
    d10v_opcode.make ''mulxu'' SHORT_2 1 IU PAR 0x3c00 0x7e00 [ADST0, RSRC2, RSRC],
    d10v_opcode.make ''mv'' SHORT_2 1 EITHER PAR 0x4000 0x7e01 [RDST, RSRC],
    d10v_opcode.make ''mv2w'' SHORT_2 1 IU PAR 0x5000 0x7e23 [RDSTE, RSRCE],
    d10v_opcode.make ''mv2wfac'' SHORT_2 1 IU PAR 0x3e00 0x7e2f [RDSTE, ASRC],
    d10v_opcode.make ''mv2wtac'' SHORT_2 1 IU PAR 0x3e01 0x7ee3 [RSRCE, ADST],
    d10v_opcode.make ''mvac'' SHORT_2 1 IU PAR 0x3e03 0x7eef [ADST, ASRC],
    d10v_opcode.make ''mvb'' SHORT_2 1 IU PAR 0x5400 0x7e01 [RDST, RSRC],
    d10v_opcode.make ''mvf0f'' SHORT_2 1 EITHER (PAR OR RF0) 0x4400 0x7e01 [RDST, RSRC],
    d10v_opcode.make ''mvf0t'' SHORT_2 1 EITHER (PAR OR RF0) 0x4401 0x7e01 [RDST, RSRC],
    d10v_opcode.make ''mvfacg'' SHORT_2 1 IU PAR 0x1e04 0x7e0f [RDST, ASRC],
    d10v_opcode.make ''mvfachi'' SHORT_2 1 IU PAR 0x1e00 0x7e0f [RDST, ASRC],
    d10v_opcode.make ''mvfaclo'' SHORT_2 1 IU PAR 0x1e02 0x7e0f [RDST, ASRC],
    d10v_opcode.make ''mvfc'' SHORT_2 1 MU PAR 0x5200 0x7e01 [RDST, CSRC],
    d10v_opcode.make ''mvtacg'' SHORT_2 1 IU PAR 0x1e41 0x7ee1 [RSRC, ADST],
    d10v_opcode.make ''mvtachi'' SHORT_2 1 IU PAR 0x1e01 0x7ee1 [RSRC, ADST],
    d10v_opcode.make ''mvtaclo'' SHORT_2 1 IU PAR 0x1e21 0x7ee1 [RSRC, ADST],
    d10v_opcode.make ''mvtc'' SHORT_2 1 MU PAR 0x5600 0x7e01 [RSRC, CDST],
    d10v_opcode.make ''mvub'' SHORT_2 1 IU PAR 0x5401 0x7e01 [RDST, RSRC],
    d10v_opcode.make ''neg'' SHORT_2 1 EITHER PAR 0x4605 0x7e1f [RDST],
    d10v_opcode.make ''neg'' SHORT_2 1 IU PAR 0x5605 0x7eff [ADST],
    d10v_opcode.make ''nop'' SHORT_2 1 EITHER PAR 0x5e00 0x7fff [],
    d10v_opcode.make ''not'' SHORT_2 1 EITHER PAR 0x4603 0x7e1f [RDST],
    d10v_opcode.make ''or'' SHORT_2 1 EITHER PAR 0x800 0x7e01 [RDST, RSRC],
    d10v_opcode.make ''or3'' LONG_L 1 MU SEQ 0x4000000 0x3f000000 [RDST, RSRC, NUM16],
    d10v_opcode.make ''rac'' SHORT_2 1 IU (PAR OR WF0) 0x5201 0x7e21 [RDSTE, ASRC0ONLY, NUM3],
    d10v_opcode.make ''rachi'' SHORT_2 1 IU (PAR OR WF0) 0x4201 0x7e01 [RDST, ASRC, NUM3],
    d10v_opcode.make ''rep'' LONG_L 2 MU SEQ 0x27000000 0x3ff00000 [RSRC, ANUM16],
    d10v_opcode.make ''repi'' LONG_L 2 MU SEQ 0x2f000000 0x3f000000 [UNUM8, ANUM16],
    d10v_opcode.make ''rtd'' SHORT_2 3 MU PAR 0x5f60 0x7fff [],
    d10v_opcode.make ''rte'' SHORT_2 3 MU PAR 0x5f40 0x7fff [],
    d10v_opcode.make ''sadd'' SHORT_2 1 IU PAR 0x1223 0x7eef [ADST, ASRC],
    d10v_opcode.make ''setf0f'' SHORT_2 1 MU (PAR OR RF0) 0x4611 0x7e1f [RDST],
    d10v_opcode.make ''setf0t'' SHORT_2 1 MU (PAR OR RF0) 0x4613 0x7e1f [RDST],
    d10v_opcode.make ''sleep'' SHORT_2 1 MU PAR 0x5fc0 0x7fff [],
    d10v_opcode.make ''sll'' SHORT_2 1 IU PAR 0x2200 0x7e01 [RDST, RSRC],
    d10v_opcode.make ''sll'' SHORT_2 1 IU PAR 0x3200 0x7ee1 [ADST, RSRC],
    d10v_opcode.make ''slli'' SHORT_2 1 IU PAR 0x2201 0x7e01 [RDST, UNUM4],
    d10v_opcode.make ''slli'' SHORT_2 1 IU PAR 0x3201 0x7ee1 [ADST, UNUM4S],
    d10v_opcode.make ''slx'' SHORT_2 1 IU (PAR OR RF0) 0x460b 0x7e1f [RDST],
    d10v_opcode.make ''sra'' SHORT_2 1 IU PAR 0x2400 0x7e01 [RDST, RSRC],
    d10v_opcode.make ''sra'' SHORT_2 1 IU PAR 0x3400 0x7ee1 [ADST, RSRC],
    d10v_opcode.make ''srai'' SHORT_2 1 IU PAR 0x2401 0x7e01 [RDST, UNUM4],
    d10v_opcode.make ''srai'' SHORT_2 1 IU PAR 0x3401 0x7ee1 [ADST, UNUM4S],
    d10v_opcode.make ''srl'' SHORT_2 1 IU PAR 0x2000 0x7e01 [RDST, RSRC],
    d10v_opcode.make ''srl'' SHORT_2 1 IU PAR 0x3000 0x7ee1 [ADST, RSRC],
    d10v_opcode.make ''srli'' SHORT_2 1 IU PAR 0x2001 0x7e01 [RDST, UNUM4],
    d10v_opcode.make ''srli'' SHORT_2 1 IU PAR 0x3001 0x7ee1 [ADST, UNUM4S],
    d10v_opcode.make ''srx'' SHORT_2 1 IU (PAR OR RF0) 0x4609 0x7e1f [RDST],
    d10v_opcode.make ''st'' LONG_L 1 MU SEQ 0x34000000 0x3f000000 [RSRC2, ATPAR, NUM16, RSRC],
    d10v_opcode.make ''st'' SHORT_2 1 MU (PAR OR WMEM) 0x6800 0x7e01 [RSRC2, ATSIGN, RSRC],
    d10v_opcode.make ''st'' SHORT_2 1 MU (PAR OR WMEM) 0x6c1f 0x7e1f [RSRC2, ATMINUS, RSRC],
    d10v_opcode.make ''st'' SHORT_2 1 MU (PAR OR WMEM) 0x6801 0x7e01 [RSRC2, ATSIGN, RSRC, PLUS],
    d10v_opcode.make ''st'' SHORT_2 1 MU (PAR OR WMEM) 0x6c01 0x7e01 [RSRC2, ATSIGN, RSRC, MINUS],
    d10v_opcode.make ''st2w'' LONG_L 1 MU SEQ 0x35000000 0x3f100000 [RSRC2E, ATPAR, NUM16, RSRC],
    d10v_opcode.make ''st2w'' SHORT_2 1 MU (PAR OR WMEM) 0x6a00 0x7e21 [RSRC2E, ATSIGN, RSRC],
    d10v_opcode.make ''st2w'' SHORT_2 1 MU (PAR OR WMEM) 0x6e1f 0x7e3f [RSRC2E, ATMINUS, RSRC],
    d10v_opcode.make ''st2w'' SHORT_2 1 MU (PAR OR WMEM) 0x6a01 0x7e21 [RSRC2E, ATSIGN, RSRC, PLUS],
    d10v_opcode.make ''st2w'' SHORT_2 1 MU (PAR OR WMEM) 0x6e01 0x7e21 [RSRC2E, ATSIGN, RSRC, MINUS],
    d10v_opcode.make ''stb'' LONG_L 1 MU SEQ 0x3c000000 0x3f000000 [RSRC2, ATPAR, NUM16, RSRC],
    d10v_opcode.make ''stb'' SHORT_2 1 MU (PAR OR WMEM) 0x7800 0x7e01 [RSRC2, ATSIGN, RSRC],
    d10v_opcode.make ''stop'' SHORT_2 1 MU PAR 0x5fe0 0x7fff [],
    d10v_opcode.make ''sub'' SHORT_2 1 EITHER (PAR OR WCAR) 0x0 0x7e01 [RDST, RSRC],
    d10v_opcode.make ''sub'' SHORT_2 1 IU PAR 0x1001 0x7ee3 [ADST, RSRC],
    d10v_opcode.make ''sub'' SHORT_2 1 IU PAR 0x1003 0x7eef [ADST, ASRC],
    d10v_opcode.make ''sub2w'' SHORT_2 1 IU (PAR OR WCAR) 0x1000 0x7e23 [RDSTE, RSRCE],
    d10v_opcode.make ''subac3'' LONG_R 1 IU SEQ 0x17000000 0x3ffffe22 [RDSTE, RSRCE, ASRC0],
    d10v_opcode.make ''subac3'' LONG_R 1 IU SEQ 0x17000002 0x3ffffe2e [RDSTE, ASRC, ASRC0],
    d10v_opcode.make ''subac3s'' LONG_R 1 IU SEQ 0x17001000 0x3ffffe22 [RDSTE, RSRCE, ASRC0],
    d10v_opcode.make ''subac3s'' LONG_R 1 IU SEQ 0x17001002 0x3ffffe2e [RDSTE, ASRC, ASRC0],
    d10v_opcode.make ''subi'' SHORT_2 1 EITHER PAR 0x1 0x7e01 [RDST, UNUM4S],
    d10v_opcode.make ''trap'' SHORT_2 5 MU PAR 0x5f00 0x7fe1 [UNUM4],
    d10v_opcode.make ''tst0i'' LONG_L 1 MU SEQ 0x7000000 0x3f0f0000 [RSRC2, NUM16],
    d10v_opcode.make ''tst1i'' LONG_L 1 MU SEQ 0xf000000 0x3f0f0000 [RSRC2, NUM16],
    d10v_opcode.make ''wait'' SHORT_2 1 MU PAR 0x5f80 0x7fff [],
    d10v_opcode.make ''xor'' SHORT_2 1 EITHER PAR 0xa00 0x7e01 [RDST, RSRC],
    d10v_opcode.make ''xor3'' LONG_L 1 MU SEQ 0x5000000 0x3f000000 [RDST, RSRC, NUM16]]"

section \<open>The simulator's table\<close>

text \<open>
  \<open>write_opcodes\<close> of \<open>gencode.c\<close> prints one initialiser of \<open>struct simops\<close> per real instruction. Its
  operands are triples of shift, number of bits and flags; the shift of a register operand of a
  long instruction of format \<open>LONG_L\<close> is moved to the left container. The member \<open>func\<close> is the
  function \<open>OP_<opcode>\<close>, which the opcode itself identifies.
\<close>

record simops =
  so_opcode :: uint32
  so_is_long :: bool
  so_mask :: uint32
  so_format :: uint32
  so_cycles :: nat
  so_unit :: uint32
  so_exec_type :: uint32
  so_operands :: "(nat \<times> nat \<times> uint32) list"

definition is_value_operand :: "d10v_operand \<Rightarrow> bool" where
  "is_value_operand d \<longleftrightarrow> opnd_flags d AND OPERAND_REG \<noteq> 0 \<or> opnd_flags d AND OPERAND_NUM \<noteq> 0
     \<or> opnd_flags d AND OPERAND_ADDR \<noteq> 0"

definition write_operand :: "uint32 \<Rightarrow> d10v_operand \<Rightarrow> nat \<times> nat \<times> uint32" where
  "write_operand fmt d =
     (opnd_shift d + (if opnd_flags d AND OPERAND_REG \<noteq> 0 \<and> fmt = LONG_L then 15 else 0),
      opnd_bits d, opnd_flags d)"

definition write_opcode :: "d10v_opcode \<Rightarrow> simops" where
  "write_opcode e =
     \<lparr> so_opcode = op_opcode e, so_is_long = (op_format e AND LONG_OPCODE \<noteq> 0),
       so_mask = op_mask e, so_format = op_format e, so_cycles = op_cycles e,
       so_unit = op_unit e, so_exec_type = op_exec_type e,
       so_operands = map (write_operand (op_format e))
         (filter is_value_operand (map (\<lambda>i. d10v_operands ! i) (op_operands e))) \<rparr>"

definition Simops :: "simops list" where
  "Simops = map write_opcode (filter (\<lambda>e. op_format e \<noteq> OPCODE_FAKE) d10v_opcodes)"

text \<open>The table that the generator prints.\<close>

lemma Simops_generated:
  "Simops =
   [simops.make 0x4607 False 0x7e1f 1 1 0 132 [(5, 4, 0x40024)],
    simops.make 0x5607 False 0x7eff 1 1 1 132 [(8, 1, 0xc24)],
    simops.make 0x0200 False 0x7e01 1 1 0 260 [(5, 4, 0x40024), (1, 4, 0x40020)],
    simops.make 0x1201 False 0x7ee3 1 1 1 4 [(8, 1, 0xc24), (1, 4, 0x40021)],
    simops.make 0x1203 False 0x7eef 1 1 1 4 [(8, 1, 0xc24), (4, 1, 0xc20)],
    simops.make 0x1200 False 0x7e23 1 2 1 260 [(5, 4, 0x40025), (1, 4, 0x40021)],
    simops.make 0x1000000 True 0x3f000000 10 1 2 258 [(20, 4, 0x40024), (16, 4, 0x40020), (0, 16, 0x10008)],
    simops.make 0x17000200 True 0x3ffffe22 12 1 1 2 [(5, 4, 0x40025), (1, 4, 0x40021), (0, 1, 0xc20)],
    simops.make 0x17000202 True 0x3ffffe2e 12 1 1 2 [(5, 4, 0x40025), (4, 1, 0xc20), (0, 1, 0xc20)],
    simops.make 0x17001200 True 0x3ffffe22 12 1 1 2 [(5, 4, 0x40025), (1, 4, 0x40021), (0, 1, 0xc20)],
    simops.make 0x17001202 True 0x3ffffe2e 12 1 1 2 [(5, 4, 0x40025), (4, 1, 0xc20), (0, 1, 0xc20)],
    simops.make 0x201 False 0x7e01 1 1 0 260 [(5, 4, 0x40024), (1, 4, 0x20008)],
    simops.make 0xc00 False 0x7e01 1 1 0 4 [(5, 4, 0x40024), (1, 4, 0x40020)],
    simops.make 0x6000000 True 0x3f000000 10 1 2 2 [(20, 4, 0x40024), (16, 4, 0x40020), (0, 16, 0x10008)],
    simops.make 0xc01 False 0x7e01 1 1 1 4 [(5, 4, 0x40024), (1, 4, 0x8)],
    simops.make 0x4900 False 0x7f00 3 3 2 12 [(0, 8, 0x10010)],
    simops.make 0x24800000 True 0x3fff0000 8 3 2 10 [(0, 16, 0x10010)],
    simops.make 0xa01 False 0x7e01 1 1 1 4 [(5, 4, 0x40024), (1, 4, 0x8)],
    simops.make 0x4800 False 0x7f00 3 3 2 516 [(0, 8, 0x10010)],
    simops.make 0x24000000 True 0x3fff0000 8 3 2 514 [(0, 16, 0x10010)],
    simops.make 0x4a00 False 0x7f00 3 3 2 580 [(0, 8, 0x10010)],
    simops.make 0x25000000 True 0x3fff0000 8 3 2 2 [(0, 16, 0x10010)],
    simops.make 0x4b00 False 0x7f00 3 3 2 580 [(0, 8, 0x10010)],
    simops.make 0x25800000 True 0x3fff0000 8 3 2 2 [(0, 16, 0x10010)],
    simops.make 0x801 False 0x7e01 1 1 1 4 [(5, 4, 0x40024), (1, 4, 0x8)],
    simops.make 0xe01 False 0x7e01 1 1 1 132 [(5, 4, 0x40024), (1, 4, 0x8)],
    simops.make 0x5601 False 0x7eff 1 1 1 4 [(8, 1, 0xc24)],
    simops.make 0x600 False 0x7e01 1 1 0 132 [(5, 4, 0x40020), (1, 4, 0x40020)],
    simops.make 0x1603 False 0x7eef 1 1 1 132 [(8, 1, 0xc20), (4, 1, 0xc20)],
    simops.make 0x400 False 0x7e01 1 1 0 132 [(5, 4, 0x40020), (1, 4, 0x40020)],
    simops.make 0x1403 False 0x7eef 1 1 1 132 [(8, 1, 0xc20), (4, 1, 0xc20)],
    simops.make 0x401 False 0x7e01 1 1 0 132 [(5, 4, 0x40020), (1, 4, 0x10008)],
    simops.make 0x2000000 True 0x3f0f0000 10 1 2 2 [(20, 4, 0x40020), (0, 16, 0x10008)],
    simops.make 0x601 False 0x7e01 1 1 0 132 [(5, 4, 0x40020), (1, 4, 0x10008)],
    simops.make 0x3000000 True 0x3f0f0000 10 1 2 2 [(20, 4, 0x40020), (0, 16, 0x10008)],
    simops.make 0x4600 False 0x7e01 1 1 0 132 [(5, 4, 0x40020), (1, 4, 0x40020)],
    simops.make 0x23000000 True 0x3f0f0000 10 1 2 2 [(20, 4, 0x40020), (0, 16, 0x8)],
    simops.make 0x4e09 False 0x7fd9 1 1 2 4 [(5, 1, 0x1024), (1, 2, 0x1020)],
    simops.make 0x4e09 False 0x7fd9 1 1 2 4 [(5, 1, 0x1024), (1, 2, 0x2020)],
    simops.make 0x5f20 False 0x7fff 1 5 2 4 [],
    simops.make 0x14002800 True 0x3f10fe21 10 1 3 2 [(20, 4, 0x40025), (16, 4, 0x40020)],
    simops.make 0x4e04 False 0x7fff 1 1 0 1 [],
    simops.make 0x4e24 False 0x7fff 1 1 0 1 [],
    simops.make 0x4e40 False 0x7fff 1 1 0 1 [],
    simops.make 0x4e42 False 0x7fff 1 1 0 1 [],
    simops.make 0x4e00 False 0x7fff 1 1 0 1 [],
    simops.make 0x4e02 False 0x7fff 1 1 0 1 [],
    simops.make 0x4e20 False 0x7fff 1 1 0 1 [],
    simops.make 0x4e22 False 0x7fff 1 1 0 1 [],
    simops.make 0x15002a00 True 0x3ffffe03 12 1 1 2 [(5, 4, 0x40024), (1, 4, 0x40021)],
    simops.make 0x15002a02 True 0x3ffffe0f 12 1 1 2 [(5, 4, 0x40024), (4, 1, 0xc20)],
    simops.make 0x4d00 False 0x7fe1 1 3 2 12 [(1, 4, 0x40020)],
    simops.make 0x4c00 False 0x7fe1 1 3 2 516 [(1, 4, 0x40020)],
    simops.make 0x30000000 True 0x3f000000 10 1 2 2 [(20, 4, 0x40024), (0, 16, 0x10008), (16, 4, 0x40020)],
    simops.make 0x6401 False 0x7e01 1 1 2 20 [(5, 4, 0x40024), (1, 4, 0x40020)],
    simops.make 0x6001 False 0x7e01 1 1 2 20 [(5, 4, 0x40024), (1, 4, 0x40020)],
    simops.make 0x6000 False 0x7e01 1 1 2 20 [(5, 4, 0x40024), (1, 4, 0x40020)],
    simops.make 0x31000000 True 0x3f100000 10 1 2 2 [(20, 4, 0x40025), (0, 16, 0x10008), (16, 4, 0x40020)],
    simops.make 0x6601 False 0x7e21 1 1 2 20 [(5, 4, 0x40025), (1, 4, 0x40020)],
    simops.make 0x6201 False 0x7e21 1 1 2 20 [(5, 4, 0x40025), (1, 4, 0x40020)],
    simops.make 0x6200 False 0x7e21 1 1 2 20 [(5, 4, 0x40025), (1, 4, 0x40020)],
    simops.make 0x38000000 True 0x3f000000 10 1 2 2 [(20, 4, 0x40024), (0, 16, 0x10008), (16, 4, 0x40020)],
    simops.make 0x7000 False 0x7e01 1 1 2 20 [(5, 4, 0x40024), (1, 4, 0x40020)],
    simops.make 0x4001 False 0x7e01 1 1 0 20 [(5, 4, 0x40024), (1, 4, 0x10008)],
    simops.make 0x20000000 True 0x3f0f0000 10 1 2 2 [(20, 4, 0x40024), (0, 16, 0x10008)],
    simops.make 0x39000000 True 0x3f000000 10 1 2 2 [(20, 4, 0x40024), (0, 16, 0x10008), (16, 4, 0x40020)],
    simops.make 0x7200 False 0x7e01 1 1 2 20 [(5, 4, 0x40024), (1, 4, 0x40020)],
    simops.make 0x2a00 False 0x7e00 1 1 1 4 [(0, 1, 0xc24), (5, 4, 0x40020), (1, 4, 0x40020)],
    simops.make 0x1a00 False 0x7e00 1 1 1 4 [(0, 1, 0xc24), (5, 4, 0x40020), (1, 4, 0x40020)],
    simops.make 0x3a00 False 0x7e00 1 1 1 4 [(0, 1, 0xc24), (5, 4, 0x40020), (1, 4, 0x40020)],
    simops.make 0x2600 False 0x7e01 1 1 1 132 [(5, 4, 0x40024), (1, 4, 0x40020)],
    simops.make 0x3600 False 0x7ee3 1 1 1 132 [(8, 1, 0xc24), (1, 4, 0x40021)],
    simops.make 0x3602 False 0x7eef 1 1 1 132 [(8, 1, 0xc24), (4, 1, 0xc20)],
    simops.make 0x2601 False 0x7e01 1 1 1 132 [(5, 4, 0x40024), (1, 4, 0x40020)],
    simops.make 0x3601 False 0x7ee3 1 1 1 132 [(8, 1, 0xc24), (1, 4, 0x40021)],
    simops.make 0x3603 False 0x7eef 1 1 1 132 [(8, 1, 0xc24), (4, 1, 0xc20)],
    simops.make 0x2800 False 0x7e00 1 1 1 4 [(0, 1, 0xc24), (5, 4, 0x40020), (1, 4, 0x40020)],
    simops.make 0x1800 False 0x7e00 1 1 1 4 [(0, 1, 0xc24), (5, 4, 0x40020), (1, 4, 0x40020)],
    simops.make 0x3800 False 0x7e00 1 1 1 4 [(0, 1, 0xc24), (5, 4, 0x40020), (1, 4, 0x40020)],
    simops.make 0x2e00 False 0x7e01 1 1 1 4 [(5, 4, 0x40024), (1, 4, 0x40020)],
    simops.make 0x2c00 False 0x7e00 1 1 1 4 [(0, 1, 0xc24), (5, 4, 0x40020), (1, 4, 0x40020)],
    simops.make 0x1c00 False 0x7e00 1 1 1 4 [(0, 1, 0xc24), (5, 4, 0x40020), (1, 4, 0x40020)],
    simops.make 0x3c00 False 0x7e00 1 1 1 4 [(0, 1, 0xc24), (5, 4, 0x40020), (1, 4, 0x40020)],
    simops.make 0x4000 False 0x7e01 1 1 0 4 [(5, 4, 0x40024), (1, 4, 0x40020)],
    simops.make 0x5000 False 0x7e23 1 1 1 4 [(5, 4, 0x40025), (1, 4, 0x40021)],
    simops.make 0x3e00 False 0x7e2f 1 1 1 4 [(5, 4, 0x40025), (4, 1, 0xc20)],
    simops.make 0x3e01 False 0x7ee3 1 1 1 4 [(1, 4, 0x40021), (8, 1, 0xc24)],
    simops.make 0x3e03 False 0x7eef 1 1 1 4 [(8, 1, 0xc24), (4, 1, 0xc20)],
    simops.make 0x5400 False 0x7e01 1 1 1 4 [(5, 4, 0x40024), (1, 4, 0x40020)],
    simops.make 0x4400 False 0x7e01 1 1 0 68 [(5, 4, 0x40024), (1, 4, 0x40020)],
    simops.make 0x4401 False 0x7e01 1 1 0 68 [(5, 4, 0x40024), (1, 4, 0x40020)],
    simops.make 0x1e04 False 0x7e0f 1 1 1 4 [(5, 4, 0x40024), (4, 1, 0xc20)],
    simops.make 0x1e00 False 0x7e0f 1 1 1 4 [(5, 4, 0x40024), (4, 1, 0xc20)],
    simops.make 0x1e02 False 0x7e0f 1 1 1 4 [(5, 4, 0x40024), (4, 1, 0xc20)],
    simops.make 0x5200 False 0x7e01 1 1 2 4 [(5, 4, 0x40024), (1, 4, 0x4020)],
    simops.make 0x1e41 False 0x7ee1 1 1 1 4 [(1, 4, 0x40020), (8, 1, 0xc24)],
    simops.make 0x1e01 False 0x7ee1 1 1 1 4 [(1, 4, 0x40020), (8, 1, 0xc24)],
    simops.make 0x1e21 False 0x7ee1 1 1 1 4 [(1, 4, 0x40020), (8, 1, 0xc24)],
    simops.make 0x5600 False 0x7e01 1 1 2 4 [(1, 4, 0x40020), (5, 4, 0x4024)],
    simops.make 0x5401 False 0x7e01 1 1 1 4 [(5, 4, 0x40024), (1, 4, 0x40020)],
    simops.make 0x4605 False 0x7e1f 1 1 0 4 [(5, 4, 0x40024)],
    simops.make 0x5605 False 0x7eff 1 1 1 4 [(8, 1, 0xc24)],
    simops.make 0x5e00 False 0x7fff 1 1 0 4 [],
    simops.make 0x4603 False 0x7e1f 1 1 0 4 [(5, 4, 0x40024)],
    simops.make 0x800 False 0x7e01 1 1 0 4 [(5, 4, 0x40024), (1, 4, 0x40020)],
    simops.make 0x4000000 True 0x3f000000 10 1 2 2 [(20, 4, 0x40024), (16, 4, 0x40020), (0, 16, 0x10008)],
    simops.make 0x5201 False 0x7e21 1 1 1 132 [(5, 4, 0x40025), (4, 1, 0x420), (1, 3, 0x10008)],
    simops.make 0x4201 False 0x7e01 1 1 1 132 [(5, 4, 0x40024), (4, 1, 0xc20), (1, 3, 0x10008)],
    simops.make 0x27000000 True 0x3ff00000 10 2 2 2 [(16, 4, 0x40020), (0, 16, 0x10010)],
    simops.make 0x2f000000 True 0x3f000000 10 2 2 2 [(16, 8, 0x8), (0, 16, 0x10010)],
    simops.make 0x5f60 False 0x7fff 1 3 2 4 [],
    simops.make 0x5f40 False 0x7fff 1 3 2 4 [],
    simops.make 0x1223 False 0x7eef 1 1 1 4 [(8, 1, 0xc24), (4, 1, 0xc20)],
    simops.make 0x4611 False 0x7e1f 1 1 2 68 [(5, 4, 0x40024)],
    simops.make 0x4613 False 0x7e1f 1 1 2 68 [(5, 4, 0x40024)],
    simops.make 0x5fc0 False 0x7fff 1 1 2 4 [],
    simops.make 0x2200 False 0x7e01 1 1 1 4 [(5, 4, 0x40024), (1, 4, 0x40020)],
    simops.make 0x3200 False 0x7ee1 1 1 1 4 [(8, 1, 0xc24), (1, 4, 0x40020)],
    simops.make 0x2201 False 0x7e01 1 1 1 4 [(5, 4, 0x40024), (1, 4, 0x8)],
    simops.make 0x3201 False 0x7ee1 1 1 1 4 [(8, 1, 0xc24), (1, 4, 0x20008)],
    simops.make 0x460b False 0x7e1f 1 1 1 68 [(5, 4, 0x40024)],
    simops.make 0x2400 False 0x7e01 1 1 1 4 [(5, 4, 0x40024), (1, 4, 0x40020)],
    simops.make 0x3400 False 0x7ee1 1 1 1 4 [(8, 1, 0xc24), (1, 4, 0x40020)],
    simops.make 0x2401 False 0x7e01 1 1 1 4 [(5, 4, 0x40024), (1, 4, 0x8)],
    simops.make 0x3401 False 0x7ee1 1 1 1 4 [(8, 1, 0xc24), (1, 4, 0x20008)],
    simops.make 0x2000 False 0x7e01 1 1 1 4 [(5, 4, 0x40024), (1, 4, 0x40020)],
    simops.make 0x3000 False 0x7ee1 1 1 1 4 [(8, 1, 0xc24), (1, 4, 0x40020)],
    simops.make 0x2001 False 0x7e01 1 1 1 4 [(5, 4, 0x40024), (1, 4, 0x8)],
    simops.make 0x3001 False 0x7ee1 1 1 1 4 [(8, 1, 0xc24), (1, 4, 0x20008)],
    simops.make 0x4609 False 0x7e1f 1 1 1 68 [(5, 4, 0x40024)],
    simops.make 0x34000000 True 0x3f000000 10 1 2 2 [(20, 4, 0x40020), (0, 16, 0x10008), (16, 4, 0x40020)],
    simops.make 0x6800 False 0x7e01 1 1 2 36 [(5, 4, 0x40020), (1, 4, 0x40020)],
    simops.make 0x6c1f False 0x7e1f 1 1 2 36 [(5, 4, 0x40020), (1, 4, 0x40020)],
    simops.make 0x6801 False 0x7e01 1 1 2 36 [(5, 4, 0x40020), (1, 4, 0x40020)],
    simops.make 0x6c01 False 0x7e01 1 1 2 36 [(5, 4, 0x40020), (1, 4, 0x40020)],
    simops.make 0x35000000 True 0x3f100000 10 1 2 2 [(20, 4, 0x40021), (0, 16, 0x10008), (16, 4, 0x40020)],
    simops.make 0x6a00 False 0x7e21 1 1 2 36 [(5, 4, 0x40021), (1, 4, 0x40020)],
    simops.make 0x6e1f False 0x7e3f 1 1 2 36 [(5, 4, 0x40021), (1, 4, 0x40020)],
    simops.make 0x6a01 False 0x7e21 1 1 2 36 [(5, 4, 0x40021), (1, 4, 0x40020)],
    simops.make 0x6e01 False 0x7e21 1 1 2 36 [(5, 4, 0x40021), (1, 4, 0x40020)],
    simops.make 0x3c000000 True 0x3f000000 10 1 2 2 [(20, 4, 0x40020), (0, 16, 0x10008), (16, 4, 0x40020)],
    simops.make 0x7800 False 0x7e01 1 1 2 36 [(5, 4, 0x40020), (1, 4, 0x40020)],
    simops.make 0x5fe0 False 0x7fff 1 1 2 4 [],
    simops.make 0x0 False 0x7e01 1 1 0 260 [(5, 4, 0x40024), (1, 4, 0x40020)],
    simops.make 0x1001 False 0x7ee3 1 1 1 4 [(8, 1, 0xc24), (1, 4, 0x40020)],
    simops.make 0x1003 False 0x7eef 1 1 1 4 [(8, 1, 0xc24), (4, 1, 0xc20)],
    simops.make 0x1000 False 0x7e23 1 1 1 260 [(5, 4, 0x40025), (1, 4, 0x40021)],
    simops.make 0x17000000 True 0x3ffffe22 12 1 1 2 [(5, 4, 0x40025), (1, 4, 0x40021), (0, 1, 0xc20)],
    simops.make 0x17000002 True 0x3ffffe2e 12 1 1 2 [(5, 4, 0x40025), (4, 1, 0xc20), (0, 1, 0xc20)],
    simops.make 0x17001000 True 0x3ffffe22 12 1 1 2 [(5, 4, 0x40025), (1, 4, 0x40021), (0, 1, 0xc20)],
    simops.make 0x17001002 True 0x3ffffe2e 12 1 1 2 [(5, 4, 0x40025), (4, 1, 0xc20), (0, 1, 0xc20)],
    simops.make 0x1 False 0x7e01 1 1 0 4 [(5, 4, 0x40024), (1, 4, 0x20008)],
    simops.make 0x5f00 False 0x7fe1 1 5 2 4 [(1, 4, 0x8)],
    simops.make 0x7000000 True 0x3f0f0000 10 1 2 2 [(20, 4, 0x40020), (0, 16, 0x10008)],
    simops.make 0xf000000 True 0x3f0f0000 10 1 2 2 [(20, 4, 0x40020), (0, 16, 0x10008)],
    simops.make 0x5f80 False 0x7fff 1 1 2 4 [],
    simops.make 0xa00 False 0x7e01 1 1 0 4 [(5, 4, 0x40024), (1, 4, 0x40020)],
    simops.make 0x5000000 True 0x3f000000 10 1 2 2 [(20, 4, 0x40024), (16, 4, 0x40020), (0, 16, 0x10008)]]"
  by code_simp

lemma length_Simops: "length Simops = 158"
  by (simp add: Simops_generated)

end
