(* ===== verification/Simops_Table.thy ===== *)
theory Simops_Table
  imports Simops_Alu Simops_Acc Simops_Mem Simops_Ctl D10V_Opc
begin

text \<open>
  The functions of \<open>src/src/sim/d10v/simops.c\<close> behind the table \<open>Simops\<close>, and the contract they all
  keep: an instruction function changes no register; it appends a bounded number of well-formed
  write-back slots. What it assumes of its operands is its list of operand classes; the theory
  proves that decoding an instruction of the table always delivers operands of these classes.
\<close>

section \<open>Operand classes\<close>

text \<open>
  How a function uses an element of \<open>OP\<close>: as the number of a general register, of the first
  register of a pair, of an accumulator, of a control register, or as a value.
\<close>

datatype opclass = Gpr | Pair | Accum | Creg | Val

fun class_ok :: "opclass \<Rightarrow> uint16 \<Rightarrow> bool" where
  "class_ok Gpr v \<longleftrightarrow> unat v < 16"
| "class_ok Pair v \<longleftrightarrow> unat v + 1 < 16"
| "class_ok Accum v \<longleftrightarrow> unat v < 2"
| "class_ok Creg v \<longleftrightarrow> unat v < 16"
| "class_ok Val v \<longleftrightarrow> True"

definition ops_ok :: "opclass list \<Rightarrow> sim \<Rightarrow> bool" where
  "ops_ok cl s \<longleftrightarrow> length (OP s) = 4 \<and> (\<forall>i < length cl. class_ok (cl ! i) (OP s ! i))"

lemma ops_ok_simps [simp]:
  "ops_ok [] s \<longleftrightarrow> length (OP s) = 4"
  "ops_ok [a] s \<longleftrightarrow> length (OP s) = 4 \<and> class_ok a (OP s ! 0)"
  "ops_ok [a, b] s \<longleftrightarrow> length (OP s) = 4 \<and> class_ok a (OP s ! 0) \<and> class_ok b (OP s ! 1)"
  "ops_ok [a, b, c] s \<longleftrightarrow> length (OP s) = 4 \<and> class_ok a (OP s ! 0) \<and> class_ok b (OP s ! 1)
     \<and> class_ok c (OP s ! 2)"
  by (auto simp: ops_ok_def less_Suc_eq numeral_2_eq_2)

section \<open>The contract of an instruction function\<close>

text \<open>
  \<open>pends k s t\<close>: \<open>t\<close> has the slots of \<open>s\<close> and at most \<open>k\<close> more, all well-formed. \<open>frame s t\<close>: the
  registers, the shape of the state and the slot of the packet are those of \<open>s\<close>.
\<close>

definition pends :: "nat \<Rightarrow> sim \<Rightarrow> sim \<Rightarrow> bool" where
  "pends k s t \<longleftrightarrow> (\<exists>xs. slot t = slot s @ xs \<and> list_all slot_ok xs \<and> length xs \<le> k)"

definition frame :: "sim \<Rightarrow> sim \<Rightarrow> bool" where
  "frame s t \<longleftrightarrow> regs t = regs s \<and> cregs t = cregs s \<and> sp t = sp s \<and> acc t = acc s
     \<and> length (OP t) = length (OP s) \<and> length (umem t) = length (umem s)
     \<and> ins_type t = ins_type s \<and> stop_simulator t = stop_simulator s"

text \<open>
  The number of slots an instruction may need: four; five for \<open>trap\<close>, which changes the \<open>PC\<close>; six
  for \<open>dbt\<close>, which changes the \<open>PC\<close> and does so only in a packet that is executed sequentially.
\<close>

definition budget :: "sim \<Rightarrow> nat" where
  "budget t =
     (if pc_changed t then if ins_type t \<in> {INS_LEFT, INS_RIGHT} then 6 else 5 else 4)"

definition issue_ok :: "sim \<Rightarrow> sim \<Rightarrow> bool" where
  "issue_ok s t \<longleftrightarrow> frame s t \<and> pends (budget t) s t \<and> (pc_changed s \<longrightarrow> pc_changed t)"

lemma pends_refl [simp]: "pends k s s"
  by (simp add: pends_def)

lemma pends_mono: "pends j s t \<Longrightarrow> j \<le> k \<Longrightarrow> pends k s t"
  by (auto simp: pends_def)

lemma pends_trans: "pends j s t \<Longrightarrow> pends k t u \<Longrightarrow> pends (j + k) s u"
  by (auto simp: pends_def)

lemma pends_slot_eq: "slot t' = slot t \<Longrightarrow> pends k s t' = pends k s t"
  by (simp add: pends_def)

lemma pends_append:
  assumes "slot t' = slot t @ xs" and "list_all slot_ok xs" and "length xs \<le> j"
    and "pends (k - j) s t" and "j \<le> k"
  shows "pends k s t'"
proof -
  have "pends j t t'" using assms by (auto simp: pends_def)
  then show ?thesis using assms pends_trans [of "k - j" s t j t'] by simp
qed

lemma frame_refl [simp]: "frame s s"
  by (simp add: frame_def)

lemma cr_ok_flag: "psw_flag m \<Longrightarrow> cr_ok 0 m"
  by (auto simp: psw_flag_def cr_ok.simps PSW_MASK_def)

lemma cr_ok_zero [simp]: "cr_ok n 0"
  by (simp add: cr_ok.simps)

lemma cr_ok_psw [simp]: "cr_ok 0 (v AND PSW_MASK)"
  by (simp add: cr_ok.simps and_zero_iff bit_simps)

lemma acc_ok_masked [simp]: "(v AND MASK40) AND - 1099511627776 = 0"
  by (simp add: and.assoc)

text \<open>Each setter pends at most the slots it is allowed.\<close>

lemma pends_SET_GPR:
  "pends (k - 1) s t \<Longrightarrow> n < 16 \<Longrightarrow> 0 < k \<Longrightarrow> pends k s (SET_GPR n v t)"
  by (rule pends_append [of _ t "[Slot_2 (Regs n) 0 (ucast v)]" 1]) (simp_all add: slot_simp)

lemma pends_SET_ACC:
  "pends (k - 1) s t \<Longrightarrow> n < 2 \<Longrightarrow> 0 < k \<Longrightarrow> pends k s (SET_ACC n v t)"
  by (rule pends_append [of _ t "[Slot_8 n 0 (v AND MASK40)]" 1]) (simp_all add: slot_simp)

lemma pends_SET_PSW_BIT:
  "pends (k - 1) s t \<Longrightarrow> psw_flag m \<Longrightarrow> 0 < k \<Longrightarrow> pends k s (SET_PSW_BIT m v t)"
  by (rule pends_append [of _ t "if PSW_bit m t = v then []
                                 else [Slot_2 (Cregs PSW_CR) (NOT m) (if v then m else 0)]" 1])
     (simp_all add: slot_simp cr_ok_flag)

lemma pends_SET_CREG:
  "pends (k - 1) s t \<Longrightarrow> n \<noteq> PSW_CR \<Longrightarrow> n < 16 \<Longrightarrow> 0 < k \<Longrightarrow> pends k s (SET_CREG n v t)"
  by (rule pends_append [of _ t "if cregs t ! n = cr_val n (ucast v) then []
                                 else [Slot_2 (Cregs n) 0 (cr_val n (ucast v))]" 1])
     (simp_all add: slot_simp cr_ok_cr_val)

lemma slot_SET_PSW:
  "slot (SET_CREG 0 v t) = slot t @ [Slot_2 (Sp (of_bool (PSW_SM t))) 0 (regs t ! SP_IDX)]
     @ (if PSW_SM t = ((ucast v AND PSW_MASK) AND PSW_SM_BIT \<noteq> 0) then []
        else [Slot_2 (Regs SP_IDX) 0 (sp t ! of_bool ((ucast v AND PSW_MASK) AND PSW_SM_BIT \<noteq> 0))])
     @ (if cregs t ! 0 = ucast v AND PSW_MASK then [] else [Slot_2 (Cregs 0) 0 (ucast v AND PSW_MASK)])"
  by (simp add: slot_simp Let_def)

lemma pends_SET_PSW: "pends (k - 3) s t \<Longrightarrow> 3 \<le> k \<Longrightarrow> pends k s (SET_CREG 0 v t)"
  by (rule pends_append [OF slot_SET_PSW]) (simp_all add: SP_IDX_def)

lemma pends_SET_PSW_same_SM:
  assumes "((ucast v AND PSW_MASK) AND PSW_SM_BIT \<noteq> 0) = PSW_SM t" and "pends (k - 2) s t" and "2 \<le> k"
  shows "pends k s (SET_CREG 0 v t)"
  by (rule pends_append [OF slot_SET_PSW _ _ assms(2,3)]) (simp_all add: assms(1) del: not_not)

lemma pends_SET_GPR32:
  "pends (k - 2) s t \<Longrightarrow> opn t 0 + 1 < 16 \<Longrightarrow> 2 \<le> k \<Longrightarrow> pends k s (SET_GPR32 v t)"
  by (rule pends_append [of _ t "[Slot_2 (Regs (opn t 0)) 0 (ucast (drop_bit 16 v)),
                                  Slot_2 (Regs (opn t 0 + 1)) 0 (ucast v)]" 2])
     (simp_all add: slot_simp)

lemma pends_INC_ADDR:
  "pends (k - 1) s t \<Longrightarrow> n < 16 \<Longrightarrow> 0 < k \<Longrightarrow> pends k s (INC_ADDR n i t)"
  by (simp add: INC_ADDR_def pends_SET_GPR)

lemma pends_JMP: "pends (k - 1) s t \<Longrightarrow> 0 < k \<Longrightarrow> pends k s (JMP v t)"
  by (simp add: JMP_def pends_SET_CREG pends_slot_eq [of "_\<lparr>pc_changed := True\<rparr>"])

lemmas pends_intros = pends_SET_GPR pends_SET_ACC pends_SET_PSW_BIT pends_SET_CREG pends_SET_GPR32
  pends_INC_ADDR pends_JMP

lemma pends_update [simp]:
  "pends k s (t\<lparr>exception := e\<rparr>) = pends k s t"
  "pends k s (t\<lparr>OP := ops\<rparr>) = pends k s t"
  "pends k s (t\<lparr>exe := x\<rparr>) = pends k s t"
  "pends k s (t\<lparr>mem := m\<rparr>) = pends k s t"
  "pends k s (t\<lparr>status := st\<rparr>) = pends k s t"
  "pends k s (t\<lparr>ins_type_counters := ic\<rparr>) = pends k s t"
  "pends k s (t\<lparr>ins_type := it\<rparr>) = pends k s t"
  "pends k s (snd (dmem_addr a t)) = pends k s t"
  "pends k s (snd (RB a t)) = pends k s t"
  "pends k s (snd (RW a t)) = pends k s t"
  "pends k s (snd (RLW a t)) = pends k s t"
  "pends k s (SB a b t) = pends k s t"
  "pends k s (SW a w t) = pends k s t"
  "pends k s (SLW a l t) = pends k s t"
  by (simp_all add: pends_def)

lemmas setter_defs = SET_GPR_def SET_ACC_def SET_PSW_BIT_def SET_CREG_def SET_GPR32_def INC_ADDR_def
  JMP_def SLOT_PEND_def SLOT_PEND_MASK_def SLOT_PEND_8_def SLOT_PEND_MASK_8_def SET_HELD_SP_def
  move_to_cr_def move_to_psw_def Let_def

text \<open>No setter touches anything else that the contract speaks of.\<close>

lemma setter_fields [simp]:
  "OP (SET_GPR n w t) = OP t" "pc_changed (SET_GPR n w t) = pc_changed t" "ins_type (SET_GPR n w t) = ins_type t"
  "OP (SET_ACC n d t) = OP t" "pc_changed (SET_ACC n d t) = pc_changed t" "ins_type (SET_ACC n d t) = ins_type t"
  "OP (SET_PSW_BIT m b t) = OP t" "pc_changed (SET_PSW_BIT m b t) = pc_changed t" "ins_type (SET_PSW_BIT m b t) = ins_type t"
  "OP (SET_CREG n w t) = OP t" "pc_changed (SET_CREG n w t) = pc_changed t" "ins_type (SET_CREG n w t) = ins_type t"
  "OP (SET_GPR32 w t) = OP t" "pc_changed (SET_GPR32 w t) = pc_changed t" "ins_type (SET_GPR32 w t) = ins_type t"
  "OP (INC_ADDR n i t) = OP t" "pc_changed (INC_ADDR n i t) = pc_changed t" "ins_type (INC_ADDR n i t) = ins_type t"
  "OP (JMP w t) = OP t" "pc_changed (JMP w t)" "ins_type (JMP w t) = ins_type t"
  by (simp_all add: setter_defs)

lemma frame_setter [simp]:
  "frame s (SET_GPR n w t) = frame s t"
  "frame s (SET_ACC n d t) = frame s t"
  "frame s (SET_PSW_BIT m b t) = frame s t"
  "frame s (SET_CREG n w t) = frame s t"
  "frame s (SET_GPR32 w t) = frame s t"
  "frame s (INC_ADDR n i t) = frame s t"
  "frame s (JMP w t) = frame s t"
  "frame s (t\<lparr>exception := e\<rparr>) = frame s t"
  "frame s (t\<lparr>exe := x\<rparr>) = frame s t"
  "frame s (t\<lparr>mem := me\<rparr>) = frame s t"
  "frame s (t\<lparr>status := st\<rparr>) = frame s t"
  "frame s (t\<lparr>ins_type_counters := ic\<rparr>) = frame s t"
  "frame s (t\<lparr>OP := (OP t)[j := v]\<rparr>) = frame s t"
  "frame s (snd (dmem_addr a t)) = frame s t"
  "frame s (snd (RB a t)) = frame s t"
  "frame s (snd (RW a t)) = frame s t"
  "frame s (snd (RLW a t)) = frame s t"
  "frame s (SB a l t) = frame s t"
  "frame s (SW a w t) = frame s t"
  "frame s (SLW a l t) = frame s t"
  by (simp_all add: frame_def setter_defs)

lemma opn_setter [simp]:
  "opn (SET_GPR n w t) j = opn t j"
  "opn (SET_ACC n d t) j = opn t j"
  "opn (SET_PSW_BIT m b t) j = opn t j"
  "opn (SET_CREG n w t) j = opn t j"
  "opn (SET_GPR32 w t) j = opn t j"
  "opn (t\<lparr>exception := e\<rparr>) j = opn t j"
  "opn (snd (RB a t)) j = opn t j"
  "opn (snd (RW a t)) j = opn t j"
  "opn (snd (RLW a t)) j = opn t j"
  "opn (SW a w t) j = opn t j"
  by (simp_all add: opn_def)

lemma issue_okI:
  "frame s t \<Longrightarrow> pends 4 s t \<Longrightarrow> (pc_changed s \<Longrightarrow> pc_changed t) \<Longrightarrow> issue_ok s t"
  by (auto simp: issue_ok_def budget_def intro: pends_mono)

lemma sat_pair_simps [simp]:
  "pends k s (snd (sat_pair v t)) \<longleftrightarrow> pends k s (SET_PSW_F0 (MAX32 <s v \<or> v <s MIN32) t)"
  "frame s (snd (sat_pair v t)) = frame s t"
  "OP (snd (sat_pair v t)) = OP t" "opn (snd (sat_pair v t)) j = opn t j"
  "pc_changed (snd (sat_pair v t)) = pc_changed t"
  by (simp_all add: sat_pair_def opn_def)

lemma count_simps [simp]:
  "pends k s (count_inc i t) = pends k s t" "pends k s (count_dec i t) = pends k s t"
  "frame s (count_inc i t) = frame s t" "frame s (count_dec i t) = frame s t"
  "pc_changed (count_inc i t) = pc_changed t" "pc_changed (count_dec i t) = pc_changed t"
  by (simp_all add: count_inc_def count_dec_def)

lemmas contract_simp = opn_def Let_def case_prod_beta if_distrib [of snd]

lemmas contract_split = option.split ins_type.split

section \<open>Every instruction function keeps the contract\<close>

lemma ops_G:
  assumes "ops_ok [Gpr] s"
  shows "issue_ok s (OP_4607 s)" "issue_ok s (OP_4D00 s)" "issue_ok s (OP_4C00 s)"
    "issue_ok s (OP_4605 s)" "issue_ok s (OP_4603 s)" "issue_ok s (OP_4611 s)"
    "issue_ok s (OP_4613 s)" "issue_ok s (OP_460B s)" "issue_ok s (OP_4609 s)"
  using assms by (auto simp: op_def contract_simp intro!: issue_okI pends_intros split: contract_split)

lemma ops_A:
  assumes "ops_ok [Accum] s"
  shows "issue_ok s (OP_5607 s)" "issue_ok s (OP_5601 s)" "issue_ok s (OP_5605 s)"
  using assms by (auto simp: op_def contract_simp intro!: issue_okI pends_intros split: contract_split)

lemma ops_GG:
  assumes "ops_ok [Gpr, Gpr] s"
  shows "issue_ok s (OP_200 s)" "issue_ok s (OP_C00 s)" "issue_ok s (OP_600 s)"
    "issue_ok s (OP_400 s)" "issue_ok s (OP_4600 s)" "issue_ok s (OP_6401 s)"
    "issue_ok s (OP_6001 s)" "issue_ok s (OP_6000 s)" "issue_ok s (OP_7000 s)"
    "issue_ok s (OP_7200 s)" "issue_ok s (OP_2600 s)" "issue_ok s (OP_2601 s)"
    "issue_ok s (OP_2E00 s)" "issue_ok s (OP_4000 s)" "issue_ok s (OP_5400 s)"
    "issue_ok s (OP_4400 s)" "issue_ok s (OP_4401 s)" "issue_ok s (OP_5401 s)"
    "issue_ok s (OP_800 s)" "issue_ok s (OP_2200 s)" "issue_ok s (OP_2400 s)"
    "issue_ok s (OP_2000 s)" "issue_ok s (OP_6800 s)" "issue_ok s (OP_6C1F s)"
    "issue_ok s (OP_6801 s)" "issue_ok s (OP_6C01 s)" "issue_ok s (OP_7800 s)"
    "issue_ok s (OP_0 s)" "issue_ok s (OP_A00 s)"
  using assms by (auto simp: op_def contract_simp intro!: issue_okI pends_intros split: contract_split)

lemma ops_AP:
  assumes "ops_ok [Accum, Pair] s"
  shows "issue_ok s (OP_1201 s)" "issue_ok s (OP_3600 s)" "issue_ok s (OP_3601 s)"
    "issue_ok s (OP_1001 s)"
  using assms by (auto simp: op_def contract_simp intro!: issue_okI pends_intros split: contract_split)

lemma ops_AA:
  assumes "ops_ok [Accum, Accum] s"
  shows "issue_ok s (OP_1203 s)" "issue_ok s (OP_1603 s)" "issue_ok s (OP_1403 s)"
    "issue_ok s (OP_3602 s)" "issue_ok s (OP_3603 s)" "issue_ok s (OP_3E03 s)"
    "issue_ok s (OP_1223 s)" "issue_ok s (OP_1003 s)"
  using assms by (auto simp: op_def contract_simp intro!: issue_okI pends_intros split: contract_split)

lemma ops_PP:
  assumes "ops_ok [Pair, Pair] s"
  shows "issue_ok s (OP_1200 s)" "issue_ok s (OP_5000 s)" "issue_ok s (OP_1000 s)"
  using assms by (auto simp: op_def contract_simp intro!: issue_okI pends_intros split: contract_split)

lemma ops_GGV:
  assumes "ops_ok [Gpr, Gpr, Val] s"
  shows "issue_ok s (OP_1000000 s)" "issue_ok s (OP_6000000 s)" "issue_ok s (OP_4000000 s)"
    "issue_ok s (OP_5000000 s)"
  using assms by (auto simp: op_def contract_simp intro!: issue_okI pends_intros split: contract_split)

lemma ops_PPA:
  assumes "ops_ok [Pair, Pair, Accum] s"
  shows "issue_ok s (OP_17000200 s)" "issue_ok s (OP_17001200 s)" "issue_ok s (OP_17000000 s)"
    "issue_ok s (OP_17001000 s)"
  using assms by (auto simp: op_def contract_simp intro!: issue_okI pends_intros split: contract_split)

lemma ops_PAA:
  assumes "ops_ok [Pair, Accum, Accum] s"
  shows "issue_ok s (OP_17000202 s)" "issue_ok s (OP_17001202 s)" "issue_ok s (OP_17000002 s)"
    "issue_ok s (OP_17001002 s)"
  using assms by (auto simp: op_def contract_simp intro!: issue_okI pends_intros split: contract_split)

lemma ops_GV:
  assumes "ops_ok [Gpr, Val] s"
  shows "issue_ok s (OP_201 s)" "issue_ok s (OP_C01 s)" "issue_ok s (OP_A01 s)"
    "issue_ok s (OP_801 s)" "issue_ok s (OP_E01 s)" "issue_ok s (OP_401 s)"
    "issue_ok s (OP_2000000 s)" "issue_ok s (OP_601 s)" "issue_ok s (OP_3000000 s)"
    "issue_ok s (OP_23000000 s)" "issue_ok s (OP_4001 s)" "issue_ok s (OP_20000000 s)"
    "issue_ok s (OP_27000000 s)" "issue_ok s (OP_2201 s)" "issue_ok s (OP_2401 s)"
    "issue_ok s (OP_2001 s)" "issue_ok s (OP_1 s)" "issue_ok s (OP_7000000 s)"
    "issue_ok s (OP_F000000 s)"
  using assms by (auto simp: op_def contract_simp intro!: issue_okI pends_intros split: contract_split)

lemma ops_V:
  assumes "ops_ok [Val] s"
  shows "issue_ok s (OP_4900 s)" "issue_ok s (OP_24800000 s)" "issue_ok s (OP_4800 s)"
    "issue_ok s (OP_24000000 s)" "issue_ok s (OP_4A00 s)" "issue_ok s (OP_25000000 s)"
    "issue_ok s (OP_4B00 s)" "issue_ok s (OP_25800000 s)"
  using assms by (auto simp: op_def contract_simp intro!: issue_okI pends_intros split: contract_split)

lemma ops_VV:
  assumes "ops_ok [Val, Val] s"
  shows "issue_ok s (OP_4E09 s)" "issue_ok s (OP_2F000000 s)"
  using assms by (auto simp: op_def contract_simp intro!: issue_okI pends_intros split: contract_split)

lemma ops_none:
  assumes "ops_ok [] s"
  shows "issue_ok s (OP_4E04 s)" "issue_ok s (OP_4E24 s)" "issue_ok s (OP_4E40 s)"
    "issue_ok s (OP_4E42 s)" "issue_ok s (OP_4E00 s)" "issue_ok s (OP_4E02 s)"
    "issue_ok s (OP_4E20 s)" "issue_ok s (OP_4E22 s)" "issue_ok s (OP_5E00 s)"
    "issue_ok s (OP_5FC0 s)" "issue_ok s (OP_5FE0 s)" "issue_ok s (OP_5F80 s)"
  using assms by (auto simp: op_def contract_simp intro!: issue_okI pends_intros split: contract_split)

lemma ops_PG:
  assumes "ops_ok [Pair, Gpr] s"
  shows "issue_ok s (OP_14002800 s)" "issue_ok s (OP_6601 s)" "issue_ok s (OP_6201 s)"
    "issue_ok s (OP_6200 s)" "issue_ok s (OP_6A00 s)" "issue_ok s (OP_6E1F s)"
    "issue_ok s (OP_6A01 s)" "issue_ok s (OP_6E01 s)"
  using assms by (auto simp: op_def contract_simp intro!: issue_okI pends_intros split: contract_split)

lemma ops_GP:
  assumes "ops_ok [Gpr, Pair] s"
  shows "issue_ok s (OP_15002A00 s)"
  using assms by (auto simp: op_def contract_simp intro!: issue_okI pends_intros split: contract_split)

lemma ops_GA:
  assumes "ops_ok [Gpr, Accum] s"
  shows "issue_ok s (OP_15002A02 s)" "issue_ok s (OP_1E04 s)" "issue_ok s (OP_1E00 s)"
    "issue_ok s (OP_1E02 s)" "issue_ok s (OP_1E41 s)" "issue_ok s (OP_1E01 s)"
    "issue_ok s (OP_1E21 s)"
  using assms by (auto simp: op_def contract_simp intro!: issue_okI pends_intros split: contract_split)

lemma ops_GVG:
  assumes "ops_ok [Gpr, Val, Gpr] s"
  shows "issue_ok s (OP_30000000 s)" "issue_ok s (OP_38000000 s)" "issue_ok s (OP_39000000 s)"
    "issue_ok s (OP_34000000 s)" "issue_ok s (OP_3C000000 s)"
  using assms by (auto simp: op_def contract_simp intro!: issue_okI pends_intros split: contract_split)

lemma ops_PVG:
  assumes "ops_ok [Pair, Val, Gpr] s"
  shows "issue_ok s (OP_31000000 s)" "issue_ok s (OP_35000000 s)"
  using assms by (auto simp: op_def contract_simp intro!: issue_okI pends_intros split: contract_split)

lemma ops_AGG:
  assumes "ops_ok [Accum, Gpr, Gpr] s"
  shows "issue_ok s (OP_2A00 s)" "issue_ok s (OP_1A00 s)" "issue_ok s (OP_3A00 s)"
    "issue_ok s (OP_2800 s)" "issue_ok s (OP_1800 s)" "issue_ok s (OP_3800 s)"
    "issue_ok s (OP_2C00 s)" "issue_ok s (OP_1C00 s)" "issue_ok s (OP_3C00 s)"
  using assms by (auto simp: op_def contract_simp intro!: issue_okI pends_intros split: contract_split)

lemma ops_PA:
  assumes "ops_ok [Pair, Accum] s"
  shows "issue_ok s (OP_3E00 s)" "issue_ok s (OP_3E01 s)"
  using assms by (auto simp: op_def contract_simp intro!: issue_okI pends_intros split: contract_split)

lemma ops_GC:
  assumes "ops_ok [Gpr, Creg] s"
  shows "issue_ok s (OP_5200 s)"
  using assms by (auto simp: op_def contract_simp intro!: issue_okI pends_intros split: contract_split)

lemma ops_PAV:
  assumes "ops_ok [Pair, Accum, Val] s"
  shows "issue_ok s (OP_5201 s)"
  using assms by (auto simp: op_def contract_simp intro!: issue_okI pends_intros split: contract_split)

lemma ops_GAV:
  assumes "ops_ok [Gpr, Accum, Val] s"
  shows "issue_ok s (OP_4201 s)"
  using assms by (auto simp: op_def contract_simp intro!: issue_okI pends_intros split: contract_split)

lemma ops_AG:
  assumes "ops_ok [Accum, Gpr] s"
  shows "issue_ok s (OP_3200 s)" "issue_ok s (OP_3400 s)" "issue_ok s (OP_3000 s)"
  using assms by (auto simp: op_def contract_simp intro!: issue_okI pends_intros split: contract_split)

lemma ops_AV:
  assumes "ops_ok [Accum, Val] s"
  shows "issue_ok s (OP_3201 s)" "issue_ok s (OP_3401 s)" "issue_ok s (OP_3001 s)"
  using assms by (auto simp: op_def contract_simp intro!: issue_okI pends_intros split: contract_split)

lemma pends_SET_CREG_any:
  "pends (k - 3) s t \<Longrightarrow> n < 16 \<Longrightarrow> 3 \<le> k \<Longrightarrow> pends k s (SET_CREG n v t)"
  using pends_mono [of "k - 3" s t "k - 1"]
  by (cases "n = 0") (auto intro: pends_SET_PSW pends_SET_CREG)

lemma ops_control:
  "ops_ok [Gpr, Creg] s \<Longrightarrow> issue_ok s (OP_5600 s)"
  "issue_ok s (OP_5F60 s)" "issue_ok s (OP_5F40 s)"
  by (auto simp: op_def contract_simp intro!: issue_okI pends_JMP pends_SET_CREG_any)

lemma ops_dbt: "issue_ok s (OP_5F20 s)"
proof (cases "ins_type s = INS_LEFT \<or> ins_type s = INS_RIGHT")
  case True
  have "pends 6 s (OP_5F20 s)"
    using True by (auto simp: op_def Let_def intro!: pends_JMP pends_SET_PSW pends_SET_CREG)
  moreover have "frame s (OP_5F20 s)" "pc_changed (OP_5F20 s)" "ins_type (OP_5F20 s) = ins_type s"
    using True by (auto simp: op_def Let_def)
  ultimately show ?thesis using True by (auto simp: issue_ok_def budget_def)
next
  case False
  then show ?thesis by (auto simp: op_def intro!: issue_okI)
qed

subsection \<open>Traps\<close>

lemma PSW_SET_CREG [simp]: "PSW (SET_CREG n v t) = PSW t" "PSW_bit m (SET_CREG n v t) = PSW_bit m t"
  by (simp_all add: PSW_def PSW_bit_def setter_defs)

lemma SM_of_masked [simp]: "((p AND PSW_SM_BIT) AND PSW_MASK) AND PSW_SM_BIT = p AND PSW_SM_BIT"
  by (simp add: PSW_MASK_def and.assoc)

lemma trap_vector_ok: "issue_ok s (trap_vector s)"
proof -
  have "pends 5 s (trap_vector s)"
    by (auto simp: trap_vector_def Let_def PSW_bit_def
        intro!: pends_JMP pends_SET_PSW_same_SM pends_SET_CREG)
  then show ?thesis
    by (auto simp: issue_ok_def budget_def trap_vector_def Let_def intro: pends_mono)
qed

text \<open>A system call writes at most \<open>r0\<close> and \<open>r1\<close>.\<close>

lemma pends_copy [simp]:
  "pends k s (snd (RETVAL x t)) \<longleftrightarrow> pends k s (SET_GPR 0 x t)"
  "pends k s (snd (RETVAL32 x t)) \<longleftrightarrow> pends k s (SET_GPR 1 x (SET_GPR 0 (drop_bit 16 x) t))"
  "frame s (snd (RETVAL x t)) = frame s t" "frame s (snd (RETVAL32 x t)) = frame s t"
  "pc_changed (snd (RETVAL x t)) = pc_changed t" "pc_changed (snd (RETVAL32 x t)) = pc_changed t"
  by (simp_all add: RETVAL_def RETVAL32_def Let_def)

lemmas syscall_defs = do_kill_def do_execve_def do_pipe_def do_read_def do_write_def do_lseek_def
  do_stat_def do_path_def

lemma syscall_calls_ok:
  "pends 2 s (snd (do_kill host s)) \<and> frame s (snd (do_kill host s))
     \<and> pc_changed (snd (do_kill host s)) = pc_changed s"
  "pends 2 s (snd (do_execve host e s)) \<and> frame s (snd (do_execve host e s))
     \<and> pc_changed (snd (do_execve host e s)) = pc_changed s"
  "pends 2 s (snd (do_pipe host s)) \<and> frame s (snd (do_pipe host s))
     \<and> pc_changed (snd (do_pipe host s)) = pc_changed s"
  "pends 2 s (snd (do_read host s)) \<and> frame s (snd (do_read host s))
     \<and> pc_changed (snd (do_read host s)) = pc_changed s"
  "pends 2 s (snd (do_write host s)) \<and> frame s (snd (do_write host s))
     \<and> pc_changed (snd (do_write host s)) = pc_changed s"
  "pends 2 s (snd (do_lseek host s)) \<and> frame s (snd (do_lseek host s))
     \<and> pc_changed (snd (do_lseek host s)) = pc_changed s"
  "pends 2 s (snd (do_stat host s)) \<and> frame s (snd (do_stat host s))
     \<and> pc_changed (snd (do_stat host s)) = pc_changed s"
  "pends 2 s (snd (do_path host r s)) \<and> frame s (snd (do_path host r s))
     \<and> pc_changed (snd (do_path host r s)) = pc_changed s"
  by (auto simp: syscall_defs Let_def case_prod_beta if_distrib [of snd] intro!: pends_SET_GPR)

lemma syscall_ok:
  "pends 2 s (snd (syscall host s)) \<and> frame s (snd (syscall host s))
     \<and> pc_changed (snd (syscall host s)) = pc_changed s"
  by (auto simp: syscall_def syscall_calls_ok intro!: pends_SET_GPR)

lemma ops_trap: "issue_ok s (OP_5F00 host s)"
proof -
  have "pends 4 s (snd (syscall host s))"
    using syscall_ok [of s host] by (auto intro: pends_mono)
  then show ?thesis
    using syscall_ok [of s host]
    by (auto simp: OP_5F00_def trap_vector_ok RETERR_def case_prod_beta Let_def
        intro!: issue_okI pends_SET_GPR intro: pends_mono)
qed

section \<open>The functions of the table\<close>

text \<open>
  The functions in the order of the table \<open>Simops\<close>, each with its opcode and the classes of the
  operands it uses; \<open>func host i\<close> is \<open>Simops[i].func\<close>. In the generated table the entry of an
  instruction refers to its function by the name \<open>OP_<opcode>\<close>, see \<open>Simops_linked\<close>.
\<close>

definition simop_table :: "host \<Rightarrow> (uint32 \<times> opclass list \<times> (sim \<Rightarrow> sim)) list" where
  "simop_table host =
   [(0x4607, [Gpr], OP_4607),
    (0x5607, [Accum], OP_5607),
    (0x200, [Gpr, Gpr], OP_200),
    (0x1201, [Accum, Pair], OP_1201),
    (0x1203, [Accum, Accum], OP_1203),
    (0x1200, [Pair, Pair], OP_1200),
    (0x1000000, [Gpr, Gpr, Val], OP_1000000),
    (0x17000200, [Pair, Pair, Accum], OP_17000200),
    (0x17000202, [Pair, Accum, Accum], OP_17000202),
    (0x17001200, [Pair, Pair, Accum], OP_17001200),
    (0x17001202, [Pair, Accum, Accum], OP_17001202),
    (0x201, [Gpr, Val], OP_201),
    (0xC00, [Gpr, Gpr], OP_C00),
    (0x6000000, [Gpr, Gpr, Val], OP_6000000),
    (0xC01, [Gpr, Val], OP_C01),
    (0x4900, [Val], OP_4900),
    (0x24800000, [Val], OP_24800000),
    (0xA01, [Gpr, Val], OP_A01),
    (0x4800, [Val], OP_4800),
    (0x24000000, [Val], OP_24000000),
    (0x4A00, [Val], OP_4A00),
    (0x25000000, [Val], OP_25000000),
    (0x4B00, [Val], OP_4B00),
    (0x25800000, [Val], OP_25800000),
    (0x801, [Gpr, Val], OP_801),
    (0xE01, [Gpr, Val], OP_E01),
    (0x5601, [Accum], OP_5601),
    (0x600, [Gpr, Gpr], OP_600),
    (0x1603, [Accum, Accum], OP_1603),
    (0x400, [Gpr, Gpr], OP_400),
    (0x1403, [Accum, Accum], OP_1403),
    (0x401, [Gpr, Val], OP_401),
    (0x2000000, [Gpr, Val], OP_2000000),
    (0x601, [Gpr, Val], OP_601),
    (0x3000000, [Gpr, Val], OP_3000000),
    (0x4600, [Gpr, Gpr], OP_4600),
    (0x23000000, [Gpr, Val], OP_23000000),
    (0x4E09, [Val, Val], OP_4E09),
    (0x4E09, [Val, Val], OP_4E09),
    (0x5F20, [], OP_5F20),
    (0x14002800, [Pair, Gpr], OP_14002800),
    (0x4E04, [], OP_4E04),
    (0x4E24, [], OP_4E24),
    (0x4E40, [], OP_4E40),
    (0x4E42, [], OP_4E42),
    (0x4E00, [], OP_4E00),
    (0x4E02, [], OP_4E02),
    (0x4E20, [], OP_4E20),
    (0x4E22, [], OP_4E22),
    (0x15002A00, [Gpr, Pair], OP_15002A00),
    (0x15002A02, [Gpr, Accum], OP_15002A02),
    (0x4D00, [Gpr], OP_4D00),
    (0x4C00, [Gpr], OP_4C00),
    (0x30000000, [Gpr, Val, Gpr], OP_30000000),
    (0x6401, [Gpr, Gpr], OP_6401),
    (0x6001, [Gpr, Gpr], OP_6001),
    (0x6000, [Gpr, Gpr], OP_6000),
    (0x31000000, [Pair, Val, Gpr], OP_31000000),
    (0x6601, [Pair, Gpr], OP_6601),
    (0x6201, [Pair, Gpr], OP_6201),
    (0x6200, [Pair, Gpr], OP_6200),
    (0x38000000, [Gpr, Val, Gpr], OP_38000000),
    (0x7000, [Gpr, Gpr], OP_7000),
    (0x4001, [Gpr, Val], OP_4001),
    (0x20000000, [Gpr, Val], OP_20000000),
    (0x39000000, [Gpr, Val, Gpr], OP_39000000),
    (0x7200, [Gpr, Gpr], OP_7200),
    (0x2A00, [Accum, Gpr, Gpr], OP_2A00),
    (0x1A00, [Accum, Gpr, Gpr], OP_1A00),
    (0x3A00, [Accum, Gpr, Gpr], OP_3A00),
    (0x2600, [Gpr, Gpr], OP_2600),
    (0x3600, [Accum, Pair], OP_3600),
    (0x3602, [Accum, Accum], OP_3602),
    (0x2601, [Gpr, Gpr], OP_2601),
    (0x3601, [Accum, Pair], OP_3601),
    (0x3603, [Accum, Accum], OP_3603),
    (0x2800, [Accum, Gpr, Gpr], OP_2800),
    (0x1800, [Accum, Gpr, Gpr], OP_1800),
    (0x3800, [Accum, Gpr, Gpr], OP_3800),
    (0x2E00, [Gpr, Gpr], OP_2E00),
    (0x2C00, [Accum, Gpr, Gpr], OP_2C00),
    (0x1C00, [Accum, Gpr, Gpr], OP_1C00),
    (0x3C00, [Accum, Gpr, Gpr], OP_3C00),
    (0x4000, [Gpr, Gpr], OP_4000),
    (0x5000, [Pair, Pair], OP_5000),
    (0x3E00, [Pair, Accum], OP_3E00),
    (0x3E01, [Pair, Accum], OP_3E01),
    (0x3E03, [Accum, Accum], OP_3E03),
    (0x5400, [Gpr, Gpr], OP_5400),
    (0x4400, [Gpr, Gpr], OP_4400),
    (0x4401, [Gpr, Gpr], OP_4401),
    (0x1E04, [Gpr, Accum], OP_1E04),
    (0x1E00, [Gpr, Accum], OP_1E00),
    (0x1E02, [Gpr, Accum], OP_1E02),
    (0x5200, [Gpr, Creg], OP_5200),
    (0x1E41, [Gpr, Accum], OP_1E41),
    (0x1E01, [Gpr, Accum], OP_1E01),
    (0x1E21, [Gpr, Accum], OP_1E21),
    (0x5600, [Gpr, Creg], OP_5600),
    (0x5401, [Gpr, Gpr], OP_5401),
    (0x4605, [Gpr], OP_4605),
    (0x5605, [Accum], OP_5605),
    (0x5E00, [], OP_5E00),
    (0x4603, [Gpr], OP_4603),
    (0x800, [Gpr, Gpr], OP_800),
    (0x4000000, [Gpr, Gpr, Val], OP_4000000),
    (0x5201, [Pair, Accum, Val], OP_5201),
    (0x4201, [Gpr, Accum, Val], OP_4201),
    (0x27000000, [Gpr, Val], OP_27000000),
    (0x2F000000, [Val, Val], OP_2F000000),
    (0x5F60, [], OP_5F60),
    (0x5F40, [], OP_5F40),
    (0x1223, [Accum, Accum], OP_1223),
    (0x4611, [Gpr], OP_4611),
    (0x4613, [Gpr], OP_4613),
    (0x5FC0, [], OP_5FC0),
    (0x2200, [Gpr, Gpr], OP_2200),
    (0x3200, [Accum, Gpr], OP_3200),
    (0x2201, [Gpr, Val], OP_2201),
    (0x3201, [Accum, Val], OP_3201),
    (0x460B, [Gpr], OP_460B),
    (0x2400, [Gpr, Gpr], OP_2400),
    (0x3400, [Accum, Gpr], OP_3400),
    (0x2401, [Gpr, Val], OP_2401),
    (0x3401, [Accum, Val], OP_3401),
    (0x2000, [Gpr, Gpr], OP_2000),
    (0x3000, [Accum, Gpr], OP_3000),
    (0x2001, [Gpr, Val], OP_2001),
    (0x3001, [Accum, Val], OP_3001),
    (0x4609, [Gpr], OP_4609),
    (0x34000000, [Gpr, Val, Gpr], OP_34000000),
    (0x6800, [Gpr, Gpr], OP_6800),
    (0x6C1F, [Gpr, Gpr], OP_6C1F),
    (0x6801, [Gpr, Gpr], OP_6801),
    (0x6C01, [Gpr, Gpr], OP_6C01),
    (0x35000000, [Pair, Val, Gpr], OP_35000000),
    (0x6A00, [Pair, Gpr], OP_6A00),
    (0x6E1F, [Pair, Gpr], OP_6E1F),
    (0x6A01, [Pair, Gpr], OP_6A01),
    (0x6E01, [Pair, Gpr], OP_6E01),
    (0x3C000000, [Gpr, Val, Gpr], OP_3C000000),
    (0x7800, [Gpr, Gpr], OP_7800),
    (0x5FE0, [], OP_5FE0),
    (0x0, [Gpr, Gpr], OP_0),
    (0x1001, [Accum, Pair], OP_1001),
    (0x1003, [Accum, Accum], OP_1003),
    (0x1000, [Pair, Pair], OP_1000),
    (0x17000000, [Pair, Pair, Accum], OP_17000000),
    (0x17000002, [Pair, Accum, Accum], OP_17000002),
    (0x17001000, [Pair, Pair, Accum], OP_17001000),
    (0x17001002, [Pair, Accum, Accum], OP_17001002),
    (0x1, [Gpr, Val], OP_1),
    (0x5F00, [Val], OP_5F00 host),
    (0x7000000, [Gpr, Val], OP_7000000),
    (0xF000000, [Gpr, Val], OP_F000000),
    (0x5F80, [], OP_5F80),
    (0xA00, [Gpr, Gpr], OP_A00),
    (0x5000000, [Gpr, Gpr, Val], OP_5000000)]"

definition func :: "host \<Rightarrow> nat \<Rightarrow> sim \<Rightarrow> sim" where
  "func host i = snd (snd (simop_table host ! i))"

definition classes :: "nat \<Rightarrow> opclass list" where
  "classes i = fst (snd (simop_table undefined ! i))"

lemmas op_contract = ops_G ops_A ops_GG ops_AP ops_AA ops_PP ops_GGV ops_PPA ops_PAA ops_GV ops_V
  ops_VV ops_none ops_PG ops_GP ops_GA ops_GVG ops_PVG ops_AGG ops_PA ops_GC ops_PAV ops_GAV ops_AG
  ops_AV ops_control ops_dbt ops_trap

lemma simop_table_contract:
  "list_all (\<lambda>(opc, cl, f). \<forall>s. ops_ok cl s \<longrightarrow> issue_ok s (f s)) (simop_table host)"
  unfolding simop_table_def by (simp del: ops_ok_simps add: op_contract)

section \<open>The table entry of an instruction fits its function\<close>

text \<open>
  An operand field fits a class when every value it can decode to is of that class. The first
  register of a pair is even because the mask of the instruction fixes the low bit of the field.
\<close>

fun operand_fits :: "simops \<Rightarrow> nat \<times> nat \<times> uint32 \<Rightarrow> opclass \<Rightarrow> bool" where
  "operand_fits e (sh, b, fl) Gpr \<longleftrightarrow> b = 4"
| "operand_fits e (sh, b, fl) Pair \<longleftrightarrow>
     b = 4 \<and> so_mask e AND 2 ^ sh \<noteq> 0 \<and> so_opcode e AND 2 ^ sh = 0"
| "operand_fits e (sh, b, fl) Accum \<longleftrightarrow> b = 1"
| "operand_fits e (sh, b, fl) Creg \<longleftrightarrow> b = 4"
| "operand_fits e (sh, b, fl) Val \<longleftrightarrow> b \<le> 16"

definition hash_bits :: "bool \<Rightarrow> uint32" where
  "hash_bits long = (if long then 0x3F000000 else 0x7E00)"

definition entry_ok :: "simops \<Rightarrow> uint32 \<times> opclass list \<Rightarrow> bool" where
  "entry_ok e = (\<lambda>(opc, cl).
     so_opcode e = opc \<and> list_all2 (operand_fits e) (so_operands e) cl
     \<and> length cl \<le> 4
     \<and> hash_bits (so_is_long e) AND so_mask e = hash_bits (so_is_long e)
     \<and> so_opcode e AND so_mask e = so_opcode e
     \<and> (so_is_long e \<longleftrightarrow> so_format e AND LONG_OPCODE \<noteq> 0))"

definition simop_classes :: "host \<Rightarrow> (uint32 \<times> opclass list) list" where
  "simop_classes host = map (\<lambda>(opc, cl, f). (opc, cl)) (simop_table host)"

lemma simop_classes_eq: "simop_classes host = simop_classes host'"
  by (simp add: simop_classes_def simop_table_def)

lemma Simops_entry_ok: "list_all2 entry_ok Simops (simop_classes undefined)"
  unfolding Simops_generated by code_simp

end
