(* ===== verification/Commit.thy ===== *)
theory Commit
  imports Simops_Table
begin

text \<open>
  The architected state and what an instruction does to it. \<open>view\<close> forgets everything of the
  simulator's state but the registers; \<open>commit s\<close> is the view after the write-back of the pending
  slots. Instructions are specified as direct writes to the view, and the lemmas of this theory
  turn the deferred writes of an instruction function into such direct writes.
\<close>

section \<open>The architected state\<close>

record arch =
  a_regs :: "uint16 list"
  a_cregs :: "uint16 list"
  a_sp :: "uint16 list"
  a_acc :: "int64 list"

definition view :: "sim \<Rightarrow> arch" where
  "view s = \<lparr>a_regs = regs s, a_cregs = cregs s, a_sp = sp s, a_acc = acc s\<rparr>"

definition commit :: "sim \<Rightarrow> arch" where
  "commit s = view (SLOT_FLUSH s)"

definition put_reg :: "nat \<Rightarrow> uint16 \<Rightarrow> arch \<Rightarrow> arch" where
  "put_reg n v a = a\<lparr>a_regs := (a_regs a)[n := v]\<rparr>"

definition put_creg :: "nat \<Rightarrow> uint16 \<Rightarrow> arch \<Rightarrow> arch" where
  "put_creg n v a = a\<lparr>a_cregs := (a_cregs a)[n := v]\<rparr>"

definition put_sp :: "nat \<Rightarrow> uint16 \<Rightarrow> arch \<Rightarrow> arch" where
  "put_sp n v a = a\<lparr>a_sp := (a_sp a)[n := v]\<rparr>"

definition put_acc :: "nat \<Rightarrow> int64 \<Rightarrow> arch \<Rightarrow> arch" where
  "put_acc n v a = a\<lparr>a_acc := (a_acc a)[n := v]\<rparr>"

definition flag :: "uint16 \<Rightarrow> arch \<Rightarrow> bool" where
  "flag m a \<longleftrightarrow> a_cregs a ! 0 AND m \<noteq> 0"

definition put_flag :: "uint16 \<Rightarrow> bool \<Rightarrow> arch \<Rightarrow> arch" where
  "put_flag m v a = put_creg 0 ((a_cregs a ! 0 AND NOT m) OR (if v then m else 0)) a"

lemmas put_defs = put_reg_def put_creg_def put_sp_def put_acc_def put_flag_def

lemma put_fields [simp]:
  "a_cregs (put_reg n v a) = a_cregs a" "a_sp (put_reg n v a) = a_sp a" "a_acc (put_reg n v a) = a_acc a"
  "a_regs (put_reg n v a) = (a_regs a)[n := v]"
  "a_regs (put_creg n v a) = a_regs a" "a_sp (put_creg n v a) = a_sp a" "a_acc (put_creg n v a) = a_acc a"
  "a_cregs (put_creg n v a) = (a_cregs a)[n := v]"
  "a_regs (put_sp n v a) = a_regs a" "a_cregs (put_sp n v a) = a_cregs a" "a_acc (put_sp n v a) = a_acc a"
  "a_sp (put_sp n v a) = (a_sp a)[n := v]"
  "a_regs (put_acc n d a) = a_regs a" "a_cregs (put_acc n d a) = a_cregs a" "a_sp (put_acc n d a) = a_sp a"
  "a_acc (put_acc n d a) = (a_acc a)[n := d]"
  "a_regs (put_flag m b a) = a_regs a" "a_sp (put_flag m b a) = a_sp a" "a_acc (put_flag m b a) = a_acc a"
  "length (a_cregs (put_flag m b a)) = length (a_cregs a)"
  by (simp_all add: put_defs)

lemma view_fields [simp]:
  "a_regs (view s) = regs s" "a_cregs (view s) = cregs s" "a_sp (view s) = sp s" "a_acc (view s) = acc s"
  "flag m (view s) = PSW_bit m s"
  by (simp_all add: view_def flag_def PSW_bit_def PSW_def)

section \<open>Flags\<close>

lemma set_bit_unchanged:
  assumes "psw_flag m" and "(x AND m \<noteq> 0) = v"
  shows "(x AND NOT m) OR (if v then m else 0) = x"
proof -
  from assms(1) obtain n where n: "m = 2 ^ n" using psw_flag_exp by blast
  show ?thesis
    using assms(2) unfolding n
    by (intro bit_word_eqI) (auto simp: and_single_bit bit_simps bit_exp_iff split: if_splits)
qed

lemma set_bit_test:
  assumes "psw_flag m" and "psw_flag m'"
  shows "((x AND NOT m) OR (if v then m else 0)) AND m' \<noteq> 0 \<longleftrightarrow> (if m' = m then v else x AND m' \<noteq> 0)"
proof -
  from assms(1) obtain n where n: "m = 2 ^ n" "n < 16" using psw_flag_exp by fastforce
  from assms(2) obtain n' where n': "m' = 2 ^ n'" "n' < 16" using psw_flag_exp by fastforce
  have "m' = m \<longleftrightarrow> n' = n" using n n' by (auto simp: bit_eq_iff bit_exp_iff)
  then show ?thesis unfolding n(1) n'(1) using n(2) n'(2) by (auto simp: and_single_bit bit_simps bit_exp_iff)
qed

lemma flag_put [simp]:
  "flag m (put_reg n v a) = flag m a" "flag m (put_sp n v a) = flag m a" "flag m (put_acc n d a) = flag m a"
  "n \<noteq> 0 \<Longrightarrow> flag m (put_creg n v a) = flag m a"
  by (simp_all add: flag_def)

lemma flag_put_flag:
  assumes "psw_flag m" and "psw_flag m'" and "a_cregs a \<noteq> []"
  shows "flag m' (put_flag m v a) = (if m' = m then v else flag m' a)"
  using set_bit_test [OF assms(1,2)] assms(3) by (simp add: flag_def put_flag_def)

lemma put_flag_same: "psw_flag m \<Longrightarrow> flag m a = v \<Longrightarrow> put_flag m v a = a"
  using set_bit_unchanged [of m "a_cregs a ! 0" v] by (simp add: flag_def put_flag_def put_creg_def)

section \<open>Committing the setters\<close>

lemma view_flush_slot:
  "view (flush_slot (Slot_2 (Regs n) m v) u) = put_reg n ((regs u ! n AND m) OR v) (view u)"
  "view (flush_slot (Slot_2 (Cregs n) m v) u) = put_creg n ((cregs u ! n AND m) OR v) (view u)"
  "view (flush_slot (Slot_2 (Sp n) m v) u) = put_sp n ((sp u ! n AND m) OR v) (view u)"
  "view (flush_slot (Slot_8 n m8 d) u) = put_acc n ((acc u ! n AND m8) OR d) (view u)"
  by (simp_all add: view_def put_defs)

lemma view_slot_update [simp]: "view (u\<lparr>slot := xs\<rparr>) = view u"
  by (simp add: view_def)

lemma commit_idle: "slot s = [] \<Longrightarrow> commit s = view s"
  by (simp add: commit_def SLOT_FLUSH_def)

text \<open>\<open>commit\<close> depends on the registers and the slots only.\<close>

lemma view_flush_slot_cong:
  assumes "view s = view t"
  shows "view (flush_slot x s) = view (flush_slot x t)"
proof -
  have "regs s = regs t" "cregs s = cregs t" "sp s = sp t" "acc s = acc t"
    using assms by (simp_all add: view_def)
  then show ?thesis
    using assms by (cases "(x, s)" rule: flush_slot.cases) (simp_all add: view_flush_slot del: flush_slot.simps)
qed

lemma view_fold_flush_cong:
  "view s = view t \<Longrightarrow> view (fold flush_slot xs s) = view (fold flush_slot xs t)"
proof (induction xs arbitrary: s t)
  case (Cons x xs)
  have "view (fold flush_slot xs (flush_slot x s)) = view (fold flush_slot xs (flush_slot x t))"
    by (rule Cons.IH [OF view_flush_slot_cong [OF Cons.prems]])
  then show ?case by (simp only: fold_simps)
qed simp

lemma commit_append:
  assumes "view t' = view t" and "slot t' = slot t @ xs"
  shows "commit t' = view (fold flush_slot xs (SLOT_FLUSH t))"
proof -
  have "commit t' = view (fold flush_slot xs (fold flush_slot (slot t) t'))"
    using assms(2) by (simp add: commit_def SLOT_FLUSH_def)
  also have "\<dots> = view (fold flush_slot xs (fold flush_slot (slot t) t))"
    using view_fold_flush_cong [OF view_fold_flush_cong [OF assms(1)]] .
  also have "\<dots> = view (fold flush_slot xs (SLOT_FLUSH t))"
    by (rule view_fold_flush_cong) (simp add: SLOT_FLUSH_def)
  finally show ?thesis .
qed

lemma commit_same: "view t' = view t \<Longrightarrow> slot t' = slot t \<Longrightarrow> commit t' = commit t"
  using commit_append [of t' t "[]"] by (simp add: commit_def)

lemma commit_update [simp]:
  "commit (t\<lparr>exception := e\<rparr>) = commit t" "commit (t\<lparr>pc_changed := p\<rparr>) = commit t"
  "commit (t\<lparr>OP := ops\<rparr>) = commit t" "commit (t\<lparr>exe := x\<rparr>) = commit t"
  "commit (t\<lparr>mem := m\<rparr>) = commit t" "commit (t\<lparr>status := st\<rparr>) = commit t"
  "commit (t\<lparr>ins_type := it\<rparr>) = commit t" "commit (t\<lparr>trace_psw := p'\<rparr>) = commit t"
  "commit (snd (RB ad t)) = commit t" "commit (snd (RW ad t)) = commit t" "commit (snd (RLW ad t)) = commit t"
  "commit (SB ad b t) = commit t" "commit (SW ad w t) = commit t" "commit (SLW ad l t) = commit t"
  "commit (snd (dmem_addr ad t)) = commit t" "commit (count_inc ity t) = commit t"
  by (rule commit_same; simp add: view_def count_inc_def)+

lemma commit_SET_GPR [simp]: "commit (SET_GPR n v t) = put_reg n (ucast v) (commit t)"
proof -
  have "commit (SET_GPR n v t) = view (fold flush_slot [Slot_2 (Regs n) 0 (ucast v)] (SLOT_FLUSH t))"
    by (rule commit_append) (simp_all add: slot_simp)
  then show ?thesis by (simp add: view_flush_slot commit_def del: flush_slot.simps)
qed

lemma commit_SET_ACC [simp]: "commit (SET_ACC n v t) = put_acc n (v AND MASK40) (commit t)"
proof -
  have "commit (SET_ACC n v t) = view (fold flush_slot [Slot_8 n 0 (v AND MASK40)] (SLOT_FLUSH t))"
    by (rule commit_append) (simp_all add: slot_simp)
  then show ?thesis by (simp add: view_flush_slot commit_def del: flush_slot.simps)
qed

lemma commit_SET_GPR32 [simp]:
  "commit (SET_GPR32 v t) = put_reg (opn t 0 + 1) (ucast v) (put_reg (opn t 0) (ucast (drop_bit 16 v)) (commit t))"
  by (simp add: SET_GPR32_def Let_def)

lemma commit_SET_PSW_BIT:
  assumes "psw_flag m" and "flag m (commit t) = PSW_bit m t"
  shows "commit (SET_PSW_BIT m v t) = put_flag m v (commit t)"
proof -
  have "commit (SET_PSW_BIT m v t) = view (fold flush_slot (if PSW_bit m t = v then []
      else [Slot_2 (Cregs PSW_CR) (NOT m) (if v then m else 0)]) (SLOT_FLUSH t))"
    by (rule commit_append) (simp_all add: slot_simp assms(1) view_def)
  also have "\<dots> = put_flag m v (commit t)"
    using put_flag_same [OF assms(1), of "commit t" v] assms(2)
    by (auto simp: view_flush_slot commit_def put_flag_def simp del: flush_slot.simps)
  finally show ?thesis .
qed

lemma commit_SET_CREG:
  assumes "n \<noteq> 0" and "a_cregs (commit t) ! n = cregs t ! n"
  shows "commit (SET_CREG n v t) = put_creg n (cr_val n (ucast v)) (commit t)"
proof -
  have "commit (SET_CREG n v t) = view (fold flush_slot (if cregs t ! n = cr_val n (ucast v) then []
      else [Slot_2 (Cregs n) 0 (cr_val n (ucast v))]) (SLOT_FLUSH t))"
    by (rule commit_append) (simp_all add: slot_simp assms(1) view_def)
  also have "\<dots> = put_creg n (cr_val n (ucast v)) (commit t)"
    using assms(2) by (auto simp: view_flush_slot commit_def put_creg_def simp del: flush_slot.simps)
      (metis arch.surjective arch.update_convs(2) list_update_id view_fields(2))
  finally show ?thesis .
qed

section \<open>Registers are read in the state before the commit\<close>

lemma setter_registers [simp]:
  "regs (SET_GPR n v t) = regs t" "cregs (SET_GPR n v t) = cregs t" "sp (SET_GPR n v t) = sp t" "acc (SET_GPR n v t) = acc t"
  "regs (SET_ACC n d t) = regs t" "cregs (SET_ACC n d t) = cregs t" "sp (SET_ACC n d t) = sp t" "acc (SET_ACC n d t) = acc t"
  "regs (SET_PSW_BIT m b t) = regs t" "cregs (SET_PSW_BIT m b t) = cregs t" "sp (SET_PSW_BIT m b t) = sp t" "acc (SET_PSW_BIT m b t) = acc t"
  "regs (SET_CREG n v t) = regs t" "cregs (SET_CREG n v t) = cregs t" "sp (SET_CREG n v t) = sp t" "acc (SET_CREG n v t) = acc t"
  "regs (SET_GPR32 v t) = regs t" "cregs (SET_GPR32 v t) = cregs t" "sp (SET_GPR32 v t) = sp t" "acc (SET_GPR32 v t) = acc t"
  "regs (JMP v t) = regs t" "cregs (JMP v t) = cregs t" "sp (JMP v t) = sp t" "acc (JMP v t) = acc t"
  by (simp_all add: setter_defs)

lemma read_setter [simp]:
  "GPR (SET_GPR n v t) k = GPR t k" "CREG (SET_GPR n v t) k = CREG t k" "ACC (SET_GPR n v t) k = ACC t k"
  "HELD_SP (SET_GPR n v t) k = HELD_SP t k" "PSW (SET_GPR n v t) = PSW t" "PSW_bit m' (SET_GPR n v t) = PSW_bit m' t" "opv (SET_GPR n v t) k = opv t k"
  "wf_sim (SET_GPR n v t) = wf_sim t"
  "GPR (SET_ACC n d t) k = GPR t k" "CREG (SET_ACC n d t) k = CREG t k" "ACC (SET_ACC n d t) k = ACC t k"
  "HELD_SP (SET_ACC n d t) k = HELD_SP t k" "PSW (SET_ACC n d t) = PSW t" "PSW_bit m' (SET_ACC n d t) = PSW_bit m' t" "opv (SET_ACC n d t) k = opv t k"
  "wf_sim (SET_ACC n d t) = wf_sim t"
  "GPR (SET_PSW_BIT m b t) k = GPR t k" "CREG (SET_PSW_BIT m b t) k = CREG t k" "ACC (SET_PSW_BIT m b t) k = ACC t k"
  "HELD_SP (SET_PSW_BIT m b t) k = HELD_SP t k" "PSW (SET_PSW_BIT m b t) = PSW t" "PSW_bit m' (SET_PSW_BIT m b t) = PSW_bit m' t" "opv (SET_PSW_BIT m b t) k = opv t k"
  "wf_sim (SET_PSW_BIT m b t) = wf_sim t"
  "GPR (SET_CREG n v t) k = GPR t k" "CREG (SET_CREG n v t) k = CREG t k" "ACC (SET_CREG n v t) k = ACC t k"
  "HELD_SP (SET_CREG n v t) k = HELD_SP t k" "PSW (SET_CREG n v t) = PSW t" "PSW_bit m' (SET_CREG n v t) = PSW_bit m' t" "opv (SET_CREG n v t) k = opv t k"
  "wf_sim (SET_CREG n v t) = wf_sim t"
  "GPR (SET_GPR32 v t) k = GPR t k" "CREG (SET_GPR32 v t) k = CREG t k" "ACC (SET_GPR32 v t) k = ACC t k"
  "HELD_SP (SET_GPR32 v t) k = HELD_SP t k" "PSW (SET_GPR32 v t) = PSW t" "PSW_bit m' (SET_GPR32 v t) = PSW_bit m' t" "opv (SET_GPR32 v t) k = opv t k"
  "wf_sim (SET_GPR32 v t) = wf_sim t"
  by (simp_all add: setter_defs GPR_def CREG_def ACC_def HELD_SP_def PSW_def PSW_bit_def opv_def wf_sim_def)

lemma wf_cregs [simp]: "wf_sim s \<Longrightarrow> cregs s \<noteq> []"
  by (auto simp: wf_sim_def)

lemma wf_SLOT_FLUSH: "wf_sim (SLOT_FLUSH t) = wf_sim t"
  by (simp add: wf_sim_def)

text \<open>The comparisons and the saturating instructions save the old \<open>F0\<close> in \<open>F1\<close>.\<close>

definition new_f0 :: "bool \<Rightarrow> arch \<Rightarrow> arch" where
  "new_f0 b a = put_flag PSW_F0_BIT b (put_flag PSW_F1_BIT (flag PSW_F0_BIT a) a)"

lemmas commit_simps = commit_SET_PSW_BIT commit_SET_CREG commit_idle flag_put_flag Let_def case_prod_beta

text \<open>A machine with given registers and operands, everything else as after start-up.\<close>

definition machine :: "uint16 list \<Rightarrow> uint16 list \<Rightarrow> sim" where
  "machine rs ops = (boot True)\<lparr>regs := rs, OP := ops\<rparr>"

lemma machine_fields [simp]:
  "regs (machine rs ops) = rs" "OP (machine rs ops) = ops" "slot (machine rs ops) = []"
  "cregs (machine rs ops) = replicate 16 0" "acc (machine rs ops) = replicate 2 0" "sp (machine rs ops) = replicate 2 0"
  "wf_sim (machine rs ops) \<longleftrightarrow> length rs = 16 \<and> length ops = 4"
  by (simp_all add: machine_def boot_def wf_sim_def)

end
