(* ===== verification/Alu_Correct.thy ===== *)
theory Alu_Correct
  imports Commit
begin

text \<open>
  Functional correctness of the 16-bit instructions: their effect on the architected state against
  a specification in terms of integers.
\<close>

section \<open>Addition and subtraction\<close>

definition imm16 :: "uint16 \<Rightarrow> uint16" where
  "imm16 v = (if v = 0 then 16 else v)"

lemma subi_carry:
  fixes x b :: uint16
  assumes "b \<noteq> 0"
  shows "push_bit 16 1 \<le> (ucast x :: uint32) + ucast (ucast (- (ucast b :: int32)) :: uint16) \<longleftrightarrow> b \<le> x"
    "(ucast ((ucast x :: uint32) + ucast (ucast (- (ucast b :: int32)) :: uint16)) :: uint16) = x - b"
proof -
  have n: "(ucast (- (ucast b :: int32)) :: uint16) = - b"
    by (simp add: ucast_down)
  have "uint (- b) = 2 ^ 16 - uint b"
    using assms uint_lt2p [of b] by (simp add: uint_word_ariths zmod_zminus1_eq_if mod_pos_pos_trivial unsigned_eq_0_iff)
  moreover have "uint ((ucast x :: uint32) + ucast (- b)) = uint x + uint (- b)"
    using uint_lt2p [of x] uint_lt2p [of "- b"] by (simp add: uint_plus_if' uint_ucast_up)
  ultimately show "push_bit 16 1 \<le> (ucast x :: uint32) + ucast (ucast (- (ucast b :: int32)) :: uint16) \<longleftrightarrow> b \<le> x"
    unfolding n by (simp add: word_le_def push_bit_of_1)
  show "(ucast ((ucast x :: uint32) + ucast (ucast (- (ucast b :: int32)) :: uint16)) :: uint16) = x - b"
    unfolding n by (simp add: ucast_down)
qed

lemma imm16_nonzero [simp]: "imm16 v \<noteq> 0"
  by (simp add: imm16_def)

text \<open>
  C7. \<open>add\<close> adds the two registers modulo \<open>2^16\<close> into the first and sets the carry flag exactly when
  the sum does not fit; nothing else of the architected state changes.
\<close>

theorem add_spec:
  assumes "wf_sim s" and "slot s = []"
  shows "commit (OP_200 s) =
    (let x = regs s ! opn s 0; y = regs s ! opn s 1
     in put_reg (opn s 0) (x + y) (put_flag PSW_C_BIT (2 ^ 16 \<le> uint x + uint y) (view s)))"
  using assms carry_add [of "regs s ! opn s 0" "regs s ! opn s 1"]
  by (simp add: OP_200_def commit_simps GPR_def)

theorem add_spec_witness:
  "commit (OP_200 (machine (0xFFFF # 2 # replicate 14 0) [0, 1, 0, 0]))
     = put_reg 0 1 (put_flag PSW_C_BIT True (view (machine (0xFFFF # 2 # replicate 14 0) [0, 1, 0, 0])))"
  using add_spec [of "machine (0xFFFF # 2 # replicate 14 0) [0, 1, 0, 0]"]
  by (simp add: opn_def)

text \<open>
  \<open>subi\<close>, which is computed by adding the negated constant in 32 bits, subtracts a constant from 1
  to 16 modulo \<open>2^16\<close>, where the encoding 0 stands for 16, and sets the carry flag exactly when there is no
  borrow.
\<close>

theorem subi_spec:
  assumes "wf_sim s" and "slot s = []"
  shows "commit (OP_1 s) =
    (let x = regs s ! opn s 0; y = imm16 (OP s ! 1)
     in put_reg (opn s 0) (x - y) (put_flag PSW_C_BIT (uint y \<le> uint x) (view s)))"
proof -
  define t where "t = (if OP s ! 1 = 0 then s\<lparr>OP := (OP s)[1 := 16]\<rparr> else s)"
  have t: "opv t 1 = ucast (imm16 (OP s ! 1))" "opn t 0 = opn s 0" "regs t = regs s" "slot t = []"
    "wf_sim t" "view t = view s" "PSW_bit m t = PSW_bit m s" for m
    using assms by (auto simp: t_def opv_def opn_def imm16_def wf_sim_def view_def)
  have "OP_1 s = (let tmp = (ucast (ucast (GPR t (opn t 0)) :: uint16) :: uint32)
                        + ucast (ucast (- opv t 1) :: uint16)
                  in SET_GPR (opn t 0) tmp (SET_PSW_C (tmp \<ge> push_bit 16 1) t))"
    by (simp only: OP_1_def Let_def t_def) (simp add: opn_def)
  then show ?thesis
    using t subi_carry [OF imm16_nonzero, where x = "regs s ! opn s 0" and v1 = "OP s ! 1"]
    by (simp add: commit_simps GPR_def word_le_def)
qed

theorem subi_spec_witness:
  "a_regs (commit (OP_1 (machine (replicate 16 15) [3, 0, 0, 0]))) ! 3 = 0xFFFF"
  using subi_spec [of "machine (replicate 16 15) [3, 0, 0, 0]"]
  by (simp add: opn_def imm16_def)

text \<open>
  \<open>add2w\<close> and \<open>sub2w\<close> add and subtract register pairs as 32-bit numbers, high half in the even
  register, with the carry flag as carry and as no-borrow.
\<close>

theorem add2w_sub2w_spec:
  assumes "wf_sim s" and "slot s = []"
  shows "commit (OP_1200 s) =
      (let x = GPR32 s (opn s 0); y = GPR32 s (opn s 1); z = x + y
       in put_reg (opn s 0 + 1) (ucast z) (put_reg (opn s 0) (ucast (drop_bit 16 z))
            (put_flag PSW_C_BIT (2 ^ 32 \<le> uint x + uint y) (view s))))
    \<and> commit (OP_1000 s) =
      (let x = GPR32 s (opn s 0); y = GPR32 s (opn s 1); z = x - y
       in put_reg (opn s 0 + 1) (ucast z) (put_reg (opn s 0) (ucast (drop_bit 16 z))
            (put_flag PSW_C_BIT (uint y \<le> uint x) (view s))))"
proof -
  have p: "push_bit 16 (GPR s n) OR GPR s (n + 1) = GPR32 s n" for n
    by (simp add: GPR_def GPR32_def)
  have m: "(ucast (z AND 0xFFFF) :: uint16) = ucast z" for z :: uint32
  proof -
    have "z AND 0xFFFF = take_bit 16 z" by (simp add: take_bit_eq_mask mask_eq_exp_minus_1)
    then show ?thesis by (intro bit_word_eqI) (simp add: bit_simps)
  qed
  show ?thesis
    unfolding OP_1200_def OP_1000_def p Let_def
    using assms carry_add [of "GPR32 s (opn s 0)" "GPR32 s (opn s 1)"]
    by (simp add: commit_simps word_le_def m)
qed

theorem add2w_sub2w_spec_witness:
  "let a = commit (OP_1200 (machine (replicate 16 0xFFFF) [0, 2, 0, 0]))
   in a_regs a ! 0 = 0xFFFF \<and> a_regs a ! 1 = 0xFFFE"
  using add2w_sub2w_spec [of "machine (replicate 16 0xFFFF) [0, 2, 0, 0]"]
  by (simp add: opn_def GPR32_def)

section \<open>Comparison, extremes\<close>

text \<open>
  The comparisons copy the old \<open>F0\<close> to \<open>F1\<close> and set \<open>F0\<close> to the result of the comparison: signed for
  \<open>cmp\<close>, unsigned for \<open>cmpu\<close>, equality for \<open>cmpeq\<close>. \<open>max\<close> and \<open>min\<close> leave the larger and the smaller of two
  signed registers in the first and set \<open>F0\<close> exactly when the second register was taken.
\<close>

theorem compare_spec:
  assumes "wf_sim s" and "slot s = []"
  shows "let x = regs s ! opn s 0; y = regs s ! opn s 1 in
     commit (OP_600 s) = new_f0 (sint x < sint y) (view s)
   \<and> commit (OP_4600 s) = new_f0 (uint x < uint y) (view s)
   \<and> commit (OP_400 s) = new_f0 (x = y) (view s)
   \<and> commit (OP_2600 s) = put_reg (opn s 0) (if sint x < sint y then y else x) (new_f0 (sint x < sint y) (view s))
   \<and> commit (OP_2601 s) = put_reg (opn s 0) (if sint y < sint x then y else x) (new_f0 (sint y < sint x) (view s))"
  using assms
  by (auto simp: OP_600_def OP_4600_def OP_400_def OP_2600_def OP_2601_def new_f0_def commit_simps
      GPR_def word_sless_alt sint_ucast_16_32 ucast_16_32_inject)

theorem compare_spec_witness:
  "let s = machine (0xFFFF # replicate 15 1) [0, 1, 0, 0] in
     commit (OP_600 s) = new_f0 True (view s) \<and> commit (OP_4600 s) = new_f0 False (view s)"
  using compare_spec [of "machine (0xFFFF # replicate 15 1) [0, 1, 0, 0]"]
  by (simp add: opn_def Let_def)

section \<open>Division\<close>

text \<open>
  One \<open>divs\<close> is one step of a restoring division of the pair \<open>h * 2^16 + l\<close> by \<open>v\<close>: shift in the next
  dividend bit, subtract if possible, shift the quotient bit in.
\<close>

definition div_step :: "nat \<Rightarrow> nat \<times> nat \<Rightarrow> nat \<times> nat" where
  "div_step v = (\<lambda>(h, l).
     let f = 2 * h + l div 2 ^ 15; q = (if v \<le> f then 1 else 0)
     in (f - q * v, 2 * (l mod 2 ^ 15) + q))"

definition div_inv :: "nat \<Rightarrow> nat \<Rightarrow> nat \<Rightarrow> nat \<times> nat \<Rightarrow> bool" where
  "div_inv d v k = (\<lambda>(h, l). h < v \<and> l < 2 ^ 16
     \<and> d = h * 2 ^ (16 - k) + l div 2 ^ k + v * (l mod 2 ^ k) * 2 ^ (16 - k))"

lemma div_inv_step:
  assumes "div_inv d v k (h, l)" and "k < 16"
  shows "div_inv d v (Suc k) (div_step v (h, l))"
proof -
  define b where "b = l div 2 ^ 15"
  define m where "m = l mod 2 ^ 15"
  define f where "f = 2 * h + b"
  define q where "q = (if v \<le> f then 1 else 0 :: nat)"
  have h: "h < v" and l: "l < 2 ^ 16" using assms(1) by (auto simp: div_inv_def)
  have b: "b < 2" using l by (simp add: b_def less_mult_imp_div_less)
  have m: "m < 2 ^ 15" by (simp add: m_def)
  have lbm: "l = b * 2 ^ 15 + m" by (simp add: b_def m_def)
  have f: "f < 2 * v" using h b by (simp add: f_def)
  then have "f - q * v < v" and qf: "f - q * v + q * v = f" by (auto simp: q_def)
  moreover have "2 * m + q < 2 ^ 16" using m by (auto simp: q_def)
  moreover have "d = (f - q * v) * 2 ^ (15 - k) + (2 * m + q) div 2 ^ Suc k
      + v * ((2 * m + q) mod 2 ^ Suc k) * 2 ^ (15 - k)"
  proof -
    obtain e where e: "15 = k + e" using assms(2) by (intro that [of "15 - k"]) simp
    have p: "(2::nat) ^ 15 = 2 ^ k * 2 ^ e" "16 - k = Suc e" "15 - k = e" using e by (simp_all add: power_add [symmetric])
    have d1: "(2 * m + q) div 2 ^ Suc k = m div 2 ^ k"
      by (simp add: q_def div_mult2_eq)
    have d2: "(2 * m + q) mod 2 ^ Suc k = 2 * (m mod 2 ^ k) + q"
      using mod_mult2_eq [of "2 * m + q" 2 "2 ^ k"] by (simp add: q_def)
    have l1: "l div 2 ^ k = b * 2 ^ e + m div 2 ^ k" "l mod 2 ^ k = m mod 2 ^ k"
    proof -
      have "l = m + b * 2 ^ e * 2 ^ k" unfolding lbm p(1) by (simp add: ac_simps)
      then show "l div 2 ^ k = b * 2 ^ e + m div 2 ^ k" "l mod 2 ^ k = m mod 2 ^ k" by simp_all
    qed
    have "d = h * (2 * 2 ^ e) + (b * 2 ^ e + m div 2 ^ k) + v * (m mod 2 ^ k) * (2 * 2 ^ e)"
      using assms(1) by (simp add: div_inv_def p l1)
    also have "\<dots> = f * 2 ^ e + m div 2 ^ k + v * (2 * (m mod 2 ^ k)) * 2 ^ e"
      by (simp add: f_def algebra_simps)
    also have "\<dots> = (f - q * v) * 2 ^ e + m div 2 ^ k + v * (2 * (m mod 2 ^ k) + q) * 2 ^ e"
      by (subst qf [symmetric]) (simp add: algebra_simps)
    finally show ?thesis unfolding d1 d2 p .
  qed
  moreover have "div_step v (h, l) = (f - q * v, 2 * m + q)"
    by (simp only: div_step_def prod.case Let_def f_def q_def b_def m_def)
  ultimately show ?thesis by (simp add: div_inv_def)
qed

lemma div_steps:
  assumes "h < v" and "l < 2 ^ 16"
  shows "(div_step v ^^ 16) (h, l) = ((h * 2 ^ 16 + l) mod v, (h * 2 ^ 16 + l) div v)"
proof -
  let ?d = "h * 2 ^ 16 + l"
  have "div_inv ?d v k ((div_step v ^^ k) (h, l))" if "k \<le> 16" for k
    using that
  proof (induction k)
    case 0
    then show ?case using assms by (simp add: div_inv_def)
  next
    case (Suc k)
    then show ?case using div_inv_step by (cases "(div_step v ^^ k) (h, l)") simp
  qed
  from this [of 16] obtain r q where rq: "(div_step v ^^ 16) (h, l) = (r, q)" "r < v" "?d = r + v * q"
    by (cases "(div_step v ^^ 16) (h, l)") (auto simp: div_inv_def)
  then show ?thesis by (simp add: mult.commute)
qed

lemma div_top_bit: "unat l div 2 ^ 15 < 2" for l :: uint16
  using unsigned_less [of l, where 'a = nat] by (simp add: less_mult_imp_div_less)

lemma div_shift_in:
  fixes h l :: uint16
  assumes "unat h < 2 ^ 15"
  shows "unat (ucast (push_bit 1 (ucast h :: int32) OR drop_bit 15 (ucast l :: int32)) :: uint16)
    = 2 * unat h + unat l div 2 ^ 15"
proof -
  have e: "(ucast (push_bit 1 (ucast h :: int32) OR drop_bit 15 (ucast l :: int32)) :: uint16)
      = push_bit 1 h OR drop_bit 15 l"
    by (intro bit_word_eqI) (auto simp: bit_simps simp del: One_nat_def push_bit_Suc)
  have "push_bit 1 h OR drop_bit 15 l = push_bit 1 h + drop_bit 15 l"
    by (rule disjunctive_add [symmetric])
       (auto simp: bit_simps dest: bit_imp_le_length simp del: One_nat_def push_bit_Suc)
  moreover have "unat (push_bit 1 h) = 2 * unat h"
    using assms by (simp add: push_bit_eq_mult unat_word_ariths)
  moreover have "unat (drop_bit 15 l) = unat l div 2 ^ 15"
    by (simp only: unat_drop_bit_eq) (simp add: drop_bit_eq_div)
  moreover have "unat l div 2 ^ 15 < 2"
    by (rule div_top_bit)
  ultimately show ?thesis using assms unfolding e by (simp add: unat_word_ariths)
qed

lemma div_shift_quotient:
  fixes l q :: uint16
  assumes "unat q < 2"
  shows "unat (ucast (push_bit 1 (ucast l :: int32) OR ucast q) :: uint16) = 2 * (unat l mod 2 ^ 15) + unat q"
proof -
  have q: "\<not> bit q (Suc n)" for n
  proof -
    have "q = of_nat (unat q)" by simp
    then have "q = 0 \<or> q = 1" using assms by (cases "unat q") auto
    then show ?thesis by auto
  qed
  have e: "(ucast (push_bit 1 (ucast l :: int32) OR ucast q) :: uint16) = push_bit 1 l OR q"
    by (intro bit_word_eqI) (auto simp: bit_simps simp del: One_nat_def push_bit_Suc)
  have "push_bit 1 l OR q = push_bit 1 l + q"
  proof (rule disjunctive_add [symmetric])
    show "\<not> bit (push_bit 1 l) n \<or> \<not> bit q n" for n
      using q by (cases n) (auto simp: bit_simps simp del: One_nat_def push_bit_Suc)
  qed
  moreover have "unat (push_bit 1 l) = 2 * (unat l mod 2 ^ 15)"
    using mod_mult_mult1 [of 2 "unat l" "2 ^ 15"] by (simp add: push_bit_eq_mult unat_word_ariths mult.commute)
  moreover have "unat l mod 2 ^ 15 < 2 ^ 15" by simp
  ultimately show ?thesis using assms unfolding e by (simp add: unat_word_ariths)
qed

definition divs_commit :: "sim \<Rightarrow> sim" where
  "divs_commit s = SLOT_FLUSH (OP_14002800 s)"

definition divs_pair :: "sim \<Rightarrow> nat \<times> nat" where
  "divs_pair s = (unat (regs s ! opn s 0), unat (regs s ! (opn s 0 + 1)))"

definition divs_ok :: "sim \<Rightarrow> bool" where
  "divs_ok s \<longleftrightarrow> wf_sim s \<and> slot s = [] \<and> opn s 0 + 1 < 16 \<and> opn s 1 < 16
     \<and> opn s 1 \<notin> {opn s 0, opn s 0 + 1} \<and> unat (regs s ! opn s 0) < unat (regs s ! opn s 1)
     \<and> unat (regs s ! opn s 1) \<le> 2 ^ 15"

lemma divs_one:
  assumes "divs_ok s"
  shows "divs_pair (divs_commit s) = div_step (unat (regs s ! opn s 1)) (divs_pair s)"
    "divs_ok (divs_commit s)" "regs (divs_commit s) ! opn (divs_commit s) 1 = regs s ! opn s 1"
    "OP (divs_commit s) = OP s"
proof -
  let ?h = "regs s ! opn s 0" and ?l = "regs s ! (opn s 0 + 1)" and ?v = "regs s ! opn s 1"
  define foo where "foo = (ucast (push_bit 1 (ucast ?h :: int32) OR drop_bit 15 (ucast ?l :: int32)) :: uint16)"
  define q where "q = (if ?v \<le> foo then 1 else 0 :: uint16)"
  define hi where "hi = (if ?v \<le> foo then foo - ?v else foo)"
  define lo where "lo = (ucast (push_bit 1 (ucast ?l :: int32) OR ucast q) :: uint16)"
  have h: "unat ?h < unat ?v" "unat ?v \<le> 2 ^ 15" "unat ?h < 2 ^ 15" using assms by (auto simp: divs_ok_def)
  have foo: "unat foo = 2 * unat ?h + unat ?l div 2 ^ 15"
    unfolding foo_def by (rule div_shift_in [OF h(3)])
  have q: "unat q = (if unat ?v \<le> unat foo then 1 else 0)" by (simp add: q_def word_le_nat_alt)
  have hi: "unat hi = unat foo - unat q * unat ?v"
    by (auto simp: hi_def q word_le_nat_alt unat_sub)
  have lo: "unat lo = 2 * (unat ?l mod 2 ^ 15) + unat q"
    unfolding lo_def by (rule div_shift_quotient) (simp add: q)
  have step: "div_step (unat ?v) (divs_pair s) = (unat hi, unat lo)"
    by (simp add: div_step_def divs_pair_def Let_def hi lo foo q)
  have less: "unat hi < unat ?v"
  proof -
    have "unat ?l div 2 ^ 15 < 2" by (rule div_top_bit)
    then show ?thesis using h(1) foo by (auto simp: hi q)
  qed
  have "commit (OP_14002800 s) = put_reg (opn s 0 + 1) lo (put_reg (opn s 0) hi (view s))"
    using assms
    unfolding lo_def hi_def q_def foo_def
    by (simp add: OP_14002800_def commit_simps GPR_def divs_ok_def word_sle_16_32 ucast_down ucast_scast_up
        del: push_bit_Suc One_nat_def)
  then have r: "regs (divs_commit s) = (regs s)[opn s 0 := hi, opn s 0 + 1 := lo]"
    by (metis divs_commit_def commit_def put_fields(4) view_fields(1))
  have o: "OP (divs_commit s) = OP s" by (simp add: divs_commit_def OP_14002800_def Let_def)
  then have n: "opn (divs_commit s) k = opn s k" for k by (simp add: opn_def)
  have len: "length (regs s) = 16" using assms by (simp add: divs_ok_def wf_sim_def)
  have wf: "wf_sim (divs_commit s)"
    using assms by (simp add: divs_ok_def divs_commit_def OP_14002800_def Let_def wf_SLOT_FLUSH)
  have sl: "slot (divs_commit s) = []" by (simp add: divs_commit_def)
  show "divs_pair (divs_commit s) = div_step (unat ?v) (divs_pair s)"
    unfolding step using assms len by (simp add: divs_pair_def n r divs_ok_def)
  show v: "regs (divs_commit s) ! opn (divs_commit s) 1 = ?v"
    using assms len by (simp add: n r divs_ok_def)
  show "divs_ok (divs_commit s)"
    using assms len less wf v sl by (auto simp: divs_ok_def n r)
  show "OP (divs_commit s) = OP s" by (rule o)
qed



end
