(* ===== verification/Acc_Correct.thy ===== *)
theory Acc_Correct
  imports Commit
begin

text \<open>
  Functional correctness of the instructions on the 40-bit accumulators, stated over the integers:
  \<open>accv\<close> is the signed value of an accumulator, \<open>pairv\<close> the signed value of a register pair.
\<close>

section \<open>Values\<close>

definition accv :: "sim \<Rightarrow> nat \<Rightarrow> int" where
  "accv s n = signed_take_bit 39 (uint (acc s ! n))"

definition pairv :: "sim \<Rightarrow> nat \<Rightarrow> int" where
  "pairv s n = sint (GPR32 s n)"

definition acc_of :: "int \<Rightarrow> int64" where
  "acc_of i = word_of_int (take_bit 40 i)"

text \<open>
  What the saturation block of the accumulator instructions makes of the exact result \<open>v\<close>: the
  result modulo \<open>2^40\<close> with \<open>ST\<close> clear. With \<open>ST\<close> set it is clipped, where the lower bound is
  compared as the positive number \<open>0xff80000000\<close>.
\<close>

definition acc_result :: "sim \<Rightarrow> int \<Rightarrow> int64" where
  "acc_result s v = (if PSW_ST s then (if 2 ^ 31 - 1 < v then 0x7fffffff else 0xff80000000) else acc_of v)"

lemma mask40: "x AND MASK40 = take_bit 40 x" for x :: int64
  by (simp add: take_bit_eq_mask mask_eq_exp_minus_1)

lemma acc_of_word: "take_bit 40 (word_of_int i) = acc_of i"
  unfolding acc_of_def by (rule bit_word_eqI) (simp add: bit_simps)

lemma take40_acc_of [simp]: "take_bit 40 (acc_of i) = acc_of i"
  unfolding acc_of_def by (rule bit_word_eqI) (simp add: bit_simps)

lemma SEXT40_acc: "SEXT40 (ACC s n) = word_of_int (accv s n)"
  unfolding accv_def ACC_def sint_SEXT40 [symmetric] by simp

lemma take40_SEXT40: "take_bit 40 (SEXT40 x) = take_bit 40 x"
proof (rule bit_word_eqI)
  fix n
  show "bit (take_bit 40 (SEXT40 x)) n = bit (take_bit 40 x) n"
    by (cases "n = 39") (auto simp: SEXT40_eq bit_simps min_def)
qed

lemma accv_range: "- (2 ^ 39) \<le> accv s n" "accv s n < 2 ^ 39"
  unfolding accv_def
  using signed_take_bit_int_greater_eq_minus_exp [of 39] signed_take_bit_int_less_exp [of 39] by simp_all

lemma pairv_range: "- (2 ^ 31) \<le> pairv s n" "pairv s n < 2 ^ 31"
  unfolding pairv_def using sint_ge [of "GPR32 s n"] sint_lt [of "GPR32 s n"] by simp_all

lemma sint_word_of_int64:
  assumes "- (2 ^ 63) \<le> i" and "i < 2 ^ 63"
  shows "sint (word_of_int i :: int64) = i"
  using assms by (simp add: sint_sbintrunc' signed_take_bit_int_eq_self)

lemma SEXT40_small:
  assumes "- (2 ^ 39) \<le> sint x" and "sint x < 2 ^ 39"
  shows "SEXT40 x = x"
proof -
  have "sint (SEXT40 x) = signed_take_bit 39 (sint x)"
    unfolding sint_SEXT40 by (simp add: sint_uint)
  also have "\<dots> = sint x" using assms by (simp add: signed_take_bit_int_eq_self)
  finally show ?thesis by (simp add: signed_word_eqI)
qed

lemma PAIR_eq: "PAIR s n = GPR32 s n"
  by (simp add: PAIR_def GPR32_def GPR_def)

lemma SPAIR_eq: "SPAIR s n = GPR32 s n"
proof (rule bit_word_eqI)
  fix k
  show "bit (SPAIR s n) k = bit (GPR32 s n) k" if "k < LENGTH(32)"
    using that by (cases "k = 31") (auto simp: SPAIR_def GPR32_def GPR_def SEXT16_eq bit_simps min_def)
qed

lemma scast_pair: "(scast (GPR32 s n) :: int64) = word_of_int (pairv s n)"
  by (simp add: pairv_def)

lemma SEXT40_pair: "SEXT40 (scast (GPR32 s n)) = word_of_int (pairv s n)"
  using pairv_range [of s n] by (simp add: scast_pair SEXT40_small sint_word_of_int64)

lemma sat_acc_eq:
  assumes "- (2 ^ 62) \<le> v" and "v < 2 ^ 62"
  shows "take_bit 40 (sat_acc MIN32 s (word_of_int v)) = acc_result s v"
proof -
  have "sint (word_of_int v :: int64) = v" using assms by (simp add: sint_word_of_int64)
  then show ?thesis
    by (auto simp: sat_acc_def acc_result_def word_sless_alt mask40 acc_of_word)
qed



section \<open>Arithmetic\<close>

text \<open>
  C9. The accumulator arithmetic is exact arithmetic on the signed values of the operands: the sum, the
  difference, the negation and the scaled sum (\<open>sadd\<close>, which shifts its second operand right by 16) are stored
  modulo \<open>2^40\<close>, or go through the saturation block when \<open>ST\<close> is set.
\<close>

theorem acc_arith_spec:
  assumes "slot s = []"
  shows "let a = opn s 0; b = opn s 1; result = (\<lambda>v. put_acc a (acc_result s v) (view s)) in
     commit (OP_1201 s) = result (accv s a + pairv s b)
   \<and> commit (OP_1203 s) = result (accv s a + accv s b)
   \<and> commit (OP_1001 s) = result (accv s a - pairv s b)
   \<and> commit (OP_1003 s) = result (accv s a - accv s b)
   \<and> commit (OP_5605 s) = result (- accv s a)
   \<and> commit (OP_1223 s) = result (accv s a + accv s b div 2 ^ 16)"
proof -
  have shift: "signed_drop_bit 16 (word_of_int (accv s n) :: int64) = word_of_int (accv s n div 2 ^ 16)" for n
  proof -
    have "sint (word_of_int (accv s n) :: int64) = accv s n"
      using accv_range [of s n] by (simp add: sint_word_of_int64)
    then have "sint (signed_drop_bit 16 (word_of_int (accv s n) :: int64)) = accv s n div 2 ^ 16"
      by (simp only: sint_signed_drop_bit_eq) (simp add: drop_bit_eq_div)
    then show ?thesis by (metis of_int_sint scast_id)
  qed
  have d: "- (2 ^ 39) \<le> accv s n div 2 ^ 16" "accv s n div 2 ^ 16 < 2 ^ 39" for n
    using accv_range [of s n] by simp_all
  have ok: "take_bit 40 (sat_acc MIN32 s (word_of_int v)) = acc_result s v" if "- (2 ^ 41) \<le> v" "v < 2 ^ 41" for v
    using that by (intro sat_acc_eq) simp_all
  note r = accv_range [of s "opn s 0"] accv_range [of s "opn s 1"] pairv_range [of s "opn s 1"] d [of "opn s 1"]
  show ?thesis
    using assms r
    by (simp add: OP_1201_def OP_1203_def OP_1001_def OP_1003_def OP_5605_def OP_1223_def Let_def commit_idle
        mask40 SEXT40_acc SPAIR_eq scast_pair shift ok flip: of_int_add of_int_diff of_int_minus)
qed

theorem acc_arith_spec_witness:
  "acc (SLOT_FLUSH (OP_1203 ((machine (replicate 16 0) [0, 1, 0, 0])\<lparr>acc := [5, 0xfffffffffe]\<rparr>))) ! 0 = 3"
proof -
  let ?s = "(machine (replicate 16 0) [0, 1, 0, 0])\<lparr>acc := [5, 0xfffffffffe]\<rparr>"
  have "commit (OP_1203 ?s) = put_acc 0 (acc_result ?s (accv ?s 0 + accv ?s 1)) (view ?s)"
    using acc_arith_spec [of ?s] by (simp add: opn_def Let_def)
  then have "a_acc (commit (OP_1203 ?s)) ! 0 = acc_result ?s (accv ?s 0 + accv ?s 1)" by simp
  then show ?thesis
    by (simp add: commit_def acc_result_def PSW_bit_def PSW_def accv_def acc_of_def)
qed

section \<open>Multiplication\<close>

definition fx :: "sim \<Rightarrow> int" where
  "fx s = (if PSW_FX s then 2 else 1)"

definition cap :: "sim \<Rightarrow> int \<Rightarrow> int" where
  "cap s v = (if PSW_ST s then min v (2 ^ 31 - 1) else v)"

lemma sint_word_of_int32: "- (2 ^ 31) \<le> i \<Longrightarrow> i < 2 ^ 31 \<Longrightarrow> sint (word_of_int i :: int32) = i"
  by (simp add: sint_sbintrunc' signed_take_bit_int_eq_self)

lemma sint16_range: "- 32768 \<le> sint x" "sint x \<le> 32767" for x :: uint16
  using sint_ge [of x] sint_lt [of x] by simp_all

lemma uint16_range: "0 \<le> uint x" "uint x \<le> 65535" for x :: uint16
  using uint_lt2p [of x] by simp_all

lemma product_ss: "\<bar>sint x * sint y\<bar> \<le> 32768 * 32768" for x y :: uint16
  unfolding abs_mult using sint16_range [of x] sint16_range [of y] by (intro mult_mono) auto

lemma product_su: "\<bar>sint x * uint y\<bar> \<le> 32768 * 65535" for x y :: uint16
  unfolding abs_mult using sint16_range [of x] uint16_range [of y] by (intro mult_mono) auto

lemma product_uu: "0 \<le> uint x * uint y" "uint x * uint y \<le> 65535 * 65535" for x y :: uint16
  using uint16_range [of x] uint16_range [of y] mult_mono [of "uint x" 65535 "uint y" 65535] by simp_all

lemma scast_word_of_int32:
  "- (2 ^ 31) \<le> i \<Longrightarrow> i < 2 ^ 31 \<Longrightarrow> (scast (word_of_int i :: int32) :: int64) = word_of_int i"
  by (metis of_int_sint sint_word_of_int32)

lemma SEXT40_word_of_int: "- (2 ^ 39) \<le> i \<Longrightarrow> i < 2 ^ 39 \<Longrightarrow> SEXT40 (word_of_int i) = word_of_int i"
  by (rule SEXT40_small) (simp_all add: sint_word_of_int64)

lemma mul_ss_eq: "mul_ss s = word_of_int (sint (regs s ! opn s 1) * sint (regs s ! opn s 2))"
proof -
  let ?x = "regs s ! opn s 1" and ?y = "regs s ! opn s 2"
  have "(scast ?x :: int32) * scast ?y = word_of_int (sint ?x * sint ?y)" by simp
  then show ?thesis
    using product_ss [of ?x ?y]
    by (simp add: mul_ss_def GPR_def scast_word_of_int32 SEXT40_word_of_int abs_le_iff del: of_int_mult)
qed

lemma mul_su_eq: "mul_su s = word_of_int (sint (regs s ! opn s 1) * uint (regs s ! opn s 2))"
proof -
  let ?x = "regs s ! opn s 1" and ?y = "regs s ! opn s 2"
  have "(scast ?x :: int32) * ucast ?y = word_of_int (sint ?x * uint ?y)" by simp
  then show ?thesis
    using product_su [of ?x ?y]
    by (simp add: mul_su_def GPR_def scast_word_of_int32 SEXT40_word_of_int abs_le_iff del: of_int_mult)
qed

lemma mul_uu_eq: "mul_uu s = word_of_int (uint (regs s ! opn s 1) * uint (regs s ! opn s 2))"
proof -
  let ?x = "regs s ! opn s 1" and ?y = "regs s ! opn s 2"
  have "uint ((ucast ?x :: uint32) * ucast ?y) = uint ?x * uint ?y"
    using product_uu [of ?x ?y] by (simp add: uint_word_ariths uint_ucast_up)
  then show ?thesis
    by (simp add: mul_uu_def GPR_def Let_def del: of_int_mult) (metis of_int_uint)
qed

lemma doubled:
  "push_bit 1 (word_of_int v :: int64) = word_of_int (2 * v)"
  by (simp add: push_bit_eq_mult mult.commute)

lemma fx_scaled:
  assumes "\<bar>v\<bar> \<le> 2 ^ 31"
  shows "(if PSW_FX s then SEXT40 (push_bit 1 (word_of_int v) AND MASK40) else word_of_int v) = word_of_int (fx s * v)"
proof -
  have "SEXT40 (take_bit 40 (word_of_int (2 * v))) = SEXT40 (word_of_int (2 * v))"
    by (simp only: SEXT40_eq) (rule bit_word_eqI, auto simp: bit_simps min_def)
  then show ?thesis using assms
    unfolding fx_def mask40 doubled by (simp add: SEXT40_word_of_int del: of_int_mult)
qed

lemma fx_scaled_plain:
  "(if PSW_FX s then push_bit 1 (word_of_int v) else word_of_int v :: int64) = word_of_int (fx s * v)"
  unfolding fx_def doubled by simp

lemma fx_bound: "\<bar>v\<bar> \<le> 2 ^ 31 \<Longrightarrow> \<bar>fx s * v\<bar> \<le> 2 ^ 32"
  by (auto simp: fx_def abs_mult)

lemma cap_word:
  assumes "\<bar>v\<bar> \<le> 2 ^ 32"
  shows "(if PSW_ST s \<and> MAX32 <s word_of_int v then MAX32 else word_of_int v) = word_of_int (cap s v)"
proof -
  have "sint (word_of_int v :: int64) = v" using assms by (simp add: sint_word_of_int64)
  then show ?thesis by (auto simp: word_sless_alt cap_def)
qed

lemma take40_add_acc: "take_bit 40 (ACC s n + w) = take_bit 40 (word_of_int (accv s n) + w)"
  "take_bit 40 (ACC s n - w) = take_bit 40 (word_of_int (accv s n) - w)"
proof -
  have t: "take_bit 40 x = ucast (ucast x :: 40 word)" for x :: int64
    by (rule bit_word_eqI) (auto simp: bit_simps)
  have "(ucast (ACC s n) :: 40 word) = ucast (SEXT40 (ACC s n))"
  proof (rule bit_word_eqI)
    fix k
    show "bit (ucast (ACC s n) :: 40 word) k = bit (ucast (SEXT40 (ACC s n)) :: 40 word) k" if "k < LENGTH(40)"
      using that by (cases "k = 39") (auto simp: SEXT40_eq bit_simps min_def)
  qed
  then show "take_bit 40 (ACC s n + w) = take_bit 40 (word_of_int (accv s n) + w)"
    "take_bit 40 (ACC s n - w) = take_bit 40 (word_of_int (accv s n) - w)"
    by (simp_all add: t ucast_down SEXT40_acc)
qed

text \<open>
  C10. The multiplications compute the exact product of signed or unsigned registers, doubled when \<open>FX\<close> is
  set, and store it, add it to or subtract it from the accumulator, modulo \<open>2^40\<close>; the signed ones cap the
  doubled product at \<open>2^31 - 1\<close> when \<open>ST\<close> is set.
\<close>

theorem multiply_spec:
  assumes "slot s = []"
  shows "let d = opn s 0; x = regs s ! opn s 1; y = regs s ! opn s 2;
         ss = cap s (fx s * (sint x * sint y)); su = fx s * (sint x * uint y); uu = fx s * (uint x * uint y);
         put = (\<lambda>v. put_acc d v (view s)) in
     commit (OP_2C00 s) = put (acc_of ss)
   \<and> commit (OP_1C00 s) = put (acc_of su)
   \<and> commit (OP_3C00 s) = put (acc_of uu)
   \<and> commit (OP_2A00 s) = put (acc_result s (accv s d + ss))
   \<and> commit (OP_1A00 s) = put (acc_of (accv s d + su))
   \<and> commit (OP_3A00 s) = put (acc_of (accv s d + uu))
   \<and> commit (OP_2800 s) = put (acc_result s (accv s d - ss))
   \<and> commit (OP_1800 s) = put (acc_of (accv s d - su))
   \<and> commit (OP_3800 s) = put (acc_of (accv s d - uu))"
proof -
  let ?d = "opn s 0" and ?x = "regs s ! opn s 1" and ?y = "regs s ! opn s 2"
  define ss where "ss = sint ?x * sint ?y"
  define su where "su = sint ?x * uint ?y"
  define uu where "uu = uint ?x * uint ?y"
  have b: "\<bar>ss\<bar> \<le> 2 ^ 31" "\<bar>su\<bar> \<le> 2 ^ 31"
    unfolding ss_def su_def using product_ss [of ?x ?y] product_su [of ?x ?y] by auto
  have m: "mul_ss s = word_of_int ss" "mul_su s = word_of_int su" "mul_uu s = word_of_int uu"
    unfolding ss_def su_def uu_def by (rule mul_ss_eq mul_su_eq mul_uu_eq)+
  note scaled = fx_scaled [OF b(1), of s] fx_scaled [OF b(2), of s] cap_word [OF fx_bound [OF b(1)], of s]
  have c: "\<bar>cap s (fx s * ss)\<bar> \<le> 2 ^ 32"
    using fx_bound [OF b(1), of s] by (auto simp: cap_def min_def)
  then have sat: "take_bit 40 (sat_acc MIN32 s (word_of_int (accv s ?d + cap s (fx s * ss)))) = acc_result s (accv s ?d + cap s (fx s * ss))"
      "take_bit 40 (sat_acc MIN32 s (word_of_int (cap s (fx s * ss) + accv s ?d))) = acc_result s (accv s ?d + cap s (fx s * ss))"
      "take_bit 40 (sat_acc MIN32 s (word_of_int (accv s ?d - cap s (fx s * ss)))) = acc_result s (accv s ?d - cap s (fx s * ss))"
    using accv_range [of s ?d] sat_acc_eq [of "accv s ?d + cap s (fx s * ss)" s] sat_acc_eq [of "accv s ?d - cap s (fx s * ss)" s]
    by (simp_all add: abs_le_iff add.commute)
  have mx: "take_bit 40 (if PSW_ST s \<and> MAX32 <s word_of_int (fx s * ss) then MAX32 else acc_of (fx s * ss))
      = acc_of (cap s (fx s * ss))"
    using arg_cong [OF scaled(3), of "take_bit 40"] by (simp add: acc_of_word if_distrib del: of_int_mult cong: if_cong)
  show ?thesis
    unfolding Let_def ss_def [symmetric] su_def [symmetric] uu_def [symmetric]
      OP_2C00_def OP_1C00_def OP_3C00_def OP_2A00_def OP_1A00_def OP_3A00_def OP_2800_def OP_1800_def OP_3800_def
      m scaled fx_scaled_plain SEXT40_acc
    using assms
    by (simp only: commit_SET_ACC commit_idle mask40 mx scaled sat acc_of_word take40_add_acc
        flip: of_int_add of_int_diff) simp
qed

theorem multiply_spec_witness:
  "let s = (machine ([0, 0xFFFF, 3] @ replicate 13 0) [0, 1, 2, 0])\<lparr>acc := [10, 0]\<rparr> in
     acc (SLOT_FLUSH (OP_2A00 s)) ! 0 = 7 \<and> acc (SLOT_FLUSH (OP_3A00 s)) ! 0 = 196615"
proof -
  let ?s = "(machine ([0, 0xFFFF, 3] @ replicate 13 0) [0, 1, 2, 0])\<lparr>acc := [10, 0]\<rparr>"
  have "a_acc (commit (OP_2A00 ?s)) ! 0 = 7" "a_acc (commit (OP_3A00 ?s)) ! 0 = 196615"
    using multiply_spec [of ?s]
    by (simp_all add: opn_def Let_def acc_result_def PSW_bit_def PSW_def accv_def acc_of_def cap_def fx_def)
  then show ?thesis by (simp add: commit_def)
qed

section \<open>Normalisation\<close>

definition fits :: "nat \<Rightarrow> int \<Rightarrow> bool" where
  "fits k x \<longleftrightarrow> - (2 ^ k) \<le> x \<and> x < 2 ^ k"

definition magnitude :: "int \<Rightarrow> int" where
  "magnitude x = (if x < 0 then NOT x else x)"

lemma fits_magnitude: "fits k x \<longleftrightarrow> magnitude x < 2 ^ k"
proof -
  have "0 < (2::int) ^ k" by simp
  then show ?thesis unfolding fits_def magnitude_def not_int_def by (auto simp del: zero_less_power)
qed

lemma magnitude_nonneg: "0 \<le> magnitude x"
  by (simp add: magnitude_def not_int_def)

lemma uint_magnitude:
  assumes "fits k x" and "k \<le> LENGTH('a::len)"
  shows "uint (word_of_int (magnitude x) :: 'a word) = magnitude x"
proof -
  have "magnitude x < 2 ^ LENGTH('a)"
    using assms(1) order_less_le_trans [OF _ power_increasing [OF assms(2), of "2 :: int"]]
    by (simp add: fits_magnitude)
  then show ?thesis by (simp add: uint_word_of_int_eq take_bit_int_eq_self magnitude_nonneg)
qed

lemma top_bit_test:
  fixes w :: "'a::len word"
  assumes "uint w < 2 ^ Suc m"
  shows "w AND 2 ^ m \<noteq> 0 \<longleftrightarrow> 2 ^ m \<le> uint w"
proof -
  have "uint w div 2 ^ m = (if 2 ^ m \<le> uint w then 1 else 0)"
    using assms by (auto intro: int_div_pos_eq [where r = "uint w - 2 ^ m"] div_pos_pos_trivial)
  then have "bit (uint w) m \<longleftrightarrow> 2 ^ m \<le> uint w" by (simp add: bit_iff_odd)
  then show ?thesis by (auto simp: and_single_bit bit_uint_iff dest: bit_imp_le_length)
qed

lemma exp_loop_spec:
  fixes tmp :: "'a::len word"
  assumes "uint tmp < 2 ^ Suc m" and "n \<le> Suc m" and "m < LENGTH('a)"
  shows "case exp_loop n i (2 ^ m) tmp of
      None \<Rightarrow> uint tmp < 2 ^ (Suc m - n)
    | Some r \<Rightarrow> \<exists>j<n. r = i + of_nat j \<and> 2 ^ (m - j) \<le> uint tmp \<and> uint tmp < 2 ^ (Suc m - j)"
  using assms
proof (induction n arbitrary: m i)
  case (Suc n)
  show ?case
  proof (cases "2 ^ m \<le> uint tmp")
    case True
    then show ?thesis using Suc.prems by (auto simp: top_bit_test intro: exI [of _ 0])
  next
    case False
    then show ?thesis
    proof (cases m)
      case (Suc k)
      have "drop_bit 1 (2 ^ m :: 'a word) = 2 ^ k"
        using Suc.prems Suc by (intro bit_word_eqI) (auto simp: bit_simps bit_exp_iff)
      then have e: "exp_loop (Suc n) i (2 ^ m) tmp = exp_loop n (i + 1) (2 ^ k) tmp"
        using Suc.prems False by (simp add: top_bit_test del: One_nat_def)
      have IH: "case exp_loop n (i + 1) (2 ^ k) tmp of
          None \<Rightarrow> uint tmp < 2 ^ (Suc k - n)
        | Some r \<Rightarrow> \<exists>j<n. r = (i + 1) + of_nat j \<and> 2 ^ (k - j) \<le> uint tmp \<and> uint tmp < 2 ^ (Suc k - j)"
        using Suc.IH [of k "i + 1"] Suc.prems False Suc by simp
      show ?thesis
      proof (cases "exp_loop n (i + 1) (2 ^ k) tmp")
        case (Some r)
        with IH obtain j where "j < n" "r = (i + 1) + of_nat j" "2 ^ (k - j) \<le> uint tmp" "uint tmp < 2 ^ (Suc k - j)"
          by auto
        then show ?thesis unfolding e Some using Suc by (auto intro!: exI [of _ "Suc j"])
      qed (use IH Suc e in simp)
    qed (use Suc.prems False top_bit_test [of tmp 0] in auto)
  qed
qed simp

lemma ucast_of_int: "LENGTH('b::len) \<le> LENGTH('a::len) \<Longrightarrow> (ucast (word_of_int v :: 'a word) :: 'b word) = word_of_int v"
  by (rule bit_word_eqI) (auto simp: bit_simps)

lemma exp_loop_exponent:
  fixes tmp :: "'a::len word"
  assumes "uint tmp = magnitude x" and "fits (Suc m) x" and "m < LENGTH('a)" and "n \<le> Suc m" and "Suc m - n = 15"
    and c: "c = word_of_int (int m - 29)"
  shows "\<exists>r. int 31 - int (Suc m) \<le> r \<and> r \<le> 16 \<and> fits (nat (31 - r)) x \<and> (r < 16 \<longrightarrow> \<not> fits (nat (30 - r)) x)
    \<and> (case exp_loop n 1 (2 ^ m) tmp of None \<Rightarrow> 16 | Some i \<Rightarrow> i - c) = word_of_int r"
proof -
  have u: "uint tmp < 2 ^ Suc m" using assms(1,2) by (simp add: fits_magnitude)
  show ?thesis
  proof (cases "exp_loop n 1 (2 ^ m) tmp")
    case None
    then have "fits 15 x"
      using exp_loop_spec [OF u assms(4,3), of 1] assms(1,5) by (simp add: fits_magnitude)
    moreover have "14 \<le> m" using assms(5) by simp
    ultimately show ?thesis using None by (intro exI [of _ 16]) simp
  next
    case (Some i)
    then obtain j where j: "j < n" "i = 1 + of_nat j" "2 ^ (m - j) \<le> uint tmp" "uint tmp < 2 ^ (Suc m - j)"
      using exp_loop_spec [OF u assms(4,3), of 1] by auto
    let ?r = "int j + 30 - int m"
    have jm: "j \<le> m" "15 \<le> m - j" using j(1) assms(4,5) by simp_all
    have "nat (31 - ?r) = Suc m - j" "nat (30 - ?r) = m - j" using jm by simp_all
    then have "fits (nat (31 - ?r)) x" "\<not> fits (nat (30 - ?r)) x"
      using j(3,4) assms(1) by (simp_all add: fits_magnitude)
    moreover have "i - c = word_of_int ?r"
      unfolding j(2) c by simp
    ultimately show ?thesis using Some jm by (intro exI [of _ ?r]) simp
  qed
qed

text \<open>
  Both \<open>exp\<close> instructions compute the exponent by which the operand, a register pair or an accumulator, can be
  shifted left so that it just fills 32 bits: shifted by the result (right, when it is negative) the value fits
  in a signed 32-bit number, and shifted once more it does not, except that the result is at most 16.
\<close>

theorem exp_spec:
  assumes "slot s = []"
  shows "(\<exists>r. commit (OP_15002A00 s) = put_reg (opn s 0) (word_of_int r) (view s) \<and> 0 \<le> r \<and> r \<le> 16
        \<and> fits (nat (31 - r)) (pairv s (opn s 1)) \<and> (r < 16 \<longrightarrow> \<not> fits (nat (30 - r)) (pairv s (opn s 1))))
    \<and> (\<exists>r. commit (OP_15002A02 s) = put_reg (opn s 0) (word_of_int r) (view s) \<and> - 8 \<le> r \<and> r \<le> 16
        \<and> fits (nat (31 - r)) (accv s (opn s 1)) \<and> (r < 16 \<longrightarrow> \<not> fits (nat (30 - r)) (accv s (opn s 1))))"
proof
  let ?x = "pairv s (opn s 1)"
  define t where "t = (if 0 <=s (ucast (GPR s (opn s 1)) :: int16) then PAIR s (opn s 1) else NOT (PAIR s (opn s 1)))"
  have x: "fits 31 ?x" using pairv_range [of s "opn s 1"] by (simp add: fits_def)
  have sign: "0 <=s (ucast (GPR s (opn s 1)) :: int16) \<longleftrightarrow> 0 \<le> ?x"
    using bit_last_iff [of "regs s ! opn s 1"] bit_last_iff [of "GPR32 s (opn s 1)"]
    by (simp add: word_sle_eq pairv_def GPR_def GPR32_def bit_simps not_le [symmetric] del: bit_last_iff) (auto dest: bit_imp_le_length)
  have "GPR32 s (opn s 1) = word_of_int ?x" by (simp add: pairv_def)
  then have "t = word_of_int (magnitude ?x)"
    unfolding t_def sign PAIR_eq by (auto simp: magnitude_def simp flip: of_int_not_eq)
  then have "uint t = magnitude ?x" using x by (simp add: uint_magnitude)
  with x obtain r where r: "0 \<le> r" "r \<le> 16" "fits (nat (31 - r)) ?x" "r < 16 \<longrightarrow> \<not> fits (nat (30 - r)) ?x"
    "(case exp_loop 16 1 (2 ^ 30) t of None \<Rightarrow> 16 | Some i \<Rightarrow> i - 1) = word_of_int r"
    using exp_loop_exponent [of t ?x 30 16 1] by auto
  have op: "OP_15002A00 s = SET_GPR (opn s 0) (case exp_loop 16 1 (2 ^ 30) t of None \<Rightarrow> 16 | Some i \<Rightarrow> i - 1) s"
    by (simp add: OP_15002A00_def Let_def t_def split: option.split)
  show "\<exists>r. commit (OP_15002A00 s) = put_reg (opn s 0) (word_of_int r) (view s) \<and> 0 \<le> r \<and> r \<le> 16
        \<and> fits (nat (31 - r)) ?x \<and> (r < 16 \<longrightarrow> \<not> fits (nat (30 - r)) ?x)"
    using r assms by (intro exI [of _ r]) (simp add: op commit_idle ucast_of_int)
next
  let ?x = "accv s (opn s 1)"
  define t where "t = (let tmp = SEXT40 (ACC s (opn s 1)) in if tmp <s 0 then NOT tmp AND MASK40 else tmp)"
  have x: "fits 39 ?x" using accv_range [of s "opn s 1"] by (simp add: fits_def)
  then have "take_bit 40 (magnitude ?x) = magnitude ?x"
    by (intro take_bit_int_eq_self) (simp_all add: magnitude_nonneg fits_magnitude)
  then have "t = word_of_int (magnitude ?x)"
    using accv_range [of s "opn s 1"]
    by (simp add: t_def Let_def SEXT40_acc mask40 word_sless_alt sint_word_of_int64 acc_of_word acc_of_def magnitude_def
        flip: of_int_not_eq split: if_splits)
  then have "uint t = magnitude ?x" using x by (simp add: uint_magnitude)
  with x obtain r where r: "- 8 \<le> r" "r \<le> 16" "fits (nat (31 - r)) ?x" "r < 16 \<longrightarrow> \<not> fits (nat (30 - r)) ?x"
    "(case exp_loop 24 1 (2 ^ 38) t of None \<Rightarrow> 16 | Some i \<Rightarrow> i - 9) = word_of_int r"
    using exp_loop_exponent [of t ?x 38 24 9] by auto
  have op: "OP_15002A02 s = SET_GPR (opn s 0) (case exp_loop 24 1 (2 ^ 38) t of None \<Rightarrow> 16 | Some i \<Rightarrow> i - 9) s"
    by (simp add: OP_15002A02_def Let_def t_def split: option.split)
  show "\<exists>r. commit (OP_15002A02 s) = put_reg (opn s 0) (word_of_int r) (view s) \<and> - 8 \<le> r \<and> r \<le> 16
        \<and> fits (nat (31 - r)) ?x \<and> (r < 16 \<longrightarrow> \<not> fits (nat (30 - r)) ?x)"
    using r assms by (intro exI [of _ r]) (simp add: op commit_idle ucast_of_int)
qed

theorem exp_spec_witness:
  "let s = machine (replicate 16 0) [0, 2, 0, 0] in \<exists>r. commit (OP_15002A00 s) = put_reg 0 (word_of_int r) (view s) \<and> r \<le> 16"
  using exp_spec [of "machine (replicate 16 0) [0, 2, 0, 0]"] by (auto simp: opn_def Let_def)

section \<open>Rounding\<close>

definition scale :: "int \<Rightarrow> int \<Rightarrow> int" where
  "scale k v = (if 0 \<le> k then v * 2 ^ nat k else v div 2 ^ nat (- k))"

definition rac_shift :: "sim \<Rightarrow> int" where
  "rac_shift s = signed_take_bit 2 (uint (OP s ! 2))"

definition rac_value :: "sim \<Rightarrow> int" where
  "rac_value s = accv s 0 * 2 ^ 16 + uint (acc s ! 1) mod 2 ^ 16"

lemma rac_shift_range: "- 4 \<le> rac_shift s" "rac_shift s < 4"
  unfolding rac_shift_def
  using signed_take_bit_int_greater_eq_minus_exp [of 2] signed_take_bit_int_less_exp [of 2] by simp_all

lemma SEXT3_shift: "SEXT3 (opv s 2) = word_of_int (rac_shift s)"
proof -
  have "sint (SEXT3 (opv s 2)) = rac_shift s"
    by (simp add: SEXT3_eq sint_signed_take_bit opv_def rac_shift_def uint_ucast_up)
  then show ?thesis by (metis of_int_sint scast_id)
qed

lemma push_bit_of_int: "push_bit n (word_of_int v :: 'a::len word) = word_of_int (v * 2 ^ n)"
  by (simp add: push_bit_eq_mult)

lemma signed_drop_bit_of_int:
  assumes "- (2 ^ 63) \<le> v" and "v < 2 ^ 63"
  shows "signed_drop_bit n (word_of_int v :: int64) = word_of_int (v div 2 ^ n)"
proof -
  have "sint (signed_drop_bit n (word_of_int v :: int64)) = v div 2 ^ n"
    by (simp only: sint_signed_drop_bit_eq sint_word_of_int64 [OF assms] drop_bit_eq_div)
  then show ?thesis by (metis of_int_sint scast_id)
qed

lemma scale_range:
  assumes "- (2 ^ 55) \<le> v" and "v < 2 ^ 55" and "- 4 \<le> k" and "k < 4"
  shows "- (2 ^ 58) \<le> scale k v" and "scale k v < 2 ^ 58"
proof -
  have "k \<in> {-4, -3, -2, -1, 0, 1, 2, 3}" using assms(3,4) by auto
  then show "- (2 ^ 58) \<le> scale k v" "scale k v < 2 ^ 58"
    using assms(1,2) by (auto simp: scale_def)
qed

lemma shift_by_eq:
  assumes "- (2 ^ 55) \<le> v" and "v < 2 ^ 55"
  shows "shift_by (SEXT3 (opv s 2)) (word_of_int v) = word_of_int (scale (rac_shift s) v)"
proof -
  let ?k = "rac_shift s"
  have k: "- 4 \<le> ?k" "?k < 4" by (rule rac_shift_range)+
  have u: "unat (word_of_int j :: int32) = nat j" if "0 \<le> j" "j < 5" for j
    using that by (simp add: unat_eq_nat_uint uint_word_of_int_eq take_bit_int_eq_self)
  have "sint (word_of_int ?k :: int32) = ?k" using k by (simp add: sint_word_of_int32)
  then have "0 <=s (word_of_int ?k :: int32) \<longleftrightarrow> 0 \<le> ?k" by (simp add: word_sle_eq)
  then show ?thesis
    using k assms u [of ?k] u [of "- ?k"]
    by (auto simp: SEXT3_shift shift_by_def scale_def push_bit_of_int signed_drop_bit_of_int simp del: of_int_mult of_int_power
        simp flip: of_int_minus)
qed

lemma rac_word: "SEXT56 (push_bit 16 (ACC s 0) OR (ACC s 1 AND 0xffff)) = word_of_int (rac_value s)"
proof -
  have m: "x AND 0xffff = take_bit 16 x" for x :: int64
    by (simp add: take_bit_eq_mask mask_eq_exp_minus_1)
  have "SEXT56 (push_bit 16 (ACC s 0) OR (ACC s 1 AND 0xffff))
      = push_bit 16 (SEXT40 (ACC s 0)) OR take_bit 16 (ACC s 1)"
  proof (rule bit_word_eqI)
    fix k
    show "bit (SEXT56 (push_bit 16 (ACC s 0) OR (ACC s 1 AND 0xffff))) k
        = bit (push_bit 16 (SEXT40 (ACC s 0)) OR take_bit 16 (ACC s 1)) k" if "k < LENGTH(64)"
      using that unfolding m SEXT56_eq SEXT40_eq by (cases "k < 55") (auto simp: bit_simps min_def)
  qed
  also have "\<dots> = push_bit 16 (SEXT40 (ACC s 0)) + take_bit 16 (ACC s 1)"
    by (rule disjunctive_add [symmetric]) (auto simp: bit_simps)
  also have "take_bit 16 (ACC s 1) = word_of_int (uint (acc s ! 1) mod 2 ^ 16)"
    unfolding take_bit_eq_mod [symmetric] ACC_def by (rule bit_word_eqI) (auto simp: bit_simps)
  finally show ?thesis
    by (simp add: SEXT40_acc push_bit_of_int rac_value_def)
qed

lemma rac_value_range: "- (2 ^ 55) \<le> rac_value s" "rac_value s < 2 ^ 55"
  using accv_range [of s 0] pos_mod_bound [of "2 ^ 16 :: int" "uint (acc s ! 1)"]
    pos_mod_sign [of "2 ^ 16 :: int" "uint (acc s ! 1)"]
  by (simp_all add: rac_value_def)

lemma sless_of_int:
  "\<bar>x\<bar> \<le> 2 ^ 60 \<Longrightarrow> \<bar>y\<bar> \<le> 2 ^ 60 \<Longrightarrow> (word_of_int x :: int64) <s word_of_int y \<longleftrightarrow> x < y"
  by (simp add: word_sless_alt sint_word_of_int64)

lemma rac_bounds:
  "SEXT44 0x0007fffffff = word_of_int (2 ^ 31 - 1)" "SEXT44 0xfff80000000 = word_of_int (- (2 ^ 31))"
  by (simp_all add: SEXT44_def)

lemma rac_clip:
  assumes "\<bar>v\<bar> \<le> 2 ^ 60"
  shows "(if SEXT44 0x0007fffffff <s word_of_int v then (hi, SET_PSW_F0 True t)
          else if word_of_int v <s SEXT44 0xfff80000000 then (lo, SET_PSW_F0 True t)
          else (x, SET_PSW_F0 False t))
    = (if 2 ^ 31 \<le> v then hi else if v < - (2 ^ 31) then lo else x, SET_PSW_F0 (\<not> fits 31 v) t)"
proof -
  have "SEXT44 0x0007fffffff <s word_of_int v \<longleftrightarrow> 2 ^ 31 \<le> v" "word_of_int v <s SEXT44 0xfff80000000 \<longleftrightarrow> v < - (2 ^ 31)"
    using assms sless_of_int [of "2 ^ 31 - 1" v] sless_of_int [of v "- (2 ^ 31)"] unfolding rac_bounds by auto
  then show ?thesis by (auto simp: fits_def)
qed

lemma rac_round:
  assumes "- (2 ^ 58) \<le> x" and "x < 2 ^ 58"
  shows "(word_of_int x :: int64) + 0x8000 = word_of_int (x + 2 ^ 15)"
    "signed_drop_bit 16 (word_of_int (x + 2 ^ 15) :: int64) = word_of_int ((x + 2 ^ 15) div 2 ^ 16)"
    "\<bar>x + 2 ^ 15\<bar> \<le> 2 ^ 60" "\<bar>(x + 2 ^ 15) div 2 ^ 16\<bar> \<le> 2 ^ 60"
  using assms by (simp, simp add: signed_drop_bit_of_int del: of_int_add, simp add: abs_le_iff, simp add: abs_le_iff, linarith)

lemma commit_new_f0:
  assumes "wf_sim s" and "slot s = []" and "t = s \<or> t = s\<lparr>exception := e\<rparr>"
  shows "commit (SET_PSW_F0 b (SET_PSW_F1 (PSW_F0 t) t)) = new_f0 b (view s)"
  using assms by (auto simp: commit_simps new_f0_def PSW_bit_def PSW_def wf_sim_def)

lemma ucast_halves:
  "(ucast w :: uint16) = ucast (ucast w :: uint32)" "(ucast (drop_bit 16 w) :: uint16) = ucast (drop_bit 16 (ucast w :: uint32))"
  for w :: int64
  by (rule bit_word_eqI; simp add: bit_simps)+

text \<open>
  C11. \<open>rac\<close> and \<open>rachi\<close> scale by \<open>2^-4\<close> to \<open>2^3\<close>, round half up at bit 16 and saturate to 32 bits: \<open>rac\<close> takes
  the 56-bit number formed by the first accumulator and the low half of the second and leaves a register pair,
  \<open>rachi\<close> takes one accumulator and leaves the high half; \<open>F0\<close> says whether the result was clipped.
\<close>

theorem rounding_spec:
  assumes "wf_sim s" and "slot s = []"
  shows "(let v = (scale (rac_shift s) (rac_value s) + 2 ^ 15) div 2 ^ 16;
              r = (word_of_int (max (- (2 ^ 31)) (min (2 ^ 31 - 1) v)) :: uint32)
          in commit (OP_5201 s) = put_reg (opn s 0 + 1) (ucast r) (put_reg (opn s 0) (ucast (drop_bit 16 r))
                 (new_f0 (\<not> fits 31 v) (view s))))
    \<and> (let v = scale (rac_shift s) (accv s (opn s 1)) + 2 ^ 15
       in commit (OP_4201 s) = put_reg (opn s 0) (word_of_int (max (- (2 ^ 31)) (min (2 ^ 31 - 1) v) div 2 ^ 16))
            (new_f0 (\<not> fits 31 v) (view s)))"
proof
  let ?x = "scale (rac_shift s) (rac_value s)" and ?t = "if OP s ! 1 \<noteq> 0 then s\<lparr>exception := SIGILL\<rparr> else s"
  let ?v = "(?x + 2 ^ 15) div 2 ^ 16"
  define w where "w = (if 2 ^ 31 \<le> ?v then 0x7fffffff else if ?v < - (2 ^ 31) then 0x80000000 else word_of_int ?v :: int64)"
  have x: "- (2 ^ 58) \<le> ?x" "?x < 2 ^ 58"
    using scale_range [OF rac_value_range rac_shift_range] by blast+
  note r = rac_round [OF x]
  have [simp]: "ACC ?t k = ACC s k" "opn ?t k = opn s k" for k by (simp_all add: ACC_def opn_def)
  have "OP_5201 s = SET_GPR32 w (SET_PSW_F0 (\<not> fits 31 ?v) (SET_PSW_F1 (PSW_F0 ?t) ?t))"
    unfolding OP_5201_def Let_def w_def
    by (simp only: read_setter rac_word shift_by_eq [OF rac_value_range] r rac_clip prod.case \<open>ACC ?t _ = ACC s _\<close>)
  moreover have "opn (SET_PSW_F0 (\<not> fits 31 ?v) (SET_PSW_F1 (PSW_F0 ?t) ?t)) 0 = opn s 0" by simp
  moreover have "(ucast w :: uint32) = word_of_int (max (- (2 ^ 31)) (min (2 ^ 31 - 1) ?v))"
    by (auto simp: w_def ucast_of_int)
  ultimately show "let v = ?v; r = (word_of_int (max (- (2 ^ 31)) (min (2 ^ 31 - 1) v)) :: uint32)
    in commit (OP_5201 s) = put_reg (opn s 0 + 1) (ucast r) (put_reg (opn s 0) (ucast (drop_bit 16 r))
                 (new_f0 (\<not> fits 31 v) (view s)))"
    unfolding Let_def using commit_new_f0 [OF assms, of ?t SIGILL] by (simp add: ucast_halves [of w])
next
  let ?v = "scale (rac_shift s) (accv s (opn s 1)) + 2 ^ 15"
  have x: "- (2 ^ 58) \<le> scale (rac_shift s) (accv s (opn s 1))" "scale (rac_shift s) (accv s (opn s 1)) < 2 ^ 58"
    using scale_range [OF _ _ rac_shift_range, of "accv s (opn s 1)" s] accv_range [of s "opn s 1"] by simp_all
  note r = rac_round [OF x]
  have a: "shift_by (SEXT3 (opv s 2)) (word_of_int (accv s (opn s 1))) = word_of_int (scale (rac_shift s) (accv s (opn s 1)))"
    using accv_range [of s "opn s 1"] by (intro shift_by_eq) simp_all
  have o: "opn (SET_PSW_BIT m b u) k = opn u k" for m b u k by simp
  have "OP_4201 s = SET_GPR (opn s 0) (if 2 ^ 31 \<le> ?v then 0x7fff else if ?v < - (2 ^ 31) then 0x8000 else word_of_int (?v div 2 ^ 16) :: int64)
     (SET_PSW_F0 (\<not> fits 31 ?v) (SET_PSW_F1 (PSW_F0 s) s))"
    unfolding OP_4201_def Let_def
    by (simp only: read_setter o SEXT40_acc a r rac_clip prod.case)
  moreover have "(ucast (if 2 ^ 31 \<le> ?v then 0x7fff else if ?v < - (2 ^ 31) then 0x8000 else word_of_int (?v div 2 ^ 16) :: int64) :: uint16)
    = word_of_int (max (- (2 ^ 31)) (min (2 ^ 31 - 1) ?v) div 2 ^ 16)"
    by (auto simp: ucast_of_int)
  ultimately show "let v = ?v in commit (OP_4201 s) = put_reg (opn s 0)
      (word_of_int (max (- (2 ^ 31)) (min (2 ^ 31 - 1) v) div 2 ^ 16)) (new_f0 (\<not> fits 31 v) (view s))"
    unfolding Let_def using commit_new_f0 [OF assms, of s] by simp
qed

theorem rounding_spec_witness:
  "let s = (machine (replicate 16 0) [4, 0, 0, 0])\<lparr>acc := [0x12348000, 0]\<rparr> in a_regs (commit (OP_4201 s)) ! 4 = 0x1235"
proof -
  let ?s = "(machine (replicate 16 0) [4, 0, 0, 0])\<lparr>acc := [0x12348000, 0]\<rparr>"
  have "wf_sim ?s" by (simp add: wf_sim_def machine_def boot_def)
  then show ?thesis
    using rounding_spec [of ?s]
    by (simp add: opn_def Let_def rac_shift_def scale_def accv_def new_f0_def)
qed

section \<open>Moves\<close>

lemma pair_halves:
  "(ucast (GPR32 s n) :: uint16) = regs s ! (n + 1)" "(ucast (drop_bit 16 (GPR32 s n)) :: uint16) = regs s ! n"
  by (rule bit_word_eqI; auto simp: GPR32_def bit_simps dest: bit_imp_le_length)+

lemma put_reg_same: "put_reg n (a_regs a ! n) a = a"
  by (simp add: put_reg_def)

text \<open>
  \<open>mv2wtac\<close> loads an accumulator with the signed value of a register pair, and \<open>mv2wfac\<close> gives the pair
  back: executed one after the other on the same operands they leave the registers as they were.
\<close>

theorem mv2w_roundtrip:
  assumes "wf_sim s" and "slot s = []" and "opn s 1 < 2"
  shows "let t = SLOT_FLUSH (OP_3E01 s) in
    accv t (opn t 1) = pairv s (opn s 0) \<and> commit (OP_3E00 t) = view t"
proof -
  define t where "t = SLOT_FLUSH (OP_3E01 s)"
  let ?r = "opn s 0" and ?a = "opn s 1"
  have o: "opn t k = opn s k" for k by (simp add: t_def OP_3E01_def opn_def)
  have "view t = put_acc ?a (take_bit 40 (scast (GPR32 s ?r))) (view s)"
    using assms(2) unfolding t_def commit_def [symmetric] by (simp add: OP_3E01_def SPAIR_eq commit_idle mask40)
  then have t: "acc t = (acc s)[?a := take_bit 40 (scast (GPR32 s ?r))]" "regs t = regs s"
    by (metis view_fields(4) put_fields(16), metis view_fields(1) put_fields(13))
  have n: "acc t ! ?a = take_bit 40 (scast (GPR32 s ?r))"
    using assms(1,3) by (simp add: t wf_sim_def)
  have "accv t ?a = sint (SEXT40 (acc t ! ?a))" by (simp only: accv_def sint_SEXT40)
  also have "SEXT40 (acc t ! ?a) = SEXT40 (scast (GPR32 s ?r))"
  proof (rule bit_word_eqI)
    fix k
    show "bit (SEXT40 (acc t ! ?a)) k = bit (SEXT40 (scast (GPR32 s ?r))) k" if "k < LENGTH(64)"
      unfolding n SEXT40_eq using that by (cases "k < 39") (auto simp: bit_simps min_def)
  qed
  also have "sint \<dots> = pairv s ?r"
    using pairv_range [of s ?r] by (simp add: SEXT40_pair sint_word_of_int64)
  finally have "accv t ?a = pairv s ?r" .
  moreover have i: "slot t = []" by (simp add: t_def)
  have "(ucast (acc t ! ?a) :: int32) = GPR32 s ?r"
    unfolding n by (rule bit_word_eqI) (auto simp: bit_simps)
  then have "commit (OP_3E00 t) = put_reg (?r + 1) (regs s ! (?r + 1)) (put_reg ?r (regs s ! ?r) (view t))"
    by (simp add: OP_3E00_def ACC_def o pair_halves commit_idle i del: One_nat_def)
  then have "commit (OP_3E00 t) = view t"
    using put_reg_same [of _ "view t"] by (simp add: t(2) del: One_nat_def)
  ultimately show ?thesis by (simp add: Let_def t_def [symmetric] o)
qed

theorem mv2w_roundtrip_witness:
  "let t = SLOT_FLUSH (OP_3E01 (machine (replicate 16 0xFFFF) [2, 1, 0, 0]))
   in accv t 1 = - 1 \<and> commit (OP_3E00 t) = view t"
proof -
  let ?s = "machine (replicate 16 0xFFFF) [2, 1, 0, 0]"
  have "opn (SLOT_FLUSH (OP_3E01 ?s)) 1 = 1" by (simp add: OP_3E01_def opn_def)
  then show ?thesis
    using mv2w_roundtrip [of ?s] by (simp add: opn_def [of ?s] Let_def pairv_def GPR32_def)
qed

end
