(* ===== verification/Bfd_Reloc.thy ===== *)
theory Bfd_Reloc
  imports Prelude
begin

text \<open>
  Relocation in BFD as the D10V tools use it: the byte access of \<open>src/src/bfd/libbfd.c\<close>, the
  relocation codes of \<open>src/src/bfd/bfd-in2.h\<close>, the description of a relocation and its execution in
  \<open>src/src/bfd/reloc.c\<close> (\<open>bfd_check_overflow\<close>, \<open>bfd_perform_relocation\<close>) with the special function of the
  ELF formats in \<open>src/src/bfd/elf.c\<close>. \<open>bfd_vma\<close> has 32 bits. The data of a section is the list of its bytes.
\<close>

section \<open>Bytes\<close>

definition bfd_getb16 :: "uint8 list \<Rightarrow> uint32" where
  "bfd_getb16 b = push_bit 8 (ucast (b ! 0)) OR ucast (b ! 1)"

definition bfd_putb16 :: "uint32 \<Rightarrow> uint8 list" where
  "bfd_putb16 v = [ucast (drop_bit 8 v), ucast v]"

definition bfd_getb32 :: "uint8 list \<Rightarrow> uint32" where
  "bfd_getb32 b =
     push_bit 8 (push_bit 8 (push_bit 8 (ucast (b ! 0)) OR ucast (b ! 1)) OR ucast (b ! 2)) OR ucast (b ! 3)"

definition bfd_putb32 :: "uint32 \<Rightarrow> uint8 list" where
  "bfd_putb32 v = [ucast (drop_bit 24 v), ucast (drop_bit 16 v), ucast (drop_bit 8 v), ucast v]"

lemma get_put_b32: "bfd_getb32 (bfd_putb32 w) = w"
proof -
  have "push_bit 8 (push_bit 8 (push_bit 8 (ucast (ucast (drop_bit 24 w) :: uint8)) OR ucast (ucast (drop_bit 16 w) :: uint8))
      OR ucast (ucast (drop_bit 8 w) :: uint8)) OR ucast (ucast w :: uint8) = w" (is "?w = w")
  proof (rule bit_word_eqI)
    fix n assume "n < LENGTH(32)"
    then consider "n < 8" | "8 \<le> n" "n < 16" | "16 \<le> n" "n < 24" | "24 \<le> n" "n < 32" by fastforce
    then show "bit ?w n = bit w n" by cases (auto simp: bit_simps)
  qed
  then show ?thesis by (simp add: bfd_getb32_def bfd_putb32_def)
qed

lemma get_put_b16: "bfd_getb16 (bfd_putb16 w) = take_bit 16 w"
proof -
  have "push_bit 8 (ucast (ucast (drop_bit 8 w) :: uint8)) OR ucast (ucast w :: uint8) = take_bit 16 w"
    by (rule bit_word_eqI) (auto simp: bit_simps)
  then show ?thesis by (simp add: bfd_getb16_def bfd_putb16_def)
qed

text \<open>The bytes from an address on, and their replacement; \<open>None\<close> when they are not all in the list.\<close>

definition bytes_at :: "nat \<Rightarrow> nat \<Rightarrow> uint8 list \<Rightarrow> uint8 list option" where
  "bytes_at a n bs = (if a + n \<le> length bs then Some (take n (drop a bs)) else None)"

definition put_bytes :: "nat \<Rightarrow> uint8 list \<Rightarrow> uint8 list \<Rightarrow> uint8 list" where
  "put_bytes a new bs = take a bs @ new @ drop (a + length new) bs"

section \<open>Relocation codes\<close>

text \<open>The members of \<open>enum bfd_reloc_code_real\<close> that the D10V tools use. The first member has no name of use.\<close>

abbreviation (input) "BFD_RELOC_dummy \<equiv> 0 :: uint32"
abbreviation (input) "BFD_RELOC_32 \<equiv> 2 :: uint32"
abbreviation (input) "BFD_RELOC_16 \<equiv> 5 :: uint32"
abbreviation (input) "BFD_RELOC_NONE \<equiv> 52 :: uint32"
abbreviation (input) "BFD_RELOC_D10V_10_PCREL_R \<equiv> 206 :: uint32"
abbreviation (input) "BFD_RELOC_D10V_10_PCREL_L \<equiv> 207 :: uint32"
abbreviation (input) "BFD_RELOC_D10V_18 \<equiv> 208 :: uint32"
abbreviation (input) "BFD_RELOC_D10V_18_PCREL \<equiv> 209 :: uint32"

section \<open>Data\<close>

datatype bfd_reloc_status = bfd_reloc_ok | bfd_reloc_overflow | bfd_reloc_outofrange | bfd_reloc_continue
  | bfd_reloc_notsupported | bfd_reloc_other | bfd_reloc_undefined | bfd_reloc_dangerous

datatype complain_overflow = complain_overflow_dont | complain_overflow_bitfield | complain_overflow_signed
  | complain_overflow_unsigned

datatype special_function = No_function | bfd_elf_generic

record reloc_howto =
  howto_type :: nat
  rightshift :: nat
  howto_size :: int
  bitsize :: nat
  pc_relative :: bool
  bitpos :: nat
  complain_on_overflow :: complain_overflow
  special_function :: special_function
  howto_name :: string
  partial_inplace :: bool
  src_mask :: uint32
  dst_mask :: uint32
  pcrel_offset :: bool

text \<open>
  What a relocation depends on of its symbol and of the two sections: the kind of the symbol's section,
  where the sections are placed, and the sizes.
\<close>

datatype section_kind = Abs_section | Und_section | Com_section | Other_section

record asection =
  output_vma :: uint32
  output_offset :: uint32
  cooked_size :: uint32

record asymbol =
  sym_kind :: section_kind
  sym_section :: asection
  sym_value :: uint32
  sym_weak :: bool
  sym_is_section :: bool

record arelent =
  address :: uint32
  addend :: uint32
  howto :: reloc_howto

text \<open>A call of \<open>abort\<close>, and an access outside the data.\<close>

datatype bfd_fault = Abort | Access_outside

section \<open>Overflow\<close>

definition upper_ones :: "nat \<Rightarrow> uint32" where
  "upper_ones n = NOT (drop_bit n (- 1))"

definition bfd_check_overflow :: "complain_overflow \<Rightarrow> nat \<Rightarrow> nat \<Rightarrow> uint32 \<Rightarrow> bfd_reloc_status" where
  "bfd_check_overflow how bits shift relocation =
     (let check = drop_bit shift relocation;
          signed_check = (if shift > 0 \<and> relocation <s 0 then check OR upper_ones shift else check)
      in case how of
           complain_overflow_dont \<Rightarrow> bfd_reloc_ok
         | complain_overflow_signed \<Rightarrow>
             (let reloc_signed_max = push_bit (bits - 1) 1 - 1; reloc_signed_min = NOT reloc_signed_max
              in if reloc_signed_max <s signed_check \<or> signed_check <s reloc_signed_min
                 then bfd_reloc_overflow else bfd_reloc_ok)
         | complain_overflow_unsigned \<Rightarrow>
             (let reloc_unsigned_max = push_bit 1 (push_bit (bits - 1) 1 - 1) OR 1
              in if check > reloc_unsigned_max then bfd_reloc_overflow else bfd_reloc_ok)
         | complain_overflow_bitfield \<Rightarrow>
             (let reloc_bits = push_bit 1 (push_bit (bits - 1) 1 - 1) OR 1
              in if check AND NOT reloc_bits \<noteq> 0 \<and> check AND NOT reloc_bits \<noteq> NOT reloc_bits
                 then (if shift > 0 \<and> relocation <s 0
                       then (if signed_check AND NOT reloc_bits \<noteq> NOT reloc_bits
                             then bfd_reloc_overflow else bfd_reloc_ok)
                       else bfd_reloc_overflow)
                 else bfd_reloc_ok))"

section \<open>Performing a relocation\<close>

definition bfd_elf_generic_reloc :: "bool \<Rightarrow> asymbol \<Rightarrow> asection \<Rightarrow> arelent \<Rightarrow> bfd_reloc_status \<times> arelent" where
  "bfd_elf_generic_reloc output_bfd symbol input_section reloc_entry =
     (if output_bfd \<and> \<not> sym_is_section symbol
         \<and> (\<not> partial_inplace (howto reloc_entry) \<or> addend reloc_entry = 0)
      then (bfd_reloc_ok, reloc_entry\<lparr>address := address reloc_entry + output_offset input_section\<rparr>)
      else (bfd_reloc_continue, reloc_entry))"

definition DOIT :: "reloc_howto \<Rightarrow> uint32 \<Rightarrow> uint32 \<Rightarrow> uint32" where
  "DOIT h relocation x = (x AND NOT (dst_mask h)) OR ((x AND src_mask h) + relocation AND dst_mask h)"

text \<open>The \<open>switch\<close> on the size. The flag says whether the relocation was of a known size.\<close>

definition relocate_data :: "reloc_howto \<Rightarrow> uint32 \<Rightarrow> nat \<Rightarrow> uint8 list \<Rightarrow> bfd_fault + bool \<times> uint8 list" where
  "relocate_data h relocation addr data =
     (let with_data = (\<lambda>n f. case bytes_at addr n data of
                               None \<Rightarrow> Inl Access_outside
                             | Some b \<Rightarrow> Inr (True, put_bytes addr (f b) data))
      in if howto_size h = 0 then
           with_data 1 (\<lambda>b. [ucast (DOIT h relocation (scast (b ! 0)))])
         else if howto_size h = 1 then
           with_data 2 (\<lambda>b. bfd_putb16 (DOIT h relocation (scast (ucast (bfd_getb16 b) :: int16))))
         else if howto_size h = 2 then with_data 4 (\<lambda>b. bfd_putb32 (DOIT h relocation (bfd_getb32 b)))
         else if howto_size h = - 2 then with_data 4 (\<lambda>b. bfd_putb32 (DOIT h (- relocation) (bfd_getb32 b)))
         else if howto_size h = - 1 then with_data 2 (\<lambda>b. bfd_putb16 (DOIT h (- relocation) (bfd_getb16 b)))
         else if howto_size h = 3 then Inr (True, data)
         else if howto_size h = 4 then Inl Abort
         else Inr (False, data))"

text \<open>
  \<open>output_bfd\<close> says that the output is relocateable. The file is not a COFF file, so that the branch for
  that flavour is not taken.
\<close>

definition bfd_perform_relocation :: "bool \<Rightarrow> asymbol \<Rightarrow> asection \<Rightarrow> arelent \<Rightarrow> uint8 list
    \<Rightarrow> bfd_fault + bfd_reloc_status \<times> arelent \<times> uint8 list" where
  "bfd_perform_relocation output_bfd symbol input_section reloc_entry data =
     (if sym_kind symbol = Abs_section \<and> output_bfd then
        Inr (bfd_reloc_ok, reloc_entry\<lparr>address := address reloc_entry + output_offset input_section\<rparr>, data)
      else
        (let flag = (if sym_kind symbol = Und_section \<and> \<not> sym_weak symbol \<and> \<not> output_bfd
                     then bfd_reloc_undefined else bfd_reloc_ok);
             addr = unat (address reloc_entry);
             h = howto reloc_entry;
             (cont, reloc_entry) =
               (case special_function h of
                  No_function \<Rightarrow> (bfd_reloc_continue, reloc_entry)
                | bfd_elf_generic \<Rightarrow> bfd_elf_generic_reloc output_bfd symbol input_section reloc_entry)
         in if cont \<noteq> bfd_reloc_continue then Inr (cont, reloc_entry, data)
            else if address reloc_entry > cooked_size input_section then Inr (bfd_reloc_outofrange, reloc_entry, data)
            else
              (let relocation = (if sym_kind symbol = Com_section then 0 else sym_value symbol);
                   output_base = (if output_bfd \<and> \<not> partial_inplace h then 0 else output_vma (sym_section symbol));
                   relocation = relocation + output_base + output_offset (sym_section symbol) + addend reloc_entry;
                   relocation =
                     (if pc_relative h
                      then relocation - (output_vma input_section + output_offset input_section)
                           - (if pcrel_offset h then address reloc_entry else 0)
                      else relocation)
               in if output_bfd \<and> \<not> partial_inplace h then
                    Inr (flag, reloc_entry\<lparr>addend := relocation,
                                 address := address reloc_entry + output_offset input_section\<rparr>, data)
                  else
                    (let reloc_entry =
                           (if output_bfd
                            then reloc_entry\<lparr>address := address reloc_entry + output_offset input_section,
                                   addend := relocation\<rparr>
                            else reloc_entry\<lparr>addend := 0\<rparr>);
                         flag = (if complain_on_overflow h \<noteq> complain_overflow_dont \<and> flag = bfd_reloc_ok
                                 then bfd_check_overflow (complain_on_overflow h) (bitsize h) (rightshift h) relocation
                                 else flag)
                     in case relocate_data h (push_bit (bitpos h) (drop_bit (rightshift h) relocation)) addr data of
                          Inl e \<Rightarrow> Inl e
                        | Inr (True, data) \<Rightarrow> Inr (flag, reloc_entry, data)
                        | Inr (False, data) \<Rightarrow> Inr (bfd_reloc_other, reloc_entry, data)))))"

end
