(* ===== verification/Gas_Operands.thy ===== *)
theory Gas_Operands
  imports D10V_Opc Bfd_Reloc "HOL-Library.List_Lexorder"
begin

text \<open>
  The D10V assembler, \<open>src/src/gas/config/tc-d10v.c\<close>, up to one instruction: register names, operand
  parsing, the choice of the table entry, the instruction word and its fixups (\<open>reg_name_search\<close> to
  \<open>build_insn\<close> and \<open>do_assemble\<close>).

  The assembler's line buffer is a string, \<open>input_line_pointer\<close> the rest of it that is still to be
  read. \<open>expr\<close> is gas's expression parser \<open>expression\<close>, a parameter: it takes the rest of the line and
  returns the expression and what follows it. \<open>symtab\<close> is what the assembler knows of a symbol. A call
  of \<open>as_fatal\<close> ends the run and is a value of type \<open>as_error\<close>, as is a write beyond a local array and the use of a null pointer;
  \<open>as_bad\<close> reports an error and goes on.
\<close>

section \<open>Errors and expressions\<close>

datatype as_error = As_fatal string | Out_of_bounds string | Null_pointer string

type_synonym msgs = "string list"

definition bindE :: "as_error + 'a \<Rightarrow> ('a \<Rightarrow> as_error + 'b) \<Rightarrow> as_error + 'b" where
  "bindE r f = (case r of Inl e \<Rightarrow> Inl e | Inr x \<Rightarrow> f x)"

lemma bindE_simps [simp]: "bindE (Inl e) f = Inl e" "bindE (Inr x) f = f x"
  by (simp_all add: bindE_def)

lemma bindE_Inr: "bindE r f = Inr y \<longleftrightarrow> (\<exists>x. r = Inr x \<and> f x = Inr y)"
  by (cases r) simp_all

text \<open>
  \<open>X_op_symbol\<close> is a pointer to the text of a register name, a symbol made for a constant, or any other
  symbol. \<open>O_illegal\<close> is the value 0 with which \<open>get_operands\<close> ends its array.
\<close>

datatype operatorT = O_illegal | O_absent | O_constant | O_symbol | O_register | O_big | O_right_shift | O_other

datatype op_symbol = No_symbol | Name_text string | Const_symbol uint32 | Other_symbol

record expressionS =
  X_add_symbol :: "string option"
  X_op_symbol :: op_symbol
  X_add_number :: uint32
  X_op :: operatorT

definition blank :: expressionS where
  "blank = \<lparr>X_add_symbol = None, X_op_symbol = No_symbol, X_add_number = 0, X_op = O_illegal\<rparr>"

abbreviation (input) "AT_WORD_RIGHT_SHIFT \<equiv> 2 :: nat"

definition AT_WORD_P :: "expressionS \<Rightarrow> bool" where
  "AT_WORD_P x \<longleftrightarrow> X_op x = O_right_shift \<and> X_op_symbol x = Const_symbol (of_nat AT_WORD_RIGHT_SHIFT)"

section \<open>Register names\<close>

definition tolower :: "char \<Rightarrow> nat" where
  "tolower c = (let n = of_char c in if 65 \<le> n \<and> n \<le> (90 :: nat) then n + 32 else n)"

fun strcasecmp :: "string \<Rightarrow> string \<Rightarrow> int" where
  "strcasecmp [] [] = 0"
| "strcasecmp (a # as) [] = int (tolower a)"
| "strcasecmp [] (b # bs) = - int (tolower b)"
| "strcasecmp (a # as) (b # bs) =
     (if tolower a = tolower b then strcasecmp as bs else int (tolower a) - int (tolower b))"

text \<open>The \<open>do ... while\<close> loop of the binary search over the entries from \<open>low\<close> to \<open>high\<close>.\<close>

function reg_name_loop :: "pd_reg list \<Rightarrow> string \<Rightarrow> int \<Rightarrow> int \<Rightarrow> uint32 option" where
  "reg_name_loop regs name low high =
     (let middle = (low + high) div 2;
          cmp = strcasecmp name (reg_name (regs ! nat middle))
      in if cmp < 0 then (if low \<le> middle - 1 then reg_name_loop regs name low (middle - 1) else None)
         else if cmp > 0 then (if middle + 1 \<le> high then reg_name_loop regs name (middle + 1) high else None)
         else Some (reg_value (regs ! nat middle)))"
  by pat_completeness auto
termination
  by (relation "measure (\<lambda>(regs, name, low, high). nat (high - low + 1))") auto

declare reg_name_loop.simps [simp del]

definition reg_name_search :: "string \<Rightarrow> uint32 option" where
  "reg_name_search name =
     reg_name_loop d10v_predefined_registers name 0 (int d10v_reg_name_cnt - 1)"

text \<open>
  \<open>register_name\<close> splits the line at a delimiter, which it overwrites and steps over when the text
  before it is a register.
\<close>

definition reg_delimiter :: "char \<Rightarrow> bool" where
  "reg_delimiter c \<longleftrightarrow> c \<in> {CHR 0x0A, CHR 0x0D, CHR '','', CHR '' '', CHR '')''}"

definition register_name :: "string \<Rightarrow> (expressionS \<times> string) option" where
  "register_name line =
     (let text = takeWhile (\<lambda>c. \<not> reg_delimiter c) line; rest = dropWhile (\<lambda>c. \<not> reg_delimiter c) line
      in case reg_name_search text of
           None \<Rightarrow> None
         | Some reg \<Rightarrow>
             Some (blank\<lparr>X_op := O_register, X_op_symbol := Name_text text, X_add_number := reg\<rparr>, tl rest))"

section \<open>Operand ranges and relocations\<close>

definition check_range :: "uint32 \<Rightarrow> nat \<Rightarrow> uint32 \<Rightarrow> bool" where
  "check_range num bits flags =
     (if bits = 16 then False
      else if flags AND OPERAND_SHIFT \<noteq> 0 then num > 16
      else if flags AND OPERAND_SIGNED \<noteq> 0 then
        (let max = push_bit (bits - 1) 1 - 1; min = - push_bit (bits - 1) (1 :: uint32)
         in max <s num \<or> num <s min)
      else (let max = push_bit bits 1 - 1 in num > max \<or> num < 0))"

definition get_reloc :: "d10v_operand \<Rightarrow> uint32" where
  "get_reloc op =
     (if opnd_bits op \<le> 4 then BFD_RELOC_dummy
      else if opnd_flags op AND OPERAND_ADDR \<noteq> 0 then
        (if opnd_bits op = 8 then BFD_RELOC_D10V_10_PCREL_R else BFD_RELOC_D10V_18_PCREL)
      else BFD_RELOC_16)"

section \<open>Parsing the operands\<close>

fun postfix :: "string \<Rightarrow> int \<times> string" where
  "postfix [] = (0, [])"
| "postfix (c # p) =
     (if c = CHR ''-'' then (- 1, CHR '' '' # p)
      else if c = CHR ''+'' then (1, CHR '' '' # p)
      else if c = CHR 0x0A \<or> c = CHR 0x0D then (0, c # p)
      else (let (r, q) = postfix p in (r, c # q)))"

definition absent :: "uint32 \<Rightarrow> expressionS" where
  "absent n = blank\<lparr>X_op := O_absent, X_add_number := n\<rparr>"

definition starts_at_word :: "string \<Rightarrow> bool" where
  "starts_at_word line \<longleftrightarrow> length line \<ge> 5 \<and> strcasecmp (take 5 line) ''@word'' = 0"

text \<open>The part of the loop of \<open>get_operands\<close> that reads a register or an expression.\<close>

definition parse_operand ::
  "(string \<Rightarrow> expressionS \<times> string) \<Rightarrow> string \<Rightarrow> expressionS \<times> string \<times> msgs" where
  "parse_operand expr line =
     (let (x, rest) = (case register_name line of Some r \<Rightarrow> r | None \<Rightarrow> expr line);
          (x, rest) =
            (if starts_at_word rest then
               (let rest = drop 5 rest;
                    x = (if X_op x = O_register
                         then (case X_op_symbol x of
                                 Name_text text \<Rightarrow> x\<lparr>X_op := O_symbol, X_add_symbol := Some text\<rparr>
                               | _ \<Rightarrow> x\<lparr>X_op := O_symbol\<rparr>)
                         else x);
                    (x, rest) =
                      (if rest \<noteq> [] \<and> (hd rest = CHR ''-'' \<or> hd rest = CHR ''+'')
                       then (let (new, rest) = expr rest in (x\<lparr>X_add_number := X_add_number new\<rparr>, rest))
                       else (x, rest))
                in (x\<lparr>X_op_symbol := Const_symbol (of_nat AT_WORD_RIGHT_SHIFT), X_op := O_right_shift\<rparr>, rest))
             else (x, rest));
          m = (if X_op x = O_illegal then [''illegal operand'']
               else if X_op x = O_absent then [''missing operand''] else [])
      in (x, rest, m))"

definition is_blank :: "char \<Rightarrow> bool" where
  "is_blank c \<longleftrightarrow> c = CHR '' '' \<or> c = CHR 0x09 \<or> c = CHR '',''"

abbreviation (input) "MYOPS \<equiv> 6 :: nat"

text \<open>
  The loop of \<open>get_operands\<close>. \<open>ops\<close> are the elements of \<open>exp\<close> written so far; the caller's array has six,
  and a write behind it is \<open>Out_of_bounds\<close>. That makes the loop end also when \<open>expr\<close> reads nothing.
\<close>

function get_operands_loop ::
  "(string \<Rightarrow> expressionS \<times> string) \<Rightarrow> string \<Rightarrow> int \<Rightarrow> expressionS list \<Rightarrow> msgs
     \<Rightarrow> as_error + int \<times> expressionS list \<times> msgs" where
  "get_operands_loop expr line post ops m =
     (case dropWhile is_blank line of
        [] \<Rightarrow> Inr (post, ops, m)
      | c # p \<Rightarrow>
          if c = CHR 0x0A \<or> c = CHR 0x0D then Inr (post, ops, m)
          else if c = CHR '')'' then get_operands_loop expr p post ops m
          else if MYOPS \<le> length ops then Inl (Out_of_bounds ''myops'')
          else if c = CHR ''@'' then
            (if p \<noteq> [] \<and> hd p = CHR ''('' then
               get_operands_loop expr (tl p) post (ops @ [absent OPERAND_ATPAR]) m
             else if p \<noteq> [] \<and> hd p = CHR ''-'' then
               get_operands_loop expr (tl p) post (ops @ [absent OPERAND_ATMINUS]) m
             else (let (post, p) = postfix p
                   in get_operands_loop expr p post (ops @ [absent OPERAND_ATSIGN]) m))
          else (let (x, rest, m') = parse_operand expr (c # p)
                in get_operands_loop expr rest post (ops @ [x]) (m @ m')))"
  by pat_completeness auto
termination
proof (relation "measures [\<lambda>(expr, line, post, ops, m). MYOPS - length ops, \<lambda>(expr, line, post, ops, m). length line]",
    goal_cases)
  case (2 expr line post ops m c p)
  then have "length (c # p) \<le> length line" by (metis length_dropWhile_le)
  then show ?case by simp
qed auto

declare get_operands_loop.simps [simp del]

text \<open>The result is the array: the operands, the terminator, and unused elements up to six.\<close>

definition get_operands_asm ::
  "(string \<Rightarrow> expressionS \<times> string) \<Rightarrow> string \<Rightarrow> as_error + expressionS list \<times> msgs" where
  "get_operands_asm expr line =
     bindE (get_operands_loop expr line 0 [] []) (\<lambda>(post, ops, m).
       let ops = ops @ (if post = - 1 then [absent OPERAND_MINUS] else if post = 1 then [absent OPERAND_PLUS] else [])
       in if MYOPS \<le> length ops then Inl (Out_of_bounds ''myops'')
          else Inr (ops @ replicate (MYOPS - length ops) blank, m))"

end
