(* ===== verification/Gas_Insn.thy ===== *)
theory Gas_Insn
  imports Gas_Operands
begin

text \<open>
  The D10V assembler, \<open>src/src/gas/config/tc-d10v.c\<close>, continued: the choice of the opcode table entry
  for the operands that were read, the instruction word with its fixups, and the assembly of a single
  instruction. A pointer into \<open>d10v_opcodes\<close> is an index; behind the last entry is the terminator.
\<close>

section \<open>The opcode table\<close>

definition opcode_at :: "nat \<Rightarrow> d10v_opcode" where
  "opcode_at i = (if i < length d10v_opcodes then d10v_opcodes ! i else d10v_opcode.make [] 0 0 0 0 0 0 [])"

definition operand_at :: "nat \<Rightarrow> d10v_operand" where
  "operand_at k = d10v_operands ! k"

text \<open>
  The hash table that \<open>md_begin\<close> fills with the first entry of every name, by name; \<open>hash_insert\<close> keeps an
  entry that is there.
\<close>

fun md_begin_loop :: "d10v_opcode list \<Rightarrow> nat \<Rightarrow> string \<Rightarrow> (string \<times> nat) list \<Rightarrow> (string \<times> nat) list" where
  "md_begin_loop [] i prev_name h = h"
| "md_begin_loop (e # es) i prev_name h =
     (if prev_name \<noteq> op_name e
      then md_begin_loop es (i + 1) (op_name e) (if map_of h (op_name e) = None then h @ [(op_name e, i)] else h)
      else md_begin_loop es (i + 1) prev_name h)"

definition d10v_hash :: "(string \<times> nat) list" where
  "d10v_hash = md_begin_loop d10v_opcodes 0 [] []"

section \<open>Choosing the entry\<close>

text \<open>
  What is known of symbols while a line is read: whether a symbol is defined and in the current segment,
  its value, and the address of the instruction being assembled.
\<close>

record symtab =
  S_IS_DEFINED :: "string \<Rightarrow> bool"
  S_IN_now_seg :: "string \<Rightarrow> bool"
  S_GET_VALUE :: "string \<Rightarrow> uint32"
  here :: uint32

abbreviation (input) "REG_KINDS \<equiv>
  OPERAND_GPR OR OPERAND_ACC0 OR OPERAND_ACC1 OR OPERAND_FFLAG OR OPERAND_CFLAG OR OPERAND_CONTROL"

definition reg_mismatch :: "uint32 \<Rightarrow> expressionS \<Rightarrow> bool" where
  "reg_mismatch flags x \<longleftrightarrow> X_op x \<noteq> O_register \<or> (X_add_number x AND NOT flags) AND (REG_KINDS) \<noteq> 0"

definition name_as_symbol :: "expressionS \<Rightarrow> expressionS" where
  "name_as_symbol x =
     x\<lparr>X_op := O_symbol, X_add_symbol := (case X_op_symbol x of Name_text t \<Rightarrow> Some t | _ \<Rightarrow> None),
       X_add_number := 0, X_op_symbol := No_symbol\<rparr>"

text \<open>The loop over the entries that follow a placeholder, \<open>n\<close> of them.\<close>

fun fake_loop :: "symtab \<Rightarrow> nat \<Rightarrow> expressionS \<Rightarrow> nat \<Rightarrow> nat \<Rightarrow> nat option" where
  "fake_loop st opnum x next_opcode 0 = None"
| "fake_loop st opnum x next_opcode (Suc n) =
     (let d = operand_at (op_operands (opcode_at next_opcode) ! opnum);
          flags = opnd_flags d;
          bits = opnd_bits d + (if flags AND OPERAND_ADDR \<noteq> 0 then 2 else 0);
          ok = (if X_op x = O_constant then \<not> check_range (X_add_number x) bits flags
                else (let sym = the (X_add_symbol x);
                          val = (if flags AND OPERAND_ADDR \<noteq> 0 then S_GET_VALUE st sym - here st
                                 else S_GET_VALUE st sym)
                      in if AT_WORD_P x then bits > 4 \<and> \<not> check_range val (bits + 2) flags
                         else \<not> check_range val bits flags))
      in if ok then Some next_opcode else fake_loop st opnum x (next_opcode + 1) n)"

definition syntax_mismatch :: "uint32 \<Rightarrow> expressionS \<Rightarrow> bool" where
  "syntax_mismatch flags x \<longleftrightarrow>
     (\<exists>m \<in> set [OPERAND_MINUS, OPERAND_PLUS, OPERAND_ATMINUS, OPERAND_ATPAR, OPERAND_ATSIGN].
        flags AND m \<noteq> 0 \<and> (X_op x \<noteq> O_absent \<or> X_add_number x \<noteq> m))"

fun operands_match :: "nat list \<Rightarrow> expressionS list \<Rightarrow> bool" where
  "operands_match [] xs \<longleftrightarrow> X_op (hd xs) = O_illegal"
| "operands_match (k # ks) xs \<longleftrightarrow>
     (let flags = opnd_flags (operand_at k); x = hd xs
      in X_op x \<noteq> O_illegal \<and> \<not> (flags AND OPERAND_REG \<noteq> 0 \<and> reg_mismatch flags x)
         \<and> \<not> syntax_mismatch flags x \<and> operands_match ks (tl xs))"

text \<open>The search over the entries with the same name; \<open>n\<close> bounds the entries that are left in the table.\<close>

fun match_loop :: "nat \<Rightarrow> nat \<Rightarrow> expressionS list \<Rightarrow> nat option" where
  "match_loop 0 i myops = None"
| "match_loop (Suc n) i myops =
     (if operands_match (op_operands (opcode_at i)) myops then Some i
      else if op_opcode (opcode_at (i + 1)) = 0 then None
      else if op_name (opcode_at (i + 1)) \<noteq> op_name (opcode_at i) then None
      else match_loop n (i + 1) myops)"

fun check_even :: "nat list \<Rightarrow> expressionS list \<Rightarrow> bool" where
  "check_even (k # ks) (x # xs) \<longleftrightarrow>
     \<not> (opnd_flags (operand_at k) AND OPERAND_EVEN \<noteq> 0 \<and> X_add_number x AND 1 \<noteq> 0) \<and> check_even ks xs"
| "check_even ks xs \<longleftrightarrow> True"

fun fix_symbols :: "nat list \<Rightarrow> expressionS list \<Rightarrow> expressionS list" where
  "fix_symbols (k # ks) (x # xs) =
     (if X_op x = O_register \<and> opnd_flags (operand_at k) AND OPERAND_REG = 0 then name_as_symbol x else x)
     # fix_symbols ks xs"
| "fix_symbols ks xs = xs"

text \<open>\<open>find_opcode\<close> after the call of \<open>get_operands\<close>. \<open>None\<close> is the null pointer, returned after a message.\<close>

definition find_opcode ::
  "symtab \<Rightarrow> nat \<Rightarrow> expressionS list \<Rightarrow> as_error + (nat \<times> expressionS list) option" where
  "find_opcode st opcode myops =
     (if op_format (opcode_at opcode) = OPCODE_FAKE then
        (let ks = op_operands (opcode_at opcode);
             opnum = hd ks;
             myops = (if X_op (myops ! opnum) = O_register
                      then myops[opnum := name_as_symbol (myops ! opnum)] else myops);
             flags = opnd_flags (operand_at (hd (op_operands (opcode_at (opcode + 1)))));
             x = myops ! opnum
         in if flags AND OPERAND_REG \<noteq> 0 \<and> reg_mismatch flags (hd myops) then Inr None
            else if X_op x = O_constant
                 \<or> X_op x = O_symbol \<and> S_IS_DEFINED st (the (X_add_symbol x)) \<and> S_IN_now_seg st (the (X_add_symbol x))
            then (case fake_loop st opnum x (opcode + 1) (length (takeWhile (\<lambda>k. k \<noteq> 0) (tl ks))) of
                    Some i \<Rightarrow> Inr (Some (i, myops))
                  | None \<Rightarrow> Inl (As_fatal ''value out of range''))
            else Inr (Some (opcode + 2, myops)))
      else
        (case match_loop (length d10v_opcodes) opcode myops of
           None \<Rightarrow> Inr None
         | Some i \<Rightarrow>
             if check_even (op_operands (opcode_at i)) myops
             then Inr (Some (i, fix_symbols (op_operands (opcode_at i)) myops))
             else Inl (As_fatal ''Register number must be EVEN'')))"

section \<open>The instruction word\<close>

text \<open>\<open>struct d10v_fixup\<close>; the array of an instruction has room for five.\<close>

record d10v_fixup =
  fix_exp :: expressionS
  fix_operand :: uint32
  fix_pcrel :: bool
  fix_size :: nat
  fix_reloc :: uint32

abbreviation (input) "MAX_INSN_FIXUPS \<equiv> 5 :: nat"

definition field_mask :: "nat \<Rightarrow> uint32" where
  "field_mask bits = drop_bit (31 - bits) 0x7FFFFFFF"

definition make_fixup :: "nat \<Rightarrow> uint32 \<Rightarrow> expressionS \<Rightarrow> d10v_fixup \<times> expressionS \<times> uint32" where
  "make_fixup k number x =
     (let d = operand_at k;
          (reloc, x, number) =
            (if AT_WORD_P x
             then (BFD_RELOC_D10V_18,
                   x\<lparr>X_op := O_symbol, X_op_symbol := No_symbol, X_add_number := push_bit AT_WORD_RIGHT_SHIFT number\<rparr>,
                   push_bit AT_WORD_RIGHT_SHIFT number)
             else (get_reloc d, x, number))
      in (\<lparr>fix_exp = x, fix_operand = of_nat k, fix_pcrel = (opnd_flags d AND OPERAND_ADDR \<noteq> 0),
           fix_size = (if reloc = BFD_RELOC_16 \<or> reloc = BFD_RELOC_D10V_18 then 2 else 4), fix_reloc = reloc\<rparr>,
          x, number))"

fun build_loop :: "uint32 \<Rightarrow> nat list \<Rightarrow> expressionS list \<Rightarrow> uint32 \<Rightarrow> d10v_fixup list \<Rightarrow> msgs
    \<Rightarrow> as_error + uint32 \<times> expressionS list \<times> d10v_fixup list \<times> msgs" where
  "build_loop format (k # ks) (x # xs) insn fx m =
     (let d = operand_at k;
          flags = opnd_flags d;
          number = (if flags AND OPERAND_REG \<noteq> 0 then X_add_number x AND REGISTER_MASK else X_add_number x);
          shift = opnd_shift d + (if flags AND OPERAND_REG \<noteq> 0 \<and> format = LONG_L then 15 else 0)
      in if X_op x \<noteq> O_register \<and> X_op x \<noteq> O_constant \<and> MAX_INSN_FIXUPS \<le> length fx
         then Inl (As_fatal ''too many fixups'')
         else
           (let (fx, x, number) =
                  (if X_op x \<noteq> O_register \<and> X_op x \<noteq> O_constant
                   then let (f, x, number) = make_fixup k number x in (fx @ [f], x, number)
                   else (fx, x, number));
                m = m @ (if X_op x = O_constant \<and> check_range number (opnd_bits d) flags
                         then [''operand out of range''] else []);
                number = number AND field_mask (opnd_bits d)
            in bindE (build_loop format ks xs (insn OR push_bit shift number) fx m)
                 (\<lambda>(insn, xs, r). Inr (insn, x # xs, r))))"
| "build_loop format ks xs insn fx m = Inr (insn, xs, fx, m)"

definition build_insn :: "d10v_opcode \<Rightarrow> expressionS list \<Rightarrow> d10v_fixup list \<Rightarrow> msgs
    \<Rightarrow> as_error + uint32 \<times> d10v_fixup list \<times> msgs" where
  "build_insn opcode opers fx m =
     bindE (build_loop (op_format opcode) (op_operands opcode) opers (op_opcode opcode) fx m)
       (\<lambda>(insn, opers, fx, m).
          if op_opcode opcode = OPCODE_DIVS \<and> op_format opcode = LONG_L
          then bindE (build_loop LONG_R (op_operands opcode) opers insn fx m)
                 (\<lambda>(insn, opers, fx, m). Inr (insn, fx, m))
          else Inr (insn, fx, m))"

section \<open>One instruction\<close>

definition is_end_of_line :: "char \<Rightarrow> bool" where
  "is_end_of_line c \<longleftrightarrow> c = CHR 0x00 \<or> c = CHR 0x0A \<or> c = CHR '';''"

definition char_tolower :: "char \<Rightarrow> char" where
  "char_tolower c = char_of (tolower c)"

abbreviation (input) "NAME_SIZE \<equiv> 20 :: nat"

text \<open>
  \<open>do_assemble\<close>: the entry and the instruction word, or \<open>None\<close> for the value \<open>-1\<close>. The name is copied to
  a local array of twenty characters; a name of twenty or more leaves no room for its end.
\<close>

definition do_assemble :: "(string \<Rightarrow> expressionS \<times> string) \<Rightarrow> symtab \<Rightarrow> string \<Rightarrow> d10v_fixup list \<Rightarrow> msgs
    \<Rightarrow> as_error + (nat \<times> uint32) option \<times> d10v_fixup list \<times> msgs" where
  "do_assemble expr st str fx m =
     (let str = dropWhile (\<lambda>c. c = CHR '' '') str;
          word = takeWhile (\<lambda>c. \<not> is_end_of_line c \<and> c \<noteq> CHR '' '') str;
          name = map char_tolower word
      in if NAME_SIZE \<le> length word then Inl (Out_of_bounds ''name'')
         else if name = [] then Inr (None, fx, m)
         else case map_of d10v_hash name of
                None \<Rightarrow> Inl (As_fatal ''unknown opcode'')
              | Some i \<Rightarrow>
                  bindE (get_operands_asm expr (drop (length word) str)) (\<lambda>(myops, m').
                  bindE (find_opcode st i myops) (\<lambda>r.
                    case r of
                      None \<Rightarrow> Inr (None, fx, m @ m' @ [''bad opcode or operands''])
                    | Some (j, myops) \<Rightarrow>
                        bindE (build_insn (opcode_at j) myops fx (m @ m')) (\<lambda>(insn, fx, m).
                          Inr (Some (j, insn), fx, m)))))"

end
