(* ===== verification/Gas_Pack.thy ===== *)
theory Gas_Pack
  imports Gas_Insn
begin

text \<open>
  The D10V assembler, \<open>src/src/gas/config/tc-d10v.c\<close>, from instructions to bytes: which two short
  instructions may be executed in parallel (\<open>parallel_ok\<close>), how they are packed into a word
  (\<open>write_long\<close>, \<open>write_1_short\<close>, \<open>write_2_short\<close>), the main entry \<open>md_assemble\<close> with the instruction that is
  held back for packing.
\<close>

section \<open>State\<close>

text \<open>
  The static variables of the file and of gas it uses. \<open>FixUps\<close> are the fixups of the two instructions
  that may be in flight, \<open>cur\<close> says which of them \<open>fixups\<close> points to; their \<open>next\<close> pointers form a ring.
  \<open>frags\<close> are the bytes of each segment and subsegment, \<open>fix_list\<close> the fixups handed to gas by \<open>fix_new_exp\<close>.
\<close>

type_synonym subseg = "nat \<times> nat"

record fixS =
  fx_where :: nat
  fx_size :: nat
  fx_exp :: expressionS
  fx_pcrel :: bool
  fx_r_type :: uint32

record gas =
  FixUps :: "bool \<Rightarrow> d10v_fixup list"
  cur :: bool
  prev_opcode :: "nat option"
  prev_insn :: uint32
  prev_seg :: "subseg option"
  etype :: nat
  now_seg :: subseg
  Optimizing :: bool
  flag_warn_suppress_instructionswap :: bool
  frags :: "subseg \<Rightarrow> uint8 list"
  fix_list :: "subseg \<Rightarrow> fixS list"
  errors :: msgs
  warnings :: msgs

text \<open>The static variables after \<open>md_begin\<close>, in an empty segment.\<close>

definition gas_start :: gas where
  "gas_start = \<lparr>FixUps = (\<lambda>_. []), cur = False, prev_opcode = None, prev_insn = 0, prev_seg = None, etype = 0,
     now_seg = (0, 0), Optimizing = False, flag_warn_suppress_instructionswap = False, frags = (\<lambda>_. []),
     fix_list = (\<lambda>_. []), errors = [], warnings = []\<rparr>"

section \<open>Parallel execution\<close>

definition bit_of :: "nat \<Rightarrow> uint32" where
  "bit_of n = push_bit n 1"

definition regno_of :: "uint32 \<Rightarrow> nat \<Rightarrow> nat" where
  "regno_of flags regno =
     (if flags AND (OPERAND_ACC0 OR OPERAND_ACC1) \<noteq> 0 then regno + 16
      else if flags AND OPERAND_CONTROL \<noteq> 0 then (if regno = 0 then 19 else 18)
      else if flags AND (OPERAND_FFLAG OR OPERAND_CFLAG) \<noteq> 0 then 19
      else regno)"

text \<open>The loop over the operands: the bit masks \<open>mod\<close> and \<open>used\<close> of an instruction.\<close>

fun operand_masks :: "nat list \<Rightarrow> uint32 \<Rightarrow> uint32 \<times> uint32 \<Rightarrow> uint32 \<times> uint32" where
  "operand_masks [] ins mu = mu"
| "operand_masks (k # ks) ins (md, us) =
     (let d = operand_at k; flags = opnd_flags d in
      if flags AND OPERAND_REG \<noteq> 0 then
        (let regno = regno_of flags (unat (drop_bit (opnd_shift d) ins AND field_mask (opnd_bits d)));
             both = bit_of regno OR (if flags AND OPERAND_EVEN \<noteq> 0 then bit_of (regno + 1) else 0)
         in if flags AND OPERAND_DEST \<noteq> 0 then operand_masks ks ins (md OR both, us)
            else operand_masks ks ins
                   (if ks \<noteq> [] \<and> opnd_flags (operand_at (hd ks)) AND (OPERAND_PLUS OR OPERAND_MINUS) \<noteq> 0
                    then md OR bit_of regno else md, us OR both))
      else if flags AND OPERAND_ATMINUS \<noteq> 0 then operand_masks ks ins (md OR bit_of 15, us OR bit_of 15)
      else operand_masks ks ins (md, us))"

definition insn_masks :: "d10v_opcode \<Rightarrow> uint32 \<Rightarrow> uint32 \<times> uint32" where
  "insn_masks op ins =
     (let (md, us) = operand_masks (op_operands op) ins
                       (if op_exec_type op AND BRANCH_LINK \<noteq> 0 then bit_of 13 else 0, 0);
          t = op_exec_type op
      in if t AND RMEM \<noteq> 0 then (md, us OR bit_of 20)
         else if t AND WMEM \<noteq> 0 then (md OR bit_of 20, us)
         else if t AND RF0 \<noteq> 0 then (md, us OR bit_of 19)
         else if t AND WF0 \<noteq> 0 then (md OR bit_of 19, us)
         else if t AND WCAR \<noteq> 0 then (md OR bit_of 19, us)
         else (md, us))"

definition parallel_ok :: "d10v_opcode \<Rightarrow> uint32 \<Rightarrow> d10v_opcode \<Rightarrow> uint32 \<Rightarrow> nat \<Rightarrow> bool" where
  "parallel_ok op1 insn1 op2 insn2 exec_type \<longleftrightarrow>
     \<not> (op_exec_type op1 AND SEQ \<noteq> 0 \<or> op_exec_type op2 AND SEQ \<noteq> 0
        \<or> op_exec_type op1 AND PAR = 0 \<or> op_exec_type op2 AND PAR = 0
        \<or> op_unit op1 = BOTH \<or> op_unit op2 = BOTH
        \<or> op_unit op1 = IU \<and> op_unit op2 = IU \<or> op_unit op1 = MU \<and> op_unit op2 = MU)
     \<and> \<not> (exec_type = 0 \<and> op_exec_type op1 AND BRANCH \<noteq> 0)
     \<and> (let (mod0, used0) = insn_masks op1 insn1; (mod1, used1) = insn_masks op2 insn2
        in mod0 AND mod1 = 0 \<and> mod0 AND used1 = 0)"

section \<open>Writing words\<close>

text \<open>The loop of \<open>number_to_chars_bigendian\<close> in \<open>src/src/gas/write.c\<close>, for sizes from 1 to 4.\<close>

fun number_to_chars_bigendian :: "uint32 \<Rightarrow> nat \<Rightarrow> uint8 list" where
  "number_to_chars_bigendian val 0 = []"
| "number_to_chars_bigendian val (Suc n) = number_to_chars_bigendian (drop_bit 8 val) n @ [ucast (val AND 0xff)]"

lemma ucast_and_ff [simp]: "(ucast (v AND 0xff) :: uint8) = ucast (v :: uint32)"
proof -
  have m: "(0xff :: uint32) = mask 8" by (simp add: mask_eq_exp_minus_1)
  show ?thesis unfolding m by (auto intro!: bit_word_eqI simp: bit_simps)
qed

lemma number_to_chars_4: "number_to_chars_bigendian w 4 = bfd_putb32 w"
  by (simp add: numeral_eq_Suc bfd_putb32_def)

text \<open>
  A word is written at \<open>f\<close>, the end of the current fragment. \<open>put_fix\<close> hands a fixup on; \<open>left\<close> says whether
  a branch displacement is in the left container.
\<close>

definition put_fix :: "nat \<Rightarrow> bool \<Rightarrow> d10v_fixup \<Rightarrow> fixS list" where
  "put_fix f left fx =
     (if fix_reloc fx = BFD_RELOC_dummy then []
      else [\<lparr>fx_where = f + (if fix_size fx = 2 then 2 else 0), fx_size = fix_size fx, fx_exp = fix_exp fx,
             fx_pcrel = fix_pcrel fx,
             fx_r_type = fix_operand fx OR (if fix_reloc fx = BFD_RELOC_D10V_18 then 4096 else 0)
                         OR (if fix_reloc fx = BFD_RELOC_D10V_10_PCREL_R \<and> left then 1024 else 0) OR 2048\<rparr>])"

definition emit :: "uint32 \<Rightarrow> (bool \<times> bool) list \<Rightarrow> gas \<Rightarrow> gas" where
  "emit insn which g =
     (let f = length (frags g (now_seg g));
          new = concat (map (\<lambda>(i, left). concat (map (put_fix f left) (FixUps g i))) which)
      in g\<lparr>frags := (frags g)(now_seg g := frags g (now_seg g) @ number_to_chars_bigendian insn 4),
           fix_list := (fix_list g)(now_seg g := fix_list g (now_seg g) @ new),
           FixUps := (\<lambda>i. if i \<in> fst ` set which then [] else FixUps g i)\<rparr>)"

definition write_long :: "nat \<Rightarrow> uint32 \<Rightarrow> bool \<Rightarrow> gas \<Rightarrow> gas" where
  "write_long opcode insn fx g = emit (insn OR FM11) [(fx, False)] g"

definition write_1_short :: "nat \<Rightarrow> uint32 \<Rightarrow> bool \<Rightarrow> gas \<Rightarrow> as_error + gas" where
  "write_1_short opcode insn fx g =
     (let op = opcode_at opcode in
      if op_exec_type op AND PARONLY \<noteq> 0
      then Inl (As_fatal ''Instruction must be executed in parallel with another instruction.'')
      else (let w = (if op_unit op = IU then insn OR (FM00 OR push_bit 15 NOP) else FM00 OR push_bit 15 insn OR NOP)
            in Inr (emit w [(fx, op_unit op \<noteq> IU)] g)))"

text \<open>
  The \<open>switch\<close> of \<open>write_2_short\<close>: the word, whether \<open>fx\<close> was advanced, and the warnings about instructions that
  have changed their order.
\<close>

definition swapping :: "bool \<Rightarrow> msgs" where
  "swapping nowarn = (if nowarn then [] else [''Swapping instruction order''])"

definition pack_2_short :: "bool \<Rightarrow> bool \<Rightarrow> d10v_opcode \<Rightarrow> uint32 \<Rightarrow> d10v_opcode \<Rightarrow> uint32 \<Rightarrow> nat
    \<Rightarrow> as_error + uint32 \<times> bool \<times> msgs" where
  "pack_2_short opt nowarn op1 insn1 op2 insn2 exec_type =
     (if exec_type = 0 then
        (if opt \<and> parallel_ok op1 insn1 op2 insn2 exec_type then
           (if op_unit op1 = IU then Inr (FM00 OR push_bit 15 insn2 OR insn1, False, [])
            else if op_unit op2 = MU then Inr (FM00 OR push_bit 15 insn2 OR insn1, False, [])
            else Inr (FM00 OR push_bit 15 insn1 OR insn2, True, []))
         else if op_unit op1 = IU then Inr (FM10 OR push_bit 15 insn2 OR insn1, False, [])
         else Inr (FM01 OR push_bit 15 insn1 OR insn2, True, []))
      else if exec_type = 1 then
        (if op_exec_type op1 AND SEQ \<noteq> 0 \<or> op_exec_type op2 AND SEQ \<noteq> 0
         then Inl (As_fatal ''One of these instructions may not be executed in parallel.'')
         else if op_unit op1 = IU then
           (if op_unit op2 = IU then Inl (As_fatal ''Two IU instructions may not be executed in parallel'')
            else Inr (FM00 OR push_bit 15 insn2 OR insn1, False, swapping nowarn))
         else if op_unit op2 = MU then
           (if op_unit op1 = MU then Inl (As_fatal ''Two MU instructions may not be executed in parallel'')
            else Inr (FM00 OR push_bit 15 insn2 OR insn1, False, swapping nowarn))
         else Inr (FM00 OR push_bit 15 insn1 OR insn2, True, []))
      else if exec_type = 2 then
        (if op_unit op1 = IU then Inl (As_fatal ''IU instruction may not be in the left container'')
         else Inr (FM01 OR push_bit 15 insn1 OR insn2, True, []))
      else if exec_type = 3 then
        (if op_unit op2 = MU then Inl (As_fatal ''MU instruction may not be in the right container'')
         else Inr (FM10 OR push_bit 15 insn1 OR insn2, True, []))
      else Inl (As_fatal ''unknown execution type passed to write_2_short()''))"

definition write_2_short :: "nat \<Rightarrow> uint32 \<Rightarrow> nat \<Rightarrow> uint32 \<Rightarrow> nat \<Rightarrow> bool \<Rightarrow> gas \<Rightarrow> as_error + nat \<times> gas" where
  "write_2_short opcode1 insn1 opcode2 insn2 exec_type fx g =
     (let op1 = opcode_at opcode1; op2 = opcode_at opcode2 in
      if exec_type \<noteq> 1 \<and> (op_exec_type op1 AND PARONLY \<noteq> 0 \<or> op_exec_type op2 AND PARONLY \<noteq> 0)
      then Inl (As_fatal ''Instruction must be executed in parallel'')
      else if op_format op1 AND LONG_OPCODE \<noteq> 0 \<or> op_format op2 AND LONG_OPCODE \<noteq> 0
      then Inl (As_fatal ''Long instructions may not be combined.'')
      else if op_exec_type op1 AND BRANCH_LINK \<noteq> 0 \<and> exec_type = 0
      then bindE (write_1_short opcode1 insn1 (\<not> fx) g) (\<lambda>g. Inr (1, g))
      else bindE (pack_2_short (Optimizing g) (flag_warn_suppress_instructionswap g) op1 insn1 op2 insn2 exec_type)
             (\<lambda>(w, swap, warn).
                let fx = (if swap then \<not> fx else fx)
                in Inr (0, emit w [(fx, True), (\<not> fx, False)] (g\<lparr>warnings := warnings g @ warn\<rparr>))))"

section \<open>The main entry\<close>

text \<open>\<open>d10v_cleanup\<close>; \<open>subseg_set\<close> looks into the section it is given, which may not be the null pointer.\<close>

definition d10v_cleanup :: "gas \<Rightarrow> as_error + gas" where
  "d10v_cleanup g =
     (case prev_opcode g of
        None \<Rightarrow> Inr g
      | Some op \<Rightarrow>
          (case prev_seg g of
             None \<Rightarrow> Inl (Null_pointer ''prev_seg'')
           | Some s \<Rightarrow>
               (let seg = now_seg g in
                bindE (write_1_short op (prev_insn g) (\<not> cur g) (g\<lparr>now_seg := s\<rparr>)) (\<lambda>g.
                  Inr (g\<lparr>now_seg := seg, prev_opcode := None\<rparr>)))))"

text \<open>\<open>strstr\<close>: the text before and after the first occurrence of a separator of two characters.\<close>

fun strstr2 :: "string \<Rightarrow> string \<Rightarrow> (string \<times> string) option" where
  "strstr2 [] sep = None"
| "strstr2 (c # s) sep =
     (if take 2 (c # s) = sep then Some ([], drop 2 (c # s))
      else map_option (\<lambda>(a, b). (c # a, b)) (strstr2 s sep))"

definition find_separator :: "string \<Rightarrow> (nat \<times> string \<times> string) option" where
  "find_separator str =
     (case strstr2 str ''||'' of
        Some (a, b) \<Rightarrow> Some (1, a, b)
      | None \<Rightarrow>
          (case strstr2 str ''->'' of
             Some (a, b) \<Rightarrow> Some (2, a, b)
           | None \<Rightarrow>
               (case strstr2 str ''<-'' of Some (a, b) \<Rightarrow> Some (3, a, b) | None \<Rightarrow> None)))"

text \<open>\<open>do_assemble\<close> with the fixups and messages of the state.\<close>

definition assemble :: "(string \<Rightarrow> expressionS \<times> string) \<Rightarrow> symtab \<Rightarrow> string \<Rightarrow> gas
    \<Rightarrow> as_error + (nat \<times> uint32) option \<times> gas" where
  "assemble expr st str g =
     bindE (do_assemble expr st str (FixUps g (cur g)) (errors g)) (\<lambda>(r, fx, m).
       Inr (r, g\<lparr>FixUps := (FixUps g)(cur g := fx), errors := m\<rparr>))"

text \<open>The part of \<open>md_assemble\<close> that handles the instruction it has assembled: a short one, and any one.\<close>

definition place_short :: "nat \<Rightarrow> nat \<Rightarrow> uint32 \<Rightarrow> gas \<Rightarrow> as_error + gas" where
  "place_short extype opcode insn g =
     bindE (case prev_opcode g of
              None \<Rightarrow> Inr (1, g)
            | Some p \<Rightarrow> write_2_short p (prev_insn g) opcode insn extype (cur g) g) (\<lambda>(left, g).
       if left = 0 then Inr (g\<lparr>prev_opcode := None\<rparr>)
       else if extype \<noteq> 0 then Inl (As_fatal ''Unable to mix instructions as specified'')
       else Inr (g\<lparr>prev_opcode := Some opcode, prev_insn := insn, prev_seg := Some (now_seg g), cur := \<not> cur g\<rparr>))"

definition place :: "nat \<Rightarrow> nat \<Rightarrow> uint32 \<Rightarrow> gas \<Rightarrow> as_error + gas" where
  "place extype opcode insn g =
     (if op_format (opcode_at opcode) AND LONG_OPCODE \<noteq> 0 then
        (if extype \<noteq> 0 then Inl (As_fatal ''Unable to mix instructions as specified'')
         else bindE (d10v_cleanup g) (\<lambda>g. Inr ((write_long opcode insn (cur g) g)\<lparr>prev_opcode := None\<rparr>)))
      else
        bindE (if prev_opcode g \<noteq> None \<and> prev_seg g \<noteq> None \<and> prev_seg g \<noteq> Some (now_seg g)
               then d10v_cleanup g else Inr g) (place_short extype opcode insn))"

text \<open>The first of two instructions on a line, which is kept like one that is held back, and the last one.\<close>

definition md_first :: "(string \<Rightarrow> expressionS \<times> string) \<Rightarrow> symtab \<Rightarrow> string \<Rightarrow> gas \<Rightarrow> as_error + gas" where
  "md_first expr st str g =
     bindE (d10v_cleanup g) (\<lambda>g.
     bindE (assemble expr st str g) (\<lambda>(r, g).
       case r of
         None \<Rightarrow> Inl (As_fatal ''can't find opcode '')
       | Some (op, insn) \<Rightarrow> Inr (g\<lparr>prev_opcode := Some op, prev_insn := insn, cur := \<not> cur g\<rparr>)))"

definition md_last :: "(string \<Rightarrow> expressionS \<times> string) \<Rightarrow> symtab \<Rightarrow> nat \<Rightarrow> string \<Rightarrow> gas \<Rightarrow> as_error + gas" where
  "md_last expr st extype str g =
     bindE (assemble expr st str g) (\<lambda>(r, g).
       case r of
         None \<Rightarrow> if extype \<noteq> 0 then Inr (g\<lparr>etype := extype\<rparr>) else Inl (As_fatal ''can't find opcode '')
       | Some (op, insn) \<Rightarrow>
           if etype g \<noteq> 0 then place (etype g) op insn (g\<lparr>etype := 0\<rparr>) else place extype op insn g)"

definition md_assemble :: "(string \<Rightarrow> expressionS \<times> string) \<Rightarrow> symtab \<Rightarrow> string \<Rightarrow> gas \<Rightarrow> as_error + gas" where
  "md_assemble expr st str g =
     (case (if etype g = 0 then find_separator str else None) of
        None \<Rightarrow> md_last expr st 0 str g
      | Some (extype, str1, str2) \<Rightarrow> bindE (md_first expr st str1 g) (md_last expr st extype str2))"

end
