(* ===== verification/Elf32_D10V.thy ===== *)
theory Elf32_D10V
  imports Bfd_Reloc
begin

text \<open>
  The D10V part of the ELF back end, \<open>src/src/bfd/elf32-d10v.c\<close>: the table of relocations, the map from BFD
  relocation codes to its entries, and the lookup in both directions.
\<close>

section \<open>The table\<close>

abbreviation (input) "R_D10V_NONE \<equiv> 0 :: nat"
abbreviation (input) "R_D10V_10_PCREL_R \<equiv> 1 :: nat"
abbreviation (input) "R_D10V_10_PCREL_L \<equiv> 2 :: nat"
abbreviation (input) "R_D10V_16 \<equiv> 3 :: nat"
abbreviation (input) "R_D10V_18 \<equiv> 4 :: nat"
abbreviation (input) "R_D10V_18_PCREL \<equiv> 5 :: nat"
abbreviation (input) "R_D10V_32 \<equiv> 6 :: nat"
abbreviation (input) "R_D10V_max \<equiv> 7 :: nat"

definition elf_d10v_howto_table :: "reloc_howto list" where
  "elf_d10v_howto_table = [
     reloc_howto.make R_D10V_NONE 0 2 32 False 0 complain_overflow_bitfield bfd_elf_generic
       ''R_D10V_NONE'' False 0 0 False,
     reloc_howto.make R_D10V_10_PCREL_R 2 2 10 True 0 complain_overflow_bitfield bfd_elf_generic
       ''R_D10V_10_PCREL_R'' False 0xff 0xff True,
     reloc_howto.make R_D10V_10_PCREL_L 2 2 10 True 15 complain_overflow_bitfield bfd_elf_generic
       ''R_D10V_10_PCREL_L'' False 0x07f8000 0x07f8000 True,
     reloc_howto.make R_D10V_16 0 1 16 False 0 complain_overflow_dont bfd_elf_generic
       ''R_D10V_16'' False 0xffff 0xffff False,
     reloc_howto.make R_D10V_18 2 1 18 False 0 complain_overflow_dont bfd_elf_generic
       ''R_D10V_18'' False 0xffff 0xffff False,
     reloc_howto.make R_D10V_18_PCREL 2 2 18 True 0 complain_overflow_signed bfd_elf_generic
       ''R_D10V_18_PCREL'' False 0xffff 0xffff True,
     reloc_howto.make R_D10V_32 0 2 32 False 0 complain_overflow_bitfield bfd_elf_generic
       ''R_D10V_32'' False 0xffffffff 0xffffffff False]"

text \<open>\<open>struct d10v_reloc_map\<close> keeps both numbers in an \<open>unsigned char\<close>.\<close>

definition d10v_reloc_map :: "(uint8 \<times> uint8) list" where
  "d10v_reloc_map = map (\<lambda>(b, e). (ucast b, of_nat e)) [
     (BFD_RELOC_NONE, R_D10V_NONE),
     (BFD_RELOC_D10V_10_PCREL_R, R_D10V_10_PCREL_R),
     (BFD_RELOC_D10V_10_PCREL_L, R_D10V_10_PCREL_L),
     (BFD_RELOC_16, R_D10V_16),
     (BFD_RELOC_D10V_18, R_D10V_18),
     (BFD_RELOC_D10V_18_PCREL, R_D10V_18_PCREL),
     (BFD_RELOC_32, R_D10V_32)]"

section \<open>Lookup\<close>

fun reloc_map_loop :: "(uint8 \<times> uint8) list \<Rightarrow> uint32 \<Rightarrow> reloc_howto option" where
  "reloc_map_loop [] code = None"
| "reloc_map_loop ((b, e) # es) code =
     (if ucast b = code then Some (elf_d10v_howto_table ! unat e) else reloc_map_loop es code)"

definition bfd_elf32_bfd_reloc_type_lookup :: "uint32 \<Rightarrow> reloc_howto option" where
  "bfd_elf32_bfd_reloc_type_lookup code = reloc_map_loop d10v_reloc_map code"

text \<open>
  \<open>ELF32_R_TYPE\<close> is the low byte of \<open>r_info\<close>. \<open>BFD_ASSERT\<close> reports and goes on, so that a type that is not in
  the table is used as an index behind its end.
\<close>

definition ELF32_R_TYPE :: "uint32 \<Rightarrow> nat" where
  "ELF32_R_TYPE i = unat (i AND 0xff)"

definition d10v_info_to_howto_rel :: "uint32 \<Rightarrow> arelent \<Rightarrow> bfd_fault + arelent" where
  "d10v_info_to_howto_rel r_info cache_ptr =
     (let r_type = ELF32_R_TYPE r_info
      in if r_type < length elf_d10v_howto_table then Inr (cache_ptr\<lparr>howto := elf_d10v_howto_table ! r_type\<rparr>)
         else Inl Access_outside)"

end
