(* ===== verification/Gas_Fix.thy ===== *)
theory Gas_Fix
  imports Gas_Pack Elf32_D10V
begin

text \<open>
  The remaining entries of the D10V assembler, \<open>src/src/gas/config/tc-d10v.c\<close> and \<open>tc-d10v.h\<close>: the resolution
  of fixups (\<open>md_apply_fix3\<close>, \<open>md_pcrel_from_section\<close>, \<open>tc_gen_reloc\<close>), options, labels, floating point
  constants, \<open>.word\<close> and operands with a leading \<open>#\<close>.
\<close>

section \<open>Fixups\<close>

definition d10v_insert_operand :: "uint32 \<Rightarrow> nat \<Rightarrow> uint32 \<Rightarrow> bool \<Rightarrow> uint32 \<times> msgs" where
  "d10v_insert_operand insn op_type value left =
     (let d = operand_at op_type;
          shift = opnd_shift d + (if left then 15 else 0);
          bits = opnd_bits d
      in (insn OR push_bit shift (value AND field_mask bits),
          if check_range value bits (opnd_flags d) then [''operand out of range''] else []))"

text \<open>
  A fixup when gas resolves it: the symbols that \<open>fix_new_exp\<close> has found in its expression, with what is
  known of them, and the constant part.
\<close>

record fix_symbol =
  is_defined :: bool
  symbol_segment :: "nat option"
  symbol_value :: uint32

record fixP = fixS +
  fx_addsy :: "fix_symbol option"
  fx_subsy :: "fix_symbol option"
  fx_offset :: uint32
  fx_addnumber :: uint32
  fx_done :: bool
  fr_address :: uint32

text \<open>The absolute section is the segment \<open>None\<close>.\<close>

definition fix_value :: "fixP \<Rightarrow> uint32 \<Rightarrow> uint32 \<times> msgs" where
  "fix_value fixp valuep =
     (if fx_addsy fixp = None \<or> fx_pcrel fixp then (valuep, [])
      else case fx_subsy fixp of
             None \<Rightarrow> (fx_offset fixp, [])
           | Some s \<Rightarrow> if symbol_segment s = None then (fx_offset fixp - symbol_value s, [])
                       else (fx_offset fixp, [''expression too complex'']))"

text \<open>\<open>fx_r_type\<close> is a relocation code, or an operand code with the bit 2048. The result is the relocation
  code, the operand code and whether the operand is in the left container.\<close>

definition fix_type :: "uint32 \<Rightarrow> uint32 \<times> uint32 \<times> bool" where
  "fix_type r_type =
     (if r_type AND 2048 \<noteq> 0 then
        (let op_type = r_type - 2048 in
         if op_type AND 1024 \<noteq> 0 then (BFD_RELOC_D10V_10_PCREL_L, op_type - 1024, True)
         else if op_type AND 4096 \<noteq> 0 then (BFD_RELOC_D10V_18, op_type - 4096, False)
         else (get_reloc (operand_at (unat op_type)), op_type, False))
      else (r_type, r_type, False))"

text \<open>The \<open>switch\<close> of \<open>md_apply_fix3\<close>: the bytes to store for the instruction \<open>insn\<close> that is there.\<close>

definition store_fix :: "uint32 \<Rightarrow> nat \<Rightarrow> bool \<Rightarrow> nat \<Rightarrow> uint32 \<Rightarrow> uint32 \<Rightarrow> as_error + uint8 list \<times> msgs" where
  "store_fix r op_type left sz value insn =
     (if r \<in> {BFD_RELOC_D10V_10_PCREL_L, BFD_RELOC_D10V_10_PCREL_R, BFD_RELOC_D10V_18_PCREL, BFD_RELOC_D10V_18} then
        (let value = signed_drop_bit AT_WORD_RIGHT_SHIFT value
         in if sz = 2 then Inr (bfd_putb16 value, [])
            else (let (insn, m) = d10v_insert_operand insn op_type value left in Inr (bfd_putb32 insn, m)))
      else if r = BFD_RELOC_32 then Inr (bfd_putb32 value, [])
      else if r = BFD_RELOC_16 then Inr (bfd_putb16 value, [])
      else Inl (As_fatal ''unknown relocation type''))"

text \<open>
  \<open>md_apply_fix3\<close> on the bytes of the fragment. The code reads four bytes also where it stores two; what it
  reads behind the fragment is not used and taken as zero here.
\<close>

definition md_apply_fix3 :: "fixP \<Rightarrow> uint32 \<Rightarrow> uint8 list \<Rightarrow> as_error + fixP \<times> uint8 list \<times> msgs" where
  "md_apply_fix3 fixp valuep bytes =
     (let (value, m) = fix_value fixp valuep;
          fixp = (if fx_addsy fixp = None then fixp\<lparr>fx_done := True\<rparr> else fixp);
          (r, op_type, left) = fix_type (fx_r_type fixp);
          fixp = fixp\<lparr>fx_r_type := r\<rparr>;
          insn = bfd_getb32 (take 4 (drop (fx_where fixp) bytes @ [0, 0, 0, 0]))
      in bindE (store_fix r (unat op_type) left (fx_size fixp) value insn) (\<lambda>(new, m').
           if fx_where fixp + length new \<le> length bytes
           then Inr (fixp, put_bytes (fx_where fixp) new bytes, m @ m')
           else Inl (Out_of_bounds ''fr_literal'')))"

definition md_pcrel_from_section :: "fixP \<Rightarrow> nat \<Rightarrow> uint32" where
  "md_pcrel_from_section fixp sec =
     (case fx_addsy fixp of
        Some s \<Rightarrow> if \<not> is_defined s \<or> symbol_segment s \<noteq> Some sec then 0 else fr_address fixp + of_nat (fx_where fixp)
      | None \<Rightarrow> fr_address fixp + of_nat (fx_where fixp))"

text \<open>\<open>tc_gen_reloc\<close>: the relocation entry, or a message when the object format has none.\<close>

definition tc_gen_reloc :: "fixP \<Rightarrow> msgs + arelent" where
  "tc_gen_reloc fixp =
     (case bfd_elf32_bfd_reloc_type_lookup (fx_r_type fixp) of
        None \<Rightarrow> Inl [''reloc not supported by object file format'']
      | Some h \<Rightarrow> Inr \<lparr>address = fr_address fixp + of_nat (fx_where fixp), addend = fx_addnumber fixp, howto = h\<rparr>)"

section \<open>Options, labels and data\<close>

abbreviation (input) "OPTION_NOWARNSWAP \<equiv> 170 :: nat"

definition md_parse_option :: "nat \<Rightarrow> gas \<Rightarrow> bool \<times> gas" where
  "md_parse_option c g =
     (if c = of_char (CHR ''O'') then (True, g\<lparr>Optimizing := True\<rparr>)
      else if c = OPTION_NOWARNSWAP then (True, g\<lparr>flag_warn_suppress_instructionswap := True\<rparr>)
      else (False, g))"

text \<open>A label first flushes the instruction that is held back; its value is the place after it.\<close>

definition tc_frob_label :: "gas \<Rightarrow> as_error + gas \<times> uint32" where
  "tc_frob_label g = bindE (d10v_cleanup g) (\<lambda>g. Inr (g, of_nat (length (frags g (now_seg g)))))"

definition md_section_align :: "nat \<Rightarrow> uint32 \<Rightarrow> uint32" where
  "md_section_align align addr = (addr + push_bit align 1 - 1) AND push_bit align (- 1)"

text \<open>
  \<open>md_atof\<close>: \<open>atof_ieee\<close> is gas's conversion, a parameter, which returns the rest of the line (or nothing, on
  an error) and the words of the number.
\<close>

definition md_atof :: "(string \<Rightarrow> char \<Rightarrow> string option \<times> (nat \<Rightarrow> uint16)) \<Rightarrow> char \<Rightarrow> string
    \<Rightarrow> string + uint8 list \<times> string" where
  "md_atof atof_ieee type line =
     (if type = CHR ''f'' \<or> type = CHR ''d'' then
        (let prec = (if type = CHR ''f'' then 2 else 4);
             (t, words) = atof_ieee line type;
             rest = (case t of None \<Rightarrow> line | Some t \<Rightarrow> t)
         in Inr (concat (map (\<lambda>i. number_to_chars_bigendian (ucast (words i)) 2) [0 ..< prec]), rest))
      else Inl ''bad call to md_atof'')"

definition md_operand :: "(string \<Rightarrow> expressionS \<times> string) \<Rightarrow> string \<Rightarrow> (expressionS \<times> string) option" where
  "md_operand expr line = (case line of c # rest \<Rightarrow> if c = CHR ''#'' then Some (expr rest) else None | [] \<Rightarrow> None)"

text \<open>
  \<open>d10v_dot_word\<close>: \<open>emit_expr\<close> is gas's own, a parameter. The bytes that \<open>frag_more\<close> returns are not
  written; \<open>junk\<close> is what they hold. Every round reads the separator, so that as many rounds as the line has
  characters are enough when \<open>expr\<close> does not give back more than it was given.
\<close>

definition dot_word_item :: "(expressionS \<Rightarrow> gas \<Rightarrow> gas) \<Rightarrow> uint8 list \<Rightarrow> expressionS \<Rightarrow> string \<Rightarrow> gas \<Rightarrow> string \<times> gas" where
  "dot_word_item emit_expr junk x rest g =
     (if starts_at_word rest then
        (let f = length (frags g (now_seg g));
             fx = \<lparr>fx_where = f, fx_size = 2, fx_exp = x\<lparr>X_add_number := 0\<rparr>, fx_pcrel = False,
                   fx_r_type = BFD_RELOC_D10V_18\<rparr>
         in (drop 5 rest,
             g\<lparr>frags := (frags g)(now_seg g := frags g (now_seg g) @ take 2 (junk @ [0, 0])),
               fix_list := (fix_list g)(now_seg g := fix_list g (now_seg g) @ [fx])\<rparr>))
      else (rest, emit_expr x g))"

fun dot_word_loop :: "(string \<Rightarrow> expressionS \<times> string) \<Rightarrow> (expressionS \<Rightarrow> gas \<Rightarrow> gas) \<Rightarrow> uint8 list \<Rightarrow> nat \<Rightarrow> string \<Rightarrow> gas
    \<Rightarrow> (string \<times> gas) option" where
  "dot_word_loop expr emit_expr junk 0 line g = None"
| "dot_word_loop expr emit_expr junk (Suc n) line g =
     (let (x, rest) = expr line; (rest, g) = dot_word_item emit_expr junk x rest g
      in case rest of
           c # rest' \<Rightarrow> if c = CHR '','' then dot_word_loop expr emit_expr junk n rest' g else Some (rest, g)
         | [] \<Rightarrow> Some (rest, g))"

definition d10v_dot_word :: "(string \<Rightarrow> expressionS \<times> string) \<Rightarrow> (expressionS \<Rightarrow> gas \<Rightarrow> gas) \<Rightarrow> uint8 list \<Rightarrow> string \<Rightarrow> gas
    \<Rightarrow> (string \<times> gas) option" where
  "d10v_dot_word expr emit_expr junk line g =
     (let line = (if line \<noteq> [] \<and> hd line = CHR '' '' then tl line else line)
      in if line = [] \<or> is_end_of_line (hd line) then Some (line, g)
         else dot_word_loop expr emit_expr junk (Suc (length line)) line g)"

lemma dot_word_loop_returns:
  "(\<And>l x r. expr l = (x, r) \<Longrightarrow> length r \<le> length l) \<Longrightarrow> length line < n \<Longrightarrow>
    \<exists>r. dot_word_loop expr emit_expr junk n line g = Some r"
proof (induction n arbitrary: line g)
  case (Suc n)
  obtain x rest where e: "expr line = (x, rest)" by fastforce
  obtain rest' g' where d: "dot_word_item emit_expr junk x rest g = (rest', g')" by fastforce
  have "length rest' \<le> length rest" using d by (auto simp: dot_word_item_def Let_def split: if_splits)
  moreover have "length rest \<le> length line" using Suc.prems(1) [OF e] .
  ultimately have "length rest' \<le> length line" by simp
  then have "\<exists>r. dot_word_loop expr emit_expr junk n (tl rest') g' = Some r" if "rest' \<noteq> []"
    using Suc.prems that by (intro Suc.IH) (cases rest'; force)+
  then show ?case using e d by (cases rest') auto
qed simp

end
