(* ===== verification/Interp.thy ===== *)
theory Interp
  imports Simops_Table
begin

text \<open>
  The instruction interpreter, \<open>src/src/sim/d10v/interp.c\<close>: the hash table of instructions, operand
  extraction, the three ways to execute a packet, the main loop, and the interface to the debugger.

  Messages and the \<open>d10v_debug\<close> output are not modelled. A call of \<open>exit\<close> and a null pointer
  dereference end the run and are recorded in \<open>status\<close>.
\<close>

section \<open>The hash table of instructions\<close>

text \<open>
  \<open>struct hash_entry\<close>: \<open>ops\<close> points into the array \<open>Simops\<close> and is the index of the element. A bucket is
  the list of the entries of its chain; the empty list is the zeroed bucket whose \<open>ops\<close> is \<open>NULL\<close>.
\<close>

abbreviation (input) "MAX_HASH \<equiv> 63 :: nat"

record hash_entry =
  he_opcode :: uint32
  he_mask :: uint32
  he_size :: bool
  he_ops :: nat

definition hash :: "uint32 \<Rightarrow> uint32 \<Rightarrow> nat" where
  "hash insn fmt =
     (if fmt AND LONG_OPCODE \<noteq> 0 then unat (drop_bit 24 (insn AND 0x3F000000))
      else unat (drop_bit 9 (insn AND 0x7E00)))"

definition hash_entry_of :: "nat \<Rightarrow> hash_entry" where
  "hash_entry_of i = \<lparr> he_opcode = so_opcode (Simops ! i), he_mask = so_mask (Simops ! i),
                       he_size = so_is_long (Simops ! i), he_ops = i \<rparr>"

definition hash_insert :: "hash_entry list list \<Rightarrow> nat \<Rightarrow> hash_entry list list" where
  "hash_insert ht i =
     (let h = hash (so_opcode (Simops ! i)) (so_format (Simops ! i))
      in ht[h := ht ! h @ [hash_entry_of i]])"

definition hash_table :: "hash_entry list list" where
  "hash_table = foldl hash_insert (replicate (MAX_HASH + 1) []) [0 ..< length Simops]"

text \<open>
  \<open>lookup_hash\<close> walks the chain of the bucket. On a miss it exits. In an empty bucket the zeroed
  entry matches every short instruction; its \<open>ops\<close> is a null pointer.
\<close>

datatype lookup = Found nat | Null_ops | Not_found

definition lookup_hash :: "uint32 \<Rightarrow> bool \<Rightarrow> lookup" where
  "lookup_hash ins sz =
     (let h = hash_table ! (if sz then unat (drop_bit 24 (ins AND 0x3F000000))
                            else unat (drop_bit 9 (ins AND 0x7E00)))
      in if h = [] then (if sz then Not_found else Null_ops)
         else case find (\<lambda>e. ins AND he_mask e = he_opcode e \<and> he_size e = sz) h of
                Some e \<Rightarrow> Found (he_ops e)
              | None \<Rightarrow> Not_found)"

section \<open>Operand extraction\<close>

fun set_operands :: "(nat \<times> nat \<times> uint32) list \<Rightarrow> nat \<Rightarrow> uint32 \<Rightarrow> uint16 list \<Rightarrow> uint16 list" where
  "set_operands [] i ins ops = ops"
| "set_operands ((shift, bits, flags) # xs) i ins ops =
     (let msk = drop_bit (31 - bits) (0x7FFFFFFF :: uint32)
      in set_operands xs (i + 1) ins (ops[i := ucast (drop_bit shift ins AND msk)]))"

definition get_operands :: "simops \<Rightarrow> uint32 \<Rightarrow> sim \<Rightarrow> sim" where
  "get_operands e ins s =
     s\<lparr>OP := set_operands (so_operands e) 0 ins (OP s), trace_psw := PSW s\<rparr>"

section \<open>Executing a packet\<close>

text \<open>
  \<open>issue\<close> is the sequence every caller performs for one instruction: extract the operands, note the
  kind of slot and count it, call the function.
\<close>

definition issue :: "host \<Rightarrow> nat \<Rightarrow> uint32 \<Rightarrow> ins_type \<Rightarrow> sim \<Rightarrow> sim" where
  "issue host i ins t s =
     (let s = get_operands (Simops ! i) ins s;
          s = s\<lparr>ins_type := t\<rparr>;
          s = count_inc t s
      in func host i s)"

definition with_op :: "lookup \<Rightarrow> (nat \<Rightarrow> sim \<Rightarrow> sim) \<Rightarrow> sim \<Rightarrow> sim" where
  "with_op l f s =
     (case l of Found i \<Rightarrow> f i s
      | Null_ops \<Rightarrow> s\<lparr>status := Crashed\<rparr>
      | Not_found \<Rightarrow> s\<lparr>status := Exited\<rparr>)"

definition do_long :: "host \<Rightarrow> uint32 \<Rightarrow> sim \<Rightarrow> sim" where
  "do_long host ins s =
     with_op (lookup_hash ins True) (\<lambda>i. issue host i ins INS_LONG) s"

definition do_2_short :: "host \<Rightarrow> uint16 \<Rightarrow> uint16 \<Rightarrow> bool \<Rightarrow> sim \<Rightarrow> sim" where
  "do_2_short host ins1 ins2 left_first s =
     (let (first, second, s) =
            (if left_first then (INS_LEFT, INS_RIGHT, count_inc INS_LEFTRIGHT s)
             else (INS_RIGHT, INS_LEFT, count_inc INS_RIGHTLEFT s));
          s = with_op (lookup_hash (ucast ins1) False) (\<lambda>i. issue host i (ucast ins1) first) s
      in if status s \<noteq> Running then s
         else if \<not> pc_changed s \<and> exception s = 0 then
           (let s = SLOT_FLUSH s
            in with_op (lookup_hash (ucast ins2) False)
                 (\<lambda>i s. issue host i (ucast ins2) second (count_inc INS_CYCLES s)) s)
         else if exception s = 0 then count_inc INS_COND_JUMP s
         else s)"

text \<open>The branch of \<open>do_parallel\<close> for a conditional instruction \<open>i1\<close> and the other instruction.\<close>

definition do_cond :: "host \<Rightarrow> nat \<Rightarrow> uint16 \<Rightarrow> ins_type \<Rightarrow> lookup \<Rightarrow> uint16 \<Rightarrow> ins_type \<Rightarrow> sim \<Rightarrow> sim" where
  "do_cond host i1 ins1 test l2 ins2 exec s =
     (let s = issue host i1 (ucast ins1) test s
      in if status s \<noteq> Running then s
         else if exe s then
           with_op l2 (\<lambda>i2. issue host i2 (ucast ins2) exec) (count_inc INS_COND_TRUE s)
         else count_inc INS_COND_FALSE s)"

definition do_parallel :: "host \<Rightarrow> uint16 \<Rightarrow> uint16 \<Rightarrow> sim \<Rightarrow> sim" where
  "do_parallel host ins1 ins2 s =
     (let s = count_inc INS_PARALLEL s;
          h1 = lookup_hash (ucast ins1) False;
          h2 = lookup_hash (ucast ins2) False
      in if h1 = Not_found \<or> h2 = Not_found then s\<lparr>status := Exited\<rparr>
         else with_op h1 (\<lambda>i1 s.
           if so_exec_type (Simops ! i1) = PARONLY then
             do_cond host i1 ins1 INS_LEFT_COND_TEST h2 ins2 INS_RIGHT_COND_EXE s
           else with_op h2 (\<lambda>i2 s.
             if so_exec_type (Simops ! i2) = PARONLY then
               do_cond host i2 ins2 INS_RIGHT_COND_TEST (Found i1) ins1 INS_LEFT_COND_EXE s
             else
               (let s = issue host i1 (ucast ins1) INS_LEFT_PARALLEL s
                in if status s = Running \<and> exception s = 0
                   then issue host i2 (ucast ins2) INS_RIGHT_PARALLEL s
                   else s)) s) s)"

section \<open>The main loop\<close>

abbreviation (input) "SDBT_VECTOR_START \<equiv> 0xffd5 :: int32"

definition dispatch :: "host \<Rightarrow> uint32 \<Rightarrow> sim \<Rightarrow> sim" where
  "dispatch host inst s =
     (let fm = inst AND 0xC0000000;
          right = (ucast (inst AND 0x7FFF) :: uint16);
          left = (ucast (drop_bit 15 (inst AND 0x3FFF8000)) :: uint16)
      in if fm = 0xC0000000 then do_long host (inst AND 0x3FFFFFFF) s
         else if fm = 0x80000000 then do_2_short host right left False s
         else if fm = 0x40000000 then do_2_short host left right True s
         else do_parallel host left right s)"

text \<open>The next \<open>PC\<close> of an instruction that does not branch, with the hardware loop.\<close>

definition next_pc :: "sim \<Rightarrow> sim" where
  "next_pc s =
     (if \<not> pc_changed s then
        if PSW_RP s \<and> PC s = RPT_E s then
          if RPT_C s = 1 then
            (let s = SET_PSW_RP False s;
                 s = SET_CREG RPT_C_CR (0 :: int32) s
             in SET_PC (PC s + 1) s)
          else
            (let s = SET_CREG RPT_C_CR (RPT_C s - 1) s in SET_PC (RPT_S s) s)
        else SET_PC (PC s + 1) s
      else s)"

definition breakpoint :: "sim \<Rightarrow> sim" where
  "breakpoint s =
     (if PSW_DB s \<and> PC s = IBA s then
        (let s = SET_CREG BPC_CR (PC s) s;
             s = SET_CREG BPSW_CR (PSW s) s;
             s = SET_CREG PSW_CR (PSW s AND PSW_SM_BIT) s
         in SET_PC SDBT_VECTOR_START s)
      else s)"

definition resume_step :: "host \<Rightarrow> sim \<Rightarrow> sim" where
  "resume_step host s =
     (case imem_addr (push_bit 2 (PC s)) s of
        Inl _ \<Rightarrow> s\<lparr>status := Crashed\<rparr>
      | Inr None \<Rightarrow> s\<lparr>exception := SIGBUS\<rparr>
      | Inr (Some iaddr) \<Rightarrow>
          (let inst = get_longword (mem s) iaddr;
               s = s\<lparr>pc_changed := False\<rparr>;
               s = count_inc INS_CYCLES s;
               s = dispatch host inst s
           in if status s \<noteq> Running then s
              else SLOT_FLUSH (breakpoint (next_pc s))))"

definition running :: "sim \<Rightarrow> bool" where
  "running s \<longleftrightarrow> status s = Running \<and> exception s = 0 \<and> \<not> stop_simulator s"

text \<open>
  The loop of \<open>sim_resume\<close>. The program it interprets need not stop, so the loop may not return:
  then its value is \<open>None\<close>. \<open>hosts n\<close> is the host during iteration \<open>n\<close>.
\<close>

partial_function (option) resume_loop :: "(nat \<Rightarrow> host) \<Rightarrow> nat \<Rightarrow> sim \<Rightarrow> sim option" where
  "resume_loop hosts n s =
     (let s = resume_step (hosts n) s
      in if running s then resume_loop hosts (n + 1) s else Some s)"

definition sim_stop :: "sim \<Rightarrow> sim" where
  "sim_stop s = s\<lparr>stop_simulator := True\<rparr>"

definition sim_resume :: "(nat \<Rightarrow> host) \<Rightarrow> bool \<Rightarrow> sim \<Rightarrow> sim option" where
  "sim_resume hosts step s =
     (let s = s\<lparr>exception := 0\<rparr>;
          s = (if step then sim_stop s else s)
      in case resume_loop hosts 0 s of
           None \<Rightarrow> None
         | Some s \<Rightarrow> Some (if status s = Running \<and> step \<and> exception s = 0
                           then s\<lparr>exception := SIGTRAP\<rparr> else s))"

section \<open>The interface to the debugger\<close>

text \<open>
  \<open>sim_create_inferior\<close>: \<open>reset\<close> is the \<open>memset\<close> of the first part of \<open>State\<close>, \<open>set_argv\<close> the loop over
  \<open>argv\<close>, \<open>start_address\<close> what \<open>bfd_get_start_address\<close> returns for the program, if there is one.
\<close>

definition reset :: "sim \<Rightarrow> sim" where
  "reset s = s\<lparr>regs := replicate 16 0, cregs := replicate 16 0, sp := replicate 2 0,
               acc := replicate 2 0, slot := [], trace_psw := 0, exe := False, exception := 0,
               pc_changed := False\<rparr>"

fun set_argv :: "uint32 \<Rightarrow> uint8 list list \<Rightarrow> uint32 \<Rightarrow> uint32 \<Rightarrow> sim \<Rightarrow> uint32 \<times> sim" where
  "set_argv addr [] p i s = (i, s)"
| "set_argv addr (a # argv) p i s =
     (let sz = length a + 1;
          s = SW (addr + 2 * i) (addr + p) s;
          (_, _, s) = sim_write (addr + 0) (a @ [0]) sz s
      in set_argv addr argv (p + of_nat sz) (i + 1) s)"

definition sim_create_inferior :: "uint32 option \<Rightarrow> uint8 list list option \<Rightarrow> sim \<Rightarrow> sim" where
  "sim_create_inferior start_address argv s =
     (let s = reset s;
          s = (case argv of
                 None \<Rightarrow> s
               | Some argv \<Rightarrow>
                   (let addr = 0x7C00;
                        (i, s) = set_argv addr argv 20 0 s;
                        s = SET_GPR 0 addr s
                    in SET_GPR 1 i s));
          start = (case start_address of Some a \<Rightarrow> a | None \<Rightarrow> push_bit 2 0xffc0);
          s = SET_CREG PC_CR (drop_bit 2 start) s;
          s = SW 0xff00 (0x0000 :: int32) s;
          s = SW 0xff02 (0x007f :: int32) s;
          s = SW 0xff04 (0x0000 :: int32) s
      in SLOT_FLUSH s)"

definition sim_open :: "sim \<Rightarrow> sim" where
  "sim_open s =
     (let s = (if \<not> imem s then (case sim_size s of Some s \<Rightarrow> s | None \<Rightarrow> s\<lparr>status := Exited\<rparr>)
               else s)
      in if status s \<noteq> Running then s else sim_create_inferior None None s)"

datatype stop_reason = sim_exited | sim_stopped

definition sim_stop_reason :: "sim \<Rightarrow> stop_reason \<times> int \<times> sim" where
  "sim_stop_reason s =
     (let (reason, sigrc) =
            (if exception s = SIG_D10V_STOP then (sim_exited, 0)
             else if exception s = SIG_D10V_EXIT then (sim_exited, sint (GPR s 0))
             else (sim_stopped, if stop_simulator s \<and> exception s = 0 then SIGINT else exception s))
      in (reason, sigrc, s\<lparr>stop_simulator := False\<rparr>))"

text \<open>
  Registers as the debugger sees them. \<open>memory\<close> is a pointer into the debugger's buffer, whose
  contents are \<open>buf\<close>. The map registers are memory.
\<close>

definition sim_fetch_register :: "nat \<Rightarrow> ptr \<Rightarrow> (ptr \<Rightarrow> uint8) \<Rightarrow> sim \<Rightarrow> ptr \<Rightarrow> uint8" where
  "sim_fetch_register rn memory buf s =
     (if rn > 34 then write_longlong memory (ACC s (rn - 35)) buf
      else if rn = 32 then write_word memory (IMAP0 s) buf
      else if rn = 33 then write_word memory (IMAP1 s) buf
      else if rn = 34 then write_word memory (DMAP s) buf
      else if rn \<ge> 16 then write_word memory (ucast (CREG s (rn - 16))) buf
      else write_word memory (ucast (GPR s rn)) buf)"

definition sim_store_register :: "nat \<Rightarrow> ptr \<Rightarrow> (ptr \<Rightarrow> uint8) \<Rightarrow> sim \<Rightarrow> sim" where
  "sim_store_register rn memory buf s =
     (let s = (if rn > 34 then SET_ACC (rn - 35) (get_longlong buf memory AND MASK40) s
               else if rn = 34 then SW 0xff04 (get_word buf memory) s
               else if rn = 33 then SW 0xff02 (get_word buf memory) s
               else if rn = 32 then SW 0xff00 (get_word buf memory) s
               else if rn \<ge> 16 then SET_CREG (rn - 16) (get_word buf memory) s
               else SET_GPR rn (get_word buf memory) s)
      in SLOT_FLUSH s)"

section \<open>Looking up an instruction is a search of the table\<close>

definition op_matches :: "uint32 \<times> bool \<Rightarrow> nat \<Rightarrow> bool" where
  "op_matches k i \<longleftrightarrow> fst k AND so_mask (Simops ! i) = so_opcode (Simops ! i)
     \<and> so_is_long (Simops ! i) = snd k"

definition hash_key :: "uint32 \<times> bool \<Rightarrow> nat" where
  "hash_key k = (if snd k then unat (drop_bit 24 (fst k AND 0x3F000000))
                 else unat (drop_bit 9 (fst k AND 0x7E00)))"

definition hash_op :: "nat \<Rightarrow> nat" where
  "hash_op i = hash (so_opcode (Simops ! i)) (so_format (Simops ! i))"

lemma Simops_entry: "i < length Simops \<Longrightarrow> entry_ok (Simops ! i) (simop_classes undefined ! i)"
  using Simops_entry_ok by (simp add: list_all2_conv_all_nth)

lemma and_covered: "ins AND m = c \<Longrightarrow> h AND m = h \<Longrightarrow> c AND h = ins AND h" for h :: "'a::len word"
  by (metis and.assoc and.commute)

interpretation ops: hashed_search op_matches hash_op hash_key "\<lambda>i. i < length Simops"
proof
  fix i k assume "i < length Simops" and m: "op_matches k i"
  then have e: "hash_bits (snd k) AND so_mask (Simops ! i) = hash_bits (snd k)"
      "(so_format (Simops ! i) AND LONG_OPCODE \<noteq> 0) = snd k"
    using Simops_entry [of i] by (auto simp: entry_ok_def op_matches_def split: prod.splits)
  have "so_opcode (Simops ! i) AND hash_bits (snd k) = fst k AND hash_bits (snd k)"
    using m e(1) and_covered by (auto simp: op_matches_def)
  then show "hash_op i = hash_key k"
    using e(2) by (cases "snd k") (auto simp: hash_op_def hash_key_def hash_def hash_bits_def)
qed

lemma hash_key_bound: "hash_key k < 64"
proof -
  have "drop_bit 24 (x AND 0x3F000000) = drop_bit 24 x AND 0x3f" for x :: uint32
    by (simp add: drop_bit_and)
  moreover have "drop_bit 9 (x AND 0x7E00) = drop_bit 9 x AND 0x3f" for x :: uint32
    by (simp add: drop_bit_and)
  moreover have "unat (x AND 0x3f) < 64" for x :: uint32
    using word_and_le1 [of x "0x3f"] by (simp add: word_le_nat_alt less_le_trans)
  ultimately show ?thesis by (simp add: hash_key_def)
qed

lemma hash_table_bucket:
  "hash_table ! hash_key k = map hash_entry_of (filter (\<lambda>i. hash_op i = hash_key k) [0 ..< length Simops])"
proof -
  have "hash_table = foldl (\<lambda>ht i. ht[hash_op i := ht ! hash_op i @ [hash_entry_of i]])
      (replicate 64 []) [0 ..< length Simops]"
    by (simp add: hash_table_def hash_insert_def [abs_def] hash_op_def Let_def)
  then show ?thesis
    using hash_key_bound [of k]
      foldl_buckets [of "hash_key k" "replicate 64 []" hash_op hash_entry_of "[0 ..< length Simops]"]
    by simp
qed

lemma lookup_hash_search:
  "lookup_hash ins sz =
     (case find (op_matches (ins, sz)) [0 ..< length Simops] of
        Some i \<Rightarrow> Found i
      | None \<Rightarrow> if hash_table ! hash_key (ins, sz) = [] \<and> \<not> sz then Null_ops else Not_found)"
proof -
  let ?b = "filter (\<lambda>i. hash_op i = hash_key (ins, sz)) [0 ..< length Simops]"
  have f: "find (op_matches (ins, sz)) ?b = find (op_matches (ins, sz)) [0 ..< length Simops]"
    by (rule ops.find_bucket) (simp add: list_all_iff)
  have p: "(\<lambda>e. ins AND he_mask e = he_opcode e \<and> he_size e = sz) \<circ> hash_entry_of = op_matches (ins, sz)"
    by (auto simp: hash_entry_of_def op_matches_def)
  have "lookup_hash ins sz =
     (let h = hash_table ! hash_key (ins, sz)
      in if h = [] then (if sz then Not_found else Null_ops)
         else case find (\<lambda>e. ins AND he_mask e = he_opcode e \<and> he_size e = sz) h of
                Some e \<Rightarrow> Found (he_ops e) | None \<Rightarrow> Not_found)"
    by (simp add: lookup_hash_def hash_key_def)
  then show ?thesis
    using f by (auto simp: hash_table_bucket find_map p hash_entry_of_def Let_def split: option.split)
qed

lemma lookup_hash_Found_iff:
  "lookup_hash ins sz = Found i \<longleftrightarrow>
     i < length Simops \<and> op_matches (ins, sz) i \<and> (\<forall>j < i. \<not> op_matches (ins, sz) j)"
proof -
  have "lookup_hash ins sz = Found i \<longleftrightarrow> find (op_matches (ins, sz)) [0 ..< length Simops] = Some i"
    by (auto simp: lookup_hash_search split: option.split)
  then show ?thesis by (simp only: find_upt_Some_iff)
qed

lemma lookup_hash_Found:
  assumes "i < 158" and "op_matches (ins, sz) i"
    and "list_all (\<lambda>e. \<not> (ins AND so_mask e = so_opcode e \<and> so_is_long e = sz)) (take i Simops)"
  shows "lookup_hash ins sz = Found i"
  using assms by (auto simp: lookup_hash_Found_iff list_all_length op_matches_def length_Simops)

lemmas op_matches_eval = op_matches_def Simops_generated simops.defs

section \<open>Decoded operands are of the classes their function uses\<close>

lemma length_set_operands [simp]: "length (set_operands xs i ins ops) = length ops"
  by (induction xs i ins ops rule: set_operands.induct) (simp_all add: Let_def)

lemma set_operands_below: "k < i \<Longrightarrow> set_operands xs i ins ops ! k = ops ! k"
  by (induction xs i ins ops rule: set_operands.induct) (simp_all add: Let_def)

definition field :: "nat \<times> nat \<times> uint32 \<Rightarrow> uint32 \<Rightarrow> uint16" where
  "field = (\<lambda>(sh, b, fl) ins. ucast (drop_bit sh ins AND drop_bit (31 - b) (0x7FFFFFFF :: uint32)))"

lemma set_operands_nth:
  "j < length xs \<Longrightarrow> i + length xs \<le> length ops \<Longrightarrow>
   set_operands xs i ins ops ! (i + j) = field (xs ! j) ins"
proof (induction xs i ins ops arbitrary: j rule: set_operands.induct)
  case (2 shift bits flags xs i ins ops)
  show ?case
  proof (cases j)
    case 0
    then show ?thesis using 2 by (simp add: set_operands_below Let_def field_def)
  next
    case (Suc j')
    then show ?thesis using 2(1) [OF refl, of j'] 2(2,3) by (simp add: Let_def)
  qed
qed simp

lemma unat_field_le: "unat (field (sh, b, fl) ins) \<le> unat (drop_bit (31 - b) (0x7FFFFFFF :: uint32))"
proof -
  let ?m = "drop_bit (31 - b) (0x7FFFFFFF :: uint32)"
  have "unat (field (sh, b, fl) ins) \<le> unat (drop_bit sh ins AND ?m)"
    by (simp add: field_def unsigned_ucast_eq)
  also have "\<dots> \<le> unat ?m"
    using word_and_le1 [of "drop_bit sh ins" ?m] by (simp add: word_le_nat_alt)
  finally show ?thesis .
qed

lemma even_field:
  assumes "ins AND so_mask e = so_opcode e" and "so_mask e AND 2 ^ sh \<noteq> 0" and "so_opcode e AND 2 ^ sh = 0"
  shows "even (unat (field (sh, b, fl) ins))"
proof -
  have "\<not> bit ins sh"
    using assms(2,3) unfolding assms(1) [symmetric] by (auto simp: and_single_bit bit_simps split: if_splits)
  then have "\<not> bit (unat (field (sh, b, fl) ins)) 0"
    by (simp add: field_def bit_unsigned_iff bit_and_iff bit_drop_bit_eq del: bit_0)
  then show ?thesis by (simp add: bit_0)
qed

lemma operand_fits_class:
  assumes "operand_fits e x c" and "ins AND so_mask e = so_opcode e"
  shows "class_ok c (field x ins)"
proof (cases x)
  case (fields sh b fl)
  have le: "unat (field x ins) \<le> unat (drop_bit (31 - b) (0x7FFFFFFF :: uint32))"
    using unat_field_le fields by simp
  show ?thesis
  proof (cases c)
    case Pair
    then have "even (unat (field x ins))" using assms fields even_field [of ins e sh b fl] by simp
    moreover have "unat (field x ins) \<le> 15" using le assms Pair fields by simp
    ultimately have "unat (field x ins) \<noteq> 15" "unat (field x ins) \<le> 15" by auto
    then show ?thesis using Pair by simp
  qed (use le assms fields in auto)
qed

definition decodes :: "nat \<Rightarrow> uint32 \<Rightarrow> bool" where
  "decodes i ins \<longleftrightarrow> i < length Simops \<and> ins AND so_mask (Simops ! i) = so_opcode (Simops ! i)"

lemma lookup_hash_decodes: "lookup_hash ins sz = Found i \<Longrightarrow> decodes i ins"
  by (simp add: lookup_hash_Found_iff decodes_def op_matches_def)

lemma length_simop_table: "length (simop_table host) = length Simops"
  using Simops_entry_ok list_all2_lengthD [OF Simops_entry_ok] simop_classes_eq [of host undefined]
  by (metis length_map simop_classes_def)

lemma simop_table_classes: "i < length Simops \<Longrightarrow> simop_table host ! i = (so_opcode (Simops ! i), classes i, func host i)"
proof -
  assume i: "i < length Simops"
  have "simop_classes host ! i = simop_classes undefined ! i"
    using simop_classes_eq [of host undefined] by simp
  then show ?thesis
    using i Simops_entry [OF i] length_simop_table [of host] length_simop_table [of undefined]
    by (cases "simop_table host ! i"; cases "simop_table undefined ! i")
       (auto simp: simop_classes_def classes_def func_def entry_ok_def)
qed

lemma get_operands_ok:
  assumes "decodes i ins" and "length (OP s) = 4"
  shows "ops_ok (classes i) (get_operands (Simops ! i) ins s)"
proof -
  let ?e = "Simops ! i"
  have i: "i < length Simops" using assms by (simp add: decodes_def)
  then have fits: "list_all2 (operand_fits ?e) (so_operands ?e) (classes i)" and "length (classes i) \<le> 4"
    using Simops_entry [OF i] simop_table_classes [OF i, of undefined] length_simop_table [of undefined]
    by (auto simp: entry_ok_def simop_classes_def)
  have "class_ok (classes i ! j) (set_operands (so_operands ?e) 0 ins (OP s) ! j)"
    if "j < length (classes i)" for j
  proof -
    have "operand_fits ?e (so_operands ?e ! j) (classes i ! j)"
      using fits that by (simp add: list_all2_conv_all_nth)
    moreover have "set_operands (so_operands ?e) 0 ins (OP s) ! j = field (so_operands ?e ! j) ins"
      using set_operands_nth [of j "so_operands ?e" 0 "OP s" ins] that fits
        \<open>length (classes i) \<le> 4\<close> assms(2) by (simp add: list_all2_lengthD)
    ultimately show ?thesis using operand_fits_class assms(1) by (simp add: decodes_def)
  qed
  then show ?thesis using assms(2) by (simp add: ops_ok_def get_operands_def)
qed

end
