(* ===== verification/Asm_Correct.thy ===== *)
theory Asm_Correct
  imports Gas_Fix Interp
begin

text \<open>
  Correctness of the assembler for one instruction: the search for a register, the range check, and the
  encoding, which the simulator's decoder inverts; and the cases in which it goes wrong.
\<close>

section \<open>Register names\<close>

definition lower :: "string \<Rightarrow> nat list" where
  "lower = map tolower"

definition c_string :: "string \<Rightarrow> bool" where
  "c_string s \<longleftrightarrow> CHR 0x00 \<notin> set s"

lemma tolower_pos: "c \<noteq> CHR 0x00 \<Longrightarrow> 0 < tolower c"
proof -
  assume "c \<noteq> CHR 0x00"
  moreover have "of_char (CHR 0x00) = (0 :: nat)" by simp
  ultimately have "of_char c \<noteq> (0 :: nat)" by (metis of_char_eq_iff)
  then show ?thesis by (simp add: tolower_def Let_def)
qed

lemma strcasecmp_lower:
  "c_string a \<Longrightarrow> c_string b \<Longrightarrow>
     (strcasecmp a b = 0 \<longleftrightarrow> lower a = lower b) \<and> (strcasecmp a b < 0 \<longleftrightarrow> lower a < lower b)"
  by (induction a b rule: strcasecmp.induct) (auto simp: c_string_def lower_def tolower_pos dest: tolower_pos)

text \<open>Two entries with the same name up to case have the same value, and entries are sorted by name.\<close>

definition reg_le :: "pd_reg \<Rightarrow> pd_reg \<Rightarrow> bool" where
  "reg_le a b \<longleftrightarrow> lower (reg_name a) < lower (reg_name b)
     \<or> lower (reg_name a) = lower (reg_name b) \<and> reg_value a = reg_value b"

lemma registers_successively: "successively reg_le d10v_predefined_registers"
  by code_simp

lemma registers_c_string: "list_all (\<lambda>r. c_string (reg_name r)) d10v_predefined_registers"
  by code_simp

text \<open>What the binary search needs of a register table.\<close>

locale register_table =
  fixes regs :: "pd_reg list"
  assumes sorted: "sorted_wrt reg_le regs"
    and names: "r \<in> set regs \<Longrightarrow> c_string (reg_name r)"
begin

lemma nth_le: "i < j \<Longrightarrow> j < length regs \<Longrightarrow> reg_le (regs ! i) (regs ! j)"
  using sorted by (simp add: sorted_wrt_nth_less)

lemma reg_le_lower: "reg_le a b \<Longrightarrow> lower (reg_name a) \<le> lower (reg_name b)"
  by (auto simp: reg_le_def)

lemma cmp_nth:
  assumes "c_string name" "i < length regs"
  shows "strcasecmp name (reg_name (regs ! i)) = 0 \<longleftrightarrow> lower name = lower (reg_name (regs ! i))"
    and "strcasecmp name (reg_name (regs ! i)) < 0 \<longleftrightarrow> lower name < lower (reg_name (regs ! i))"
  using strcasecmp_lower [OF assms(1) names [OF nth_mem [OF assms(2)]]] by simp_all

lemma same_value:
  assumes "i < length regs" "j < length regs" "lower (reg_name (regs ! i)) = lower (reg_name (regs ! j))"
  shows "reg_value (regs ! i) = reg_value (regs ! j)"
  using assms nth_le [of i j] nth_le [of j i] by (cases i j rule: linorder_cases) (auto simp: reg_le_def)

lemma mono_nth: "i \<le> j \<Longrightarrow> j < length regs \<Longrightarrow> lower (reg_name (regs ! i)) \<le> lower (reg_name (regs ! j))"
  using nth_le [of i j] by (cases "i = j") (auto dest: reg_le_lower)

lemma loop_finds:
  assumes "c_string name" and "0 \<le> low" and "low \<le> high" and "nat high < length regs"
    and "\<And>i. i < length regs \<Longrightarrow> lower name = lower (reg_name (regs ! i)) \<Longrightarrow> low \<le> int i \<and> int i \<le> high"
  shows "reg_name_loop regs name low high
       = map_option reg_value (find (\<lambda>r. strcasecmp name (reg_name r) = 0) regs)" (is "_ = ?result")
  using assms(2-5)
proof (induction "nat (high - low + 1)" arbitrary: low high rule: less_induct)
  case less
  define middle where "middle = (low + high) div 2"
  let ?m = "nat middle"
  have m: "low \<le> middle" "middle \<le> high" "?m < length regs" using less.prems by (auto simp: middle_def)
  let ?cmp = "strcasecmp name (reg_name (regs ! ?m))"
  note cmp = cmp_nth [OF assms(1) m(3)]
  have step: "reg_name_loop regs name low high =
      (if ?cmp < 0 then (if low \<le> middle - 1 then reg_name_loop regs name low (middle - 1) else None)
       else if ?cmp > 0 then (if middle + 1 \<le> high then reg_name_loop regs name (middle + 1) high else None)
       else Some (reg_value (regs ! ?m)))"
    by (subst reg_name_loop.simps) (simp only: Let_def middle_def)
  have none: "?result = None" if "\<And>i. i < length regs \<Longrightarrow> lower name \<noteq> lower (reg_name (regs ! i))"
    using that cmp_nth(1) [OF assms(1)] by (auto simp: find_None_iff in_set_conv_nth)
  consider "?cmp < 0" | "?cmp > 0" | "?cmp = 0" by linarith
  then show ?case
  proof cases
    case 1
    then have lt: "lower name < lower (reg_name (regs ! ?m))" using cmp by simp
    have out: "int i \<le> middle - 1" if "i < length regs" "lower name = lower (reg_name (regs ! i))" for i
      using mono_nth [of ?m i] that lt m(1) less.prems(1) by force
    show ?thesis
    proof (cases "low \<le> middle - 1")
      case True
      then show ?thesis using 1 m out less.prems by (simp add: step) (rule less.hyps; force)
    next
      case False
      then have "?result = None" using less.prems(4) out by (intro none) force
      then show ?thesis using 1 False by (simp add: step)
    qed
  next
    case 2
    then have gt: "lower (reg_name (regs ! ?m)) < lower name" using cmp by auto
    have out: "middle + 1 \<le> int i" if "i < length regs" "lower name = lower (reg_name (regs ! i))" for i
      using mono_nth [of i ?m] that gt m less.prems(1) by force
    show ?thesis
    proof (cases "middle + 1 \<le> high")
      case True
      then show ?thesis using 2 m out less.prems by (simp add: step) (rule less.hyps; force)
    next
      case False
      then have "?result = None" using less.prems(4) out by (intro none) force
      then show ?thesis using 2 False by (simp add: step)
    qed
  next
    case 3
    then have eq: "lower name = lower (reg_name (regs ! ?m))" using cmp by simp
    obtain j where j: "j < length regs" "strcasecmp name (reg_name (regs ! j)) = 0"
        "find (\<lambda>r. strcasecmp name (reg_name r) = 0) regs = Some (regs ! j)"
      using 3 m(3) by (metis (mono_tags, lifting) find_None_iff find_Some_iff nth_mem option.exhaust)
    then have "reg_value (regs ! j) = reg_value (regs ! ?m)"
      using same_value [OF j(1) m(3)] cmp_nth(1) [OF assms(1) j(1)] eq by simp
    then show ?thesis using 3 j by (simp add: step)
  qed
qed

lemma search_finds:
  assumes "c_string name" and "regs \<noteq> []"
  shows "reg_name_loop regs name 0 (int (length regs) - 1)
       = map_option reg_value (find (\<lambda>r. strcasecmp name (reg_name r) = 0) regs)"
  using assms by (intro loop_finds) (auto simp: Suc_le_eq nat_diff_distrib)

end

interpretation predefined: register_table d10v_predefined_registers
proof
  have "transp reg_le" by (auto simp: transp_def reg_le_def)
  then show "sorted_wrt reg_le d10v_predefined_registers"
    using registers_successively by (metis successively_conv_sorted_wrt)
qed (use registers_c_string in \<open>auto simp: list_all_iff\<close>)

text \<open>
  C17. The binary search for a register name finds exactly what a search through the whole table would, up to
  upper and lower case: the first entry with the name, or nothing. It relies on the order of the table, and
  on entries with the same name having the same value.
\<close>

theorem reg_name_search_is_search:
  assumes "c_string name"
  shows "reg_name_search name
       = map_option reg_value (find (\<lambda>r. strcasecmp name (reg_name r) = 0) d10v_predefined_registers)"
  using predefined.search_finds [OF assms]
  by (simp add: reg_name_search_def d10v_reg_name_cnt_def d10v_predefined_registers_def)

theorem reg_name_search_witness:
  "c_string ''R0-r1'' \<and> reg_name_search ''R0-r1'' = Some OPERAND_GPR"
proof -
  have "c_string ''R0-r1''" by code_simp
  moreover have "map_option reg_value (find (\<lambda>r. strcasecmp ''R0-r1'' (reg_name r) = 0) d10v_predefined_registers) = Some OPERAND_GPR"
    by code_simp
  ultimately show ?thesis using reg_name_search_is_search [of "''R0-r1''"] by simp
qed

section \<open>Operand ranges\<close>

lemma field_mask_eq: "bits \<le> 31 \<Longrightarrow> field_mask bits = mask bits"
proof -
  have m: "(0x7FFFFFFF :: uint32) = mask 31" by (simp add: mask_eq_exp_minus_1)
  assume "bits \<le> 31"
  then show ?thesis unfolding field_mask_def m by (auto intro!: bit_word_eqI simp: bit_simps)
qed

lemma unsigned_fits:
  fixes num :: uint32
  assumes "n < 32"
  shows "num \<le> 2 ^ n - 1 \<longleftrightarrow> num AND mask n = num"
proof -
  have n: "(2 :: int) ^ n < 2 ^ 32" using assms by (intro power_strict_increasing) auto
  have "uint (word_of_int (2 ^ n - 1) :: uint32) = 2 ^ n - 1"
    using n by (simp only: uint_word_of_int_eq) (rule take_bit_int_eq_self, auto)
  then have "uint (2 ^ n - 1 :: uint32) = 2 ^ n - 1" by simp
  then show ?thesis by (simp add: word_le_def mask_eq_iff)
qed

lemma signed_fits:
  fixes num :: uint32
  assumes "n < 31"
  shows "signed_take_bit n num = num \<longleftrightarrow> - (2 ^ n) \<le> sint num \<and> sint num < 2 ^ n"
proof -
  have "sint (signed_take_bit n num) = signed_take_bit n (sint num)"
    using assms sint_signed_take_bit [of n num] signed_take_bit_signed_take_bit [of n 31 "uint num"]
    by (simp add: sint_uint [of num])
  then show ?thesis by (metis signed_take_bit_int_eq_self_iff signed_word_eqI)
qed

lemma sint_limits:
  assumes "n \<le> 30"
  shows "sint (2 ^ n - 1 :: uint32) = 2 ^ n - 1" and "sint (- (2 ^ n) :: uint32) = - (2 ^ n)"
proof -
  have n: "(2 :: int) ^ n \<le> 2 ^ 30" using assms by (intro power_increasing) auto
  have "sint (word_of_int k :: uint32) = k" if "- (2 ^ n) \<le> k" "k < 2 ^ n" for k
    unfolding sint_sbintrunc' by (rule signed_take_bit_int_eq_self) (use n that in simp_all)
  from this [of "2 ^ n - 1"] this [of "- (2 ^ n)"]
  show "sint (2 ^ n - 1 :: uint32) = 2 ^ n - 1" "sint (- (2 ^ n) :: uint32) = - (2 ^ n)"
    by (simp_all add: order_trans [of _ 0])
qed

text \<open>The value that the simulator reads from a field, which the sources sign-extend for a signed operand.\<close>

definition field_value :: "nat \<Rightarrow> uint32 \<Rightarrow> uint32 \<Rightarrow> uint32" where
  "field_value bits flags f = (if flags AND OPERAND_SIGNED \<noteq> 0 then signed_take_bit (bits - 1) f else f)"

lemma check_range_field:
  assumes "0 < bits" and "bits < 16" and "flags AND OPERAND_SHIFT = 0"
  shows "\<not> check_range num bits flags \<longleftrightarrow> field_value bits flags (num AND field_mask bits) = num"
proof (cases "flags AND OPERAND_SIGNED = 0")
  case True
  then show ?thesis using assms unsigned_fits [of bits num]
    by (simp add: check_range_def field_value_def field_mask_eq push_bit_eq_mult Let_def not_less)
next
  case False
  have "signed_take_bit (bits - 1) (num AND mask bits) = signed_take_bit (bits - 1) num"
    using assms by (auto intro!: bit_word_eqI simp: bit_simps min_def)
  then show ?thesis using assms False signed_fits [of "bits - 1" num] sint_limits [of "bits - 1"]
    by (auto simp: check_range_def field_value_def field_mask_eq push_bit_eq_mult Let_def word_sless_alt)
qed



section \<open>Encoding and decoding\<close>

text \<open>
  Where an operand goes in the instruction word and the number that goes there. The operands of \<open>divs\<close>
  are stored twice.
\<close>

definition place_shift :: "uint32 \<Rightarrow> nat \<Rightarrow> nat" where
  "place_shift fmt k =
     opnd_shift (operand_at k) + (if opnd_flags (operand_at k) AND OPERAND_REG \<noteq> 0 \<and> fmt = LONG_L then 15 else 0)"

definition place_mask :: "nat \<times> nat \<Rightarrow> uint32" where
  "place_mask p = push_bit (fst p) (field_mask (opnd_bits (operand_at (snd p))))"

definition operand_number :: "nat \<Rightarrow> expressionS \<Rightarrow> uint32" where
  "operand_number k x =
     (if opnd_flags (operand_at k) AND OPERAND_REG \<noteq> 0 then X_add_number x AND REGISTER_MASK else X_add_number x)
     AND field_mask (opnd_bits (operand_at k))"

definition fmt_places :: "uint32 \<Rightarrow> d10v_opcode \<Rightarrow> (nat \<times> nat) list" where
  "fmt_places fmt e = map (\<lambda>k. (place_shift fmt k, k)) (op_operands e)"

definition second_pass :: "d10v_opcode \<Rightarrow> bool" where
  "second_pass e \<longleftrightarrow> op_opcode e = OPCODE_DIVS \<and> op_format e = LONG_L"

definition places :: "d10v_opcode \<Rightarrow> (nat \<times> nat) list" where
  "places e = fmt_places (op_format e) e @ (if second_pass e then fmt_places LONG_R e else [])"

definition at_places :: "d10v_opcode \<Rightarrow> expressionS list \<Rightarrow> ((nat \<times> nat) \<times> expressionS) list" where
  "at_places e xs = zip (places e) (take (length (op_operands e)) xs @ xs)"

definition pushed :: "(nat \<times> nat) \<times> expressionS \<Rightarrow> uint32" where
  "pushed = (\<lambda>((sh, k), x). push_bit sh (operand_number k x))"

definition or_all :: "uint32 list \<Rightarrow> uint32" where
  "or_all ws = foldr (OR) ws 0"

lemma or_all_simps [simp]: "or_all [] = 0" "or_all (w # ws) = w OR or_all ws"
  by (simp_all add: or_all_def)

lemma or_all_append [simp]: "or_all (ws @ vs) = or_all ws OR or_all vs"
  by (induction ws) (simp_all add: or.assoc)

lemma bit_or_all: "bit (or_all ws) n \<longleftrightarrow> (\<exists>w \<in> set ws. bit w n)"
  by (induction ws) (auto simp: bit_or_iff)

lemma make_fixup_same [simp]:
  "\<not> AT_WORD_P x \<Longrightarrow> snd (make_fixup k number x) = (x, number)"
  by (simp add: make_fixup_def Let_def)

definition pushed_all :: "uint32 \<Rightarrow> nat list \<Rightarrow> expressionS list \<Rightarrow> uint32" where
  "pushed_all fmt ks xs = or_all (map pushed (zip (map (\<lambda>k. (place_shift fmt k, k)) ks) xs))"

text \<open>An instruction has at most four operands, so that five fixups are enough.\<close>

lemma build_loop_eq:
  assumes "length ks \<le> length xs" and "\<forall>x \<in> set xs. X_op x \<noteq> O_right_shift" and "length fx + length ks \<le> MAX_INSN_FIXUPS"
  shows "\<exists>fx' m'. build_loop fmt ks xs insn fx m = Inr (insn OR pushed_all fmt ks xs, xs, fx', m')
          \<and> length fx' \<le> length fx + length ks"
  using assms
proof (induction ks xs arbitrary: insn fx m rule: list_induct2')
  case (4 k ks x xs)
  have na: "\<not> AT_WORD_P x" using 4(3) by (simp add: AT_WORD_P_def)
  define number where "number = (if opnd_flags (operand_at k) AND OPERAND_REG \<noteq> 0
      then X_add_number x AND REGISTER_MASK else X_add_number x)"
  define fx1 where "fx1 = (if X_op x \<noteq> O_register \<and> X_op x \<noteq> O_constant then fx @ [fst (make_fixup k number x)] else fx)"
  define m1 where "m1 = m @ (if X_op x = O_constant \<and> check_range number (opnd_bits (operand_at k)) (opnd_flags (operand_at k))
      then [''operand out of range''] else [])"
  let ?p = "push_bit (place_shift fmt k) (number AND field_mask (opnd_bits (operand_at k)))"
  have step: "build_loop fmt (k # ks) (x # xs) insn fx m
      = bindE (build_loop fmt ks xs (insn OR ?p) fx1 m1) (\<lambda>(insn, xs, r). Inr (insn, x # xs, r))"
    using 4(4) na unfolding fx1_def m1_def place_shift_def
    by (simp add: Let_def split_beta flip: number_def)
  have "length fx1 + length ks \<le> MAX_INSN_FIXUPS" and l: "length fx1 \<le> Suc (length fx)"
    using 4(4) by (auto simp: fx1_def)
  then obtain fx' m' where "build_loop fmt ks xs (insn OR ?p) fx1 m1
      = Inr ((insn OR ?p) OR pushed_all fmt ks xs, xs, fx', m')" "length fx' \<le> length fx1 + length ks"
    using 4(1) [of fx1 "insn OR ?p" m1] 4(2,3) by auto
  moreover have "pushed_all fmt (k # ks) (x # xs) = ?p OR pushed_all fmt ks xs"
    by (simp add: pushed_all_def pushed_def operand_number_def number_def)
  ultimately show ?case using l unfolding step by (simp add: or.assoc)
qed (simp_all add: pushed_all_def)

lemma zip_take_length: "zip as (take (length as) bs) = zip as bs"
  by (induction as bs rule: list_induct2') simp_all

lemma at_places_pushed:
  assumes "length (op_operands e) \<le> length xs"
  shows "or_all (map pushed (at_places e xs)) = pushed_all (op_format e) (op_operands e) xs
           OR (if second_pass e then pushed_all LONG_R (op_operands e) xs else 0)"
proof -
  let ?n = "length (op_operands e)"
  have "zip (fmt_places f e) (take ?n xs) = zip (fmt_places f e) xs" for f
    using zip_take_length [of "fmt_places f e" xs] by (simp add: fmt_places_def)
  then show ?thesis
    using assms by (auto simp: at_places_def places_def pushed_all_def fmt_places_def zip_append1 min_def)
qed

text \<open>What the encoding needs of a table entry: the operands have places of their own.\<close>

fun apart :: "nat \<times> nat \<Rightarrow> nat \<times> nat \<Rightarrow> bool" where
  "apart (s, b) (t, c) \<longleftrightarrow> s + b \<le> t \<or> t + c \<le> s"

definition extent :: "nat \<times> nat \<Rightarrow> nat \<times> nat" where
  "extent p = (fst p, opnd_bits (operand_at (snd p)))"

definition separate :: "(nat \<times> nat) list \<Rightarrow> bool" where
  "separate es \<longleftrightarrow> length es \<le> MAX_INSN_FIXUPS \<and> list_all (\<lambda>(s, b). b \<le> 16 \<and> s + b \<le> 30) es \<and> sorted_wrt apart es"

definition encodable :: "d10v_opcode \<Rightarrow> bool" where
  "encodable e \<longleftrightarrow> length (op_operands e) \<le> 4 \<and> op_opcode e AND op_mask e = op_opcode e
     \<and> separate (map extent (places e))"

lemmas encodable_defs = encodable_def separate_def extent_def

lemma opcodes_encodable: "list_all (\<lambda>e. op_format e = OPCODE_FAKE \<or> encodable e) d10v_opcodes"
  by code_simp

lemma build_insn_eq:
  assumes "encodable e" and "length (op_operands e) \<le> length xs" and "\<forall>x \<in> set xs. X_op x \<noteq> O_right_shift"
  shows "\<exists>fx m'. build_insn e xs [] m = Inr (op_opcode e OR or_all (map pushed (at_places e xs)), fx, m')"
proof -
  have n: "length (op_operands e) \<le> MAX_INSN_FIXUPS" "second_pass e \<Longrightarrow> 2 * length (op_operands e) \<le> MAX_INSN_FIXUPS"
    using assms(1) by (auto simp: encodable_defs places_def fmt_places_def split: if_splits)
  obtain fx m1 where first: "build_loop (op_format e) (op_operands e) xs (op_opcode e) [] m
      = Inr (op_opcode e OR pushed_all (op_format e) (op_operands e) xs, xs, fx, m1)" "length fx \<le> length (op_operands e)"
    using build_loop_eq [OF assms(2,3), of "[]" "op_format e" "op_opcode e" m] n(1) by auto
  show ?thesis
  proof (cases "second_pass e")
    case True
    then obtain fx' m' where "build_loop LONG_R (op_operands e) xs (op_opcode e OR pushed_all (op_format e) (op_operands e) xs) fx m1
      = Inr (op_opcode e OR pushed_all (op_format e) (op_operands e) xs OR pushed_all LONG_R (op_operands e) xs, xs, fx', m')"
      using build_loop_eq [OF assms(2,3), of fx LONG_R "op_opcode e OR pushed_all (op_format e) (op_operands e) xs" m1] n(2) first(2)
      by (auto simp: or.assoc)
    then show ?thesis using True first(1) at_places_pushed [OF assms(2)]
      by (simp add: build_insn_def second_pass_def or.assoc)
  next
    case False
    then show ?thesis using first(1) at_places_pushed [OF assms(2)]
      by (auto simp: build_insn_def second_pass_def)
  qed
qed

text \<open>
  The operands agree with the bits that the mask of the entry fixes in their places: register pairs are
  even, the base register of a store with predecrement is \<open>sp\<close>.
\<close>

definition fixed_bits_ok :: "d10v_opcode \<Rightarrow> expressionS list \<Rightarrow> bool" where
  "fixed_bits_ok e xs \<longleftrightarrow>
     list_all (\<lambda>(p, x). pushed (p, x) AND op_mask e = op_opcode e AND place_mask p) (at_places e xs)"

lemma pushed_and_place: "pushed (p, x) AND place_mask p = pushed (p, x)"
proof -
  have "push_bit sh (a AND m) AND push_bit sh m = push_bit sh (a AND m)" for sh and a m :: uint32
    by (auto intro!: bit_word_eqI simp: bit_simps)
  then show ?thesis by (cases p) (simp only: pushed_def place_mask_def operand_number_def prod.case fst_conv snd_conv)
qed

lemma disjoint_pushed:
  assumes "place_mask p AND place_mask q = 0"
  shows "pushed (q, x) AND place_mask p = 0"
proof -
  have "pushed (q, x) AND place_mask p = pushed (q, x) AND (place_mask q AND place_mask p)"
    by (simp add: pushed_and_place flip: and.assoc)
  then show ?thesis using assms by (simp add: and.commute)
qed

lemma or_all_and: "or_all ws AND m = or_all (map (\<lambda>w. w AND m) ws)"
  by (induction ws) (simp_all add: bit.conj_disj_distrib2)

lemma or_all_zero: "(\<And>w. w \<in> set ws \<Longrightarrow> w = 0) \<Longrightarrow> or_all ws = 0"
  by (induction ws) auto

lemma apart_disjoint:
  assumes "apart (extent p) (extent q)" and "opnd_bits (operand_at (snd p)) \<le> 16" and "opnd_bits (operand_at (snd q)) \<le> 16"
  shows "place_mask p AND place_mask q = 0"
  using assms by (auto intro!: bit_word_eqI simp: extent_def place_mask_def field_mask_eq bit_simps)

lemma places_disjoint: "encodable e \<Longrightarrow> sorted_wrt (\<lambda>p q. place_mask p AND place_mask q = 0) (places e)"
  unfolding encodable_def separate_def sorted_wrt_map
  by (elim conjE, rule sorted_wrt_mono_rel [of _ "\<lambda>p q. apart (extent p) (extent q)"])
     (auto simp: list_all_iff extent_def intro!: apart_disjoint)

lemma extract_place:
  assumes "sorted_wrt (\<lambda>p q. place_mask p AND place_mask q = 0) ps" and "(p, x) \<in> set (zip ps xs)"
  shows "or_all (map pushed (zip ps xs)) AND place_mask p = pushed (p, x)"
  using assms
proof (induction ps xs rule: list_induct2')
  case (4 q ps y xs)
  show ?case
  proof (cases "(p, x) = (q, y)")
    case True
    have "pushed (q', x') AND place_mask q = 0" if "(q', x') \<in> set (zip ps xs)" for q' x'
      using 4(2) set_zip_leftD [OF that] by (auto intro: disjoint_pushed)
    then have "or_all (map pushed (zip ps xs)) AND place_mask q = 0"
      unfolding or_all_and by (intro or_all_zero) auto
    then show ?thesis using True by (simp add: bit.conj_disj_distrib2 pushed_and_place)
  next
    case False
    then have "(p, x) \<in> set (zip ps xs)" using 4(3) by auto
    moreover have "pushed (q, y) AND place_mask p = 0"
      using 4(2) set_zip_leftD [OF \<open>(p, x) \<in> set (zip ps xs)\<close>]
      by (intro disjoint_pushed) (auto simp: and.commute)
    ultimately show ?thesis using 4 by (simp add: bit.conj_disj_distrib2)
  qed
qed simp_all

lemma insn_at_place:
  assumes "encodable e" and "fixed_bits_ok e xs" and "((sh, k), x) \<in> set (at_places e xs)"
  shows "drop_bit sh (op_opcode e OR or_all (map pushed (at_places e xs))) AND field_mask (opnd_bits (operand_at k))
       = operand_number k x"
proof -
  let ?ins = "op_opcode e OR or_all (map pushed (at_places e xs))" and ?p = "(sh, k)"
  let ?m = "field_mask (opnd_bits (operand_at k))"
  have b: "sh + opnd_bits (operand_at k) \<le> 30" "opnd_bits (operand_at k) \<le> 16"
    using assms(1) set_zip_leftD [OF assms(3) [unfolded at_places_def]] by (auto simp: encodable_defs list_all_iff)
  have "or_all (map pushed (at_places e xs)) AND place_mask ?p = pushed (?p, x)"
    using assms(3) extract_place [OF places_disjoint [OF assms(1)]] unfolding at_places_def by auto
  moreover have "op_opcode e AND place_mask ?p = pushed (?p, x) AND op_mask e"
    using assms(2,3) by (auto simp: fixed_bits_ok_def list_all_iff)
  ultimately have "?ins AND place_mask ?p = pushed (?p, x)"
    by (simp add: bit.conj_disj_distrib2)
  then have "drop_bit sh (?ins AND place_mask ?p) = drop_bit sh (pushed (?p, x))" by simp
  moreover have "drop_bit sh (?ins AND place_mask ?p) = drop_bit sh ?ins AND ?m"
    using b by (auto intro!: bit_word_eqI simp: place_mask_def field_mask_eq bit_simps)
  moreover have "drop_bit sh (pushed (?p, x)) = operand_number k x"
    using b by (auto intro!: bit_word_eqI simp: pushed_def operand_number_def field_mask_eq bit_simps)
  ultimately show ?thesis by simp
qed

lemma insn_and_mask:
  assumes "encodable e" and "fixed_bits_ok e xs"
  shows "(op_opcode e OR or_all (map pushed (at_places e xs))) AND op_mask e = op_opcode e"
proof (rule bit_word_eqI)
  fix n
  have "bit (op_opcode e) n" if "t \<in> set (at_places e xs)" "bit (pushed t) n" "bit (op_mask e) n" for t
  proof -
    obtain p x where t: "t = (p, x)" by fastforce
    have "pushed (p, x) AND op_mask e = op_opcode e AND place_mask p"
      using assms(2) that(1) t by (auto simp: fixed_bits_ok_def list_all_iff)
    then show ?thesis using that t by (metis bit_and_iff)
  qed
  moreover have "bit (op_mask e) n" if "bit (op_opcode e) n"
    using assms(1) that by (metis bit_and_iff encodable_def)
  ultimately show "bit ((op_opcode e OR or_all (map pushed (at_places e xs))) AND op_mask e) n = bit (op_opcode e) n"
    by (auto simp: bit_and_iff bit_or_iff bit_or_all)
qed

lemma take_set_operands:
  "length fs \<le> length ops \<Longrightarrow> take (length fs) (set_operands fs 0 ins ops) = map (\<lambda>f. field f ins) fs"
  using set_operands_nth [of _ fs 0 ops ins] by (intro nth_equalityI) auto

lemma first_places:
  "length (op_operands e) \<le> length xs \<Longrightarrow> (k, x) \<in> set (zip (op_operands e) xs) \<Longrightarrow>
    ((place_shift (op_format e) k, k), x) \<in> set (at_places e xs)"
  using zip_take_length [of "op_operands e" xs]
  by (auto simp: at_places_def places_def fmt_places_def zip_append1 zip_map1 image_iff min_def split: if_splits) force+

lemma field_at_place:
  assumes "encodable e" and "fixed_bits_ok e xs" and "length (op_operands e) \<le> length xs"
    and "(k, x) \<in> set (zip (op_operands e) xs)"
  shows "field (write_operand (op_format e) (operand_at k)) (op_opcode e OR or_all (map pushed (at_places e xs)))
       = ucast (operand_number k x)"
proof -
  have "write_operand (op_format e) (operand_at k)
      = (place_shift (op_format e) k, opnd_bits (operand_at k), opnd_flags (operand_at k))"
    by (simp add: write_operand_def place_shift_def)
  then show ?thesis using insn_at_place [OF assms(1,2) first_places [OF assms(3,4)]]
    by (simp add: field_def field_mask_def)
qed

lemma so_operands_write:
  "so_operands (write_opcode e)
     = map (\<lambda>k. write_operand (op_format e) (operand_at k)) (filter (\<lambda>k. is_value_operand (operand_at k)) (op_operands e))"
  by (simp add: write_opcode_def filter_map comp_def operand_at_def)

lemma map_filter_zip:
  "length ks \<le> length xs \<Longrightarrow> (\<And>k x. (k, x) \<in> set (zip ks xs) \<Longrightarrow> f k = g (k, x)) \<Longrightarrow>
   map f (filter P ks) = map g (filter (\<lambda>(k, x). P k) (zip ks xs))"
  by (induction ks xs rule: list_induct2') auto

lemma fields_at_places:
  assumes "encodable e" and "fixed_bits_ok e xs" and "length (op_operands e) \<le> length xs"
  shows "map (\<lambda>f. field f (op_opcode e OR or_all (map pushed (at_places e xs)))) (so_operands (write_opcode e))
       = map (\<lambda>(k, x). ucast (operand_number k x))
           (filter (\<lambda>(k, x). is_value_operand (operand_at k)) (zip (op_operands e) xs))"
  unfolding so_operands_write map_map comp_def
  by (rule map_filter_zip [OF assms(3)]) (simp add: field_at_place [OF assms])

definition register :: "uint32 \<Rightarrow> nat \<Rightarrow> expressionS" where
  "register kind n = blank\<lparr>X_op := O_register, X_add_number := kind + of_nat n\<rparr>"



section \<open>Operands that the assembler accepts and should not\<close>

text \<open>
  \<open>encode\<close> is the last part of \<open>do_assemble\<close>, for operands that use no symbol: the entry that is chosen, its
  word, and the messages. The operands are the elements of \<open>myops\<close> in use.
\<close>

definition encode :: "nat \<Rightarrow> expressionS list \<Rightarrow> as_error + (nat \<times> uint32 \<times> msgs) option" where
  "encode i xs =
     bindE (find_opcode \<lparr>S_IS_DEFINED = (\<lambda>_. False), S_IN_now_seg = (\<lambda>_. False), S_GET_VALUE = (\<lambda>_. 0), here = 0\<rparr> i
              (xs @ replicate (MYOPS - length xs) blank)) (\<lambda>r.
       case r of
         None \<Rightarrow> Inr None
       | Some (j, xs) \<Rightarrow> bindE (build_insn (opcode_at j) xs [] []) (\<lambda>(insn, fx, m). Inr (Some (j, insn, m))))"
definition const :: "uint32 \<Rightarrow> expressionS" where
  "const n = blank\<lparr>X_op := O_constant, X_add_number := n\<rparr>"

text \<open>
  The entry of \<open>sub\<close> with an accumulator and a register pair does not ask for an even register, though its
  mask does: \<open>sub a0, r1\<close> is assembled, without a message, to the word of \<open>sub a0, a0\<close>.
\<close>

lemma sub_acc_odd:
  "encode 150 [register OPERAND_ACC0 0, register OPERAND_GPR 1] = Inr (Some (151, 0x1003, []))"
  "encode 150 [register OPERAND_ACC0 0, register OPERAND_ACC0 0] = Inr (Some (152, 0x1003, []))"
  by code_simp+

text \<open>
  The entries of the stores with predecrement accept every base register, and then use \<open>sp\<close>: \<open>st r0, @-r4\<close> is
  assembled, without a message, to the word of \<open>st r0, @-sp\<close>.
\<close>

lemma store_any_base:
  "encode 137 [register OPERAND_GPR 0, absent OPERAND_ATMINUS, register OPERAND_GPR 4] = Inr (Some (139, 0x6c1f, []))"
  "encode 137 [register OPERAND_GPR 0, absent OPERAND_ATMINUS, register OPERAND_GPR 15] = Inr (Some (139, 0x6c1f, []))"
  by code_simp+

text \<open>An immediate operand that stands for 1 to 16 may be given as 0, and is 16.\<close>

lemma addi_zero:
  "encode 11 [register OPERAND_GPR 0, const 0] = Inr (Some (11, 0x201, []))"
  "encode 11 [register OPERAND_GPR 0, const 16] = Inr (Some (11, 0x201, []))"
  by code_simp+

text \<open>
  For a constant target \<open>find_opcode\<close> checks whether it fits ten bits, \<open>build_insn\<close> whether it fits eight. A
  constant in between gets the short form and then an error, though the long form has room for it.
\<close>

lemma bra_const:
  "encode 19 [const 200] = Inr (Some (20, 0x48c8, [''operand out of range'']))"
  "encode 21 [const 200] = Inr (Some (21, 0x240000c8, []))"
  by code_simp+

text \<open>
  The arrays of \<open>do_assemble\<close> are too small by one: a name of twenty characters has no room for its end, and six
  operands have none for the terminator.
\<close>

lemma name_overflow: "do_assemble expr st ''abcdefghijklmnopqrst'' fx m = Inl (Out_of_bounds ''name'')"
  by code_simp

lemma operands_overflow: "get_operands_asm expr ''r0,r1,r2,r3,r4,r5'' = Inl (Out_of_bounds ''myops'')"
  by code_simp

end
