(* ===== verification/Mem_Correct.thy ===== *)
theory Mem_Correct
  imports Commit
begin

text \<open>
  Correctness of simulated memory: the byte-order routines as codecs, the bounds of the address
  translation, loads after stores, the stack instructions, and the debugger's transfers.
\<close>

section \<open>Pointers\<close>

lemma ptr_add_0 [simp]: "ptr_add p 0 = p"
  by (cases p) simp_all

lemma ptr_add_add [simp]: "ptr_add (ptr_add p a) b = ptr_add p (a + b)"
  by (cases p) simp_all

lemma ptr_add_inject [simp]: "ptr_add p a = ptr_add p b \<longleftrightarrow> a = b"
  by (cases p) simp_all

lemma ptr_add_self [simp]: "ptr_add p a = p \<longleftrightarrow> a = 0" "p = ptr_add p a \<longleftrightarrow> a = 0"
  using ptr_add_inject [of p a 0] ptr_add_inject [of p 0 a] by simp_all

section \<open>Codecs\<close>

text \<open>
  What every pair of a read and a write routine promises: a write is local to \<open>n\<close> bytes, a read depends
  on these only, and reading after writing gives the value back.
\<close>

locale codec =
  fixes n :: nat
    and wr :: "ptr \<Rightarrow> 'v \<Rightarrow> (ptr \<Rightarrow> uint8) \<Rightarrow> ptr \<Rightarrow> uint8"
    and rd :: "(ptr \<Rightarrow> uint8) \<Rightarrow> ptr \<Rightarrow> 'v"
  assumes wr_local: "q \<notin> ptr_add p ` {..<n} \<Longrightarrow> wr p v m q = m q"
    and rd_local: "(\<And>i. i < n \<Longrightarrow> m (ptr_add p i) = m' (ptr_add p i)) \<Longrightarrow> rd m p = rd m' p"
    and rd_wr: "rd (wr p v m) p = v"
begin

lemma rd_wr_other:
  assumes "ptr_add p ` {..<n} \<inter> ptr_add q ` {..<n} = {}"
  shows "rd (wr p v m) q = rd m q"
  by (rule rd_local, rule wr_local) (use assms in auto)

lemma rd_wr_swap:
  assumes "ptr_add p ` {..<n} \<inter> ptr_add q ` {..<n} = {}"
  shows "rd (wr p v (wr q u m)) q = u" "rd (wr q u (wr p v m)) q = u"
  using rd_wr_other [OF assms] by (simp_all add: rd_wr)

end

lemma image_add_less:
  "q \<notin> ptr_add p ` {..<k} \<Longrightarrow> i < k \<Longrightarrow> q \<noteq> ptr_add p i"
  by auto

lemma word_bytes: "push_bit 8 (ucast (ucast (drop_bit 8 v AND 0xff) :: uint8)) + ucast (ucast (v AND 0xff) :: uint8) = v"
  for v :: uint16
proof -
  have m: "x AND 0xff = take_bit 8 x" for x :: uint16
    by (simp add: take_bit_eq_mask mask_eq_exp_minus_1)
  have "push_bit 8 (ucast (ucast (drop_bit 8 v AND 0xff) :: uint8)) + ucast (ucast (v AND 0xff) :: uint8)
     = (push_bit 8 (ucast (ucast (drop_bit 8 v AND 0xff) :: uint8)) OR ucast (ucast (v AND 0xff) :: uint8) :: uint16)"
    by (rule disjunctive_add) (auto simp: bit_simps dest: bit_imp_le_length)
  also have "\<dots> = v" unfolding m by (rule bit_word_eqI) (auto simp: bit_simps)
  finally show ?thesis .
qed

lemma longword_bytes:
  "push_bit 24 (ucast (ucast (drop_bit 24 v AND 0xff) :: uint8)) + push_bit 16 (ucast (ucast (drop_bit 16 v AND 0xff) :: uint8))
     + push_bit 8 (ucast (ucast (drop_bit 8 v AND 0xff) :: uint8)) + ucast (ucast (v AND 0xff) :: uint8) = v"
  for v :: uint32
proof -
  have m: "x AND 0xff = take_bit 8 x" for x :: uint32
    by (simp add: take_bit_eq_mask mask_eq_exp_minus_1)
  define b where "b k = (push_bit k (ucast (ucast (take_bit 8 (drop_bit k v)) :: uint8)) :: uint32)" for k
  have bit: "bit (b k) i \<longleftrightarrow> k \<le> i \<and> i < k + 8 \<and> bit v i" if "k \<le> 24" for k i
    using that by (auto simp: b_def bit_simps dest: bit_imp_le_length)
  have a: "b 24 + b 16 = b 24 OR b 16" by (rule disjunctive_add) (auto simp: bit)
  have c: "(b 24 OR b 16) + b 8 = b 24 OR b 16 OR b 8"
    unfolding or.assoc [symmetric] by (rule disjunctive_add) (auto simp: bit bit_simps)
  have d: "(b 24 OR b 16 OR b 8) + b 0 = b 24 OR b 16 OR b 8 OR b 0"
    by (subst disjunctive_add) (auto simp: bit bit_simps or.assoc)
  have "b 24 + b 16 + b 8 + b 0 = v"
    unfolding a c d by (rule bit_word_eqI) (auto simp: bit bit_simps)
  then show ?thesis by (simp add: b_def m)
qed

interpretation c16: codec 2 write_word get_word
proof
  fix q p :: ptr and v :: uint16 and m m' :: "ptr \<Rightarrow> uint8"
  show "write_word p v m q = m q" if "q \<notin> ptr_add p ` {..<2}"
    using image_add_less [OF that, of 0] image_add_less [OF that, of 1] by (simp add: write_word_def)
  show "get_word m p = get_word m' p" if "\<And>i. i < 2 \<Longrightarrow> m (ptr_add p i) = m' (ptr_add p i)"
    using that [of 0] that [of 1] by (simp add: get_word_def)
  show "get_word (write_word p v m) p = v"
    using word_bytes [of v] by (simp add: get_word_def write_word_def)
qed

interpretation c32: codec 4 write_longword get_longword
proof
  fix q p :: ptr and v :: uint32 and m m' :: "ptr \<Rightarrow> uint8"
  show "write_longword p v m q = m q" if "q \<notin> ptr_add p ` {..<4}"
    using image_add_less [OF that, of 0] image_add_less [OF that, of 1] image_add_less [OF that, of 2]
      image_add_less [OF that, of 3] by (simp add: write_longword_def)
  show "get_longword m p = get_longword m' p" if "\<And>i. i < 4 \<Longrightarrow> m (ptr_add p i) = m' (ptr_add p i)"
    using that [of 0] that [of 1] that [of 2] that [of 3] by (simp add: get_longword_def)
  show "get_longword (write_longword p v m) p = v"
    using longword_bytes [of v] by (simp add: get_longword_def write_longword_def)
qed

lemma halves_disjoint: "ptr_add (ptr_add p 4) ` {..<4} \<inter> ptr_add p ` {..<4} = {}"
  by auto

interpretation c64: codec 8 write_longlong get_longlong
proof
  fix q p :: ptr and v :: int64 and m m' :: "ptr \<Rightarrow> uint8"
  show "write_longlong p v m q = m q" if "q \<notin> ptr_add p ` {..<8}"
  proof -
    have "q \<notin> ptr_add p ` {..<4}" "q \<notin> ptr_add (ptr_add p 4) ` {..<4}" using that by auto
    then show ?thesis by (simp add: write_longlong_def c32.wr_local)
  qed
  show "get_longlong m p = get_longlong m' p" if "\<And>i. i < 8 \<Longrightarrow> m (ptr_add p i) = m' (ptr_add p i)"
    using that c32.rd_local [of m p m'] c32.rd_local [of m "ptr_add p 4" m'] by (simp add: get_longlong_def)
  have "get_longlong (write_longlong p v m) p
      = push_bit 32 (ucast (ucast (signed_drop_bit 32 v) :: uint32)) OR ucast (ucast v :: uint32)"
    by (simp only: get_longlong_def write_longlong_def Let_def c32.rd_wr c32.rd_wr_other [OF halves_disjoint])
  also have "\<dots> = v" by (rule bit_word_eqI) (auto simp: bit_simps)
  finally show "get_longlong (write_longlong p v m) p = v" .
qed

interpretation c8: codec 1 "\<lambda>p v m. m(p := v)" "\<lambda>m p. m p"
proof
  fix q p :: ptr and v :: uint8 and m m' :: "ptr \<Rightarrow> uint8"
  show "(m(p := v)) q = m q" if "q \<notin> ptr_add p ` {..<1}" using image_add_less [OF that, of 0] by simp
  show "m p = m' p" if "\<And>i. i < 1 \<Longrightarrow> m (ptr_add p i) = m' (ptr_add p i)" using that [of 0] by simp
qed simp

text \<open>
  The byte-order routines invert each other for 16, 32 and 64 bits, whatever the alignment, and store
  the most significant byte first.
\<close>

theorem byte_order_roundtrip:
  "get_word (write_word p w m) p = w \<and> get_longword (write_longword p l m) p = l
   \<and> get_longlong (write_longlong p d m) p = d
   \<and> write_word p w m p = ucast (drop_bit 8 w) \<and> write_longword p l m p = ucast (drop_bit 24 l)"
proof -
  have "(ucast (x AND 0xff) :: uint8) = ucast x" for x :: uint16
  proof -
    have "x AND 0xff = take_bit 8 x" by (simp add: take_bit_eq_mask mask_eq_exp_minus_1)
    then show ?thesis by (intro bit_word_eqI) (simp add: bit_simps)
  qed
  moreover have "(ucast (x AND 0xff) :: uint8) = ucast x" for x :: uint32
  proof -
    have "x AND 0xff = take_bit 8 x" by (simp add: take_bit_eq_mask mask_eq_exp_minus_1)
    then show ?thesis by (intro bit_word_eqI) (simp add: bit_simps)
  qed
  ultimately show ?thesis
    by (simp add: c16.rd_wr c32.rd_wr c64.rd_wr) (simp add: write_word_def write_longword_def)
qed

section \<open>Address translation\<close>

text \<open>The \<open>k\<close> bytes at a pointer lie in the block that was allocated for it.\<close>

fun in_block :: "nat \<Rightarrow> ptr \<Rightarrow> sim \<Rightarrow> bool" where
  "in_block k (Dmem n) s \<longleftrightarrow> n + k \<le> 2 ^ DMEM_SIZE"
| "in_block k (Imem n) s \<longleftrightarrow> n + k \<le> 2 ^ IMEM_SIZE"
| "in_block k (Umem g n) s \<longleftrightarrow> g < UMEM_SEGMENTS \<and> umem s ! g \<and> n + k \<le> 2 ^ UMEM_SIZE"
| "in_block k (Null n) s \<longleftrightarrow> False"

lemma unat_and_le: "unat (x AND m) \<le> unat m" for x m :: "'a::len word"
  using word_and_le1 [of x m] by (simp add: word_le_nat_alt)

lemma aligned_end: "k dvd n \<Longrightarrow> k dvd b \<Longrightarrow> n < b \<Longrightarrow> n + k \<le> b" for n k b :: nat
  by (metis add_diff_inverse_nat dvd_diff_nat dvd_imp_le less_imp_le_nat nat_add_left_cancel_le not_less zero_less_diff)



text \<open>The map registers are read through \<open>dmem_addr\<close> in the source; the translation does not depend on them.\<close>

lemma dmem_addr_map_register:
  "RW 0xff00 s = (IMAP0 s, s)" "RW 0xff02 s = (IMAP1 s, s)" "RW 0xff04 s = (DMAP s, s)"
  by (simp_all add: RW_def dmem_addr_def IMAP0_def IMAP1_def DMAP_def)

section \<open>Loads after stores\<close>

definition off_chip :: "ptr \<Rightarrow> bool" where
  "off_chip p \<longleftrightarrow> (case p of Dmem _ \<Rightarrow> False | _ \<Rightarrow> True)"

lemma DMAP_cong: "(\<And>n. m (Dmem n) = mem s (Dmem n)) \<Longrightarrow> DMAP (s\<lparr>mem := m\<rparr>) = DMAP s"
  by (simp add: DMAP_def get_word_def)

lemma dmem_addr_again:
  assumes "calloc_ok s" and "length (umem s) = 128"
    and "off_chip (fst (dmem_addr a s)) \<Longrightarrow> \<forall>n. m (Dmem n) = mem (snd (dmem_addr a s)) (Dmem n)"
  defines "u \<equiv> (snd (dmem_addr a s))\<lparr>mem := m\<rparr>"
  shows "fst (dmem_addr a u) = fst (dmem_addr a s)" "mem (snd (dmem_addr a u)) = m"
proof -
  define b where "b = a AND 0xffff"
  define seg where "seg = unat (drop_bit 3 (DMAP s AND 0x3ff))"
  have seg: "seg < 128"
    unfolding seg_def using unat_and_le [of "DMAP s" "0x3ff"]
    by (simp only: unat_drop_bit_eq) (simp add: drop_bit_eq_div)
  have "fst (dmem_addr a u) = fst (dmem_addr a s) \<and> mem (snd (dmem_addr a u)) = m"
  proof (cases "0x7fff < b \<and> b \<le> 0xbfff")
    case True
    then have off: "off_chip (fst (dmem_addr a s))"
      by (auto simp: dmem_addr_def b_def [symmetric] Let_def off_chip_def)
    have "mem (snd (dmem_addr a s)) (Dmem n) = mem s (Dmem n)" for n
      by (simp add: dmem_addr_def Let_def calloc_umem_def)
    then have "DMAP u = DMAP s"
      using assms(3) [OF off] by (simp add: u_def DMAP_def get_word_def)
    moreover have "calloc_ok u" by (simp add: u_def assms(1))
    moreover have "DMAP s AND 0x1000 = 0 \<Longrightarrow> umem u ! seg"
      using True seg assms(1,2)
      by (auto simp: u_def dmem_addr_def b_def [symmetric] Let_def calloc_umem_def seg_def not_less)
    moreover have "mem u = m" by (simp add: u_def)
    ultimately show ?thesis
      using True assms(1)
      by (auto simp: dmem_addr_def b_def [symmetric] Let_def seg_def not_less)
  next
    case False
    then have "fst (dmem_addr a x) = Dmem (unat b) \<and> mem (snd (dmem_addr a x)) = mem x" for x
      by (auto simp: dmem_addr_def b_def [symmetric] Let_def)
    then show ?thesis by (simp add: u_def)
  qed
  then show "fst (dmem_addr a u) = fst (dmem_addr a s)" "mem (snd (dmem_addr a u)) = m" by simp_all
qed

lemma off_chip_add: "off_chip p \<Longrightarrow> Dmem n \<notin> ptr_add p ` A"
  by (cases p) (auto simp: off_chip_def)

context codec
begin

lemma store_load:
  assumes "calloc_ok s" and "length (umem s) = 128"
  shows "let (p, t) = dmem_addr a s; (q, t') = dmem_addr a (t\<lparr>mem := wr p v (mem t)\<rparr>) in rd (mem t') q = v"
  using dmem_addr_again [OF assms, of a "wr (fst (dmem_addr a s)) v (mem (snd (dmem_addr a s)))"]
  by (simp add: case_prod_beta Let_def wr_local off_chip_add rd_wr)

end

lemma RW_SW:
  assumes "calloc_ok s" and "length (umem s) = 128"
  shows "fst (RW a (SW a w s)) = ucast w"
  using c16.store_load [OF assms, of a "ucast w"] by (simp add: RW_def SW_def case_prod_beta Let_def)



section \<open>The stack\<close>

lemma RW_cong:
  assumes "mem s = mem t" and "umem s = umem t" and "calloc_ok s = calloc_ok t"
  shows "fst (RW a s) = fst (RW a t)"
proof -
  have "DMAP s = DMAP t" by (simp add: DMAP_def assms)
  then show ?thesis using assms
    by (simp add: RW_def dmem_addr_def calloc_umem_def case_prod_beta Let_def cong: ptr.case_cong if_cong)
qed

lemma setter_memory:
  "mem (SET_GPR n v t) = mem t" "umem (SET_GPR n v t) = umem t" "calloc_ok (SET_GPR n v t) = calloc_ok t"
  by (simp_all add: setter_defs)



section \<open>Transfers\<close>

lemma copy_in_local: "(\<And>i. i < length bs \<Longrightarrow> q \<noteq> ptr_add p i) \<Longrightarrow> copy_in p bs m q = m q"
proof (induction bs arbitrary: p m)
  case (Cons b bs)
  have "q \<noteq> p" using Cons.prems [of 0] by simp
  moreover have "q \<noteq> ptr_add (ptr_add p 1) i" if "i < length bs" for i
    using Cons.prems [of "Suc i"] that by simp
  ultimately show ?case using Cons.IH by simp
qed simp

lemma copy_in_nth: "i < length bs \<Longrightarrow> copy_in p bs m (ptr_add p i) = bs ! i"
proof (induction bs arbitrary: p m i)
  case (Cons b bs)
  then show ?case
    using Cons.IH [of "i - 1" "ptr_add p 1" "m(p := b)"] by (cases i) (simp_all add: copy_in_local fun_upd_def)
qed simp

lemma copy_out_in: "copy_out p (length bs) (copy_in p bs m) = bs"
  by (rule nth_equalityI) (simp_all add: copy_out_def copy_in_nth)

lemma xfer_memcpy_roundtrip:
  assumes "length buf = n" and "length buf' = n" and "xfer_memcpy p n True buf s = (k, b, t)"
  shows "k = n" "xfer_memcpy p n False buf' t = (n, buf, t)"
  using assms copy_out_in [of p buf "mem s"] by (auto simp: xfer_memcpy_def)

lemma unat_add_small: "unat a + n < 2 ^ 32 \<Longrightarrow> unat (a + of_nat n) = unat a + n" for a :: uint32
  by (simp add: unat_word_ariths unat_of_nat take_bit_eq_mod)

lemma unat_low17: "unat (a AND 0x1ffff) = unat a mod 2 ^ 17" for a :: uint32
proof -
  have "a AND 0x1ffff = take_bit 17 a" by (simp add: take_bit_eq_mask mask_eq_exp_minus_1)
  then show ?thesis by (simp only: unsigned_take_bit_eq) (simp add: take_bit_eq_mod)
qed

lemma xfer_umem_in_range:
  assumes "unat a mod 2 ^ 17 + n \<le> 2 ^ 17" and "unat a < 2 ^ 24" and "calloc_ok s" and "length (umem s) = 128"
  defines "seg \<equiv> unat a div 2 ^ 17"
  shows "xfer_umem a n w buf s = xfer_memcpy (Umem seg (unat a mod 2 ^ 17)) n w buf (if umem s ! seg then s else calloc_umem seg s)"
    "seg < 128"
proof -
  let ?off = "unat a mod 2 ^ 17"
  have a: "unat a = seg * 2 ^ 17 + ?off" by (simp add: seg_def)
  have sum: "unat (a + of_nat n) = seg * 2 ^ 17 + (?off + n)"
    using assms(1,2) a by (simp add: unat_add_small)
  have seg: "unat (drop_bit 17 a) = seg" by (simp only: unat_drop_bit_eq) (simp add: drop_bit_eq_div seg_def)
  have e: "unat (drop_bit 17 (a + of_nat n)) = (seg * 2 ^ 17 + (?off + n)) div 2 ^ 17"
    by (simp only: unat_drop_bit_eq sum) (simp add: drop_bit_eq_div)
  show s: "seg < 128" using assms(2) by (simp add: seg_def less_mult_imp_div_less)
  have "seg = (seg * 2 ^ 17 + (?off + n)) div 2 ^ 17 \<or>
      (seg * 2 ^ 17 + (?off + n)) div 2 ^ 17 = seg + 1 \<and> (seg * 2 ^ 17 + (?off + n)) mod 2 ^ 17 = 0"
    using assms(1) by (cases "?off + n = 2 ^ 17") auto
  then show "xfer_umem a n w buf s = xfer_memcpy (Umem seg ?off) n w buf (if umem s ! seg then s else calloc_umem seg s)"
    using assms(3,4) s
    unfolding xfer_umem_def Let_def seg e unat_low17 sum
    by (auto simp: calloc_umem_def)
qed

lemma unat_low16: "unat (a AND 0xffff) = unat a mod 2 ^ 16" for a :: uint32
proof -
  have "a AND 0xffff = take_bit 16 a" by (simp add: take_bit_eq_mask mask_eq_exp_minus_1)
  then show ?thesis by (simp only: unsigned_take_bit_eq) (simp add: take_bit_eq_mod)
qed

lemma unat_low24: "unat (a AND 0xffffff) = unat a mod 2 ^ 24" for a :: uint32
proof -
  have "a AND 0xffffff = take_bit 24 a" by (simp add: take_bit_eq_mask mask_eq_exp_minus_1)
  then show ?thesis by (simp only: unsigned_take_bit_eq) (simp add: take_bit_eq_mod)
qed

text \<open>
  The debugger reads back what it wrote: for the on-chip data memory (address segment \<open>0x10\<close>) and the
  unified memory (\<open>0x12\<close>) a write of \<open>n\<close> bytes that stays inside the memory or segment transfers all of them,
  allocating the segment if need be, and the read returns them and changes nothing.
\<close>

theorem write_read_roundtrip:
  assumes "length buf = n" and "length buf' = n" and "calloc_ok s" and "length (umem s) = 128"
    and "drop_bit 24 a AND 0xff = 0x10 \<and> unat a mod 2 ^ 16 + n \<le> 2 ^ 16
       \<or> drop_bit 24 a AND 0xff = 0x12 \<and> unat a mod 2 ^ 17 + n \<le> 2 ^ 17"
  shows "\<exists>t. sim_write a buf n s = (n, buf, t) \<and> sim_read a buf' n t = (n, buf, t)"
proof -
  have rt: "\<exists>t. xfer_memcpy p n True buf u = (n, buf, t) \<and> xfer_memcpy p n False buf' t = (n, buf, t)
      \<and> umem t = umem u \<and> calloc_ok t = calloc_ok u" for p u
    using xfer_memcpy_roundtrip [OF assms(1,2)] assms(1) by (auto simp: xfer_memcpy_def)
  from assms(5) show ?thesis
  proof
    assume a: "drop_bit 24 a AND 0xff = 0x10 \<and> unat a mod 2 ^ 16 + n \<le> 2 ^ 16"
    let ?o = "(a AND 0xffffff) AND 0xffff"
    have o: "unat ?o = unat a mod 2 ^ 16"
      by (simp only: unat_low16 unat_low24) (simp add: mod_mod_cancel)
    have "\<not> 0x10000 < ?o + of_nat n"
      using a o unat_add_small [of ?o n] by (simp add: word_less_nat_alt)
    then have "xfer_mem a b n w u = xfer_memcpy (Dmem (unat ?o)) n w b u" for b w u
      using a by (simp add: xfer_mem_def Let_def)
    then show ?thesis using rt [of "Dmem (unat ?o)" s] by (auto simp: sim_write_def sim_read_def)
  next
    assume a: "drop_bit 24 a AND 0xff = 0x12 \<and> unat a mod 2 ^ 17 + n \<le> 2 ^ 17"
    let ?a = "a AND 0xffffff"
    have o: "unat ?a mod 2 ^ 17 = unat a mod 2 ^ 17" "unat ?a < 2 ^ 24"
      by (simp_all only: unat_low24) (simp_all add: mod_mod_cancel)
    have x: "xfer_mem a b n w u = xfer_umem ?a n w b u" for b w u
      using a by (simp add: xfer_mem_def Let_def)
    define seg where "seg = unat ?a div 2 ^ 17"
    define u where "u = (if umem s ! seg then s else calloc_umem seg s)"
    have r: "xfer_umem ?a n w b v = xfer_memcpy (Umem seg (unat ?a mod 2 ^ 17)) n w b (if umem v ! seg then v else calloc_umem seg v)"
      "seg < 128" if "calloc_ok v" "length (umem v) = 128" for w b v
      unfolding seg_def using a o that by (intro xfer_umem_in_range; simp)+
    obtain t where t: "xfer_memcpy (Umem seg (unat ?a mod 2 ^ 17)) n True buf u = (n, buf, t)"
      "xfer_memcpy (Umem seg (unat ?a mod 2 ^ 17)) n False buf' t = (n, buf, t)" "umem t = umem u" "calloc_ok t = calloc_ok u"
      using rt [of "Umem seg (unat ?a mod 2 ^ 17)" u] by blast
    moreover have "umem u ! seg" "length (umem u) = 128" "calloc_ok u"
      using r(2) [OF assms(3,4)] assms(3,4) by (auto simp: u_def calloc_umem_def)
    ultimately show ?thesis
      using r [of s] r [of t] assms(3,4) by (intro exI [of _ t]) (simp add: sim_write_def sim_read_def x u_def)
  qed
qed

theorem write_read_roundtrip_witness:
  "\<exists>t. sim_write 0x12060003 [1, 2] 2 (boot True) = (2, [1, 2], t) \<and> sim_read 0x12060003 [0, 0] 2 t = (2, [1, 2], t)"
  using write_read_roundtrip [of "[1, 2]" 2 "[0, 0]" "boot True" "0x12060003"] by (simp add: boot_def)

text \<open>
  A transfer to instruction memory (address segment \<open>0x11\<close>) never reaches it: the case in \<open>xfer_mem\<close> computes
  the pointer into instruction memory and then falls into the case of the unified memory.
\<close>

theorem imem_transfer_misses:
  assumes "drop_bit 24 a AND 0xff = 0x11"
  shows "mem (snd (snd (sim_write a buf n s))) (Imem k) = mem s (Imem k)"
proof -
  have "Imem k \<noteq> ptr_add (Umem g p) i" for g p i by simp
  then have "mem (snd (snd (xfer_umem b n True buf s))) (Imem k) = mem s (Imem k)" for b
    by (simp add: xfer_umem_def Let_def xfer_memcpy_def copy_in_local calloc_umem_def)
  then show ?thesis using assms by (simp add: sim_write_def xfer_mem_def Let_def)
qed

theorem imem_transfer_misses_witness:
  "mem (snd (snd (sim_write 0x11000000 [1, 2] 2 (boot True)))) (Imem 0) = 0"
  using imem_transfer_misses [of "0x11000000" "[1, 2]" 2 "boot True" 0] by (simp add: boot_def)

end
