(* ===== verification/Interp_Inv.thy ===== *)
theory Interp_Inv
  imports Interp
begin

text \<open>
  The invariant of the simulator, \<open>sim_ok\<close>, and the bound on the number of pending write-back slots,
  from the contract of the instruction functions up to the main loop and the calls of the
  debugger; the reachable states of the simulator; and when \<open>sim_resume\<close> returns.
\<close>

section \<open>A packet keeps the invariant and fits into the write-back slots\<close>

lemma sim_ok_issue:
  assumes "issue_ok s t" and "sim_ok s"
  shows "sim_ok t"
  using assms by (auto simp: issue_ok_def frame_def pends_def sim_ok_def wf_sim_def arch_ok_def)

lemma sim_ok_update [simp]:
  "sim_ok (s\<lparr>ins_type := t\<rparr>) = sim_ok s" "sim_ok (s\<lparr>status := st\<rparr>) = sim_ok s"
  "sim_ok (s\<lparr>exception := e\<rparr>) = sim_ok s" "sim_ok (s\<lparr>pc_changed := b\<rparr>) = sim_ok s"
  "sim_ok (s\<lparr>stop_simulator := b\<rparr>) = sim_ok s" "sim_ok (s\<lparr>mem := m\<rparr>) = sim_ok s"
  "sim_ok (count_inc t s) = sim_ok s"
  by (simp_all add: sim_ok_def wf_sim_def arch_ok_def count_inc_def)

lemma count_inc_fields [simp]:
  "slot (count_inc t s) = slot s" "OP (count_inc t s) = OP s" "status (count_inc t s) = status s"
  "exception (count_inc t s) = exception s" "ins_type (count_inc t s) = ins_type s"
  "stop_simulator (count_inc t s) = stop_simulator s"
  by (simp_all add: count_inc_def)

lemma sim_ok_OP: "sim_ok s \<Longrightarrow> length (OP s) = 4"
  by (simp add: sim_ok_def wf_sim_def)

lemma func_contract:
  assumes "decodes i ins" and "ops_ok (classes i) s"
  shows "issue_ok s (func host i s)"
proof -
  have "i < length Simops" using assms by (simp add: decodes_def)
  then have "(so_opcode (Simops ! i), classes i, func host i) \<in> set (simop_table host)"
    using simop_table_classes [of i host] length_simop_table [of host] nth_mem by metis
  then show ?thesis using simop_table_contract [of host] assms(2) by (auto simp: list_all_iff)
qed

lemma issue_contract:
  assumes "decodes i ins" and "length (OP s) = 4"
  shows "issue_ok (s\<lparr>ins_type := t\<rparr>) (issue host i ins t s)"
proof -
  let ?s = "count_inc t ((get_operands (Simops ! i) ins s)\<lparr>ins_type := t\<rparr>)"
  have "ops_ok (classes i) ?s"
    using get_operands_ok [OF assms] by (simp add: ops_ok_def)
  then have "issue_ok ?s (issue host i ins t s)"
    using func_contract [OF assms(1)] by (simp add: issue_def Let_def)
  then show ?thesis
    using assms(2) by (auto simp: issue_ok_def frame_def pends_def count_inc_def get_operands_def)
qed

lemma issue_sim_ok: "decodes i ins \<Longrightarrow> sim_ok s \<Longrightarrow> sim_ok (issue host i ins t s)"
  using sim_ok_issue [OF issue_contract [OF _ sim_ok_OP]] by simp

lemma issue_slots:
  assumes "decodes i ins" and "sim_ok s"
  shows "length (slot (issue host i ins t s)) \<le> length (slot s) +
     (if pc_changed (issue host i ins t s) then if t \<in> {INS_LEFT, INS_RIGHT} then 6 else 5 else 4)"
    "pc_changed s \<Longrightarrow> pc_changed (issue host i ins t s)"
  using issue_contract [OF assms(1) sim_ok_OP [OF assms(2)], of t host]
  by (auto simp: issue_ok_def frame_def pends_def budget_def split: if_splits)

text \<open>
  The state after the instructions of a packet: at most eight slots, or ten when the \<open>PC\<close> has
  been changed and the hardware loop is not consulted.
\<close>

definition packet_ok :: "sim \<Rightarrow> bool" where
  "packet_ok t \<longleftrightarrow> sim_ok t \<and> length (slot t) \<le> (if pc_changed t then 10 else 8)"

lemma packet_ok_simps [simp]:
  "packet_ok (s\<lparr>status := st\<rparr>) = packet_ok s" "packet_ok (count_inc t s) = packet_ok s"
  by (simp_all add: packet_ok_def)

lemma packet_ok_idle: "sim_ok s \<Longrightarrow> slot s = [] \<Longrightarrow> packet_ok s"
  by (simp add: packet_ok_def)

lemma packet_ok_issue:
  assumes "decodes i ins" and "sim_ok s" and "slot s = []"
  shows "packet_ok (issue host i ins t s)"
  using issue_slots [OF assms(1,2), of host t] issue_sim_ok [OF assms(1,2), of host t] assms(3)
  by (auto simp: packet_ok_def split: if_splits)

lemma packet_ok_issue2:
  assumes "decodes i ins" and "sim_ok s" and "length (slot s) \<le> (if pc_changed s then 5 else 4)"
    and "t \<notin> {INS_LEFT, INS_RIGHT}"
  shows "packet_ok (issue host i ins t s)"
  using issue_slots [OF assms(1,2), of host t] issue_sim_ok [OF assms(1,2), of host t] assms(3,4)
  by (auto simp: packet_ok_def split: if_splits)

lemma packet_ok_with_op:
  assumes "packet_ok s" and "\<And>i. l = Found i \<Longrightarrow> packet_ok (f i s)"
  shows "packet_ok (with_op l f s)"
  using assms by (auto simp: with_op_def split: lookup.split)

lemma packet_ok_first:
  assumes "sim_ok s" and "slot s = []"
  shows "packet_ok (with_op (lookup_hash ins sz) (\<lambda>i. issue host i ins t) s)"
    "packet_ok (with_op (lookup_hash ins sz) (\<lambda>i s. issue host i ins t (count_inc c s)) s)"
  using assms
  by (auto intro!: packet_ok_with_op packet_ok_idle [OF assms] intro: packet_ok_issue lookup_hash_decodes)

lemma do_long_ok: "sim_ok s \<Longrightarrow> slot s = [] \<Longrightarrow> packet_ok (do_long host ins s)"
  by (simp add: do_long_def packet_ok_first)

lemma do_2_short_ok:
  assumes "sim_ok s" and "slot s = []"
  shows "packet_ok (do_2_short host ins1 ins2 lf s)"
proof -
  have "packet_ok (with_op (lookup_hash (ucast ins1) False)
      (\<lambda>i. issue host i (ucast ins1) t) (count_inc c s))" for t c
    using assms by (simp add: packet_ok_first)
  moreover have "packet_ok (with_op (lookup_hash (ucast ins2) False)
      (\<lambda>i s. issue host i (ucast ins2) t (count_inc INS_CYCLES s)) (SLOT_FLUSH u))"
    if "packet_ok u" for u t
    using that SLOT_FLUSH_ok [of u] by (intro packet_ok_first) (simp_all add: packet_ok_def)
  ultimately show ?thesis by (simp add: do_2_short_def Let_def)
qed

lemma do_cond_ok:
  assumes "sim_ok s" and "slot s = []" and "decodes i1 (ucast ins1)"
    and "\<And>i2. l2 = Found i2 \<Longrightarrow> decodes i2 (ucast ins2)"
    and "test \<notin> {INS_LEFT, INS_RIGHT}" and "exec \<notin> {INS_LEFT, INS_RIGHT}"
  shows "packet_ok (do_cond host i1 ins1 test l2 ins2 exec s)"
proof -
  let ?t = "issue host i1 (ucast ins1) test s"
  have t: "sim_ok ?t" "length (slot ?t) \<le> (if pc_changed ?t then 5 else 4)"
    using issue_sim_ok [OF assms(3,1)] issue_slots(1) [OF assms(3,1), of host test] assms(2,5)
    by auto
  have "packet_ok ?t" using packet_ok_issue [OF assms(3,1,2)] .
  moreover have "packet_ok (with_op l2 (\<lambda>i2. issue host i2 (ucast ins2) exec) (count_inc INS_COND_TRUE ?t))"
    using t assms(4,6) \<open>packet_ok ?t\<close>
    by (intro packet_ok_with_op packet_ok_issue2) auto
  ultimately show ?thesis by (simp add: do_cond_def Let_def)
qed

lemma do_parallel_ok:
  assumes "sim_ok s" and "slot s = []"
  shows "packet_ok (do_parallel host ins1 ins2 s)"
proof -
  let ?s = "count_inc INS_PARALLEL s"
  have s: "sim_ok ?s" "slot ?s = []" using assms by simp_all
  have both: "packet_ok (let u = issue host i1 (ucast ins1) INS_LEFT_PARALLEL ?s
                         in if status u = Running \<and> exception u = 0
                            then issue host i2 (ucast ins2) INS_RIGHT_PARALLEL u else u)"
    if "decodes i1 (ucast ins1)" and "decodes i2 (ucast ins2)" for i1 i2
    using packet_ok_issue [OF that(1) s, of host INS_LEFT_PARALLEL] issue_sim_ok [OF that(1) s(1)]
      issue_slots(1) [OF that(1) s(1), of host INS_LEFT_PARALLEL] s(2)
    by (auto simp: Let_def intro!: packet_ok_issue2 [OF that(2)])
  show ?thesis
    using packet_ok_idle [OF s] s
    by (auto simp: do_parallel_def Let_def [of ?s] Let_def [of "lookup_hash _ _"]
        intro!: packet_ok_with_op do_cond_ok both lookup_hash_decodes)
qed

lemma dispatch_ok: "sim_ok s \<Longrightarrow> slot s = [] \<Longrightarrow> packet_ok (dispatch host inst s)"
  by (simp add: dispatch_def Let_def do_long_ok do_2_short_ok do_parallel_ok)

section \<open>The main loop keeps the invariant\<close>

lemma next_pc_pends:
  "pends (if pc_changed s then 0 else 3) s (next_pc s)" "frame s (next_pc s)"
  by (auto simp: next_pc_def Let_def intro!: pends_SET_CREG pends_SET_PSW_BIT)

lemma breakpoint_pends: "pends 5 s (breakpoint s)" "frame s (breakpoint s)"
  by (auto simp: breakpoint_def Let_def PSW_bit_def intro!: pends_SET_PSW_same_SM pends_SET_CREG)

lemma frame_trans: "frame s t \<Longrightarrow> frame t u \<Longrightarrow> frame s u"
  by (simp add: frame_def)

lemma sim_ok_pends: "pends k s t \<Longrightarrow> frame s t \<Longrightarrow> sim_ok s \<Longrightarrow> sim_ok t"
  by (auto simp: frame_def pends_def sim_ok_def wf_sim_def arch_ok_def)

lemma writeback_ok:
  assumes "packet_ok s"
  shows "sim_ok (breakpoint (next_pc s))" "length (slot (breakpoint (next_pc s))) \<le> NR_SLOTS"
proof -
  have p: "pends ((if pc_changed s then 0 else 3) + 5) s (breakpoint (next_pc s))"
    using next_pc_pends breakpoint_pends pends_trans by blast
  have f: "frame s (breakpoint (next_pc s))"
    using next_pc_pends breakpoint_pends frame_trans by blast
  show "sim_ok (breakpoint (next_pc s))" using sim_ok_pends [OF p f] assms by (simp add: packet_ok_def)
  show "length (slot (breakpoint (next_pc s))) \<le> NR_SLOTS"
    using p assms by (auto simp: pends_def packet_ok_def NR_SLOTS_def split: if_splits)
qed

lemma resume_step_ok:
  assumes "sim_ok s" and "slot s = []"
  shows "sim_ok (resume_step host s)" "status (resume_step host s) = Running \<Longrightarrow> status s = Running \<Longrightarrow> slot (resume_step host s) = []"
proof -
  have "packet_ok (dispatch host inst (count_inc INS_CYCLES (s\<lparr>pc_changed := False\<rparr>)))" for inst
    using assms by (simp add: dispatch_ok)
  then show "sim_ok (resume_step host s)"
    using assms writeback_ok SLOT_FLUSH_ok
    by (auto simp: resume_step_def Let_def packet_ok_def split: sum.split option.split)
  show "slot (resume_step host s) = []" if "status (resume_step host s) = Running" and "status s = Running"
    using that assms by (auto simp: resume_step_def Let_def split: sum.splits option.splits if_splits)
qed

section \<open>Calls of the debugger keep the invariant\<close>

definition quiet :: "sim \<Rightarrow> sim \<Rightarrow> bool" where
  "quiet s t \<longleftrightarrow> frame s t \<and> slot t = slot s"

lemma quiet_sim_ok: "quiet s t \<Longrightarrow> sim_ok s \<Longrightarrow> sim_ok t"
  by (simp add: quiet_def frame_def sim_ok_def wf_sim_def arch_ok_def)

lemma quiet_trans: "quiet s t \<Longrightarrow> quiet t u \<Longrightarrow> quiet s u"
  by (auto simp: quiet_def frame_def)

lemma quiet_simps [simp]:
  "quiet s s" "quiet s (t\<lparr>mem := m\<rparr>) = quiet s t" "quiet s (t\<lparr>status := st\<rparr>) = quiet s t"
  "quiet s (snd (dmem_addr a t)) = quiet s t" "quiet s (SW a w t) = quiet s t"
  "quiet s (calloc_umem g t) = quiet s t"
  by (simp_all add: quiet_def frame_def calloc_umem_def)

lemma xfer_byte_quiet: "xfer_byte p i w b s = Some (b', t) \<Longrightarrow> quiet s t"
  by (auto simp: xfer_byte_def split: option.splits if_splits)

lemma xfer_dmap_quiet: "quiet s (snd (snd (xfer_dmap a i n w b s)))"
proof (induction n arbitrary: i b s)
  case (Suc n)
  let ?t = "snd (dmem_addr (a + of_nat i) s)"
  have "quiet s u" if "xfer_byte p i w b ?t = Some (b', u)" for p b' u
    using quiet_trans [of s ?t u] xfer_byte_quiet [OF that] by simp
  then show ?case
    using Suc quiet_trans by (fastforce simp: case_prod_beta Let_def split: option.split)
qed simp

lemma xfer_imap_quiet: "quiet s (snd (snd (xfer_imap a i n w b s)))"
proof (induction n arbitrary: i b s)
  case (Suc n)
  then show ?case
    using quiet_trans xfer_byte_quiet
    by (fastforce simp: Let_def split: option.split sum.split)
qed simp

lemma xfer_memcpy_quiet: "quiet s (snd (snd (xfer_memcpy p n w b t))) = quiet s t"
  by (simp add: xfer_memcpy_def)

lemma xfer_umem_quiet: "quiet s (snd (snd (xfer_umem a n w b s)))"
  by (simp add: xfer_umem_def Let_def xfer_memcpy_quiet)

lemma xfer_mem_quiet: "quiet s (snd (snd (xfer_mem a b n w s)))"
  by (simp add: xfer_mem_def Let_def xfer_dmap_quiet xfer_imap_quiet xfer_umem_quiet xfer_memcpy_quiet)

lemma set_argv_quiet: "quiet s (snd (set_argv addr argv p i s))"
proof (induction argv arbitrary: p i s)
  case (Cons a argv)
  let ?t = "SW (addr + 2 * i) (addr + p) s"
  have "quiet s (snd (snd (sim_write addr (a @ [0]) (length a + 1) ?t)))"
    using quiet_trans [of s ?t] xfer_mem_quiet by (simp add: sim_write_def)
  then show ?case
    using quiet_trans Cons by (simp add: case_prod_beta Let_def)
qed simp

lemma sim_ok_reset: "length (umem s) = 128 \<Longrightarrow> length (OP s) = 4 \<Longrightarrow> sim_ok (reset s)"
  by (auto simp: reset_def sim_ok_def wf_sim_def arch_ok_def less_Suc_eq numeral_2_eq_2)

lemma create_inferior_ok:
  assumes "length (umem s) = 128" and "length (OP s) = 4"
  shows "sim_ok (sim_create_inferior start argv s)" "slot (sim_create_inferior start argv s) = []"
proof -
  have "sim_ok (snd (set_argv a xs p i (reset s)))" for a xs p i
    using quiet_sim_ok [OF set_argv_quiet] sim_ok_reset [OF assms] by blast
  moreover have "sim_ok (SET_GPR n v t)" if "sim_ok t" and "n < 16" for n t and v :: uint32
    using sim_ok_pends [OF pends_SET_GPR [of 1 t t]] that by simp
  moreover have "sim_ok (SET_PC v t)" if "sim_ok t" for t and v :: uint32
    using sim_ok_pends [OF pends_SET_CREG [of 1 t t PC_CR v]] that by simp
  moreover have "sim_ok (SW a v t)" if "sim_ok t" for t a and v :: int32
    using quiet_sim_ok [of t "SW a v t"] that by simp
  ultimately show "sim_ok (sim_create_inferior start argv s)"
    using sim_ok_reset [OF assms]
    by (auto simp: sim_create_inferior_def Let_def case_prod_beta intro!: SLOT_FLUSH_ok split: option.split)
  show "slot (sim_create_inferior start argv s) = []"
    by (simp add: sim_create_inferior_def Let_def)
qed

lemma store_register_ok:
  assumes "sim_ok s" and "rn < 37"
  shows "sim_ok (sim_store_register rn p buf s)"
proof -
  have "sim_ok (SET_GPR n v s)" if "n < 16" for n and v :: uint16
    using sim_ok_pends [OF pends_SET_GPR [of 1 s s]] that assms by simp
  moreover have "sim_ok (SET_CREG n v s)" if "n < 16" for n and v :: uint16
    using sim_ok_pends [OF pends_SET_CREG_any [of 3 s s]] that assms by simp
  moreover have "sim_ok (SET_ACC n v s)" if "n < 2" for n v
    using sim_ok_pends [OF pends_SET_ACC [of 1 s s]] that assms by simp
  moreover have "sim_ok (SW a v s)" for a and v :: uint16
    using quiet_sim_ok [of s "SW a v s"] assms by simp
  ultimately show ?thesis
    using assms(2) by (auto simp: sim_store_register_def Let_def intro!: SLOT_FLUSH_ok)
qed

section \<open>Reachable states\<close>

text \<open>
  The steps are what the debugger may do with a simulator that is running, in any order, with the main
  loop taken apart into its iterations, so that a call of \<open>sim_stop\<close> by a signal handler may
  come between any two of them.
\<close>

definition resume_start :: "bool \<Rightarrow> sim \<Rightarrow> sim" where
  "resume_start step s = (if step then sim_stop (s\<lparr>exception := 0\<rparr>) else s\<lparr>exception := 0\<rparr>)"

definition resume_finish :: "bool \<Rightarrow> sim \<Rightarrow> sim" where
  "resume_finish step s =
     (if status s = Running \<and> step \<and> exception s = 0 then s\<lparr>exception := SIGTRAP\<rparr> else s)"

inductive dbg_step :: "sim \<Rightarrow> sim \<Rightarrow> bool" where
  start: "status s = Running \<Longrightarrow> dbg_step s (resume_start step s)"
| iterate: "status s = Running \<Longrightarrow> dbg_step s (resume_step host s)"
| finish: "dbg_step s (resume_finish step s)"
| stop: "status s = Running \<Longrightarrow> dbg_step s (sim_stop s)"
| reason: "status s = Running \<Longrightarrow> dbg_step s (snd (snd (sim_stop_reason s)))"
| store: "status s = Running \<Longrightarrow> rn < 37 \<Longrightarrow> dbg_step s (sim_store_register rn p buf s)"
| transfer: "status s = Running \<Longrightarrow> dbg_step s (snd (snd (xfer_mem a b n w s)))"
| create: "status s = Running \<Longrightarrow> dbg_step s (sim_create_inferior start argv s)"

inductive_cases dbg_stepE: "dbg_step s t"

inductive reachable :: "sim \<Rightarrow> bool" where
  opened: "reachable (sim_open (boot c))"
| step: "reachable s \<Longrightarrow> dbg_step s t \<Longrightarrow> reachable t"

definition inv :: "sim \<Rightarrow> bool" where
  "inv s \<longleftrightarrow> sim_ok s \<and> (status s = Running \<longrightarrow> slot s = [])"

lemma inv_open: "inv (sim_open (boot c))"
proof -
  have "sim_ok (boot c)"
    by (auto simp: boot_def sim_ok_def wf_sim_def arch_ok_def less_Suc_eq numeral_2_eq_2)
  moreover have "\<not> imem (boot c)" "length (OP (boot c)) = 4" "status (boot c) = Running"
    by (simp_all add: boot_def)
  ultimately show ?thesis
    using create_inferior_ok [of _ None None]
    by (auto simp: inv_def sim_open_def sim_size_def Let_def)
qed

lemma inv_step: "dbg_step s t \<Longrightarrow> inv s \<Longrightarrow> inv t"
proof (induction rule: dbg_step.induct)
  case (iterate s host)
  then show ?case using resume_step_ok [of s host] by (auto simp: inv_def)
next
  case (store s rn p buf)
  then show ?case by (auto simp: inv_def store_register_ok) (simp add: sim_store_register_def)
next
  case (transfer s a b n w)
  then show ?case
    using xfer_mem_quiet [of s a b n w] quiet_sim_ok [OF xfer_mem_quiet, of s a b n w]
    by (auto simp: inv_def quiet_def)
next
  case (create s start argv)
  then show ?case
    using create_inferior_ok [of s start argv] by (auto simp: inv_def sim_ok_def wf_sim_def)
qed (auto simp: inv_def resume_start_def resume_finish_def sim_stop_def sim_stop_reason_def Let_def)

lemma reachable_inv: "reachable s \<Longrightarrow> inv s"
  by (induction rule: reachable.induct) (auto intro: inv_open inv_step)

lemma status_open: "status (sim_open (boot True)) = Running"
  by (simp add: sim_open_def boot_def sim_size_def sim_create_inferior_def reset_def Let_def slot_simp)

section \<open>When \<open>sim_resume\<close> returns\<close>

primrec iterate :: "(nat \<Rightarrow> host) \<Rightarrow> nat \<Rightarrow> nat \<Rightarrow> sim \<Rightarrow> sim" where
  "iterate hosts n 0 s = s"
| "iterate hosts n (Suc k) s = iterate hosts (n + 1) k (resume_step (hosts n) s)"

lemma resume_loop_Some:
  assumes "resume_loop hosts n s = Some t"
  shows "\<exists>k. t = iterate hosts n (Suc k) s \<and> \<not> running t
       \<and> (\<forall>j < k. running (iterate hosts n (Suc j) s))"
proof (rule resume_loop.raw_induct [OF _ assms], goal_cases)
  case (1 rl hosts n s t)
  show ?case
  proof (cases "running (resume_step (hosts n) s)")
    case True
    with 1(2) have "rl hosts (n + 1) (resume_step (hosts n) s) = Some t" by (simp add: Let_def)
    then obtain k where k: "t = iterate hosts (n + 1) (Suc k) (resume_step (hosts n) s)" "\<not> running t"
        "\<forall>j < k. running (iterate hosts (n + 1) (Suc j) (resume_step (hosts n) s))"
      using 1(1) by blast
    then have "\<forall>j < Suc k. running (iterate hosts n (Suc j) s)"
      using True by (auto simp: less_Suc_eq_0_disj)
    then show ?thesis using k by (intro exI [of _ "Suc k"]) simp
  next
    case False
    with 1(2) show ?thesis by (intro exI [of _ 0]) (simp add: Let_def)
  qed
qed

lemma resume_loop_returns:
  "\<not> running (iterate hosts n (Suc k) s) \<Longrightarrow> \<exists>t. resume_loop hosts n s = Some t"
proof (induction k arbitrary: n s)
  case 0
  then show ?case by (subst resume_loop.simps) (simp add: Let_def)
next
  case (Suc k)
  then show ?case
    by (subst resume_loop.simps) (auto simp: Let_def)
qed


lemma resume_loop_iff:
  "resume_loop hosts n s = Some t \<longleftrightarrow>
     (\<exists>k. t = iterate hosts n (Suc k) s \<and> \<not> running t
          \<and> (\<forall>j < k. running (iterate hosts n (Suc j) s)))"
  (is "_ \<longleftrightarrow> (\<exists>k. ?first t k)")
proof
  assume "\<exists>k. ?first t k"
  then obtain k where k: "?first t k" ..
  then obtain u where u: "resume_loop hosts n s = Some u" using resume_loop_returns by blast
  with resume_loop_Some obtain k' where k': "?first u k'" by blast
  have "k = k'" using k k' by (metis nat_neq_iff)
  with k k' u show "resume_loop hosts n s = Some t" by simp
qed (rule resume_loop_Some)

text \<open>No instruction touches the stop flag, so a single step runs the loop body once.\<close>

definition stop_is :: "bool \<Rightarrow> sim \<Rightarrow> bool" where
  "stop_is b s \<longleftrightarrow> sim_ok s \<and> stop_simulator s = b"

lemma stop_is_simps [simp]:
  "stop_is b (s\<lparr>status := st\<rparr>) = stop_is b s" "stop_is b (count_inc t s) = stop_is b s"
  "stop_is b (s\<lparr>exception := e\<rparr>) = stop_is b s" "stop_is b (s\<lparr>pc_changed := p\<rparr>) = stop_is b s"
  by (simp_all add: stop_is_def)

lemma stop_is_issue: "decodes i ins \<Longrightarrow> stop_is b s \<Longrightarrow> stop_is b (issue host i ins t s)"
  using issue_contract [of i ins s t host] issue_sim_ok [of i ins s host t] sim_ok_OP [of s]
  by (simp add: stop_is_def issue_ok_def frame_def)

lemma stop_is_with_op:
  "stop_is b s \<Longrightarrow> (\<And>i. l = Found i \<Longrightarrow> stop_is b (f i s)) \<Longrightarrow> stop_is b (with_op l f s)"
  by (auto simp: with_op_def split: lookup.split)

lemma stop_is_SLOT_FLUSH: "stop_is b s \<Longrightarrow> stop_is b (SLOT_FLUSH s)"
  by (simp add: stop_is_def SLOT_FLUSH_ok)

lemma stop_is_do_cond:
  assumes "stop_is b s" and "decodes i1 (ucast ins1)" and "\<And>i2. l2 = Found i2 \<Longrightarrow> decodes i2 (ucast ins2)"
  shows "stop_is b (do_cond host i1 ins1 test l2 ins2 exec s)"
  using assms by (auto simp: do_cond_def Let_def intro!: stop_is_with_op stop_is_issue)

lemma stop_is_lookup:
  assumes "stop_is b s"
  shows "stop_is b (with_op (lookup_hash ins sz) (\<lambda>i. issue host i ins t) s)"
    "stop_is b (with_op (lookup_hash ins sz) (\<lambda>i s. issue host i ins t (count_inc c s)) s)"
  using assms by (auto intro!: stop_is_with_op intro: stop_is_issue lookup_hash_decodes)

lemma stop_is_do_2_short: "stop_is b s \<Longrightarrow> stop_is b (do_2_short host ins1 ins2 lf s)"
  by (simp add: do_2_short_def Let_def stop_is_lookup stop_is_SLOT_FLUSH)

lemma stop_is_do_parallel:
  assumes "stop_is b s"
  shows "stop_is b (do_parallel host ins1 ins2 s)"
proof -
  let ?s = "count_inc INS_PARALLEL s"
  have both: "stop_is b (let u = issue host i1 (ucast ins1) INS_LEFT_PARALLEL ?s
                   in if status u = Running \<and> exception u = 0
                      then issue host i2 (ucast ins2) INS_RIGHT_PARALLEL u else u)"
    if "decodes i1 (ucast ins1)" and "decodes i2 (ucast ins2)" for i1 i2
    using assms that by (simp add: Let_def stop_is_issue)
  show ?thesis
    using assms
    by (auto simp: do_parallel_def Let_def [of ?s] Let_def [of "lookup_hash _ _"]
        intro!: stop_is_with_op stop_is_do_cond both lookup_hash_decodes)
qed

lemma stop_is_dispatch: "stop_is b s \<Longrightarrow> stop_is b (dispatch host inst s)"
  by (simp add: dispatch_def Let_def do_long_def stop_is_lookup stop_is_do_2_short stop_is_do_parallel)

lemma stop_resume_step:
  assumes "sim_ok s" and "slot s = []"
  shows "stop_simulator (resume_step host s) = stop_simulator s"
proof -
  have "stop_is (stop_simulator s) (dispatch host inst (count_inc INS_CYCLES (s\<lparr>pc_changed := False\<rparr>)))"
    for inst
    using assms by (intro stop_is_dispatch) (simp add: stop_is_def)
  moreover have "stop_simulator (breakpoint (next_pc t)) = stop_simulator t" for t
    using frame_trans [OF next_pc_pends(2) breakpoint_pends(2)] by (simp add: frame_def)
  ultimately show ?thesis
    by (auto simp: resume_step_def stop_is_def Let_def split: sum.split option.split)
qed

lemma resume_loop_stop:
  assumes "sim_ok s" and "slot s = []" and "stop_simulator s"
  shows "resume_loop hosts n s = Some (resume_step (hosts n) s)"
  using stop_resume_step [OF assms(1,2), of "hosts n"] assms(3)
  by (subst resume_loop.simps) (simp add: running_def Let_def)

end
