(* ===== verification/Ctl_Correct.thy ===== *)
theory Ctl_Correct
  imports Mem_Correct Interp_Inv
begin

text \<open>
  Correctness of control flow: exceptions and their returns with the switch of the stack pointer,
  the hardware loop, calls, and the convention of system calls.
\<close>

section \<open>Writing the processor status word\<close>

definition put_psw :: "uint16 \<Rightarrow> arch \<Rightarrow> arch" where
  "put_psw v a =
     (let v = v AND PSW_MASK; old = flag PSW_SM_BIT a; new = (v AND PSW_SM_BIT \<noteq> 0);
          a' = put_sp (of_bool old) (a_regs a ! 15) a
      in put_creg 0 v (if old = new then a' else put_reg 15 (a_sp a ! of_bool new) a'))"

lemma commit_SET_PSW:
  assumes "a_regs (commit t) ! 15 = regs t ! 15" and "a_sp (commit t) = sp t" and "a_cregs (commit t) ! 0 = cregs t ! 0"
  shows "commit (SET_CREG 0 v t) = put_psw (ucast v) (commit t)"
proof -
  define v' where "v' = ucast v AND PSW_MASK"
  define new where "new = (v' AND PSW_SM_BIT \<noteq> 0)"
  have f: "flag PSW_SM_BIT (commit t) = PSW_SM t" using assms(3) by (simp add: flag_def PSW_bit_def PSW_def)
  have "commit (SET_CREG 0 v t) = view (fold flush_slot ([Slot_2 (Sp (of_bool (PSW_SM t))) 0 (regs t ! SP_IDX)]
          @ (if PSW_SM t = new then [] else [Slot_2 (Regs SP_IDX) 0 (sp t ! of_bool new)])
          @ (if cregs t ! PSW_CR = v' then [] else [Slot_2 (Cregs PSW_CR) 0 v'])) (SLOT_FLUSH t))"
    by (rule commit_append) (simp_all add: SET_CREG_psw_eq Let_def view_def v'_def new_def)
  also have "\<dots> = put_creg 0 v' (if PSW_SM t = new then put_sp (of_bool (PSW_SM t)) (regs t ! 15) (commit t)
      else put_reg 15 (sp t ! of_bool new) (put_sp (of_bool (PSW_SM t)) (regs t ! 15) (commit t)))"
  proof -
    have "put_creg 0 v' b = b" if "cregs t ! 0 = v'" "a_cregs b ! 0 = cregs t ! 0" for b
      using that by (simp add: put_creg_def) (metis arch.surjective arch.update_convs(2) list_update_id)
    then show ?thesis
      using assms(3) by (auto simp: view_flush_slot commit_def SP_IDX_def simp del: flush_slot.simps)
  qed
  finally show ?thesis
    using assms by (simp add: put_psw_def Let_def f v'_def [symmetric] new_def [symmetric])
qed

lemma put_psw_fields:
  "a_acc (put_psw v a) = a_acc a" "a_cregs (put_psw v a) = (a_cregs a)[0 := v AND PSW_MASK]"
  by (simp_all add: put_psw_def Let_def)

lemma commit_JMP:
  assumes "a_cregs (commit t) ! 2 = cregs t ! 2"
  shows "commit (JMP v t) = put_creg 2 (ucast v) (commit t)"
  using assms by (simp add: JMP_def commit_SET_CREG cr_val_def)

text \<open>
  An entry that saves \<open>PSW\<close> and the return address in two control registers \<open>p\<close> and \<open>q\<close> and loads \<open>v\<close> into \<open>PSW\<close>,
  and the return from it.
\<close>

definition enter :: "nat \<Rightarrow> nat \<Rightarrow> uint16 \<Rightarrow> uint16 \<Rightarrow> arch \<Rightarrow> arch" where
  "enter p q v vec a = put_creg 2 vec (put_psw v (put_creg p (a_cregs a ! 0) (put_creg q (a_cregs a ! 2 + 1) a)))"

definition leave :: "nat \<Rightarrow> nat \<Rightarrow> arch \<Rightarrow> arch" where
  "leave p q a = put_creg 2 (a_cregs a ! q) (put_psw (a_cregs a ! p) a)"

lemma and_mask_id: "x AND NOT m = 0 \<Longrightarrow> x AND m = x" for x m :: "'a::len word"
  by (rule bit_word_eqI) (auto simp: and_zero_iff bit_simps)

lemma leave_enter:
  assumes "length (a_cregs a) = 16" "length (a_regs a) = 16" "length (a_sp a) = 2"
    and "a_cregs a ! 0 AND NOT PSW_MASK = 0" and "p \<in> {1, 4}" and "q \<in> {3, 5}"
    and b_def: "b = leave p q (enter p q v vec a)"
  shows "a_regs b = a_regs a" "a_acc b = a_acc a" "a_cregs b ! 0 = a_cregs a ! 0" "a_cregs b ! 2 = a_cregs a ! 2 + 1"
proof -
  define s where "s = (flag PSW_SM_BIT a)"
  define n where "n = ((v AND PSW_MASK) AND PSW_SM_BIT \<noteq> 0)"
  have m: "a_cregs a ! 0 AND PSW_MASK = a_cregs a ! 0"
    using assms(4) by (rule and_mask_id)
  have s': "((a_cregs a ! 0) AND PSW_SM_BIT \<noteq> 0) = s" by (simp add: s_def flag_def)
  have ne: "p \<noteq> 0" "p \<noteq> 2" "q \<noteq> 0" "q \<noteq> 2" "p \<noteq> q" "p < 16" "q < 16" using assms(5,6) by auto
  define e where "e = enter p q v vec a"
  have e: "a_cregs e ! p = a_cregs a ! 0" "a_cregs e ! q = a_cregs a ! 2 + 1" "a_cregs e ! 0 = v AND PSW_MASK"
      "length (a_cregs e) = 16" "a_acc e = a_acc a" "length (a_sp e) = 2"
    using assms(1,3) ne by (simp_all add: e_def enter_def put_psw_fields put_psw_def Let_def m)
  have sp: "a_regs e = (if s = n then a_regs a else (a_regs a)[15 := a_sp a ! of_bool n])"
      "a_sp e = (a_sp a)[of_bool s := a_regs a ! 15]"
    using ne by (simp_all add: e_def enter_def put_psw_def Let_def s_def n_def flag_def)
  have f: "flag PSW_SM_BIT e = n" using e(3) by (simp add: flag_def n_def)
  have b: "b = leave p q e" by (simp add: b_def e_def)
  show "a_acc b = a_acc a" "a_cregs b ! 0 = a_cregs a ! 0" "a_cregs b ! 2 = a_cregs a ! 2 + 1"
    using e m by (simp_all add: b leave_def put_psw_fields)
  have "a_regs b = (if n = s then a_regs e else (a_regs e)[15 := a_sp e ! of_bool s])"
    using e m s' by (simp add: b leave_def put_psw_def Let_def f)
  then show "a_regs b = a_regs a"
    using assms(2,3) by (cases s; cases n) (simp_all add: sp)
qed

lemma psw_clear: "sim_ok s \<Longrightarrow> cregs s ! 0 AND NOT PSW_MASK = 0"
proof -
  assume "sim_ok s"
  then have "cr_ok 0 (cregs s ! 0)" by (simp add: sim_ok_def arch_ok_def)
  then show ?thesis by (simp add: cr_ok.simps)
qed

lemmas psw_masked = and_mask_id [OF psw_clear]

lemma commit_trap:
  assumes "sim_ok s" and "slot s = []" and "OP s ! 0 \<noteq> 15"
  shows "commit (OP_5F00 host s) = enter 1 3 (PSW s AND PSW_SM_BIT) (OP s ! 0 + 0xffc4) (view s)"
proof -
  have "wf_sim s" using assms(1) by (simp add: sim_ok_def)
  then show ?thesis
    using assms(2,3) psw_masked [OF assms(1)]
    by (simp add: OP_5F00_def trap_vector_def Let_def commit_JMP commit_SET_PSW commit_SET_CREG commit_idle
        cr_val_def enter_def put_psw_fields PSW_def CREG_def opv_def ucast_down wf_sim_def)
qed

lemma commit_dbt:
  assumes "sim_ok s" and "slot s = []" and "ins_type s \<in> {INS_LEFT, INS_RIGHT}"
  shows "commit (OP_5F20 s) = enter 4 5
    (PSW_DM_BIT OR (PSW s AND (PSW_F0_BIT OR PSW_F1_BIT OR PSW_C_BIT))) 0xffd4 (view s)"
proof -
  have "wf_sim s" using assms(1) by (simp add: sim_ok_def)
  then show ?thesis
    using assms(2,3) psw_masked [OF assms(1)]
    by (auto simp: OP_5F20_def Let_def commit_JMP commit_SET_PSW commit_SET_CREG commit_idle
        cr_val_def enter_def put_psw_fields PSW_def CREG_def ucast_down wf_sim_def)
qed

lemma commit_return:
  assumes "wf_sim s" and "slot s = []"
  shows "commit (OP_5F40 s) = leave 1 3 (view s)" "commit (OP_5F60 s) = leave 4 5 (view s)"
  using assms
  by (simp_all add: OP_5F40_def OP_5F60_def Let_def commit_JMP commit_SET_PSW commit_idle leave_def put_psw_fields CREG_def wf_sim_def)

lemma wf_JMP [simp]: "wf_sim (JMP v t) = wf_sim t"
proof -
  have "wf_sim (u\<lparr>pc_changed := p\<rparr>) = wf_sim u" for u p by (simp add: wf_sim_def)
  then show ?thesis by (simp add: JMP_def)
qed

text \<open>
  C15. Exceptions return to where they came from. A \<open>trap\<close> to a vector followed by \<open>rte\<close>, and a \<open>dbt\<close> followed by
  \<open>rtd\<close>, restore the processor status word, all general registers and the accumulators and continue at the next
  instruction, also when the entry switches from the user to the system stack pointer.
\<close>

theorem exception_return:
  assumes "sim_ok s" and "slot s = []"
    and "t = SLOT_FLUSH (OP_5F00 host s) \<and> OP s ! 0 \<noteq> 15 \<and> a = commit (OP_5F40 t)
       \<or> t = SLOT_FLUSH (OP_5F20 s) \<and> ins_type s \<in> {INS_LEFT, INS_RIGHT} \<and> a = commit (OP_5F60 t)"
  shows "a_regs a = regs s \<and> a_acc a = acc s \<and> a_cregs a ! 0 = PSW s \<and> a_cregs a ! 2 = cregs s ! 2 + 1"
proof -
  have w: "wf_sim s" and len: "length (cregs s) = 16" "length (regs s) = 16" "length (sp s) = 2"
    using assms(1) by (simp_all add: sim_ok_def wf_sim_def)
  have le: "a_regs b = regs s \<and> a_acc b = acc s \<and> a_cregs b ! 0 = PSW s \<and> a_cregs b ! 2 = cregs s ! 2 + 1"
    if "b = leave p q (enter p q v vec (view s))" "p \<in> {1, 4}" "q \<in> {3, 5}" for b p q v vec
    using leave_enter [of "view s" p q b v vec] that len psw_clear [OF assms(1)] by (simp add: PSW_def)
  have slots: "slot t = []" using assms(3) by auto
  from assms(3) show ?thesis
  proof
    assume *: "t = SLOT_FLUSH (OP_5F00 host s) \<and> OP s ! 0 \<noteq> 15 \<and> a = commit (OP_5F40 t)"
    then have "wf_sim t" using w by (simp add: wf_SLOT_FLUSH OP_5F00_def trap_vector_def Let_def)
    moreover have "view t = enter 1 3 (PSW s AND PSW_SM_BIT) (OP s ! 0 + 0xffc4) (view s)"
      using * commit_trap [OF assms(1,2)] by (simp add: commit_def)
    ultimately have "a = leave 1 3 (enter 1 3 (PSW s AND PSW_SM_BIT) (OP s ! 0 + 0xffc4) (view s))"
      using * slots by (simp add: commit_return)
    then show ?thesis by (rule le) simp_all
  next
    assume *: "t = SLOT_FLUSH (OP_5F20 s) \<and> ins_type s \<in> {INS_LEFT, INS_RIGHT} \<and> a = commit (OP_5F60 t)"
    then have "wf_sim t" using w by (auto simp: wf_SLOT_FLUSH OP_5F20_def Let_def)
    moreover have "view t = enter 4 5 (PSW_DM_BIT OR (PSW s AND (PSW_F0_BIT OR PSW_F1_BIT OR PSW_C_BIT))) 0xffd4 (view s)"
      using * commit_dbt [OF assms(1,2)] by (simp add: commit_def)
    ultimately have "a = leave 4 5 (enter 4 5 (PSW_DM_BIT OR (PSW s AND (PSW_F0_BIT OR PSW_F1_BIT OR PSW_C_BIT))) 0xffd4 (view s))"
      using * slots by (simp add: commit_return)
    then show ?thesis by (rule le) simp_all
  qed
qed

lemma machine_ok: "sim_ok (machine (replicate 16 v) [a, b, c, d])"
  by (simp add: sim_ok_def arch_ok_def cr_ok.simps)

theorem exception_return_witness:
  "\<forall>host. a_regs (commit (OP_5F40 (SLOT_FLUSH (OP_5F00 host (machine (replicate 16 7) [3, 0, 0, 0]))))) = replicate 16 7"
proof
  fix host
  let ?s = "machine (replicate 16 7) [3, 0, 0, 0]"
  have "OP ?s ! 0 \<noteq> 15" by simp
  then have "a_regs (commit (OP_5F40 (SLOT_FLUSH (OP_5F00 host ?s)))) = regs ?s"
    using exception_return [OF machine_ok machine_fields(3), of "SLOT_FLUSH (OP_5F00 host ?s)" host 7 3 0 0 0] by blast
  then show "a_regs (commit (OP_5F40 (SLOT_FLUSH (OP_5F00 host ?s)))) = replicate 16 7" by (simp only: machine_fields)
qed

section \<open>Calls\<close>

text \<open>
  The branch-and-link instructions leave the address of the next instruction in \<open>r13\<close> and jump; \<open>jmp r13\<close>
  then returns there. The short form reaches 128 instructions in either direction, the long form all of memory,
  modulo \<open>2^16\<close>.
\<close>

theorem call_return:
  assumes "wf_sim s" and "slot s = []" and "t = SLOT_FLUSH (OP_4900 s) \<or> t = SLOT_FLUSH (OP_24800000 s)"
  shows "a_cregs (commit (OP_4C00 (t\<lparr>OP := (OP t)[0 := 13]\<rparr>))) ! 2 = cregs s ! 2 + 1
    \<and> cregs (SLOT_FLUSH (OP_4900 s)) ! 2 = cregs s ! 2 + word_of_int (signed_take_bit 7 (uint (OP s ! 0)))
    \<and> cregs (SLOT_FLUSH (OP_24800000 s)) ! 2 = cregs s ! 2 + OP s ! 0"
proof -
  have len: "length (cregs s) = 16" "length (regs s) = 16" "length (OP s) = 4" using assms(1) by (simp_all add: wf_sim_def)
  have se: "(ucast (SEXT8 (opv s 0)) :: uint16) = word_of_int (signed_take_bit 7 (uint (OP s ! 0)))"
    unfolding SEXT8_eq opv_def by (rule bit_word_eqI) (auto simp: bit_simps min_def)
  have c: "commit (OP_4900 s) = put_creg 2 (cregs s ! 2 + word_of_int (signed_take_bit 7 (uint (OP s ! 0))))
      (put_reg 13 (cregs s ! 2 + 1) (view s))"
    "commit (OP_24800000 s) = put_creg 2 (cregs s ! 2 + OP s ! 0) (put_reg 13 (cregs s ! 2 + 1) (view s))"
    using assms(2) se by (simp_all add: OP_4900_def OP_24800000_def Let_def commit_JMP commit_idle CREG_def opv_def ucast_down)
  have r: "regs t ! 13 = cregs s ! 2 + 1"
  proof -
    have "regs (SLOT_FLUSH x) = a_regs (commit x)" for x by (simp add: commit_def)
    then have "regs t = (regs s)[13 := cregs s ! 2 + 1]" using assms(3) c by auto
    then show ?thesis using len by simp
  qed
  have o: "OP t = OP s" "slot t = []" "length (cregs t) = 16"
    using assms(3) len by (auto simp: OP_4900_def OP_24800000_def Let_def JMP_def)
  have "commit (OP_4C00 (t\<lparr>OP := (OP t)[0 := 13]\<rparr>)) = put_creg 2 (cregs s ! 2 + 1) (view t)"
    using r o len by (simp add: OP_4C00_def commit_JMP opn_def GPR_def commit_idle)
  moreover have "cregs (SLOT_FLUSH (OP_4900 s)) ! 2 = cregs s ! 2 + word_of_int (signed_take_bit 7 (uint (OP s ! 0)))"
    using arg_cong [OF c(1), of a_cregs] len by (simp add: commit_def)
  moreover have "cregs (SLOT_FLUSH (OP_24800000 s)) ! 2 = cregs s ! 2 + OP s ! 0"
    using arg_cong [OF c(2), of a_cregs] len by (simp add: commit_def)
  ultimately show ?thesis using o by simp
qed

theorem call_return_witness:
  "cregs (SLOT_FLUSH (OP_4900 (machine (replicate 16 0) [0xFE, 0, 0, 0]))) ! 2 = 0xFFFE"
  using call_return [OF _ _ disjI1 [OF refl], of "machine (replicate 16 0) [0xFE, 0, 0, 0]"] by simp

section \<open>The hardware loop\<close>

text \<open>One execution of a repeat block: control has reached its last instruction, which does not branch.\<close>

definition at_block_end :: "sim \<Rightarrow> sim" where
  "at_block_end s = s\<lparr>cregs := (cregs s)[PC_CR := cregs s ! RPT_E_CR], pc_changed := False\<rparr>"

definition block_pass :: "sim \<Rightarrow> sim" where
  "block_pass s = SLOT_FLUSH (next_pc (at_block_end s))"

lemma commit_next_pc_end:
  assumes "wf_sim s" and "slot s = []" and "PSW_RP s"
  defines "u \<equiv> at_block_end s"
  shows "commit (next_pc u) =
     (if cregs s ! 7 = 1
      then put_creg 2 (cregs s ! 9 + 1) (put_creg 7 0 (put_flag PSW_RP_BIT False (view u)))
      else put_creg 2 (cregs s ! 8) (put_creg 7 (cregs s ! 7 - 1) (view u)))"
proof -
  have len: "length (cregs s) = 16" using assms(1) by (simp add: wf_sim_def)
  have u: "\<not> pc_changed u" "PSW_RP u" "slot u = []" "cregs u ! 2 = cregs s ! 9" "cregs u ! 7 = cregs s ! 7"
    "cregs u ! 8 = cregs s ! 8" "cregs u ! 9 = cregs s ! 9" "cregs u \<noteq> []"
    using assms(2,3) len by (auto simp: u_def at_block_end_def PSW_bit_def PSW_def)
  have one: "(ucast (x :: uint16) = (1 :: int32)) = (x = 1)" for x
    using ucast_16_32_inject [of x 1] by simp
  show ?thesis
    using u by (simp add: next_pc_def Let_def commit_SET_CREG commit_SET_PSW_BIT commit_idle CREG_def cr_val_def one
        put_flag_def ucast_down)
qed

lemma block_pass_step:
  assumes "wf_sim s" and "slot s = []" and "PSW_RP s"
  defines "t \<equiv> block_pass s"
  shows "wf_sim t" "slot t = []" "cregs t ! 8 = cregs s ! 8" "cregs t ! 9 = cregs s ! 9"
    "cregs t ! 7 = cregs s ! 7 - 1" "PSW_RP t \<longleftrightarrow> cregs s ! 7 \<noteq> 1"
    "cregs t ! 2 = (if cregs s ! 7 = 1 then cregs s ! 9 + 1 else cregs s ! 8)"
proof -
  have len: "length (cregs s) = 16" using assms(1) by (simp add: wf_sim_def)
  have c: "cregs t = a_cregs (commit (next_pc (at_block_end s)))"
    by (simp add: t_def block_pass_def commit_def)
  show "slot t = []" by (simp add: t_def block_pass_def)
  show "wf_sim t"
  proof -
    have "wf_sim (at_block_end s)" using assms(1) by (simp add: at_block_end_def wf_sim_def)
    then show ?thesis
      by (simp add: t_def block_pass_def wf_SLOT_FLUSH next_pc_def Let_def)
  qed
  have v: "a_cregs (view (at_block_end s)) = (cregs s)[2 := cregs s ! 9]" by (simp add: at_block_end_def)
  show "cregs t ! 8 = cregs s ! 8" "cregs t ! 9 = cregs s ! 9" "cregs t ! 7 = cregs s ! 7 - 1"
    "cregs t ! 2 = (if cregs s ! 7 = 1 then cregs s ! 9 + 1 else cregs s ! 8)"
    using len by (simp_all add: c commit_next_pc_end [OF assms(1-3)] v put_flag_def del: view_fields)
  have "PSW_RP t = flag PSW_RP_BIT (commit (next_pc (at_block_end s)))"
    by (simp add: flag_def c PSW_bit_def PSW_def)
  also have "\<dots> \<longleftrightarrow> cregs s ! 7 \<noteq> 1"
  proof -
    have "flag PSW_RP_BIT (view (at_block_end s))"
      using assms(3) len by (simp add: at_block_end_def PSW_bit_def PSW_def)
    moreover have "a_cregs (view (at_block_end s)) \<noteq> []" using v len by auto
    ultimately show ?thesis
      by (simp add: commit_next_pc_end [OF assms(1-3)] flag_put_flag del: view_fields)
  qed
  finally show "PSW_RP t \<longleftrightarrow> cregs s ! 7 \<noteq> 1" .
qed

text \<open>
  C16. A repeat block is executed exactly as often as the count register says: while \<open>RP\<close> is set, each time
  control reaches the end of the block the counter goes down by one and control returns to the start, and after the
  last time it falls through to the instruction after the block with \<open>RP\<close> clear and the counter at 0.
\<close>

theorem repeat_count:
  assumes "wf_sim s" and "slot s = []" and "PSW_RP s" and "unat (cregs s ! RPT_C_CR) = n" and "0 < k" and "k \<le> n"
  shows "let t = (block_pass ^^ k) s in unat (cregs t ! RPT_C_CR) = n - k \<and> (PSW_RP t \<longleftrightarrow> k < n)
    \<and> cregs t ! PC_CR = (if k < n then cregs s ! RPT_S_CR else cregs s ! RPT_E_CR + 1)"
proof -
  have "unat (cregs ((block_pass ^^ k) s) ! 7) = n - k \<and> (PSW_RP ((block_pass ^^ k) s) \<longleftrightarrow> k < n)
      \<and> wf_sim ((block_pass ^^ k) s) \<and> slot ((block_pass ^^ k) s) = []
      \<and> cregs ((block_pass ^^ k) s) ! 8 = cregs s ! 8 \<and> cregs ((block_pass ^^ k) s) ! 9 = cregs s ! 9
      \<and> (0 < k \<longrightarrow> cregs ((block_pass ^^ k) s) ! 2 = (if k < n then cregs s ! 8 else cregs s ! 9 + 1))"
    if "k \<le> n" for k
    using that
  proof (induction k)
    case 0
    then show ?case using assms by simp
  next
    case (Suc k)
    define t where "t = (block_pass ^^ k) s"
    have t: "wf_sim t" "slot t = []" "PSW_RP t" "unat (cregs t ! 7) = n - k" "cregs t ! 8 = cregs s ! 8" "cregs t ! 9 = cregs s ! 9"
      using Suc by (simp_all add: t_def)
    have one: "cregs t ! 7 = 1 \<longleftrightarrow> Suc k = n"
      using t(4) Suc.prems by (auto simp: word_unat_eq_iff)
    have "unat (cregs t ! 7 - 1) = n - Suc k"
      using t(4) Suc.prems by (subst unat_sub) (auto simp: word_le_nat_alt)
    then show ?case
      using block_pass_step [OF t(1-3)] t(5,6) one Suc.prems by (auto simp: t_def [symmetric])
  qed
  from this [OF assms(6)] show ?thesis using assms(5) by (simp add: Let_def)
qed

theorem repeat_count_witness:
  "let s = (machine (replicate 16 0) [0, 0, 0, 0])\<lparr>cregs := [0x200, 0, 5, 0, 0, 0, 0, 3, 4, 9, 0, 0, 0, 0, 0, 0]\<rparr>
   in cregs ((block_pass ^^ 3) s) ! PC_CR = 10"
proof -
  let ?s = "(machine (replicate 16 0) [0, 0, 0, 0])\<lparr>cregs := [0x200, 0, 5, 0, 0, 0, 0, 3, 4, 9, 0, 0, 0, 0, 0, 0]\<rparr>"
  have "wf_sim ?s" by (simp add: machine_def boot_def wf_sim_def)
  then show ?thesis using repeat_count [of ?s 3 3] by (simp add: PSW_bit_def PSW_def Let_def)
qed

section \<open>System calls\<close>

lemma setter_exception: "exception (SET_GPR n v t) = exception t"
  by (simp add: setter_defs)

text \<open>
  The convention of trap 15: after a system call that returns, \<open>r4\<close> holds the error number of the host if the
  low half of the result is \<open>0xffff\<close> and 0 otherwise; \<open>exit\<close> stops the simulator, and the debugger is told the exit
  status that the program left in \<open>r0\<close>.
\<close>

theorem syscall_convention:
  assumes "wf_sim s" and "OP s ! 0 = 15" and "syscall host s = (result, t)" and "status t = Running"
  shows "a_regs (commit (OP_5F00 host s)) ! 4 =
      (if (ucast result :: uint16) = 0xffff then ucast (host_errno host t) else 0)
    \<and> (regs s ! 4 = 1 \<and> slot s = [] \<longrightarrow>
         (let r = sim_stop_reason (SLOT_FLUSH (OP_5F00 host s))
          in fst r = sim_exited \<and> fst (snd r) = uint (regs s ! 0)))"
proof -
  have m1: "(ucast (- 1 :: int32) :: uint16) = 0xffff" by (simp add: ucast_down)
  have op: "OP_5F00 host s = RETERR (if (ucast result :: uint16) = 0xffff then host_errno host t else 0) t"
    using assms(2-4) by (simp add: OP_5F00_def m1)
  have t: "regs t = regs s"
    using syscall_ok [of s host] assms(3) by (simp add: frame_def)
  have "length (a_regs (commit t)) = 16"
    using assms(1) by (simp add: commit_def t wf_sim_def)
  then have r4: "a_regs (commit (OP_5F00 host s)) ! 4 =
      (if (ucast result :: uint16) = 0xffff then ucast (host_errno host t) else 0)"
    by (simp add: op RETERR_def)
  have "let r = sim_stop_reason (SLOT_FLUSH (OP_5F00 host s)) in fst r = sim_exited \<and> fst (snd r) = uint (regs s ! 0)"
    if ex: "regs s ! 4 = 1" "slot s = []"
  proof -
    have e: "result = 0" "t = s\<lparr>exception := SIG_D10V_EXIT\<rparr>"
      using assms(3) ex(1) by (simp_all add: syscall_def GPR_def)
    have "regs (SLOT_FLUSH (OP_5F00 host s)) = a_regs (commit (OP_5F00 host s))" by (simp add: commit_def)
    then have "regs (SLOT_FLUSH (OP_5F00 host s)) ! 0 = regs s ! 0"
      using ex(2) by (simp add: op RETERR_def e commit_idle)
    then show ?thesis
      by (simp add: sim_stop_reason_def op e Let_def RETERR_def GPR_def sint_ucast_16_32 setter_exception)
  qed
  with r4 show ?thesis by blast
qed

theorem syscall_convention_witness:
  "\<forall>host. fst (snd (sim_stop_reason (SLOT_FLUSH (OP_5F00 host (machine (9 # replicate 15 1) [15, 0, 0, 0]))))) = 9"
proof
  fix host
  let ?s = "machine (9 # replicate 15 1) [15, 0, 0, 0]"
  have "syscall host ?s = (0, ?s\<lparr>exception := SIG_D10V_EXIT\<rparr>)" by (simp add: syscall_def GPR_def)
  moreover have "status (?s\<lparr>exception := SIG_D10V_EXIT\<rparr>) = Running" by (simp add: machine_def boot_def)
  ultimately show "fst (snd (sim_stop_reason (SLOT_FLUSH (OP_5F00 host ?s)))) = 9"
    using syscall_convention [of ?s host 0 "?s\<lparr>exception := SIG_D10V_EXIT\<rparr>"] by (simp add: Let_def)
qed

section \<open>Registers as the debugger sees them\<close>

lemma map_register_store:
  "a \<in> {0xff00, 0xff02, 0xff04} \<Longrightarrow> SW a w s = s\<lparr>mem := write_word (Dmem (unat a)) (ucast w) (mem s)\<rparr>"
  by (auto simp: SW_def dmem_addr_def)

text \<open>
  The debugger reads back every register it wrote: general registers and map registers unchanged, control
  registers without their reserved bits, accumulators in 40 bits.
\<close>

theorem register_roundtrip:
  assumes "wf_sim s" and "slot s = []" and "rn < 37"
  shows "let b = sim_fetch_register rn q buf' (sim_store_register rn p buf s) in
    if rn > 34 then get_longlong b q = get_longlong buf p AND MASK40
    else get_word b q = (if 16 \<le> rn \<and> rn < 32 then cr_val (rn - 16) (get_word buf p) else get_word buf p)"
proof -
  have len: "length (regs s) = 16" "length (cregs s) = 16" "length (acc s) = 2" using assms(1) by (simp_all add: wf_sim_def)
  have f: "regs (SLOT_FLUSH t) = a_regs (commit t)" "cregs (SLOT_FLUSH t) = a_cregs (commit t)" "acc (SLOT_FLUSH t) = a_acc (commit t)" for t
    by (simp_all add: commit_def)
  consider (acc) "rn > 34" | (dmap) "rn = 34" | (imap1) "rn = 33" | (imap0) "rn = 32" | (cr) "16 \<le> rn" "rn < 32" | (gpr) "rn < 16"
    by linarith
  then show ?thesis
  proof cases
    case acc
    then show ?thesis using assms(2,3) len
      by (simp add: sim_fetch_register_def sim_store_register_def c64.rd_wr ACC_def f commit_idle)
  next
    case dmap
    then show ?thesis using assms(2)
      by (simp add: sim_fetch_register_def sim_store_register_def c16.rd_wr map_register_store DMAP_def)
  next
    case imap1
    then show ?thesis using assms(2)
      by (simp add: sim_fetch_register_def sim_store_register_def c16.rd_wr map_register_store IMAP1_def)
  next
    case imap0
    then show ?thesis using assms(2)
      by (simp add: sim_fetch_register_def sim_store_register_def c16.rd_wr map_register_store IMAP0_def)
  next
    case cr
    then show ?thesis using assms(2,3) len
      by (cases "rn = 16")
         (simp_all add: sim_fetch_register_def sim_store_register_def c16.rd_wr CREG_def f commit_SET_CREG commit_SET_PSW
           put_psw_fields commit_idle cr_val_def)
  next
    case gpr
    then show ?thesis using assms(2,3) len
      by (simp add: sim_fetch_register_def sim_store_register_def c16.rd_wr GPR_def f commit_idle)
  qed
qed

theorem register_roundtrip_witness:
  "get_word (sim_fetch_register 26 (Dmem 0) (\<lambda>_. 0) (sim_store_register 26 (Dmem 0) (\<lambda>_. 0x81) (machine (replicate 16 0) [0, 0, 0, 0]))) (Dmem 0)
    = 0x8180"
  using register_roundtrip [of "machine (replicate 16 0) [0, 0, 0, 0]" 26 "Dmem 0" "\<lambda>_. 0" "Dmem 0" "\<lambda>_. 0x81"]
  by (simp add: cr_val_def get_word_def [of "\<lambda>_. 0x81"] Let_def)

end
