(* ===== verification/Pack_Correct.thy ===== *)
theory Pack_Correct
  imports Asm_Correct Ctl_Correct "HOL-Library.Multiset"
begin

text \<open>
  Correctness of the packing of instructions: the order in which the simulator executes a packed word,
  the program that the bytes of a segment hold while instructions are added to it, and two cases in which
  the assembler goes wrong.
\<close>

section \<open>Words of two instructions\<close>

lemma bit_bounded: "w < 2 ^ k \<Longrightarrow> bit w n \<Longrightarrow> n < k" for w :: uint32
  by (metis bit_and_iff bit_mask_iff less_mask_eq)

lemma unpack_word:
  fixes l r fm :: uint32
  assumes "l < 2 ^ 15" and "r < 2 ^ 15" and "fm AND 0x3FFFFFFF = 0"
  shows "(fm OR push_bit 15 l OR r) AND 0xC0000000 = fm"
    and "(fm OR push_bit 15 l OR r) AND 0x7FFF = r"
    and "drop_bit 15 ((fm OR push_bit 15 l OR r) AND 0x3FFF8000) = l"
proof -
  have m: "(0xC0000000 :: uint32) = NOT (mask 30)" "(0x7FFF :: uint32) = mask 15"
    "(0x3FFF8000 :: uint32) = push_bit 15 (mask 15)" "(0x3FFFFFFF :: uint32) = mask 30"
    by (simp_all add: mask_eq_exp_minus_1 not_eq_complement)
  have fm: "30 \<le> n" if "bit fm n" for n
    using assms(3) [THEN arg_cong, of "\<lambda>w. bit w n"] that unfolding m by (auto simp: bit_simps not_less)
  note b = bit_bounded [OF assms(1)] bit_bounded [OF assms(2)]
  show "(fm OR push_bit 15 l OR r) AND 0xC0000000 = fm"
    unfolding m by (auto intro!: bit_word_eqI simp: bit_simps not_less; fastforce dest: b fm)
  show "(fm OR push_bit 15 l OR r) AND 0x7FFF = r"
    unfolding m by (auto intro!: bit_word_eqI simp: bit_simps not_less; fastforce dest: b fm)
  show "drop_bit 15 ((fm OR push_bit 15 l OR r) AND 0x3FFF8000) = l"
    unfolding m by (auto intro!: bit_word_eqI simp: bit_simps not_less; fastforce dest: b fm)
qed

text \<open>
  C20. The simulator executes two short instructions in the order the assembler was told. Whatever word
  \<open>write_2_short\<close> packs, \<open>dispatch\<close> executes both in parallel when the source says so or when the optimizer found
  the pair independent; it executes the second one first for \<open><-\<close>; and otherwise, in particular when nothing
  was said, the first one first, in whichever container it is.
\<close>

theorem packed_order:
  assumes "insn1 < 2 ^ 15" and "insn2 < 2 ^ 15" and "pack_2_short opt nowarn op1 insn1 op2 insn2 et = Inr (w, swap, m)"
  shows "dispatch host w s =
     (if et = 1 \<or> et = 0 \<and> opt \<and> parallel_ok op1 insn1 op2 insn2 0 then
        (if swap then do_parallel host (ucast insn1) (ucast insn2) s else do_parallel host (ucast insn2) (ucast insn1) s)
      else if et = 3 then do_2_short host (ucast insn2) (ucast insn1) False s
      else do_2_short host (ucast insn1) (ucast insn2) swap s)"
proof -
  have d: "dispatch host (FM00 OR push_bit 15 l OR r) s = do_parallel host (ucast l) (ucast r) s"
    "dispatch host (FM01 OR push_bit 15 l OR r) s = do_2_short host (ucast l) (ucast r) True s"
    "dispatch host (FM10 OR push_bit 15 l OR r) s = do_2_short host (ucast r) (ucast l) False s"
    if "l < 2 ^ 15" "r < 2 ^ 15" for l r
    using unpack_word [OF that, of FM00] unpack_word [OF that, of FM01] unpack_word [OF that, of FM10]
    by (simp_all add: dispatch_def Let_def)
  show ?thesis
    using assms(3) d [OF assms(1,2)] d [OF assms(2,1)] by (auto simp: pack_2_short_def split: if_splits)
qed

theorem packed_order_witness:
  "\<forall>host s. dispatch host 0x4011ce0f s = do_2_short host 0x23 0x4e0f True s"
proof -
  have "pack_2_short False False (opcode_at 158) 0x23 (opcode_at 44) 0x4e0f 0 = Inr (0x4011ce0f, True, [])"
    by (simp add: pack_2_short_def opcode_at_def d10v_opcodes_def d10v_opcode.defs)
  then show ?thesis using packed_order [of "0x23" "0x4e0f" False False "opcode_at 158" "opcode_at 44" 0 "0x4011ce0f" True "[]"]
    by simp
qed

section \<open>The program in the fragments\<close>

text \<open>
  The instructions in the bytes of a segment, in the order in which the simulator executes them; an
  instruction is its code and whether it is long. \<open>nop\<close> fills the containers for which there is no instruction
  and is left out.
\<close>

fun words :: "uint8 list \<Rightarrow> uint32 list" where
  "words (a # b # c # d # bs) = bfd_getb32 [a, b, c, d] # words bs"
| "words bs = []"

definition word_insns :: "uint32 \<Rightarrow> (bool \<times> uint32) list" where
  "word_insns w =
     (let fm = w AND FM11; left = (False, drop_bit 15 (w AND 0x3FFF8000)); right = (False, w AND 0x7FFF)
      in if fm = FM11 then [(True, w AND 0x3FFFFFFF)] else if fm = FM10 then [right, left] else [left, right])"

definition no_nop :: "(bool \<times> uint32) list \<Rightarrow> (bool \<times> uint32) list" where
  "no_nop = filter (\<lambda>x. x \<noteq> (False, NOP))"

definition listing :: "uint8 list \<Rightarrow> (bool \<times> uint32) list" where
  "listing bs = no_nop (concat (map word_insns (words bs)))"

definition held :: "gas \<Rightarrow> subseg \<Rightarrow> (bool \<times> uint32) list" where
  "held g seg = (if prev_opcode g \<noteq> None \<and> prev_seg g = Some seg then no_nop [(False, prev_insn g)] else [])"

definition program :: "gas \<Rightarrow> subseg \<Rightarrow> (bool \<times> uint32) list" where
  "program g seg = listing (frags g seg) @ held g seg"

text \<open>Words start at multiples of four, and an instruction that is held back has a segment and 15 bits.\<close>

definition gas_ok :: "gas \<Rightarrow> bool" where
  "gas_ok g \<longleftrightarrow> (\<forall>seg. 4 dvd length (frags g seg))
     \<and> (prev_opcode g \<noteq> None \<longrightarrow> prev_seg g \<noteq> None \<and> prev_insn g < 2 ^ 15)"

lemma gas_ok_dvd: "gas_ok g \<Longrightarrow> 4 dvd length (frags g seg)"
  by (cases seg) (simp add: gas_ok_def)

lemma no_nop_append [simp]: "no_nop (xs @ ys) = no_nop xs @ no_nop ys"
  by (simp add: no_nop_def)

lemma four_dvd_Suc [simp]: "4 dvd Suc (Suc (Suc (Suc n))) \<longleftrightarrow> 4 dvd n"
  by presburger

lemma words_append: "4 dvd length xs \<Longrightarrow> words (xs @ ys) = words xs @ words ys"
  by (induction xs rule: words.induct) (auto dest: dvd_imp_le)

lemma listing_append:
  "4 dvd length bs \<Longrightarrow> listing (bs @ number_to_chars_bigendian w 4) = listing bs @ no_nop (word_insns w)"
  using get_put_b32 [of w] by (simp add: listing_def words_append number_to_chars_4 bfd_putb32_def)

lemma program_emit:
  assumes "4 dvd length (frags g (now_seg g))"
  shows "listing (frags (emit w which g) seg)
       = listing (frags g seg) @ (if seg = now_seg g then no_nop (word_insns w) else [])"
  using assms by (simp add: emit_def Let_def listing_append)

lemma emit_fields [simp]:
  "prev_opcode (emit w which g) = prev_opcode g" "prev_seg (emit w which g) = prev_seg g"
  "prev_insn (emit w which g) = prev_insn g" "now_seg (emit w which g) = now_seg g" "cur (emit w which g) = cur g"
  "Optimizing (emit w which g) = Optimizing g"
  "4 dvd length (frags (emit w which g) seg) \<longleftrightarrow> 4 dvd length (frags g seg)"
  by (simp_all add: emit_def Let_def number_to_chars_4 bfd_putb32_def)

section \<open>What the writing functions write\<close>

lemma word_insns_short:
  assumes "l < 2 ^ 15" "r < 2 ^ 15"
  shows "word_insns (FM00 OR push_bit 15 l OR r) = [(False, l), (False, r)]"
    and "word_insns (FM01 OR push_bit 15 l OR r) = [(False, l), (False, r)]"
    and "word_insns (FM10 OR push_bit 15 l OR r) = [(False, r), (False, l)]"
  using unpack_word [OF assms, of FM00] unpack_word [OF assms, of FM01] unpack_word [OF assms, of FM10]
  by (simp_all add: word_insns_def Let_def)

lemma word_insns_long:
  fixes insn :: uint32
  assumes "insn < 2 ^ 30"
  shows "word_insns (insn OR FM11) = [(True, insn)]"
proof -
  have m: "(FM11 :: uint32) = NOT (mask 30)" "(0x3FFFFFFF :: uint32) = mask 30"
    by (simp_all add: mask_eq_exp_minus_1 not_eq_complement)
  note b = bit_bounded [OF assms]
  have "(insn OR FM11) AND FM11 = FM11" "(insn OR FM11) AND 0x3FFFFFFF = insn"
    unfolding m by (auto intro!: bit_word_eqI simp: bit_simps dest: b)
  then show ?thesis by (simp add: word_insns_def Let_def)
qed

lemma write_1_short_program:
  assumes "write_1_short opcode insn fx g = Inr g'" and "insn < 2 ^ 15" and "gas_ok g"
  shows "listing (frags g' seg) = listing (frags g seg) @ (if seg = now_seg g then no_nop [(False, insn)] else [])"
    and "\<exists>w which. g' = emit w which g"
proof -
  from assms(1) obtain w where w: "g' = emit w [(fx, op_unit (opcode_at opcode) \<noteq> IU)] g"
      "w = FM00 OR push_bit 15 NOP OR insn \<or> w = FM00 OR push_bit 15 insn OR NOP"
    by (auto simp: write_1_short_def Let_def or.commute or.left_commute split: if_splits)
  have "no_nop (word_insns w) = no_nop [(False, insn)]"
    using w(2) word_insns_short(1) [of insn NOP] word_insns_short(1) [of NOP insn] assms(2)
    by (auto simp: no_nop_def)
  then show "listing (frags g' seg) = listing (frags g seg) @ (if seg = now_seg g then no_nop [(False, insn)] else [])"
    using w(1) by (simp add: program_emit [OF gas_ok_dvd [OF assms(3)]])
  show "\<exists>w which. g' = emit w which g" using w(1) by blast
qed

text \<open>Flushing the instruction that is held back changes nothing of the program.\<close>

lemma cleanup_program:
  assumes "d10v_cleanup g = Inr g'" and "gas_ok g"
  shows "prev_opcode g' = None" and "now_seg g' = now_seg g" and "Optimizing g' = Optimizing g" and "prev_seg g' = prev_seg g"
    and "gas_ok g'" and "program g' = program g"
proof -
  consider "prev_opcode g = None" "g' = g" | op s where "prev_opcode g = Some op" "prev_seg g = Some s"
    using assms by (auto simp: d10v_cleanup_def gas_ok_def split: option.splits)
  then have "prev_opcode g' = None \<and> now_seg g' = now_seg g \<and> Optimizing g' = Optimizing g \<and> prev_seg g' = prev_seg g
      \<and> gas_ok g' \<and> program g' = program g"
  proof cases
    case 1
    then show ?thesis using assms(2) by simp
  next
    case (2 op s)
    then obtain g1 where g1: "write_1_short op (prev_insn g) (\<not> cur g) (g\<lparr>now_seg := s\<rparr>) = Inr g1"
        "g' = g1\<lparr>now_seg := now_seg g, prev_opcode := None\<rparr>"
      using assms(1) by (auto simp: d10v_cleanup_def bindE_Inr Let_def)
    have ok: "gas_ok (g\<lparr>now_seg := s\<rparr>)" "prev_insn g < 2 ^ 15" using assms(2) 2 by (auto simp: gas_ok_def)
    obtain w which where e: "g1 = emit w which (g\<lparr>now_seg := s\<rparr>)"
      using write_1_short_program(2) [OF g1(1) ok(2,1)] by blast
    have "program g' seg = program g seg" for seg
      using write_1_short_program(1) [OF g1(1) ok(2,1), of seg] g1(2) 2 by (auto simp: program_def held_def)
    then show ?thesis using g1(2) e 2 ok(1) by (auto simp: gas_ok_def)
  qed
  then show "prev_opcode g' = None" "now_seg g' = now_seg g" "Optimizing g' = Optimizing g" "prev_seg g' = prev_seg g" "gas_ok g'" "program g' = program g"
    by simp_all
qed

text \<open>
  Two instructions in one word. When the assembler optimizes, instructions that it executes in parallel
  may change places; so the order counts only when it does not.
\<close>

definition same_program :: "bool \<Rightarrow> (bool \<times> uint32) list \<Rightarrow> (bool \<times> uint32) list \<Rightarrow> bool" where
  "same_program opt xs ys \<longleftrightarrow> mset xs = mset ys \<and> (opt \<or> xs = ys)"

lemma pack_insns:
  assumes "pack_2_short opt nowarn op1 insn1 op2 insn2 0 = Inr (w, swap, m)" and "insn1 < 2 ^ 15" and "insn2 < 2 ^ 15"
  shows "same_program opt (no_nop (word_insns w)) (no_nop [(False, insn1), (False, insn2)])"
  using assms(1) word_insns_short [OF assms(2,3)] word_insns_short [OF assms(3,2)]
  by (auto simp: pack_2_short_def same_program_def no_nop_def split: if_splits)

lemma write_2_short_cases:
  assumes "write_2_short opcode1 insn1 opcode2 insn2 0 fx g = Inr (left, g')"
  obtains (alone) "write_1_short opcode1 insn1 (\<not> fx) g = Inr g'" "left = 1"
  | (packed) w swap m which where "pack_2_short (Optimizing g) (flag_warn_suppress_instructionswap g)
        (opcode_at opcode1) insn1 (opcode_at opcode2) insn2 0 = Inr (w, swap, m)"
      "g' = emit w which (g\<lparr>warnings := warnings g @ m\<rparr>)" "left = 0"
  using assms by (auto simp: write_2_short_def Let_def bindE_Inr split: if_splits)

lemma write_2_short_program:
  assumes "write_2_short opcode1 insn1 opcode2 insn2 0 fx g = Inr (left, g')"
    and "insn1 < 2 ^ 15" and "insn2 < 2 ^ 15" and "gas_ok g"
  shows "same_program (Optimizing g)
     (listing (frags g' seg) @ (if left \<noteq> 0 \<and> seg = now_seg g then no_nop [(False, insn2)] else []))
     (listing (frags g seg) @ (if seg = now_seg g then no_nop [(False, insn1)] @ no_nop [(False, insn2)] else []))"
    and "\<exists>w which m. g' = emit w which (g\<lparr>warnings := m\<rparr>)"
proof -
  have n: "no_nop [(False, insn1), (False, insn2)] = no_nop [(False, insn1)] @ no_nop [(False, insn2)]"
    by (simp add: no_nop_def)
  have "same_program (Optimizing g)
     (listing (frags g' seg) @ (if left \<noteq> 0 \<and> seg = now_seg g then no_nop [(False, insn2)] else []))
     (listing (frags g seg) @ (if seg = now_seg g then no_nop [(False, insn1)] @ no_nop [(False, insn2)] else []))
    \<and> (\<exists>w which m. g' = emit w which (g\<lparr>warnings := m\<rparr>))"
    using assms(1)
  proof (cases rule: write_2_short_cases)
    case alone
    obtain w which where "g' = emit w which g" using write_1_short_program(2) [OF alone(1) assms(2,4)] by blast
    then have "g' = emit w which (g\<lparr>warnings := warnings g\<rparr>)" by simp
    then have ex: "\<exists>w which m. g' = emit w which (g\<lparr>warnings := m\<rparr>)" by blast
    show ?thesis using write_1_short_program(1) [OF alone(1) assms(2,4), of seg] alone(2)
      by (intro conjI ex) (auto simp: same_program_def)
  next
    case (packed w swap m which)
    have "4 dvd length (frags (g\<lparr>warnings := warnings g @ m\<rparr>) (now_seg (g\<lparr>warnings := warnings g @ m\<rparr>)))"
      using gas_ok_dvd [OF assms(4)] by simp
    from program_emit [OF this, of w which seg] pack_insns [OF packed(1) assms(2,3)] packed(2,3) n
    show ?thesis by (auto simp: same_program_def)
  qed
  then show "same_program (Optimizing g)
     (listing (frags g' seg) @ (if left \<noteq> 0 \<and> seg = now_seg g then no_nop [(False, insn2)] else []))
     (listing (frags g seg) @ (if seg = now_seg g then no_nop [(False, insn1)] @ no_nop [(False, insn2)] else []))"
    "\<exists>w which m. g' = emit w which (g\<lparr>warnings := m\<rparr>)"
    by blast+
qed

lemma place_short_program:
  assumes "prev_opcode g = None \<or> prev_seg g = Some (now_seg g)" and "gas_ok g" and "insn < 2 ^ 15"
    and "place_short 0 opcode insn g = Inr g'"
  shows "gas_ok g' \<and> same_program (Optimizing g) (program g' seg)
     (program g seg @ (if seg = now_seg g then no_nop [(False, insn)] else []))"
proof (cases "prev_opcode g")
  case None
  then show ?thesis using assms by (auto simp: place_short_def gas_ok_def program_def held_def same_program_def)
next
  case (Some p)
  then have s: "prev_seg g = Some (now_seg g)" and p: "prev_insn g < 2 ^ 15"
    using assms(1,2) by (auto simp: gas_ok_def)
  from assms(4) Some obtain left g1 where g1: "write_2_short p (prev_insn g) opcode insn 0 (cur g) g = Inr (left, g1)"
      "g' = (if left = 0 then g1\<lparr>prev_opcode := None\<rparr>
             else g1\<lparr>prev_opcode := Some opcode, prev_insn := insn, prev_seg := Some (now_seg g1), cur := \<not> cur g1\<rparr>)"
    by (auto simp: place_short_def bindE_Inr split_beta split: if_splits)
  note w = write_2_short_program [OF g1(1) p assms(3,2)]
  from w(2) obtain w' which m where e: "g1 = emit w' which (g\<lparr>warnings := m\<rparr>)" by blast
  have "gas_ok g'" using assms(2,3) g1(2) e by (auto simp: gas_ok_def)
  moreover have "same_program (Optimizing g) (program g' seg)
     (program g seg @ (if seg = now_seg g then no_nop [(False, insn)] else []))"
    using w(1) [of seg] g1(2) e s Some by (auto simp: program_def held_def)
  ultimately show ?thesis by simp
qed



section \<open>A pair of instructions after a change of segment\<close>

lemma assemble_keeps:
  "assemble expr st str g = Inr (r, g') \<Longrightarrow> prev_seg g' = prev_seg g \<and> now_seg g' = now_seg g \<and> etype g' = etype g
     \<and> prev_opcode g' = prev_opcode g"
  by (auto simp: assemble_def bindE_Inr)

lemma cleanup_keeps:
  "d10v_cleanup g = Inr g' \<Longrightarrow> prev_seg g' = prev_seg g \<and> now_seg g' = now_seg g \<and> etype g' = etype g \<and> prev_opcode g' = None"
  by (auto simp: d10v_cleanup_def bindE_Inr Let_def write_1_short_def emit_def split: option.splits if_splits)

lemma place_pair_fails:
  assumes "extype \<noteq> 0" and "prev_opcode g \<noteq> None" and "prev_seg g = Some p" and "p \<noteq> now_seg g"
  shows "\<exists>e. place extype opcode insn g = Inl e"
proof (cases "d10v_cleanup g")
  case (Inr g1)
  then show ?thesis using assms cleanup_keeps [OF Inr] by (auto simp: place_def place_short_def)
qed (use assms in \<open>auto simp: place_def\<close>)

lemma md_first_keeps:
  "md_first expr st str g = Inr g' \<Longrightarrow> prev_seg g' = prev_seg g \<and> now_seg g' = now_seg g \<and> etype g' = etype g
     \<and> prev_opcode g' \<noteq> None"
  by (auto simp: md_first_def bindE_Inr dest!: assemble_keeps cleanup_keeps split: option.splits)

text \<open>
  C22. After a change of segment the assembler cannot assemble a pair of instructions. The first instruction of
  the pair is kept as if it had been held back, but in the segment of the last instruction that was; so it is
  written there, alone, and the second one fails with \<open>Unable to mix instructions as specified\<close>. When the last
  instruction held back was in another segment, a line with a separator ends in a fatal error, or its
  second instruction is on the next line.
\<close>

theorem pair_after_segment_change:
  assumes "etype g = 0" and "find_separator str = Some (extype, str1, str2)" and "prev_seg g = Some p" and "p \<noteq> now_seg g"
  shows "(\<exists>e. md_assemble expr st str g = Inl e) \<or> (\<exists>g'. md_assemble expr st str g = Inr g' \<and> etype g' \<noteq> 0)"
proof -
  have ext: "extype \<noteq> 0" using assms(2) by (auto simp: find_separator_def split: option.splits)
  have m: "md_assemble expr st str g = bindE (md_first expr st str1 g) (md_last expr st extype str2)"
    using assms(1,2) by (simp add: md_assemble_def)
  show ?thesis
  proof (cases "md_first expr st str1 g")
    case (Inr g1)
    note k = md_first_keeps [OF Inr]
    show ?thesis
    proof (cases "assemble expr st str2 g1")
      case (Inr rg)
      obtain r g2 where rg: "rg = (r, g2)" by fastforce
      then have g2: "etype g2 = 0" "prev_opcode g2 \<noteq> None" "prev_seg g2 = Some p" "p \<noteq> now_seg g2"
        using k assemble_keeps [of expr st str2 g1 r g2] Inr assms by auto
      show ?thesis
        using m \<open>md_first expr st str1 g = Inr g1\<close> Inr rg ext g2(1) place_pair_fails [OF ext g2(2-4)]
        by (cases r) (auto simp: md_last_def)
    qed (use m Inr in \<open>simp add: md_last_def\<close>)
  qed (use m in simp)
qed

theorem pair_after_segment_change_witness:
  "\<forall>expr st. (\<exists>e. md_assemble expr st ''nop || nop'' (gas_start\<lparr>prev_seg := Some (1, 0)\<rparr>) = Inl e)
     \<or> (\<exists>g'. md_assemble expr st ''nop || nop'' (gas_start\<lparr>prev_seg := Some (1, 0)\<rparr>) = Inr g' \<and> etype g' \<noteq> 0)"
proof -
  have "find_separator ''nop || nop'' = Some (1, ''nop '', '' nop'')" by code_simp
  then show ?thesis
    using pair_after_segment_change [of "gas_start\<lparr>prev_seg := Some (1, 0)\<rparr>" "''nop || nop''" 1 "''nop ''" "'' nop''" "(1, 0)"]
    by (simp add: gas_start_def)
qed

section \<open>A pair that is not independent\<close>

text \<open>
  The table does not say that \<open>subi\<close> writes the carry flag, which it does. The example executes \<open>subi r1, 1\<close> and
  \<open>cpfg f0, c\<close> with 1 in \<open>r1\<close>.
\<close>

lemma lookup_subi: "lookup_hash 0x23 False = Found 151"
  by (rule lookup_hash_Found) (simp_all add: op_matches_eval)

lemma lookup_cpfg: "lookup_hash 0x4e0f False = Found 37"
  by (rule lookup_hash_Found) (simp_all add: op_matches_eval)

lemma func_subi_cpfg: "func host 151 = OP_1" "func host 37 = OP_4E09"
  by (simp_all add: func_def simop_table_def)

lemma minus_1_16: "(ucast (ucast (- 1 :: uint32) :: uint16) :: uint32) = 0xffff"
  by code_simp

lemmas run_simps = SLOT_FLUSH_def minus_1_16 with_op_def lookup_subi lookup_cpfg Simops_generated simops.defs issue_def
  func_subi_cpfg Let_def op_def get_operands_def slot_simp sim_macro count_inc_def machine_def boot_def GPR_def opv_def
  opn_def PSW_def PSW_bit_def

definition one_in_r1 :: sim where
  "one_in_r1 = machine ([0, 1] @ replicate 14 0) [0, 0, 0, 0]"

lemma dispatch_parallel_pair: "cregs (SLOT_FLUSH (dispatch host 0x27078023 one_in_r1)) ! 0 = 1"
proof -
  have d: "dispatch host 0x27078023 s = do_parallel host 0x4e0f 0x23 s" for s by (simp add: dispatch_def)
  show ?thesis unfolding d one_in_r1_def by (simp add: do_parallel_def run_simps)
qed

lemma dispatch_sequential_pair: "cregs (SLOT_FLUSH (dispatch host 0x4011ce0f one_in_r1)) ! 0 = 9"
proof -
  have d: "dispatch host 0x4011ce0f s = do_2_short host 0x23 0x4e0f True s" for s by (simp add: dispatch_def)
  show ?thesis unfolding d one_in_r1_def by (simp add: do_2_short_def run_simps)
qed

lemma pair_is_parallel_ok: "parallel_ok (opcode_at 158) 0x23 (opcode_at 44) 0x4e0f 0"
  by code_simp


end
