(* ===== verification/Fix_Correct.thy ===== *)
theory Fix_Correct
  imports Pack_Correct
begin

text \<open>
  Correctness of fixups and relocations: a short branch whose displacement the assembler or the linker fills
  in, and the way of a relocation from the assembler through an ELF file.
\<close>

section \<open>Branch displacements in an instruction word\<close>

definition word_at :: "nat \<Rightarrow> uint8 list \<Rightarrow> uint32" where
  "word_at a bs = bfd_getb32 (take 4 (drop a bs))"

definition container :: "bool \<Rightarrow> nat" where
  "container left = (if left then 15 else 0)"

definition branch_mask :: "bool \<Rightarrow> uint32" where
  "branch_mask left = push_bit (container left) 0xff"

definition displacement :: "bool \<Rightarrow> uint32 \<Rightarrow> uint32" where
  "displacement left w = drop_bit (container left) w AND 0xff"

lemma mask_8: "(0xff :: uint32) = mask 8"
  by (simp add: mask_eq_exp_minus_1)

lemma word_at_put:
  "a + 4 \<le> length bs \<Longrightarrow> word_at a (put_bytes a (bfd_putb32 w) bs) = w"
  using get_put_b32 [of w] by (simp add: word_at_def put_bytes_def bfd_putb32_def)

lemma length_put [simp]: "a + length new \<le> length bs \<Longrightarrow> length (put_bytes a new bs) = length bs"
  by (simp add: put_bytes_def)

lemma displacement_mask:
  "w AND branch_mask left = push_bit (container left) (d AND 0xff) \<Longrightarrow> displacement left w = d AND 0xff"
proof -
  assume a: "w AND branch_mask left = push_bit (container left) (d AND 0xff)"
  have "displacement left w = drop_bit (container left) (w AND branch_mask left)"
    unfolding displacement_def branch_mask_def mask_8 container_def by (auto intro!: bit_word_eqI simp: bit_simps)
  then show ?thesis unfolding a mask_8 container_def by (auto intro!: bit_word_eqI simp: bit_simps)
qed

lemma displacement_in_mask: "push_bit (container left) (d AND 0xff) AND branch_mask left = push_bit (container left) (d AND 0xff)"
  unfolding branch_mask_def mask_8 container_def by (auto intro!: bit_word_eqI simp: bit_simps)

text \<open>A field that is empty and then filled holds what was put there, and the rest of the word stays.\<close>

lemma or_displacement:
  assumes "w AND branch_mask left = 0"
  shows "displacement left (w OR push_bit (container left) (d AND 0xff)) = d AND 0xff"
    and "(w OR push_bit (container left) (d AND 0xff)) AND NOT (branch_mask left) = w"
proof -
  let ?p = "push_bit (container left) (d AND 0xff)"
  have "(w OR ?p) AND branch_mask left = ?p"
    unfolding bit.conj_disj_distrib2 assms displacement_in_mask by simp
  then show "displacement left (w OR ?p) = d AND 0xff" by (rule displacement_mask)
  have "?p AND NOT (branch_mask left) = 0"
    by (subst displacement_in_mask [symmetric]) (simp add: and.assoc)
  moreover have "w AND NOT (branch_mask left) = w"
    using assms unfolding and_zero_iff by (intro bit_word_eqI) (simp add: bit_and_iff bit_not_iff, blast)
  ultimately show "(w OR ?p) AND NOT (branch_mask left) = w" by (simp add: bit.conj_disj_distrib2)
qed

lemma shift_back: "- (2 ^ 29) \<le> sint d \<Longrightarrow> sint d < 2 ^ 29 \<Longrightarrow> signed_drop_bit 2 (push_bit 2 d) = (d :: uint32)"
proof -
  assume "- (2 ^ 29) \<le> sint d" "sint d < 2 ^ 29"
  then have "signed_take_bit 29 d = d" by (simp add: signed_fits)
  moreover have "signed_drop_bit 2 (push_bit 2 d) = signed_take_bit 29 d"
  proof (rule bit_word_eqI)
    fix n assume "n < LENGTH(32)"
    then show "bit (signed_drop_bit 2 (push_bit 2 d)) n = bit (signed_take_bit 29 d) n"
      by (cases "n < 29"; cases "n = 29") (auto simp: bit_simps min_def)
  qed
  ultimately show ?thesis by simp
qed

lemma sext8_ff: "SEXT8 (d AND 0xff) = signed_take_bit 7 d"
  unfolding SEXT8_eq mask_8 by (auto intro!: bit_word_eqI simp: bit_simps min_def)

section \<open>Fixups\<close>

definition branch_code :: "bool \<Rightarrow> uint32" where
  "branch_code left = 2048 OR (if left then 1024 else 0) OR of_nat ANUM8"

lemma operand_ANUM8: "operand_at ANUM8 = \<lparr>opnd_bits = 8, opnd_shift = 0, opnd_flags = OPERAND_ADDR OR OPERAND_SIGNED\<rparr>"
  by (simp add: operand_at_def d10v_operands_def d10v_operand.defs)

lemma fix_type_branch:
  "fix_type (branch_code left) = (if left then BFD_RELOC_D10V_10_PCREL_L else BFD_RELOC_D10V_10_PCREL_R, of_nat ANUM8, left)"
  using operand_ANUM8 by (simp add: fix_type_def branch_code_def get_reloc_def Let_def)

lemma in_short_range:
  "\<not> check_range d 8 (OPERAND_ADDR OR OPERAND_SIGNED) \<longleftrightarrow> - 128 \<le> sint d \<and> sint d < 128"
  by (simp add: check_range_def Let_def word_sless_alt) linarith

lemma store_branch:
  assumes "- (2 ^ 29) \<le> sint d" and "sint d < 2 ^ 29"
  shows "store_fix (if left then BFD_RELOC_D10V_10_PCREL_L else BFD_RELOC_D10V_10_PCREL_R) ANUM8 left 4 (push_bit 2 d) insn
     = Inr (bfd_putb32 (insn OR push_bit (container left) (d AND 0xff)),
            if - 128 \<le> sint d \<and> sint d < 128 then [] else [''operand out of range''])"
  using shift_back [OF assms] in_short_range [of d] operand_ANUM8
  by (auto simp: store_fix_def d10v_insert_operand_def Let_def container_def field_mask_eq mask_8)

text \<open>
  C24. A short branch whose target the assembler knows is resolved correctly. For a branch at the word address
  \<open>p\<close> to the word address \<open>t\<close>, in either container, \<open>md_apply_fix3\<close> reports no error if and only if the distance is
  from -128 to 127 words; then the displacement that the simulator adds to the program counter leads to \<open>t\<close>.
  The rest of the instruction word stays as it is.
\<close>

theorem short_branch_fixup:
  assumes "fx_r_type fixp = branch_code left" and "fx_size fixp = 4" and "fx_addsy fixp = None \<or> fx_pcrel fixp"
    and "fx_where fixp + 4 \<le> length bytes" and "word_at (fx_where fixp) bytes AND branch_mask left = 0"
    and "- (2 ^ 29) \<le> sint (t - p)" and "sint (t - p) < 2 ^ 29"
  shows "\<exists>fixp' bytes' m. md_apply_fix3 fixp (push_bit 2 (t - p)) bytes = Inr (fixp', bytes', m)
     \<and> (m = [] \<longleftrightarrow> - 128 \<le> sint (t - p) \<and> sint (t - p) < 128)
     \<and> (m = [] \<longrightarrow> p + SEXT8 (displacement left (word_at (fx_where fixp) bytes')) = t)
     \<and> word_at (fx_where fixp) bytes' AND NOT (branch_mask left) = word_at (fx_where fixp) bytes"
proof -
  let ?w = "word_at (fx_where fixp) bytes" and ?d = "t - p" and ?a = "fx_where fixp"
  let ?w' = "?w OR push_bit (container left) (?d AND 0xff)"
  let ?m = "if - 128 \<le> sint ?d \<and> sint ?d < 128 then [] else [''operand out of range'']"
  have old: "bfd_getb32 (take 4 (drop ?a bytes @ [0, 0, 0, 0])) = ?w"
    using assms(4) by (simp add: word_at_def)
  have v: "fix_value fixp (push_bit 2 ?d) = (push_bit 2 ?d, [])" using assms(3) by (auto simp: fix_value_def)
  have "\<exists>fixp'. md_apply_fix3 fixp (push_bit 2 ?d) bytes = Inr (fixp', put_bytes ?a (bfd_putb32 ?w') bytes, ?m)"
    using store_branch [OF assms(6,7), of left ?w] assms(1,2,4) old v
    by (simp add: md_apply_fix3_def Let_def fix_type_branch bfd_putb32_def)
  moreover have "word_at ?a (put_bytes ?a (bfd_putb32 ?w') bytes) = ?w'" using assms(4) by (rule word_at_put)
  moreover have "p + SEXT8 (displacement left ?w') = t" if "- 128 \<le> sint ?d" "sint ?d < 128"
  proof -
    have "signed_take_bit 7 ?d = ?d" using that by (simp add: signed_fits)
    then show ?thesis using or_displacement(1) [OF assms(5), of ?d] by (simp add: sext8_ff)
  qed
  ultimately show ?thesis using or_displacement(2) [OF assms(5), of ?d] by (auto split: if_splits)
qed

theorem short_branch_fixup_witness:
  "\<exists>fixp' bytes'. md_apply_fix3 \<lparr>fx_where = 0, fx_size = 4, fx_exp = blank, fx_pcrel = True, fx_r_type = branch_code False,
        fx_addsy = None, fx_subsy = None, fx_offset = 0, fx_addnumber = 0, fx_done = False, fr_address = 0\<rparr>
        (push_bit 2 (3 - 5)) [0x2f, 0, 0x48, 0] = Inr (fixp', bytes', [])
     \<and> 5 + SEXT8 (displacement False (word_at 0 bytes')) = 3"
proof -
  let ?f = "\<lparr>fx_where = 0, fx_size = 4, fx_exp = blank, fx_pcrel = True, fx_r_type = branch_code False,
        fx_addsy = None, fx_subsy = None, fx_offset = 0, fx_addnumber = 0, fx_done = False, fr_address = 0\<rparr>"
  have s: "sint (3 - 5 :: uint32) = - 2" by code_simp
  have "word_at 0 [0x2f, 0, 0x48, 0] AND branch_mask False = 0" by code_simp
  then show ?thesis
    using short_branch_fixup [of ?f False "[0x2f, 0, 0x48, 0]" 3 5] s by auto
qed

section \<open>Relocations\<close>

definition short_howto :: "bool \<Rightarrow> reloc_howto" where
  "short_howto left = elf_d10v_howto_table ! (if left then R_D10V_10_PCREL_L else R_D10V_10_PCREL_R)"

lemma short_howto_eq:
  "short_howto left = reloc_howto.make (if left then 2 else 1) 2 2 10 True (container left) complain_overflow_bitfield bfd_elf_generic
     (if left then ''R_D10V_10_PCREL_L'' else ''R_D10V_10_PCREL_R'') False (branch_mask left) (branch_mask left) True"
  by (simp add: short_howto_def elf_d10v_howto_table_def container_def branch_mask_def)

text \<open>The check that the table asks for lets ten bits pass after the shift; the field has eight.\<close>

lemma word_sless_zero: "w <s 0 \<longleftrightarrow> bit w 31" for w :: uint32
  using bit_last_iff [of w] by (simp add: word_sless_alt)

lemma upper_ones_2: "bit (upper_ones 2) n \<longleftrightarrow> n = 30 \<or> n = 31"
  by (auto simp: upper_ones_def bit_simps)

lemma short_overflow:
  assumes "- 1024 \<le> sint d" and "sint d < 1024"
  shows "bfd_check_overflow complain_overflow_bitfield 10 2 (push_bit 2 d) = bfd_reloc_ok"
proof -
  have "signed_take_bit 10 d = d" using assms by (simp add: signed_fits)
  then have "bit (signed_take_bit 10 d) n = bit d n" for n by simp
  then have high: "bit d n \<longleftrightarrow> bit d 10" if "10 \<le> n" "n < 32" for n
    using that by (simp add: bit_signed_take_bit_iff min_def) metis
  have m: "push_bit 1 (push_bit 9 1 - 1) OR 1 = (mask 10 :: uint32)" by (simp add: mask_eq_exp_minus_1)
  show ?thesis
  proof (cases "bit d 10")
    case True
    have "push_bit 2 d <s 0" using high [of 29] True by (simp add: word_sless_zero bit_simps)
    moreover have "(drop_bit 2 (push_bit 2 d) OR upper_ones 2) AND NOT (mask 10) = NOT (mask 10 :: uint32)"
      using high True by (auto intro!: bit_word_eqI simp: upper_ones_2 bit_simps)
    ultimately show ?thesis using m by (simp add: bfd_check_overflow_def Let_def)
  next
    case False
    have "drop_bit 2 (push_bit 2 d) AND NOT (mask 10) = (0 :: uint32)"
      using high False by (auto intro!: bit_word_eqI simp: bit_simps)
    then show ?thesis using m by (simp add: bfd_check_overflow_def Let_def)
  qed
qed

lemma shifted_in_mask:
  "push_bit (container left) (drop_bit 2 (push_bit 2 d)) AND branch_mask left = push_bit (container left) (d AND 0xff)"
  unfolding branch_mask_def mask_8 container_def by (auto intro!: bit_word_eqI simp: bit_simps)

lemma DOIT_branch:
  assumes "w AND branch_mask left = 0"
  shows "DOIT (short_howto left) (push_bit (container left) (drop_bit 2 (push_bit 2 d))) w
       = w OR push_bit (container left) (d AND 0xff)"
proof -
  have "w AND NOT (branch_mask left) = w"
    using assms unfolding and_zero_iff by (intro bit_word_eqI) (simp add: bit_and_iff bit_not_iff, blast)
  then show ?thesis
    using assms shifted_in_mask [of left d] by (simp add: DOIT_def short_howto_eq reloc_howto.defs)
qed

lemma relocate_branch:
  assumes "a + 4 \<le> length data" and "word_at a data AND branch_mask left = 0"
  shows "relocate_data (short_howto left) (push_bit (container left) (drop_bit 2 (push_bit 2 d))) a data
       = Inr (True, put_bytes a (bfd_putb32 (word_at a data OR push_bit (container left) (d AND 0xff))) data)"
  using assms DOIT_branch [OF assms(2), of d]
  by (simp add: relocate_data_def Let_def bytes_at_def word_at_def) (simp add: short_howto_eq reloc_howto.defs)

text \<open>
  C25. What the linker does with a short branch. For distances from -1024 to 1023 words it reports no error:
  the overflow check of the table allows ten bits after the shift by two. It reaches the target exactly for
  distances from -128 to 127 words, because the field has eight bits; a longer branch is silently cut and
  leads somewhere else.
\<close>

theorem linked_short_branch:
  assumes "howto r = short_howto left" and "sym_kind symb = Other_section" and "address r \<le> cooked_size sec"
    and "unat (address r) + 4 \<le> length data" and "word_at (unat (address r)) data AND branch_mask left = 0"
    and "sym_value symb + output_vma (sym_section symb) + output_offset (sym_section symb) + addend r = push_bit 2 t"
    and "output_vma sec + output_offset sec + address r = push_bit 2 p"
    and "- 1024 \<le> sint (t - p)" and "sint (t - p) < 1024"
  shows "\<exists>r' data'. bfd_perform_relocation False symb sec r data = Inr (bfd_reloc_ok, r', data')
     \<and> (p + SEXT8 (displacement left (word_at (unat (address r)) data')) = t \<longleftrightarrow> - 128 \<le> sint (t - p) \<and> sint (t - p) < 128)
     \<and> word_at (unat (address r)) data' AND NOT (branch_mask left) = word_at (unat (address r)) data"
proof -
  let ?a = "unat (address r)" and ?d = "t - p"
  let ?w' = "word_at ?a data OR push_bit (container left) (?d AND 0xff)"
  have h: "special_function (short_howto left) = bfd_elf_generic" "pc_relative (short_howto left)" "pcrel_offset (short_howto left)"
    "rightshift (short_howto left) = 2" "bitpos (short_howto left) = container left" "bitsize (short_howto left) = 10"
    "complain_on_overflow (short_howto left) = complain_overflow_bitfield"
    by (simp_all add: short_howto_eq reloc_howto.defs)
  have "sym_value symb + output_vma (sym_section symb) + output_offset (sym_section symb) + addend r
      - (output_vma sec + output_offset sec) - address r = push_bit 2 t - push_bit 2 p"
    using assms(6,7) by (metis diff_diff_eq)
  also have "\<dots> = push_bit 2 ?d" by (simp add: push_bit_eq_mult)
  finally have "\<exists>r'. bfd_perform_relocation False symb sec r data = Inr (bfd_reloc_ok, r', put_bytes ?a (bfd_putb32 ?w') data)"
    using assms(1-3) h relocate_branch [OF assms(4,5), of ?d] short_overflow [OF assms(8,9)]
    by (simp add: bfd_perform_relocation_def bfd_elf_generic_reloc_def Let_def)
  moreover have "word_at ?a (put_bytes ?a (bfd_putb32 ?w') data) = ?w'" using assms(4) by (rule word_at_put)
  moreover have "p + SEXT8 (displacement left ?w') = t \<longleftrightarrow> - 128 \<le> sint ?d \<and> sint ?d < 128"
  proof -
    have "p + SEXT8 (displacement left ?w') = t \<longleftrightarrow> signed_take_bit 7 ?d = ?d"
      using or_displacement(1) [OF assms(5), of ?d] by (simp add: sext8_ff) (metis add_diff_cancel_left' diff_add_cancel add.commute)
    then show ?thesis by (simp add: signed_fits)
  qed
  ultimately show ?thesis using or_displacement(2) [OF assms(5), of ?d] by auto
qed

theorem linked_short_branch_witness:
  "\<exists>r' data'. bfd_perform_relocation False
       \<lparr>sym_kind = Other_section, sym_section = \<lparr>output_vma = 0, output_offset = 0, cooked_size = 4\<rparr>, sym_value = 800,
        sym_weak = False, sym_is_section = False\<rparr>
       \<lparr>output_vma = 0, output_offset = 0, cooked_size = 4\<rparr> \<lparr>address = 0, addend = 0, howto = short_howto False\<rparr>
       [0x2f, 0, 0x48, 0] = Inr (bfd_reloc_ok, r', data')
     \<and> 0 + SEXT8 (displacement False (word_at 0 data')) \<noteq> 200"
proof -
  let ?sec = "\<lparr>output_vma = 0, output_offset = 0, cooked_size = 4\<rparr>"
  let ?sym = "\<lparr>sym_kind = Other_section, sym_section = ?sec, sym_value = 800, sym_weak = False, sym_is_section = False\<rparr>"
  have s: "sint (200 - 0 :: uint32) = 200" by code_simp
  have "word_at 0 [0x2f, 0, 0x48, 0] AND branch_mask False = 0" by code_simp
  then show ?thesis
    using linked_short_branch [of "\<lparr>address = 0, addend = 0, howto = short_howto False\<rparr>" False ?sym ?sec "[0x2f, 0, 0x48, 0]" 200 0] s
    by auto
qed

text \<open>A relocation of every kind that \<open>md_apply_fix3\<close> stores has an entry in the table, at the place of its type.\<close>

lemma known_relocs:
  assumes "code \<in> {BFD_RELOC_D10V_10_PCREL_L, BFD_RELOC_D10V_10_PCREL_R, BFD_RELOC_D10V_18_PCREL, BFD_RELOC_D10V_18, BFD_RELOC_32, BFD_RELOC_16}"
  shows "\<exists>h. bfd_elf32_bfd_reloc_type_lookup code = Some h \<and> howto_type h < length elf_d10v_howto_table
           \<and> elf_d10v_howto_table ! howto_type h = h"
  using assms
  by (auto simp: bfd_elf32_bfd_reloc_type_lookup_def d10v_reloc_map_def elf_d10v_howto_table_def reloc_howto.defs)

lemma ELF32_R_TYPE_info: "n < 256 \<Longrightarrow> ELF32_R_TYPE (push_bit 8 i OR of_nat n) = n"
proof -
  assume n: "n < 256"
  have "(push_bit 8 i OR of_nat n) AND 0xff = (of_nat n AND mask 8 :: uint32)"
    unfolding mask_8 by (auto intro!: bit_word_eqI simp: bit_simps)
  also have "\<dots> = of_nat (take_bit 8 n)" by (simp add: take_bit_of_nat flip: take_bit_eq_mask)
  also have "take_bit 8 n = n" using n by (intro take_bit_nat_eq_self) simp
  finally show ?thesis using n by (simp add: ELF32_R_TYPE_def unat_of_nat)
qed

lemma apply_fix_code:
  "md_apply_fix3 fixp v bytes = Inr (fixp', bytes', m) \<Longrightarrow>
     fx_r_type fixp' \<in> {BFD_RELOC_D10V_10_PCREL_L, BFD_RELOC_D10V_10_PCREL_R, BFD_RELOC_D10V_18_PCREL, BFD_RELOC_D10V_18,
       BFD_RELOC_32, BFD_RELOC_16}"
  by (auto simp: md_apply_fix3_def Let_def bindE_Inr store_fix_def split: prod.splits if_splits)

text \<open>
  Every fixup that the assembler has applied can be written as a relocation and read back. For the
  relocation code that \<open>md_apply_fix3\<close> leaves, \<open>tc_gen_reloc\<close> finds an entry of the table, and from the type
  number of that entry in an ELF file, with whatever symbol index, \<open>d10v_info_to_howto_rel\<close> finds the same entry.
\<close>

theorem fixup_relocation_roundtrip:
  assumes "md_apply_fix3 fixp v bytes = Inr (fixp', bytes', m)"
  shows "\<exists>r. tc_gen_reloc fixp' = Inr r
     \<and> d10v_info_to_howto_rel (push_bit 8 symndx OR of_nat (howto_type (howto r))) c = Inr (c\<lparr>howto := howto r\<rparr>)"
proof -
  obtain h where h: "bfd_elf32_bfd_reloc_type_lookup (fx_r_type fixp') = Some h"
      "howto_type h < length elf_d10v_howto_table" "elf_d10v_howto_table ! howto_type h = h"
    using known_relocs [OF apply_fix_code [OF assms]] by blast
  moreover have "length elf_d10v_howto_table = 7" by (simp add: elf_d10v_howto_table_def)
  ultimately show ?thesis
    by (simp add: tc_gen_reloc_def d10v_info_to_howto_rel_def Let_def ELF32_R_TYPE_info)
qed

definition word_fixup :: fixP where
  "word_fixup = \<lparr>fx_where = 0, fx_size = 2, fx_exp = blank, fx_pcrel = False, fx_r_type = BFD_RELOC_16, fx_addsy = None,
     fx_subsy = None, fx_offset = 0, fx_addnumber = 0, fx_done = False, fr_address = 0\<rparr>"

theorem fixup_relocation_roundtrip_witness:
  "md_apply_fix3 word_fixup 0x1234 [0, 0] = Inr (word_fixup\<lparr>fx_done := True\<rparr>, [0x12, 0x34], [])
   \<and> (\<forall>c. \<exists>r. tc_gen_reloc (word_fixup\<lparr>fx_done := True\<rparr>) = Inr r
       \<and> d10v_info_to_howto_rel (push_bit 8 1 OR of_nat (howto_type (howto r))) c = Inr (c\<lparr>howto := howto r\<rparr>))"
proof -
  have a: "md_apply_fix3 word_fixup 0x1234 [0, 0] = Inr (word_fixup\<lparr>fx_done := True\<rparr>, [0x12, 0x34], [])"
    by (simp add: word_fixup_def md_apply_fix3_def fix_value_def fix_type_def store_fix_def bfd_putb16_def put_bytes_def)
  then show ?thesis using fixup_relocation_roundtrip [OF a, of 1] by blast
qed

end
