(* ===== verification/D10V_Dis.thy ===== *)
theory D10V_Dis
  imports D10V_Opc Bfd_Reloc
begin

text \<open>
  The D10V disassembler, \<open>src/src/opcodes/d10v-dis.c\<close>. What the code prints through \<open>fprintf_func\<close> is the
  text its functions return. Printing an address and reading memory are callbacks of the client, and so
  parameters.
\<close>

section \<open>Printing numbers\<close>

text \<open>The conversions \<open>%x\<close>, \<open>%08x\<close> and \<open>%d\<close>.\<close>

definition digit :: "nat \<Rightarrow> char" where
  "digit n = ''0123456789abcdef'' ! n"

fun digits :: "nat \<Rightarrow> nat \<Rightarrow> string" where
  "digits base n = (if base < 2 \<or> n < base then [digit n] else digits base (n div base) @ [digit (n mod base)])"

declare digits.simps [simp del]

definition print_x :: "uint32 \<Rightarrow> string" where
  "print_x w = digits 16 (unat w)"

definition print_08x :: "uint32 \<Rightarrow> string" where
  "print_08x w = (let s = print_x w in replicate (8 - length s) (CHR ''0'') @ s)"

definition print_d :: "int32 \<Rightarrow> string" where
  "print_d w = (if sint w < 0 then CHR ''-'' # digits 10 (nat (- sint w)) else digits 10 (nat (sint w)))"

section \<open>Operands\<close>

record disassemble_info =
  read_memory_func :: "uint32 \<Rightarrow> uint8 list option"
  print_address_func :: "uint32 \<Rightarrow> string"
  insn_has_reloc :: bool

abbreviation (input) "DIS_PC_MASK \<equiv> 0x0303FFFF :: uint32"

definition dis_field :: "d10v_operand \<Rightarrow> d10v_opcode \<Rightarrow> uint32 \<Rightarrow> uint32" where
  "dis_field oper op insn =
     (let shift = opnd_shift oper + (if op_format op = LONG_L \<and> opnd_flags oper AND OPERAND_REG \<noteq> 0 then 15 else 0)
      in drop_bit shift insn AND drop_bit (31 - opnd_bits oper) 0x7FFFFFFF)"

text \<open>The number under which a register is looked up in the register table.\<close>

definition reg_num :: "uint32 \<Rightarrow> uint32 \<Rightarrow> uint32" where
  "reg_num flags num =
     (let num = num + (flags AND (OPERAND_GPR OR OPERAND_FFLAG OR OPERAND_CFLAG OR OPERAND_CONTROL))
      in if flags AND (OPERAND_ACC0 OR OPERAND_ACC1) \<noteq> 0
         then num + (if num \<noteq> 0 then OPERAND_ACC0 else OPERAND_ACC1) else num)"

definition print_reg :: "uint32 \<Rightarrow> uint32 \<Rightarrow> string" where
  "print_reg flags num =
     (let num = reg_num flags num
      in case find (\<lambda>r. num = reg_value r) d10v_predefined_registers of
           Some r \<Rightarrow> (case reg_pname r of Some p \<Rightarrow> p | None \<Rightarrow> reg_name r)
         | None \<Rightarrow>
             (if flags AND (OPERAND_ACC0 OR OPERAND_ACC1) \<noteq> 0 then ''a''
              else if flags AND OPERAND_CONTROL \<noteq> 0 then ''cr''
              else if flags AND OPERAND_REG \<noteq> 0 then ''r'' else '''') @ print_d num)"

text \<open>The magnitude of a negative field, and whether the field is negative.\<close>

definition magnitude :: "nat \<Rightarrow> uint32 \<Rightarrow> uint32 \<times> bool" where
  "magnitude bits num =
     (if num AND push_bit (bits - 1) 1 \<noteq> 0 then (- num AND (push_bit bits 1 - 1), True) else (num, False))"

definition print_addr :: "disassemble_info \<Rightarrow> nat \<Rightarrow> uint32 \<Rightarrow> uint32 \<Rightarrow> string" where
  "print_addr info bits memaddr num =
     (let (num, neg) = magnitude bits num; num = push_bit 2 num
      in print_address_func info
           (DIS_PC_MASK AND (if insn_has_reloc info then num else if neg then memaddr - num else memaddr + num)))"

definition print_operand :: "disassemble_info \<Rightarrow> uint32 \<Rightarrow> d10v_opcode \<Rightarrow> uint32 \<Rightarrow> d10v_operand \<Rightarrow> string" where
  "print_operand info memaddr op insn oper =
     (let flags = opnd_flags oper in
      if flags = OPERAND_ATMINUS then ''@-''
      else if flags = OPERAND_MINUS then ''-''
      else if flags = OPERAND_PLUS then ''+''
      else if flags = OPERAND_ATSIGN then ''@''
      else if flags = OPERAND_ATPAR then ''@(''
      else
        (let num = dis_field oper op insn in
         if flags AND OPERAND_REG \<noteq> 0 then print_reg flags num
         else if flags AND OPERAND_ADDR \<noteq> 0 then print_addr info (opnd_bits oper) memaddr num
         else if flags AND OPERAND_SIGNED \<noteq> 0 then
           (let (num, neg) = magnitude (opnd_bits oper) num
            in (if neg then ''-'' else '''') @ ''0x'' @ print_x num)
         else ''0x'' @ print_x num))"

section \<open>Instructions\<close>

text \<open>The loop over the operands: the text, and \<open>need_paren\<close>.\<close>

fun print_operands :: "disassemble_info \<Rightarrow> uint32 \<Rightarrow> d10v_opcode \<Rightarrow> uint32 \<Rightarrow> nat list \<Rightarrow> bool \<Rightarrow> string \<times> bool" where
  "print_operands info memaddr op insn [] paren = ('''', paren)"
| "print_operands info memaddr op insn (k # ks) paren =
     (let oper = d10v_operands ! k;
          sep = (if ks \<noteq> [] \<and> opnd_bits oper \<noteq> 0
                    \<and> opnd_flags (d10v_operands ! hd ks) \<noteq> OPERAND_PLUS
                    \<and> opnd_flags (d10v_operands ! hd ks) \<noteq> OPERAND_MINUS
                 then '', '' else '''');
          (rest, paren) = print_operands info memaddr op insn ks (paren \<or> opnd_flags oper = OPERAND_ATPAR)
      in (print_operand info memaddr op insn oper @ sep @ rest, paren))"

definition dis_long_op :: "uint32 \<Rightarrow> d10v_opcode option" where
  "dis_long_op insn = find (\<lambda>op. op_format op AND LONG_OPCODE \<noteq> 0 \<and> op_mask op AND insn = op_opcode op) d10v_opcodes"

definition dis_long :: "disassemble_info \<Rightarrow> uint32 \<Rightarrow> uint32 \<Rightarrow> string" where
  "dis_long info memaddr insn =
     (case dis_long_op insn of
        Some op \<Rightarrow>
          (let (text, paren) = print_operands info memaddr op insn (op_operands op) False
           in op_name op @ [CHR 0x09] @ text @ (if paren then '')'' else ''''))
      | None \<Rightarrow> ''.long'' @ [CHR 0x09] @ ''0x'' @ print_08x insn)"

definition dis_short_op :: "uint32 \<Rightarrow> d10v_opcode option" where
  "dis_short_op ins = find (\<lambda>op. op_format op AND SHORT_OPCODE \<noteq> 0 \<and> op_mask op AND ins = op_opcode op) d10v_opcodes"

text \<open>One of the two instructions: its text, whether an entry was found, and \<open>need_paren\<close>.\<close>

definition dis_short :: "disassemble_info \<Rightarrow> uint32 \<Rightarrow> uint32 \<Rightarrow> bool \<Rightarrow> string \<times> bool \<times> bool" where
  "dis_short info memaddr ins paren =
     (case dis_short_op ins of
        Some op \<Rightarrow>
          (let (text, paren) = print_operands info memaddr op ins (op_operands op) paren
           in (op_name op @ [CHR 0x09] @ text, True, paren))
      | None \<Rightarrow> (''unknown'', False, paren))"

definition dis_order :: "nat \<Rightarrow> string" where
  "dis_order order =
     [CHR 0x09] @ (if order = 0 then ''->'' else if order = 1 then ''<-'' else ''||'') @ [CHR 0x09]"

definition dis_2_short :: "disassemble_info \<Rightarrow> uint32 \<Rightarrow> uint32 \<Rightarrow> nat \<Rightarrow> string" where
  "dis_2_short info memaddr insn order =
     (let (s0, m0, paren) = dis_short info memaddr (drop_bit 15 (insn AND 0x3FFFFFFF)) False;
          (s1, m1, paren) = dis_short info memaddr (insn AND 0x7FFF) paren
      in s0 @ dis_order order @ s1
         @ (if \<not> m0 \<and> \<not> m1 then ''.long'' @ [CHR 0x09] @ ''0x'' @ print_08x insn else '''')
         @ (if paren then '')'' else ''''))"

text \<open>\<open>print_insn_d10v\<close>: \<open>None\<close> when the memory cannot be read.\<close>

definition print_insn_d10v :: "disassemble_info \<Rightarrow> uint32 \<Rightarrow> (string \<times> nat) option" where
  "print_insn_d10v info memaddr =
     (case read_memory_func info memaddr of
        None \<Rightarrow> None
      | Some buffer \<Rightarrow>
          (let insn = bfd_getb32 buffer; status = insn AND FM11
           in Some (if status = FM00 then dis_2_short info memaddr insn 2
                    else if status = FM01 then dis_2_short info memaddr insn 0
                    else if status = FM10 then dis_2_short info memaddr insn 1
                    else dis_long info memaddr insn, 4)))"

end
