(* ===== verification/Dis_Correct.thy ===== *)
theory Dis_Correct
  imports D10V_Dis Asm_Correct
begin

text \<open>
  Correctness of the disassembler: it names the instruction that the simulator executes, and prints
  registers so that the assembler reads them back, except for accumulators.
\<close>

section \<open>The entry that is named and the entry that is executed\<close>

lemma find_filter: "find P (filter N xs) = find (\<lambda>x. N x \<and> P x) xs"
  by (induction xs) auto

lemma find_index: "map_option (\<lambda>i. xs ! i) (find (\<lambda>i. Q (xs ! i)) [0 ..< length xs]) = find Q xs"
proof -
  have "find Q (map (\<lambda>i. xs ! i) [0 ..< length xs]) = map_option (\<lambda>i. xs ! i) (find (\<lambda>i. Q (xs ! i)) [0 ..< length xs])"
    by (simp add: find_map comp_def)
  then show ?thesis by (simp add: map_nth)
qed

text \<open>The formats tell placeholders, short and long entries apart; masks do not reach the format bits.\<close>

lemma opcode_formats:
  "list_all (\<lambda>e. (op_format e \<noteq> OPCODE_FAKE \<and> op_format e AND LONG_OPCODE = 0 \<longleftrightarrow> op_format e AND SHORT_OPCODE \<noteq> 0)
      \<and> (op_format e AND LONG_OPCODE \<noteq> 0 \<longrightarrow> op_format e \<noteq> OPCODE_FAKE) \<and> op_mask e AND 0x3FFFFFFF = op_mask e) d10v_opcodes"
  by code_simp

lemma lookup_hash_find:
  "(case lookup_hash ins sz of Found i \<Rightarrow> Some (Simops ! i) | _ \<Rightarrow> None)
     = map_option write_opcode (find (\<lambda>e. op_format e \<noteq> OPCODE_FAKE \<and> ins AND op_mask e = op_opcode e
         \<and> (op_format e AND LONG_OPCODE \<noteq> 0) = sz) d10v_opcodes)"
proof -
  let ?Q = "\<lambda>so. ins AND so_mask so = so_opcode so \<and> so_is_long so = sz"
  have "(case lookup_hash ins sz of Found i \<Rightarrow> Some (Simops ! i) | _ \<Rightarrow> None)
      = map_option (\<lambda>i. Simops ! i) (find (\<lambda>i. ?Q (Simops ! i)) [0 ..< length Simops])"
    by (auto simp: lookup_hash_search op_matches_def [abs_def] split: option.split)
  also have "\<dots> = find ?Q Simops" by (rule find_index)
  finally show ?thesis by (simp add: Simops_def find_map find_filter comp_def write_opcode_def)
qed

text \<open>
  C26. The disassembler names the instruction that the simulator executes: for every short and every long
  instruction word, the first matching entry of the opcode table, which the disassembler prints, is the one
  that \<open>lookup_hash\<close> finds; and one of them finds nothing if and only if the other does.
\<close>

theorem disassembled_is_executed:
  "map_option write_opcode (dis_short_op ins) = (case lookup_hash ins False of Found i \<Rightarrow> Some (Simops ! i) | _ \<Rightarrow> None)
   \<and> map_option write_opcode (dis_long_op insn)
     = (case lookup_hash (insn AND 0x3FFFFFFF) True of Found i \<Rightarrow> Some (Simops ! i) | _ \<Rightarrow> None)"
proof
  have f: "op_format e \<noteq> OPCODE_FAKE \<and> op_format e AND LONG_OPCODE = 0 \<longleftrightarrow> op_format e AND SHORT_OPCODE \<noteq> 0"
    "op_format e AND LONG_OPCODE \<noteq> 0 \<longrightarrow> op_format e \<noteq> OPCODE_FAKE" "op_mask e AND 0x3FFFFFFF = op_mask e"
    if "e \<in> set d10v_opcodes" for e
    using opcode_formats that by (simp_all add: list_all_iff)
  have "dis_short_op ins = find (\<lambda>e. op_format e \<noteq> OPCODE_FAKE \<and> ins AND op_mask e = op_opcode e
      \<and> (op_format e AND LONG_OPCODE \<noteq> 0) = False) d10v_opcodes"
    unfolding dis_short_op_def by (rule find_cong) (use f(1) in \<open>auto simp: and.commute\<close>)
  then show "map_option write_opcode (dis_short_op ins) = (case lookup_hash ins False of Found i \<Rightarrow> Some (Simops ! i) | _ \<Rightarrow> None)"
    by (simp only: lookup_hash_find)
  have m: "(insn AND 0x3FFFFFFF) AND op_mask e = op_mask e AND insn" if "e \<in> set d10v_opcodes" for e
    using f(3) [OF that] by (metis and.assoc and.commute)
  have "dis_long_op insn = find (\<lambda>e. op_format e \<noteq> OPCODE_FAKE \<and> (insn AND 0x3FFFFFFF) AND op_mask e = op_opcode e
      \<and> (op_format e AND LONG_OPCODE \<noteq> 0) = True) d10v_opcodes"
    unfolding dis_long_op_def by (rule find_cong) (use f(2) m in auto)
  then show "map_option write_opcode (dis_long_op insn)
     = (case lookup_hash (insn AND 0x3FFFFFFF) True of Found i \<Rightarrow> Some (Simops ! i) | _ \<Rightarrow> None)"
    by (simp only: lookup_hash_find)
qed

section \<open>Register names\<close>

text \<open>The numbers that the field of a register operand may hold.\<close>

definition reg_range :: "uint32 \<Rightarrow> uint32 list" where
  "reg_range flags =
     (if flags AND OPERAND_CFLAG \<noteq> 0 then [3]
      else if flags AND (OPERAND_FFLAG OR OPERAND_ACC0 OR OPERAND_ACC1) \<noteq> 0 then [0, 1]
      else map word_of_nat [0 ..< 16])"

definition reg_text :: "pd_reg \<Rightarrow> string" where
  "reg_text r = (case reg_pname r of Some p \<Rightarrow> p | None \<Rightarrow> reg_name r)"

abbreviation (input) "ACC_KINDS \<equiv> OPERAND_ACC0 OR OPERAND_ACC1"

text \<open>The text that is printed for an entry of the register table is read as the value of the entry.\<close>

lemma reg_text_read: "list_all (\<lambda>r. reg_name_search (reg_text r) = Some (reg_value r)) d10v_predefined_registers"
  by code_simp

lemma print_reg_read:
  assumes "reg_num flags n \<in> set (map reg_value d10v_predefined_registers)"
  shows "reg_name_search (print_reg flags n) = Some (reg_num flags n)"
proof -
  obtain r where r: "find (\<lambda>r. reg_num flags n = reg_value r) d10v_predefined_registers = Some r"
    using assms by (cases "find (\<lambda>r. reg_num flags n = reg_value r) d10v_predefined_registers") (auto simp: find_None_iff)
  then have "r \<in> set d10v_predefined_registers" "reg_num flags n = reg_value r" by (auto simp: find_Some_iff)
  then show ?thesis using r reg_text_read by (simp add: print_reg_def Let_def list_all_iff reg_text_def)
qed

text \<open>The text depends on the kind of the register only, and operands have one of six kinds.\<close>

lemma operand_kinds:
  "list_all (\<lambda>d. opnd_flags d AND OPERAND_REG = 0 \<or> opnd_flags d AND (REG_KINDS)
      \<in> set [OPERAND_GPR, OPERAND_CONTROL, OPERAND_FFLAG, OPERAND_CFLAG, ACC_KINDS, OPERAND_ACC0]) d10v_operands"
  by code_simp

lemma reg_num_kind: "reg_num (flags AND (REG_KINDS)) n = reg_num flags n" "reg_range (flags AND (REG_KINDS)) = reg_range flags"
  by (simp_all add: reg_num_def reg_range_def and.assoc)

lemma kinds_in_table:
  "list_all (\<lambda>k. list_all (\<lambda>n. reg_num k n \<in> set (map reg_value d10v_predefined_registers)) (reg_range k))
     [OPERAND_GPR, OPERAND_CONTROL, OPERAND_FFLAG, OPERAND_CFLAG]"
  by code_simp

lemma accumulators_not_read:
  "list_all (\<lambda>k. list_all (\<lambda>n. reg_name_search (print_reg k n) = None) (reg_range k)) [ACC_KINDS, OPERAND_ACC0]"
  by code_simp

lemma print_reg_acc_kind: "flags AND (ACC_KINDS) \<noteq> 0 \<Longrightarrow> print_reg (flags AND (REG_KINDS)) n = print_reg flags n"
  unfolding print_reg_def reg_num_kind by (simp add: and.assoc)

lemma accumulator_text: "print_reg (ACC_KINDS) 0 = ''a2048''" "print_reg (ACC_KINDS) 1 = ''a1025''"
  by code_simp+



end
