(* ===== verification/Gdb_Target.thy ===== *)
theory Gdb_Target
  imports Interp
begin

text \<open>
  The debugger's view of its target, the simulator: integers in target byte order and the register cache
  (\<open>src/src/gdb/findvar.c\<close>), the register and memory operations of the simulator target
  (\<open>src/src/gdb/remote-sim.c\<close>), memory transfers (\<open>src/src/gdb/target.c\<close>, \<open>src/src/gdb/corefile.c\<close>).
  The register layout is that of \<open>src/src/gdb/config/d10v/tm-d10v.h\<close>.
\<close>

section \<open>State\<close>

text \<open>
  \<open>target\<close> is the simulator that \<open>current_target\<close> stands for. \<open>dummy_frame_stack\<close> belongs to
  \<open>blockframe.c\<close>, the trace fields to \<open>d10v-tdep.c\<close>; the two arrays of \<open>trace_data\<close> are empty before they
  are allocated. \<open>inferior_pid\<close> is the process the debugger looks at, \<open>registers_pid\<close> the one whose registers
  the cache holds.
\<close>

type_synonym CORE_ADDR = uint32

record frame_info =
  frame :: CORE_ADDR
  fi_pc :: CORE_ADDR
  return_pc :: CORE_ADDR
  frameless :: bool
  fi_size :: int32

record dummy_frame =
  df_pc :: CORE_ADDR
  df_fp :: CORE_ADDR
  df_sp :: CORE_ADDR
  df_regs :: "uint8 list"

record trace_buffer =
  tb_size :: nat
  counts :: "int16 list"
  addrs :: "CORE_ADDR list"

record gdb =
  registers :: "uint8 list"
  register_valid :: "bool list"
  registers_pid :: int
  inferior_pid :: int
  program_loaded :: bool
  target :: sim
  current_frame :: "frame_info option"
  dummy_frame_stack :: "dummy_frame list"
  tracing :: bool
  last_pc :: CORE_ADDR
  trace_data :: trace_buffer

text \<open>
  What ends a command: a call of \<open>error\<close> returns to the command loop with the state as it is then. A write
  behind an array of the debugger is a value as well, \<open>Overrun\<close>.
\<close>

datatype gdb_fault =
    Memory_error CORE_ADDR | No_program | Integer_too_long | No_dummy_frame | Overrun nat | Abort

type_synonym 'a action = "gdb \<Rightarrow> (gdb_fault + 'a) \<times> gdb"

definition gret :: "'a \<Rightarrow> 'a action" where
  "gret x g = (Inr x, g)"

definition graise :: "gdb_fault \<Rightarrow> 'a action" where
  "graise e g = (Inl e, g)"

definition gbind :: "'a action \<Rightarrow> ('a \<Rightarrow> 'b action) \<Rightarrow> 'b action" where
  "gbind m f g = (case m g of (Inl e, g') \<Rightarrow> (Inl e, g') | (Inr x, g') \<Rightarrow> f x g')"

text \<open>An operation that cannot fail, and one that only changes the state.\<close>

definition gstate :: "(gdb \<Rightarrow> 'a \<times> gdb) \<Rightarrow> 'a action" where
  "gstate f g = (let (x, g') = f g in (Inr x, g'))"

definition gupd :: "(gdb \<Rightarrow> gdb) \<Rightarrow> unit action" where
  "gupd f g = (Inr (), f g)"

definition gcheck :: "gdb_fault + 'a \<Rightarrow> 'a action" where
  "gcheck r g = (r, g)"

fun gfor :: "'a list \<Rightarrow> ('a \<Rightarrow> unit action) \<Rightarrow> unit action" where
  "gfor [] f = gret ()"
| "gfor (x # xs) f = gbind (f x) (\<lambda>_. gfor xs f)"

lemmas action_defs = gret_def graise_def gbind_def gstate_def gupd_def gcheck_def

section \<open>Integers in target byte order\<close>

text \<open>\<open>LONGEST\<close> is the \<open>long long\<close> of the host; the target is big-endian.\<close>

definition extract_signed_integer :: "uint8 list \<Rightarrow> nat \<Rightarrow> gdb_fault + int64" where
  "extract_signed_integer addr len =
     (if len > 8 then Inl Integer_too_long
      else Inr (fold (\<lambda>b retval. push_bit 8 retval OR ucast b) (take (len - 1) (tl addr))
             ((ucast (hd addr) XOR 0x80) - 0x80)))"

definition extract_unsigned_integer :: "uint8 list \<Rightarrow> nat \<Rightarrow> gdb_fault + uint64" where
  "extract_unsigned_integer addr len =
     (if len > 8 then Inl Integer_too_long
      else Inr (fold (\<lambda>b retval. push_bit 8 retval OR ucast b) (take len addr) 0))"

definition extract_address :: "uint8 list \<Rightarrow> nat \<Rightarrow> gdb_fault + CORE_ADDR" where
  "extract_address addr len = map_sum id ucast (extract_unsigned_integer addr len)"

text \<open>The bytes that the stores write, the last one first in the loop.\<close>

fun store_signed_integer :: "nat \<Rightarrow> int64 \<Rightarrow> uint8 list" where
  "store_signed_integer 0 val = []"
| "store_signed_integer (Suc len) val = store_signed_integer len (signed_drop_bit 8 val) @ [ucast (val AND 0xff)]"

fun store_unsigned_integer :: "nat \<Rightarrow> uint64 \<Rightarrow> uint8 list" where
  "store_unsigned_integer 0 val = []"
| "store_unsigned_integer (Suc len) val = store_unsigned_integer len (drop_bit 8 val) @ [ucast (val AND 0xff)]"

definition store_address :: "nat \<Rightarrow> CORE_ADDR \<Rightarrow> uint8 list" where
  "store_address len val = store_unsigned_integer len (ucast val)"

text \<open>A store of \<open>bytes\<close> at offset \<open>at\<close> of an array, and one into a local array of \<open>n\<close> bytes.\<close>

definition splice :: "nat \<Rightarrow> uint8 list \<Rightarrow> uint8 list \<Rightarrow> uint8 list" where
  "splice at bytes buf = take at buf @ bytes @ drop (at + length bytes) buf"

definition local_store :: "nat \<Rightarrow> uint8 list \<Rightarrow> gdb_fault + uint8 list" where
  "local_store n bytes = (if length bytes \<le> n then Inr bytes else Inl (Overrun (length bytes)))"

section \<open>The register cache\<close>

abbreviation (input) "NUM_REGS \<equiv> 37 :: nat"
abbreviation (input) "R0_REGNUM \<equiv> 0 :: nat"
abbreviation (input) "FP_REGNUM \<equiv> 11 :: nat"
abbreviation (input) "LR_REGNUM \<equiv> 13 :: nat"
abbreviation (input) "SP_REGNUM \<equiv> 15 :: nat"
abbreviation (input) "PSW_REGNUM \<equiv> 16 :: nat"
abbreviation (input) "PC_REGNUM \<equiv> 18 :: nat"
abbreviation (input) "IMAP0_REGNUM \<equiv> 32 :: nat"
abbreviation (input) "IMAP1_REGNUM \<equiv> 33 :: nat"
abbreviation (input) "DMAP_REGNUM \<equiv> 34 :: nat"
abbreviation (input) "A0_REGNUM \<equiv> 35 :: nat"
abbreviation (input) "ARG1_REGNUM \<equiv> R0_REGNUM"
abbreviation (input) "ARGN_REGNUM \<equiv> 3 :: nat"
abbreviation (input) "RET1_REGNUM \<equiv> R0_REGNUM"

definition REGISTER_BYTES :: nat where
  "REGISTER_BYTES = (NUM_REGS - 2) * 2 + 16"

definition REGISTER_BYTE :: "nat \<Rightarrow> nat" where
  "REGISTER_BYTE n = (if n > A0_REGNUM then (n - A0_REGNUM) * 8 + A0_REGNUM * 2 else n * 2)"

definition REGISTER_RAW_SIZE :: "nat \<Rightarrow> nat" where
  "REGISTER_RAW_SIZE n = (if n \<ge> A0_REGNUM then 8 else 2)"

definition registers_changed :: "gdb \<Rightarrow> gdb" where
  "registers_changed g = g\<lparr>registers_pid := -1, register_valid := replicate NUM_REGS False\<rparr>"

definition registers_fetched :: "gdb \<Rightarrow> gdb" where
  "registers_fetched g = g\<lparr>register_valid := replicate NUM_REGS True\<rparr>"

definition sync_pid :: "gdb \<Rightarrow> gdb" where
  "sync_pid g =
     (if registers_pid g \<noteq> inferior_pid g then (registers_changed g)\<lparr>registers_pid := inferior_pid g\<rparr> else g)"

definition reg_bytes :: "nat \<Rightarrow> uint8 list \<Rightarrow> uint8 list" where
  "reg_bytes regno rs = take (REGISTER_RAW_SIZE regno) (drop (REGISTER_BYTE regno) rs)"

definition set_cached :: "nat \<Rightarrow> uint8 list \<Rightarrow> gdb \<Rightarrow> gdb" where
  "set_cached regno bytes g =
     g\<lparr>registers := splice (REGISTER_BYTE regno) (take (REGISTER_RAW_SIZE regno) bytes) (registers g),
       register_valid := (register_valid g)[regno := True]\<rparr>"

definition supply_register :: "nat \<Rightarrow> uint8 list \<Rightarrow> gdb \<Rightarrow> gdb" where
  "supply_register regno val g = set_cached regno val (sync_pid g)"

text \<open>
  The simulator fills a local buffer; the model's \<open>sim_fetch_register\<close> writes at a pointer, so the buffer is a
  block of memory of its own here.
\<close>

definition sim_register :: "nat \<Rightarrow> sim \<Rightarrow> uint8 list" where
  "sim_register regno s = copy_out (Dmem 0) 8 (sim_fetch_register regno (Dmem 0) (\<lambda>_. 0) s)"

definition gdbsim_fetch_register :: "nat \<Rightarrow> gdb \<Rightarrow> gdb" where
  "gdbsim_fetch_register regno g = supply_register regno (sim_register regno (target g)) g"

definition read_register_gen :: "nat \<Rightarrow> gdb \<Rightarrow> uint8 list \<times> gdb" where
  "read_register_gen regno g =
     (let g = sync_pid g; g = (if register_valid g ! regno then g else gdbsim_fetch_register regno g)
      in (reg_bytes regno (registers g), g))"

definition gdbsim_store_register :: "nat \<Rightarrow> gdb \<Rightarrow> gdb" where
  "gdbsim_store_register regno g =
     (let (tmp, g) = read_register_gen regno g
      in g\<lparr>target := sim_store_register regno (Dmem 0) (copy_in (Dmem 0) tmp (\<lambda>_. 0)) (target g)\<rparr>)"

text \<open>The calls with register number -1.\<close>

definition gdbsim_fetch_registers :: "gdb \<Rightarrow> gdb" where
  "gdbsim_fetch_registers g = fold gdbsim_fetch_register [0 ..< NUM_REGS] g"

definition gdbsim_store_registers :: "gdb \<Rightarrow> gdb" where
  "gdbsim_store_registers g = fold gdbsim_store_register [0 ..< NUM_REGS] g"

definition read_register :: "nat \<Rightarrow> gdb \<Rightarrow> CORE_ADDR \<times> gdb" where
  "read_register regno g =
     (let (b, g) = read_register_gen regno g
      in (case extract_address b (REGISTER_RAW_SIZE regno) of Inl _ \<Rightarrow> 0 | Inr a \<Rightarrow> a, g))"

definition write_cached :: "nat \<Rightarrow> uint8 list \<Rightarrow> gdb \<Rightarrow> gdb" where
  "write_cached regno buf g =
     (let g = sync_pid g in
      if register_valid g ! regno \<and> reg_bytes regno (registers g) = take (REGISTER_RAW_SIZE regno) buf then g
      else gdbsim_store_register regno (set_cached regno buf g))"

definition write_register_gen :: "nat \<Rightarrow> uint8 list \<Rightarrow> gdb \<Rightarrow> gdb" where
  "write_register_gen regno myaddr g = write_cached regno myaddr g"

definition write_register :: "nat \<Rightarrow> int64 \<Rightarrow> gdb \<Rightarrow> gdb" where
  "write_register regno val g = write_cached regno (store_signed_integer (REGISTER_RAW_SIZE regno) val) g"

definition with_pid :: "int \<Rightarrow> (gdb \<Rightarrow> 'a \<times> gdb) \<Rightarrow> gdb \<Rightarrow> 'a \<times> gdb" where
  "with_pid pid f g = (let (x, g') = f (g\<lparr>inferior_pid := pid\<rparr>) in (x, g'\<lparr>inferior_pid := inferior_pid g\<rparr>))"

definition read_register_pid :: "nat \<Rightarrow> int \<Rightarrow> gdb \<Rightarrow> CORE_ADDR \<times> gdb" where
  "read_register_pid regno pid g =
     (if pid = inferior_pid g then read_register regno g else with_pid pid (read_register regno) g)"

definition write_register_pid :: "nat \<Rightarrow> int64 \<Rightarrow> int \<Rightarrow> gdb \<Rightarrow> gdb" where
  "write_register_pid regno val pid g =
     (if pid = inferior_pid g then write_register regno val g
      else snd (with_pid pid (\<lambda>g. ((), write_register regno val g)) g))"

text \<open>Whether the bytes of a register and a range of the register array overlap at an end of the register.\<close>

definition startin :: "nat \<Rightarrow> nat \<Rightarrow> nat \<Rightarrow> bool" where
  "startin regno b e \<longleftrightarrow> REGISTER_BYTE regno \<ge> b \<and> REGISTER_BYTE regno < e"

definition endin :: "nat \<Rightarrow> nat \<Rightarrow> nat \<Rightarrow> bool" where
  "endin regno b e \<longleftrightarrow>
     (let regend = REGISTER_BYTE regno + REGISTER_RAW_SIZE regno in regend > b \<and> regend \<le> e)"

definition fetch_if_needed :: "nat \<Rightarrow> nat \<Rightarrow> nat \<Rightarrow> gdb \<Rightarrow> gdb" where
  "fetch_if_needed b e regno g =
     (if register_valid g ! regno \<or> \<not> startin regno b e \<and> \<not> endin regno b e then g
      else gdbsim_fetch_register regno g)"

definition read_register_bytes :: "nat \<Rightarrow> nat \<Rightarrow> gdb \<Rightarrow> uint8 list \<times> gdb" where
  "read_register_bytes inregbyte inlen g =
     (let g = fold (fetch_if_needed inregbyte (inregbyte + inlen)) [0 ..< NUM_REGS] (sync_pid g)
      in (take inlen (drop inregbyte (registers g)), g))"

definition write_if_covered :: "nat \<Rightarrow> uint8 list \<Rightarrow> nat \<Rightarrow> gdb \<Rightarrow> gdb" where
  "write_if_covered b myaddr regno g =
     (let e = b + length myaddr; regstart = REGISTER_BYTE regno;
          regend = regstart + REGISTER_RAW_SIZE regno in
      if \<not> startin regno b e \<and> \<not> endin regno b e then g
      else if startin regno b e \<and> endin regno b e then write_register_gen regno (drop (regstart - b) myaddr) g
      else
        (let g = snd (read_register_gen regno g);
             g = g\<lparr>registers :=
                    (if startin regno b e
                     then splice regstart (take (e - regstart) (drop (regstart - b) myaddr)) (registers g)
                     else splice b (take (regend - b) myaddr) (registers g))\<rparr>
         in gdbsim_store_register regno g))"

definition write_register_bytes :: "nat \<Rightarrow> uint8 list \<Rightarrow> gdb \<Rightarrow> gdb" where
  "write_register_bytes myregstart myaddr g = fold (write_if_covered myregstart myaddr) [0 ..< NUM_REGS] g"

section \<open>Memory\<close>

definition gdbsim_xfer_inferior_memory :: "CORE_ADDR \<Rightarrow> uint8 list \<Rightarrow> bool \<Rightarrow> (nat \<times> uint8 list) action" where
  "gdbsim_xfer_inferior_memory memaddr myaddr write g =
     (if \<not> program_loaded g then (Inl No_program, g)
      else let (k, b, s) = (if write then sim_write else sim_read) memaddr myaddr (length myaddr) (target g)
           in (Inr (k, b), g\<lparr>target := s\<rparr>))"

text \<open>
  The simulator is the only target that is asked: it claims all memory. \<open>target_xfer_memory\<close> gives it the
  rest of a transfer again as long as it moves something; the answer is the buffer, or \<open>None\<close> for an error
  number.
\<close>

function target_xfer_loop :: "CORE_ADDR \<Rightarrow> uint8 list \<Rightarrow> bool \<Rightarrow> uint8 list option action" where
  "target_xfer_loop memaddr myaddr write g =
     (if myaddr = [] then (Inr (Some []), g)
      else case gdbsim_xfer_inferior_memory memaddr myaddr write g of
        (Inl e, g) \<Rightarrow> (Inl e, g)
      | (Inr (res, b), g) \<Rightarrow>
          if res = 0 then (Inr None, g)
          else case target_xfer_loop (memaddr + of_nat res) (drop res myaddr) write g of
            (Inl e, g) \<Rightarrow> (Inl e, g)
          | (Inr None, g) \<Rightarrow> (Inr None, g)
          | (Inr (Some rest), g) \<Rightarrow> (Inr (Some (take res b @ rest)), g))"
  by pat_completeness auto

termination
  by (relation "measure (\<lambda>(_, myaddr, _, _). length myaddr)") (auto simp: neq_Nil_conv)

definition target_xfer_memory :: "CORE_ADDR \<Rightarrow> uint8 list \<Rightarrow> bool \<Rightarrow> uint8 list option action" where
  "target_xfer_memory memaddr myaddr write =
     gbind (gdbsim_xfer_inferior_memory memaddr myaddr write)
       (\<lambda>(res, b). if res = length myaddr then gret (Some b)
                   else if res > 0
                   then gbind (target_xfer_loop (memaddr + of_nat res) (drop res myaddr) write)
                          (\<lambda>r. gret (map_option ((@) (take res b)) r))
                   else target_xfer_loop memaddr myaddr write)"

definition read_memory :: "CORE_ADDR \<Rightarrow> nat \<Rightarrow> uint8 list action" where
  "read_memory memaddr len =
     gbind (target_xfer_memory memaddr (replicate len 0) False)
       (\<lambda>r. case r of None \<Rightarrow> graise (Memory_error memaddr) | Some b \<Rightarrow> gret b)"

definition write_memory :: "CORE_ADDR \<Rightarrow> uint8 list \<Rightarrow> unit action" where
  "write_memory memaddr myaddr =
     gbind (target_xfer_memory memaddr myaddr True)
       (\<lambda>r. case r of None \<Rightarrow> graise (Memory_error memaddr) | Some b \<Rightarrow> gret ())"

definition read_memory_integer :: "CORE_ADDR \<Rightarrow> nat \<Rightarrow> int64 action" where
  "read_memory_integer memaddr len =
     gbind (read_memory memaddr len) (\<lambda>b. gcheck (extract_signed_integer b len))"

definition read_memory_unsigned_integer :: "CORE_ADDR \<Rightarrow> nat \<Rightarrow> uint64 action" where
  "read_memory_unsigned_integer memaddr len =
     gbind (read_memory memaddr len) (\<lambda>b. gcheck (extract_unsigned_integer b len))"

end
