(* ===== verification/Gdb_D10V.thy ===== *)
theory Gdb_D10V
  imports Gdb_Target
begin

text \<open>
  The debugger's support for the D10V, \<open>src/src/gdb/d10v-tdep.c\<close> with \<open>src/src/gdb/config/d10v/tm-d10v.h\<close>:
  addresses, the analysis of function prologues, frames. The symbol table is a parameter: the functions of gdb
  that look something up in it are the fields of \<open>symtab\<close>. A frame is a value, and a function that fills in
  its fields returns it.
\<close>

section \<open>Addresses\<close>

abbreviation (input) "DMEM_START \<equiv> 0x0000000 :: CORE_ADDR"
abbreviation (input) "IMEM_START \<equiv> 0x1000000 :: CORE_ADDR"
abbreviation (input) "STACK_START \<equiv> 0x0007ffe :: CORE_ADDR"

definition D10V_MAKE_DADDR :: "CORE_ADDR \<Rightarrow> CORE_ADDR" where
  "D10V_MAKE_DADDR x = x OR DMEM_START"

definition D10V_MAKE_IADDR :: "CORE_ADDR \<Rightarrow> CORE_ADDR" where
  "D10V_MAKE_IADDR x = push_bit 2 x OR IMEM_START"

definition D10V_DADDR_P :: "CORE_ADDR \<Rightarrow> bool" where
  "D10V_DADDR_P x \<longleftrightarrow> x AND 0x3000000 = DMEM_START"

definition D10V_IADDR_P :: "CORE_ADDR \<Rightarrow> bool" where
  "D10V_IADDR_P x \<longleftrightarrow> x AND 0x3000000 = IMEM_START"

definition D10V_CONVERT_IADDR_TO_RAW :: "CORE_ADDR \<Rightarrow> CORE_ADDR" where
  "D10V_CONVERT_IADDR_TO_RAW x = drop_bit 2 x AND 0xffff"

definition D10V_CONVERT_DADDR_TO_RAW :: "CORE_ADDR \<Rightarrow> CORE_ADDR" where
  "D10V_CONVERT_DADDR_TO_RAW x = x AND 0xffff"

text \<open>
  The user sees the program counter and the stack pointer as addresses; the conversions are between the bytes
  of the raw register and of a value of the given length.
\<close>

definition REGISTER_CONVERTIBLE :: "nat \<Rightarrow> bool" where
  "REGISTER_CONVERTIBLE n \<longleftrightarrow> n = PC_REGNUM \<or> n = SP_REGNUM"

definition REGISTER_CONVERT_TO_VIRTUAL :: "nat \<Rightarrow> nat \<Rightarrow> uint8 list \<Rightarrow> gdb_fault + uint8 list" where
  "REGISTER_CONVERT_TO_VIRTUAL regnum len b =
     (case extract_unsigned_integer b (REGISTER_RAW_SIZE regnum) of
        Inl e \<Rightarrow> Inl e
      | Inr x \<Rightarrow> Inr (store_unsigned_integer len
                   (if regnum = PC_REGNUM then push_bit 2 x OR ucast IMEM_START else x OR ucast DMEM_START)))"

definition REGISTER_CONVERT_TO_RAW :: "nat \<Rightarrow> nat \<Rightarrow> uint8 list \<Rightarrow> gdb_fault + uint8 list" where
  "REGISTER_CONVERT_TO_RAW regnum len b =
     (case extract_unsigned_integer b len of
        Inl e \<Rightarrow> Inl e
      | Inr x \<Rightarrow> (let x = x AND 0x3ffff; x = (if regnum = PC_REGNUM then drop_bit 2 x else x)
                 in Inr (store_unsigned_integer 2 x)))"

record symtab =
  find_pc_partial_function :: "CORE_ADDR \<Rightarrow> (CORE_ADDR \<times> CORE_ADDR) option"
  find_pc_line_end :: "CORE_ADDR \<Rightarrow> CORE_ADDR"
  get_pc_function_start :: "CORE_ADDR \<Rightarrow> CORE_ADDR"
  inside_entry_file :: "CORE_ADDR \<Rightarrow> bool"
  entry_point_address :: CORE_ADDR

section \<open>Registers with a meaning\<close>

definition d10v_read_pc :: "int \<Rightarrow> gdb \<Rightarrow> CORE_ADDR \<times> gdb" where
  "d10v_read_pc pid g = (let (pc, g) = with_pid pid (read_register PC_REGNUM) g in (D10V_MAKE_IADDR pc, g))"

definition d10v_write_pc :: "CORE_ADDR \<Rightarrow> int \<Rightarrow> gdb \<Rightarrow> gdb" where
  "d10v_write_pc val pid g =
     snd (with_pid pid (\<lambda>g. ((), write_register PC_REGNUM (ucast (D10V_CONVERT_IADDR_TO_RAW val)) g)) g)"

definition d10v_read_sp :: "gdb \<Rightarrow> CORE_ADDR \<times> gdb" where
  "d10v_read_sp g = apfst D10V_MAKE_DADDR (read_register SP_REGNUM g)"

definition d10v_write_sp :: "CORE_ADDR \<Rightarrow> gdb \<Rightarrow> gdb" where
  "d10v_write_sp val g = write_register SP_REGNUM (ucast (D10V_CONVERT_DADDR_TO_RAW val)) g"

definition d10v_read_fp :: "gdb \<Rightarrow> CORE_ADDR \<times> gdb" where
  "d10v_read_fp g = apfst D10V_MAKE_DADDR (read_register FP_REGNUM g)"

definition d10v_write_fp :: "CORE_ADDR \<Rightarrow> gdb \<Rightarrow> gdb" where
  "d10v_write_fp val g = write_register FP_REGNUM (ucast (D10V_CONVERT_DADDR_TO_RAW val)) g"

section \<open>The end of a prologue\<close>

definition check_prologue :: "uint16 \<Rightarrow> bool" where
  "check_prologue op \<longleftrightarrow>
     op AND 0x7E1F = 0x6C1F \<or> op AND 0x7E3F = 0x6E1F \<or> op AND 0x7FE1 = 0x01E1 \<or> op = 0x417E
     \<or> op = 0x5E00 \<or> op AND 0x7E1F = 0x681E \<or> op AND 0x7E3F = 0x3A1E"

text \<open>The two short instructions of a word, in the order of their execution.\<close>

definition split_word :: "uint32 \<Rightarrow> uint16 \<times> uint16" where
  "split_word op =
     (let left = ucast (drop_bit 15 (op AND 0x3FFF8000)); right = ucast (op AND 0x7FFF)
      in if op AND 0xC0000000 = 0x80000000 then (right, left) else (left, right))"

text \<open>What one turn of the loop does: go on, stop here, or stop after this word.\<close>

datatype scan_step = Go_on | Stop_here | Stop_after

definition skip_word :: "uint32 \<Rightarrow> scan_step" where
  "skip_word op =
     (if op AND 0xC0000000 = 0xC0000000 then
        (if op AND 0x3FFF0000 \<noteq> 0x01FF0000 \<and> op AND 0x3F0F0000 \<noteq> 0x340F0000 \<and> op AND 0x3F1F0000 \<noteq> 0x350F0000
         then Stop_here else Go_on)
      else (let (op1, op2) = split_word op in
        if check_prologue op1 then
          (if \<not> check_prologue op2 then (if op1 \<noteq> 0x5E00 then Stop_after else Stop_here) else Go_on)
        else Stop_here))"

text \<open>
  The scans read one word after another. They end because memory does: the simulator has no memory from
  address \<open>0x13000000\<close> on (and none between the instruction and the physical segments).
\<close>

definition has_segment :: "CORE_ADDR \<Rightarrow> bool" where
  "has_segment a \<longleftrightarrow> drop_bit 24 a \<le> 0x12"

lemma read_outside:
  assumes "\<not> has_segment a" and "0 < len"
  shows "\<exists>e g'. read_memory a len g = (Inl e, g')"
proof -
  have seg: "drop_bit 24 a \<noteq> 0" "drop_bit 24 a \<noteq> 1" "drop_bit 24 a \<noteq> 0x10" "drop_bit 24 a \<noteq> 0x11"
    "drop_bit 24 a \<noteq> 0x12"
    using assms(1) by (auto simp: has_segment_def)
  have m: "(0xff :: uint32) = mask 8" by (simp add: mask_eq_exp_minus_1)
  have "drop_bit 24 a AND 0xff = drop_bit 24 a"
    unfolding m using bit_imp_le_length [of a] by (intro bit_word_eqI) (fastforce simp: bit_simps)
  then have "xfer_mem a b n False s = (0, b, s)" for b n s
    using seg by (simp add: xfer_mem_def Let_def)
  then show ?thesis
    using assms(2) by (auto simp: read_memory_def target_xfer_memory_def gdbsim_xfer_inferior_memory_def sim_read_def
        action_defs Let_def)
qed

lemma read_integer_segment:
  assumes "read_memory_integer a 4 g = (Inr x, g')"
  shows "has_segment a"
  using assms read_outside [of a 4 g]
  by (cases "has_segment a") (auto simp: read_memory_integer_def gbind_def)

lemma has_segment_less: "has_segment a \<Longrightarrow> unat a < 0x13000000"
proof -
  assume "has_segment a"
  then have "unat (drop_bit 24 a) \<le> 0x12" by (simp add: has_segment_def word_le_nat_alt)
  then have "unat a div 2 ^ 24 \<le> 0x12" unfolding unat_drop_bit_eq by (simp only: drop_bit_eq_div)
  then show ?thesis by simp
qed

lemma next_word:
  assumes "has_segment a"
  shows "unat (a + 4) = unat a + 4"
  using has_segment_less [OF assms] by (simp add: unat_word_ariths)

lemma scan_decreases [simp]: "has_segment a \<Longrightarrow> 0x100000000 - unat (a + 4) < 0x100000000 - unat a"
  using has_segment_less [of a] by (simp add: next_word)

function skip_prologue_loop :: "CORE_ADDR \<Rightarrow> CORE_ADDR action" where
  "skip_prologue_loop pc g =
     (case read_memory_integer pc 4 g of
        (Inl e, g) \<Rightarrow> (Inl e, g)
      | (Inr op, g) \<Rightarrow>
          (case skip_word (ucast op) of
             Stop_here \<Rightarrow> (Inr pc, g)
           | Stop_after \<Rightarrow> (Inr (pc + 4), g)
           | Go_on \<Rightarrow> skip_prologue_loop (pc + 4) g))"
  by pat_completeness auto

termination
  by (relation "measure (\<lambda>(pc, g). 2 ^ 32 - unat pc)") (auto dest!: sym [of "(Inr _, _)"] read_integer_segment)

definition d10v_skip_prologue :: "symtab \<Rightarrow> CORE_ADDR \<Rightarrow> CORE_ADDR action" where
  "d10v_skip_prologue st pc =
     (case find_pc_partial_function st pc of
        Some (func_addr, func_end) \<Rightarrow>
          if find_pc_line_end st func_addr \<noteq> 0 \<and> find_pc_line_end st func_addr < func_end
          then gret (find_pc_line_end st func_addr)
          else gbind (target_xfer_memory pc (replicate 4 0) False)
                 (\<lambda>r. if r = None then gret pc else skip_prologue_loop pc)
      | None \<Rightarrow> gbind (target_xfer_memory pc (replicate 4 0) False)
                 (\<lambda>r. if r = None then gret pc else skip_prologue_loop pc))"

section \<open>Where a prologue saves registers\<close>

text \<open>
  The scan keeps the stack offset \<open>next_addr\<close> (a static variable), whether the frame pointer is set up, and
  for each register the offset at which it was saved, 0 when it was not.
\<close>

record scan =
  fsr :: "CORE_ADDR list"
  next_addr :: int32
  uses_frame :: bool

definition scan_start :: scan where
  "scan_start = \<lparr>fsr = replicate NUM_REGS 0, next_addr = 0, uses_frame = False\<rparr>"

definition save_reg :: "nat \<Rightarrow> CORE_ADDR \<Rightarrow> scan \<Rightarrow> scan" where
  "save_reg n a sc = sc\<lparr>fsr := (fsr sc)[n := a]\<rparr>"

definition prologue_find_regs :: "uint16 \<Rightarrow> scan \<Rightarrow> bool \<times> scan" where
  "prologue_find_regs op sc =
     (let n = unat (drop_bit 5 (op AND 0x1E0)) in
      if op AND 0x7E1F = 0x6C1F then
        (let a = next_addr sc - 2 in (True, save_reg n a (sc\<lparr>next_addr := a\<rparr>)))
      else if op AND 0x7E3F = 0x6E1F then
        (let a = next_addr sc - 4 in (True, save_reg (n + 1) (a + 2) (save_reg n a (sc\<lparr>next_addr := a\<rparr>))))
      else if op AND 0x7FE1 = 0x01E1 then
        (let k = drop_bit 1 (op AND 0x1E); k = (if k = 0 then 16 else k)
         in (True, sc\<lparr>next_addr := next_addr sc - ucast k\<rparr>))
      else if op = 0x417E then (True, sc\<lparr>uses_frame := True\<rparr>)
      else if op = 0x5E00 then (True, sc)
      else if op AND 0x7E1F = 0x681E then (True, save_reg n (next_addr sc) sc)
      else if op AND 0x7E3F = 0x3A1E then
        (True, save_reg (n + 1) (next_addr sc + 2) (save_reg n (next_addr sc) sc))
      else (False, sc))"

text \<open>One word of the scan; the flag says whether the loop goes on.\<close>

definition find_regs_word :: "uint32 \<Rightarrow> scan \<Rightarrow> bool \<times> scan" where
  "find_regs_word op sc =
     (if op AND 0xC0000000 = 0xC0000000 then
        (let n = unat (drop_bit 20 op AND 0xF); off = scast (ucast op :: int16) :: int32 in
         if op AND 0x3FFF0000 = 0x01FF0000 then (True, sc\<lparr>next_addr := next_addr sc + off\<rparr>)
         else if op AND 0x3F0F0000 = 0x340F0000 then (True, save_reg n (next_addr sc + off) sc)
         else if op AND 0x3F1F0000 = 0x350F0000 then
           (True, save_reg (n + 1) (next_addr sc + off + 2) (save_reg n (next_addr sc + off) sc))
         else (False, sc))
      else (let (op1, op2) = split_word op; (ok, sc) = prologue_find_regs op1 sc
            in if ok then prologue_find_regs op2 sc else (False, sc)))"

function find_regs_loop :: "CORE_ADDR \<Rightarrow> scan \<Rightarrow> scan action" where
  "find_regs_loop pc sc g =
     (case read_memory_integer pc 4 g of
        (Inl e, g) \<Rightarrow> (Inl e, g)
      | (Inr op, g) \<Rightarrow>
          (case find_regs_word (ucast op) sc of
             (False, sc) \<Rightarrow> (Inr sc, g)
           | (True, sc) \<Rightarrow> find_regs_loop (pc + 4) sc g))"
  by pat_completeness auto

termination
  by (relation "measure (\<lambda>(pc, sc, g). 2 ^ 32 - unat pc)") (auto dest!: sym [of "(Inr _, _)"] read_integer_segment)

declare skip_prologue_loop.simps [simp del] find_regs_loop.simps [simp del]

text \<open>
  After the loop: the offsets become addresses, then the return address and the stack pointer of the caller.
  The result is the frame with the fields filled in and the addresses of its saved registers.
\<close>

definition saved_addr :: "CORE_ADDR \<Rightarrow> scan \<Rightarrow> nat \<Rightarrow> CORE_ADDR" where
  "saved_addr fp sc i =
     (let a = fsr sc ! i in if i < NUM_REGS - 1 \<and> a \<noteq> 0 then fp - (next_addr sc - a) else a)"

definition find_return_pc :: "CORE_ADDR list \<Rightarrow> CORE_ADDR action" where
  "find_return_pc saved =
     (if saved ! LR_REGNUM \<noteq> 0
      then gbind (read_memory_unsigned_integer (saved ! LR_REGNUM) (REGISTER_RAW_SIZE LR_REGNUM))
             (\<lambda>a. gret (D10V_MAKE_IADDR (ucast a)))
      else gbind (gstate (read_register LR_REGNUM)) (\<lambda>a. gret (D10V_MAKE_IADDR a)))"

definition d10v_frame_find_saved_regs :: "symtab \<Rightarrow> frame_info \<Rightarrow> (frame_info \<times> CORE_ADDR list) action" where
  "d10v_frame_find_saved_regs st fi =
     gbind (find_regs_loop (get_pc_function_start st (fi_pc fi)) scan_start) (\<lambda>sc.
     gbind (if frame fi AND 0xffff = 0
            then gbind (gstate (read_register SP_REGNUM)) (\<lambda>a. gret (D10V_MAKE_DADDR a))
            else gret (frame fi)) (\<lambda>fp.
     let fi = fi\<lparr>fi_size := - next_addr sc\<rparr>; saved = map (saved_addr fp sc) [0 ..< NUM_REGS] in
     gbind (find_return_pc saved) (\<lambda>rpc.
     let fi = fi\<lparr>return_pc := rpc\<rparr> in
     if saved ! SP_REGNUM \<noteq> 0 then gret (fi, saved)
     else if uses_frame sc then
       gbind (gstate (read_register FP_REGNUM)) (\<lambda>a. gret (fi, saved[SP_REGNUM := a + fi_size fi]))
     else gret (fi\<lparr>frameless := True\<rparr>, saved[SP_REGNUM := fp + fi_size fi, FP_REGNUM := 0]))))"

definition d10v_frame_chain :: "symtab \<Rightarrow> frame_info \<Rightarrow> (CORE_ADDR \<times> frame_info) action" where
  "d10v_frame_chain st fi =
     gbind (d10v_frame_find_saved_regs st fi) (\<lambda>(fi, saved).
     if return_pc fi = IMEM_START \<or> inside_entry_file st (return_pc fi) then gret (0, fi)
     else if saved ! FP_REGNUM = 0 then
       gret (if saved ! SP_REGNUM = 0 \<or> saved ! SP_REGNUM = STACK_START then 0 else saved ! SP_REGNUM, fi)
     else gbind (read_memory_unsigned_integer (saved ! FP_REGNUM) (REGISTER_RAW_SIZE FP_REGNUM)) (\<lambda>v.
       if v = 0 then gret (0, fi)
       else gbind (read_memory_unsigned_integer (saved ! FP_REGNUM) (REGISTER_RAW_SIZE FP_REGNUM))
              (\<lambda>v. gret (D10V_MAKE_DADDR (ucast v), fi))))"

definition FRAME_CHAIN_VALID :: "CORE_ADDR \<Rightarrow> frame_info \<Rightarrow> bool" where
  "FRAME_CHAIN_VALID chain fi \<longleftrightarrow> chain \<noteq> 0 \<and> fi_pc fi > IMEM_START"

definition SAVED_PC_AFTER_CALL :: "gdb \<Rightarrow> CORE_ADDR \<times> gdb" where
  "SAVED_PC_AFTER_CALL g = apfst D10V_MAKE_IADDR (read_register LR_REGNUM g)"

end
