(* ===== verification/Gdb_Remote.thy ===== *)
theory Gdb_Remote
  imports Gdb_D10V
begin

text \<open>
  What the debugger does for the D10V evaluation board: the translation of addresses
  (\<open>src/src/gdb/remote-d10v.c\<close>) and the trace buffer (\<open>src/src/gdb/d10v-tdep.c\<close>).
\<close>

section \<open>Addresses of the remote board\<close>

abbreviation (input) "targ_unified \<equiv> 0x00000000 :: CORE_ADDR"
abbreviation (input) "targ_insn \<equiv> 0x01000000 :: CORE_ADDR"
abbreviation (input) "targ_data \<equiv> 0x02000000 :: CORE_ADDR"

text \<open>
  The address for the board and the number of bytes that can be transferred from there, 0 when the address is
  not supported. A map register is a \<open>short\<close>, promoted to \<open>int\<close>.
\<close>

definition data_window :: "int32 \<Rightarrow> CORE_ADDR \<Rightarrow> CORE_ADDR" where
  "data_window map_reg off =
     (if map_reg AND 0x1000 \<noteq> 0 then targ_insn OR push_bit 14 (map_reg AND 0xf) OR (off AND 0x3fff)
      else targ_unified OR push_bit 14 (map_reg AND 0x3ff) OR (off AND 0x3fff))"

definition translate_data :: "int32 \<Rightarrow> CORE_ADDR \<Rightarrow> int32 \<Rightarrow> (CORE_ADDR \<times> int32) option" where
  "translate_data dmap off nr_bytes =
     (if off \<le> 0x7fff then
        Some (targ_data + off, if off + nr_bytes > 0x7fff then 0x7fff - off + 1 else nr_bytes)
      else if off \<le> 0xbfff then
        Some (data_window dmap off, if off + nr_bytes > 0xbfff then 0xbfff - off + 1 else nr_bytes)
      else None)"

definition translate_insn :: "int32 \<Rightarrow> int32 \<Rightarrow> CORE_ADDR \<Rightarrow> int32 \<Rightarrow> (CORE_ADDR \<times> int32) option" where
  "translate_insn imap0 imap1 off nr_bytes =
     (if off > 0x3ffff then None
      else
        (let map_reg = (if off \<le> 0x1ffff then imap0 else imap1);
             nr_bytes = (if (off AND 0x1ffff) + nr_bytes > 0x1ffff then 0x1ffff - (off AND 0x1ffff) + 1 else nr_bytes)
         in if map_reg AND 0x1000 \<noteq> 0 then Some (targ_insn OR off, nr_bytes)
            else
              (let phys = push_bit 17 (map_reg AND 0x7f) + (off AND 0x1ffff)
               in if phys > 0xffffff then None else Some (phys OR targ_unified, nr_bytes))))"

definition translate_address :: "int32 \<Rightarrow> int32 \<Rightarrow> int32 \<Rightarrow> CORE_ADDR \<Rightarrow> int32 \<Rightarrow> (CORE_ADDR \<times> int32) option" where
  "translate_address imap0 imap1 dmap memaddr nr_bytes =
     (let seg = drop_bit 24 memaddr; off = memaddr AND 0xffffff in
      if seg = 0x00 then translate_data dmap off nr_bytes
      else if seg = 0x01 then translate_insn imap0 imap1 off nr_bytes
      else if seg = 0x10 then Some (targ_data OR off, nr_bytes)
      else if seg = 0x11 then Some (targ_insn OR off, nr_bytes)
      else if seg = 0x12 then Some (targ_unified OR off, nr_bytes)
      else None)"

definition map_register :: "CORE_ADDR \<Rightarrow> int32" where
  "map_register a = scast (ucast (ucast a :: uint16) :: int16)"

definition remote_d10v_translate_xfer_address :: "CORE_ADDR \<Rightarrow> int32 \<Rightarrow> gdb \<Rightarrow> (CORE_ADDR \<times> int32) option \<times> gdb" where
  "remote_d10v_translate_xfer_address memaddr nr_bytes g =
     (let (imap0, g) = read_register IMAP0_REGNUM g; (imap1, g) = read_register IMAP1_REGNUM g;
          (dmap, g) = read_register DMAP_REGNUM g
      in (translate_address (map_register imap0) (map_register imap1) (map_register dmap) memaddr nr_bytes, g))"

section \<open>The trace buffer\<close>

abbreviation (input) "DBBC_ADDR \<equiv> 0xd80000 :: CORE_ADDR"
abbreviation (input) "TRACE_BUFFER_BASE \<equiv> 0xf40000 :: CORE_ADDR"

text \<open>The arrays on the debugger's side have 65536 elements; they are allocated once and then kept.\<close>

definition trace_command :: "gdb \<Rightarrow> gdb" where
  "trace_command g =
     g\<lparr>trace_data := \<lparr>tb_size = 0,
         counts = (if counts (trace_data g) = [] then replicate 65536 0 else counts (trace_data g)),
         addrs = (if addrs (trace_data g) = [] then replicate 65536 0 else addrs (trace_data g))\<rparr>,
       tracing := True\<rparr>"

definition untrace_command :: "gdb \<Rightarrow> gdb" where
  "untrace_command g = g\<lparr>tracing := False\<rparr>"

definition d10v_eva_prepare_to_trace :: "gdb \<Rightarrow> gdb" where
  "d10v_eva_prepare_to_trace g =
     (if \<not> tracing g then g else let (pc, g) = read_register PC_REGNUM g in g\<lparr>last_pc := pc\<rparr>)"

text \<open>
  The words of the board's buffer from its last one (number \<open>n\<close>) backwards, up to the one that was recorded when
  execution resumed; \<open>found\<close> holds the words found so far, in the order they were read.
\<close>

fun read_trace :: "nat \<Rightarrow> uint32 list \<Rightarrow> uint32 list action" where
  "read_trace 0 found = gret found"
| "read_trace (Suc n) found =
     gbind (read_memory_unsigned_integer (TRACE_BUFFER_BASE + of_nat (4 * Suc n)) 4) (\<lambda>w g.
       let trace_word = ucast w :: uint32; trace_addr = trace_word AND 0xffff; found' = found @ [trace_word] in
       if trace_addr = 0xffd5 then read_trace n found g
       else if trace_addr = last_pc g \<or> length found' > 65535 then (Inr found', g)
       else read_trace n found' g)"

text \<open>Element \<open>i\<close> of the words read goes to place \<open>size + count - i - 1\<close>, with the count of the word after it.\<close>

definition trace_entry :: "uint32 list \<Rightarrow> nat \<Rightarrow> int16 \<times> CORE_ADDR" where
  "trace_entry ws i =
     (let next_word = (if i = 0 then 0 else ws ! (i - 1))
      in (ucast (drop_bit 24 next_word AND 0xff) + 1, push_bit 2 (ws ! i AND 0xffff) + 0x1000000))"

definition store_entry :: "nat \<Rightarrow> int16 \<times> CORE_ADDR \<Rightarrow> trace_buffer \<Rightarrow> gdb_fault + trace_buffer" where
  "store_entry j e tb =
     (if j < length (counts tb) \<and> j < length (addrs tb)
      then Inr (tb\<lparr>counts := (counts tb)[j := fst e], addrs := (addrs tb)[j := snd e]\<rparr>)
      else Inl (Overrun j))"

fun move_trace :: "uint32 list \<Rightarrow> nat list \<Rightarrow> trace_buffer \<Rightarrow> gdb_fault + trace_buffer" where
  "move_trace ws [] tb = Inr tb"
| "move_trace ws (i # is) tb =
     (case store_entry (tb_size tb + length ws - i - 1) (trace_entry ws i) tb of
        Inl e \<Rightarrow> Inl e
      | Inr tb \<Rightarrow> move_trace ws is tb)"

definition d10v_eva_get_trace_data :: "unit action" where
  "d10v_eva_get_trace_data g =
     (if \<not> tracing g then (Inr (), g)
      else gbind (read_memory_unsigned_integer DBBC_ADDR 2) (\<lambda>n.
           gbind (read_trace (unat n) []) (\<lambda>ws.
           gbind (\<lambda>g. (move_trace ws [0 ..< length ws] (trace_data g), g)) (\<lambda>tb.
           gupd (\<lambda>g. g\<lparr>trace_data := tb\<lparr>tb_size := tb_size tb + length ws\<rparr>\<rparr>)))) g)"

end
