(* ===== verification/Gdb_Call.thy ===== *)
theory Gdb_Call
  imports Gdb_D10V
begin

text \<open>
  Frames and calls of functions of the debugged program: the current frame, dummy frames
  (\<open>src/src/gdb/blockframe.c\<close>), popping a frame, passing arguments and reading return values (\<open>src/src/gdb/d10v-tdep.c\<close>).
\<close>

section \<open>Dummy frames\<close>

text \<open>The search returns the saved registers of the first dummy frame that matches.\<close>

definition generic_find_dummy_frame :: "symtab \<Rightarrow> CORE_ADDR \<Rightarrow> CORE_ADDR \<Rightarrow> gdb \<Rightarrow> uint8 list option" where
  "generic_find_dummy_frame st pc fp g =
     (if pc \<noteq> entry_point_address st then None
      else map_option df_regs (find (\<lambda>d. fp = df_fp d \<or> fp = df_sp d) (dummy_frame_stack g)))"

definition generic_pc_in_call_dummy :: "symtab \<Rightarrow> CORE_ADDR \<Rightarrow> CORE_ADDR \<Rightarrow> gdb \<Rightarrow> bool" where
  "generic_pc_in_call_dummy st pc fp g \<longleftrightarrow> generic_find_dummy_frame st pc fp g \<noteq> None"

definition generic_read_register_dummy :: "symtab \<Rightarrow> CORE_ADDR \<Rightarrow> CORE_ADDR \<Rightarrow> nat \<Rightarrow> gdb \<Rightarrow> gdb_fault + CORE_ADDR" where
  "generic_read_register_dummy st pc fp regno g =
     (case generic_find_dummy_frame st pc fp g of
        Some rs \<Rightarrow> extract_address (reg_bytes regno rs) (REGISTER_RAW_SIZE regno)
      | None \<Rightarrow> Inr 0)"

section \<open>The current frame\<close>

definition d10v_init_extra_frame_info :: "symtab \<Rightarrow> frame_info \<Rightarrow> frame_info action" where
  "d10v_init_extra_frame_info st fi g =
     (let fi = fi\<lparr>frameless := False, fi_size := 0, return_pc := 0\<rparr> in
      if generic_pc_in_call_dummy st (fi_pc fi) (frame fi) g then (Inr fi, g)
      else gbind (d10v_frame_find_saved_regs st fi) (\<lambda>r. gret (fst r)) g)"

definition create_new_frame :: "symtab \<Rightarrow> CORE_ADDR \<Rightarrow> CORE_ADDR \<Rightarrow> frame_info action" where
  "create_new_frame st addr pc =
     d10v_init_extra_frame_info st
       \<lparr>frame = addr, fi_pc = pc, return_pc = 0, frameless = False, fi_size = 0\<rparr>"

definition get_current_frame :: "symtab \<Rightarrow> frame_info action" where
  "get_current_frame st g =
     (case current_frame g of
        Some fi \<Rightarrow> (Inr fi, g)
      | None \<Rightarrow>
          gbind (gstate d10v_read_fp) (\<lambda>fp.
          gbind (gstate (\<lambda>g. d10v_read_pc (inferior_pid g) g)) (\<lambda>pc.
          gbind (create_new_frame st fp pc) (\<lambda>fi.
          gbind (gupd (current_frame_update (\<lambda>_. Some fi))) (\<lambda>_. gret fi)))) g)"

definition flush_cached_frames :: "gdb \<Rightarrow> gdb" where
  "flush_cached_frames g = g\<lparr>current_frame := None\<rparr>"

text \<open>
  The loop over stale frames unlinks the head of the stack even when the stale frame is further down:
  \<open>dummy_frame_stack\<close> becomes the rest behind the stale frame.
\<close>

fun drop_stale :: "CORE_ADDR \<Rightarrow> dummy_frame list \<Rightarrow> dummy_frame list \<Rightarrow> dummy_frame list" where
  "drop_stale fp stack [] = stack"
| "drop_stale fp stack (d # ds) = (if df_fp d < fp then drop_stale fp ds ds else drop_stale fp stack ds)"

definition generic_push_dummy_frame :: "symtab \<Rightarrow> unit action" where
  "generic_push_dummy_frame st =
     gbind (get_current_frame st) (\<lambda>fi.
     gbind (gupd (\<lambda>g. g\<lparr>dummy_frame_stack := drop_stale (frame fi) (dummy_frame_stack g) (dummy_frame_stack g)\<rparr>)) (\<lambda>_.
     gbind (gstate (read_register PC_REGNUM)) (\<lambda>pc.
     gbind (gstate (read_register SP_REGNUM)) (\<lambda>sp0.
     gbind (gstate (read_register_bytes 0 REGISTER_BYTES)) (\<lambda>rs.
     gupd (\<lambda>g. g\<lparr>dummy_frame_stack :=
             \<lparr>df_pc = pc, df_fp = frame fi, df_sp = sp0, df_regs = rs\<rparr> # dummy_frame_stack g\<rparr>))))))"

definition generic_pop_dummy_frame :: "unit action" where
  "generic_pop_dummy_frame g =
     (case dummy_frame_stack g of
        [] \<Rightarrow> (Inl No_dummy_frame, g)
      | d # ds \<Rightarrow> (Inr (), flush_cached_frames (write_register_bytes 0 (df_regs d) (g\<lparr>dummy_frame_stack := ds\<rparr>))))"

definition generic_pop_current_frame :: "symtab \<Rightarrow> (frame_info \<Rightarrow> unit action) \<Rightarrow> unit action" where
  "generic_pop_current_frame st pop =
     gbind (get_current_frame st) (\<lambda>fi g.
       if generic_pc_in_call_dummy st (fi_pc fi) (frame fi) g then generic_pop_dummy_frame g else pop fi g)"

definition generic_frame_chain_valid :: "symtab \<Rightarrow> CORE_ADDR \<Rightarrow> frame_info \<Rightarrow> gdb \<Rightarrow> bool" where
  "generic_frame_chain_valid st fp fi g \<longleftrightarrow>
     (if generic_pc_in_call_dummy st (return_pc fi) fp g then True
      else fp \<noteq> 0 \<and> (frame fi < fp \<or> frame fi = fp) \<and> \<not> inside_entry_file st (return_pc fi))"

text \<open>
  A register of a frame: the argument lists the frames that are called from it, nearest first. The result
  is where the register was found, with its address, and its bytes.
\<close>

datatype lval = Not_lval | Lval_memory CORE_ADDR | Lval_sp | Lval_register nat

fun generic_get_saved_register :: "symtab \<Rightarrow> nat \<Rightarrow> frame_info list \<Rightarrow> (lval \<times> uint8 list) action" where
  "generic_get_saved_register st regnum [] =
     gbind (gstate (read_register_gen regnum)) (\<lambda>b. gret (Lval_register (REGISTER_BYTE regnum), b))"
| "generic_get_saved_register st regnum (fi # fis) =
     (\<lambda>g. case generic_find_dummy_frame st (fi_pc fi) (frame fi) g of
        Some rs \<Rightarrow> (Inr (Not_lval, reg_bytes regnum rs), g)
      | None \<Rightarrow>
          gbind (d10v_frame_find_saved_regs st fi) (\<lambda>(fi, saved).
            if saved ! regnum \<noteq> 0 then
              (if regnum = SP_REGNUM then gret (Lval_sp, store_address (REGISTER_RAW_SIZE regnum) (saved ! regnum))
               else gbind (read_memory (saved ! regnum) (REGISTER_RAW_SIZE regnum))
                      (\<lambda>b. gret (Lval_memory (saved ! regnum), b)))
            else generic_get_saved_register st regnum fis) g)"

section \<open>Popping a frame\<close>

text \<open>A register is restored from memory when it has been saved.\<close>

definition restore_acc :: "CORE_ADDR list \<Rightarrow> nat \<Rightarrow> unit action" where
  "restore_acc saved regnum =
     (if saved ! regnum = 0 then gret ()
      else gbind (read_memory (saved ! regnum) (REGISTER_RAW_SIZE regnum))
             (\<lambda>b. gupd (write_register_bytes (REGISTER_BYTE regnum) b)))"

definition restore_reg :: "CORE_ADDR list \<Rightarrow> nat \<Rightarrow> unit action" where
  "restore_reg saved regnum =
     (if saved ! regnum = 0 then gret ()
      else gbind (read_memory_unsigned_integer (saved ! regnum) (REGISTER_RAW_SIZE regnum))
             (\<lambda>v. gupd (write_register regnum v)))"

definition d10v_pop_frame :: "symtab \<Rightarrow> frame_info \<Rightarrow> unit action" where
  "d10v_pop_frame st fi =
     gbind (d10v_frame_find_saved_regs st fi) (\<lambda>(fi', saved).
     gbind (gfor [A0_REGNUM, A0_REGNUM + 1] (restore_acc saved)) (\<lambda>_.
     gbind (gfor [0 ..< SP_REGNUM] (restore_reg saved)) (\<lambda>_.
     gbind (restore_reg saved PSW_REGNUM) (\<lambda>_.
     gbind (gstate (read_register LR_REGNUM)) (\<lambda>lr.
     gupd (\<lambda>g. flush_cached_frames (gdbsim_store_registers
       (write_register SP_REGNUM (ucast (frame fi + fi_size fi')) (write_register PC_REGNUM (ucast lr) g)))))))))"

section \<open>Passing arguments\<close>

datatype type_code = TYPE_CODE_PTR | TYPE_CODE_FUNC | TYPE_CODE_OTHER

datatype gdbtype = Type (TYPE_CODE: type_code) (TYPE_LENGTH: nat) (TYPE_TARGET_TYPE: "gdbtype option")

definition points_to_function :: "gdbtype \<Rightarrow> bool" where
  "points_to_function ty \<longleftrightarrow>
     (case TYPE_TARGET_TYPE ty of None \<Rightarrow> False | Some t \<Rightarrow> TYPE_CODE t = TYPE_CODE_FUNC)"

definition d10v_push_return_address :: "symtab \<Rightarrow> CORE_ADDR \<Rightarrow> CORE_ADDR \<Rightarrow> gdb \<Rightarrow> CORE_ADDR \<times> gdb" where
  "d10v_push_return_address st pc sp0 g =
     (sp0, write_register LR_REGNUM (ucast (D10V_CONVERT_IADDR_TO_RAW (entry_point_address st))) g)"

definition pointer_value :: "gdbtype \<Rightarrow> int32 \<Rightarrow> int32" where
  "pointer_value ty val =
     (if points_to_function ty then D10V_CONVERT_IADDR_TO_RAW val
      else if D10V_IADDR_P val then D10V_CONVERT_DADDR_TO_RAW val
      else val AND 0xFFFF)"

text \<open>
  One argument: the result is the next register and the stack pointer. A pointer that goes on the stack is first
  stored in the local array \<open>ptr\<close>, whose contents are indeterminate (\<open>ptr0\<close>); the call of \<open>store_address\<close> has its
  length and value the wrong way round.
\<close>

definition push_pointer :: "uint8 list \<Rightarrow> nat \<Rightarrow> CORE_ADDR \<Rightarrow> int32 \<Rightarrow> (nat \<times> CORE_ADDR) action" where
  "push_pointer ptr0 regnum sp0 val =
     (if regnum \<le> ARGN_REGNUM
      then gbind (gupd (write_register regnum (ucast (val AND 0xffff)))) (\<lambda>_. gret (regnum + 1, sp0))
      else gbind (gcheck (local_store 2 (store_address (unat (val AND 0xffff)) 2))) (\<lambda>b.
           gbind (write_memory (sp0 - 2) (splice 0 b ptr0)) (\<lambda>_. gret (regnum, sp0 - 2))))"

text \<open>The two-byte pieces of a value and the last byte of a value of odd length, register after register.\<close>

fun push_pieces :: "nat \<Rightarrow> uint8 list \<Rightarrow> gdb \<Rightarrow> nat \<times> gdb" where
  "push_pieces regnum (b # c # bs) g =
     push_pieces (regnum + 1) bs (write_register regnum (push_bit 8 (ucast b) OR ucast c) g)"
| "push_pieces regnum [b] g = (regnum + 1, write_register regnum (push_bit 8 (ucast b)) g)"
| "push_pieces regnum [] g = (regnum, g)"

definition push_argument :: "uint8 list \<Rightarrow> gdbtype \<times> uint8 list \<Rightarrow> nat \<times> CORE_ADDR \<Rightarrow> (nat \<times> CORE_ADDR) action" where
  "push_argument ptr0 = (\<lambda>(ty, contents) (regnum, sp0).
     let len = TYPE_LENGTH ty; aligned_regnum = 2 * ((regnum + 1) div 2) in
     if TYPE_CODE ty = TYPE_CODE_PTR then
       gbind (gcheck (extract_signed_integer contents len)) (\<lambda>val.
         push_pointer ptr0 regnum sp0 (pointer_value ty (ucast val)))
     else if len \<le> 2 \<and> regnum \<le> ARGN_REGNUM then
       gbind (gcheck (extract_unsigned_integer contents len)) (\<lambda>val.
       gbind (gupd (write_register regnum (ucast (ucast val :: int32)))) (\<lambda>_. gret (regnum + 1, sp0)))
     else if len \<le> (ARGN_REGNUM + 1 - aligned_regnum) * 2 then
       gbind (gstate (push_pieces aligned_regnum (take len contents))) (\<lambda>regnum. gret (regnum, sp0))
     else
       (let sp0 = (sp0 - of_nat len) AND NOT 1
        in gbind (write_memory sp0 (take len contents)) (\<lambda>_. gret (ARGN_REGNUM + 1, sp0))))"

fun push_arguments :: "uint8 list \<Rightarrow> (gdbtype \<times> uint8 list) list \<Rightarrow> nat \<times> CORE_ADDR \<Rightarrow> (nat \<times> CORE_ADDR) action" where
  "push_arguments ptr0 [] rs = gret rs"
| "push_arguments ptr0 (a # as) rs = gbind (push_argument ptr0 a rs) (push_arguments ptr0 as)"

definition d10v_push_arguments :: "uint8 list \<Rightarrow> (gdbtype \<times> uint8 list) list \<Rightarrow> CORE_ADDR \<Rightarrow> CORE_ADDR action" where
  "d10v_push_arguments ptr0 args sp0 = gbind (push_arguments ptr0 args (ARG1_REGNUM, sp0)) (\<lambda>r. gret (snd r))"

section \<open>Return values\<close>

text \<open>The bytes that are stored at the start of the value, from the raw register contents.\<close>

definition d10v_extract_return_value :: "gdbtype \<Rightarrow> uint8 list \<Rightarrow> gdb_fault + uint8 list" where
  "d10v_extract_return_value ty regbuf =
     (let r0 = reg_bytes RET1_REGNUM regbuf; sz = REGISTER_RAW_SIZE RET1_REGNUM; b = REGISTER_BYTE RET1_REGNUM;
          len = TYPE_LENGTH ty in
      if TYPE_CODE ty = TYPE_CODE_PTR then
        (case extract_address r0 sz of
           Inl e \<Rightarrow> Inl e
         | Inr a \<Rightarrow>
             (let snum = scast (ucast a :: int16) :: int32
              in Inr (store_address 4 (if points_to_function ty then D10V_MAKE_IADDR snum else D10V_MAKE_DADDR snum))))
      else if len = 1 then
        (case extract_unsigned_integer r0 sz of
           Inl e \<Rightarrow> Inl e
         | Inr c \<Rightarrow> Inr (store_unsigned_integer 1 (ucast (ucast c :: uint16))))
      else if even len then Inr (take len (drop b regbuf))
      else Inr (take len (drop (b + 1) regbuf)))"

definition STORE_RETURN_VALUE :: "gdbtype \<Rightarrow> uint8 list \<Rightarrow> gdb \<Rightarrow> gdb" where
  "STORE_RETURN_VALUE ty valbuf g =
     write_register_bytes (REGISTER_BYTE RET1_REGNUM) (take (TYPE_LENGTH ty) valbuf) g"

definition STORE_STRUCT_RETURN :: "CORE_ADDR \<Rightarrow> CORE_ADDR \<Rightarrow> gdb \<Rightarrow> gdb" where
  "STORE_STRUCT_RETURN addr sp0 g = write_register ARG1_REGNUM (ucast addr) g"

definition EXTRACT_STRUCT_VALUE_ADDRESS :: "uint8 list \<Rightarrow> gdb_fault + CORE_ADDR" where
  "EXTRACT_STRUCT_VALUE_ADDRESS regbuf =
     map_sum id (\<lambda>a. a OR DMEM_START) (extract_address (reg_bytes ARG1_REGNUM regbuf) (REGISTER_RAW_SIZE ARG1_REGNUM))"

definition USE_STRUCT_CONVENTION :: "gdbtype \<Rightarrow> bool" where
  "USE_STRUCT_CONVENTION ty \<longleftrightarrow> TYPE_LENGTH ty > 8"

end
