(* ===== verification/Gdb_Cache.thy ===== *)
theory Gdb_Cache
  imports Gdb_Call Ctl_Correct
begin

text \<open>
  The debugger's register cache: a byte array with one field per register, in front of the registers of the
  simulator. Both are stores with one field per register number (locale \<open>fields\<close>).
\<close>

section \<open>Stores with fields\<close>

text \<open>
  \<open>fits r v s\<close> says that field \<open>r\<close> of \<open>s\<close> holds \<open>v\<close> unchanged when it is put there.
\<close>

locale fields =
  fixes field_of :: "nat \<Rightarrow> 's \<Rightarrow> 'v"
    and put :: "nat \<Rightarrow> 'v \<Rightarrow> 's \<Rightarrow> 's"
    and ok :: "'s \<Rightarrow> bool"
    and fits :: "nat \<Rightarrow> 'v \<Rightarrow> 's \<Rightarrow> bool"
  assumes put_ok: "ok s \<Longrightarrow> fits r v s \<Longrightarrow> ok (put r v s)"
    and fits_put: "ok s \<Longrightarrow> fits r v s \<Longrightarrow> fits r' v' s \<Longrightarrow> fits r' v' (put r v s)"
    and put_same: "ok s \<Longrightarrow> fits r v s \<Longrightarrow> field_of r (put r v s) = v"
    and put_other: "ok s \<Longrightarrow> fits r v s \<Longrightarrow> r' \<noteq> r \<Longrightarrow> r' < NUM_REGS \<Longrightarrow> field_of r' (put r v s) = field_of r' s"
begin

lemma put_all:
  assumes "ok s" and "\<forall>r \<in> set rs. fits r (f r) s \<and> r < NUM_REGS" and "distinct rs"
  shows "ok (fold (\<lambda>r. put r (f r)) rs s) \<and> (\<forall>r < NUM_REGS. field_of r (fold (\<lambda>r. put r (f r)) rs s) =
           (if r \<in> set rs then f r else field_of r s))"
  using assms
proof (induction rs arbitrary: s)
  case (Cons r rs)
  have "ok (put r (f r) s)" using Cons.prems by (auto intro: put_ok)
  moreover have "\<forall>k \<in> set rs. fits k (f k) (put r (f r) s) \<and> k < NUM_REGS" using Cons.prems by (auto intro: fits_put)
  ultimately show ?case
    using Cons.IH [of "put r (f r) s"] Cons.prems by (auto simp: put_same put_other)
qed simp

end

section \<open>The bytes of a register\<close>

definition word_bytes :: "uint16 \<Rightarrow> uint8 list" where
  "word_bytes w = [ucast (drop_bit 8 w), ucast w]"

definition long_bytes :: "int64 \<Rightarrow> uint8 list" where
  "long_bytes v = copy_out (Dmem 0) 8 (write_longlong (Dmem 0) v (\<lambda>_. 0))"

definition reg_word :: "nat \<Rightarrow> sim \<Rightarrow> uint16" where
  "reg_word r s = (if r = 32 then IMAP0 s else if r = 33 then IMAP1 s else if r = 34 then DMAP s
     else if r \<ge> 16 then cregs s ! (r - 16) else regs s ! r)"

text \<open>What the debugger fetches from the simulator, and a store into it.\<close>

definition raw :: "nat \<Rightarrow> sim \<Rightarrow> uint8 list" where
  "raw r s = take (REGISTER_RAW_SIZE r) (sim_register r s)"

definition sim_put :: "nat \<Rightarrow> uint8 list \<Rightarrow> sim \<Rightarrow> sim" where
  "sim_put r b s = sim_store_register r (Dmem 0) (copy_in (Dmem 0) b (\<lambda>_. 0)) s"

lemma ucast_and_ff16 [simp]: "(ucast (x AND 0xff) :: uint8) = ucast (x :: uint16)"
proof -
  have "x AND 0xff = take_bit 8 x" by (simp add: take_bit_eq_mask mask_eq_exp_minus_1)
  then show ?thesis by (intro bit_word_eqI) (simp add: bit_simps)
qed

lemma upt_8: "[0 ..< 8] = [0, 1, 2, 3, 4, 5, 6, 7 :: nat]"
  by (simp add: upt_rec)

lemma raw_eq:
  "r < 35 \<Longrightarrow> raw r s = word_bytes (reg_word r s)"
  "35 \<le> r \<Longrightarrow> raw r s = long_bytes (acc s ! (r - 35))"
proof -
  have "take 2 (copy_out (Dmem 0) 8 (write_word (Dmem 0) w (\<lambda>_. 0))) = word_bytes w" for w
    by (simp add: copy_out_def upt_8 write_word_def word_bytes_def)
  then show "r < 35 \<Longrightarrow> raw r s = word_bytes (reg_word r s)"
    by (auto simp: raw_def sim_register_def sim_fetch_register_def REGISTER_RAW_SIZE_def reg_word_def CREG_def GPR_def)
  show "35 \<le> r \<Longrightarrow> raw r s = long_bytes (acc s ! (r - 35))"
    by (simp add: raw_def sim_register_def sim_fetch_register_def REGISTER_RAW_SIZE_def long_bytes_def ACC_def copy_out_def)
qed

lemma length_bytes [simp]: "length (word_bytes w) = 2" "length (long_bytes v) = 8" "length (raw r s) = REGISTER_RAW_SIZE r"
  by (simp_all add: word_bytes_def long_bytes_def copy_out_def raw_def sim_register_def REGISTER_RAW_SIZE_def)

lemma read_back_word: "get_word (copy_in (Dmem 0) (word_bytes w) m) (Dmem 0) = w"
proof -
  have "get_word (copy_in (Dmem 0) (word_bytes w) m) (Dmem 0) = get_word (write_word (Dmem 0) w m) (Dmem 0)"
    by (rule c16.rd_local) (auto simp: word_bytes_def write_word_def less_2_cases_iff)
  then show ?thesis by (simp add: c16.rd_wr)
qed

lemma copy_in_before: "n < k \<Longrightarrow> copy_in (Dmem k) bs m (Dmem n) = m (Dmem n)"
  by (induction bs arbitrary: k m) simp_all

lemma copy_in_byte: "i < length bs \<Longrightarrow> copy_in (Dmem n) bs m (Dmem (n + i)) = bs ! i"
proof (induction bs arbitrary: n m i)
  case (Cons b bs)
  show ?case
  proof (cases i)
    case (Suc j)
    then show ?thesis using Cons.IH [of j "n + 1" "m(Dmem n := b)"] Cons.prems by (simp del: fun_upd_apply)
  qed (simp add: copy_in_before)
qed simp

lemma read_back_long: "get_longlong (copy_in (Dmem 0) (long_bytes v) m) (Dmem 0) = v"
proof -
  have "get_longlong (copy_in (Dmem 0) (long_bytes v) m) (Dmem 0) = get_longlong (write_longlong (Dmem 0) v (\<lambda>_. 0)) (Dmem 0)"
  proof (rule c64.rd_local)
    fix i :: nat assume "i < 8"
    then show "copy_in (Dmem 0) (long_bytes v) m (ptr_add (Dmem 0) i) = write_longlong (Dmem 0) v (\<lambda>_. 0) (ptr_add (Dmem 0) i)"
      using copy_in_byte [of i "long_bytes v" 0 m] by (simp add: long_bytes_def copy_out_def)
  qed
  then show ?thesis by (simp add: c64.rd_wr)
qed

section \<open>The fields of the simulator and of the cache\<close>

definition word_fits :: "nat \<Rightarrow> uint16 \<Rightarrow> sim \<Rightarrow> bool" where
  "word_fits r w s \<longleftrightarrow> (16 \<le> r \<and> r < 32 \<longrightarrow> cr_val (r - 16) w = w) \<and> (r = PSW_REGNUM \<longrightarrow> (w AND PSW_SM_BIT \<noteq> 0) = PSW_SM s)"

definition sim_fits :: "nat \<Rightarrow> uint8 list \<Rightarrow> sim \<Rightarrow> bool" where
  "sim_fits r b s \<longleftrightarrow> r < NUM_REGS \<and>
     (if r < 35 then \<exists>w. b = word_bytes w \<and> word_fits r w s else \<exists>v. b = long_bytes v \<and> v AND MASK40 = v)"

definition idle :: "sim \<Rightarrow> bool" where
  "idle s \<longleftrightarrow> wf_sim s \<and> slot s = []"

lemma put_word:
  assumes "idle s" and "r < 35" and "word_fits r w s"
  defines "t \<equiv> sim_put r (word_bytes w) s"
  shows "idle t \<and> acc t = acc s \<and> PSW_SM t = PSW_SM s
    \<and> (\<forall>r' < 35. reg_word r' t = (if r' = r then w else reg_word r' s))"
proof -
  have s: "length (regs s) = 16" "length (cregs s) = 16" "length (acc s) = 2" "slot s = []" "wf_sim s"
    using assms(1) by (simp_all add: idle_def wf_sim_def)
  have f: "regs (SLOT_FLUSH u) = a_regs (commit u)" "cregs (SLOT_FLUSH u) = a_cregs (commit u)"
    "acc (SLOT_FLUSH u) = a_acc (commit u)" for u by (simp_all add: commit_def)
  have m: "mem (SET_GPR n w s) = mem s" "mem (SET_CREG n w s) = mem s" "slot (SLOT_FLUSH u) = []" for n u
    by (simp_all add: slot_simp SET_CREG_def move_to_cr_def move_to_psw_def Let_def)
  have p: "n \<noteq> 0 \<Longrightarrow> PSW_SM (SLOT_FLUSH (SET_CREG n w s)) = PSW_SM s" for n
    using s by (simp add: PSW_bit_def PSW_def f commit_SET_CREG commit_idle)
  note unfold = t_def sim_put_def sim_store_register_def read_back_word f commit_idle idle_def wf_SLOT_FLUSH reg_word_def
    IMAP0_def IMAP1_def DMAP_def nth_list_update m
  consider (map) "r \<in> {32, 33, 34}" | (psw) "r = 16" | (cr) "16 < r" "r < 32" | (gpr) "r < 16"
    using assms(2) by fastforce
  then show ?thesis
  proof cases
    case gpr
    then show ?thesis using s by (simp add: unfold PSW_bit_def PSW_def)
  next
    case cr
    then show ?thesis using s p [of "r - 16"] assms(3) by (auto simp: unfold commit_SET_CREG word_fits_def)
  next
    case psw
    then have w: "w AND PSW_MASK = w" "(w AND PSW_SM_BIT \<noteq> 0) = PSW_SM s" using assms(3) by (simp_all add: word_fits_def cr_val_def)
    have "commit (SET_CREG 0 w s) = put_creg 0 w (put_sp (of_bool (PSW_SM s)) (regs s ! 15) (view s))"
      using s w by (subst commit_SET_PSW) (simp_all add: commit_idle put_psw_def Let_def)
    then show ?thesis using psw s w by (auto simp: unfold PSW_bit_def PSW_def)
  next
    case map
    have fl: "slot u = [] \<Longrightarrow> SLOT_FLUSH u = u" for u by (simp add: SLOT_FLUSH_def)
    have ne: "get_word (write_word (Dmem a) w n) (Dmem b) = get_word n (Dmem b)" if "a + 2 \<le> b \<or> b + 2 \<le> a" for a b n
      using that by (auto simp: get_word_def write_word_def)
    have "sim_put r (word_bytes w) s = s\<lparr>mem := write_word (Dmem (0xff00 + 2 * (r - 32))) w (mem s)\<rparr>"
      using map s by (auto simp: sim_put_def sim_store_register_def read_back_word map_register_store fl)
    then show ?thesis using map s
      by (auto simp: t_def idle_def wf_sim_def PSW_bit_def PSW_def reg_word_def IMAP0_def IMAP1_def DMAP_def c16.rd_wr ne)
  qed
qed

lemma put_long:
  assumes "idle s" and "r \<in> {35, 36}" and "v AND MASK40 = v"
  defines "t \<equiv> sim_put r (long_bytes v) s"
  shows "idle t \<and> acc t = (acc s)[r - 35 := v] \<and> PSW_SM t = PSW_SM s \<and> (\<forall>r' < 35. reg_word r' t = reg_word r' s)"
proof -
  have s: "slot s = []" "wf_sim s" using assms(1) by (simp_all add: idle_def)
  have f: "regs (SLOT_FLUSH u) = a_regs (commit u)" "cregs (SLOT_FLUSH u) = a_cregs (commit u)"
    "acc (SLOT_FLUSH u) = a_acc (commit u)" for u by (simp_all add: commit_def)
  have m: "mem (SET_ACC n w s) = mem s" "slot (SLOT_FLUSH u) = []" for n w u by (simp_all add: slot_simp)
  show ?thesis using assms(2,3) s
    by (auto simp: t_def sim_put_def sim_store_register_def read_back_long f commit_idle idle_def wf_SLOT_FLUSH reg_word_def
        IMAP0_def IMAP1_def DMAP_def m PSW_bit_def PSW_def)
qed

lemma sim_fits_cases:
  assumes "sim_fits r b s"
  obtains (word) w where "r < 35" "b = word_bytes w" "word_fits r w s"
    | (long) v where "r \<in> {35, 36}" "b = long_bytes v" "v AND MASK40 = v"
proof (cases "r < 35")
  case False
  then have "r \<in> {35, 36}" using assms by (auto simp: sim_fits_def)
  then show ?thesis using assms False by (auto simp: sim_fits_def intro: long)
qed (use assms in \<open>auto simp: sim_fits_def intro: word\<close>)

lemma sim_put_fits:
  assumes s: "idle s" and fit: "sim_fits r b s"
  shows "idle (sim_put r b s)" "PSW_SM (sim_put r b s) = PSW_SM s" "raw r (sim_put r b s) = b"
    "r' \<noteq> r \<Longrightarrow> r' < NUM_REGS \<Longrightarrow> raw r' (sim_put r b s) = raw r' s"
proof -
  have len: "length (acc s) = 2" using s by (simp add: idle_def wf_sim_def)
  have all: "idle (sim_put r b s) \<and> PSW_SM (sim_put r b s) = PSW_SM s \<and> raw r (sim_put r b s) = b
    \<and> (r' \<noteq> r \<longrightarrow> r' < NUM_REGS \<longrightarrow> raw r' (sim_put r b s) = raw r' s)"
    using fit
  proof (cases rule: sim_fits_cases)
    case (word w)
    show ?thesis using put_word [OF s word(1,3)] word(1) unfolding word(2) by (cases "r' < 35") (simp_all add: raw_eq)
  next
    case (long v)
    show ?thesis using put_long [OF s long(1,3)] long(1) len unfolding long(2)
      by (cases "r' < 35") (auto simp: raw_eq nth_list_update)
  qed
  then show "idle (sim_put r b s)" "PSW_SM (sim_put r b s) = PSW_SM s" "raw r (sim_put r b s) = b"
    "r' \<noteq> r \<Longrightarrow> r' < NUM_REGS \<Longrightarrow> raw r' (sim_put r b s) = raw r' s" by simp_all
qed

interpretation simreg: fields raw sim_put idle sim_fits
proof
  fix s r r' and b b' :: "uint8 list"
  assume s: "idle s" and fit: "sim_fits r b s"
  show "idle (sim_put r b s)" "raw r (sim_put r b s) = b" using sim_put_fits [OF s fit] by simp_all
  show "sim_fits r' b' (sim_put r b s)" if "sim_fits r' b' s"
  proof -
    have "word_fits r' w (sim_put r b s) = word_fits r' w s" for w
      using sim_put_fits(2) [OF s fit] by (simp add: word_fits_def)
    then show ?thesis using that by (simp add: sim_fits_def)
  qed
  show "raw r' (sim_put r b s) = raw r' s" if "r' \<noteq> r" "r' < NUM_REGS"
    using sim_put_fits(4) [OF s fit that] .
qed

section \<open>The byte array of the cache\<close>

lemma REGISTER_BYTE_apart:
  "r < r' \<Longrightarrow> REGISTER_BYTE r + REGISTER_RAW_SIZE r \<le> REGISTER_BYTE r'"
  by (auto simp: REGISTER_BYTE_def REGISTER_RAW_SIZE_def)

lemma REGISTER_BYTE_end: "r < NUM_REGS \<Longrightarrow> REGISTER_BYTE r + REGISTER_RAW_SIZE r \<le> 86"
  by (auto simp: REGISTER_BYTE_def REGISTER_RAW_SIZE_def)

definition buf_put :: "nat \<Rightarrow> uint8 list \<Rightarrow> uint8 list \<Rightarrow> uint8 list" where
  "buf_put r b buf = splice (REGISTER_BYTE r) b buf"

lemma splice_fields:
  assumes "at + length b \<le> length buf"
  shows "length (splice at b buf) = length buf" "take (length b) (drop at (splice at b buf)) = b"
    "k + n \<le> at \<or> at + length b \<le> k \<Longrightarrow> take n (drop k (splice at b buf)) = take n (drop k buf)"
proof -
  show "length (splice at b buf) = length buf" "take (length b) (drop at (splice at b buf)) = b"
    using assms by (simp_all add: splice_def)
  assume "k + n \<le> at \<or> at + length b \<le> k"
  then show "take n (drop k (splice at b buf)) = take n (drop k buf)"
  proof
    assume "k + n \<le> at"
    then have "k \<le> at" "n \<le> at - k" "at \<le> length buf" using assms by simp_all
    then show ?thesis by (simp add: splice_def drop_take min_absorb1)
  next
    assume "at + length b \<le> k"
    then show ?thesis using assms by (simp add: splice_def)
  qed
qed

interpretation cache: fields reg_bytes buf_put "\<lambda>buf. length buf = 86"
    "\<lambda>r b buf. r < NUM_REGS \<and> length b = REGISTER_RAW_SIZE r"
proof
  fix buf b :: "uint8 list" and r r'
  assume len: "length buf = 86" and fit: "r < NUM_REGS \<and> length b = REGISTER_RAW_SIZE r"
  then have at: "REGISTER_BYTE r + length b \<le> length buf" using REGISTER_BYTE_end by auto
  show "length (buf_put r b buf) = 86" using splice_fields(1) [OF at] len by (simp add: buf_put_def)
  show "reg_bytes r (buf_put r b buf) = b" using splice_fields(2) [OF at] fit by (simp add: buf_put_def reg_bytes_def)
  show "reg_bytes r' (buf_put r b buf) = reg_bytes r' buf" if "r' \<noteq> r" "r' < NUM_REGS"
    unfolding buf_put_def reg_bytes_def
    by (rule splice_fields(3) [OF at]) (use that fit REGISTER_BYTE_apart [of r r'] REGISTER_BYTE_apart [of r' r] in \<open>cases "r < r'"; auto\<close>)
qed simp

section \<open>The cache in front of the simulator\<close>

text \<open>
  The cache is coherent when it holds, for every register marked valid, what the simulator has.
\<close>

definition coherent :: "gdb \<Rightarrow> bool" where
  "coherent g \<longleftrightarrow> length (registers g) = 86 \<and> length (register_valid g) = NUM_REGS \<and> idle (target g)
     \<and> (registers_pid g = inferior_pid g \<longrightarrow>
         (\<forall>r < NUM_REGS. register_valid g ! r \<longrightarrow> reg_bytes r (registers g) = raw r (target g)))"

lemma set_cached_fields [simp]:
  "target (set_cached r b g) = target g" "registers_pid (set_cached r b g) = registers_pid g"
  "inferior_pid (set_cached r b g) = inferior_pid g" "register_valid (set_cached r b g) = (register_valid g)[r := True]"
  "dummy_frame_stack (set_cached r b g) = dummy_frame_stack g" "program_loaded (set_cached r b g) = program_loaded g"
  by (simp_all add: set_cached_def)

lemma sync_pid_fields [simp]:
  "target (sync_pid g) = target g" "inferior_pid (sync_pid g) = inferior_pid g"
  "registers_pid (sync_pid g) = inferior_pid g" "registers (sync_pid g) = registers g"
  "dummy_frame_stack (sync_pid g) = dummy_frame_stack g" "program_loaded (sync_pid g) = program_loaded g"
  by (simp_all add: sync_pid_def registers_changed_def)

lemma coherent_sync: "coherent g \<Longrightarrow> coherent (sync_pid g)"
  by (auto simp: coherent_def sync_pid_def registers_changed_def)

lemma registers_set_cached:
  "take (REGISTER_RAW_SIZE r) b = c \<Longrightarrow> registers (set_cached r b g) = buf_put r c (registers g)"
  by (simp add: set_cached_def buf_put_def)

lemma sync_pid_idem [simp]: "registers_pid g = inferior_pid g \<Longrightarrow> sync_pid g = g"
  by (simp add: sync_pid_def)

lemma current_frame_cached [simp]:
  "current_frame (set_cached r b g) = current_frame g" "current_frame (sync_pid g) = current_frame g"
  by (simp_all add: set_cached_def sync_pid_def registers_changed_def)

lemma take_length_raw [simp]: "take (REGISTER_RAW_SIZE r) (raw r s) = raw r s"
  by (rule take_all) simp

text \<open>The whole cache after one field has been set and the simulator's register has become \<open>b\<close>.\<close>

lemma coherent_put:
  assumes "coherent g" and "registers_pid g = inferior_pid g" and "r < NUM_REGS" and "length b = REGISTER_RAW_SIZE r"
    and "idle s" and "raw r s = b" and "\<And>r'. r' \<noteq> r \<Longrightarrow> r' < NUM_REGS \<Longrightarrow> raw r' s = raw r' (target g)"
  shows "coherent ((set_cached r b g)\<lparr>target := s\<rparr>)" "reg_bytes r (registers (set_cached r b g)) = b"
proof -
  have len: "length (registers g) = 86" "length (register_valid g) = NUM_REGS" using assms(1) by (simp_all add: coherent_def)
  have reg: "registers (set_cached r b g) = buf_put r b (registers g)" using assms(4) by (intro registers_set_cached) simp
  show same: "reg_bytes r (registers (set_cached r b g)) = b"
    unfolding reg using assms(3,4) len by (simp add: cache.put_same)
  have "reg_bytes k (registers (set_cached r b g)) = raw k s" if "k < NUM_REGS" "(register_valid g)[r := True] ! k" for k
  proof (cases "k = r")
    case False
    then have "reg_bytes k (buf_put r b (registers g)) = reg_bytes k (registers g)"
      using that assms(3,4) len by (intro cache.put_other) simp_all
    then show ?thesis using that False assms(1,2,7) by (simp add: reg coherent_def)
  qed (use same assms(6) in simp)
  then show "coherent ((set_cached r b g)\<lparr>target := s\<rparr>)"
    using assms(1-5) cache.put_ok [OF len(1), of r b] reg by (auto simp: coherent_def)
qed

text \<open>Fetching: the register becomes valid and holds the simulator's value.\<close>

definition fetched :: "nat \<Rightarrow> gdb \<Rightarrow> gdb \<Rightarrow> bool" where
  "fetched r g g' \<longleftrightarrow> coherent g' \<and> target g' = target g \<and> register_valid g' ! r
     \<and> (\<forall>k < NUM_REGS. registers_pid g = inferior_pid g \<longrightarrow> register_valid g ! k \<longrightarrow> register_valid g' ! k)
     \<and> registers_pid g' = inferior_pid g \<and> inferior_pid g' = inferior_pid g
     \<and> dummy_frame_stack g' = dummy_frame_stack g \<and> program_loaded g' = program_loaded g \<and> current_frame g' = current_frame g"

lemma gdbsim_fetch_register:
  assumes "coherent g" and "r < NUM_REGS" and "registers_pid g = inferior_pid g"
  shows "fetched r g (gdbsim_fetch_register r g)"
proof -
  have eq: "gdbsim_fetch_register r g = set_cached r (raw r (target g)) g"
    using assms(3) by (simp add: gdbsim_fetch_register_def supply_register_def raw_def set_cached_def)
  have "coherent ((set_cached r (raw r (target g)) g)\<lparr>target := target g\<rparr>)"
    using assms by (intro coherent_put) (simp_all add: coherent_def)
  then have "coherent (set_cached r (raw r (target g)) g)" by (simp add: set_cached_def)
  then show ?thesis using assms unfolding eq by (auto simp: fetched_def coherent_def nth_list_update)
qed

lemma read_register_gen:
  assumes "coherent g" and "r < NUM_REGS"
  shows "fst (read_register_gen r g) = raw r (target g)" "fetched r g (snd (read_register_gen r g))"
proof -
  let ?h = "sync_pid g"
  have h: "coherent ?h" using assms(1) by (rule coherent_sync)
  let ?g' = "snd (read_register_gen r g)"
  have eq: "?g' = (if register_valid ?h ! r then ?h else gdbsim_fetch_register r ?h)"
    by (simp add: read_register_gen_def Let_def)
  have "fetched r ?h ?g'"
    using h gdbsim_fetch_register [OF h assms(2)] by (auto simp: eq fetched_def)
  then show f: "fetched r g ?g'" by (auto simp: fetched_def)
  have "fst (read_register_gen r g) = reg_bytes r (registers ?g')"
    by (simp add: read_register_gen_def Let_def)
  then show "fst (read_register_gen r g) = raw r (target g)"
    using f assms(2) by (simp add: fetched_def coherent_def)
qed

section \<open>Register values\<close>

lemma extract_word: "extract_unsigned_integer (word_bytes w) 2 = Inr (ucast w)"
proof -
  have "push_bit 8 (ucast (ucast (drop_bit 8 w) :: uint8)) OR ucast (ucast w :: uint8) = (ucast w :: uint64)"
    using bit_imp_le_length [of w] by (intro bit_word_eqI) (fastforce simp: bit_simps)
  then show ?thesis by (simp add: extract_unsigned_integer_def word_bytes_def)
qed

lemma extract_address_word: "extract_address (word_bytes w) 2 = Inr (ucast w)"
proof -
  have "(ucast (ucast w :: uint64) :: CORE_ADDR) = ucast w" by (rule bit_word_eqI) (auto simp: bit_simps dest: bit_imp_le_length)
  then show ?thesis by (simp add: extract_address_def extract_word)
qed

lemma ucast_and_ff64 [simp]: "(ucast (x AND 0xff) :: uint8) = ucast (x :: int64)"
proof -
  have "x AND 0xff = take_bit 8 x" by (simp add: take_bit_eq_mask mask_eq_exp_minus_1)
  then show ?thesis by (intro bit_word_eqI) (simp add: bit_simps)
qed

lemma store_word: "store_signed_integer 2 val = word_bytes (ucast val)"
proof -
  have "(ucast (signed_drop_bit 8 val) :: uint8) = ucast (drop_bit 8 (ucast val :: uint16))"
    by (rule bit_word_eqI) (auto simp: bit_simps)
  moreover have "(ucast val :: uint8) = ucast (ucast val :: uint16)" by (rule bit_word_eqI) (auto simp: bit_simps)
  ultimately show ?thesis by (simp add: numeral_2_eq_2 word_bytes_def)
qed

lemma read_register:
  assumes "coherent g" and "r < 35"
  shows "fst (read_register r g) = ucast (reg_word r (target g))" "fetched r g (snd (read_register r g))"
  using read_register_gen [of g r] assms
  by (simp_all add: read_register_def case_prod_beta raw_eq REGISTER_RAW_SIZE_def extract_address_word)

section \<open>Writes go through\<close>

text \<open>
  A write that the simulator keeps unchanged leaves the cache coherent and the register with the new value,
  in the cache and in the simulator, all other registers as they were.
\<close>

definition written :: "nat \<Rightarrow> uint8 list \<Rightarrow> gdb \<Rightarrow> gdb \<Rightarrow> bool" where
  "written r b g g' \<longleftrightarrow> coherent g' \<and> raw r (target g') = b
     \<and> (\<forall>r' < NUM_REGS. r' \<noteq> r \<longrightarrow> raw r' (target g') = raw r' (target g)) \<and> PSW_SM (target g') = PSW_SM (target g)
     \<and> registers_pid g' = inferior_pid g \<and> inferior_pid g' = inferior_pid g
     \<and> dummy_frame_stack g' = dummy_frame_stack g"

lemma sim_fits_length: "sim_fits r b s \<Longrightarrow> length b = REGISTER_RAW_SIZE r"
  by (auto simp: sim_fits_def REGISTER_RAW_SIZE_def split: if_splits)

lemma write_cached:
  assumes "coherent g" and "sim_fits r b (target g)"
  shows "written r b g (write_cached r b g)"
proof -
  let ?h = "sync_pid g"
  have h: "coherent ?h" using assms(1) by (rule coherent_sync)
  have r: "r < NUM_REGS" and len: "length b = REGISTER_RAW_SIZE r"
    using assms(2) sim_fits_length by (auto simp: sim_fits_def)
  have s: "idle (target g)" using assms(1) by (simp add: coherent_def)
  show ?thesis
  proof (cases "register_valid ?h ! r \<and> reg_bytes r (registers ?h) = b")
    case True
    then have "write_cached r b g = ?h" using len by (simp add: write_cached_def)
    moreover have "raw r (target g) = b" using True h r by (auto simp: coherent_def)
    ultimately show ?thesis using h by (simp add: written_def)
  next
    case False
    let ?c = "set_cached r b ?h"
    have put: "coherent (?c\<lparr>target := sim_put r b (target g)\<rparr>)" "reg_bytes r (registers ?c) = b"
      using coherent_put [OF h _ r len, of "sim_put r b (target g)"] sim_put_fits [OF s assms(2)] by simp_all
    have "register_valid ?c ! r" using h r by (simp add: coherent_def)
    then have "gdbsim_store_register r ?c = ?c\<lparr>target := sim_put r b (target g)\<rparr>"
      using put(2) by (simp add: gdbsim_store_register_def read_register_gen_def sim_put_def)
    then have "write_cached r b g = ?c\<lparr>target := sim_put r b (target g)\<rparr>"
      using False len by (auto simp: write_cached_def Let_def)
    then show ?thesis using put(1) sim_put_fits [OF s assms(2)] by (simp add: written_def)
  qed
qed

lemma write_register:
  assumes "coherent g" and "r < 35" and "word_fits r (ucast val) (target g)"
  shows "written r (word_bytes (ucast val)) g (write_register r val g)"
proof -
  have "sim_fits r (word_bytes (ucast val)) (target g)" using assms(2,3) by (auto simp: sim_fits_def)
  then show ?thesis
    using write_cached [OF assms(1)] assms(2) by (simp add: write_register_def REGISTER_RAW_SIZE_def store_word)
qed

lemma written_word:
  "written r (word_bytes w) g g' \<Longrightarrow> r < 35 \<Longrightarrow> reg_word r (target g') = w"
  using read_back_word [of "reg_word r (target g')"] by (auto simp: written_def raw_eq read_back_word)

section \<open>All registers\<close>

lemma read_all:
  assumes "coherent g"
  shows "coherent (snd (read_register_bytes 0 REGISTER_BYTES g))"
    "target (snd (read_register_bytes 0 REGISTER_BYTES g)) = target g"
    "length (fst (read_register_bytes 0 REGISTER_BYTES g)) = 86"
    "inferior_pid (snd (read_register_bytes 0 REGISTER_BYTES g)) = inferior_pid g"
    "dummy_frame_stack (snd (read_register_bytes 0 REGISTER_BYTES g)) = dummy_frame_stack g"
    "r < NUM_REGS \<Longrightarrow> reg_bytes r (fst (read_register_bytes 0 REGISTER_BYTES g)) = raw r (target g)"
proof -
  define h where "h = fold (fetch_if_needed 0 REGISTER_BYTES) [0 ..< NUM_REGS] (sync_pid g)"
  have "coherent k \<Longrightarrow> registers_pid k = inferior_pid k \<Longrightarrow> (\<forall>r \<in> set rs. r < NUM_REGS) \<Longrightarrow>
      coherent (fold (fetch_if_needed 0 REGISTER_BYTES) rs k)
      \<and> target (fold (fetch_if_needed 0 REGISTER_BYTES) rs k) = target k
      \<and> registers_pid (fold (fetch_if_needed 0 REGISTER_BYTES) rs k) = inferior_pid (fold (fetch_if_needed 0 REGISTER_BYTES) rs k)
      \<and> inferior_pid (fold (fetch_if_needed 0 REGISTER_BYTES) rs k) = inferior_pid k
      \<and> dummy_frame_stack (fold (fetch_if_needed 0 REGISTER_BYTES) rs k) = dummy_frame_stack k
      \<and> (\<forall>r < NUM_REGS. r \<in> set rs \<or> register_valid k ! r \<longrightarrow> register_valid (fold (fetch_if_needed 0 REGISTER_BYTES) rs k) ! r)" for rs k
  proof (induction rs arbitrary: k)
    case (Cons r rs)
    let ?f = "fetch_if_needed 0 REGISTER_BYTES r k"
    have "startin r 0 REGISTER_BYTES" using Cons.prems REGISTER_BYTE_end [of r]
      by (auto simp: startin_def REGISTER_BYTES_def REGISTER_RAW_SIZE_def split: if_splits)
    then have "?f = (if register_valid k ! r then k else gdbsim_fetch_register r k)" by (simp add: fetch_if_needed_def)
    then have "coherent ?f \<and> target ?f = target k \<and> registers_pid ?f = inferior_pid ?f \<and> register_valid ?f ! r
      \<and> inferior_pid ?f = inferior_pid k \<and> dummy_frame_stack ?f = dummy_frame_stack k
      \<and> (\<forall>k' < NUM_REGS. register_valid k ! k' \<longrightarrow> register_valid ?f ! k')"
      using Cons.prems gdbsim_fetch_register [of k r] by (auto simp: fetched_def)
    then show ?case using Cons.IH [of ?f] Cons.prems by auto
  qed simp
  from this [of "sync_pid g" "[0 ..< NUM_REGS]"] coherent_sync [OF assms]
  have h: "coherent h" "target h = target g" "registers_pid h = inferior_pid h" "\<forall>r < NUM_REGS. register_valid h ! r"
    "inferior_pid h = inferior_pid g" "dummy_frame_stack h = dummy_frame_stack g"
    by (simp_all add: h_def)
  have "take REGISTER_BYTES (registers h) = registers h" using h(1) by (simp add: coherent_def REGISTER_BYTES_def)
  then have eq: "read_register_bytes 0 REGISTER_BYTES g = (registers h, h)"
    by (simp add: read_register_bytes_def Let_def h_def [symmetric])
  show "coherent (snd (read_register_bytes 0 REGISTER_BYTES g))"
    "target (snd (read_register_bytes 0 REGISTER_BYTES g)) = target g"
    "length (fst (read_register_bytes 0 REGISTER_BYTES g)) = 86"
    "inferior_pid (snd (read_register_bytes 0 REGISTER_BYTES g)) = inferior_pid g"
    "dummy_frame_stack (snd (read_register_bytes 0 REGISTER_BYTES g)) = dummy_frame_stack g"
    "r < NUM_REGS \<Longrightarrow> reg_bytes r (fst (read_register_bytes 0 REGISTER_BYTES g)) = raw r (target g)"
    using h by (simp_all add: eq coherent_def)
qed

lemma write_all:
  assumes "coherent g" and "length buf = 86" and "\<forall>r < NUM_REGS. sim_fits r (reg_bytes r buf) (target g)"
  shows "coherent (write_register_bytes 0 buf g)
    \<and> (\<forall>r < NUM_REGS. raw r (target (write_register_bytes 0 buf g)) = reg_bytes r buf)
    \<and> dummy_frame_stack (write_register_bytes 0 buf g) = dummy_frame_stack g"
proof -
  define rs where "rs = [0 ..< NUM_REGS]"
  have step: "write_if_covered 0 buf r = write_cached r (reg_bytes r buf)" if "r < NUM_REGS" for r
  proof -
    have "startin r 0 86" "endin r 0 86"
      using REGISTER_BYTE_end [OF that] by (auto simp: startin_def endin_def REGISTER_RAW_SIZE_def Let_def split: if_splits)
    moreover have "take (REGISTER_RAW_SIZE r) (drop (REGISTER_BYTE r) buf) = reg_bytes r buf"
      "take (REGISTER_RAW_SIZE r) (reg_bytes r buf) = reg_bytes r buf" by (simp_all add: reg_bytes_def)
    ultimately show ?thesis
      using assms(2) by (auto simp: write_if_covered_def Let_def write_register_gen_def write_cached_def set_cached_def fun_eq_iff)
  qed
  have "coherent k \<Longrightarrow> \<forall>r < NUM_REGS. sim_fits r (reg_bytes r buf) (target k) \<Longrightarrow> \<forall>r \<in> set rs. r < NUM_REGS \<Longrightarrow> distinct rs \<Longrightarrow>
      coherent (fold (write_if_covered 0 buf) rs k)
      \<and> (\<forall>r < NUM_REGS. raw r (target (fold (write_if_covered 0 buf) rs k)) =
           (if r \<in> set rs then reg_bytes r buf else raw r (target k)))
      \<and> dummy_frame_stack (fold (write_if_covered 0 buf) rs k) = dummy_frame_stack k" for rs k
  proof (induction rs arbitrary: k)
    case (Cons r rs)
    let ?w = "write_cached r (reg_bytes r buf) k"
    have w: "written r (reg_bytes r buf) k ?w" using Cons.prems by (intro write_cached) auto
    then have psw: "PSW_SM (target ?w) = PSW_SM (target k)" by (simp add: written_def)
    have "sim_fits r' b (target ?w) = sim_fits r' b (target k)" for r' b by (simp add: sim_fits_def word_fits_def psw)
    then show ?case using w Cons.IH [of ?w] Cons.prems step [of r] by (auto simp: written_def)
  qed simp
  from this [of g rs] show ?thesis
    using assms by (simp add: write_register_bytes_def rs_def)
qed

section \<open>Reading does not disturb the registers\<close>

definition keeps :: "gdb \<Rightarrow> gdb \<Rightarrow> bool" where
  "keeps g g' \<longleftrightarrow> (\<forall>r < NUM_REGS. raw r (target g') = raw r (target g)) \<and> PSW_SM (target g') = PSW_SM (target g)
     \<and> inferior_pid g' = inferior_pid g \<and> dummy_frame_stack g' = dummy_frame_stack g
     \<and> program_loaded g' = program_loaded g"

definition observes :: "'a action \<Rightarrow> bool" where
  "observes m \<longleftrightarrow> (\<forall>g. coherent g \<longrightarrow> coherent (snd (m g)) \<and> keeps g (snd (m g)))"

lemma observesD: "observes m \<Longrightarrow> coherent g \<Longrightarrow> m g = (x, g') \<Longrightarrow> coherent g' \<and> keeps g g'"
  by (metis observes_def snd_conv)

lemma observesI: "(\<And>g. coherent g \<Longrightarrow> coherent (snd (m g)) \<and> keeps g (snd (m g))) \<Longrightarrow> observes m"
  by (simp add: observes_def)

named_theorems observing

lemma keeps_trans: "keeps g h \<Longrightarrow> keeps h k \<Longrightarrow> keeps g k"
  by (simp add: keeps_def)

lemma observes_basic [observing]:
  "observes (gret x)" "observes (graise e)" "observes (gcheck c)"
  by (simp_all add: observes_def keeps_def action_defs)

lemma observes_bind [observing]:
  assumes "observes m" and "\<And>x. observes (f x)"
  shows "observes (gbind m f)"
proof (rule observesI)
  fix g assume g: "coherent g"
  show "coherent (snd (gbind m f g)) \<and> keeps g (snd (gbind m f g))"
  proof (cases "m g")
    case (Pair r h)
    then have h: "coherent h \<and> keeps g h" using observesD [OF assms(1) g] by simp
    show ?thesis
    proof (cases r)
      case (Inr x)
      have "coherent (snd (f x h)) \<and> keeps h (snd (f x h))" using assms(2) [of x] h by (simp add: observes_def)
      then show ?thesis using Pair Inr h by (auto simp: gbind_def intro: keeps_trans)
    qed (use Pair h in \<open>simp add: gbind_def\<close>)
  qed
qed

lemma fetched_keeps: "fetched r g g' \<Longrightarrow> coherent g' \<and> keeps g g'"
  by (simp add: fetched_def keeps_def)

lemma observes_read_register [observing]: "r < 35 \<Longrightarrow> observes (gstate (read_register r))"
  by (rule observesI) (simp add: gstate_def case_prod_beta fetched_keeps [OF read_register(2)])

lemma keeps_raw:
  assumes "regs s' = regs s" "cregs s' = cregs s" "acc s' = acc s" "\<And>n. mem s' (Dmem n) = mem s (Dmem n)"
  shows "raw r s' = raw r s" "PSW_SM s' = PSW_SM s"
proof -
  have "IMAP0 s' = IMAP0 s" "IMAP1 s' = IMAP1 s" "DMAP s' = DMAP s"
    using assms(4) by (simp_all add: IMAP0_def IMAP1_def DMAP_def get_word_def)
  then show "raw r s' = raw r s" using assms(1-3) by (cases "r < 35") (simp_all add: raw_eq reg_word_def)
  show "PSW_SM s' = PSW_SM s" using assms(2) by (simp add: PSW_bit_def PSW_def)
qed

text \<open>A read through the simulator may allocate a segment and raise an exception, nothing else.\<close>

definition read_only :: "sim \<Rightarrow> sim \<Rightarrow> bool" where
  "read_only s s' \<longleftrightarrow> regs s' = regs s \<and> cregs s' = cregs s \<and> acc s' = acc s \<and> (\<forall>n. mem s' (Dmem n) = mem s (Dmem n))
     \<and> (idle s \<longrightarrow> idle s')"

lemma read_only_trans: "read_only s t \<Longrightarrow> read_only t u \<Longrightarrow> read_only s u"
  by (simp add: read_only_def)

lemma read_only_dmem_addr: "read_only s (snd (dmem_addr a s))"
  by (auto simp: read_only_def idle_def wf_sim_def dmem_addr_def calloc_umem_def Let_def)

lemma read_only_refl: "read_only s s" "read_only s (s\<lparr>status := x\<rparr>)"
  by (simp_all add: read_only_def idle_def wf_sim_def)

lemma read_only_xfer_dmap: "read_only s (snd (snd (xfer_dmap a k n False buf s)))"
proof (induction n arbitrary: k buf s)
  case (Suc n)
  obtain p t where d: "dmem_addr (a + of_nat k) s = (p, t)" by (cases "dmem_addr (a + of_nat k) s")
  then have t: "read_only s t" using read_only_dmem_addr [of s "a + of_nat k"] by simp
  show ?case
  proof (cases "p = Null 0")
    case False
    then show ?thesis using read_only_trans [OF t Suc.IH] by (simp add: d xfer_byte_def)
  qed (simp add: d xfer_byte_def t)
qed (simp add: read_only_refl)

lemma read_only_xfer_imap: "read_only s (snd (snd (xfer_imap a k n False buf s)))"
proof (induction n arbitrary: k buf)
  case (Suc n)
  show ?case
  proof (cases "imem_addr (a + of_nat k) s")
    case (Inr p)
    then show ?thesis using Suc.IH by (cases p) (simp_all add: xfer_byte_def read_only_refl)
  qed (simp add: read_only_refl)
qed (simp add: read_only_refl)

lemma read_only_xfer_umem: "read_only s (snd (snd (xfer_umem a n False buf s)))"
proof -
  have "read_only s (calloc_umem g s)" for g by (simp add: read_only_def calloc_umem_def idle_def wf_sim_def)
  then show ?thesis by (simp add: xfer_umem_def xfer_memcpy_def Let_def read_only_refl)
qed

lemma read_only_sim_read: "read_only s (snd (snd (sim_read a buf n s)))"
  using read_only_xfer_dmap read_only_xfer_imap read_only_xfer_umem read_only_refl(1)
  by (simp add: sim_read_def xfer_mem_def xfer_memcpy_def Let_def)

lemma read_only_keeps:
  assumes "coherent g" and "read_only (target g) s"
  shows "coherent (g\<lparr>target := s\<rparr>)" "keeps g (g\<lparr>target := s\<rparr>)"
proof -
  have k: "raw r s = raw r (target g)" "PSW_SM s = PSW_SM (target g)" for r
    using assms(2) keeps_raw [of s "target g"] by (auto simp: read_only_def)
  show "coherent (g\<lparr>target := s\<rparr>)" using assms k by (simp add: coherent_def read_only_def)
  show "keeps g (g\<lparr>target := s\<rparr>)" using k by (simp add: keeps_def)
qed

lemma observes_xfer [observing]: "observes (gdbsim_xfer_inferior_memory a buf False)"
proof (rule observesI)
  fix g assume g: "coherent g"
  note read_only_keeps [OF g read_only_sim_read [of _ a buf "length buf"]]
  then show "coherent (snd (gdbsim_xfer_inferior_memory a buf False g)) \<and> keeps g (snd (gdbsim_xfer_inferior_memory a buf False g))"
    using g by (simp add: gdbsim_xfer_inferior_memory_def case_prod_beta Let_def keeps_def)
qed

lemma observes_xfer_loop [observing]: "observes (target_xfer_loop a buf False)"
proof (induction "length buf" arbitrary: a buf rule: less_induct)
  case less
  show ?case
  proof (rule observesI)
    fix g assume g: "coherent g"
    show "coherent (snd (target_xfer_loop a buf False g)) \<and> keeps g (snd (target_xfer_loop a buf False g))"
    proof (cases "buf = []")
      case False
      obtain r h where x: "gdbsim_xfer_inferior_memory a buf False g = (r, h)" by (cases "gdbsim_xfer_inferior_memory a buf False g")
      have h: "coherent h" "keeps g h" using observesD [OF observes_xfer g x] by simp_all
      show ?thesis
      proof (cases "\<exists>res b. r = Inr (res, b) \<and> res \<noteq> 0")
        case True
        then obtain res b where r: "r = Inr (res, b)" "res \<noteq> 0" by blast
        obtain q k where y: "target_xfer_loop (a + of_nat res) (drop res buf) False h = (q, k)"
          by (cases "target_xfer_loop (a + of_nat res) (drop res buf) False h")
        have "observes (target_xfer_loop (a + of_nat res) (drop res buf) False)"
          by (rule less) (use False r in \<open>cases buf; simp\<close>)
        then have "coherent k" "keeps g k" using observesD [where m = "target_xfer_loop (a + of_nat res) (drop res buf) False", OF _ h(1) y]
            keeps_trans [OF h(2)] by blast+
        then show ?thesis using False x y r by (simp split: sum.splits option.splits)
      qed (use False x h in \<open>auto split: sum.splits\<close>)
    qed (use g in \<open>simp add: keeps_def\<close>)
  qed
qed

declare target_xfer_loop.simps [simp del]

lemma observes_xfer_memory [observing]: "observes (target_xfer_memory a buf False)"
  unfolding target_xfer_memory_def by (intro observing) (auto intro!: observing split: prod.split)

lemma observes_read [observing]:
  "observes (read_memory a n)" "observes (read_memory_integer a n)" "observes (read_memory_unsigned_integer a n)"
proof -
  show *: "observes (read_memory a n)" for a n
    unfolding read_memory_def by (intro observing) (auto intro!: observing split: option.split)
  show "observes (read_memory_integer a n)" "observes (read_memory_unsigned_integer a n)"
    unfolding read_memory_integer_def read_memory_unsigned_integer_def by (intro observing *)+
qed

lemma observes_find_regs [observing]: "observes (find_regs_loop pc sc)"
proof (rule observesI)
  show "coherent g \<Longrightarrow> coherent (snd (find_regs_loop pc sc g)) \<and> keeps g (snd (find_regs_loop pc sc g))" for g
  proof (induction "0x100000000 - unat pc" arbitrary: pc sc g rule: less_induct)
    case less
    obtain r h where x: "read_memory_integer pc 4 g = (r, h)" by (cases "read_memory_integer pc 4 g")
    then have h: "coherent h" "keeps g h" using observesD [OF observes_read(2) less(2)] by blast+
    show ?case
    proof (cases r)
      case (Inr w)
      have dec: "0x100000000 - unat (pc + 4) < 0x100000000 - unat pc"
        using scan_decreases read_integer_segment x Inr by blast
      obtain c sc' where f: "find_regs_word (ucast w) sc = (c, sc')" by (cases "find_regs_word (ucast w) sc")
      show ?thesis
        using less(1) [OF dec h(1), of sc'] keeps_trans [OF h(2)] h
        by (subst (1 2) find_regs_loop.simps) (simp add: x f Inr split: bool.split)
    qed (use x h in \<open>subst (1 2) find_regs_loop.simps; simp\<close>)
  qed
qed

lemma observes_find_saved_regs [observing]: "observes (d10v_frame_find_saved_regs st fi)"
  unfolding d10v_frame_find_saved_regs_def find_return_pc_def Let_def
  by (intro observing observes_bind) (auto intro!: observing)

section \<open>Dummy frames\<close>

lemma observes_gupd:
  assumes "\<And>g. registers (f g) = registers g \<and> register_valid (f g) = register_valid g \<and> registers_pid (f g) = registers_pid g
    \<and> inferior_pid (f g) = inferior_pid g \<and> target (f g) = target g \<and> dummy_frame_stack (f g) = dummy_frame_stack g
    \<and> program_loaded (f g) = program_loaded g"
  shows "observes (gupd f)"
  using assms by (simp add: observes_def keeps_def gupd_def coherent_def)

lemma observes_read_pc [observing]: "observes (gstate (\<lambda>g. d10v_read_pc (inferior_pid g) g))"
proof -
  have "d10v_read_pc (inferior_pid g) g = apfst D10V_MAKE_IADDR (read_register PC_REGNUM g)" if "coherent g" for g
    using read_register(2) [OF that, of PC_REGNUM] by (simp add: d10v_read_pc_def with_pid_def case_prod_beta fetched_def apfst_def map_prod_def)
  then show ?thesis
    using observes_read_register [of PC_REGNUM] by (simp add: observes_def gstate_def case_prod_beta)
qed

lemma observes_current_frame [observing]: "observes (get_current_frame st)"
proof -
  have fp: "observes (gstate d10v_read_fp)"
    using observes_read_register [of FP_REGNUM] by (simp add: observes_def gstate_def d10v_read_fp_def case_prod_beta)
  have find: "observes (gbind (d10v_frame_find_saved_regs st fi) (\<lambda>r. gret (fst r)))" for fi by (intro observing)
  have init: "observes (create_new_frame st a pc)" for a pc
  proof (rule observesI)
    fix g assume "coherent g"
    then show "coherent (snd (create_new_frame st a pc g)) \<and> keeps g (snd (create_new_frame st a pc g))"
      using find by (simp add: create_new_frame_def d10v_init_extra_frame_info_def Let_def observes_def) (simp add: keeps_def)
  qed
  have set: "observes (gupd (current_frame_update (\<lambda>_. Some fi)))" for fi by (rule observes_gupd) simp
  have "observes (gbind (gstate d10v_read_fp) (\<lambda>fp. gbind (gstate (\<lambda>g. d10v_read_pc (inferior_pid g) g)) (\<lambda>pc.
      gbind (create_new_frame st fp pc) (\<lambda>fi. gbind (gupd (current_frame_update (\<lambda>_. Some fi))) (\<lambda>_. gret fi)))))"
    by (intro observing fp init set)
  then show ?thesis by (auto simp: observes_def get_current_frame_def keeps_def split: option.split)
qed

lemma drop_stale_subset: "set (drop_stale fp stack ds) \<subseteq> set stack \<union> set ds"
  by (induction fp stack ds rule: drop_stale.induct) auto

lemma gbind_Inr: "gbind m f g = (Inr y, g') \<longleftrightarrow> (\<exists>x h. m g = (Inr x, h) \<and> f x h = (Inr y, g'))"
  by (auto simp: gbind_def split: prod.splits sum.splits)

lemma coherent_stack [simp]: "coherent (g\<lparr>dummy_frame_stack := ds\<rparr>) = coherent g"
  by (simp add: coherent_def)

lemma push_dummy_frame:
  assumes "coherent g" and "generic_push_dummy_frame st g = (Inr u, g1)"
  obtains d ds where "dummy_frame_stack g1 = d # ds" "length (df_regs d) = 86"
    "\<forall>r < NUM_REGS. reg_bytes r (df_regs d) = raw r (target g)" "set ds \<subseteq> set (dummy_frame_stack g)"
    "coherent g1" "inferior_pid g1 = inferior_pid g" "PSW_SM (target g1) = PSW_SM (target g)"
proof -
  from assms(2) obtain fi h where fr: "get_current_frame st g = (Inr fi, h)"
    and "gbind (gupd (\<lambda>g. g\<lparr>dummy_frame_stack := drop_stale (frame fi) (dummy_frame_stack g) (dummy_frame_stack g)\<rparr>)) (\<lambda>_.
     gbind (gstate (read_register PC_REGNUM)) (\<lambda>pc. gbind (gstate (read_register SP_REGNUM)) (\<lambda>sp0.
     gbind (gstate (read_register_bytes 0 REGISTER_BYTES)) (\<lambda>rs.
     gupd (\<lambda>g. g\<lparr>dummy_frame_stack :=
             \<lparr>df_pc = pc, df_fp = frame fi, df_sp = sp0, df_regs = rs\<rparr> # dummy_frame_stack g\<rparr>))))) h = (Inr u, g1)"
    by (auto simp: generic_push_dummy_frame_def gbind_Inr)
  have h: "coherent h" "keeps g h" using observesD [OF observes_current_frame assms(1) fr] by simp_all
  define h1 where "h1 = h\<lparr>dummy_frame_stack := drop_stale (frame fi) (dummy_frame_stack h) (dummy_frame_stack h)\<rparr>"
  define h2 where "h2 = snd (read_register PC_REGNUM h1)"
  define h3 where "h3 = snd (read_register SP_REGNUM h2)"
  define h4 where "h4 = snd (read_register_bytes 0 REGISTER_BYTES h3)"
  define d where "d = \<lparr>df_pc = fst (read_register PC_REGNUM h1), df_fp = frame fi, df_sp = fst (read_register SP_REGNUM h2),
    df_regs = fst (read_register_bytes 0 REGISTER_BYTES h3)\<rparr>"
  have g1: "g1 = h4\<lparr>dummy_frame_stack := d # dummy_frame_stack h4\<rparr>"
    using \<open>gbind (gupd _) _ h = _\<close>
    by (auto simp: gbind_Inr gupd_def gstate_def case_prod_beta h1_def h2_def h3_def h4_def d_def)
  have "coherent h1" using h by (simp add: h1_def)
  then have h2: "fetched PC_REGNUM h1 h2" unfolding h2_def by (intro read_register) simp_all
  then have h3: "fetched SP_REGNUM h2 h3" unfolding h3_def by (intro read_register) (simp_all add: fetched_def)
  then have c3: "coherent h3" by (simp add: fetched_def)
  have st: "read_register_bytes 0 REGISTER_BYTES h3 = (df_regs d, h4)" by (simp add: d_def h4_def)
  have h4: "coherent h4" "target h4 = target h3" "inferior_pid h4 = inferior_pid h3" "dummy_frame_stack h4 = dummy_frame_stack h3"
    using read_all [OF c3] by (simp_all add: h4_def)
  have k: "\<forall>r < NUM_REGS. raw r (target h3) = raw r (target g)" "PSW_SM (target h3) = PSW_SM (target g)"
    "inferior_pid h3 = inferior_pid g" "dummy_frame_stack h3 = drop_stale (frame fi) (dummy_frame_stack g) (dummy_frame_stack g)"
    using h(2) h2 h3 by (simp_all add: fetched_def keeps_def h1_def)
  show thesis
  proof
    show "dummy_frame_stack g1 = d # dummy_frame_stack h4" by (simp add: g1)
    show "set (dummy_frame_stack h4) \<subseteq> set (dummy_frame_stack g)"
      using drop_stale_subset [of "frame fi" "dummy_frame_stack g" "dummy_frame_stack g"] by (simp add: h4 k)
    show "\<forall>r < NUM_REGS. reg_bytes r (df_regs d) = raw r (target g)" "length (df_regs d) = 86"
      using read_all [OF c3] k by (simp_all add: d_def)
  qed (use h4 k in \<open>simp_all add: g1\<close>)
qed

lemma cr_ok_val: "cr_ok n v \<Longrightarrow> cr_val n v = v"
  using and_mask_id [of v PSW_MASK] and_mask_id [of v "NOT 1"] by (auto simp: cr_val_def cr_ok.simps)

lemma sim_fits_raw:
  assumes "sim_ok s" and "r < NUM_REGS" and "PSW_SM t = PSW_SM s"
  shows "sim_fits r (raw r s) t"
proof (cases "r < 35")
  case True
  have "cr_val (r - 16) (reg_word r s) = reg_word r s" if "16 \<le> r" "r < 32"
  proof -
    have "cr_ok (r - 16) (cregs s ! (r - 16))" using assms(1) that by (simp add: sim_ok_def arch_ok_def)
    then show ?thesis using that cr_ok_val by (simp add: reg_word_def)
  qed
  moreover have "r = 16 \<Longrightarrow> (reg_word r s AND PSW_SM_BIT \<noteq> 0) = PSW_SM t"
    using assms(3) by (simp add: reg_word_def PSW_bit_def PSW_def)
  ultimately show ?thesis using True by (auto simp: sim_fits_def raw_eq word_fits_def)
next
  case False
  then have "acc s ! (r - 35) AND NOT MASK40 = 0" using assms(1,2) by (simp add: sim_ok_def arch_ok_def)
  then have "acc s ! (r - 35) AND MASK40 = acc s ! (r - 35)" by (rule and_mask_id)
  then show ?thesis using False assms(2) by (auto simp: sim_fits_def raw_eq)
qed


text \<open>A debugger that has just attached to a simulator.\<close>

definition attached :: "sim \<Rightarrow> gdb" where
  "attached s = \<lparr>registers = replicate 86 0, register_valid = replicate NUM_REGS False, registers_pid = 42, inferior_pid = 42,
     program_loaded = True, target = s,
     current_frame = Some \<lparr>frame = 0x7ffe, fi_pc = 0x1000000, return_pc = 0, frameless = False, fi_size = 0\<rparr>,
     dummy_frame_stack = [], tracing = False, last_pc = 0, trace_data = \<lparr>tb_size = 0, counts = [], addrs = []\<rparr>\<rparr>"

lemma coherent_attached: "idle s \<Longrightarrow> coherent (attached s)"
  by (simp add: coherent_def attached_def)

lemma sim_ok_boot: "sim_ok (boot c)"
  by (auto simp: sim_ok_def wf_sim_def arch_ok_def boot_def)

definition no_symbols :: symtab where
  "no_symbols = \<lparr>find_pc_partial_function = (\<lambda>_. None), find_pc_line_end = (\<lambda>_. 0), get_pc_function_start = (\<lambda>_. 0x1000000),
     inside_entry_file = (\<lambda>_. False), entry_point_address = 0x1000000\<rparr>"




text \<open>
  The stack mode is the exception: a write of \<open>PSW\<close> that changes it exchanges \<open>r15\<close> in the simulator, and the cache
  keeps the old value.
\<close>

lemma psw_write_stale:
  fixes s :: sim
  defines "s \<equiv> (boot True)\<lparr>regs := replicate 15 0 @ [1], sp := [0, 2]\<rparr>"
  defines "g \<equiv> write_register 16 0x8000 (snd (read_register 15 (attached s)))"
  shows "fst (read_register 15 g) = 1 \<and> reg_word 15 (target g) = 2"
  unfolding g_def s_def by code_simp

end
