(* ===== verification/Trace_Correct.thy ===== *)
theory Trace_Correct
  imports Gdb_Remote Gdb_Cache
begin

text \<open>
  The trace buffer of the debugger (\<open>Gdb_Remote\<close>): the words of the board's buffer, which are read backwards, are
  appended in the order of execution, or the arrays overflow.
\<close>

lemma move_trace_fits:
  assumes "\<forall>i \<in> set is. tb_size tb + length ws - i - 1 < length (counts tb)" and "length (addrs tb) = length (counts tb)"
  shows "move_trace ws is tb = Inr (tb\<lparr>counts := fold (\<lambda>i xs. xs[tb_size tb + length ws - i - 1 := fst (trace_entry ws i)]) is (counts tb),
     addrs := fold (\<lambda>i xs. xs[tb_size tb + length ws - i - 1 := snd (trace_entry ws i)]) is (addrs tb)\<rparr>)"
  using assms by (induction "is" arbitrary: tb) (simp_all add: store_entry_def)

lemma fold_reversed:
  assumes "k \<le> n" and "s + n \<le> length xs"
  shows "fold (\<lambda>i xs. xs[s + n - i - 1 := f i]) [0 ..< k] xs = take (s + n - k) xs @ rev (map f [0 ..< k]) @ drop (s + n) xs"
  using assms
proof (induction k)
  case (Suc k)
  let ?p = "s + n - Suc k"
  have p: "?p < length xs" "s + n - k = Suc ?p" using Suc.prems by simp_all
  have "fold (\<lambda>i xs. xs[s + n - i - 1 := f i]) [0 ..< Suc k] xs
      = (take (Suc ?p) xs @ rev (map f [0 ..< k]) @ drop (s + n) xs)[?p := f k]"
    using Suc p(2) by simp
  also have "take (Suc ?p) xs = take ?p xs @ [xs ! ?p]" by (rule take_Suc_conv_app_nth [OF p(1)])
  finally show ?case using p(1) by (simp add: list_update_append)
qed simp

text \<open>The entries in the order of execution: each address with the count that the word behind it holds.\<close>

lemma entries_reversed:
  "rev (map (fst \<circ> trace_entry ws) [0 ..< length ws]) = map (\<lambda>w. ucast (drop_bit 24 w AND 0xff) + 1) (tl (rev ws @ [0]))"
  "rev (map (snd \<circ> trace_entry ws) [0 ..< length ws]) = map (\<lambda>w. push_bit 2 (w AND 0xffff) + 0x1000000) (rev ws)"
  by (rule nth_equalityI; auto simp: rev_nth nth_tl nth_append trace_entry_def Let_def Suc_diff_Suc)+

text \<open>
  C33. The words that \<open>d10v_eva_get_trace_data\<close> reads backwards from the board (\<open>ws\<close>) are appended to the trace in the
  order of execution, each with the address of its word and the count of the word that follows it in time (the last with
  the one instruction that stopped); earlier entries are kept. When the trace would become longer than the 65536
  elements of its arrays it writes beyond them.
\<close>

theorem trace_appended:
  assumes "tracing g" and "read_memory_unsigned_integer DBBC_ADDR 2 g = (Inr n, g1)" and "read_trace (unat n) [] g1 = (Inr ws, g2)"
    and "length (counts (trace_data g2)) = 65536" "length (addrs (trace_data g2)) = 65536"
  shows "let tb = trace_data g2; k = length ws; r = d10v_eva_get_trace_data g in
     if tb_size tb + k \<le> 65536 then
       r = (Inr (), g2\<lparr>trace_data := \<lparr>tb_size = tb_size tb + k,
         counts = take (tb_size tb) (counts tb) @ map (\<lambda>w. ucast (drop_bit 24 w AND 0xff) + 1) (tl (rev ws @ [0])) @ drop (tb_size tb + k) (counts tb),
         addrs = take (tb_size tb) (addrs tb) @ map (\<lambda>w. push_bit 2 (w AND 0xffff) + 0x1000000) (rev ws) @ drop (tb_size tb + k) (addrs tb)\<rparr>\<rparr>)
     else k \<noteq> 0 \<longrightarrow> fst r = Inl (Overrun (tb_size tb + k - 1))"
proof -
  let ?tb = "trace_data g2"
  have r: "d10v_eva_get_trace_data g = (case move_trace ws [0 ..< length ws] ?tb of Inl e \<Rightarrow> (Inl e, g2)
      | Inr tb \<Rightarrow> (Inr (), g2\<lparr>trace_data := tb\<lparr>tb_size := tb_size tb + length ws\<rparr>\<rparr>))"
    using assms(1-3) by (simp add: d10v_eva_get_trace_data_def gbind_def gupd_def split: sum.split)
  show ?thesis
  proof (cases "tb_size ?tb + length ws \<le> 65536")
    case True
    have "\<forall>i \<in> set [0 ..< length ws]. tb_size ?tb + length ws - i - 1 < length (counts ?tb)" using True assms(4) by auto
    note m = move_trace_fits [OF this]
    obtain s c a where tb: "?tb = \<lparr>tb_size = s, counts = c, addrs = a\<rparr>" by (cases ?tb) simp
    have "s + length ws \<le> length c" "s + length ws \<le> length a" using True assms(4,5) by (simp_all add: tb)
    note f = fold_reversed [OF order_refl this(1), of "fst \<circ> trace_entry ws"] fold_reversed [OF order_refl this(2), of "snd \<circ> trace_entry ws"]
    show ?thesis using True m f assms(4,5) entries_reversed [of ws] by (simp add: r Let_def tb comp_def)
  next
    case False
    have "move_trace ws [0 ..< length ws] ?tb = Inl (Overrun (tb_size ?tb + length ws - 1))" if ne: "ws \<noteq> []"
    proof -
      obtain k where k: "length ws = Suc k" using ne by (cases ws) auto
      have u: "[0 ..< Suc k] = 0 # [1 ..< Suc k]" by (simp add: upt_conv_Cons del: upt_Suc)
      show ?thesis unfolding k u using False assms(4) by (simp add: store_entry_def k)
    qed
    then show ?thesis using False by (auto simp: r Let_def)
  qed
qed

text \<open>Reading bytes of the on-chip data memory at concrete addresses.\<close>

lemma xfer_dmap_read:
  assumes "\<forall>j < m. dmem_addr (a + of_nat (b + j)) s = (Dmem (k + b + j), s)" and "b + m \<le> length buf"
  shows "xfer_dmap a b m False buf s = (b + m, take b buf @ copy_out (Dmem (k + b)) m (mem s) @ drop (b + m) buf, s)"
  using assms
proof (induction m arbitrary: b buf)
  case (Suc m)
  have d: "dmem_addr (a + of_nat b) s = (Dmem (k + b), s)" using Suc.prems(1) by (auto dest: spec [of _ 0])
  have "\<forall>j < m. dmem_addr (a + of_nat (Suc b + j)) s = (Dmem (k + Suc b + j), s)"
    using Suc.prems(1) by (metis Suc_less_eq add_Suc_right add_Suc_shift)
  then have "xfer_dmap a (Suc b) m False (buf[b := mem s (Dmem (k + b))]) s
      = (Suc b + m, take (Suc b) (buf[b := mem s (Dmem (k + b))]) @ copy_out (Dmem (k + Suc b)) m (mem s) @ drop (Suc b + m) buf, s)"
    using Suc.prems(2) Suc.IH [of "Suc b" "buf[b := mem s (Dmem (k + b))]"] by simp
  moreover have "take (Suc b) (buf[b := v]) = take b buf @ [v]" for v
    using Suc.prems(2) by (simp add: take_Suc_conv_app_nth)
  moreover have "copy_out (Dmem (k + b)) (Suc m) (mem s) = mem s (Dmem (k + b)) # copy_out (Dmem (k + Suc b)) m (mem s)"
    by (simp add: copy_out_def upt_conv_Cons map_Suc_upt [symmetric] del: upt_Suc)
  ultimately show ?case using d by (simp add: xfer_byte_def)
qed (simp add: copy_out_def)

lemma read_dmem:
  assumes "program_loaded g" and "drop_bit 24 a AND 0xff = 0" and "unat (a AND 0xffff) + n \<le> 0x8000" and "0 < n"
  shows "read_memory a n g = (Inr (copy_out (Dmem (unat (a AND 0xffff))) n (mem (target g))), g)"
proof -
  let ?s = "target g" and ?a = "a AND 0x00ffffff" and ?k = "unat (a AND 0xffff)"
  have "dmem_addr (?a + of_nat (0 + j)) ?s = (Dmem (?k + 0 + j), ?s)" if "j < n" for j
  proof -
    have "unat ?a + j < 2 ^ 32" using unat_low24 [of a] that assms(3) by simp
    then have "unat (?a + of_nat j) = unat ?a + j" by (rule unat_add_small)
    then have "unat ((?a + of_nat j) AND 0xffff) = (unat ?a + j) mod 2 ^ 16" by (simp add: unat_low16)
    also have "\<dots> = (unat a mod 2 ^ 16 + j) mod 2 ^ 16"
    proof -
      have "unat a mod 2 ^ 24 mod 2 ^ 16 = unat a mod 2 ^ 16" by (rule mod_mod_cancel) simp
      then show ?thesis unfolding unat_low24 by (metis mod_add_left_eq)
    qed
    also have "\<dots> = ?k + j" using that assms(3) by (simp add: unat_low16)
    finally have u: "unat ((?a + of_nat j) AND 0xffff) = ?k + j" .
    then have "\<not> (?a + of_nat j) AND 0xffff > 0xbfff" "\<not> (?a + of_nat j) AND 0xffff > 0x7fff"
      using that assms(3) by (simp_all add: word_less_nat_alt)
    then show ?thesis using u by (simp add: dmem_addr_def Let_def)
  qed
  then have "xfer_dmap ?a 0 n False (replicate n 0) ?s = (n, copy_out (Dmem ?k) n (mem ?s), ?s)"
    using xfer_dmap_read [of n ?a 0 ?s ?k "replicate n 0"] by simp
  then have "sim_read a (replicate n 0) n ?s = (n, copy_out (Dmem ?k) n (mem ?s), ?s)"
    using assms(2) by (simp add: sim_read_def xfer_mem_def Let_def)
  then show ?thesis
    using assms(1) by (simp add: read_memory_def target_xfer_memory_def gdbsim_xfer_inferior_memory_def action_defs)
qed

definition sample_trace :: gdb where
  "sample_trace = (attached ((boot True)\<lparr>mem := copy_in (Dmem 0) [0, 2, 0, 0, 3, 0, 0, 0x10, 5, 0, 0, 0x20] (\<lambda>_. 0)\<rparr>))
     \<lparr>tracing := True, last_pc := 0x10, trace_data := \<lparr>tb_size = 0, counts = replicate 65536 0, addrs = replicate 65536 0\<rparr>\<rparr>"

theorem trace_appended_witness:
  "take 2 (addrs (trace_data (snd (d10v_eva_get_trace_data sample_trace)))) = [0x1000040, 0x1000080]"
proof -
  have f: "tracing sample_trace" "last_pc sample_trace = 0x10" "program_loaded sample_trace"
    "trace_data sample_trace = \<lparr>tb_size = 0, counts = replicate 65536 0, addrs = replicate 65536 0\<rparr>"
    "mem (target sample_trace) = copy_in (Dmem 0) [0, 2, 0, 0, 3, 0, 0, 0x10, 5, 0, 0, 0x20] (\<lambda>_. 0)"
    by (simp_all add: sample_trace_def attached_def)
  have c: "copy_out (Dmem 0) 2 (mem (target sample_trace)) = [0, 2]" "copy_out (Dmem 4) 4 (mem (target sample_trace)) = [3, 0, 0, 0x10]"
    "copy_out (Dmem 8) 4 (mem (target sample_trace)) = [5, 0, 0, 0x20]"
    unfolding f(5) by code_simp+
  have n: "read_memory_unsigned_integer DBBC_ADDR 2 sample_trace = (Inr 2, sample_trace)"
    using read_dmem [OF f(3), of DBBC_ADDR 2] c by (simp add: read_memory_unsigned_integer_def action_defs extract_unsigned_integer_def)
  have r: "read_memory (TRACE_BUFFER_BASE + 8) 4 sample_trace = (Inr [5, 0, 0, 0x20], sample_trace)"
    "read_memory (TRACE_BUFFER_BASE + 4) 4 sample_trace = (Inr [3, 0, 0, 0x10], sample_trace)"
    using read_dmem [OF f(3), of "TRACE_BUFFER_BASE + 8" 4] read_dmem [OF f(3), of "TRACE_BUFFER_BASE + 4" 4] c by simp_all
  have u: "unat (2 :: uint64) = Suc (Suc 0)" by simp
  have ws: "read_trace (unat (2 :: uint64)) [] sample_trace = (Inr [0x05000020, 0x03000010], sample_trace)"
    unfolding u using r f(2) by (simp add: read_memory_unsigned_integer_def action_defs extract_unsigned_integer_def)
  show ?thesis
    using trace_appended [OF f(1) n ws] by (simp add: f(4) Let_def trace_entry_def upt_rec)
qed

end
