(* ===== verification/Board_Correct.thy ===== *)
theory Board_Correct
  imports Gdb_Remote Gdb_Cache
begin

text \<open>
  The debugger's translation of addresses for the remote board (\<open>Gdb_Remote\<close>) and the simulator's own translation
  (\<open>D10V_Mem\<close>) are the same: with equal map registers they reach the same byte of the same memory.
\<close>

section \<open>Addresses of the board\<close>

definition board_ptr :: "CORE_ADDR \<Rightarrow> ptr" where
  "board_ptr a =
     (let off = unat a mod 2 ^ 24 in
      if unat a div 2 ^ 24 = 0 then Umem (off div 2 ^ 17) (off mod 2 ^ 17)
      else if unat a div 2 ^ 24 = 1 then Imem off else Dmem off)"

lemma of_nat_unat_eq: "unat (v :: uint32) = k \<Longrightarrow> v = of_nat k"
  by auto

lemma or_disjoint:
  fixes x y :: uint32
  assumes "y = take_bit n y"
  shows "push_bit n x OR y = push_bit n x + y"
proof -
  have "\<not> bit (push_bit n x) k \<or> \<not> bit y k" for k
    by (subst assms) (auto simp: bit_simps)
  then show ?thesis by (simp add: disjunctive_add)
qed

lemma and_masks:
  "(x :: uint32) AND 0xf = take_bit 4 x" "x AND 0x3ff = take_bit 10 x" "x AND 0x3fff = take_bit 14 x"
  "x AND 0x7f = take_bit 7 x" "x AND 0x1ffff = take_bit 17 x" "x AND 0xffffff = take_bit 24 x"
  by (simp_all add: take_bit_eq_mask mask_eq_exp_minus_1)

lemma unat_push_take:
  assumes "n + m \<le> 24"
  shows "unat (push_bit n (take_bit m (x :: uint32))) = 2 ^ n * (unat x mod 2 ^ m)"
proof -
  have "unat x mod 2 ^ m < 2 ^ m" by simp
  then have "2 ^ n * (unat x mod 2 ^ m) < 2 ^ n * 2 ^ m" by simp
  also have "\<dots> = 2 ^ (n + m)" by (simp add: power_add)
  also have "\<dots> \<le> 2 ^ 24" using assms by (intro power_increasing) auto
  finally have "2 ^ n * (unat x mod 2 ^ m) < 2 ^ 32" by simp
  then show ?thesis
    by (simp only: unsigned_push_bit_eq unsigned_take_bit_eq)
       (simp add: take_bit_eq_mod push_bit_eq_mult mult.commute)
qed

lemma low_bits:
  fixes m :: uint16
  shows "k \<le> 16 \<Longrightarrow> unat (scast m :: uint32) mod 2 ^ k = unat m mod 2 ^ k"
    "unat (take_bit 10 (scast m :: uint32)) = unat m mod 2 ^ 10"
    "unat (take_bit 7 (scast m :: uint32)) = unat m mod 2 ^ 7"
    "unat (take_bit 4 (scast m :: uint32)) = unat m mod 2 ^ 4"
    "(scast m :: uint32) AND 0x1000 \<noteq> 0 \<longleftrightarrow> m AND 0x1000 \<noteq> 0"
proof -
  have *: "take_bit k (scast m :: uint32) = take_bit k (ucast m)" if "k \<le> 16" for k
    using that by (auto intro!: bit_word_eqI simp: bit_simps)
  show "k \<le> 16 \<Longrightarrow> unat (scast m :: uint32) mod 2 ^ k = unat m mod 2 ^ k" for k
    using arg_cong [OF * [of k], of unat] by (simp only: unsigned_take_bit_eq) (simp add: take_bit_eq_mod unsigned_ucast_eq)
  show "unat (take_bit 10 (scast m :: uint32)) = unat m mod 2 ^ 10"
    "unat (take_bit 7 (scast m :: uint32)) = unat m mod 2 ^ 7"
    "unat (take_bit 4 (scast m :: uint32)) = unat m mod 2 ^ 4"
    by (simp_all only: * unsigned_take_bit_eq) (simp_all add: take_bit_eq_mod unsigned_ucast_eq)
  have "(0x1000 :: uint32) = 2 ^ 12" "(0x1000 :: uint16) = 2 ^ 12" by simp_all
  then show "(scast m :: uint32) AND 0x1000 \<noteq> 0 \<longleftrightarrow> m AND 0x1000 \<noteq> 0"
    by (simp only: and_single_bit) (auto simp: bit_simps)
qed

lemma and_masks16:
  "(x :: uint16) AND 0xf = take_bit 4 x" "x AND 7 = take_bit 3 x" "x AND 0x3ff = take_bit 10 x" "x AND 0xff = take_bit 8 x"
  by (simp_all add: take_bit_eq_mask mask_eq_exp_minus_1)

lemma dmem_nat:
  assumes "\<forall>k < 128. umem s ! k"
  shows "x \<le> 0x7fff \<Longrightarrow> dmem_addr (of_nat x) s = (Dmem x, s)"
    "0x8000 \<le> x \<Longrightarrow> x \<le> 0xbfff \<Longrightarrow> DMAP s AND 0x1000 \<noteq> 0 \<Longrightarrow>
      dmem_addr (of_nat x) s = (Imem (unat (DMAP s) mod 16 * 0x4000 + (x - 0x8000)), s)"
    "0x8000 \<le> x \<Longrightarrow> x \<le> 0xbfff \<Longrightarrow> DMAP s AND 0x1000 = 0 \<Longrightarrow>
      dmem_addr (of_nat x) s = (Umem (unat (DMAP s) mod 1024 div 8) (unat (DMAP s) mod 8 * 0x4000 + (x - 0x8000)), s)"
proof -
  have m: "(of_nat x :: uint32) AND 0xffff = of_nat x" if "x \<le> 0xbfff"
  proof -
    have "(of_nat x :: uint32) AND 0xffff = take_bit 16 (of_nat x)" by (simp add: take_bit_eq_mask mask_eq_exp_minus_1)
    also have "\<dots> = of_nat x" using that by (simp only: take_bit_of_nat) (simp add: take_bit_nat_eq_self)
    finally show ?thesis .
  qed
  have le: "of_nat k < (of_nat x :: uint32) \<longleftrightarrow> k < x" if "x \<le> 0xbfff" "k \<le> 0xffff" for k
    using that by (simp add: word_less_nat_alt unat_of_nat)
  have sub: "unat ((of_nat x :: uint32) - 0x8000) = x - 0x8000" if "0x8000 \<le> x" "x \<le> 0xbfff"
    using that by (simp add: unat_sub word_le_nat_alt unat_of_nat)
  have bits: "unat (DMAP s AND 0xf) = unat (DMAP s) mod 16" "unat (DMAP s AND 7) = unat (DMAP s) mod 8"
    "unat (drop_bit 3 (DMAP s AND 0x3ff)) = unat (DMAP s) mod 1024 div 8"
    by (simp_all only: and_masks16 unsigned_drop_bit_eq unsigned_take_bit_eq) (simp_all add: take_bit_eq_mod drop_bit_eq_div)
  show "x \<le> 0x7fff \<Longrightarrow> dmem_addr (of_nat x) s = (Dmem x, s)"
    using m le [of "0xbfff"] le [of "0x7fff"] by (simp add: dmem_addr_def Let_def unat_of_nat)
  show "dmem_addr (of_nat x) s = (Imem (unat (DMAP s) mod 16 * 0x4000 + (x - 0x8000)), s)"
    if "0x8000 \<le> x" "x \<le> 0xbfff" "DMAP s AND 0x1000 \<noteq> 0"
    using that m le [of "0xbfff"] le [of "0x7fff"] sub bits by (simp add: dmem_addr_def Let_def)
  show "dmem_addr (of_nat x) s = (Umem (unat (DMAP s) mod 1024 div 8) (unat (DMAP s) mod 8 * 0x4000 + (x - 0x8000)), s)"
    if "0x8000 \<le> x" "x \<le> 0xbfff" "DMAP s AND 0x1000 = 0"
    using that m le [of "0xbfff"] le [of "0x7fff"] sub bits assms by (simp add: dmem_addr_def Let_def)
qed

lemma board_ptr_nat:
  "x < 2 ^ 24 \<Longrightarrow> board_ptr (of_nat x) = Umem (x div 2 ^ 17) (x mod 2 ^ 17)"
  "x < 2 ^ 24 \<Longrightarrow> board_ptr (of_nat (0x1000000 + x)) = Imem x"
  "x < 2 ^ 24 \<Longrightarrow> board_ptr (of_nat (0x2000000 + x)) = Dmem x"
proof -
  assume x: "x < 2 ^ 24"
  have u: "unat (of_nat n :: uint32) = n" if "n < 2 ^ 26" for n
    using that by (simp add: unat_of_nat)
  show "board_ptr (of_nat x) = Umem (x div 2 ^ 17) (x mod 2 ^ 17)"
    using x by (simp add: board_ptr_def u)
  have "(2 ^ 24 + x) div 2 ^ 24 = 1" "(2 ^ 24 + x) mod 2 ^ 24 = x"
    "(2 ^ 24 + (2 ^ 24 + x)) div 2 ^ 24 = 2" "(2 ^ 24 + (2 ^ 24 + x)) mod 2 ^ 24 = x"
    using x by (simp_all only: div_add_self1 mod_add_self1 div_less mod_less)
  then show "board_ptr (of_nat (0x1000000 + x)) = Imem x" "board_ptr (of_nat (0x2000000 + x)) = Dmem x"
    using x u [of "0x1000000 + x"] u [of "0x2000000 + x"] by (simp_all only: board_ptr_def) simp_all
qed

lemma data_window_nat:
  fixes m :: uint16
  assumes "0x8000 \<le> x" "x \<le> 0xbfff"
  shows "data_window (scast m) (of_nat x) =
    (if m AND 0x1000 \<noteq> 0 then of_nat (0x1000000 + (unat m mod 16 * 0x4000 + (x - 0x8000)))
     else of_nat (unat m mod 1024 * 0x4000 + (x - 0x8000)))"
proof -
  have x: "unat (take_bit 14 (of_nat x :: uint32)) = x - 0x8000"
  proof -
    have "x mod 2 ^ 14 = x - 0x8000"
      using assms by (simp add: le_mod_geq)
    then show ?thesis
      using assms by (simp only: unsigned_take_bit_eq) (simp add: take_bit_eq_mod unat_of_nat)
  qed
  have p: "unat (push_bit 14 (take_bit 4 (scast m :: uint32))) = unat m mod 16 * 0x4000"
    "unat (push_bit 14 (take_bit 10 (scast m :: uint32))) = unat m mod 1024 * 0x4000"
    using unat_push_take [of 14 4 "scast m"] unat_push_take [of 14 10 "scast m"] low_bits(1) [of 4 m] low_bits(1) [of 10 m]
    by (simp_all add: mult.commute)
  have "(scast m :: uint32) AND 0x1000 \<noteq> 0 \<longleftrightarrow> m AND 0x1000 \<noteq> 0" by (rule low_bits)
  moreover have "0x1000000 OR push_bit 14 (take_bit 4 (scast m)) OR take_bit 14 (of_nat x)
     = (0x1000000 + (push_bit 14 (take_bit 4 (scast m)) + take_bit 14 (of_nat x)) :: uint32)"
  proof -
    let ?w = "push_bit 14 (take_bit 4 (scast m)) + take_bit 14 (of_nat x) :: uint32"
    have "unat ?w = unat m mod 16 * 0x4000 + (x - 0x8000)" using x p assms by (simp add: unat_word_ariths)
    then have "unat ?w < 2 ^ 24" using assms(2) mod_less_divisor [of 16 "unat m"] by (simp add: less_Suc_eq_le)
    then have "?w = take_bit 24 ?w"
      by (intro word_unat_eq_iff [THEN iffD2]) (simp only: unsigned_take_bit_eq take_bit_nat_eq_self)
    then have "push_bit 24 1 OR ?w = push_bit 24 1 + ?w" by (rule or_disjoint)
    then show ?thesis by (simp add: or_disjoint)
  qed
  moreover have "push_bit 14 (take_bit 10 (scast m)) OR take_bit 14 (of_nat x)
     = (push_bit 14 (take_bit 10 (scast m)) + take_bit 14 (of_nat x) :: uint32)"
    by (rule or_disjoint) simp
  ultimately show ?thesis
    using of_nat_unat_eq [OF x] of_nat_unat_eq [OF p(1)] of_nat_unat_eq [OF p(2)] by (simp add: data_window_def and_masks or_disjoint)
qed

lemma umem_split:
  fixes a y :: nat
  assumes "y < 0x4000"
  shows "(a * 0x4000 + y) div 2 ^ 17 = a div 8" "(a * 0x4000 + y) mod 2 ^ 17 = a mod 8 * 0x4000 + y"
proof -
  let ?z = "a mod 8 * 0x4000 + y"
  have z: "?z < 2 ^ 17" using assms mod_less_divisor [of 8 a] by (simp add: less_Suc_eq_le)
  have "a * 0x4000 = (a div 8 * 8 + a mod 8) * 0x4000" by simp
  then have e: "a * 0x4000 + y = ?z + a div 8 * 2 ^ 17" by (simp only: add_mult_distrib) simp
  show "(a * 0x4000 + y) div 2 ^ 17 = a div 8" "(a * 0x4000 + y) mod 2 ^ 17 = ?z"
    unfolding e using z by (simp_all only: div_mult_self1 mod_mult_self1 div_less mod_less)
qed

text \<open>The number of bytes up to the end \<open>hi\<close> of a mapped region.\<close>

lemma clip_length:
  fixes off nr :: uint32
  assumes "unat off \<le> hi" "hi < 2 ^ 20" "unat nr < 2 ^ 31" "0 < unat nr"
    and "n = (if off + nr > of_nat hi then of_nat hi - off + 1 else nr)"
  shows "unat n \<le> unat nr" "0 < unat n" "unat off + unat n \<le> hi + 1"
proof -
  have t: "unat (of_nat hi :: uint32) = hi" using assms(2) by (simp add: unat_of_nat)
  have s: "unat (off + nr) = unat off + unat nr" using assms(1-3) by (simp add: unat_word_ariths)
  have l: "off + nr > of_nat hi \<longleftrightarrow> hi < unat off + unat nr" by (simp add: word_less_nat_alt s t)
  have d: "unat (of_nat hi - off) = hi - unat off"
    using assms(1) t by (simp add: unat_sub word_le_nat_alt)
  have "unat (of_nat hi - off + 1) = hi - unat off + 1"
    using assms(1,2) d by (simp add: unat_word_ariths)
  then show "unat n \<le> unat nr" "0 < unat n" "unat off + unat n \<le> hi + 1"
    using assms l s by (auto split: if_splits)
qed

lemma translate_data_ptr:
  assumes "\<forall>k < 128. umem s ! k" and "unat nr < 2 ^ 31" "0 < unat nr"
    and "translate_data (scast (DMAP s)) off nr = Some (taddr, n)" and "i < unat n"
  shows "dmem_addr (off + of_nat i) s = (board_ptr (taddr + of_nat i), s)"
proof (cases "off \<le> 0x7fff")
  case True
  have n: "taddr = 0x2000000 + off" "n = (if off + nr > of_nat 0x7fff then of_nat 0x7fff - off + 1 else nr)"
    using assms(4) True by (auto simp: translate_data_def)
  have "unat off \<le> 0x7fff" using True by (simp add: word_le_nat_alt)
  then have x: "unat off + i \<le> 0x7fff" using clip_length(3) [OF _ _ assms(2,3) n(2)] assms(5) by simp
  have "off + of_nat i = of_nat (unat off + i)" "taddr + of_nat i = of_nat (0x2000000 + (unat off + i))"
    using n by simp_all
  then show ?thesis using x dmem_nat(1) [OF assms(1) x] board_ptr_nat(3) [of "unat off + i"] by (simp only:) simp
next
  case False
  then have ge: "0x8000 \<le> unat off" by (simp add: word_le_nat_alt)
  have n: "off \<le> 0xbfff" "taddr = data_window (scast (DMAP s)) off"
    "n = (if off + nr > of_nat 0xbfff then of_nat 0xbfff - off + 1 else nr)"
    using assms(4) False by (auto simp: translate_data_def split: if_splits)
  have le: "unat off \<le> 0xbfff" using n(1) by (simp add: word_le_nat_alt)
  then have x: "unat off + i \<le> 0xbfff" using clip_length(3) [OF _ _ assms(2,3) n(3)] assms(5) by simp
  define k where "k = unat off + i - 0x8000"
  have k: "k < 0x4000" "unat off - 0x8000 + i = k" using x ge by (simp_all add: k_def)
  have off: "off + of_nat i = of_nat (unat off + i)" "of_nat (unat off) = off" by simp_all
  have w: "taddr = (if DMAP s AND 0x1000 \<noteq> 0 then of_nat (0x1000000 + (unat (DMAP s) mod 16 * 0x4000 + (unat off - 0x8000)))
     else of_nat (unat (DMAP s) mod 1024 * 0x4000 + (unat off - 0x8000)))"
    using data_window_nat [OF ge le, of "DMAP s"] n(2) off(2) by (simp only:)
  show ?thesis
  proof (cases "DMAP s AND 0x1000 = 0")
    case True
    let ?a = "unat (DMAP s) mod 1024"
    have "taddr + of_nat i = of_nat (?a * 0x4000 + k)" using w True by (simp add: k(2) [symmetric])
    moreover have "?a * 0x4000 + k < 2 ^ 24" using k(1) mod_less_divisor [of 1024 "unat (DMAP s)"] by simp
    ultimately have "board_ptr (taddr + of_nat i) = Umem (?a div 8) (?a mod 8 * 0x4000 + k)"
      using board_ptr_nat(1) [of "?a * 0x4000 + k", unfolded umem_split [OF k(1)]] by metis
    moreover have "?a mod 8 = unat (DMAP s) mod 8" by (simp add: mod_mod_cancel)
    moreover have "dmem_addr (of_nat (unat off + i)) s = (Umem (?a div 8) (unat (DMAP s) mod 8 * 0x4000 + k), s)"
      unfolding k_def by (rule dmem_nat(3) [OF assms(1) _ x True]) (use ge in simp)
    ultimately show ?thesis by (simp only: off(1))
  next
    case False
    let ?a = "unat (DMAP s) mod 16"
    have "taddr + of_nat i = of_nat (0x1000000 + (?a * 0x4000 + k))" using w False by (simp add: k(2) [symmetric])
    moreover have "?a * 0x4000 + k < 2 ^ 24" using k(1) mod_less_divisor [of 16 "unat (DMAP s)"] by simp
    ultimately have "board_ptr (taddr + of_nat i) = Imem (?a * 0x4000 + k)"
      using board_ptr_nat(2) by (simp only:)
    moreover have "dmem_addr (of_nat (unat off + i)) s = (Imem (?a * 0x4000 + k), s)"
      unfolding k_def by (rule dmem_nat(2) [OF assms(1) _ x False]) (use ge in simp)
    ultimately show ?thesis by (simp only: off(1))
  qed
qed

lemma translate_insn_ptr:
  assumes "\<forall>k < 128. umem s ! k" and "unat nr < 2 ^ 31" "0 < unat nr"
    and "IMAP0 s AND 0x80 = 0" "IMAP1 s AND 0x80 = 0"
    and "translate_insn (scast (IMAP0 s)) (scast (IMAP1 s)) off nr = Some (taddr, n)" and "i < unat n"
  shows "imem_addr (off + of_nat i) s = Inr (Some (board_ptr (taddr + of_nat i)))"
proof -
  define m where "m = (if off \<le> 0x1ffff then IMAP0 s else IMAP1 s)"
  define lo where "lo = off AND 0x1ffff"
  define b where "b = (if off \<le> 0x1ffff then 0 else 0x20000 :: nat)"
  have not: "\<not> off > 0x3ffff" using assms(6) by (auto simp: translate_insn_def)
  then have off: "unat off \<le> 0x3ffff" by (simp add: word_less_nat_alt not_less)
  have lo: "unat lo = unat off mod 2 ^ 17"
    unfolding lo_def and_masks unsigned_take_bit_eq by (simp add: take_bit_eq_mod)
  have hi: "off \<le> 0x1ffff \<longleftrightarrow> unat off \<le> 0x1ffff" by (simp add: word_le_nat_alt)
  have split: "unat off = b + unat lo"
  proof (cases "unat off \<le> 0x1ffff")
    case False
    then have "unat off mod 2 ^ 17 = unat off - 0x20000" using off by (simp add: le_mod_geq)
    then show ?thesis using False hi lo by (simp add: b_def)
  qed (use hi lo in \<open>simp add: b_def\<close>)
  have n: "n = (if lo + nr > of_nat 0x1ffff then of_nat 0x1ffff - lo + 1 else nr)"
    using assms(6) by (auto simp: translate_insn_def Let_def lo_def split: if_splits)
  define y where "y = unat lo + i"
  have "unat lo < 2 ^ 17" unfolding lo by simp
  then have y: "y < 2 ^ 17" using clip_length(3) [OF _ _ assms(2,3) n] assms(7) by (simp add: y_def)
  have pc: "off + of_nat i = of_nat (b + y)"
  proof -
    have "off = of_nat (b + unat lo)" by (simp only: split [symmetric]) simp
    then show ?thesis by (simp add: y_def)
  qed
  have by_less: "b + y < 2 ^ 24" using y by (simp add: b_def)
  have u: "unat (of_nat (b + y) :: uint32) = b + y" using by_less by (simp add: unat_of_nat del: of_nat_add)
  have bit17: "(of_nat (b + y) :: uint32) AND 0x20000 \<noteq> 0 \<longleftrightarrow> b \<noteq> 0"
  proof -
    have "(0x20000 :: uint32) = 2 ^ 17" by simp
    then have "(of_nat (b + y) :: uint32) AND 0x20000 \<noteq> 0 \<longleftrightarrow> bit (of_nat (b + y) :: uint32) 17"
      by (simp only: and_single_bit) simp
    also have "\<dots> \<longleftrightarrow> bit (unat (of_nat (b + y) :: uint32)) 17" by (simp only: bit_unsigned_iff) simp
    also have "\<dots> \<longleftrightarrow> bit (b + y) 17" by (simp only: u)
    also have "\<dots> \<longleftrightarrow> odd ((b + y) div 2 ^ 17)" by (simp only: bit_iff_odd)
    also have "(b + y) div 2 ^ 17 = of_bool (b \<noteq> 0)" using y by (simp add: b_def div_add_self1)
    finally show ?thesis by simp
  qed
  have sel: "(if (off + of_nat i) AND 0x20000 \<noteq> 0 then IMAP1 s else IMAP0 s) = m"
    using bit17 hi by (simp only: pc) (auto simp: m_def b_def)
  have low: "unat ((off + of_nat i) AND 0x1ffff) = y"
  proof -
    have "unat ((of_nat (b + y) :: uint32) AND 0x1ffff) = (b + y) mod 2 ^ 17"
      unfolding and_masks unsigned_take_bit_eq u by (simp add: take_bit_eq_mod)
    then show ?thesis using y by (simp only: pc) (simp add: b_def)
  qed
  have mr: "(if off \<le> 0x1ffff then scast (IMAP0 s) else scast (IMAP1 s)) = (scast m :: uint32)"
    by (simp add: m_def)
  show ?thesis
  proof (cases "m AND 0x1000 = 0")
    case False
    have t24: "off = take_bit 24 off" using off by (intro word_unat_eq_iff [THEN iffD2]) (simp add: unsigned_take_bit_eq take_bit_nat_eq_self)
    have "taddr = push_bit 24 1 OR off"
      using assms(6) not False low_bits(5) [of m] mr by (simp add: translate_insn_def Let_def)
    then have "taddr = 0x1000000 + off" using or_disjoint [OF t24, of 1] by simp
    then have "taddr + of_nat i = of_nat (0x1000000 + (b + y))" using pc by (simp add: add.assoc)
    then have "board_ptr (taddr + of_nat i) = Imem (b + y)" using board_ptr_nat(2) [OF by_less] by (simp only:)
    moreover have "imem_addr (off + of_nat i) s = Inr (Some (Imem (b + y)))"
      using False by (simp only: imem_addr_def sel Let_def) (simp only: pc u, simp)
    ultimately show ?thesis by simp
  next
    case True
    let ?a = "unat m mod 128"
    have "m AND 0x80 = 0" using assms(4,5) by (simp add: m_def)
    then have "\<not> bit m 7" using and_single_bit [of m 7] by (simp split: if_splits)
    then have "m AND 0xff = take_bit 7 m"
      unfolding and_masks16 by (intro bit_word_eqI) (auto simp: bit_simps less_Suc_eq numeral_eq_Suc)
    then have m7: "unat (m AND 0xff) = ?a" by (simp only: unsigned_take_bit_eq) (simp add: take_bit_eq_mod)
    have "push_bit 17 (take_bit 7 (scast m :: uint32)) = of_nat (?a * 2 ^ 17)"
    proof -
      have "unat (push_bit 17 (take_bit 7 (scast m :: uint32))) = ?a * 2 ^ 17"
        using unat_push_take [of 17 7 "scast m"] low_bits(1) [of 7 m] by (simp add: mult.commute)
      then show ?thesis by (rule of_nat_unat_eq)
    qed
    then have "taddr = of_nat (?a * 2 ^ 17) + lo"
      using assms(6) not True low_bits(5) [of m] mr by (auto simp: translate_insn_def Let_def and_masks lo_def split: if_splits)
    moreover have "lo + of_nat i = of_nat y" by (simp add: y_def)
    ultimately have ta: "taddr + of_nat i = of_nat (?a * 2 ^ 17 + y)" by (simp add: add.assoc)
    have "?a * 2 ^ 17 + y < 2 ^ 24" using y mod_less_divisor [of 128 "unat m"] by simp
    moreover have "(?a * 2 ^ 17 + y) div 2 ^ 17 = ?a" "(?a * 2 ^ 17 + y) mod 2 ^ 17 = y" using y by simp_all
    ultimately have "board_ptr (taddr + of_nat i) = Umem ?a y"
      using board_ptr_nat(1) [of "?a * 2 ^ 17 + y"] by (simp only: ta)
    moreover have "imem_addr (off + of_nat i) s = Inr (Some (Umem ?a y))"
      using True assms(1) by (simp only: imem_addr_def sel Let_def m7 low) simp
    ultimately show ?thesis by simp
  qed
qed

lemma translate_data_length:
  assumes "unat nr < 2 ^ 31" "0 < unat nr" and "translate_data m off nr = Some (taddr, n)"
  shows "0 < unat n" "unat n \<le> unat nr"
proof -
  have "unat off \<le> hi \<Longrightarrow> hi < 2 ^ 20 \<Longrightarrow> n = (if off + nr > of_nat hi then of_nat hi - off + 1 else nr) \<Longrightarrow>
      0 < unat n \<and> unat n \<le> unat nr" for hi
    using clip_length(1,2) assms(1,2) by blast
  note * = this [of "0x7fff"] this [of "0xbfff"]
  have "off \<le> 0x7fff \<longleftrightarrow> unat off \<le> 0x7fff" "off \<le> 0xbfff \<longleftrightarrow> unat off \<le> 0xbfff" by (simp_all add: word_le_nat_alt)
  then show "0 < unat n" "unat n \<le> unat nr" using * assms(3) by (auto simp: translate_data_def split: if_splits)
qed

lemma translate_insn_length:
  assumes "unat nr < 2 ^ 31" "0 < unat nr" and "translate_insn m m' off nr = Some (taddr, n)"
  shows "0 < unat n" "unat n \<le> unat nr"
proof -
  have "unat (off AND 0x1ffff) \<le> 0x1ffff" using unat_and_le [of off "0x1ffff"] by simp
  moreover have "n = (if (off AND 0x1ffff) + nr > of_nat 0x1ffff then of_nat 0x1ffff - (off AND 0x1ffff) + 1 else nr)"
    using assms(3) by (auto simp: translate_insn_def Let_def split: if_splits)
  ultimately show "0 < unat n" "unat n \<le> unat nr" using clip_length(1,2) [OF _ _ assms(1,2), of off' "0x1ffff" n for off'] by simp_all
qed

lemma map_register_word: "map_register (ucast w) = scast (w :: uint16)"
proof -
  have "(ucast (ucast w :: CORE_ADDR) :: uint16) = w" by (rule bit_word_eqI) (simp add: bit_simps)
  then show ?thesis by (simp add: map_register_def)
qed

lemma positive_word:
  assumes "0 <s (x :: int32)"
  shows "unat x < 2 ^ 31" "0 < unat x"
proof -
  have "0 < sint x" "sint x < 2 ^ 31" using assms sint_less [of x] by (simp_all add: word_sless_alt)
  then have "uint x = sint x" by (simp add: uint_sint take_bit_int_eq_self)
  then show "unat x < 2 ^ 31" "0 < unat x" using \<open>0 < sint x\<close> \<open>sint x < 2 ^ 31\<close> by (simp_all add: unat_eq_nat_uint nat_less_iff)
qed

lemma remote_translate:
  assumes "coherent g"
  shows "fst (remote_d10v_translate_xfer_address memaddr nr g) =
    translate_address (scast (IMAP0 (target g))) (scast (IMAP1 (target g))) (scast (DMAP (target g))) memaddr nr"
proof -
  define g1 where "g1 = snd (read_register IMAP0_REGNUM g)"
  define g2 where "g2 = snd (read_register IMAP1_REGNUM g1)"
  have f1: "fetched IMAP0_REGNUM g g1" unfolding g1_def by (rule read_register) (use assms in simp_all)
  then have g1: "coherent g1" "target g1 = target g" by (simp_all add: fetched_def)
  have f2: "fetched IMAP1_REGNUM g1 g2" unfolding g2_def by (rule read_register) (use g1 in simp_all)
  then have g2: "coherent g2" "target g2 = target g" using g1 by (simp_all add: fetched_def)
  have "fst (read_register IMAP0_REGNUM g) = ucast (IMAP0 (target g))" "fst (read_register IMAP1_REGNUM g1) = ucast (IMAP1 (target g))"
    "fst (read_register DMAP_REGNUM g2) = ucast (DMAP (target g))"
    using read_register(1) [OF assms, of IMAP0_REGNUM] read_register(1) [OF g1(1), of IMAP1_REGNUM]
      read_register(1) [OF g2(1), of DMAP_REGNUM] g1 g2 by (simp_all add: reg_word_def)
  then show ?thesis
    by (simp add: remote_d10v_translate_xfer_address_def case_prod_beta Let_def map_register_word g1_def [symmetric] g2_def [symmetric])
qed

text \<open>
  C32. The debugger's translation of an address for the board agrees with the simulator's: for every logical address,
  every number of bytes and every setting of the map registers that exist (instruction maps below 128), each byte of the
  range that the debugger transfers is the byte that the simulator reaches at that address, and the range is not
  empty and not longer than asked for.
\<close>

theorem board_translation_agrees:
  assumes "coherent g" and "\<forall>k < 128. umem (target g) ! k"
    and "IMAP0 (target g) AND 0x80 = 0" "IMAP1 (target g) AND 0x80 = 0"
    and "0 <s nr" and "drop_bit 24 memaddr \<in> {0, 1}"
    and "remote_d10v_translate_xfer_address memaddr nr g = (Some (taddr, n), g')"
  shows "0 < unat n \<and> unat n \<le> unat nr \<and>
    (\<forall>i < unat n. let off = (memaddr AND 0xffffff) + of_nat i; p = board_ptr (taddr + of_nat i) in
       if drop_bit 24 memaddr = 0 then dmem_addr off (target g) = (p, target g)
       else imem_addr off (target g) = Inr (Some p))"
proof -
  let ?s = "target g"
  have tr: "translate_address (scast (IMAP0 ?s)) (scast (IMAP1 ?s)) (scast (DMAP ?s)) memaddr nr = Some (taddr, n)"
    using remote_translate [OF assms(1), of memaddr nr] assms(7) by simp
  note nr = positive_word [OF assms(5)]
  let ?off = "memaddr AND 0xffffff"
  show ?thesis
  proof (cases "drop_bit 24 memaddr = 0")
    case True
    then have t: "translate_data (scast (DMAP ?s)) ?off nr = Some (taddr, n)" using tr by (simp add: translate_address_def Let_def)
    show ?thesis using True translate_data_ptr [OF assms(2) nr t] translate_data_length [OF nr t] by simp
  next
    case False
    then have t: "translate_insn (scast (IMAP0 ?s)) (scast (IMAP1 ?s)) ?off nr = Some (taddr, n)"
      using tr assms(6) by (simp add: translate_address_def Let_def)
    show ?thesis using False translate_insn_ptr [OF assms(2) nr assms(3,4) t] translate_insn_length [OF nr t] by simp
  qed
qed

lemma attached_target: "target (attached s) = s"
  by (simp add: attached_def)

theorem board_translation_agrees_witness:
  "let s = (boot True)\<lparr>umem := replicate 128 True\<rparr>;
       r = remote_d10v_translate_xfer_address 0x9000 16 (attached s) in
   fst r = Some (0x1000, 16) \<and> dmem_addr 0x9005 s = (board_ptr 0x1005, s)"
proof -
  let ?s = "(boot True)\<lparr>umem := replicate 128 True\<rparr>"
  have c: "coherent (attached ?s)" by (rule coherent_attached) (simp add: idle_def boot_def wf_sim_def)
  have m: "IMAP0 ?s = 0" "IMAP1 ?s = 0" "DMAP ?s = 0"
    by (simp_all add: IMAP0_def IMAP1_def DMAP_def get_word_def boot_def)
  have r: "fst (remote_d10v_translate_xfer_address 0x9000 16 (attached ?s)) = Some (0x1000, 16)"
    using remote_translate [OF c] m by (simp add: attached_def translate_address_def translate_data_def data_window_def)
  then obtain g' where t: "remote_d10v_translate_xfer_address 0x9000 16 (attached ?s) = (Some (0x1000, 16), g')"
    by (metis prod.collapse)
  have "\<forall>k < 128. umem ?s ! k" by simp
  then have "dmem_addr (0x9000 + of_nat 5) ?s = (board_ptr (0x1000 + of_nat 5), ?s)"
    using board_translation_agrees [OF c _ _ _ _ _ t] m by (auto simp: attached_target Let_def word_sless_alt dest!: spec [of _ 5])
  then show ?thesis using r by (simp add: Let_def)
qed

end
