(* ===== verification/Prologue_Run.thy ===== *)
theory Prologue_Run
  imports Gdb_Cache Board_Correct
begin

text \<open>
  What the simulator (\<open>Interp\<close>) does with the instructions that the debugger recognises in a prologue
  (\<open>check_prologue\<close> of \<open>Gdb_D10V\<close>): each is found in the table, and a word of two of them, in any of the three
  formats, writes the registers and the stack as the direct definition \<open>effect\<close> says.
\<close>

section \<open>Decoding a pattern\<close>

text \<open>All words that agree with \<open>V\<close> in the bits of \<open>M\<close> are the instruction of entry \<open>i\<close>.\<close>

lemma lookup_pattern:
  assumes "ins AND M = V" and "i < 158" and "so_is_long (Simops ! i) = sz"
    and "so_mask (Simops ! i) AND M = so_mask (Simops ! i)" and "V AND so_mask (Simops ! i) = so_opcode (Simops ! i)"
    and "list_all (\<lambda>e. so_is_long e = sz \<longrightarrow> V AND so_mask e \<noteq> so_opcode e AND M) (take i Simops)"
  shows "lookup_hash ins sz = Found i"
proof (rule lookup_hash_Found [OF assms(2)])
  have "ins AND so_mask (Simops ! i) = V AND so_mask (Simops ! i)"
    using assms(1,4) by (metis and.assoc and.commute)
  then show "op_matches (ins, sz) i" using assms(3,5) by (simp add: op_matches_def)
  have "V AND m = (ins AND m) AND M" for m using assms(1) by (metis and.assoc and.commute)
  then show "list_all (\<lambda>e. \<not> (ins AND so_mask e = so_opcode e \<and> so_is_long e = sz)) (take i Simops)"
    using assms(6) by (auto simp: list_all_iff)
qed

lemma lookup_st: "(ins :: uint32) AND 0x7E1F = 0x6C1F \<Longrightarrow> lookup_hash ins False = Found 132"
  by (rule lookup_pattern, assumption) (simp_all add: Simops_generated simops.defs)

lemma lookup_st2w: "(ins :: uint32) AND 0x7E3F = 0x6E1F \<Longrightarrow> lookup_hash ins False = Found 137"
  by (rule lookup_pattern, assumption) (simp_all add: Simops_generated simops.defs)

lemma lookup_subi_sp: "(ins :: uint32) AND 0x7FE1 = 0x01E1 \<Longrightarrow> lookup_hash ins False = Found 151"
  by (rule lookup_pattern, assumption) (simp_all add: Simops_generated simops.defs)

lemma lookup_mv_nop: "lookup_hash 0x417E False = Found 83" "lookup_hash 0x5E00 False = Found 102"
  by (rule lookup_hash_Found; simp add: op_matches_eval)+

lemma lookup_st_sp: "(ins :: uint32) AND 0x7E1F = 0x681E \<Longrightarrow> lookup_hash ins False = Found 131"
  by (rule lookup_pattern, assumption) (simp_all add: Simops_generated simops.defs)

text \<open>The pattern for \<open>st2w rn, @sp\<close> is wrong: it is that of a \<open>macu\<close>, and the instruction itself is not recognised.\<close>

lemma lookup_macu: "(ins :: uint32) AND 0x7E3F = 0x3A1E \<Longrightarrow> lookup_hash ins False = Found 69"
  by (rule lookup_pattern, assumption) (simp_all add: Simops_generated simops.defs)

lemma prologue_funcs:
  "func host 132 = OP_6C1F" "func host 137 = OP_6E1F" "func host 151 = OP_1" "func host 83 = OP_4000"
  "func host 102 = OP_5E00" "func host 131 = OP_6800" "func host 69 = OP_3A00" "func host 136 = OP_6A00"
  by (simp_all add: func_def simop_table_def)

section \<open>What the instructions of a prologue do\<close>

text \<open>The effect on the general registers and the memory, as direct writes.\<close>

definition sreg :: "uint16 \<Rightarrow> nat" where
  "sreg op = unat (drop_bit 5 (op AND 0x1E0))"

definition sub_amount :: "uint16 \<Rightarrow> uint16" where
  "sub_amount op = (let k = drop_bit 1 (op AND 0x1E) in if k = 0 then 16 else k)"

definition is_st :: "uint16 \<Rightarrow> bool" where
  "is_st op \<longleftrightarrow> op AND 0x7E1F = 0x6C1F"

definition is_st2w :: "uint16 \<Rightarrow> bool" where
  "is_st2w op \<longleftrightarrow> op AND 0x7E3F = 0x6E1F"

definition is_subi :: "uint16 \<Rightarrow> bool" where
  "is_subi op \<longleftrightarrow> op AND 0x7FE1 = 0x01E1"

definition push_op :: "uint16 \<Rightarrow> bool" where
  "push_op op \<longleftrightarrow> is_st op \<or> is_st2w op \<or> is_subi op \<or> op = 0x417E \<or> op = 0x5E00"

definition effect :: "uint16 \<Rightarrow> uint16 list \<times> (ptr \<Rightarrow> uint8) \<Rightarrow> uint16 list \<times> (ptr \<Rightarrow> uint8)" where
  "effect op = (\<lambda>(rs, m). let sp0 = rs ! 15; n = sreg op in
     if is_st op then (rs[15 := sp0 - 2], write_word (Dmem (unat (sp0 - 2))) (rs ! n) m)
     else if is_st2w op then
       (rs[15 := sp0 - 4],
        write_word (Dmem (unat (sp0 - 4) + 2)) (rs ! (n + 1)) (write_word (Dmem (unat (sp0 - 4))) (rs ! n) m))
     else if is_subi op then (rs[15 := sp0 - sub_amount op], m)
     else if op = 0x417E then (rs[11 := sp0], m)
     else (rs, m))"

text \<open>How far an instruction moves the stack pointer.\<close>

definition depth :: "uint16 \<Rightarrow> nat" where
  "depth op = (if is_st op then 2 else if is_st2w op then 4 else if is_subi op then unat (sub_amount op) else 0)"

text \<open>
  What every instruction of a prologue keeps when it is issued with an idle write-back buffer: the simulator is
  running, there is no exception and no jump, the control registers but the carry flag are unchanged after the
  write-back too.
\<close>

definition calm :: "sim \<Rightarrow> bool" where
  "calm s \<longleftrightarrow> wf_sim s \<and> status s = Running \<and> exception s = 0 \<and> \<not> pc_changed s"

definition quiet :: "sim \<Rightarrow> sim \<Rightarrow> bool" where
  "quiet s u \<longleftrightarrow> calm u \<and> imem u = imem s \<and> umem u = umem s \<and> stop_simulator u = stop_simulator s \<and> cregs u = cregs s
     \<and> a_sp (commit u) = sp s \<and> length (a_cregs (commit u)) = 16 \<and> (\<forall>n \<noteq> 0. a_cregs (commit u) ! n = cregs s ! n)
     \<and> flag PSW_RP_BIT (commit u) = PSW_RP s \<and> flag PSW_DB_BIT (commit u) = PSW_DB s
     \<and> flag PSW_SM_BIT (commit u) = PSW_SM s"

lemma operand_fields:
  "(ucast (drop_bit 5 (ucast op :: uint32) AND 0xF) :: uint16) = drop_bit 5 (op AND 0x1E0)"
  "(ucast (drop_bit 1 (ucast op :: uint32) AND 0xF) :: uint16) = drop_bit 1 (op AND 0x1E)"
proof -
  have "(ucast (drop_bit k (ucast op :: uint32) AND mask 4) :: uint16) = drop_bit k op AND mask 4" for k
    using bit_imp_le_length [of op] by (intro bit_word_eqI) (fastforce simp: bit_simps)
  from this [of 5] this [of 1] show "(ucast (drop_bit 5 (ucast op :: uint32) AND 0xF) :: uint16) = drop_bit 5 (op AND 0x1E0)"
    "(ucast (drop_bit 1 (ucast op :: uint32) AND 0xF) :: uint16) = drop_bit 1 (op AND 0x1E)"
    by (simp_all add: mask_eq_exp_minus_1 drop_bit_and)
qed

lemma low_field:
  "is_st op \<Longrightarrow> drop_bit 1 (op AND 0x1E) = 15" "is_st2w op \<Longrightarrow> drop_bit 1 (op AND 0x1E) = 15"
  "is_subi op \<Longrightarrow> drop_bit 5 (op AND 0x1E0) = 15"
proof -
  have e: "op AND 0x1E = (op AND 0x7E1F) AND 0x1E" "op AND 0x1E = (op AND 0x7E3F) AND 0x1E"
    "op AND 0x1E0 = (op AND 0x7FE1) AND 0x1E0" by (simp_all add: and.assoc)
  show "is_st op \<Longrightarrow> drop_bit 1 (op AND 0x1E) = 15" unfolding e(1) is_st_def by simp
  show "is_st2w op \<Longrightarrow> drop_bit 1 (op AND 0x1E) = 15" unfolding e(2) is_st2w_def by simp
  show "is_subi op \<Longrightarrow> drop_bit 5 (op AND 0x1E0) = 15" unfolding e(3) is_subi_def by simp
qed

lemma SW_stack:
  assumes "unat a \<le> 0x7fff"
  shows "SW (ucast (a :: uint16)) v s = s\<lparr>mem := write_word (Dmem (unat a)) (ucast v) (mem s)\<rparr>"
proof -
  have m: "(0xffff :: uint32) = mask 16" by (simp add: mask_eq_exp_minus_1)
  have "(ucast a :: uint32) AND 0xffff = ucast a"
    unfolding m using bit_imp_le_length [of a] by (intro bit_word_eqI) (fastforce simp: bit_simps)
  moreover have "\<not> (ucast a :: uint32) > 0x7fff" "\<not> (ucast a :: uint32) > 0xbfff"
    using assms by (simp_all add: word_less_nat_alt unsigned_ucast_eq)
  ultimately show ?thesis by (simp add: SW_def dmem_addr_def Let_def)
qed

text \<open>The state in which the function of a two-operand instruction is called.\<close>

definition loaded :: "ins_type \<Rightarrow> uint16 \<Rightarrow> sim \<Rightarrow> sim" where
  "loaded ty op s = count_inc ty (s\<lparr>OP := [drop_bit 5 (op AND 0x1E0), drop_bit 1 (op AND 0x1E), OP s ! 2, OP s ! 3],
     trace_psw := PSW s, ins_type := ty\<rparr>)"

lemma prologue_entries:
  "so_operands (Simops ! 132) = [(5, 4, 0x40020), (1, 4, 0x40020)]" "so_operands (Simops ! 137) = [(5, 4, 0x40021), (1, 4, 0x40020)]"
  "so_operands (Simops ! 151) = [(5, 4, 0x40024), (1, 4, 0x20008)]" "so_operands (Simops ! 83) = [(5, 4, 0x40024), (1, 4, 0x40020)]"
  "so_operands (Simops ! 102) = []"
  by (simp_all add: Simops_generated simops.defs)

lemma calm_OP: "calm s \<Longrightarrow> length (OP s) = 4"
  by (simp add: calm_def wf_sim_def)

lemma issue_2:
  assumes "length (OP s) = 4" and "so_operands (Simops ! i) = [(5, 4, f), (1, 4, f')]"
  shows "issue host i (ucast op) ty s = func host i (loaded ty op s)"
proof -
  have "drop_bit 27 (0x7FFFFFFF :: uint32) = 0xF" by simp
  moreover obtain a b c d where "OP s = [a, b, c, d]"
    using assms(1) by (auto simp: numeral_eq_Suc length_Suc_conv)
  ultimately show ?thesis using assms(2) operand_fields [of op]
    by (simp add: issue_def get_operands_def loaded_def del: drop_bit_and)
qed

lemma loaded_fields [simp]:
  "regs (loaded ty op s) = regs s" "cregs (loaded ty op s) = cregs s" "mem (loaded ty op s) = mem s" "slot (loaded ty op s) = slot s"
  "status (loaded ty op s) = status s" "exception (loaded ty op s) = exception s"
  "pc_changed (loaded ty op s) = pc_changed s" "imem (loaded ty op s) = imem s" "umem (loaded ty op s) = umem s"
  "stop_simulator (loaded ty op s) = stop_simulator s" "sp (loaded ty op s) = sp s"
  "opn (loaded ty op s) 0 = sreg op" "OP (loaded ty op s) ! Suc 0 = drop_bit 1 (op AND 0x1E)"
  "opn (loaded ty op s) (Suc 0) = unat (drop_bit 1 (op AND 0x1E))" "length (OP (loaded ty op s)) = 4"
  "calm s \<Longrightarrow> calm (loaded ty op s)"
  by (simp_all add: loaded_def count_inc_def opn_def sreg_def wf_sim_def calm_def)

lemma commit_loaded [simp]: "commit (loaded ty op s) = commit s"
  by (simp add: loaded_def)

lemma flag_put_C:
  assumes "a_cregs a \<noteq> []"
  shows "flag PSW_RP_BIT (put_flag PSW_C_BIT b a) = flag PSW_RP_BIT a" "flag PSW_DB_BIT (put_flag PSW_C_BIT b a) = flag PSW_DB_BIT a"
    "flag PSW_SM_BIT (put_flag PSW_C_BIT b a) = flag PSW_SM_BIT a"
proof -
  have m: "m = 2 ^ n \<Longrightarrow> n \<noteq> 0 \<Longrightarrow> n < 16 \<Longrightarrow> flag m (put_flag PSW_C_BIT b a) = flag m a" for m n
    using assms by (auto simp: flag_def put_flag_def and_single_bit bit_simps)
  show "flag PSW_RP_BIT (put_flag PSW_C_BIT b a) = flag PSW_RP_BIT a" "flag PSW_DB_BIT (put_flag PSW_C_BIT b a) = flag PSW_DB_BIT a"
    "flag PSW_SM_BIT (put_flag PSW_C_BIT b a) = flag PSW_SM_BIT a"
    using m [of _ 9] m [of _ 12] m [of _ 15] by simp_all
qed

lemma quiet_loaded: "calm s \<Longrightarrow> slot s = [] \<Longrightarrow> quiet s (loaded ty op s)"
  by (simp add: quiet_def commit_idle) (simp add: calm_def wf_sim_def)

lemma quiet_SET_GPR: "quiet s (SET_GPR n v u) = quiet s u"
  by (simp add: quiet_def calm_def) (simp add: slot_simp)

lemma quiet_mem: "quiet s (u\<lparr>mem := m\<rparr>) = quiet s u"
  by (simp add: quiet_def calm_def wf_sim_def)

lemma mem_SET_GPR [simp]: "mem (SET_GPR n v u) = mem u"
  by (simp add: slot_simp)

lemma quiet_SET_PSW_C:
  assumes q: "quiet s u" and c: "flag PSW_C_BIT (commit u) = PSW_C s"
  shows "quiet s (SET_PSW_C b u)" "commit (SET_PSW_C b u) = put_flag PSW_C_BIT b (commit u)"
proof -
  have "PSW_bit m u = PSW_bit m s" for m using q by (simp add: quiet_def PSW_bit_def PSW_def)
  then show e: "commit (SET_PSW_C b u) = put_flag PSW_C_BIT b (commit u)"
    using c by (intro commit_SET_PSW_BIT) simp_all
  have l: "a_cregs (commit u) \<noteq> []" using q by (auto simp: quiet_def)
  show "quiet s (SET_PSW_C b u)"
    using q apply (simp add: quiet_def calm_def e flag_put_C [OF l])
    apply (simp add: slot_simp put_flag_def wf_sim_def)
    done
qed

lemma push_SW:
  assumes "unat a \<le> 0x7fff"
  shows "SW (ucast (a :: uint16)) (ucast (w :: uint16) :: int32) u = u\<lparr>mem := write_word (Dmem (unat a)) w (mem u)\<rparr>"
  using SW_stack [OF assms, of "ucast w :: int32" u] by simp

lemma run_st:
  assumes "OP u ! Suc 0 = 15" and "2 \<le> unat (regs u ! 15)" "unat (regs u ! 15) \<le> 0x8000"
  shows "OP_6C1F u = SET_GPR 15 (regs u ! 15 - 2) (u\<lparr>mem := write_word (Dmem (unat (regs u ! 15 - 2))) (regs u ! opn u 0) (mem u)\<rparr>)"
proof -
  have "unat (regs u ! 15 - 2) \<le> 0x7fff" using assms(2,3) by (simp add: unat_sub word_le_nat_alt)
  moreover have "opn u 1 = 15" using assms(1) by (simp add: opn_def)
  moreover have "(ucast (ucast (regs u ! 15) - 2 :: int32) :: uint16) = regs u ! 15 - 2" 
    by (simp add: ucast_down)
  ultimately show ?thesis using assms(1) by (simp add: OP_6C1F_def GPR_def Let_def push_SW)
qed

lemma run_st2w:
  assumes "OP u ! Suc 0 = 15" and "4 \<le> unat (regs u ! 15)" "unat (regs u ! 15) \<le> 0x8000"
  shows "OP_6E1F u = SET_GPR 15 (regs u ! 15 - 4) (u\<lparr>mem := write_word (Dmem (unat (regs u ! 15 - 4) + 2)) (regs u ! (opn u 0 + 1))
    (write_word (Dmem (unat (regs u ! 15 - 4))) (regs u ! opn u 0) (mem u))\<rparr>)"
proof -
  have "unat (regs u ! 15 - 4) = unat (regs u ! 15) - 4" "unat (regs u ! 15 - 2) = unat (regs u ! 15) - 2"
    using assms(2) by (simp_all add: unat_sub word_le_nat_alt)
  then have le: "unat (regs u ! 15 - 4) \<le> 0x7fff" "unat (regs u ! 15 - 2) \<le> 0x7fff"
    and e: "unat (regs u ! 15 - 2) = unat (regs u ! 15 - 4) + 2" using assms(2,3) by simp_all
  moreover have "opn u 1 = 15" using assms(1) by (simp add: opn_def)
  moreover have "(ucast (ucast (regs u ! 15) - 4 :: int32) :: uint16) = regs u ! 15 - 4" 
    by (simp add: ucast_down)
  moreover have "ucast (regs u ! 15 - 4) + 2 = (ucast (regs u ! 15 - 2) :: uint32)"
    using e le(2) by (intro word_unat_eq_iff [THEN iffD2]) (simp add: unat_word_ariths)
  moreover have "opn (u\<lparr>mem := m\<rparr>) k = opn u k" for m k by (simp add: opn_def)
  ultimately show ?thesis using assms(1) by (simp add: OP_6E1F_def GPR_def Let_def push_SW)
qed

lemma issue_st:
  assumes "calm s" and "slot s = []" and "is_st op" and "2 \<le> unat (regs s ! 15)" "unat (regs s ! 15) \<le> 0x8000"
  shows "quiet s (issue host 132 (ucast op) ty s)"
    and "(a_regs (commit (issue host 132 (ucast op) ty s)), mem (issue host 132 (ucast op) ty s)) = effect op (regs s, mem s)"
  unfolding issue_2 [OF calm_OP [OF assms(1)] prologue_entries(1)] prologue_funcs
  using run_st [of "loaded ty op s"] quiet_loaded [OF assms(1,2)] low_field(1) [OF assms(3)] assms
  by (simp_all add: quiet_SET_GPR quiet_mem effect_def commit_idle Let_def)

lemma is_st2w_only: "is_st2w op \<Longrightarrow> \<not> is_st op"
proof
  assume a: "is_st2w op" "is_st op"
  have "op AND 0x7E1F = (op AND 0x7E3F) AND 0x7E1F" by (simp add: and.assoc)
  then show False using a by (simp add: is_st_def is_st2w_def)
qed

lemma is_subi_only: "is_subi op \<Longrightarrow> \<not> is_st op \<and> \<not> is_st2w op"
proof -
  assume a: "is_subi op"
  have "op AND 0x7E01 = (op AND 0x7FE1) AND 0x7E01" "op AND 0x7E01 = (op AND 0x7E1F) AND 0x7E01" "op AND 0x7E01 = (op AND 0x7E3F) AND 0x7E01"
    by (simp_all add: and.assoc)
  then show ?thesis using a by (auto simp: is_st_def is_st2w_def is_subi_def)
qed

lemma issue_st2w:
  assumes "calm s" and "slot s = []" and "is_st2w op" and "4 \<le> unat (regs s ! 15)" "unat (regs s ! 15) \<le> 0x8000"
  shows "quiet s (issue host 137 (ucast op) ty s)"
    and "(a_regs (commit (issue host 137 (ucast op) ty s)), mem (issue host 137 (ucast op) ty s)) = effect op (regs s, mem s)"
  unfolding issue_2 [OF calm_OP [OF assms(1)] prologue_entries(2)] prologue_funcs
  using run_st2w [of "loaded ty op s"] quiet_loaded [OF assms(1,2)] low_field(2) [OF assms(3)] is_st2w_only [OF assms(3)] assms
  by (simp_all add: quiet_SET_GPR quiet_mem effect_def commit_idle Let_def)

lemma run_subi:
  "OP_1 (loaded ty op s) = (let u = loaded ty op s; u = (if OP u ! Suc 0 = 0 then u\<lparr>OP := (OP u)[Suc 0 := 16]\<rparr> else u)
     in SET_GPR (sreg op) (regs s ! sreg op - sub_amount op)
       (SET_PSW_C (push_bit 16 1 \<le> (ucast (regs s ! sreg op) + ucast (- sub_amount op) :: uint32)) u))"
proof -
  define u where "u = loaded ty op s"
  define u' where "u' = (if OP u ! Suc 0 = 0 then u\<lparr>OP := (OP u)[Suc 0 := 16]\<rparr> else u)"
  have o: "opn u' 0 = sreg op" "GPR u' (sreg op) = ucast (regs s ! sreg op)" "OP u' ! Suc 0 = sub_amount op"
    by (auto simp: u'_def u_def opn_def GPR_def sub_amount_def sreg_def Let_def) (auto simp: loaded_def count_inc_def)
  have m: "(ucast (- (ucast (sub_amount op) :: uint32)) :: uint16) = - sub_amount op" by (simp add: ucast_down)
  have op: "opn (SET_PSW_C b u') 0 = sreg op" for b using o(1) by (simp add: opn_def slot_simp)
  have "OP_1 u = SET_GPR (opn (SET_PSW_C b u') 0) (ucast (ucast (GPR u' (opn u' 0)) :: uint16) + ucast (ucast (- opv u' 1) :: uint16) :: uint32)
      (SET_PSW_C b u')"
    if "b = (push_bit 16 1 \<le> (ucast (ucast (GPR u' (opn u' 0)) :: uint16) + ucast (ucast (- opv u' 1) :: uint16) :: uint32))" for b
    unfolding that by (simp add: OP_1_def u'_def Let_def)
  note this [OF refl]
  moreover have g: "SET_GPR n (ucast (w :: uint16) + ucast (v :: uint16) :: uint32) x = SET_GPR n (w + v) x" for n w v x
    by (simp add: SET_GPR_def ucast_down)
  ultimately have "OP_1 u = SET_GPR (sreg op) (regs s ! sreg op + - sub_amount op)
      (SET_PSW_C (push_bit 16 1 \<le> (ucast (regs s ! sreg op) + ucast (- sub_amount op) :: uint32)) u')"
    using o op m by (simp add: opv_def)
  then show ?thesis by (simp add: u_def u'_def Let_def)
qed

lemma quiet_OP: "length ops = 4 \<Longrightarrow> quiet s u \<Longrightarrow> quiet s (u\<lparr>OP := ops\<rparr>)"
  by (auto simp: quiet_def calm_def wf_sim_def)

lemma issue_subi:
  assumes "calm s" and "slot s = []" and "is_subi op"
  shows "quiet s (issue host 151 (ucast op) ty s)"
    and "(a_regs (commit (issue host 151 (ucast op) ty s)), mem (issue host 151 (ucast op) ty s)) = effect op (regs s, mem s)"
proof -
  define u where "u = loaded ty op s"
  define u' where "u' = (if OP u ! Suc 0 = 0 then u\<lparr>OP := (OP u)[Suc 0 := 16]\<rparr> else u)"
  define b where "b = (push_bit 16 1 \<le> (ucast (regs s ! sreg op) + ucast (- sub_amount op) :: uint32))"
  have q: "quiet s u'" using quiet_loaded [OF assms(1,2)] quiet_OP by (simp add: u'_def u_def)
  have c: "commit u' = view s" "mem u' = mem s" using assms(2) commit_loaded [of ty op s] by (simp_all add: u'_def u_def commit_idle view_def del: commit_loaded)
  have n: "sreg op = 15" using low_field(3) [OF assms(3)] by (simp add: sreg_def)
  have i: "issue host 151 (ucast op) ty s = SET_GPR 15 (regs s ! 15 - sub_amount op) (SET_PSW_C b u')"
    unfolding issue_2 [OF calm_OP [OF assms(1)] prologue_entries(3)] prologue_funcs run_subi
    by (simp add: u'_def u_def b_def n Let_def)
  have f: "flag PSW_C_BIT (commit u') = PSW_C s" by (simp add: c)
  note C = quiet_SET_PSW_C [OF q f, of b]
  show "quiet s (issue host 151 (ucast op) ty s)" by (simp add: i quiet_SET_GPR C)
  have "mem (SET_PSW_C b u') = mem s" by (simp add: slot_simp c)
  then show "(a_regs (commit (issue host 151 (ucast op) ty s)), mem (issue host 151 (ucast op) ty s)) = effect op (regs s, mem s)"
    using is_subi_only [OF assms(3)] assms(3) by (simp add: i C c effect_def Let_def)
qed

lemma sp_patterns:
  "\<not> is_st 0x417E" "\<not> is_st2w 0x417E" "\<not> is_subi 0x417E" "\<not> is_st 0x5E00" "\<not> is_st2w 0x5E00" "\<not> is_subi 0x5E00"
  by (simp_all add: is_st_def is_st2w_def is_subi_def)

lemma issue_mv:
  assumes "calm s" and "slot s = []"
  shows "quiet s (issue host 83 (ucast (0x417E :: uint16)) ty s)"
    and "(a_regs (commit (issue host 83 (ucast (0x417E :: uint16)) ty s)), mem (issue host 83 (ucast (0x417E :: uint16)) ty s))
      = effect 0x417E (regs s, mem s)"
  unfolding issue_2 [OF calm_OP [OF assms(1)] prologue_entries(4)] prologue_funcs
  using quiet_loaded [OF assms] assms(2)
  by (simp_all add: quiet_SET_GPR effect_def commit_idle sp_patterns OP_4000_def Let_def GPR_def sreg_def)

lemma issue_nop:
  assumes "calm s" and "slot s = []"
  shows "quiet s (issue host 102 (ucast (0x5E00 :: uint16)) ty s)"
    and "(a_regs (commit (issue host 102 (ucast (0x5E00 :: uint16)) ty s)), mem (issue host 102 (ucast (0x5E00 :: uint16)) ty s))
      = effect 0x5E00 (regs s, mem s)"
proof -
  have e: "issue host 102 (ucast (0x5E00 :: uint16)) ty s = OP_5E00 (count_inc ty (s\<lparr>trace_psw := PSW s, ins_type := ty\<rparr>))"
    by (simp add: issue_def get_operands_def prologue_entries prologue_funcs)
  have "\<exists>c. OP_5E00 u = u\<lparr>ins_type_counters := c\<rparr>" for u
    by (rule exI [of _ "ins_type_counters (OP_5E00 u)"])
      (simp add: OP_5E00_def count_inc_def count_dec_def Let_def split: ins_type.split)
  then obtain c where c: "issue host 102 (ucast (0x5E00 :: uint16)) ty s = s\<lparr>trace_psw := PSW s, ins_type := ty, ins_type_counters := c\<rparr>"
  proof -
    assume *: "\<And>c. issue host 102 (ucast (0x5E00 :: uint16)) ty s = s\<lparr>trace_psw := PSW s, ins_type := ty, ins_type_counters := c\<rparr> \<Longrightarrow> thesis"
    from \<open>\<And>u. \<exists>c. OP_5E00 u = u\<lparr>ins_type_counters := c\<rparr>\<close> [of "count_inc ty (s\<lparr>trace_psw := PSW s, ins_type := ty\<rparr>)"]
    show thesis unfolding e [symmetric] by (elim exE) (rule *, simp add: count_inc_def)
  qed
  have "commit (s\<lparr>trace_psw := PSW s, ins_type := ty, ins_type_counters := c\<rparr>) = view s"
    using assms(2) by (simp add: commit_idle view_def)
  then show "quiet s (issue host 102 (ucast (0x5E00 :: uint16)) ty s)"
    "(a_regs (commit (issue host 102 (ucast (0x5E00 :: uint16)) ty s)), mem (issue host 102 (ucast (0x5E00 :: uint16)) ty s))
      = effect 0x5E00 (regs s, mem s)"
    using assms(1) unfolding c by (simp_all add: quiet_def calm_def effect_def sp_patterns) (simp add: wf_sim_def)
qed

text \<open>All of them: a recognised instruction of a prologue is found and has its effect.\<close>

lemma not_PARONLY:
  "so_exec_type (Simops ! 132) \<noteq> PARONLY" "so_exec_type (Simops ! 137) \<noteq> PARONLY" "so_exec_type (Simops ! 151) \<noteq> PARONLY"
  "so_exec_type (Simops ! 83) \<noteq> PARONLY" "so_exec_type (Simops ! 102) \<noteq> PARONLY"
  by (simp_all add: Simops_generated simops.defs)

lemma exec_op:
  assumes "calm s" and "slot s = []" and "push_op op" and "depth op \<le> unat (regs s ! 15)" "unat (regs s ! 15) \<le> 0x8000"
  shows "\<exists>i. lookup_hash (ucast op) False = Found i \<and> so_exec_type (Simops ! i) \<noteq> PARONLY \<and> (\<forall>ty. quiet s (issue host i (ucast op) ty s)
    \<and> (a_regs (commit (issue host i (ucast op) ty s)), mem (issue host i (ucast op) ty s)) = effect op (regs s, mem s))"
proof -
  have u: "(ucast op :: uint32) AND ucast (m :: uint16) = ucast (op AND m)" for m by (simp add: unsigned_and_eq)
  from assms(3) consider "is_st op" | "is_st2w op" | "is_subi op" | "op = 0x417E" | "op = 0x5E00"
    by (auto simp: push_op_def)
  then show ?thesis
  proof cases
    case 1
    have "lookup_hash (ucast op) False = Found 132" using 1 u [of "0x7E1F"] by (intro lookup_st) (simp add: is_st_def)
    then show ?thesis using issue_st [OF assms(1,2) 1 _ assms(5)] assms(4) 1 not_PARONLY by (auto simp: depth_def)
  next
    case 2
    have "lookup_hash (ucast op) False = Found 137" using 2 u [of "0x7E3F"] by (intro lookup_st2w) (simp add: is_st2w_def)
    then show ?thesis using issue_st2w [OF assms(1,2) 2 _ assms(5)] assms(4) 2 is_st2w_only not_PARONLY by (auto simp: depth_def)
  next
    case 3
    have "lookup_hash (ucast op) False = Found 151" using 3 u [of "0x7FE1"] by (intro lookup_subi_sp) (simp add: is_subi_def)
    then show ?thesis using issue_subi [OF assms(1,2) 3] not_PARONLY by auto
  next
    case 4
    then show ?thesis using issue_mv [OF assms(1,2)] lookup_mv_nop not_PARONLY by auto
  next
    case 5
    then show ?thesis using issue_nop [OF assms(1,2)] lookup_mv_nop not_PARONLY by auto
  qed
qed

section \<open>A word of a prologue\<close>

definition push_word :: "uint32 \<Rightarrow> bool" where
  "push_word w \<longleftrightarrow> (let (a, b) = split_word w in push_op a \<and> push_op b \<and> w AND 0xC0000000 \<noteq> 0xC0000000
     \<and> (w AND 0xC0000000 = 0 \<longrightarrow> a = 0x5E00 \<or> b = 0x5E00))"

definition word_effect :: "uint32 \<Rightarrow> uint16 list \<times> (ptr \<Rightarrow> uint8) \<Rightarrow> uint16 list \<times> (ptr \<Rightarrow> uint8)" where
  "word_effect w = (let (a, b) = split_word w in effect b \<circ> effect a)"

definition word_depth :: "uint32 \<Rightarrow> nat" where
  "word_depth w = (let (a, b) = split_word w in depth a + depth b)"

text \<open>The state before the write-back of a word's last instruction.\<close>

definition settles :: "sim \<Rightarrow> sim \<Rightarrow> bool" where
  "settles s u \<longleftrightarrow> calm u \<and> imem u = imem s \<and> umem u = umem s \<and> stop_simulator u = stop_simulator s
     \<and> (\<forall>n \<noteq> 0. cregs u ! n = cregs s ! n) \<and> PSW_RP u = PSW_RP s \<and> PSW_DB u = PSW_DB s
     \<and> (\<forall>n \<noteq> 0. a_cregs (commit u) ! n = cregs s ! n) \<and> flag PSW_RP_BIT (commit u) = PSW_RP s
     \<and> flag PSW_DB_BIT (commit u) = PSW_DB s \<and> length (a_cregs (commit u)) = 16"

lemma quiet_settles: "quiet s u \<Longrightarrow> settles s u"
  by (simp add: quiet_def settles_def PSW_bit_def PSW_def)

lemma imem_flush [simp]: "imem (fold flush_slot xs s) = imem s"
proof (induction xs arbitrary: s)
  case (Cons x xs)
  then show ?case by (cases "(x, s)" rule: flush_slot.cases) simp_all
qed simp

lemma imem_SLOT_FLUSH [simp]: "imem (SLOT_FLUSH s) = imem s"
  by (simp add: SLOT_FLUSH_def)

lemma settles_flush: "settles s u \<Longrightarrow> settles s (SLOT_FLUSH u) \<and> calm (SLOT_FLUSH u) \<and> slot (SLOT_FLUSH u) = []"
proof -
  assume s: "settles s u"
  have i: "slot (SLOT_FLUSH u) = []" "view (SLOT_FLUSH u) = commit u" by (simp_all add: commit_def)
  then have c: "commit (SLOT_FLUSH u) = commit u" by (simp add: commit_idle)
  have v: "cregs (SLOT_FLUSH u) = a_cregs (commit u)" "PSW_bit m (SLOT_FLUSH u) = flag m (commit u)" for m
    by (simp_all only: i(2) [symmetric] view_fields)
  have k: "calm (SLOT_FLUSH u)" using s by (simp add: settles_def calm_def wf_SLOT_FLUSH)
  have f: "imem (SLOT_FLUSH u) = imem u" "umem (SLOT_FLUSH u) = umem u" "stop_simulator (SLOT_FLUSH u) = stop_simulator u"
    by (simp_all add: SLOT_FLUSH_def)
  show ?thesis using s i(1) k unfolding settles_def c v f by blast
qed

lemma quiet_calm: "quiet s u \<Longrightarrow> calm u"
  by (simp add: quiet_def)

lemma settles_trans: "settles s u \<Longrightarrow> slot u = [] \<Longrightarrow> settles u v \<Longrightarrow> settles s v"
  by (simp add: settles_def)

lemma count_inc_more [simp]:
  "regs (count_inc ty u) = regs u" "mem (count_inc ty u) = mem u" "cregs (count_inc ty u) = cregs u"
  "imem (count_inc ty u) = imem u" "umem (count_inc ty u) = umem u"
  "PSW_bit k (count_inc ty u) = PSW_bit k u"
  by (simp_all add: count_inc_def PSW_bit_def PSW_def)

lemma calm_count [simp]: "calm (count_inc ty u) = calm u"
  by (simp add: calm_def wf_sim_def count_inc_def)

lemma settles_count [simp]: "settles s (count_inc ty u) = settles s u"
  by (simp only: settles_def calm_count count_inc_fields count_inc_more commit_update)

lemma settles_count_left [simp]: "settles (count_inc ty s) u = settles s u"
  by (simp add: settles_def count_inc_def PSW_bit_def PSW_def)

lemma sub_depth: "unat k \<le> unat (x :: uint16) \<Longrightarrow> unat (x - k) = unat x - unat k"
  by (simp add: unat_sub word_le_nat_alt)

lemma depth_effect:
  assumes "push_op op" and "depth op \<le> unat (fst rm ! 15)" and "length (fst rm) = 16"
  shows "unat (fst (effect op rm) ! 15) = unat (fst rm ! 15) - depth op" "length (fst (effect op rm)) = 16"
proof -
  obtain r m where rm: "rm = (r, m)" by (cases rm)
  from assms(1) consider "is_st op" | "is_st2w op" | "is_subi op" | "op = 0x417E" | "op = 0x5E00"
    by (auto simp: push_op_def)
  then have "unat (fst (effect op rm) ! 15) = unat (fst rm ! 15) - depth op \<and> length (fst (effect op rm)) = 16"
  proof cases
    case 1
    then show ?thesis using assms(2,3) sub_depth [of 2 "r ! 15"] by (simp add: effect_def depth_def rm Let_def)
  next
    case 2
    then show ?thesis using assms(2,3) sub_depth [of 4 "r ! 15"] is_st2w_only [OF 2] by (simp add: effect_def depth_def rm Let_def)
  next
    case 3
    then show ?thesis using assms(2,3) sub_depth [of "sub_amount op" "r ! 15"] is_subi_only [OF 3] by (simp add: effect_def depth_def rm Let_def)
  qed (use assms(2,3) in \<open>simp_all add: effect_def depth_def rm sp_patterns\<close>)
  then show "unat (fst (effect op rm) ! 15) = unat (fst rm ! 15) - depth op" "length (fst (effect op rm)) = 16" by simp_all
qed

text \<open>The three formats of a word with two short instructions.\<close>

lemma exec_pair:
  assumes "calm s" and "slot s = []" and "push_op a" and "push_op b" and "depth a + depth b \<le> unat (regs s ! 15)" "unat (regs s ! 15) \<le> 0x8000"
  shows "settles s (do_2_short host a b lf s)"
    and "(a_regs (commit (do_2_short host a b lf s)), mem (do_2_short host a b lf s)) = effect b (effect a (regs s, mem s))"
proof -
  define s' where "s' = count_inc (if lf then INS_LEFTRIGHT else INS_RIGHTLEFT) s"
  define ty where "ty = (if lf then INS_LEFT else INS_RIGHT)"
  define ty' where "ty' = (if lf then INS_RIGHT else INS_LEFT)"
  have s': "calm s'" "slot s' = []" "regs s' = regs s" "mem s' = mem s" using assms(1,2) by (simp_all add: s'_def)
  have l: "length (regs s) = 16" using assms(1) by (simp add: calm_def wf_sim_def)
  obtain i where i: "lookup_hash (ucast a) False = Found i" "\<And>ty. quiet s' (issue host i (ucast a) ty s')"
    "\<And>ty. (a_regs (commit (issue host i (ucast a) ty s')), mem (issue host i (ucast a) ty s')) = effect a (regs s, mem s)"
    using exec_op [OF s'(1,2) assms(3), of host] assms(5,6) s' by auto
  define u where "u = SLOT_FLUSH (issue host i (ucast a) ty s')"
  have u: "calm u" "slot u = []" "settles s u" "(regs u, mem u) = effect a (regs s, mem s)"
    using settles_flush [OF quiet_settles [OF i(2) [of ty]]] i(3) [of ty] by (simp_all add: u_def s'_def commit_def)
  define u' where "u' = count_inc INS_CYCLES u"
  have u': "calm u'" "slot u' = []" "regs u' = regs u" "mem u' = mem u" using u by (simp_all add: u'_def)
  have "unat (regs u ! 15) = unat (regs s ! 15) - depth a"
    using depth_effect(1) [OF assms(3), of "(regs s, mem s)"] u(4) [symmetric] assms(5) l by simp
  then obtain j where j: "lookup_hash (ucast b) False = Found j" "\<And>ty. quiet u' (issue host j (ucast b) ty u')"
    "\<And>ty. (a_regs (commit (issue host j (ucast b) ty u')), mem (issue host j (ucast b) ty u')) = effect b (regs u, mem u)"
    using exec_op [OF u'(1,2) assms(4), of host] assms(5,6) u'(3,4) by fastforce
  have c: "calm (issue host i (ucast a) ty s')" using i(2) by (rule quiet_calm)
  have e: "do_2_short host a b lf s = issue host j (ucast b) ty' u'"
    using c i(1) j(1) by (cases lf) (simp_all add: do_2_short_def with_op_def Let_def u'_def u_def s'_def ty_def ty'_def calm_def)
  have "settles u (do_2_short host a b lf s)" unfolding e using quiet_settles [OF j(2)] by (simp add: u'_def)
  then show "settles s (do_2_short host a b lf s)" using settles_trans u(2,3) by blast
  show "(a_regs (commit (do_2_short host a b lf s)), mem (do_2_short host a b lf s)) = effect b (effect a (regs s, mem s))"
    unfolding e using j(3) u(4) by simp
qed

lemma issue_nop_counters:
  "\<exists>c. issue host 102 (ucast (0x5E00 :: uint16)) ty u = u\<lparr>trace_psw := PSW u, ins_type := ty, ins_type_counters := c\<rparr>"
proof -
  have e: "issue host 102 (ucast (0x5E00 :: uint16)) ty u = OP_5E00 (count_inc ty (u\<lparr>trace_psw := PSW u, ins_type := ty\<rparr>))"
    by (simp add: issue_def get_operands_def prologue_entries prologue_funcs)
  have "OP_5E00 v = v\<lparr>ins_type_counters := ins_type_counters (OP_5E00 v)\<rparr>" for v
    by (simp add: OP_5E00_def count_inc_def count_dec_def Let_def split: ins_type.split)
  from this [of "count_inc ty (u\<lparr>trace_psw := PSW u, ins_type := ty\<rparr>)"] show ?thesis unfolding e
    by (intro exI) (assumption | simp add: count_inc_def)
qed

lemma nop_last:
  assumes "settles s u"
  shows "settles s (issue host 102 (ucast (0x5E00 :: uint16)) ty u)" "commit (issue host 102 (ucast (0x5E00 :: uint16)) ty u) = commit u"
    "mem (issue host 102 (ucast (0x5E00 :: uint16)) ty u) = mem u" "regs (issue host 102 (ucast (0x5E00 :: uint16)) ty u) = regs u"
    "slot (issue host 102 (ucast (0x5E00 :: uint16)) ty u) = slot u"
proof -
  obtain c where c: "issue host 102 (ucast (0x5E00 :: uint16)) ty u = u\<lparr>trace_psw := PSW u, ins_type := ty, ins_type_counters := c\<rparr>"
    using issue_nop_counters by blast
  have k: "commit (u\<lparr>trace_psw := PSW u, ins_type := ty, ins_type_counters := c\<rparr>) = commit u"
    by (rule commit_same) (simp_all add: view_def)
  show "settles s (issue host 102 (ucast (0x5E00 :: uint16)) ty u)"
    using assms unfolding c settles_def k by (auto simp: calm_def wf_sim_def PSW_bit_def PSW_def)
  show "commit (issue host 102 (ucast (0x5E00 :: uint16)) ty u) = commit u" unfolding c by (rule k)
  show "mem (issue host 102 (ucast (0x5E00 :: uint16)) ty u) = mem u" "regs (issue host 102 (ucast (0x5E00 :: uint16)) ty u) = regs u"
    "slot (issue host 102 (ucast (0x5E00 :: uint16)) ty u) = slot u" unfolding c by simp_all
qed

lemma exec_parallel:
  assumes "calm s" and "slot s = []" and "push_op a" and "push_op b" and "depth a + depth b \<le> unat (regs s ! 15)" "unat (regs s ! 15) \<le> 0x8000"
    and "a = 0x5E00 \<or> b = 0x5E00"
  shows "settles s (do_parallel host a b s)"
    and "(a_regs (commit (do_parallel host a b s)), mem (do_parallel host a b s)) = effect b (effect a (regs s, mem s))"
proof -
  define s' where "s' = count_inc INS_PARALLEL s"
  have s': "calm s'" "slot s' = []" "regs s' = regs s" "mem s' = mem s" "settles s s'" "settles s' = settles s"
    using assms(1,2) by (simp_all add: s'_def fun_eq_iff) (simp add: settles_def commit_idle calm_def wf_sim_def)
  have one: "\<exists>i. lookup_hash (ucast op) False = Found i \<and> so_exec_type (Simops ! i) \<noteq> PARONLY \<and> (\<forall>ty. quiet t (issue host i (ucast op) ty t)
    \<and> (a_regs (commit (issue host i (ucast op) ty t)), mem (issue host i (ucast op) ty t)) = effect op (regs t, mem t))"
    if "calm t" "slot t = []" "regs t = regs s" "push_op op" "op = a \<or> op = b" for t op
    using exec_op [OF that(1,2,4), of host] that(3,5) assms(5,6) by auto
  have nop: "effect 0x5E00 x = x" for x by (cases x) (simp add: effect_def sp_patterns)
  show "settles s (do_parallel host a b s)"
    and "(a_regs (commit (do_parallel host a b s)), mem (do_parallel host a b s)) = effect b (effect a (regs s, mem s))"
  proof -
    obtain i where i: "lookup_hash (ucast a) False = Found i" "so_exec_type (Simops ! i) \<noteq> PARONLY" 
      "\<And>ty. quiet s' (issue host i (ucast a) ty s')"
      "\<And>ty. (a_regs (commit (issue host i (ucast a) ty s')), mem (issue host i (ucast a) ty s')) = effect a (regs s, mem s)"
      using one [OF s'(1-3) assms(3)] s'(3,4) by auto
    obtain j where j: "lookup_hash (ucast b) False = Found j" "so_exec_type (Simops ! j) \<noteq> PARONLY"
      using one [OF s'(1-3) assms(4)] by auto
    define u where "u = issue host i (ucast a) INS_LEFT_PARALLEL s'"
    have u: "settles s u" "calm u" using quiet_settles [OF i(3)] quiet_calm [OF i(3)] by (simp_all add: u_def s'(6) [symmetric])
    have e: "do_parallel host a b s = issue host j (ucast b) INS_RIGHT_PARALLEL u"
      using i(1,2) j u(2) by (simp add: do_parallel_def with_op_def Let_def u_def s'_def calm_def)
    have "settles s (do_parallel host a b s)
        \<and> (a_regs (commit (do_parallel host a b s)), mem (do_parallel host a b s)) = effect b (effect a (regs s, mem s))"
    proof (cases "b = 0x5E00")
      case True
      then have "j = 102" using j(1) lookup_mv_nop by simp
      then show ?thesis using nop_last [OF u(1), of host INS_RIGHT_PARALLEL] True i(4) [of INS_LEFT_PARALLEL] unfolding e by (simp add: u_def nop)
    next
      case False
      then have a: "a = 0x5E00" using assms(7) by simp
      then have "i = 102" using i(1) lookup_mv_nop by simp
      then have u': "slot u = []" "regs u = regs s" "mem u = mem s" using nop_last [OF s'(5), of host INS_LEFT_PARALLEL] s' a by (simp_all add: u_def)
      obtain j' where j': "lookup_hash (ucast b) False = Found j'" "\<forall>ty. quiet u (issue host j' (ucast b) ty u)
        \<and> (a_regs (commit (issue host j' (ucast b) ty u)), mem (issue host j' (ucast b) ty u)) = effect b (regs u, mem u)"
        using one [OF u(2) u'(1,2) assms(4)] by blast
      then have "j' = j" using j(1) by simp
      then show ?thesis using j'(2) u' a unfolding e by (auto simp: nop intro: settles_trans [OF u(1)] quiet_settles)
    qed
    then show "settles s (do_parallel host a b s)"
      and "(a_regs (commit (do_parallel host a b s)), mem (do_parallel host a b s)) = effect b (effect a (regs s, mem s))" by simp_all
  qed
qed

lemma word_format: "w AND 0xC0000000 \<in> {0, 0x40000000, 0x80000000, 0xC0000000}" for w :: uint32
proof -
  have "(0xC0000000 :: uint32) = push_bit 30 (mask 2)" by (simp add: mask_eq_exp_minus_1)
  moreover have "w AND push_bit 30 (mask 2) = push_bit 30 (drop_bit 30 w)"
    using bit_imp_le_length [of w] by (intro bit_word_eqI) (fastforce simp: bit_simps)
  moreover have "unat w < 2 ^ 32" by (rule order_less_le_trans [OF unsigned_less]) simp
  then have "unat (drop_bit 30 w) < 4" unfolding unat_drop_bit_eq unfolding drop_bit_eq_div by simp
  then have "unat (drop_bit 30 w) \<in> {0, 1, 2, 3}" by auto
  then have "drop_bit 30 w \<in> {0, 1, 2, 3}" by (auto dest!: of_nat_unat_eq simp del: drop_bit_eq_div)
  ultimately show ?thesis by auto
qed

lemma exec_word:
  assumes "calm s" and "slot s = []" and "push_word w" and "word_depth w \<le> unat (regs s ! 15)" "unat (regs s ! 15) \<le> 0x8000"
  shows "settles s (dispatch host w s) \<and> (a_regs (commit (dispatch host w s)), mem (dispatch host w s)) = word_effect w (regs s, mem s)"
proof -
  obtain a b where ab: "split_word w = (a, b)" by (cases "split_word w")
  have p: "push_op a" "push_op b" "depth a + depth b \<le> unat (regs s ! 15)" "w AND 0xC0000000 \<noteq> 0xC0000000"
      "w AND 0xC0000000 = 0 \<Longrightarrow> a = 0x5E00 \<or> b = 0x5E00" "word_effect w = effect b \<circ> effect a"
    using assms(3,4) ab by (simp_all add: push_word_def word_depth_def word_effect_def)
  consider "w AND 0xC0000000 = 0" | "w AND 0xC0000000 = 0x40000000" | "w AND 0xC0000000 = 0x80000000"
    using word_format [of w] p(4) by blast
  then show ?thesis
  proof cases
    case 1
    then show ?thesis using exec_parallel [OF assms(1,2) p(1-3) assms(5) p(5)] ab by (simp add: dispatch_def Let_def split_word_def p(6))
  next
    case 2
    then show ?thesis using exec_pair [OF assms(1,2) p(1-3) assms(5)] ab by (simp add: dispatch_def Let_def split_word_def p(6))
  next
    case 3
    then show ?thesis using exec_pair [OF assms(1,2) p(1-3) assms(5)] ab by (simp add: dispatch_def Let_def split_word_def p(6))
  qed
qed
section \<open>One step of the simulator\<close>

text \<open>The writes of a prologue go to the lower half of the data memory, on the chip.\<close>

definition same_high :: "(ptr \<Rightarrow> uint8) \<Rightarrow> (ptr \<Rightarrow> uint8) \<Rightarrow> bool" where
  "same_high m m' \<longleftrightarrow> (\<forall>p. (\<forall>n. p = Dmem n \<longrightarrow> 0x8000 \<le> n) \<longrightarrow> m' p = m p)"

lemma same_high_trans: "same_high m m' \<Longrightarrow> same_high m' m'' \<Longrightarrow> same_high m m''"
  by (simp add: same_high_def)

lemma same_high_write: "n + 1 < 0x8000 \<Longrightarrow> same_high m (write_word (Dmem n) w m)"
  by (auto simp: same_high_def write_word_def)

lemma effect_high:
  assumes "push_op op" and "depth op \<le> unat (fst rm ! 15)" and "unat (fst rm ! 15) \<le> 0x8000"
  shows "same_high (snd rm) (snd (effect op rm))"
proof -
  obtain r m where rm: "rm = (r, m)" by (cases rm)
  from assms(1) consider "is_st op" | "is_st2w op" | "is_subi op" | "op = 0x417E" | "op = 0x5E00"
    by (auto simp: push_op_def)
  then show ?thesis
  proof cases
    case 1
    have "unat (r ! 15 - 2) + 1 < 0x8000" using 1 assms(2,3) sub_depth [of 2 "r ! 15"] by (simp add: depth_def rm)
    then show ?thesis using 1 same_high_write by (simp add: effect_def rm Let_def)
  next
    case 2
    have "unat (r ! 15 - 4) + 3 < 0x8000"
      using 2 assms(2,3) sub_depth [of 4 "r ! 15"] is_st2w_only [OF 2] by (simp add: depth_def rm)
    then have "same_high m (write_word (Dmem (unat (r ! 15 - 4))) v m)" and
      "same_high m' (write_word (Dmem (unat (r ! 15 - 4) + 2)) v' m')" for v v' m'
      using same_high_write by simp_all
    then show ?thesis using 2 is_st2w_only [OF 2] same_high_trans by (fastforce simp: effect_def rm Let_def)
  next
    case 3
    then show ?thesis using is_subi_only [OF 3] by (simp add: effect_def rm Let_def same_high_def)
  qed (simp_all add: effect_def depth_def rm sp_patterns same_high_def)
qed

text \<open>The flags that would change the course of a step are clear.\<close>

definition plain :: "sim \<Rightarrow> bool" where
  "plain s \<longleftrightarrow> calm s \<and> slot s = [] \<and> \<not> PSW_RP s \<and> \<not> PSW_DB s"

definition stepped :: "nat \<Rightarrow> sim \<Rightarrow> sim \<Rightarrow> bool" where
  "stepped k s t \<longleftrightarrow> plain t \<and> imem t = imem s \<and> umem t = umem s \<and> stop_simulator t = stop_simulator s
     \<and> cregs t ! PC_CR = cregs s ! PC_CR + of_nat k"

lemma cr_val_pc [simp]: "cr_val PC_CR v = v"
  by (simp add: cr_val_def)

lemma step_word:
  assumes "plain s" and "push_word w" and "word_depth w \<le> unat (regs s ! 15)" "unat (regs s ! 15) \<le> 0x8000"
    and "imem_addr (push_bit 2 (PC s)) s = Inr (Some p)" and "get_longword (mem s) p = w"
  shows "stepped 1 s (resume_step host s) \<and> (regs (resume_step host s), mem (resume_step host s)) = word_effect w (regs s, mem s)"
proof -
  define s' where "s' = count_inc INS_CYCLES (s\<lparr>pc_changed := False\<rparr>)"
  define u where "u = dispatch host w s'"
  have s: "calm s" "slot s = []" "\<not> PSW_RP s" "\<not> PSW_DB s" using assms(1) by (simp_all add: plain_def)
  then have "s\<lparr>pc_changed := False\<rparr> = s" by (simp add: calm_def)
  then have s': "calm s'" "slot s' = []" "regs s' = regs s" "mem s' = mem s" "settles s' = settles s"
    using s by (simp_all add: s'_def fun_eq_iff)
  have u: "settles s u" "(a_regs (commit u), mem u) = word_effect w (regs s, mem s)"
    using exec_word [OF s'(1,2) assms(2)] assms(3,4) s'(3-5) by (simp_all add: u_def)
  define v where "v = SET_PC (PC u + 1) u"
  have n: "next_pc u = v" using u(1) s(3) by (simp add: next_pc_def settles_def calm_def v_def)
  have "PSW_DB v = PSW_DB u" "calm u" using u(1) by (simp_all add: v_def settles_def)
  then have b: "breakpoint v = v" "status u = Running" using u(1) s(4) by (auto simp: breakpoint_def settles_def calm_def)
  have r: "resume_step host s = SLOT_FLUSH v"
    using assms(5,6) b n by (simp add: resume_step_def Let_def s'_def u_def)
  have c: "commit v = put_creg PC_CR (cregs s ! PC_CR + 1) (commit u)"
    unfolding v_def using u(1) by (subst commit_SET_CREG) (simp_all add: settles_def CREG_def ucast_down)
  have m: "mem v = mem u" by (simp add: v_def slot_simp)
  have view: "view (SLOT_FLUSH v) = put_creg PC_CR (cregs s ! PC_CR + 1) (commit u)" using c by (simp add: commit_def)
  have f: "regs (SLOT_FLUSH v) = a_regs (commit u)" "cregs (SLOT_FLUSH v) = (a_cregs (commit u))[PC_CR := cregs s ! PC_CR + 1]"
    "PSW_bit k (SLOT_FLUSH v) = flag k (commit u)" for k
    using view_fields(1,2) [of "SLOT_FLUSH v"] view_fields(5) [of k "SLOT_FLUSH v"] by (simp_all add: view)
  have "stepped 1 s (SLOT_FLUSH v)"
    using u(1) s(3,4) unfolding stepped_def plain_def f settles_def
    by (simp add: calm_def) (auto simp: v_def slot_simp wf_sim_def)
  then show ?thesis using u(2) m f(1) by (simp add: r)
qed
text \<open>A stretch of code, and its execution.\<close>

definition code_at :: "sim \<Rightarrow> uint16 \<Rightarrow> uint32 list \<Rightarrow> bool" where
  "code_at s pc ws \<longleftrightarrow> (\<forall>i < length ws. \<exists>p. imem_addr (push_bit 2 (ucast (pc + of_nat i))) s = Inr (Some p)
     \<and> get_longword (mem s) p = ws ! i)"

lemma imem_addr_high:
  assumes "same_high (mem s) (mem t)" and "umem t = umem s"
  shows "imem_addr a t = imem_addr a s"
  using assms by (simp add: imem_addr_def IMAP0_def IMAP1_def get_word_def same_high_def Let_def)

lemma code_word_high:
  assumes "same_high (mem s) (mem t)" and "imem_addr a s = Inr (Some p)"
  shows "get_longword (mem t) p = get_longword (mem s) p"
proof -
  have "(\<exists>n. p = Imem n) \<or> (\<exists>g n. p = Umem g n)"
    using assms(2) by (auto simp: imem_addr_def Let_def split: if_splits)
  then show ?thesis using assms(1) by (auto simp: get_longword_def same_high_def)
qed

lemma code_at_high: "same_high (mem s) (mem t) \<Longrightarrow> umem t = umem s \<Longrightarrow> code_at s pc ws \<Longrightarrow> code_at t pc ws"
  by (fastforce simp: code_at_def imem_addr_high code_word_high)

lemma code_at_Cons:
  "code_at s pc (w # ws) \<longleftrightarrow>
     (\<exists>p. imem_addr (push_bit 2 (ucast pc)) s = Inr (Some p) \<and> get_longword (mem s) p = w) \<and> code_at s (pc + 1) ws"
  by (simp add: code_at_def All_less_Suc2 algebra_simps)

lemma word_effect_depth:
  assumes "push_word w" and "word_depth w \<le> unat (fst rm ! 15)" and "length (fst rm) = 16" and "unat (fst rm ! 15) \<le> 0x8000"
  shows "unat (fst (word_effect w rm) ! 15) = unat (fst rm ! 15) - word_depth w \<and> length (fst (word_effect w rm)) = 16
    \<and> same_high (snd rm) (snd (word_effect w rm))"
proof -
  obtain a b where ab: "split_word w = (a, b)" by (cases "split_word w")
  then have p: "push_op a" "push_op b" "word_effect w rm = effect b (effect a rm)" "word_depth w = depth a + depth b"
    using assms(1) by (simp_all add: push_word_def word_effect_def word_depth_def)
  note a = depth_effect [OF p(1) _ assms(3)]
  note b = depth_effect [OF p(2) _ a(2)]
  have "same_high (snd rm) (snd (effect a rm))" "same_high (snd (effect a rm)) (snd (effect b (effect a rm)))"
    using effect_high [OF p(1), of rm] effect_high [OF p(2), of "effect a rm"] assms(2,4) a p(4) by simp_all
  then show ?thesis using assms(2,4) a b by (auto simp: p(3,4) intro: same_high_trans)
qed

theorem run_words:
  assumes "plain s" and "list_all push_word ws" and "sum_list (map word_depth ws) \<le> unat (regs s ! 15)" and "unat (regs s ! 15) \<le> 0x8000"
    and "code_at s (cregs s ! PC_CR) ws"
  shows "let t = (resume_step host ^^ length ws) s in
     stepped (length ws) s t \<and> (regs t, mem t) = fold word_effect ws (regs s, mem s) \<and> same_high (mem s) (mem t)"
  using assms
proof (induction ws arbitrary: s)
  case Nil
  then show ?case by (simp add: stepped_def same_high_def)
next
  case (Cons w ws)
  define t where "t = resume_step host s"
  have l: "length (regs s) = 16" using Cons.prems(1) by (simp add: plain_def calm_def wf_sim_def)
  obtain p where p: "imem_addr (push_bit 2 (PC s)) s = Inr (Some p)" "get_longword (mem s) p = w"
    using Cons.prems(5) by (auto simp: code_at_Cons CREG_def)
  have t: "stepped 1 s t" "(regs t, mem t) = word_effect w (regs s, mem s)"
    using step_word [OF Cons.prems(1) _ _ Cons.prems(4) p] Cons.prems(2,3) by (simp_all add: t_def)
  have d: "unat (regs t ! 15) = unat (regs s ! 15) - word_depth w" "same_high (mem s) (mem t)"
    using word_effect_depth [of w "(regs s, mem s)"] Cons.prems(2-4) l unfolding t(2) [symmetric] by simp_all
  have c: "code_at t (cregs t ! PC_CR) ws"
    using Cons.prems(5) t(1) code_at_high [OF d(2)] by (auto simp: code_at_Cons stepped_def)
  have "let v = (resume_step host ^^ length ws) t in
     stepped (length ws) t v \<and> (regs v, mem v) = fold word_effect ws (regs t, mem t) \<and> same_high (mem t) (mem v)"
    using Cons.prems(2-4) t(1) c d by (intro Cons.IH) (auto simp: stepped_def)
  moreover have "(resume_step host ^^ length (w # ws)) s = (resume_step host ^^ length ws) t"
    by (simp add: t_def funpow_swap1)
  ultimately show ?case using t same_high_trans [OF d(2)] by (auto simp: Let_def stepped_def algebra_simps)
qed
end
