(* ===== verification/Prologue_Correct.thy ===== *)
theory Prologue_Correct
  imports Prologue_Run
begin

text \<open>
  The debugger's analysis of a prologue agrees with what the simulator does: the addresses at which it looks for the
  saved registers of the caller are those to which the prologue has written them.
\<close>

section \<open>The standard form of a prologue\<close>

text \<open>
  Registers \<open>r0\<close> to \<open>r14\<close> are pushed, the stack pointer is decremented, and the last instruction that has an effect
  may copy the stack pointer to the frame pointer.
\<close>

definition standard_op :: "uint16 \<Rightarrow> bool" where
  "standard_op op \<longleftrightarrow> is_st op \<and> sreg op < 15 \<or> is_st2w op \<and> sreg op < 14 \<or> is_subi op \<or> op = 0x417E \<or> op = 0x5E00"

fun standard :: "uint16 list \<Rightarrow> bool" where
  "standard [] = True"
| "standard (op # ops) = (standard_op op \<and> (op = 0x417E \<longrightarrow> list_all (\<lambda>x. x = 0x5E00) ops) \<and> standard ops)"

definition saves :: "uint16 list \<Rightarrow> nat \<Rightarrow> (ptr \<Rightarrow> uint8) \<Rightarrow> CORE_ADDR list \<Rightarrow> bool" where
  "saves rs0 n m f \<longleftrightarrow> length f = NUM_REGS \<and> (\<forall>r. 15 \<le> r \<longrightarrow> r < NUM_REGS \<longrightarrow> f ! r = 0)
     \<and> (\<forall>r < 15. f ! r \<noteq> 0 \<longrightarrow> (\<exists>d. 2 \<le> d \<and> d \<le> n \<and> f ! r = - of_nat d
          \<and> get_word m (Dmem (unat (rs0 ! 15) - d)) = rs0 ! r))"

definition follows :: "uint16 list \<Rightarrow> nat \<Rightarrow> uint16 list \<times> (ptr \<Rightarrow> uint8) \<Rightarrow> scan \<Rightarrow> bool" where
  "follows rs0 n rm sc \<longleftrightarrow> saves rs0 n (snd rm) (fsr sc) \<and> next_addr sc = - of_nat n \<and> length (fst rm) = 16
     \<and> n \<le> unat (rs0 ! 15) \<and> unat (fst rm ! 15) = unat (rs0 ! 15) - n
     \<and> (\<forall>r < 15. r \<noteq> 11 \<longrightarrow> fst rm ! r = rs0 ! r) \<and> fst rm ! 11 = (if uses_frame sc then fst rm ! 15 else rs0 ! 11)"

lemma get_write_apart: "n + 2 \<le> k \<or> k + 2 \<le> n \<Longrightarrow> get_word (write_word (Dmem n) v m) (Dmem k) = get_word m (Dmem k)"
  by (auto simp: get_word_def write_word_def)

lemma get_write_same: "get_word (write_word (Dmem n) v m) (Dmem n) = v"
  using c16.rd_wr [of "Dmem n" v m] by simp

lemma write_apart:
  "n + 2 \<le> k \<or> k + 2 \<le> n \<Longrightarrow> write_word (Dmem n) v (write_word (Dmem k) w m) = write_word (Dmem k) w (write_word (Dmem n) v m)"
  by (auto simp: write_word_def fun_eq_iff)

lemma saves_mono: "saves rs0 n m f \<Longrightarrow> n \<le> n' \<Longrightarrow> saves rs0 n' m f"
  by (fastforce simp: saves_def)

lemma saves_push:
  assumes "saves rs0 n m f" and "r < 15" and "n + 2 \<le> unat (rs0 ! 15)"
  shows "saves rs0 (n + 2) (write_word (Dmem (unat (rs0 ! 15) - (n + 2))) (rs0 ! r) m) (f[r := - of_nat (n + 2)])"
  unfolding saves_def
proof (intro conjI allI impI)
  fix r' assume r': "r' < 15" "f[r := - of_nat (n + 2)] ! r' \<noteq> 0"
  let ?m = "write_word (Dmem (unat (rs0 ! 15) - (n + 2))) (rs0 ! r) m"
  show "\<exists>d\<ge>2. d \<le> n + 2 \<and> f[r := - of_nat (n + 2)] ! r' = - of_nat d \<and> get_word ?m (Dmem (unat (rs0 ! 15) - d)) = rs0 ! r'"
  proof (cases "r' = r")
    case True
    then show ?thesis using assms(1,2) get_write_same by (intro exI [of _ "n + 2"]) (simp add: saves_def del: of_nat_add)
  next
    case False
    then obtain d where d: "2 \<le> d" "d \<le> n" "f ! r' = - of_nat d" "get_word m (Dmem (unat (rs0 ! 15) - d)) = rs0 ! r'"
      using assms(1) r' by (auto simp: saves_def)
    then have "unat (rs0 ! 15) - (n + 2) + 2 \<le> unat (rs0 ! 15) - d" using assms(3) by simp
    from get_write_apart [OF disjI1 [OF this]] show ?thesis using False d by (intro exI [of _ d]) simp
  qed
qed (use assms(1,2) in \<open>simp_all add: saves_def\<close>)

lemma find_regs_eq:
  "prologue_find_regs op sc =
     (let n = sreg op in
      if is_st op then (True, sc\<lparr>fsr := (fsr sc)[n := next_addr sc - 2], next_addr := next_addr sc - 2\<rparr>)
      else if is_st2w op then (True, sc\<lparr>fsr := (fsr sc)[n := next_addr sc - 4, n + 1 := next_addr sc - 4 + 2], next_addr := next_addr sc - 4\<rparr>)
      else if is_subi op then (True, sc\<lparr>next_addr := next_addr sc - ucast (sub_amount op)\<rparr>)
      else if op = 0x417E then (True, sc\<lparr>uses_frame := True\<rparr>)
      else if op = 0x5E00 then (True, sc)
      else if op AND 0x7E1F = 0x681E then (True, save_reg n (next_addr sc) sc)
      else if op AND 0x7E3F = 0x3A1E then (True, save_reg (n + 1) (next_addr sc + 2) (save_reg n (next_addr sc) sc))
      else (False, sc))"
  by (simp add: prologue_find_regs_def is_st_def is_st2w_def is_subi_def sreg_def sub_amount_def save_reg_def Let_def
      del: drop_bit_and)

lemma follows_op:
  assumes "follows rs0 n rm sc" and "standard_op op" and "\<not> uses_frame sc \<or> op = 0x5E00" and "depth op \<le> unat (fst rm ! 15)"
  shows "fst (prologue_find_regs op sc) \<and> follows rs0 (n + depth op) (effect op rm) (snd (prologue_find_regs op sc))
    \<and> uses_frame (snd (prologue_find_regs op sc)) = (uses_frame sc \<or> op = 0x417E)"
proof -
  obtain rs m where rm: "rm = (rs, m)" by (cases rm)
  obtain f u where sc: "sc = \<lparr>fsr = f, next_addr = - of_nat n, uses_frame = u\<rparr>"
    using assms(1) by (cases sc) (simp add: follows_def)
  have s: "saves rs0 n m f" "length rs = 16" "n \<le> unat (rs0 ! 15)" "unat (rs ! 15) = unat (rs0 ! 15) - n"
    "\<And>r. r < 15 \<Longrightarrow> r \<noteq> 11 \<Longrightarrow> rs ! r = rs0 ! r" "rs ! 11 = (if u then rs ! 15 else rs0 ! 11)"
    using assms(1) by (simp_all add: follows_def rm sc)
  have low: "rs ! r = rs0 ! r" if "\<not> u" "r < 15" for r using s(5,6) that by (cases "r = 11") auto
  have other: "u \<Longrightarrow> op = 0x5E00" using assms(3) by (simp add: sc)
  from assms(2) consider "is_st op" "sreg op < 15" | "is_st2w op" "sreg op < 14" | "is_subi op" | "op = 0x417E" | "op = 0x5E00"
    by (auto simp: standard_op_def)
  then show ?thesis
  proof cases
    case 1
    define N where "N = n + 2"
    have u: "\<not> u" using other sp_patterns 1 by auto
    have d: "depth op = 2" using 1 by (simp add: depth_def)
    then have N: "N \<le> unat (rs0 ! 15)" "unat (rs ! 15 - 2) = unat (rs0 ! 15) - N"
      using assms(4) s(3,4) sub_depth [of 2 "rs ! 15"] by (simp_all add: rm N_def)
    have e: "effect op rm = (rs[15 := rs ! 15 - 2], write_word (Dmem (unat (rs0 ! 15) - N)) (rs0 ! sreg op) m)"
      using 1 low [OF u 1(2)] N(2) by (simp add: effect_def rm Let_def)
    have a: "- of_nat n - 2 = (- of_nat N :: uint32)" by (simp add: N_def)
    have p: "prologue_find_regs op sc = (True, \<lparr>fsr = f[sreg op := - of_nat N], next_addr = - of_nat N, uses_frame = u\<rparr>)"
      using 1 by (simp add: find_regs_eq sc a)
    have "op \<noteq> 0x417E" "n + depth op = N" using 1 sp_patterns d by (auto simp: N_def)
    then show ?thesis using saves_push [OF s(1) 1(2)] N u s low unfolding e p by (simp add: follows_def sc N_def)
  next
    case 2
    define N where "N = n + 4"
    have u: "\<not> u" using other sp_patterns 2 by auto
    have d: "depth op = 4" using 2 is_st2w_only by (simp add: depth_def)
    then have N: "N \<le> unat (rs0 ! 15)" "unat (rs ! 15 - 4) = unat (rs0 ! 15) - N"
      using assms(4) s(3,4) sub_depth [of 4 "rs ! 15"] by (simp_all add: rm N_def)
    have N2: "unat (rs0 ! 15) - N + 2 = unat (rs0 ! 15) - (n + 2)" using N(1) by (simp add: N_def)
    have e: "effect op rm = (rs[15 := rs ! 15 - 4], write_word (Dmem (unat (rs0 ! 15) - N)) (rs0 ! sreg op)
        (write_word (Dmem (unat (rs0 ! 15) - (n + 2))) (rs0 ! (sreg op + 1)) m))"
      using 2 low [OF u, of "sreg op"] low [OF u, of "sreg op + 1"] N(2) is_st2w_only N2 [symmetric]
        write_apart [of "unat (rs0 ! 15) - N" "unat (rs0 ! 15) - N + 2"]
      by (simp add: effect_def rm Let_def)
    have a: "- of_nat n - 4 = (- of_nat N :: uint32)" "- of_nat N + 2 = (- of_nat (n + 2) :: uint32)" by (simp_all add: N_def)
    then have a2: "2 - of_nat N = (- of_nat (n + 2) :: uint32)" by simp
    have p: "prologue_find_regs op sc = (True, \<lparr>fsr = f[sreg op + 1 := - of_nat (n + 2), sreg op := - of_nat N], next_addr = - of_nat N, uses_frame = u\<rparr>)"
      using 2 is_st2w_only list_update_swap [of "sreg op + 1" "sreg op" f] by (simp add: find_regs_eq sc a a2 Let_def del: of_nat_add of_nat_Suc)
    have "saves rs0 (n + 2) (write_word (Dmem (unat (rs0 ! 15) - (n + 2))) (rs0 ! (sreg op + 1)) m) (f[sreg op + 1 := - of_nat (n + 2)])"
      using saves_push [OF s(1), of "sreg op + 1"] 2(2) N(1) by (simp add: N_def)
    moreover have "n + 2 + 2 = N" by (simp add: N_def)
    ultimately have "saves rs0 N (snd (effect op rm)) (f[sreg op + 1 := - of_nat (n + 2), sreg op := - of_nat N])"
      using saves_push [of rs0 "n + 2" _ _ "sreg op"] 2(2) N(1) by (simp add: e del: of_nat_add of_nat_Suc)
    moreover have "op \<noteq> 0x417E" "n + depth op = N" using 2 sp_patterns d by (auto simp: N_def)
    ultimately show ?thesis using N u s low unfolding e p by (simp add: follows_def sc)
  next
    case 3
    define N where "N = n + unat (sub_amount op)"
    have u: "\<not> u" using other sp_patterns 3 by auto
    have d: "depth op = unat (sub_amount op)" using 3 is_subi_only by (simp add: depth_def)
    then have N: "N \<le> unat (rs0 ! 15)" "unat (rs ! 15 - sub_amount op) = unat (rs0 ! 15) - N"
      using assms(4) s(3,4) sub_depth [of "sub_amount op" "rs ! 15"] by (simp_all add: rm N_def)
    have e: "effect op rm = (rs[15 := rs ! 15 - sub_amount op], m)"
      using 3 is_subi_only by (simp add: effect_def rm Let_def)
    have "ucast (sub_amount op) = (of_nat (unat (sub_amount op)) :: uint32)" by simp
    then have a: "- of_nat n - ucast (sub_amount op) = (- of_nat N :: uint32)" by (simp add: N_def)
    have p: "prologue_find_regs op sc = (True, \<lparr>fsr = f, next_addr = - of_nat N, uses_frame = u\<rparr>)"
      using 3 is_subi_only by (simp add: find_regs_eq sc a)
    have "op \<noteq> 0x417E" "n + depth op = N" using 3 sp_patterns d by (auto simp: N_def)
    then show ?thesis using saves_mono [OF s(1), of N] N u s low unfolding e p by (simp add: follows_def sc N_def)
  next
    case 4
    then show ?thesis using s other by (simp add: follows_def rm sc effect_def depth_def find_regs_eq sp_patterns)
  next
    case 5
    then show ?thesis using s by (simp add: follows_def rm sc effect_def depth_def find_regs_eq sp_patterns)
  qed
qed

section \<open>The words of a prologue\<close>

definition ops_of :: "uint32 list \<Rightarrow> uint16 list" where
  "ops_of ws = concat (map (\<lambda>w. [fst (split_word w), snd (split_word w)]) ws)"

text \<open>Words whose instructions are executed one after the other: a parallel pair has a \<open>nop\<close> on one side.\<close>

definition sequential :: "uint32 \<Rightarrow> bool" where
  "sequential w \<longleftrightarrow> w AND 0xC0000000 = 0x40000000 \<or> w AND 0xC0000000 = 0x80000000
     \<or> w AND 0xC0000000 = 0 \<and> (fst (split_word w) = 0x5E00 \<or> snd (split_word w) = 0x5E00)"

definition prologue :: "uint32 list \<Rightarrow> bool" where
  "prologue ws \<longleftrightarrow> list_all sequential ws \<and> standard (ops_of ws)"

definition stack_use :: "uint32 list \<Rightarrow> nat" where
  "stack_use ws = sum_list (map word_depth ws)"

fun nops_if :: "bool \<Rightarrow> uint16 list \<Rightarrow> bool" where
  "nops_if u ops = (u \<longrightarrow> list_all (\<lambda>x. x = 0x5E00) ops)"

lemma standard_push: "standard_op op \<Longrightarrow> push_op op"
  by (auto simp: standard_op_def push_op_def)

lemma prologue_push: "prologue ws \<Longrightarrow> list_all push_word ws"
  by (induction ws) (auto simp: prologue_def ops_of_def push_word_def sequential_def case_prod_beta intro: standard_push)

lemma follows_sp: "follows rs0 n rm sc \<Longrightarrow> unat (fst rm ! 15) = unat (rs0 ! 15) - n \<and> n \<le> unat (rs0 ! 15)"
  by (simp add: follows_def)

lemma follows_word:
  assumes "follows rs0 n rm sc" and "sequential w" and "standard (ops_of (w # ws))" and "uses_frame sc \<longrightarrow> list_all (\<lambda>x. x = 0x5E00) (ops_of (w # ws))"
    and "n + word_depth w \<le> unat (rs0 ! 15)"
  shows "\<exists>sc'. find_regs_word w sc = (True, sc') \<and> follows rs0 (n + word_depth w) (word_effect w rm) sc'
    \<and> (uses_frame sc' \<longrightarrow> list_all (\<lambda>x. x = 0x5E00) (ops_of ws))
    \<and> uses_frame sc' = (uses_frame sc \<or> 0x417E \<in> set (ops_of [w]))"
proof -
  obtain a b where ab: "split_word w = (a, b)" by (cases "split_word w")
  have st: "standard_op a" "standard_op b" "a = 0x417E \<Longrightarrow> b = 0x5E00" "a = 0x417E \<or> b = 0x417E \<Longrightarrow> list_all (\<lambda>x. x = 0x5E00) (ops_of ws)"
    using assms(3) ab by (auto simp: ops_of_def)
  have u: "uses_frame sc \<Longrightarrow> a = 0x5E00 \<and> b = 0x5E00 \<and> list_all (\<lambda>x. x = 0x5E00) (ops_of ws)"
    using assms(4) ab by (auto simp: ops_of_def)
  have d: "n + (depth a + depth b) \<le> unat (rs0 ! 15)" using assms(5) ab by (simp add: word_depth_def)
  obtain sc1 where f1: "prologue_find_regs a sc = (True, sc1)" "follows rs0 (n + depth a) (effect a rm) sc1" "uses_frame sc1 = (uses_frame sc \<or> a = 0x417E)"
    using follows_op [OF assms(1) st(1)] u d follows_sp [OF assms(1)] by (cases "prologue_find_regs a sc") fastforce
  obtain sc2 where f2: "prologue_find_regs b sc1 = (True, sc2)" "follows rs0 (n + depth a + depth b) (effect b (effect a rm)) sc2"
    "uses_frame sc2 = (uses_frame sc1 \<or> b = 0x417E)"
    using follows_op [OF f1(2) st(2)] u d follows_sp [OF f1(2)] f1(3) st(3) by (cases "prologue_find_regs b sc1") fastforce
  have "w AND 0xC0000000 \<noteq> 0xC0000000" using assms(2) by (auto simp: sequential_def)
  then have "find_regs_word w sc = (True, sc2)" by (simp add: find_regs_word_def ab f1 f2)
  then show ?thesis using f1 f2 u st(4) ab by (auto simp: word_effect_def word_depth_def ops_of_def algebra_simps)
qed

section \<open>What the debugger reads\<close>

lemma read_4:
  assumes "program_loaded g" and "sim_read a (replicate 4 0) 4 (target g) = (4, bs, target g)" 
  shows "target_xfer_memory a (replicate 4 0) False g = (Inr (Some bs), g)" "read_memory a 4 g = (Inr bs, g)"
  using assms by (simp_all add: read_memory_def target_xfer_memory_def gdbsim_xfer_inferior_memory_def action_defs numeral_eq_Suc)

lemma code_addr_bits:
  "bit (push_bit 2 (ucast (pc :: uint16)) :: uint32) n \<longleftrightarrow> 2 \<le> n \<and> n < 18 \<and> bit pc (n - 2)"
  using bit_imp_le_length [of pc] by (fastforce simp: bit_simps)

lemma code_addr_add:
  assumes "k < 4"
  shows "push_bit 2 (ucast (pc :: uint16)) + of_nat k = (push_bit 2 (ucast pc) OR of_nat k :: uint32)"
    "(push_bit 2 (ucast pc) AND 0x1ffff) + of_nat k = ((push_bit 2 (ucast pc) AND 0x1ffff) OR of_nat k :: uint32)"
proof -
  have k: "(of_nat k :: uint32) \<in> {0, 1, 2, 3}" using assms by (auto simp: numeral_eq_Suc less_Suc_eq)
  have "bit (of_nat k :: uint32) n \<Longrightarrow> n < 2" for n
    using k by (auto simp: bit_1_iff bit_numeral_rec split: nat.splits)
  then have b: "\<not> (bit (push_bit 2 (ucast pc) :: uint32) n \<and> bit (of_nat k :: uint32) n)" for n
    using code_addr_bits [of pc n] by fastforce
  show "push_bit 2 (ucast (pc :: uint16)) + of_nat k = (push_bit 2 (ucast pc) OR of_nat k :: uint32)"
    by (rule disjunctive_add) (use b in blast)
  show "(push_bit 2 (ucast pc) AND 0x1ffff) + of_nat k = ((push_bit 2 (ucast pc) AND 0x1ffff) OR of_nat k :: uint32)"
    by (rule disjunctive_add) (use b in \<open>auto simp: bit_and_iff\<close>)
qed

lemma code_address:
  assumes "imem_addr (push_bit 2 (ucast pc)) s = Inr (Some p)" and "k < 4"
  shows "imem_addr (push_bit 2 (ucast (pc :: uint16)) + of_nat k) s = Inr (Some (ptr_add p k))"
proof -
  let ?a = "push_bit 2 (ucast pc) :: uint32"
  have k: "k \<in> {0, 1, 2, 3}" using assms(2) by auto
  then have c: "(of_nat k :: uint32) AND 0x20000 = 0" "(of_nat k :: uint32) AND 0x1ffff = of_nat k" by auto
  have lt: "unat ?a + 4 < 2 ^ 32" "unat (?a AND 0x1ffff) + 4 < 2 ^ 32"
  proof -
    have "unat pc < 2 ^ 16" by (rule order_less_le_trans [OF unsigned_less]) simp
    moreover from this have "unat ?a = 4 * unat pc" by (simp add: push_bit_eq_mult unat_word_ariths unsigned_ucast_eq)
    ultimately show "unat ?a + 4 < 2 ^ 32" by simp
    show "unat (?a AND 0x1ffff) + 4 < 2 ^ 32" using unat_and_le [of ?a "0x1ffff"] by simp
  qed
  have s: "(?a + of_nat k) AND 0x20000 = ?a AND 0x20000"
    unfolding code_addr_add(1) [OF assms(2)] by (simp only: and.commute [of _ "0x20000"] bit.conj_disj_distrib) (simp add: c and.commute)
  have l: "(?a + of_nat k) AND 0x1ffff = (?a AND 0x1ffff) + of_nat k"
    unfolding code_addr_add [OF assms(2)] by (simp only: and.commute [of _ "0x1ffff"] bit.conj_disj_distrib c) (simp add: c and.commute)
  have u: "unat (?a + of_nat k) = unat ?a + k" "unat ((?a AND 0x1ffff) + of_nat k) = unat (?a AND 0x1ffff) + k"
    using lt k by (auto intro!: unat_add_small)
  show ?thesis using assms(1) by (auto simp: imem_addr_def Let_def s l u split: if_splits)
qed

lemma code_segment:
  "drop_bit 24 (D10V_MAKE_IADDR (ucast (pc :: uint16))) AND 0xff = 1" "D10V_MAKE_IADDR (ucast pc) AND 0x00ffffff = push_bit 2 (ucast pc)"
proof -
  have "(0x1000000 :: int) = 2 ^ 24" by simp
  then have e: "bit (0x1000000 :: int) n \<longleftrightarrow> n = 24" for n by (simp only: bit_exp_iff) auto
  have b: "bit (D10V_MAKE_IADDR (ucast pc)) n \<longleftrightarrow> 2 \<le> n \<and> n < 18 \<and> bit pc (n - 2) \<or> n = 24" for n
    by (auto simp: D10V_MAKE_IADDR_def e bit_or_iff code_addr_bits)
  have m: "(0xff :: uint32) = mask 8" "(0x00ffffff :: uint32) = mask 24" by (simp_all add: mask_eq_exp_minus_1)
  show "drop_bit 24 (D10V_MAKE_IADDR (ucast pc)) AND 0xff = 1"
    unfolding m by (rule bit_word_eqI) (auto simp: b bit_and_iff bit_drop_bit_eq bit_1_iff bit_mask_iff)
  show "D10V_MAKE_IADDR (ucast pc) AND 0x00ffffff = push_bit 2 (ucast pc)"
    unfolding m by (rule bit_word_eqI) (auto simp: b bit_and_iff code_addr_bits bit_mask_iff)
qed

lemma read_code:
  assumes "imem_addr (push_bit 2 (ucast pc)) s = Inr (Some p)"
  shows "sim_read (D10V_MAKE_IADDR (ucast (pc :: uint16))) (replicate 4 0) 4 s = (4, copy_out p 4 (mem s), s)"
proof -
  have "p \<noteq> Null k" for k using assms by (auto simp: imem_addr_def Let_def split: if_splits)
  then have n: "ptr_add p k \<noteq> Null 0" for k by (cases p) auto
  have a: "imem_addr (push_bit 2 (ucast pc)) s = Inr (Some (ptr_add p 0))" "imem_addr (push_bit 2 (ucast pc) + 1) s = Inr (Some (ptr_add p 1))"
    "imem_addr (push_bit 2 (ucast pc) + 2) s = Inr (Some (ptr_add p 2))" "imem_addr (push_bit 2 (ucast pc) + 3) s = Inr (Some (ptr_add p 3))"
    using code_address [OF assms, of 0] code_address [OF assms, of 1] code_address [OF assms, of 2] code_address [OF assms, of 3] by simp_all
  have "xfer_imap (push_bit 2 (ucast pc)) 0 4 False (replicate 4 0) s = (4, copy_out p 4 (mem s), s)"
    using a n [of 0] n [of 1] n [of 2] n [of 3] by (simp add: numeral_eq_Suc xfer_byte_def copy_out_def upt_rec)
  then show ?thesis by (simp add: sim_read_def xfer_mem_def code_segment Let_def)
qed

text \<open>The bytes of a word, read as a signed number and truncated again.\<close>

lemma sign_flip: "(a XOR 0x80) - 0x80 = (a :: uint8)"
proof -
  have e: "(0x80 :: int) = 2 ^ 7" by simp
  have b: "bit (0x80 :: int) n \<longleftrightarrow> n = 7" for n unfolding e bit_exp_iff by auto
  have "a XOR 0x80 = a + 0x80"
  proof (cases "bit a 7")
    case True
    have "a = (a XOR 0x80) OR 0x80" using True by (intro bit_word_eqI) (auto simp: bit_simps b)
    also have "\<dots> = (a XOR 0x80) + 0x80" using True by (intro disjunctive_add [symmetric]) (auto simp: bit_simps b)
    finally have "a XOR 0x80 = a - 0x80" by (metis add_diff_cancel_right')
    also have "a - 0x80 = a + (- 0x80)" by (simp only: diff_conv_add_uminus)
    also have "(- 0x80 :: uint8) = 0x80" by simp
    finally show ?thesis .
  next
    case False
    have "a XOR 0x80 = a OR 0x80" using False by (intro bit_word_eqI) (auto simp: bit_simps b)
    also have "\<dots> = a + 0x80" using False by (intro disjunctive_add [symmetric]) (auto simp: bit_simps b)
    finally show ?thesis .
  qed
  then show ?thesis by simp
qed

lemma or_bytes:
  "push_bit 24 (ucast (a :: uint8)) + push_bit 16 (ucast (b :: uint8)) + push_bit 8 (ucast (c :: uint8)) + ucast (d :: uint8)
     = (push_bit 24 (ucast a) OR push_bit 16 (ucast b) OR push_bit 8 (ucast c) OR ucast d :: uint32)"
proof -
  define f where "f k (x :: uint8) = (push_bit k (ucast x) :: uint32)" for k x
  have bit: "bit (f k x) i \<longleftrightarrow> k \<le> i \<and> i < k + 8 \<and> bit x (i - k)" if "k \<le> 24" for k i x
    using that bit_imp_le_length [of x] by (fastforce simp: f_def bit_simps)
  have 1: "f 24 a + f 16 b = f 24 a OR f 16 b" by (rule disjunctive_add) (auto simp: bit)
  have 2: "(f 24 a OR f 16 b) + f 8 c = f 24 a OR f 16 b OR f 8 c"
    unfolding or.assoc [symmetric] by (rule disjunctive_add) (auto simp: bit bit_simps)
  have 3: "(f 24 a OR f 16 b OR f 8 c) + f 0 d = f 24 a OR f 16 b OR f 8 c OR f 0 d"
    by (subst disjunctive_add) (auto simp: bit bit_simps or.assoc)
  have "f 24 a + f 16 b + f 8 c + f 0 d = f 24 a OR f 16 b OR f 8 c OR f 0 d" unfolding 1 2 3 ..
  then show ?thesis by (simp add: f_def)
qed

lemma extract_word_4: "\<exists>v. extract_signed_integer [a, b, c, d] 4 = Inr v
    \<and> (ucast v :: uint32) = push_bit 24 (ucast a) + push_bit 16 (ucast b) + push_bit 8 (ucast c) + ucast d"
proof -
  let ?x = "(ucast a XOR 0x80) - 0x80 :: int64"
  have "(ucast ?x :: uint8) = (ucast (ucast a XOR 0x80 :: int64) :: uint8) - 0x80"
    by (simp add: ucast_down) 
  also have "(ucast (ucast a XOR 0x80 :: int64) :: uint8) = a XOR 0x80"
    by (rule bit_word_eqI) (simp add: bit_simps)
  finally have x: "(ucast ?x :: uint8) = a" by (simp add: sign_flip)
  have ax: "bit a n \<longleftrightarrow> n < 8 \<and> bit ?x n" for n
    using arg_cong [OF x, of "\<lambda>w. bit w n"] by (auto simp: bit_simps)
  have "(ucast (push_bit 8 (push_bit 8 (push_bit 8 ?x OR ucast b) OR ucast c) OR ucast d) :: uint32)
      = push_bit 24 (ucast a) OR push_bit 16 (ucast b) OR push_bit 8 (ucast c) OR ucast d"
    using bit_imp_le_length [of b] bit_imp_le_length [of c] bit_imp_le_length [of d] 
    by (intro bit_word_eqI) (auto simp: bit_or_iff bit_push_bit_iff bit_unsigned_iff ax)
  moreover have "extract_signed_integer [a, b, c, d] 4 = Inr (push_bit 8 (push_bit 8 (push_bit 8 ?x OR ucast b) OR ucast c) OR ucast d)"
    by (simp add: extract_signed_integer_def)
  ultimately show ?thesis unfolding or_bytes by blast
qed

lemma read_code_word:
  assumes "program_loaded g" and "imem_addr (push_bit 2 (ucast pc)) (target g) = Inr (Some p)" and "get_longword (mem (target g)) p = w"
  shows "\<exists>v. read_memory_integer (D10V_MAKE_IADDR (ucast (pc :: uint16))) 4 g = (Inr v, g) \<and> ucast v = w"
proof -
  have "[0 ..< 4] = [0, 1, 2, 3 :: nat]" by (simp add: upt_rec)
  then have c: "copy_out p 4 m = [m p, m (ptr_add p 1), m (ptr_add p 2), m (ptr_add p 3)]" for m by (simp add: copy_out_def)
  note r = read_4(2) [OF assms(1) read_code [OF assms(2)], unfolded c]
  let ?m = "mem (target g)"
  obtain v where v: "extract_signed_integer [?m p, ?m (ptr_add p 1), ?m (ptr_add p 2), ?m (ptr_add p 3)] 4 = Inr v" "ucast v = w"
    using extract_word_4 [of "?m p" "?m (ptr_add p 1)" "?m (ptr_add p 2)" "?m (ptr_add p 3)"] assms(3) unfolding get_longword_def by blast
  then show ?thesis
    using r by (simp add: read_memory_integer_def action_defs)
qed

lemma ucast_succ: "unat (a :: uint16) + 1 < 2 ^ 16 \<Longrightarrow> (ucast (a + 1) :: uint32) = ucast a + 1"
  by (intro word_unat_eq_iff [THEN iffD2]) (simp add: unat_word_ariths unsigned_ucast_eq take_bit_nat_eq_self)

lemma dmem_low: "unat (a :: uint16) \<le> 0x7fff \<Longrightarrow> dmem_addr (ucast a) s = (Dmem (unat a), s)"
proof -
  assume le: "unat a \<le> 0x7fff"
  have m: "(0xffff :: uint32) = mask 16" by (simp add: mask_eq_exp_minus_1)
  have "(ucast a :: uint32) AND 0xffff = ucast a"
    unfolding m using bit_imp_le_length [of a] by (intro bit_word_eqI) (fastforce simp: bit_simps)
  then show ?thesis using le by (simp add: dmem_addr_def Let_def word_less_nat_alt)
qed

lemma word_bytes_get: "word_bytes (get_word m p) = [m p, m (ptr_add p (Suc 0))]"
proof -
  have "get_word m p = push_bit 8 (ucast (m p)) OR ucast (m (ptr_add p 1))"
    unfolding get_word_def by (rule disjunctive_add) (auto simp: bit_simps dest: bit_imp_le_length)
  moreover have "\<not> bit (x :: uint8) (8 + n)" for x n by (auto dest: bit_imp_le_length)
  ultimately show ?thesis unfolding word_bytes_def by (auto intro!: bit_word_eqI simp: bit_simps)
qed

lemma read_data:
  assumes "program_loaded g" and "unat a \<le> 0x7ffe"
  shows "read_memory_unsigned_integer (ucast (a :: uint16)) 2 g = (Inr (ucast (get_word (mem (target g)) (Dmem (unat a)))), g)"
proof -
  let ?s = "target g"
  have seg: "drop_bit 24 (ucast a :: uint32) AND 0xff = 0" "(ucast a :: uint32) AND 0x00ffffff = ucast a"
  proof -
    have m: "(0x00ffffff :: uint32) = mask 24" by (simp add: mask_eq_exp_minus_1)
    have "drop_bit 24 (ucast a :: uint32) = 0" using bit_imp_le_length [of a] by (intro bit_word_eqI) (fastforce simp: bit_simps)
    then show "drop_bit 24 (ucast a :: uint32) AND 0xff = 0" by simp
    show "(ucast a :: uint32) AND 0x00ffffff = ucast a"
      unfolding m using bit_imp_le_length [of a] by (intro bit_word_eqI) (fastforce simp: bit_simps)
  qed
  have up: "ucast a + 1 = (ucast (a + 1) :: uint32)" "unat (a + 1) = unat a + 1"
    using assms(2) ucast_succ [of a] by (simp_all add: unat_word_ariths)
  have d: "dmem_addr (ucast a) ?s = (Dmem (unat a), ?s)" "dmem_addr (ucast a + 1) ?s = (Dmem (unat a + 1), ?s)"
    using dmem_low [of a] dmem_low [of "a + 1"] assms(2) unfolding up by simp_all
  have "sim_read (ucast a) (replicate 2 0) 2 ?s = (2, copy_out (Dmem (unat a)) 2 (mem ?s), ?s)"
    using d by (simp add: sim_read_def xfer_mem_def seg Let_def numeral_2_eq_2 xfer_byte_def copy_out_def upt_rec)
  then have r: "read_memory (ucast a) 2 g = (Inr (copy_out (Dmem (unat a)) 2 (mem ?s)), g)"
    using assms(1) by (simp add: read_memory_def target_xfer_memory_def gdbsim_xfer_inferior_memory_def action_defs)
  have "copy_out (Dmem (unat a)) 2 (mem ?s) = word_bytes (get_word (mem ?s) (Dmem (unat a)))"
    by (simp add: copy_out_def upt_rec word_bytes_get)
  then show ?thesis by (simp add: read_memory_unsigned_integer_def r action_defs extract_word)
qed

section \<open>The scans\<close>

lemma find_regs_check:
  "fst (prologue_find_regs op sc) = check_prologue op" "\<not> check_prologue op \<Longrightarrow> prologue_find_regs op sc = (False, sc)"
  "prologue_find_regs 0x5E00 sc = (True, sc)"
  by (simp_all add: prologue_find_regs_def check_prologue_def Let_def del: drop_bit_and)

lemma stop_word: "skip_word w = Stop_here \<Longrightarrow> find_regs_word w sc = (False, sc)"
  by (auto simp: skip_word_def find_regs_word_def case_prod_beta find_regs_check Let_def split: if_splits prod.splits)
    

lemma go_word: "find_regs_word w sc = (True, sc') \<Longrightarrow> skip_word w = Go_on"
  by (auto simp: skip_word_def find_regs_word_def case_prod_beta Let_def find_regs_check(1) dest: arg_cong [of _ _ fst] split: if_splits)

lemma next_code_addr:
  assumes "unat pc + 1 < 2 ^ 16"
  shows "D10V_MAKE_IADDR (ucast (pc :: uint16)) + 4 = D10V_MAKE_IADDR (ucast (pc + 1))"
proof -
  have "(0x1000000 :: int) = 2 ^ 24" by simp
  then have e: "bit (0x1000000 :: int) n \<longleftrightarrow> n = 24" for n by (simp only: bit_exp_iff) auto
  have a: "D10V_MAKE_IADDR (ucast x) = ucast x * 4 + 0x1000000" for x :: uint16
  proof -
    have "D10V_MAKE_IADDR (ucast x) = push_bit 2 (ucast x) + 0x1000000"
      unfolding D10V_MAKE_IADDR_def by (rule disjunctive_add [symmetric]) (auto simp: code_addr_bits e)
    then show ?thesis by (simp add: push_bit_eq_mult)
  qed
  show ?thesis unfolding a [of "pc + 1"] a [of pc] unfolding ucast_succ [OF assms] by simp
qed

lemma scan_words:
  assumes "follows rs0 n rm sc" and "list_all sequential ws" and "standard (ops_of ws)" and "uses_frame sc \<longrightarrow> list_all (\<lambda>x. x = 0x5E00) (ops_of ws)"
    and "n + stack_use ws \<le> unat (rs0 ! 15)" and "program_loaded g" and "code_at (target g) pc (ws @ [w])" and "skip_word w = Stop_here"
    and "unat pc + length ws < 2 ^ 16"
  shows "\<exists>sc'. find_regs_loop (D10V_MAKE_IADDR (ucast pc)) sc g = (Inr sc', g) \<and> follows rs0 (n + stack_use ws) (fold word_effect ws rm) sc'
    \<and> uses_frame sc' = (uses_frame sc \<or> 0x417E \<in> set (ops_of ws))
    \<and> skip_prologue_loop (D10V_MAKE_IADDR (ucast pc)) g = (Inr (D10V_MAKE_IADDR (ucast (pc + of_nat (length ws)))), g)"
  using assms
proof (induction ws arbitrary: n rm sc pc)
  case Nil
  then obtain p where "imem_addr (push_bit 2 (ucast pc)) (target g) = Inr (Some p)" "get_longword (mem (target g)) p = w"
    by (auto simp: code_at_Cons)
  then obtain v where v: "read_memory_integer (D10V_MAKE_IADDR (ucast pc)) 4 g = (Inr v, g)" "ucast v = w"
    using read_code_word [OF Nil.prems(6)] by blast
  then show ?case using Nil.prems(1,8) stop_word [OF Nil.prems(8)]
    by (auto simp: find_regs_loop.simps [of _ sc] skip_prologue_loop.simps [of "D10V_MAKE_IADDR (ucast pc)"] stack_use_def ops_of_def)
next
  case (Cons x ws)
  then obtain p where "imem_addr (push_bit 2 (ucast pc)) (target g) = Inr (Some p)" "get_longword (mem (target g)) p = x"
    by (auto simp: code_at_Cons)
  then obtain v where v: "read_memory_integer (D10V_MAKE_IADDR (ucast pc)) 4 g = (Inr v, g)" "ucast v = x"
    using read_code_word [OF Cons.prems(6)] by blast
  obtain sc1 where sc1: "find_regs_word x sc = (True, sc1)" "follows rs0 (n + word_depth x) (word_effect x rm) sc1"
    "uses_frame sc1 \<longrightarrow> list_all (\<lambda>x. x = 0x5E00) (ops_of ws)" "uses_frame sc1 = (uses_frame sc \<or> 0x417E \<in> set (ops_of [x]))"
    using follows_word [OF Cons.prems(1) _ Cons.prems(3,4)] Cons.prems(2,5) by (auto simp: stack_use_def)
  have a: "D10V_MAKE_IADDR (ucast pc) + 4 = D10V_MAKE_IADDR (ucast (pc + 1))" "unat (pc + 1) = unat pc + 1"
    using Cons.prems(9) next_code_addr [of pc] by (simp_all add: unat_word_ariths)
  have "\<exists>sc'. find_regs_loop (D10V_MAKE_IADDR (ucast (pc + 1))) sc1 g = (Inr sc', g)
      \<and> follows rs0 (n + word_depth x + stack_use ws) (fold word_effect ws (word_effect x rm)) sc'
      \<and> uses_frame sc' = (uses_frame sc1 \<or> 0x417E \<in> set (ops_of ws))
      \<and> skip_prologue_loop (D10V_MAKE_IADDR (ucast (pc + 1))) g = (Inr (D10V_MAKE_IADDR (ucast (pc + 1 + of_nat (length ws)))), g)"
    using Cons.prems sc1(1-3) a(2) by (intro Cons.IH) (auto simp: stack_use_def ops_of_def code_at_Cons)
  moreover have "0x417E \<in> set (ops_of (x # ws)) \<longleftrightarrow> 0x417E \<in> set (ops_of [x]) \<or> 0x417E \<in> set (ops_of ws)"
    by (auto simp: ops_of_def)
  ultimately show ?case using sc1(1,4) v go_word [OF sc1(1)] a(1)
    by (auto simp: find_regs_loop.simps [of _ sc] skip_prologue_loop.simps [of "D10V_MAKE_IADDR (ucast pc)"] stack_use_def algebra_simps)
qed

section \<open>The frame\<close>

lemma saved_addr_follows:
  assumes "follows rs0 n rm sc" and "n < unat (rs0 ! 15)" and "unat (rs0 ! 15) \<le> 0x8000" and "r < 15"
  shows "fsr sc ! r = 0 \<Longrightarrow> saved_addr (ucast (fst rm ! 15)) sc r = 0"
    and "fsr sc ! r \<noteq> 0 \<Longrightarrow> \<exists>a. saved_addr (ucast (fst rm ! 15)) sc r = ucast (a :: uint16) \<and> a \<noteq> 0 \<and> unat a \<le> 0x7ffe
      \<and> get_word (snd rm) (Dmem (unat a)) = rs0 ! r"
proof -
  show "fsr sc ! r = 0 \<Longrightarrow> saved_addr (ucast (fst rm ! 15)) sc r = 0" by (simp add: saved_addr_def)
  assume "fsr sc ! r \<noteq> 0"
  then obtain d where d: "2 \<le> d" "d \<le> n" "fsr sc ! r = - of_nat d" "get_word (snd rm) (Dmem (unat (rs0 ! 15) - d)) = rs0 ! r"
    using assms(1,4) by (auto simp: follows_def saves_def)
  define a where "a = rs0 ! 15 - of_nat d"
  have a: "unat a = unat (rs0 ! 15) - d"
    using d(1,2) assms(2,3) sub_depth [of "of_nat d" "rs0 ! 15"] by (simp add: a_def unat_of_nat)
  have f: "unat (fst rm ! 15) = unat (rs0 ! 15) - n" "next_addr sc = - of_nat n" using assms(1) by (simp_all add: follows_def)
  have "saved_addr (ucast (fst rm ! 15)) sc r = ucast (fst rm ! 15) - (- of_nat n - - of_nat d)"
    using assms(4) d(3) \<open>fsr sc ! r \<noteq> 0\<close> f(2) by (simp add: saved_addr_def Let_def)
  also have "\<dots> = of_nat (unat (fst rm ! 15)) - (- of_nat n - - of_nat d)" by simp
  also have "\<dots> = (of_nat (unat a) :: uint32)"
    using f(1) a d(2) assms(2) by (simp add: of_nat_diff)
  also have "\<dots> = ucast a" by simp
  finally have "saved_addr (ucast (fst rm ! 15)) sc r = ucast a" .
  moreover have "a \<noteq> 0" using a d(1,2) assms(2) by auto
  ultimately show "\<exists>a. saved_addr (ucast (fst rm ! 15)) sc r = ucast (a :: uint16) \<and> a \<noteq> 0 \<and> unat a \<le> 0x7ffe
      \<and> get_word (snd rm) (Dmem (unat a)) = rs0 ! r"
    using a d assms(2,3) by auto
qed

lemma follows_start: "length rs = 16 \<Longrightarrow> follows rs 0 (rs, m) scan_start"
  by (auto simp: follows_def saves_def scan_start_def nth_replicate)

lemma saved_addr_above: "follows rs0 n rm sc \<Longrightarrow> r = 15 \<or> r = 11 \<Longrightarrow> r < NUM_REGS"
  by auto

lemma word_conv: "(ucast (ucast (w :: uint16) :: uint64) :: uint32) = ucast w"
  by (rule bit_word_eqI) (auto simp: bit_simps dest: bit_imp_le_length)

lemma frame_found:
  assumes "coherent g" and "program_loaded g" and "frame fi AND 0xffff = 0" and "unat (rs0 ! 15) \<le> 0x8000" "n < unat (rs0 ! 15)"
    and "follows rs0 n (regs (target g), mem (target g)) sc"
    and "find_regs_loop (get_pc_function_start st (fi_pc fi)) scan_start g = (Inr sc, g)"
  shows "\<exists>fi' saved g'. d10v_frame_find_saved_regs st fi g = (Inr (fi', saved), g') \<and> length saved = NUM_REGS
     \<and> return_pc fi' = D10V_MAKE_IADDR (ucast (rs0 ! 13)) \<and> saved ! 15 = ucast (rs0 ! 15) \<and> fi_size fi' = of_nat n
     \<and> (\<forall>r < 15. if saved ! r \<noteq> 0 then get_word (mem (target g)) (Dmem (unat (saved ! r))) = rs0 ! r
           else r = 11 \<and> uses_frame sc \<or> regs (target g) ! r = rs0 ! r)"
proof -
  let ?t = "target g"
  obtain g1 where g1: "read_register 15 g = (ucast (regs ?t ! 15), g1)" "fetched 15 g g1"
    using read_register [OF assms(1), of 15] by (cases "read_register 15 g") (simp add: reg_word_def)
  have t1: "target g1 = ?t" "coherent g1" "program_loaded g1" using g1(2) assms(2) by (simp_all add: fetched_def)
  define saved where "saved = map (saved_addr (ucast (regs ?t ! 15)) sc) [0 ..< NUM_REGS]"
  have len: "length saved = 37" by (simp add: saved_def)
  have nth: "saved ! r = saved_addr (ucast (regs ?t ! 15)) sc r" if "r < 37" for r using that by (simp add: saved_def)
  note addr = saved_addr_follows [OF assms(6) assms(5,4), simplified fst_conv snd_conv]
  have f: "next_addr sc = - of_nat n" "fsr sc ! 15 = 0" "unat (regs ?t ! 15) = unat (rs0 ! 15) - n" "n \<le> unat (rs0 ! 15)"
    "\<And>r. r < 15 \<Longrightarrow> r \<noteq> 11 \<Longrightarrow> regs ?t ! r = rs0 ! r" "regs ?t ! 11 = (if uses_frame sc then regs ?t ! 15 else rs0 ! 11)"
    using assms(6) by (simp_all add: follows_def saves_def)
  have s15: "saved ! 15 = 0" "saved_addr (ucast (regs ?t ! 15)) sc 15 = 0" using f(2) by (simp_all add: nth saved_addr_def Let_def)
  have "\<exists>g2. find_return_pc saved g1 = (Inr (D10V_MAKE_IADDR (ucast (rs0 ! 13))), g2) \<and> coherent g2 \<and> target g2 = ?t"
  proof (cases "fsr sc ! 13 = 0")
    case True
    then have "saved ! 13 = 0" using addr(1) [of 13] nth [of 13] by simp
    moreover obtain g2 where "read_register 13 g1 = (ucast (rs0 ! 13), g2)" "fetched 13 g1 g2"
      using read_register [OF t1(2), of 13] f(5) [of 13] t1(1) by (cases "read_register 13 g1") (simp add: reg_word_def)
    ultimately show ?thesis using t1(1) by (simp add: find_return_pc_def action_defs fetched_def)
  next
    case False
    then obtain a where a: "saved ! 13 = ucast (a :: uint16)" "a \<noteq> 0" "unat a \<le> 0x7ffe" "get_word (mem ?t) (Dmem (unat a)) = rs0 ! 13"
      using addr(2) [of 13] nth [of 13] by auto
    have "ucast a \<noteq> (0 :: uint32)" using a(2) by (metis ucast_16_32_16 ucast_0)
    then show ?thesis using read_data [OF t1(3) a(3)] a(1,4) t1(1,2)
      by (simp add: find_return_pc_def action_defs REGISTER_RAW_SIZE_def word_conv)
  qed
  then obtain g2 where g2: "find_return_pc saved g1 = (Inr (D10V_MAKE_IADDR (ucast (rs0 ! 13))), g2)" "coherent g2" "target g2 = ?t" by blast
  have caller: "ucast (regs ?t ! 15) + of_nat n = (ucast (rs0 ! 15) :: uint32)"
  proof -
    have "ucast (regs ?t ! 15) + of_nat n = (of_nat (unat (regs ?t ! 15)) + of_nat n :: uint32)" by simp
    also have "\<dots> = of_nat (unat (rs0 ! 15))" using f(3,4) by (simp add: of_nat_diff)
    finally show ?thesis by simp
  qed
  have kept: "if saved ! r \<noteq> 0 then get_word (mem ?t) (Dmem (unat (saved ! r))) = rs0 ! r
      else r = 11 \<and> uses_frame sc \<or> regs ?t ! r = rs0 ! r" if r: "r < 15" for r
  proof (cases "fsr sc ! r = 0")
    case True
    then have "saved ! r = 0" using addr(1) [OF r] nth [of r] r by simp
    then show ?thesis using f(5) [OF r] f(6) by (cases "r = 11") auto
  next
    case False
    then obtain a where a: "saved ! r = ucast (a :: uint16)" "a \<noteq> 0" "get_word (mem ?t) (Dmem (unat a)) = rs0 ! r"
      using addr(2) [OF r] nth [of r] r by auto
    have "ucast a \<noteq> (0 :: uint32)" using a(2) by (metis ucast_16_32_16 ucast_0)
    then show ?thesis using a by simp
  qed
  show ?thesis
  proof (cases "uses_frame sc")
    case True
    obtain g3 where "read_register 11 g2 = (ucast (regs ?t ! 15), g3)"
      using read_register(1) [OF g2(2), of 11] True f(6) g2(3) by (cases "read_register 11 g2") (simp add: reg_word_def)
    then have "d10v_frame_find_saved_regs st fi g = (Inr (fi\<lparr>fi_size := of_nat n, return_pc := D10V_MAKE_IADDR (ucast (rs0 ! 13))\<rparr>, saved[15 := ucast (rs0 ! 15)]), g3)"
      using assms(3,7) g1(1) g2(1) True s15 caller
      by (simp add: d10v_frame_find_saved_regs_def action_defs saved_def [symmetric] Let_def f(1) D10V_MAKE_DADDR_def)
    then show ?thesis using kept len by auto
  next
    case False
    then have "d10v_frame_find_saved_regs st fi g = (Inr (fi\<lparr>fi_size := of_nat n, return_pc := D10V_MAKE_IADDR (ucast (rs0 ! 13)), frameless := True\<rparr>,
        saved[15 := ucast (rs0 ! 15), 11 := 0]), g2)"
      using assms(3,7) g1(1) g2(1) s15 caller
      by (simp add: d10v_frame_find_saved_regs_def action_defs saved_def [symmetric] Let_def f(1) D10V_MAKE_DADDR_def)
    then show ?thesis using kept len f(5,6) False by (auto simp: nth_list_update)
  qed
qed


text \<open>
  A function that pushes the return address, makes room for four bytes and sets up the frame pointer:
  \<open>st r13, @-sp || nop\<close>, then \<open>subi sp, 4 -> mv r11, sp\<close>.
\<close>

definition sample_prologue :: "uint32 list" where
  "sample_prologue = [0x36DFDE00, 0x40F4C17E]"

definition sample_sim :: sim where
  "sample_sim = (boot True)\<lparr>regs := (replicate 16 0)[13 := 0x55, 15 := 0x1000], umem := replicate 128 True,
     mem := copy_in (Umem 0 0) [0x36, 0xDF, 0xDE, 0x00, 0x40, 0xF4, 0xC1, 0x7E] (\<lambda>_. 0)\<rparr>"

lemma sample_code: "code_at sample_sim 0 (sample_prologue @ [0])"
proof -
  have i: "IMAP0 sample_sim = 0" by (simp add: IMAP0_def get_word_def sample_sim_def)
  have "imem_addr a sample_sim = Inr (Some (Umem 0 (unat a)))" if "a \<in> {0, 4, 8}" for a
    using that by (auto simp: imem_addr_def i) (simp_all add: sample_sim_def)
  moreover have "get_longword (mem sample_sim) (Umem 0 0) = 0x36DFDE00" "get_longword (mem sample_sim) (Umem 0 4) = 0x40F4C17E"
    "get_longword (mem sample_sim) (Umem 0 8) = 0"
    by (simp_all add: sample_sim_def get_longword_def)
  ultimately show ?thesis
    by (simp add: sample_prologue_def code_at_Cons) (simp add: code_at_def)
qed


end
