(* ===== verification/Call_Correct.thy ===== *)
theory Call_Correct
  imports Prologue_Correct
begin

text \<open>
  Values that the debugger leaves in the argument and return registers of the simulated program (\<open>Gdb_Call\<close>).
\<close>

section \<open>Writing the first registers\<close>

lemma two_bytes: "length b = 2 \<Longrightarrow> \<exists>w. b = word_bytes w"
proof -
  assume "length b = 2"
  then obtain x y where b: "b = [x, y]" by (auto simp: numeral_2_eq_2 length_Suc_conv)
  have "word_bytes (get_word (\<lambda>p. if p = Dmem 0 then x else y) (Dmem 0)) = b" by (simp add: word_bytes_get b)
  then show ?thesis by metis
qed

lemma write_first:
  assumes "coherent g" and "even (length buf)" and "length buf \<le> 30"
  shows "coherent (write_register_bytes 0 buf g)
    \<and> (\<forall>r < NUM_REGS. raw r (target (write_register_bytes 0 buf g)) = (if r < length buf div 2 then reg_bytes r buf else raw r (target g)))"
proof -
  let ?k = "length buf div 2"
  have k: "length buf = 2 * ?k" "?k \<le> 15" using assms(2,3) by simp_all
  have out: "write_if_covered 0 buf r g = g" if "?k \<le> r" "r < NUM_REGS" for r g
    using that k by (auto simp: write_if_covered_def startin_def endin_def REGISTER_BYTE_def REGISTER_RAW_SIZE_def Let_def)
  have inside: "write_if_covered 0 buf r = write_cached r (reg_bytes r buf)" if "r < ?k" for r
  proof -
    have "startin r 0 (length buf)" "endin r 0 (length buf)" and "\<not> 35 < r"
      using that k by (auto simp: startin_def endin_def REGISTER_BYTE_def REGISTER_RAW_SIZE_def Let_def)
    moreover have "take (REGISTER_RAW_SIZE r) (drop (REGISTER_BYTE r) buf) = reg_bytes r buf"
      "take (REGISTER_RAW_SIZE r) (reg_bytes r buf) = reg_bytes r buf" by (simp_all add: reg_bytes_def)
    ultimately show ?thesis
      by (auto simp: write_if_covered_def Let_def write_register_gen_def write_cached_def set_cached_def fun_eq_iff)
  qed
  have fits: "sim_fits r (reg_bytes r buf) s" if "r < ?k" for r s
  proof -
    have "length (reg_bytes r buf) = 2" using that k by (simp add: reg_bytes_def REGISTER_RAW_SIZE_def REGISTER_BYTE_def)
    then show ?thesis using two_bytes that k by (simp add: sim_fits_def word_fits_def) 
  qed
  have "coherent h \<Longrightarrow> \<forall>r \<in> set rs. r < NUM_REGS \<Longrightarrow> distinct rs \<Longrightarrow>
      coherent (fold (write_if_covered 0 buf) rs h)
      \<and> (\<forall>r < NUM_REGS. raw r (target (fold (write_if_covered 0 buf) rs h)) =
           (if r \<in> set rs \<and> r < ?k then reg_bytes r buf else raw r (target h)))" for rs h
  proof (induction rs arbitrary: h)
    case (Cons r rs)
    show ?case
    proof (cases "r < ?k")
      case True
      let ?w = "write_cached r (reg_bytes r buf) h"
      have w: "written r (reg_bytes r buf) h ?w" using Cons.prems fits [OF True] by (intro write_cached) auto
      then show ?thesis using Cons.IH [of ?w] Cons.prems inside [OF True] True by (auto simp: written_def)
    next
      case False
      then show ?thesis using Cons.IH [of h] Cons.prems out [of r] by auto
    qed
  qed simp
  from this [of g "[0 ..< NUM_REGS]"] show ?thesis
    using assms(1) k(2) by (simp add: write_register_bytes_def)
qed

lemma first_registers:
  assumes "length buf = 2 * k" and "2 * k \<le> length rb" and "\<And>r. r < k \<Longrightarrow> reg_bytes r rb = reg_bytes r buf" and "k \<le> 15"
  shows "take (2 * k) rb = buf"
proof (rule nth_equalityI)
  show "length (take (2 * k) rb) = length buf" using assms(1,2) by simp
  fix i assume "i < length (take (2 * k) rb)"
  then have i: "i < 2 * k" by simp
  have n: "reg_bytes (i div 2) xs ! (i mod 2) = xs ! i" if "2 * k \<le> length xs" for xs
  proof -
    have "reg_bytes (i div 2) xs = take 2 (drop (2 * (i div 2)) xs)"
      using i assms(4) by (simp add: reg_bytes_def REGISTER_RAW_SIZE_def REGISTER_BYTE_def mult.commute)
    moreover have "2 * (i div 2) + i mod 2 = i" by simp
    moreover have "take 2 (drop (2 * (i div 2)) xs) ! (i mod 2) = xs ! (2 * (i div 2) + i mod 2)" using i that by simp
    ultimately show ?thesis by simp
  qed
  have "i div 2 < k" using i by simp
  then have "reg_bytes (i div 2) rb = reg_bytes (i div 2) buf" by (rule assms(3))
  then show "take (2 * k) rb ! i = buf ! i" using n [of rb] n [of buf] i assms(1,2) by simp
qed

section \<open>Return values\<close>

text \<open>
  A value of an even number of bytes (at most eight) that is not a pointer and that the debugger leaves as
  the return value of a function is the value it extracts from the registers afterwards. (For odd sizes and
  for pointers the two routines disagree: \<open>return_byte_lost\<close>.)
\<close>

theorem return_value_roundtrip:
  assumes "coherent g" and "TYPE_CODE ty \<noteq> TYPE_CODE_PTR" and "even (TYPE_LENGTH ty)" and "TYPE_LENGTH ty \<le> 8"
    and "length val = TYPE_LENGTH ty"
  shows "d10v_extract_return_value ty (fst (read_register_bytes 0 REGISTER_BYTES (STORE_RETURN_VALUE ty val g))) = Inr val"
proof -
  let ?g = "STORE_RETURN_VALUE ty val g" and ?k = "length val div 2"
  have w: "coherent ?g" "\<forall>r < NUM_REGS. raw r (target ?g) = (if r < ?k then reg_bytes r val else raw r (target g))"
    using write_first [OF assms(1), of val] assms(3-5) by (simp_all add: STORE_RETURN_VALUE_def REGISTER_BYTE_def)
  let ?rb = "fst (read_register_bytes 0 REGISTER_BYTES ?g)"
  have rb: "length ?rb = 86" "\<And>r. r < NUM_REGS \<Longrightarrow> reg_bytes r ?rb = raw r (target ?g)"
    using read_all [OF w(1)] by simp_all
  have k: "length val = 2 * ?k" "?k \<le> 4" using assms(3-5) by simp_all
  have "take (2 * ?k) ?rb = val" using k w(2) rb by (intro first_registers) simp_all
  then have "take (TYPE_LENGTH ty) ?rb = val" using k(1) assms(5) by simp
  then show ?thesis using assms(2,3) by (auto simp: d10v_extract_return_value_def REGISTER_BYTE_def Let_def)
qed

theorem return_value_roundtrip_witness:
  "d10v_extract_return_value (Type TYPE_CODE_OTHER 4 None)
     (fst (read_register_bytes 0 REGISTER_BYTES (STORE_RETURN_VALUE (Type TYPE_CODE_OTHER 4 None) [1, 2, 3, 4] (attached (boot True))))) = Inr [1, 2, 3, 4]"
proof -
  have "coherent (attached (boot True))" by (rule coherent_attached) (simp add: idle_def boot_def wf_sim_def)
  then show ?thesis using return_value_roundtrip [of _ "Type TYPE_CODE_OTHER 4 None" "[1, 2, 3, 4]"] by simp
qed

text \<open>A byte is stored in the upper half of \<open>r0\<close> and looked for in the lower one.\<close>

lemma return_byte_lost:
  "reg_word 0 (target (STORE_RETURN_VALUE (Type TYPE_CODE_OTHER 1 None) [7] (attached (boot True)))) = 0x0700"
  "d10v_extract_return_value (Type TYPE_CODE_OTHER 1 None) ([7, 0] @ replicate 84 0) = Inr [0]"
  by code_simp+

section \<open>Arguments\<close>

definition word_args :: "uint16 list \<Rightarrow> (gdbtype \<times> uint8 list) list" where
  "word_args ws = map (\<lambda>w. (Type TYPE_CODE_OTHER 2 None, word_bytes w)) ws"

lemma write_cached_loaded [simp]: "program_loaded (write_cached r b g) = program_loaded g"
  by (simp add: write_cached_def gdbsim_store_register_def read_register_gen_def gdbsim_fetch_register_def
      supply_register_def Let_def)

lemma low_address:
  assumes "n < 0x8000"
  shows "drop_bit 24 (of_nat n :: uint32) AND 0xff = 0" "(of_nat n :: uint32) AND 0x00ffffff = of_nat n"
    "dmem_addr (of_nat n) s = (Dmem n, s)"
proof -
  have u: "unat (of_nat n :: uint32) = n" using assms by (simp add: unat_of_nat)
  have "unat (drop_bit 24 (of_nat n :: uint32)) = n div 2 ^ 24"
    unfolding unat_drop_bit_eq u by (simp only: drop_bit_eq_div)
  then have "unat (drop_bit 24 (of_nat n :: uint32)) = unat (0 :: uint32)" using assms by simp
  then have "drop_bit 24 (of_nat n :: uint32) = 0" by (simp only: word_unat_eq_iff)
  then show "drop_bit 24 (of_nat n :: uint32) AND 0xff = 0" by simp
  have "unat ((of_nat n :: uint32) AND 0x00ffffff) = n" unfolding unat_low24 u using assms by simp
  then show "(of_nat n :: uint32) AND 0x00ffffff = of_nat n" unfolding word_unat_eq_iff u .
  have "unat ((of_nat n :: uint32) AND 0xffff) = n" unfolding unat_low16 u using assms by simp
  then show "dmem_addr (of_nat n) s = (Dmem n, s)" using assms by (simp add: dmem_addr_def Let_def word_less_nat_alt)
qed

lemma write_data_word:
  assumes "program_loaded g" and "n + 1 < 0x8000"
  shows "write_memory (of_nat n) (word_bytes w) g = (Inr (), g\<lparr>target := (target g)\<lparr>mem := write_word (Dmem n) w (mem (target g))\<rparr>\<rparr>)"
proof -
  let ?s = "target g"
  have d: "dmem_addr (of_nat n) s = (Dmem n, s)" "dmem_addr (of_nat n + 1) s = (Dmem (n + 1), s)" for s
    using low_address(3) [of n s] low_address(3) [of "n + 1" s] assms(2) by (simp_all add: add.commute)
  have "write_word (Dmem n) w (mem ?s) = (mem ?s)(Dmem n := word_bytes w ! 0, Dmem (n + 1) := word_bytes w ! 1)"
    by (simp add: write_word_def word_bytes_def)
  then have "sim_write (of_nat n) (word_bytes w) 2 ?s = (2, word_bytes w, ?s\<lparr>mem := write_word (Dmem n) w (mem ?s)\<rparr>)"
    using d low_address(1,2) [of n] assms(2) by (simp add: sim_write_def xfer_mem_def Let_def numeral_2_eq_2 xfer_byte_def)
  then show ?thesis
    using assms(1) by (simp add: write_memory_def target_xfer_memory_def gdbsim_xfer_inferior_memory_def action_defs)
qed

lemma push_down:
  assumes "even n" and "2 \<le> n" and "n \<le> 0x8000"
  shows "((of_nat n :: uint32) - 2) AND NOT 1 = of_nat (n - 2)"
proof -
  have "(of_nat n :: uint32) - 2 = of_nat (n - 2)" using assms(2) by (simp add: of_nat_diff)
  moreover have "(of_nat (n - 2) :: uint32) AND NOT 1 = of_nat (n - 2)"
  proof (rule bit_word_eqI)
    fix i assume "i < LENGTH(32)"
    show "bit ((of_nat (n - 2) :: uint32) AND NOT 1) i = bit (of_nat (n - 2) :: uint32) i"
      unfolding bit_and_iff bit_not_iff bit_1_iff using assms(1) \<open>i < LENGTH(32)\<close> by (cases "i = 0") (simp_all add: bit_0)
  qed
  ultimately show ?thesis by simp
qed

lemma keeps_raw_high:
  assumes "regs s' = regs s" "cregs s' = cregs s" "acc s' = acc s" "\<And>n. 0x8000 \<le> n \<Longrightarrow> mem s' (Dmem n) = mem s (Dmem n)"
  shows "raw r s' = raw r s"
proof -
  have "IMAP0 s' = IMAP0 s" "IMAP1 s' = IMAP1 s" "DMAP s' = DMAP s"
    using assms(4) by (simp_all add: IMAP0_def IMAP1_def DMAP_def get_word_def)
  then show "raw r s' = raw r s" using assms(1-3) by (cases "r < 35") (simp_all add: raw_eq reg_word_def)
qed

lemma stack_args:
  assumes "coherent g" and "program_loaded g" and "even n" and "2 * length ws \<le> n" and "n \<le> 0x8000"
  shows "\<exists>g'. push_arguments ptr0 (word_args ws) (4, of_nat n) g = (Inr (4, of_nat (n - 2 * length ws)), g') \<and> coherent g'
     \<and> (\<forall>i < length ws. get_word (mem (target g')) (Dmem (n - 2 * (i + 1))) = ws ! i)
     \<and> (\<forall>r < NUM_REGS. raw r (target g') = raw r (target g)) \<and> (\<forall>k \<ge> n. mem (target g') (Dmem k) = mem (target g) (Dmem k))"
  using assms
proof (induction ws arbitrary: g n)
  case Nil
  have "push_arguments ptr0 (word_args []) (4, of_nat n) g = (Inr (4, of_nat n), g)" by (simp only: word_args_def list.map push_arguments.simps gret_def)
  then show ?case using Nil.prems(1) by (intro exI [of _ g]) simp
next
  case (Cons w ws)
  define n' where "n' = n - 2"
  have n': "even n'" "n' + 1 < 0x8000" "n = n' + 2" using Cons.prems(3-5) by (auto simp: n'_def)
  have sp': "(of_nat n - 2 :: uint32) AND NOT 1 = of_nat n'" using push_down [of n] Cons.prems(3-5) by (simp add: n'_def)
  define h where "h = g\<lparr>target := (target g)\<lparr>mem := write_word (Dmem n') w (mem (target g))\<rparr>\<rparr>"
  have one: "push_argument ptr0 (Type TYPE_CODE_OTHER 2 None, word_bytes w) (4, of_nat n) g = (Inr (4, of_nat n'), h)"
    using write_data_word [OF Cons.prems(2) n'(2), of w] sp' by (simp add: push_argument_def Let_def action_defs h_def)
  have k: "raw r (target h) = raw r (target g)" for r
    using n'(2) by (intro keeps_raw_high) (simp_all add: h_def write_word_def)
  have h: "coherent h" "program_loaded h" using Cons.prems(1,2) k by (simp_all add: coherent_def h_def idle_def wf_sim_def)
  obtain g' where g': "push_arguments ptr0 (word_args ws) (4, of_nat n') h = (Inr (4, of_nat (n' - 2 * length ws)), g')" "coherent g'"
    "\<forall>i < length ws. get_word (mem (target g')) (Dmem (n' - 2 * (i + 1))) = ws ! i"
    "\<forall>r < NUM_REGS. raw r (target g') = raw r (target h)" "\<forall>k \<ge> n'. mem (target g') (Dmem k) = mem (target h) (Dmem k)"
    using Cons.IH [OF h n'(1)] Cons.prems(4,5) n'(3) by auto
  have "get_word (mem (target g')) (Dmem n') = get_word (mem (target h)) (Dmem n')" using g'(5) by (simp add: get_word_def)
  then have "get_word (mem (target g')) (Dmem n') = w" by (simp add: h_def get_write_same)
  then have "get_word (mem (target g')) (Dmem (n - 2 * (i + 1))) = (w # ws) ! i" if "i < length (w # ws)" for i
    using that g'(3) n'(3) by (cases i) simp_all
  moreover have "mem (target g') (Dmem k) = mem (target g) (Dmem k)" if "n \<le> k" for k
    using that g'(5) n'(3) by (simp add: h_def write_word_def)
  ultimately show ?case
    using g'(1,2,4) k one n'(3) by (intro exI [of _ g']) (simp add: word_args_def gbind_def)
qed

lemma register_args:
  assumes "coherent g" and "program_loaded g" and "k + length ws \<le> 4"
  shows "\<exists>g'. push_arguments ptr0 (word_args ws) (k, sp0) g = (Inr (k + length ws, sp0), g') \<and> coherent g' \<and> program_loaded g'
     \<and> (\<forall>r < NUM_REGS. raw r (target g') = (if k \<le> r \<and> r < k + length ws then word_bytes (ws ! (r - k)) else raw r (target g)))"
  using assms
proof (induction ws arbitrary: g k)
  case Nil
  have "push_arguments ptr0 (word_args []) (k, sp0) g = (Inr (k, sp0), g)" by (simp only: word_args_def list.map push_arguments.simps gret_def)
  then show ?case using Nil.prems(1,2) by (intro exI [of _ g]) auto
next
  case (Cons w ws)
  define h where "h = write_register k (ucast (ucast (ucast w :: uint64) :: int32)) g"
  have v: "(ucast (ucast (ucast (ucast w :: uint64) :: int32) :: int64) :: uint16) = w"
    by (rule bit_word_eqI) (simp add: bit_simps)
  have wr: "written k (word_bytes w) g h"
    using write_register [OF Cons.prems(1), of k "ucast (ucast (ucast w :: uint64) :: int32)"] Cons.prems(3) by (simp add: h_def v word_fits_def)
  then have h: "coherent h" "program_loaded h" using Cons.prems(2) by (simp_all add: written_def h_def write_register_def)
  have one: "push_argument ptr0 (Type TYPE_CODE_OTHER 2 None, word_bytes w) (k, sp0) g = (Inr (Suc k, sp0), h)"
    using Cons.prems(3) by (simp add: push_argument_def Let_def action_defs extract_word h_def)
  obtain g' where g': "push_arguments ptr0 (word_args ws) (Suc k, sp0) h = (Inr (Suc k + length ws, sp0), g')" "coherent g'" "program_loaded g'"
    "\<forall>r < NUM_REGS. raw r (target g') = (if Suc k \<le> r \<and> r < Suc k + length ws then word_bytes (ws ! (r - Suc k)) else raw r (target h))"
    using Cons.IH [OF h, of "Suc k"] Cons.prems(3) by auto
  have "raw r (target g') = (if k \<le> r \<and> r < k + length (w # ws) then word_bytes ((w # ws) ! (r - k)) else raw r (target g))" if "r < NUM_REGS" for r
    using g'(4) that wr by (auto simp: written_def nth_Cons' Suc_le_eq)
  then show ?case using g'(1-3) one by (intro exI [of _ g']) (simp add: word_args_def gbind_def)
qed

lemma push_arguments_append:
  "push_arguments ptr0 (as @ bs) rs = gbind (push_arguments ptr0 as rs) (push_arguments ptr0 bs)"
  by (induction "as" arbitrary: rs) (auto simp: action_defs fun_eq_iff split: sum.split prod.split)



end
