(* ===== verification/Z8k_Base.thy ===== *)
theory Z8k_Base
  imports Prelude
begin

text \<open>
  What the Z8000 theories share: the ways in which a run of the Z8000 tools can end without a result, and the
  sequencing of steps that may end so. \<open>run_iff\<close> collects the rules that split a successful run into its steps.
\<close>

named_theorems run_iff "when a sequence of steps has a result"

text \<open>
  A call of \<open>abort\<close>, a failed read of memory, an access outside of an array, the use of a null pointer, and
  the use of what has no defined value (a pointer to a variable of a call that has returned, a function that
  returns without a value).
\<close>

datatype z8k_fault = Aborted | Memory_error | Overrun string | Null_deref string | Undefined string

type_synonym 'a run = "z8k_fault + 'a"

definition bindF :: "'a run \<Rightarrow> ('a \<Rightarrow> 'b run) \<Rightarrow> 'b run" where
  "bindF r f = (case r of Inl e \<Rightarrow> Inl e | Inr x \<Rightarrow> f x)"

lemma bindF_simps [simp]: "bindF (Inl e) f = Inl e" "bindF (Inr x) f = f x"
  by (simp_all add: bindF_def)

lemma bindF_Inr [run_iff]: "bindF r f = Inr y \<longleftrightarrow> (\<exists>x. r = Inr x \<and> f x = Inr y)"
  by (cases r) simp_all

lemma bindF_assoc: "bindF (bindF r f) g = bindF r (\<lambda>x. bindF (f x) g)"
  by (cases r) simp_all

lemma bindF_cong [fundef_cong]: "r = r' \<Longrightarrow> (\<And>x. r' = Inr x \<Longrightarrow> f x = g x) \<Longrightarrow> bindF r f = bindF r' g"
  by (cases r') simp_all

definition check :: "bool \<Rightarrow> z8k_fault \<Rightarrow> unit run" where
  "check b e = (if b then Inr () else Inl e)"

lemma check_Inr [run_iff]: "check b e = Inr u \<longleftrightarrow> b"
  by (simp add: check_def)

lemma check_True [simp]: "check True e = Inr ()"
  by (simp add: check_def)

section \<open>Steps on a state\<close>

type_synonym ('s, 'a) act = "'s \<Rightarrow> ('a \<times> 's) run"

definition retA :: "'a \<Rightarrow> ('s, 'a) act" where
  "retA x s = Inr (x, s)"

definition seqA :: "('s, 'a) act \<Rightarrow> ('a \<Rightarrow> ('s, 'b) act) \<Rightarrow> ('s, 'b) act" where
  "seqA m f s = bindF (m s) (\<lambda>(x, s). f x s)"

definition updA :: "('s \<Rightarrow> 's) \<Rightarrow> ('s, unit) act" where
  "updA f s = Inr ((), f s)"

definition getA :: "('s \<Rightarrow> 'a) \<Rightarrow> ('s, 'a) act" where
  "getA f s = Inr (f s, s)"

definition runA :: "'a run \<Rightarrow> ('s, 'a) act" where
  "runA r s = bindF r (\<lambda>x. Inr (x, s))"

lemmas act_defs = retA_def seqA_def updA_def getA_def runA_def

lemma seqA_Inr [run_iff]: "seqA m f s = Inr (y, u) \<longleftrightarrow> (\<exists>x t. m s = Inr (x, t) \<and> f x t = Inr (y, u))"
  by (auto simp: seqA_def bindF_Inr)

lemma basic_Inr [run_iff]:
  "retA x s = Inr (y, u) \<longleftrightarrow> y = x \<and> u = s"
  "updA f s = Inr (n, u) \<longleftrightarrow> u = f s"
  "getA h s = Inr (z, u) \<longleftrightarrow> z = h s \<and> u = s"
  "runA r s = Inr (w, u) \<longleftrightarrow> r = Inr w \<and> u = s"
  by (auto simp: act_defs bindF_Inr)

end
