(* ===== verification/Z8k_Sim.thy ===== *)
theory Z8k_Sim
  imports Z8k_Base
begin

text \<open>
  The state of the Z8000 simulator, its registers and its memory (\<open>src/src/sim/z8k/inlines.h\<close>, \<open>mem.c\<close>). The functions of the
  instructions are generated when the simulator is built and are a parameter of what uses them (\<open>Z8k_Support\<close>).

  Memory is one array of 16 MB, null until the debugger has accessed it; an access of it outside of the
  array is a fault. The members of \<open>sim_state_type\<close> have their names with a prefix where these are taken.
\<close>

section \<open>State\<close>

record z8k_sim =
  z_memory :: "(nat \<Rightarrow> uint8) option"
  z_carry :: int32
  z_sign :: int32
  z_zero :: int32
  z_overflow :: int32
  z_cycles :: int32
  z_regs :: "uint16 list"
  sometimes_pc :: uint32
  z_exception :: int32
  z_insts :: int32
  z_ticks :: int32
  broken_flags :: int32
  srca :: int32
  srcb :: int32
  z_dst :: int32
  z_size :: nat

type_synonym 'a zsim = "(z8k_sim, 'a) act"

abbreviation (input) "SIM_SINGLE_STEP \<equiv> 1 :: int32"
abbreviation (input) "SIM_DONE \<equiv> 2 :: int32"
abbreviation (input) "SIM_BREAKPOINT \<equiv> 3 :: int32"
abbreviation (input) "SIM_INTERRUPT \<equiv> 4 :: int32"
abbreviation (input) "SIM_BAD_INST \<equiv> 5 :: int32"
abbreviation (input) "SIM_DIV_ZERO \<equiv> 6 :: int32"
abbreviation (input) "SIM_BAD_SYSCALL \<equiv> 7 :: int32"
abbreviation (input) "SIM_BAD_ALIGN \<equiv> 8 :: int32"
abbreviation (input) "CMP_FLAGS \<equiv> 100 :: int32"
abbreviation (input) "TST_FLAGS \<equiv> 101 :: int32"
abbreviation (input) "MEMORY_SIZE \<equiv> 0x1000000 :: nat"

section \<open>Registers\<close>

definition sitoptr :: "uint32 \<Rightarrow> uint32" where
  "sitoptr si = drop_bit 8 (si AND 0xff000000) OR (si AND 0xffff)"

definition ptrtosi :: "uint32 \<Rightarrow> uint32" where
  "ptrtosi p = push_bit 8 (p AND 0xff0000) OR (p AND 0xffff)"

definition get_word_reg :: "nat \<Rightarrow> uint16 zsim" where
  "get_word_reg r = seqA (runA (check (r < 16) (Overrun ''regs''))) (\<lambda>_. getA (\<lambda>s. z_regs s ! r))"

definition put_word_reg :: "nat \<Rightarrow> int32 \<Rightarrow> unit zsim" where
  "put_word_reg r v =
     seqA (runA (check (r < 16) (Overrun ''regs''))) (\<lambda>_. updA (\<lambda>s. s\<lparr>z_regs := (z_regs s)[r := ucast v]\<rparr>))"

definition put_long_reg :: "nat \<Rightarrow> int32 \<Rightarrow> unit zsim" where
  "put_long_reg r v = seqA (put_word_reg r (signed_drop_bit 16 v)) (\<lambda>_. put_word_reg (r + 1) v)"

definition put_quad_reg :: "nat \<Rightarrow> int32 \<Rightarrow> int32 \<Rightarrow> unit zsim" where
  "put_quad_reg r val1 val2 =
     seqA (put_word_reg r (signed_drop_bit 16 val2)) (\<lambda>_. seqA (put_word_reg (r + 1) val2) (\<lambda>_.
     seqA (put_word_reg (r + 2) (signed_drop_bit 16 val1)) (\<lambda>_. put_word_reg (r + 3) val1)))"

definition get_long_reg :: "nat \<Rightarrow> uint32 zsim" where
  "get_long_reg r =
     seqA (get_word_reg (r + 1)) (\<lambda>lsw. seqA (get_word_reg r) (\<lambda>msw. retA (push_bit 16 (ucast msw) OR ucast lsw)))"

text \<open>The high and the low half.\<close>

definition get_quad_reg :: "nat \<Rightarrow> (uint32 \<times> uint32) zsim" where
  "get_quad_reg r = seqA (get_long_reg (r + 2)) (\<lambda>lsw. seqA (get_long_reg r) (\<lambda>msw. retA (msw, lsw)))"

definition put_byte_reg :: "uint32 \<Rightarrow> int32 \<Rightarrow> unit zsim" where
  "put_byte_reg r v =
     seqA (get_word_reg (unat (r AND 7))) (\<lambda>w.
     let old = ucast w :: int32 in
     put_word_reg (unat (r AND 7))
       (if r AND 8 \<noteq> 0 then (old AND 0xff00) OR (v AND 0xff) else (old AND 0x00ff) OR push_bit 8 v))"

definition get_byte_reg :: "uint32 \<Rightarrow> int32 zsim" where
  "get_byte_reg r =
     seqA (get_word_reg (unat (r AND 7))) (\<lambda>w.
     retA (if r AND 8 \<noteq> 0 then ucast w AND 0xff else drop_bit 8 (ucast w) AND 0xff))"

definition put_ptr_long_reg :: "nat \<Rightarrow> int32 \<Rightarrow> unit zsim" where
  "put_ptr_long_reg r v = seqA (put_word_reg r (signed_drop_bit 8 v AND 0x7f00)) (\<lambda>_. put_word_reg (r + 1) v)"

definition get_ptr_long_reg :: "nat \<Rightarrow> int32 zsim" where
  "get_ptr_long_reg r =
     seqA (get_word_reg r) (\<lambda>h. seqA (get_word_reg (r + 1)) (\<lambda>l. retA (push_bit 8 (ucast h) OR ucast l)))"

section \<open>Memory\<close>

definition the_memory :: "(nat \<Rightarrow> uint8) zsim" where
  "the_memory = seqA (getA z_memory) (\<lambda>m. runA (case m of None \<Rightarrow> Inl (Null_deref ''memory'') | Some m \<Rightarrow> Inr m))"

definition get_byte_mem_da :: "int32 \<Rightarrow> uint8 zsim" where
  "get_byte_mem_da addr =
     seqA the_memory (\<lambda>m. seqA (runA (check (unat addr < MEMORY_SIZE) (Overrun ''memory''))) (\<lambda>_. retA (m (unat addr))))"

definition put_byte_mem_da :: "int32 \<Rightarrow> int32 \<Rightarrow> unit zsim" where
  "put_byte_mem_da addr v =
     seqA the_memory (\<lambda>m. seqA (runA (check (unat addr < MEMORY_SIZE) (Overrun ''memory''))) (\<lambda>_.
     updA (\<lambda>s. s\<lparr>z_memory := Some (m(unat addr := ucast v))\<rparr>)))"

definition get_word_mem_da :: "int32 \<Rightarrow> int32 zsim" where
  "get_word_mem_da addr =
     seqA (get_byte_mem_da addr) (\<lambda>h. seqA (get_byte_mem_da (addr + 1)) (\<lambda>l. retA (push_bit 8 (ucast h) OR ucast l)))"

definition put_word_mem_da :: "int32 \<Rightarrow> int32 \<Rightarrow> unit zsim" where
  "put_word_mem_da addr v =
     seqA (if addr AND 1 \<noteq> 0 then updA (z_exception_update (\<lambda>_. SIM_BAD_ALIGN)) else retA ()) (\<lambda>_.
     let addr = (if addr AND 1 \<noteq> 0 then addr AND NOT 1 else addr) in
     seqA (put_byte_mem_da addr (signed_drop_bit 8 v)) (\<lambda>_. put_byte_mem_da (addr + 1) v))"

definition get_long_mem_da :: "int32 \<Rightarrow> uint32 zsim" where
  "get_long_mem_da addr =
     seqA (get_word_mem_da (addr + 2)) (\<lambda>lsw. seqA (get_word_mem_da addr) (\<lambda>msw. retA (push_bit 16 msw + lsw)))"

definition put_long_mem_da :: "int32 \<Rightarrow> int32 \<Rightarrow> unit zsim" where
  "put_long_mem_da addr v =
     seqA (put_word_mem_da addr (signed_drop_bit 16 v)) (\<lambda>_. put_word_mem_da (addr + 2) v)"

text \<open>Through a register (\<open>ir\<close>), and with a base (\<open>x\<close>).\<close>

definition at_reg :: "nat \<Rightarrow> int32 \<Rightarrow> (int32 \<Rightarrow> 'a zsim) \<Rightarrow> 'a zsim" where
  "at_reg r base f = seqA (get_word_reg r) (\<lambda>w. f (base + ucast w))"

definition get_word_mem_ir :: "nat \<Rightarrow> int32 zsim" where "get_word_mem_ir r = at_reg r 0 get_word_mem_da"
definition put_word_mem_ir :: "nat \<Rightarrow> int32 \<Rightarrow> unit zsim" where
  "put_word_mem_ir r v = at_reg r 0 (\<lambda>a. put_word_mem_da a v)"
definition get_byte_mem_ir :: "nat \<Rightarrow> uint8 zsim" where "get_byte_mem_ir r = at_reg r 0 get_byte_mem_da"
definition put_byte_mem_ir :: "nat \<Rightarrow> int32 \<Rightarrow> unit zsim" where
  "put_byte_mem_ir r v = at_reg r 0 (\<lambda>a. put_byte_mem_da a v)"
definition get_long_mem_ir :: "nat \<Rightarrow> uint32 zsim" where "get_long_mem_ir r = at_reg r 0 get_long_mem_da"
definition put_long_mem_ir :: "nat \<Rightarrow> int32 \<Rightarrow> unit zsim" where
  "put_long_mem_ir r v = at_reg r 0 (\<lambda>a. put_long_mem_da a v)"
definition get_word_mem_x :: "int32 \<Rightarrow> nat \<Rightarrow> int32 zsim" where "get_word_mem_x base r = at_reg r base get_word_mem_da"
definition put_word_mem_x :: "int32 \<Rightarrow> nat \<Rightarrow> int32 \<Rightarrow> unit zsim" where
  "put_word_mem_x base r v = at_reg r base (\<lambda>a. put_word_mem_da a v)"
definition get_byte_mem_x :: "int32 \<Rightarrow> nat \<Rightarrow> uint8 zsim" where "get_byte_mem_x base r = at_reg r base get_byte_mem_da"
definition put_byte_mem_x :: "int32 \<Rightarrow> nat \<Rightarrow> int32 \<Rightarrow> unit zsim" where
  "put_byte_mem_x base r v = at_reg r base (\<lambda>a. put_byte_mem_da a v)"
definition get_long_mem_x :: "int32 \<Rightarrow> nat \<Rightarrow> uint32 zsim" where "get_long_mem_x base r = at_reg r base get_long_mem_da"
definition put_long_mem_x :: "int32 \<Rightarrow> nat \<Rightarrow> int32 \<Rightarrow> unit zsim" where
  "put_long_mem_x base r v = at_reg r base (\<lambda>a. put_long_mem_da a v)"

definition get_ptr_long_mem_da :: "int32 \<Rightarrow> int32 zsim" where
  "get_ptr_long_mem_da addr = seqA (get_long_mem_da addr) (\<lambda>v. retA (sitoptr v))"

definition get_ptr_long_mem_ir :: "nat \<Rightarrow> int32 zsim" where
  "get_ptr_long_mem_ir r = seqA (get_ptr_long_reg r) get_ptr_long_mem_da"

definition put_ptr_long_mem_da :: "int32 \<Rightarrow> int32 \<Rightarrow> unit zsim" where
  "put_ptr_long_mem_da addr p = put_long_mem_da addr (ptrtosi p)"

text \<open>\<open>mem.c\<close>: the debugger's accesses, which allocate the memory. \<open>char\<close> is signed.\<close>

definition get_page_and_offset :: "uint32 \<Rightarrow> int32 zsim" where
  "get_page_and_offset where =
     seqA (updA (\<lambda>s. if z_memory s = None then s\<lparr>z_memory := Some (\<lambda>_. 0)\<rparr> else s)) (\<lambda>_. retA (sitoptr where))"

definition sim_write_byte :: "uint32 \<Rightarrow> int32 \<Rightarrow> unit zsim" where
  "sim_write_byte where what = seqA (get_page_and_offset where) (\<lambda>a. put_byte_mem_da a what)"

definition sim_write_short :: "uint32 \<Rightarrow> int32 \<Rightarrow> unit zsim" where
  "sim_write_short where what =
     seqA (get_page_and_offset where) (\<lambda>a.
     seqA (put_byte_mem_da a (signed_drop_bit 8 what)) (\<lambda>_. put_byte_mem_da (a + 1) what))"

definition sim_write_long :: "uint32 \<Rightarrow> int32 \<Rightarrow> unit zsim" where
  "sim_write_long where what =
     seqA (get_page_and_offset where) (\<lambda>a.
     seqA (put_byte_mem_da a (signed_drop_bit 24 what)) (\<lambda>_.
     seqA (put_byte_mem_da (a + 1) (signed_drop_bit 16 what)) (\<lambda>_.
     seqA (put_byte_mem_da (a + 3) (signed_drop_bit 8 what)) (\<lambda>_. put_byte_mem_da (a + 4) what))))"

definition sim_read_byte :: "uint32 \<Rightarrow> int32 zsim" where
  "sim_read_byte where =
     seqA (get_page_and_offset where) (\<lambda>a. seqA (get_byte_mem_da a) (\<lambda>b. retA (scast b)))"

definition sim_read_short :: "uint32 \<Rightarrow> uint32 zsim" where
  "sim_read_short where =
     seqA (get_page_and_offset where) (\<lambda>a.
     seqA (get_byte_mem_da a) (\<lambda>h. seqA (get_byte_mem_da (a + 1)) (\<lambda>l.
     retA (push_bit 8 (scast h) OR scast l))))"

end
