(* ===== verification/Z8k_Support.thy ===== *)
theory Z8k_Support
  imports Z8k_Sim
begin

text \<open>
  The rest of the support of the Z8000 simulator: flags, conditions, system calls and the main loop (\<open>support.c\<close>, with
  \<open>makeflags\<close> of \<open>inlines.h\<close>), and the debugger's interface (\<open>iface.c\<close>). The host is a parameter.
\<close>

section \<open>Flags\<close>

definition of_bool32 :: "bool \<Rightarrow> int32" where
  "of_bool32 b = (if b then 1 else 0)"

text \<open>The flags after an addition or subtraction (\<open>sub\<close>) of \<open>sa\<close> and \<open>sb\<close> with the result \<open>d\<close>.\<close>

definition set_flags :: "bool \<Rightarrow> bool \<Rightarrow> bool \<Rightarrow> bool \<Rightarrow> z8k_sim \<Rightarrow> z8k_sim" where
  "set_flags c v n z s =
     s\<lparr>broken_flags := 0, z_carry := of_bool32 c, z_overflow := of_bool32 v, z_sign := of_bool32 n, z_zero := of_bool32 z\<rparr>"

definition normal_flags_32 :: "uint32 \<Rightarrow> uint32 \<Rightarrow> uint32 \<Rightarrow> bool \<Rightarrow> z8k_sim \<Rightarrow> z8k_sim" where
  "normal_flags_32 d sa sb sub =
     (let SIGN = (\<lambda>x. x AND 0x80000000 :: uint32) in
      set_flags (if sub then sa < sb else d < sa)
        (if sub then SIGN sa \<noteq> SIGN sb \<and> SIGN d = SIGN sb else SIGN sa = SIGN sb \<and> SIGN d \<noteq> SIGN sb)
        (d <s 0) (d = 0))"

definition normal_flags_16 :: "uint32 \<Rightarrow> uint32 \<Rightarrow> uint32 \<Rightarrow> bool \<Rightarrow> z8k_sim \<Rightarrow> z8k_sim" where
  "normal_flags_16 d sal sbl sub =
     (let sa = ucast (ucast sal :: uint16) :: uint32; sb = ucast (ucast sbl :: uint16) :: uint32;
          SIGN = (\<lambda>x. x AND 0x8000 :: uint32) in
      set_flags (if sub then sal < sbl else d AND 0x10000 \<noteq> 0)
        (if sub then SIGN sa \<noteq> SIGN sb \<and> SIGN d = SIGN sb else SIGN sa = SIGN sb \<and> SIGN d \<noteq> SIGN sb)
        ((ucast d :: uint16) <s 0) ((ucast d :: uint16) = 0))"

definition normal_flags_8 :: "uint8 \<Rightarrow> uint8 \<Rightarrow> uint8 \<Rightarrow> bool \<Rightarrow> z8k_sim \<Rightarrow> z8k_sim" where
  "normal_flags_8 d sa sb sub =
     (let SIGN = (\<lambda>x. x AND 0x80 :: uint8) in
      set_flags (if sub then sa < sb else d < sa)
        (if sub then SIGN sa \<noteq> SIGN sb \<and> SIGN d = SIGN sb else SIGN sa = SIGN sb \<and> SIGN d \<noteq> SIGN sb)
        (d <s 0) (d = 0))"

text \<open>The macro of this name: sizes other than 8, 16 and 32 do nothing.\<close>

definition NORMAL_FLAGS :: "nat \<Rightarrow> uint32 \<Rightarrow> uint32 \<Rightarrow> uint32 \<Rightarrow> bool \<Rightarrow> z8k_sim \<Rightarrow> z8k_sim" where
  "NORMAL_FLAGS sz d sa sb sub =
     (if sz = 8 then normal_flags_8 (ucast d) (ucast sa) (ucast sb) sub
      else if sz = 16 then normal_flags_16 d sa sb sub
      else if sz = 32 then normal_flags_32 d sa sb sub
      else (\<lambda>s. s))"

text \<open>The flags are not computed but the operands kept.\<close>

definition normal_flags :: "nat \<Rightarrow> int32 \<Rightarrow> int32 \<Rightarrow> int32 \<Rightarrow> z8k_sim \<Rightarrow> z8k_sim" where
  "normal_flags sz d sa sb s = s\<lparr>srca := sa, srcb := sb, z_dst := d, z_size := sz, broken_flags := CMP_FLAGS\<rparr>"

definition TEST_NORMAL_FLAGS :: "nat \<Rightarrow> int32 \<Rightarrow> z8k_sim \<Rightarrow> z8k_sim" where
  "TEST_NORMAL_FLAGS sz d s = s\<lparr>z_dst := d, z_size := sz, broken_flags := TST_FLAGS\<rparr>"

definition the_parity :: "nat list" where
  "the_parity =
     [0, 1, 1, 2, 1, 2, 2, 3, 1, 2, 2, 3, 2, 3, 3, 4, 1, 2, 2, 3, 2, 3, 3,
      4, 2, 3, 3, 4, 3, 4, 4, 5, 1, 2, 2, 3, 2, 3, 3, 4, 2, 3, 3, 4, 3, 4,
      4, 5, 2, 3, 3, 4, 3, 4, 4, 5, 3, 4, 4, 5, 4, 5, 5, 6, 1, 2, 2, 3, 2,
      3, 3, 4, 2, 3, 3, 4, 3, 4, 4, 5, 2, 3, 3, 4, 3, 4, 4, 5, 3, 4, 4, 5,
      4, 5, 5, 6, 2, 3, 3, 4, 3, 4, 4, 5, 3, 4, 4, 5, 4, 5, 5, 6, 3, 4, 4,
      5, 4, 5, 5, 6, 4, 5, 5, 6, 5, 6, 6, 7, 1, 2, 2, 3, 2, 3, 3, 4, 2, 3,
      3, 4, 3, 4, 4, 5, 2, 3, 3, 4, 3, 4, 4, 5, 3, 4, 4, 5, 4, 5, 5, 6, 2,
      3, 3, 4, 3, 4, 4, 5, 3, 4, 4, 5, 4, 5, 5, 6, 3, 4, 4, 5, 4, 5, 5, 6,
      4, 5, 5, 6, 5, 6, 6, 7, 2, 3, 3, 4, 3, 4, 4, 5, 3, 4, 4, 5, 4, 5, 5,
      6, 3, 4, 4, 5, 4, 5, 5, 6, 4, 5, 5, 6, 5, 6, 6, 7, 3, 4, 4, 5, 4, 5,
      5, 6, 4, 5, 5, 6, 5, 6, 6, 7, 4, 5, 5, 6, 5, 6, 6, 7, 5, 6, 6, 7, 6,
      7, 7, 8]"

definition makeflags :: "int32 \<Rightarrow> z8k_sim \<Rightarrow> z8k_sim" where
  "makeflags m s =
     (let d = z_dst s; sz = z_size s; a = srca s; b = srcb s;
          s = s\<lparr>z_zero := of_bool32 (d AND m = 0), z_sign := signed_drop_bit (sz - 1) d\<rparr>;
          s = (if broken_flags s = TST_FLAGS
               then (if sz = 8 then s\<lparr>z_overflow := of_nat (the_parity ! unat (d AND 0xff))\<rparr> else s)
               else s\<lparr>z_overflow := signed_drop_bit (sz - 1) (NOT (a XOR b) AND (a XOR d)),
                      z_carry := (if sz < 32 then signed_drop_bit sz d AND 1 else of_bool32 (d > a))\<rparr>)
      in s\<lparr>broken_flags := 0\<rparr>)"

section \<open>Conditions\<close>

definition is_cond_true :: "int32 \<Rightarrow> z8k_sim \<Rightarrow> int32 run" where
  "is_cond_true c s =
     (let Z = z_zero s; S = z_sign s; V = z_overflow s; C = z_carry s in
      if c = 0x8 then Inr 1
      else if c = 0x0 then Inr 0
      else if c = 0x2 then Inr ((Z OR (S XOR V)) AND 1)
      else if c = 0xa then Inr (NOT (Z OR (S XOR V)) AND 1)
      else if c = 0x5 then Inr (S AND 1)
      else if c = 0xd then Inr (NOT S AND 1)
      else if c = 0x3 then Inr ((C OR Z) AND 1)
      else if c = 0xb then Inr (NOT (C OR Z) AND 1)
      else if c = 0x4 then Inr (V AND 1)
      else if c = 0xc then Inr (NOT V AND 1)
      else if c = 0x1 then Inr ((S XOR V) AND 1)
      else if c = 0x9 then Inr (NOT (S XOR V) AND 1)
      else if c = 0x6 then Inr (Z AND 1)
      else if c = 0xe then Inr (NOT Z AND 1)
      else if c = 0x7 then Inr (C AND 1)
      else if c = 0xf then Inr (NOT C AND 1)
      else Inl Aborted)"

text \<open>
  The answer from the result alone, for some conditions; the checks against \<open>is_cond_true\<close> are switched off in the
  code. The mask is the one for \<open>makeflags\<close>.
\<close>

definition sized :: "nat \<Rightarrow> int32 \<Rightarrow> (int32 \<times> int32) run" where
  "sized sz d =
     (if sz = 8 then Inr (scast (ucast d :: uint8), 0xff)
      else if sz = 16 then Inr (scast (ucast d :: uint16), 0xffff)
      else if sz = 32 then Inr (d, 0xffffffff)
      else Inl Aborted)"

definition short_cut :: "int32 \<Rightarrow> int32 \<Rightarrow> int32 option" where
  "short_cut c d =
     (if c = 0x8 then Some 1
      else if c = 0x0 then Some 0
      else if c = 0x6 then Some (of_bool32 (d = 0))
      else if c = 0xe then Some d
      else if c = 0xa then Some (of_bool32 (0 <s d))
      else if c = 0x2 then Some (of_bool32 (d <=s 0))
      else if c = 0x9 then Some (of_bool32 (0 <=s d))
      else if c = 0x1 then Some (of_bool32 (d <s 0))
      else None)"

definition COND :: "int32 \<Rightarrow> int32 zsim" where
  "COND c s =
     (if c = 8 then Inr (1, s)
      else if broken_flags s \<noteq> 0 then
        bindF (sized (z_size s) (z_dst s)) (\<lambda>(d, m).
        case short_cut c d of
          Some r \<Rightarrow> Inr (r, s)
        | None \<Rightarrow> (let s = makeflags m s in bindF (is_cond_true c s) (\<lambda>r. Inr (r, s))))
      else bindF (is_cond_true c s) (\<lambda>r. Inr (r, s)))"

section \<open>The debugger's registers and memory\<close>

definition MAP_PHYSICAL_TO_LOGICAL :: "uint32 \<Rightarrow> uint32" where
  "MAP_PHYSICAL_TO_LOGICAL x = (drop_bit 8 x AND 0x7f0000) OR (x AND 0xffff)"

definition MAP_LOGICAL_TO_PHYSICAL :: "uint32 \<Rightarrow> uint32" where
  "MAP_LOGICAL_TO_PHYSICAL x = (push_bit 8 x AND 0x7f000000) OR (x AND 0xffff)"

definition tm_store_register :: "nat \<Rightarrow> int32 \<Rightarrow> unit zsim" where
  "tm_store_register regno v = (if regno = 17 then updA (sometimes_pc_update (\<lambda>_. v)) else put_word_reg regno v)"

definition swap_long :: "int32 \<Rightarrow> uint8 list" where
  "swap_long v = [ucast (drop_bit 24 v), ucast (drop_bit 16 v), ucast (drop_bit 8 v), ucast v]"

definition swap_word :: "int32 \<Rightarrow> uint8 list" where
  "swap_word v = [ucast (drop_bit 8 v), ucast v]"

definition tm_fetch_register :: "bool \<Rightarrow> nat \<Rightarrow> uint8 list zsim" where
  "tm_fetch_register sim_z8001_mode regno =
     (if regno = 18 then getA (\<lambda>s. swap_long (z_cycles s))
      else if regno = 19 then getA (\<lambda>s. swap_long (z_insts s))
      else if regno = 20 then getA (\<lambda>s. swap_long (z_ticks s))
      else if regno = 17 then getA (\<lambda>s. swap_long (sometimes_pc s))
      else if regno = 22 then
        (if sim_z8001_mode then seqA (get_long_reg 14) (\<lambda>v. retA (swap_long v))
         else seqA (get_word_reg 15) (\<lambda>v. retA (swap_long (ucast v))))
      else if regno = 21 then
        (if sim_z8001_mode then seqA (get_long_reg 10) (\<lambda>v. retA (swap_long v))
         else seqA (get_word_reg 10) (\<lambda>v. retA (swap_long (ucast v))))
      else seqA (get_word_reg regno) (\<lambda>v. retA (swap_word (ucast v))))"

definition tm_read_byte :: "uint32 \<Rightarrow> int32 zsim" where
  "tm_read_byte x = sim_read_byte (x AND 0x3f00ffff)"

definition tm_write_byte :: "uint32 \<Rightarrow> int32 \<Rightarrow> unit zsim" where
  "tm_write_byte x y = sim_write_byte (x AND 0x3f00ffff) y"

definition tm_exception :: "int32 \<Rightarrow> z8k_sim \<Rightarrow> z8k_sim" where
  "tm_exception x s = s\<lparr>z_exception := x\<rparr>"

section \<open>The main loop\<close>

text \<open>
  \<open>exec\<close> is the function of an instruction word in one of the two generated tables; it takes the program counter and
  returns the next. The loop ends when an exception is set, and may run for ever. \<open>now\<close> is what \<open>get_now\<close> returns at the
  beginning and at the end.
\<close>

type_synonym z8k_exec = "bool \<Rightarrow> int32 \<Rightarrow> int32 \<Rightarrow> int32 zsim"

definition tm_step :: "z8k_exec \<Rightarrow> bool \<Rightarrow> int32 \<Rightarrow> int32 zsim" where
  "tm_step exec big pc =
     seqA (get_word_mem_da pc) (\<lambda>word.
     seqA (exec big word pc) (\<lambda>pc.
     seqA (updA (\<lambda>s. s\<lparr>z_insts := z_insts s + 1\<rparr>)) (\<lambda>_. retA pc)))"

partial_function (option) tm_loop :: "z8k_exec \<Rightarrow> bool \<Rightarrow> int32 \<Rightarrow> z8k_sim \<Rightarrow> (int32 \<times> z8k_sim) run option" where
  "tm_loop exec big pc s =
     (case tm_step exec big pc s of
        Inl e \<Rightarrow> Some (Inl e)
      | Inr (pc, s) \<Rightarrow> if z_exception s \<noteq> 0 then Some (Inr (pc, s)) else tm_loop exec big pc s)"

definition tm_resume :: "z8k_exec \<Rightarrow> bool \<Rightarrow> int32 \<times> int32 \<Rightarrow> bool \<Rightarrow> z8k_sim \<Rightarrow> z8k_sim run option" where
  "tm_resume exec sim_z8001_mode now step s =
     (let s = s\<lparr>z_exception := (if step then SIM_SINGLE_STEP else 0)\<rparr>;
          pc = (if sim_z8001_mode then MAP_PHYSICAL_TO_LOGICAL (sometimes_pc s) else sometimes_pc s)
      in map_option (\<lambda>r. bindF r (\<lambda>(pc, s).
           Inr (s\<lparr>sometimes_pc := MAP_LOGICAL_TO_PHYSICAL pc, z_ticks := z_ticks s + (snd now - fst now)\<rparr>)))
           (tm_loop exec sim_z8001_mode pc s))"

section \<open>System calls\<close>

text \<open>
  The arguments are passed one by one, by calls of \<open>SYS_ARG\<close>, and kept in an array of three. The answer of the
  host: the result, the error number, the time, the bytes that \<open>read\<close> has got, the members of \<open>struct stat\<close>. \<open>junk\<close> is the
  value of the variable \<open>ret\<close> where it is not set.
\<close>

record z8k_sys =
  sys_args :: "int32 list"
  arg_index :: nat

record z8k_answer =
  ans_ret :: int32
  ans_errno :: int32
  ans_data :: "uint8 list"
  ans_dev :: int32
  ans_ino :: int32
  ans_mode :: int32
  ans_nlink :: int32
  ans_uid :: int32
  ans_rdev :: int32
  ans_size :: int32
  ans_atime :: int32

type_synonym z8k_host = "nat \<Rightarrow> int32 list \<Rightarrow> z8k_sim \<Rightarrow> z8k_answer"

definition put_short :: "int32 \<Rightarrow> int32 \<Rightarrow> int32 zsim" where
  "put_short p v = seqA (put_word_mem_da p v) (\<lambda>_. retA (p + 2))"

definition put_long :: "int32 \<Rightarrow> int32 \<Rightarrow> int32 zsim" where
  "put_long p v = seqA (put_long_mem_da p v) (\<lambda>_. retA (p + 4))"

fun put_shorts :: "int32 list \<Rightarrow> int32 \<Rightarrow> int32 zsim" where
  "put_shorts [] p = retA p"
| "put_shorts (v # vs) p = seqA (put_short p v) (put_shorts vs)"

fun put_data :: "uint8 list \<Rightarrow> int32 \<Rightarrow> unit zsim" where
  "put_data [] p = retA ()"
| "put_data (b # bs) p = seqA (put_byte_mem_da p (ucast b)) (\<lambda>_. put_data bs (p + 1))"

definition put_stat :: "z8k_answer \<Rightarrow> int32 \<Rightarrow> unit zsim" where
  "put_stat a buf =
     seqA (put_shorts [ans_dev a, ans_ino a, ans_mode a, ans_nlink a, ans_uid a, ans_uid a, ans_rdev a] buf) (\<lambda>buf.
     seqA (put_long buf (ans_size a)) (\<lambda>buf. seqA (put_long buf (ans_atime a)) (\<lambda>_. retA ())))"

definition set_regs :: "int32 \<Rightarrow> int32 \<Rightarrow> int32 \<Rightarrow> unit zsim" where
  "set_regs ret retnext errno =
     seqA (put_word_reg 2 ret) (\<lambda>_. seqA (put_word_reg 3 retnext) (\<lambda>_. seqA (put_word_reg 5 errno) (\<lambda>_.
     seqA (put_word_reg 6 retnext) (\<lambda>_. put_word_reg 7 ret))))"

abbreviation (input) "SYS_exit \<equiv> 1 :: nat"
abbreviation (input) "SYS_read \<equiv> 3 :: nat"
abbreviation (input) "SYS_write \<equiv> 4 :: nat"
abbreviation (input) "SYS_open \<equiv> 5 :: nat"
abbreviation (input) "SYS_close \<equiv> 6 :: nat"
abbreviation (input) "SYS_creat \<equiv> 8 :: nat"
abbreviation (input) "SYS_lseek \<equiv> 19 :: nat"
abbreviation (input) "SYS_isatty \<equiv> 21 :: nat"
abbreviation (input) "SYS_fstat \<equiv> 22 :: nat"
abbreviation (input) "SYS_time \<equiv> 23 :: nat"
abbreviation (input) "SYS_ARG \<equiv> 24 :: nat"

definition support_call :: "z8k_host \<Rightarrow> int32 \<Rightarrow> nat \<Rightarrow> z8k_sys \<Rightarrow> z8k_sys zsim" where
  "support_call host junk sc y =
     seqA (getA (host sc (sys_args y))) (\<lambda>a.
     let done = y\<lparr>arg_index := 0\<rparr>; arg = (\<lambda>i. sys_args y ! i) in
     if sc = SYS_ARG then
       seqA (runA (check (arg_index y < 3) (Overrun ''args''))) (\<lambda>_.
       seqA (get_word_reg 0) (\<lambda>h. seqA (get_word_reg 1) (\<lambda>l.
       seqA (set_regs junk 0 0) (\<lambda>_.
       retA (y\<lparr>sys_args := (sys_args y)[arg_index y := push_bit 16 (ucast h) OR ucast l], arg_index := arg_index y + 1\<rparr>)))))
     else if sc = SYS_exit then
       seqA (updA (z_exception_update (\<lambda>_. SIM_DONE))) (\<lambda>_. seqA (set_regs (arg 0) 0 0) (\<lambda>_. retA done))
     else if sc \<in> {SYS_close, SYS_creat, SYS_isatty, SYS_open, SYS_lseek, SYS_write} then
       seqA (set_regs (ans_ret a) 0 (ans_errno a)) (\<lambda>_. retA done)
     else if sc = SYS_read then
       seqA (put_data (ans_data a) (sitoptr (arg 1))) (\<lambda>_. seqA (set_regs (ans_ret a) 0 (ans_errno a)) (\<lambda>_. retA done))
     else if sc = SYS_time then
       seqA (if arg 0 \<noteq> 0 then put_long_mem_da (sitoptr (arg 0)) (ans_ret a) else retA ()) (\<lambda>_.
       seqA (set_regs (signed_drop_bit 16 (ans_ret a)) (ans_ret a) (ans_errno a)) (\<lambda>_. retA done))
     else if sc = SYS_fstat then
       seqA (put_stat a (sitoptr (arg 1))) (\<lambda>_. seqA (set_regs (ans_ret a) 0 (ans_errno a)) (\<lambda>_. retA done))
     else
       seqA (updA (z_exception_update (\<lambda>_. SIM_BAD_SYSCALL))) (\<lambda>_. seqA (set_regs junk 0 0) (\<lambda>_. retA done)))"

section \<open>The debugger's interface\<close>

definition z8k_store_register :: "nat \<Rightarrow> uint8 list \<Rightarrow> unit zsim" where
  "z8k_store_register regno value =
     tm_store_register regno
       (push_bit 24 (ucast (value ! 0)) OR push_bit 16 (ucast (value ! 1)) OR push_bit 8 (ucast (value ! 2)) OR ucast (value ! 3))"

definition z8k_fetch_register :: "bool \<Rightarrow> nat \<Rightarrow> uint8 list zsim" where
  "z8k_fetch_register = tm_fetch_register"

fun z8k_sim_write :: "uint32 \<Rightarrow> uint8 list \<Rightarrow> unit zsim" where
  "z8k_sim_write where [] = retA ()"
| "z8k_sim_write where (b # bs) = seqA (tm_write_byte where (ucast b)) (\<lambda>_. z8k_sim_write (where + 1) bs)"

fun z8k_sim_read :: "uint32 \<Rightarrow> nat \<Rightarrow> uint8 list zsim" where
  "z8k_sim_read where 0 = retA []"
| "z8k_sim_read where (Suc n) =
     seqA (tm_read_byte where) (\<lambda>b. seqA (z8k_sim_read (where + 1) n) (\<lambda>bs. retA (ucast b # bs)))"

datatype z8k_stop = Stopped nat | Exited int32

abbreviation (input) "Z8K_SIGINT \<equiv> 2 :: nat"
abbreviation (input) "Z8K_SIGILL \<equiv> 4 :: nat"
abbreviation (input) "Z8K_SIGTRAP \<equiv> 5 :: nat"
abbreviation (input) "Z8K_SIGFPE \<equiv> 8 :: nat"
abbreviation (input) "Z8K_SIGSEGV \<equiv> 11 :: nat"

definition z8k_stop_reason :: "z8k_stop zsim" where
  "z8k_stop_reason =
     seqA (getA z_exception) (\<lambda>x.
     if x = SIM_DIV_ZERO then retA (Stopped Z8K_SIGFPE)
     else if x = SIM_INTERRUPT then retA (Stopped Z8K_SIGINT)
     else if x = SIM_BAD_INST then retA (Stopped Z8K_SIGILL)
     else if x = SIM_BREAKPOINT then retA (Stopped Z8K_SIGTRAP)
     else if x = SIM_SINGLE_STEP then retA (Stopped Z8K_SIGTRAP)
     else if x = SIM_BAD_SYSCALL then retA (Stopped Z8K_SIGILL)
     else if x = SIM_BAD_ALIGN then retA (Stopped Z8K_SIGSEGV)
     else if x = SIM_DONE then getA (\<lambda>s. Exited (ucast (z_regs s ! 2) AND 255))
     else runA (Inl Aborted))"

definition z8k_create_inferior :: "uint32 option \<Rightarrow> unit zsim" where
  "z8k_create_inferior start = tm_store_register 17 (case start of Some a \<Rightarrow> a | None \<Rightarrow> 0)"

end
