(* ===== verification/Z8k_Sim_Correct.thy ===== *)
theory Z8k_Sim_Correct
  imports Z8k_Support
begin

text \<open>
  What the support of the Z8000 simulator computes: the flags and conditions after a comparison, the short cuts for
  conditions, and the memory as the debugger sees it, through the contract \<open>byte_access\<close> of its operations on single bytes.
\<close>

section \<open>Signed comparison of words\<close>

text \<open>The sign and the overflow of a difference decide the signed order.\<close>

definition overflows :: "'a::len word \<Rightarrow> 'a word \<Rightarrow> bool" where
  "overflows a b \<longleftrightarrow> (sint a < 0) \<noteq> (sint b < 0) \<and> (sint (a - b) < 0) = (sint b < 0)"

lemma sint_half: "- (2 ^ (LENGTH('a) - 1)) \<le> sint a \<and> sint a < 2 ^ (LENGTH('a) - 1)" for a :: "'a::len word"
  using sint_greater_eq [of a] sint_less [of a] by simp

lemma sint_minus_cases:
  fixes a b :: "'a::len word"
  defines "M \<equiv> 2 ^ (LENGTH('a) - 1) :: int"
  shows "sint (a - b) = sint a - sint b \<and> - M \<le> sint a - sint b \<and> sint a - sint b < M
    \<or> sint (a - b) = sint a - sint b - 2 * M \<and> M \<le> sint a - sint b
    \<or> sint (a - b) = sint a - sint b + 2 * M \<and> sint a - sint b < - M"
proof -
  let ?x = "sint a - sint b"
  have two: "2 ^ LENGTH('a) = 2 * M" by (simp add: M_def flip: power_Suc)
  have "sint (a - b) = signed_take_bit (LENGTH('a) - 1) ?x" by (rule sint_word_ariths)
  then have d: "sint (a - b) = (?x + M) mod (2 * M) - M"
    by (simp add: signed_take_bit_eq_take_bit_shift take_bit_eq_mod two M_def)
  have x: "- (2 * M) < ?x" "?x < 2 * M" using sint_half [of a] sint_half [of b] by (auto simp: M_def)
  consider "- M \<le> ?x" "?x < M" | "M \<le> ?x" | "?x < - M" by linarith
  then show ?thesis
  proof cases
    case 1
    then show ?thesis by (simp add: d)
  next
    case 2
    have "(?x + M) mod (2 * M) = (?x + M - 2 * M) mod (2 * M)" by (rule minus_mod_self2 [symmetric])
    also have "\<dots> = ?x - M" using 2 x by (simp add: mod_pos_pos_trivial)
    finally show ?thesis using 2 by (simp add: d)
  next
    case 3
    have "(?x + M) mod (2 * M) = (?x + M + 2 * M) mod (2 * M)" by (rule mod_add_self2 [symmetric])
    also have "\<dots> = ?x + 3 * M" using 3 x by (simp add: mod_pos_pos_trivial)
    finally show ?thesis using 3 by (simp add: d)
  qed
qed

lemma less_overflows: "sint a < sint b \<longleftrightarrow> (sint (a - b) < 0) \<noteq> overflows a b" for a b :: "'a::len word"
  using sint_minus_cases [of a b] sint_half [of a] sint_half [of b] by (auto simp: overflows_def)

lemma overflows_range:
  "overflows a b \<longleftrightarrow> \<not> (- (2 ^ (LENGTH('a) - 1)) \<le> sint a - sint b \<and> sint a - sint b < 2 ^ (LENGTH('a) - 1))"
  for a b :: "'a::len word"
  using sint_minus_cases [of a b] sint_half [of a] sint_half [of b] by (auto simp: overflows_def)

section \<open>Conditions after a comparison\<close>

text \<open>What a condition code means for the operands of a comparison.\<close>

definition compare_cond :: "'a::len word \<Rightarrow> 'a word \<Rightarrow> int32 \<Rightarrow> bool" where
  "compare_cond a b c =
     (let M = 2 ^ (LENGTH('a) - 1) :: int; diff = sint a - sint b; fits = (- M \<le> diff \<and> diff < M) in
      if c = 0x0 then False
      else if c = 0x1 then sint a < sint b
      else if c = 0x2 then sint a \<le> sint b
      else if c = 0x3 then uint a \<le> uint b
      else if c = 0x4 then \<not> fits
      else if c = 0x5 then sint (a - b) < 0
      else if c = 0x6 then a = b
      else if c = 0x7 then uint a < uint b
      else if c = 0x8 then True
      else if c = 0x9 then sint b \<le> sint a
      else if c = 0xa then sint b < sint a
      else if c = 0xb then uint b < uint a
      else if c = 0xc then fits
      else if c = 0xd then 0 \<le> sint (a - b)
      else if c = 0xe then a \<noteq> b
      else uint b \<le> uint a)"

lemma code_cases:
  fixes c :: int32
  assumes "c < 16"
  obtains "c = 0x0" | "c = 0x1" | "c = 0x2" | "c = 0x3" | "c = 0x4" | "c = 0x5" | "c = 0x6" | "c = 0x7"
    | "c = 0x8" | "c = 0x9" | "c = 0xa" | "c = 0xb" | "c = 0xc" | "c = 0xd" | "c = 0xe" | "c = 0xf"
proof -
  have u: "unat c < 16" using assms by (simp add: word_less_nat_alt)
  have c: "c = of_nat (unat c)" by simp
  from u have "unat c \<in> set [0..<16]" by simp
  then have "c \<in> of_nat ` set [0..<16]" using c by blast
  then show ?thesis using that by (auto simp: upt_rec)
qed

lemma is_cond_true_set_flags:
  assumes "c < 16"
  shows "is_cond_true c (set_flags C V N Z s) = Inr (of_bool32 (
    if c = 0x0 then False else if c = 0x1 then N \<noteq> V else if c = 0x2 then Z \<or> N \<noteq> V else if c = 0x3 then C \<or> Z
    else if c = 0x4 then V else if c = 0x5 then N else if c = 0x6 then Z else if c = 0x7 then C
    else if c = 0x8 then True else if c = 0x9 then N = V else if c = 0xa then \<not> (Z \<or> N \<noteq> V) else if c = 0xb then \<not> (C \<or> Z)
    else if c = 0xc then \<not> V else if c = 0xd then \<not> N else if c = 0xe then \<not> Z else \<not> C))"
  using assms by (rule code_cases) (simp_all add: is_cond_true_def set_flags_def of_bool32_def)

lemma compare_flags:
  fixes a b :: "'a::len word"
  assumes "c < 16"
  shows "is_cond_true c (set_flags (a < b) (overflows a b) (sint (a - b) < 0) (a = b) s) = Inr (of_bool32 (compare_cond a b c))"
proof -
  have fits: "(- (2 ^ (LENGTH('a) - 1)) \<le> sint a - sint b \<and> sint a - sint b < 2 ^ (LENGTH('a) - 1)) \<longleftrightarrow> \<not> overflows a b"
    by (simp only: overflows_range not_not)
  have eq: "a = b \<longleftrightarrow> sint a = sint b" "a = b \<longleftrightarrow> uint a = uint b" by (metis signed_word_eqI) (simp add: word_uint_eq_iff)
  have less: "(sint (a - b) < 0) \<noteq> overflows a b \<longleftrightarrow> sint a < sint b" by (rule less_overflows [symmetric])
  have le: "a = b \<or> sint a < sint b \<longleftrightarrow> sint a \<le> sint b" "a < b \<or> a = b \<longleftrightarrow> uint a \<le> uint b"
    by (use eq(1) in linarith) (use eq(2) word_less_def [of a b] in linarith)
  show ?thesis
    unfolding is_cond_true_set_flags [OF assms] compare_cond_def Let_def fits less le
    by (rule arg_cong [where f = "\<lambda>x. Inr (of_bool32 x)"]) (use less in \<open>auto simp: not_le not_less word_less_def\<close>)
qed

section \<open>The flags of an instruction that compares\<close>

lemma and_exp_of_bool: "x AND 2 ^ n = of_bool (bit x n) * 2 ^ n" for x :: "'a::len word"
  by (rule bit_word_eqI) (auto simp: bit_simps)

lemma sign_bit_eq:
  fixes x y :: "'a::len word"
  shows "x AND 2 ^ (LENGTH('a) - 1) = y AND 2 ^ (LENGTH('a) - 1) \<longleftrightarrow> (sint x < 0) = (sint y < 0)"
  using bit_last_iff [of x] bit_last_iff [of y] by (simp add: and_exp_of_bool)

lemma sign_eq:
  fixes x y :: uint8 and v w :: uint16 and k l :: uint32
  shows "x AND 0x80 = y AND 0x80 \<longleftrightarrow> (sint x < 0) = (sint y < 0)"
    "v AND 0x8000 = w AND 0x8000 \<longleftrightarrow> (sint v < 0) = (sint w < 0)"
    "k AND 0x80000000 = l AND 0x80000000 \<longleftrightarrow> (sint k < 0) = (sint l < 0)"
  using sign_bit_eq [of x y] sign_bit_eq [of v w] sign_bit_eq [of k l] by simp_all

lemma ucast16_eq: "(ucast v :: uint32) = ucast w \<longleftrightarrow> v = w" "(ucast v :: uint32) < ucast w \<longleftrightarrow> v < w" for v w :: uint16
proof -
  have u: "uint (ucast v :: uint32) = uint v" for v :: uint16
    using uint_lt2p [of v] by (simp add: unsigned_ucast_eq take_bit_int_eq_self_iff)
  show "(ucast v :: uint32) = ucast w \<longleftrightarrow> v = w" "(ucast v :: uint32) < ucast w \<longleftrightarrow> v < w"
    by (simp_all add: word_uint_eq_iff word_less_def u)
qed

lemma low_half:
  fixes x :: uint32 and v w :: uint16
  shows "x AND 0x8000 = ucast (ucast x AND 0x8000 :: uint16)"
    "ucast (ucast v - ucast w :: uint32) = v - w"
proof -
  show "x AND 0x8000 = ucast (ucast x AND 0x8000 :: uint16)"
    using and_exp_of_bool [of x 15] and_exp_of_bool [of "ucast x :: uint16" 15] by (simp add: bit_simps)
  show "ucast (ucast v - ucast w :: uint32) = v - w"
    by transfer (simp add: take_bit_diff)
qed

text \<open>
  C36. Z8000 simulator: the sixteen conditions after a comparison. When an instruction has subtracted two operands of 8,
  16 or 32 bits, and \<open>NORMAL_FLAGS\<close> has set the flags for it, \<open>is_cond_true\<close> answers each condition code by what the code
  means for the operands as signed or as unsigned numbers: less, less or equal, greater, greater or equal (codes 1,
  2, 10, 9, signed), below, below or equal, above, above or equal (7, 3, 11, 15, unsigned), equal and not equal (6, 14),
  the sign of the difference (5, 13), whether it overflows (4, 12), always and never (8, 0), whatever the flags were.
\<close>

theorem conditions_after_comparison:
  fixes a8 b8 :: uint8 and a16 b16 :: uint16 and a32 b32 :: uint32
  assumes "c < 16"
  shows "is_cond_true c (NORMAL_FLAGS 8 (ucast (a8 - b8)) (ucast a8) (ucast b8) True s) = Inr (of_bool32 (compare_cond a8 b8 c))
    \<and> is_cond_true c (NORMAL_FLAGS 16 (ucast a16 - ucast b16) (ucast a16) (ucast b16) True s) = Inr (of_bool32 (compare_cond a16 b16 c))
    \<and> is_cond_true c (NORMAL_FLAGS 32 (a32 - b32) a32 b32 True s) = Inr (of_bool32 (compare_cond a32 b32 c))"
proof (intro conjI)
  have z: "a - b = 0 \<longleftrightarrow> a = b" for a b :: "'a::len word" by simp
  show "is_cond_true c (NORMAL_FLAGS 8 (ucast (a8 - b8)) (ucast a8) (ucast b8) True s) = Inr (of_bool32 (compare_cond a8 b8 c))"
    using compare_flags [OF assms, of a8 b8 s]
    by (simp add: NORMAL_FLAGS_def normal_flags_8_def sign_eq overflows_def word_sless_alt)
  show "is_cond_true c (NORMAL_FLAGS 16 (ucast a16 - ucast b16) (ucast a16) (ucast b16) True s) = Inr (of_bool32 (compare_cond a16 b16 c))"
    using compare_flags [OF assms, of a16 b16 s]
    by (simp add: NORMAL_FLAGS_def normal_flags_16_def low_half Let_def ucast16_eq sign_eq overflows_def word_sless_alt)
  show "is_cond_true c (NORMAL_FLAGS 32 (a32 - b32) a32 b32 True s) = Inr (of_bool32 (compare_cond a32 b32 c))"
    using compare_flags [OF assms, of a32 b32 s]
    by (simp add: NORMAL_FLAGS_def normal_flags_32_def sign_eq overflows_def word_sless_alt)
qed

text \<open>At concrete operands: 0x8000 is less than 1 as a signed number, and above it as an unsigned one.\<close>

theorem conditions_after_comparison_witness:
  "\<forall>s. is_cond_true 1 (NORMAL_FLAGS 16 (ucast (0x8000 :: uint16) - ucast (1 :: uint16)) (ucast (0x8000 :: uint16)) (ucast (1 :: uint16)) True s) = Inr 1
     \<and> is_cond_true 0xb (NORMAL_FLAGS 16 (ucast (0x8000 :: uint16) - ucast (1 :: uint16)) (ucast (0x8000 :: uint16)) (ucast (1 :: uint16)) True s) = Inr 1"
proof -
  have v: "compare_cond (0x8000 :: uint16) 1 1" "compare_cond (0x8000 :: uint16) 1 0xb"
    by (simp_all add: compare_cond_def)
  show ?thesis
    using conditions_after_comparison [where c = 1 and ?a16.0 = "0x8000" and ?b16.0 = 1]
      conditions_after_comparison [where c = "0xb" and ?a16.0 = "0x8000" and ?b16.0 = 1] v
    by (simp add: of_bool32_def)
qed

section \<open>The short cuts\<close>

lemma and_one: "x AND 1 = 0 \<longleftrightarrow> \<not> bit x 0" for x :: "'a::len word"
  using and_exp_eq_0_iff_not_bit [of x 0] by simp

lemma low_zero: "(ucast d :: uint8) = 0 \<longleftrightarrow> d AND 0xff = 0" "(ucast d :: uint16) = 0 \<longleftrightarrow> d AND 0xffff = 0" for d :: int32
proof -
  have m: "d AND 0xff = take_bit 8 d" "d AND 0xffff = take_bit 16 d"
    by (simp_all add: take_bit_eq_mask mask_eq_exp_minus_1)
  show "(ucast d :: uint8) = 0 \<longleftrightarrow> d AND 0xff = 0" "(ucast d :: uint16) = 0 \<longleftrightarrow> d AND 0xffff = 0"
    unfolding m by (transfer; simp add: take_bit_take_bit)+
qed

lemma sized_cases:
  assumes "sized sz d = Inr (x, m)"
  obtains "sz = 8" "x = scast (ucast d :: uint8)" "m = 0xff" | "sz = 16" "x = scast (ucast d :: uint16)" "m = 0xffff"
    | "sz = 32" "x = d" "m = 0xffffffff"
  using assms by (auto simp: sized_def split: if_splits)

lemma sint_sext: "sint (scast y :: int32) = sint y" "sint (scast w :: int32) = sint w" for y :: uint8 and w :: uint16
  using sint_half [of y] sint_half [of w] by (simp_all add: signed_scast_eq signed_take_bit_int_eq_self)

lemma sext_zero: "(scast y :: int32) = 0 \<longleftrightarrow> y = 0" "(scast w :: int32) = 0 \<longleftrightarrow> w = 0" for y :: uint8 and w :: uint16
  by (metis signed_eq_0_iff sint_sext(1)) (metis signed_eq_0_iff sint_sext(2))

lemma sized_result:
  assumes "sized sz d = Inr (x, m)"
  shows "d AND m = 0 \<longleftrightarrow> x = 0" "sint x < 0 \<longleftrightarrow> bit d (sz - 1)" "sz - 1 < 32"
proof -
  have "(0xffffffff :: int32) = -1" by simp
  then have all: "d AND 0xffffffff = d" by (simp only: and.right_neutral)
  have top: "sint (ucast d :: uint8) < 0 \<longleftrightarrow> bit d 7" "sint (ucast d :: uint16) < 0 \<longleftrightarrow> bit d 15" "sint d < 0 \<longleftrightarrow> bit d 31"
    using bit_last_iff [of "ucast d :: uint8"] bit_last_iff [of "ucast d :: uint16"] bit_last_iff [of d] by (simp_all add: bit_simps)
  show "d AND m = 0 \<longleftrightarrow> x = 0" "sint x < 0 \<longleftrightarrow> bit d (sz - 1)" "sz - 1 < 32"
    using assms by (cases rule: sized_cases; simp add: low_zero sext_zero sint_sext top all)+
qed

lemma makeflags_test:
  fixes s :: z8k_sim
  assumes "sized sz d = Inr (x, m)"
  defines "e \<equiv> makeflags m (TEST_NORMAL_FLAGS sz d s)"
  shows "z_zero e = of_bool32 (x = 0)" "bit (z_sign e) 0 \<longleftrightarrow> sint x < 0" "broken_flags e = 0"
proof -
  show "z_zero e = of_bool32 (x = 0)" "bit (z_sign e) 0 \<longleftrightarrow> sint x < 0" "broken_flags e = 0"
    using sized_result [OF assms(1)]
    by (simp_all add: e_def makeflags_def TEST_NORMAL_FLAGS_def Let_def bit_simps)
qed

text \<open>What a condition code says of a result that is tested.\<close>

definition test_cond :: "int32 \<Rightarrow> int32 \<Rightarrow> bool option" where
  "test_cond x c =
     (if c = 0x0 then Some False else if c = 0x8 then Some True
      else if c = 0x6 then Some (x = 0) else if c = 0xe then Some (x \<noteq> 0)
      else if c = 0x1 then Some (sint x < 0) else if c = 0x2 then Some (sint x \<le> 0)
      else if c = 0x9 then Some (0 \<le> sint x) else if c = 0xa then Some (0 < sint x) else None)"

text \<open>
  C37. Z8000 simulator: conditions after an instruction that tests its result. \<open>COND\<close> answers the conditions equal, not
  equal, less, less or equal, greater, greater or equal, always and never by a comparison of the result with
  zero, without the flags. This is the answer that the flags themselves give, for every code, except that
  for the four orders the flags must not say overflow (or the result is zero, for greater and for less or
  equal). For a result of one byte overflow is the parity, so there the two answers differ for half of the results.
\<close>

theorem conditions_after_test:
  fixes s :: z8k_sim
  assumes "c < 16" and sz: "sized sz d = Inr (x, m)"
  defines "t \<equiv> TEST_NORMAL_FLAGS sz d s"
  defines "e \<equiv> makeflags m t"
  shows "\<exists>q u r. COND c t = Inr (q, u) \<and> is_cond_true c e = Inr r \<and> (\<forall>b. test_cond x c = Some b \<longrightarrow> (q \<noteq> 0) = b)
    \<and> ((q \<noteq> 0) = (r \<noteq> 0) \<longleftrightarrow> c \<notin> {0x1, 0x2, 0x9, 0xa} \<or> \<not> bit (z_overflow e) 0 \<or> (x = 0 \<and> c \<in> {0x2, 0xa}))"
proof -
  have t: "broken_flags t \<noteq> 0" "sized (z_size t) (z_dst t) = Inr (x, m)" using sz by (simp_all add: t_def TEST_NORMAL_FLAGS_def)
  have e: "z_zero e = of_bool32 (x = 0)" "bit (z_sign e) 0 \<longleftrightarrow> sint x < 0"
    unfolding e_def t_def using makeflags_test [OF sz] by auto
  have x: "x = 0 \<longleftrightarrow> sint x = 0" by (simp add: signed_eq_0_iff)
  have z: "bit (of_bool32 b) 0 \<longleftrightarrow> b" for b by (simp add: of_bool32_def)
  show ?thesis
    using assms(1)
    by (rule code_cases)
      (simp_all add: COND_def t short_cut_def e_def [symmetric] Let_def is_cond_true_def e test_cond_def and_one bit_simps
        word_sless_alt word_sle_eq of_bool32_def x z)
qed

text \<open>
  The result 0x80 of one byte is negative, but its parity counts as overflow: the two answers to less differ.
\<close>

theorem conditions_after_test_witness:
  "\<forall>s. \<exists>q u r. COND 1 (TEST_NORMAL_FLAGS 8 0x80 s) = Inr (q, u)
     \<and> is_cond_true 1 (makeflags 0xff (TEST_NORMAL_FLAGS 8 0x80 s)) = Inr r \<and> q \<noteq> 0 \<and> r = 0"
proof
  fix s :: z8k_sim
  have sz: "sized 8 0x80 = Inr (0xffffff80, 0xff)" by (simp add: sized_def)
  have v: "bit (z_overflow (makeflags 0xff (TEST_NORMAL_FLAGS 8 0x80 s))) 0"
    by (simp add: makeflags_def TEST_NORMAL_FLAGS_def Let_def the_parity_def)
  have x: "test_cond 0xffffff80 1 = Some True" by (simp add: test_cond_def)
  obtain q u r where "COND 1 (TEST_NORMAL_FLAGS 8 0x80 s) = Inr (q, u)"
    "is_cond_true 1 (makeflags 0xff (TEST_NORMAL_FLAGS 8 0x80 s)) = Inr r" "q \<noteq> 0" "(q \<noteq> 0) \<noteq> (r \<noteq> 0)"
    using conditions_after_test [OF _ sz, of 1 s] v x by auto
  then show "\<exists>q u r. COND 1 (TEST_NORMAL_FLAGS 8 0x80 s) = Inr (q, u)
     \<and> is_cond_true 1 (makeflags 0xff (TEST_NORMAL_FLAGS 8 0x80 s)) = Inr r \<and> q \<noteq> 0 \<and> r = 0"
    by blast
qed

section \<open>Access byte by byte\<close>

text \<open>
  The debugger's interface (\<open>iface.c\<close>) moves blocks by calls of two operations on one byte. What it needs of them: they do not
  fail, a byte has a place in a store, and the 65536 addresses from any one on have different places.
\<close>

fun put_all :: "(uint32 \<Rightarrow> uint8 \<Rightarrow> ('s, unit) act) \<Rightarrow> uint32 \<Rightarrow> uint8 list \<Rightarrow> ('s, unit) act" where
  "put_all wr x [] = retA ()"
| "put_all wr x (b # bs) = seqA (wr x b) (\<lambda>_. put_all wr (x + 1) bs)"

fun get_all :: "(uint32 \<Rightarrow> ('s, uint8) act) \<Rightarrow> uint32 \<Rightarrow> nat \<Rightarrow> ('s, uint8 list) act" where
  "get_all rd x 0 = retA []"
| "get_all rd x (Suc n) = seqA (rd x) (\<lambda>b. seqA (get_all rd (x + 1) n) (\<lambda>bs. retA (b # bs)))"

fun block :: "(uint32 \<Rightarrow> nat) \<Rightarrow> uint32 \<Rightarrow> uint8 list \<Rightarrow> (nat \<Rightarrow> uint8) \<Rightarrow> nat \<Rightarrow> uint8" where
  "block loc x [] m = m"
| "block loc x (b # bs) m = block loc (x + 1) bs (m(loc x := b))"

lemma block_other: "(\<And>i. i < length bs \<Longrightarrow> a \<noteq> loc (x + of_nat i)) \<Longrightarrow> block loc x bs m a = m a"
proof (induction bs arbitrary: x m)
  case (Cons b bs)
  have "block loc (x + 1) bs (m(loc x := b)) a = (m(loc x := b)) a"
    by (rule Cons.IH) (use Cons.prems [of "Suc _"] in \<open>simp add: add.assoc\<close>)
  then show ?case using Cons.prems [of 0] by simp
qed simp

locale byte_access =
  fixes wr :: "uint32 \<Rightarrow> uint8 \<Rightarrow> ('s, unit) act" and rd :: "uint32 \<Rightarrow> ('s, uint8) act"
    and loc :: "uint32 \<Rightarrow> nat" and store :: "'s \<Rightarrow> nat \<Rightarrow> uint8"
  assumes wr_stores: "\<exists>t. wr x b s = Inr ((), t) \<and> store t = (store s)(loc x := b)"
    and rd_reads: "\<exists>t. rd x s = Inr (store s (loc x), t) \<and> store t = store s"
    and loc_distinct: "i < j \<Longrightarrow> j < 65536 \<Longrightarrow> loc (x + of_nat i) \<noteq> loc (x + of_nat j)"
begin

lemma put_block: "\<exists>t. put_all wr x bs s = Inr ((), t) \<and> store t = block loc x bs (store s)"
proof (induction bs arbitrary: x s)
  case (Cons b bs)
  obtain u where "wr x b s = Inr ((), u)" "store u = (store s)(loc x := b)" using wr_stores by blast
  then show ?case using Cons.IH [of "x + 1" u] by (simp add: seqA_def fun_upd_def)
qed (simp add: retA_def)

lemma get_block: "\<exists>t. get_all rd x n s = Inr (map (\<lambda>i. store s (loc (x + of_nat i))) [0..<n], t)"
proof (induction n arbitrary: x s)
  case (Suc n)
  obtain u where u: "rd x s = Inr (store s (loc x), u)" "store u = store s" using rd_reads by blast
  obtain t where "get_all rd (x + 1) n u = Inr (map (\<lambda>i. store u (loc (x + 1 + of_nat i))) [0..<n], t)"
    using Suc.IH by blast
  moreover have "[0..<Suc n] = 0 # map Suc [0..<n]" by (simp add: map_Suc_upt upt_conv_Cons)
  ultimately show ?case by (simp add: seqA_def retA_def u comp_def add.assoc del: upt_Suc)
qed (simp add: retA_def)

lemma block_here: "i < length bs \<Longrightarrow> length bs \<le> 65536 \<Longrightarrow> block loc x bs m (loc (x + of_nat i)) = bs ! i"
proof (induction bs arbitrary: x m i)
  case (Cons b bs)
  show ?case
  proof (cases i)
    case 0
    have "block loc (x + 1) bs (m(loc x := b)) (loc x) = (m(loc x := b)) (loc x)"
    proof (rule block_other)
      fix j assume "j < length bs"
      then show "loc x \<noteq> loc (x + 1 + of_nat j)"
        using loc_distinct [of 0 "Suc j" x] Cons.prems(2) by (simp add: add.assoc)
    qed
    then show ?thesis using 0 by simp
  next
    case (Suc j)
    then show ?thesis using Cons.IH [of j "x + 1"] Cons.prems by (simp add: add.assoc)
  qed
qed simp

lemma block_roundtrip:
  assumes "length bs \<le> 65536"
  shows "\<exists>t u. put_all wr x bs s = Inr ((), t) \<and> get_all rd x (length bs) t = Inr (bs, u)
    \<and> (\<forall>a. (\<forall>i < length bs. a \<noteq> loc (x + of_nat i)) \<longrightarrow> store t a = store s a)"
proof -
  obtain t where t: "put_all wr x bs s = Inr ((), t)" "store t = block loc x bs (store s)" using put_block by blast
  obtain u where "get_all rd x (length bs) t = Inr (map (\<lambda>i. store t (loc (x + of_nat i))) [0..<length bs], u)"
    using get_block by blast
  moreover have "map (\<lambda>i. store t (loc (x + of_nat i))) [0..<length bs] = bs"
    using assms by (intro nth_equalityI) (simp_all add: t block_here)
  ultimately show ?thesis using t block_other [of bs _ loc x] by auto
qed

end

section \<open>Memory through the debugger\<close>

text \<open>The place of an address of the debugger in the array, and the array as the next access finds it.\<close>

definition array_byte :: "uint32 \<Rightarrow> nat" where
  "array_byte x = unat (sitoptr (x AND 0x3f00ffff))"

definition array_of :: "z8k_sim \<Rightarrow> nat \<Rightarrow> uint8" where
  "array_of s = (case z_memory s of None \<Rightarrow> (\<lambda>_. 0) | Some m \<Rightarrow> m)"

lemma sitoptr_masked: "sitoptr (x AND 0x3f00ffff) = drop_bit 8 (x AND push_bit 24 0x3f) OR take_bit 16 x"
proof -
  have h: "(x AND 0x3f00ffff) AND 0xff000000 = x AND 0x3f000000" "(x AND 0x3f00ffff) AND 0xffff = x AND 0xffff"
    by (simp_all add: and.assoc)
  have "push_bit 24 0x3f = (0x3f000000 :: uint32)" "x AND 0xffff = take_bit 16 x"
    by (simp_all add: take_bit_eq_mask mask_eq_exp_minus_1)
  then show ?thesis unfolding sitoptr_def h by simp
qed

lemma low_24: "take_bit 24 (drop_bit 8 (x AND push_bit 24 k) OR take_bit 16 x) = drop_bit 8 (x AND push_bit 24 k) OR take_bit 16 x"
  for x k :: uint32
  by (rule bit_word_eqI) (auto simp: bit_simps dest: bit_imp_le_length)

lemma place_less: "array_byte x < MEMORY_SIZE"
proof -
  have "take_bit 24 (sitoptr (x AND 0x3f00ffff)) = sitoptr (x AND 0x3f00ffff)"
    unfolding sitoptr_masked by (rule low_24)
  then have "take_bit 24 (unat (sitoptr (x AND 0x3f00ffff))) = array_byte x"
    unfolding array_byte_def by (simp only: flip: unsigned_take_bit_eq)
  then have "array_byte x < 2 ^ 24"
    unfolding array_byte_def using take_bit_nat_less_exp [of 24 "unat (sitoptr (x AND 0x3f00ffff))"] by (simp only:)
  then show ?thesis by simp
qed

lemma place_low: "array_byte x = array_byte y \<Longrightarrow> (ucast x :: uint16) = ucast y"
proof -
  have "(ucast (drop_bit 8 (x AND push_bit 24 k) OR take_bit 16 x) :: uint16) = ucast x" for x k :: uint32
    by (rule bit_word_eqI) (auto simp: bit_simps)
  then have "(ucast (sitoptr (x AND 0x3f00ffff)) :: uint16) = ucast x" for x
    unfolding sitoptr_masked .
  moreover assume "array_byte x = array_byte y"
  ultimately show ?thesis unfolding array_byte_def by (simp add: word_unat_eq_iff [symmetric]) metis
qed

lemma ucast_add_nat: "(ucast (x + of_nat k) :: uint16) = ucast x + of_nat k" for x :: uint32
proof -
  have "take_bit 16 (take_bit 16 (take_bit 32 a) + take_bit 16 b) = take_bit 16 (take_bit 16 a + take_bit 16 b)" for a b :: int
    by simp
  then have "take_bit 16 (take_bit 32 a + b) = take_bit 16 (a + b)" for a b :: int
    by (simp only: take_bit_add)
  then show ?thesis by transfer simp
qed

lemma places_distinct:
  assumes "i < j" "j < 65536"
  shows "array_byte (x + of_nat i) \<noteq> array_byte (x + of_nat j)"
proof
  assume "array_byte (x + of_nat i) = array_byte (x + of_nat j)"
  then have "(ucast (x + of_nat i) :: uint16) = ucast (x + of_nat j)" by (rule place_low)
  then have "(of_nat i :: uint16) = of_nat j" by (simp add: ucast_add_nat)
  then have "unat (of_nat i :: uint16) = unat (of_nat j :: uint16)" by simp
  then show False using assms by (simp add: unsigned_of_nat take_bit_nat_eq_self)
qed

section \<open>The debugger's accesses\<close>

lemma tm_write: "tm_write_byte x (ucast b) s = Inr ((), s\<lparr>z_memory := Some ((array_of s)(array_byte x := b))\<rparr>)"
  using place_less [of x]
  by (cases "z_memory s")
    (simp_all add: tm_write_byte_def sim_write_byte_def get_page_and_offset_def put_byte_mem_da_def the_memory_def act_defs
      array_byte_def array_of_def)

lemma tm_read: "tm_read_byte x s = Inr (scast (array_of s (array_byte x)), s\<lparr>z_memory := Some (array_of s)\<rparr>)"
  using place_less [of x]
  by (cases "z_memory s")
    (simp_all add: tm_read_byte_def sim_read_byte_def get_page_and_offset_def get_byte_mem_da_def the_memory_def act_defs
      array_byte_def array_of_def)

lemma array_of_memory [simp]: "array_of (s\<lparr>z_memory := Some m\<rparr>) = m"
  by (simp add: array_of_def)

interpretation zmem: byte_access "\<lambda>x b. tm_write_byte x (ucast b)" "\<lambda>x. seqA (tm_read_byte x) (\<lambda>b. retA (ucast b))" array_byte array_of
proof
  have "ucast (scast b :: int32) = b" for b :: uint8
    by (rule bit_word_eqI) (auto simp: bit_simps)
  then show "\<exists>t. seqA (tm_read_byte x) (\<lambda>b. retA (ucast b)) s = Inr (array_of s (array_byte x), t) \<and> array_of t = array_of s" for x s
    by (simp add: seqA_def retA_def tm_read)
qed (simp_all add: tm_write places_distinct)

lemma sim_write_all: "z8k_sim_write x bs = put_all (\<lambda>x b. tm_write_byte x (ucast b)) x bs"
  by (induction bs arbitrary: x) simp_all

lemma sim_read_all: "z8k_sim_read x n = get_all (\<lambda>x. seqA (tm_read_byte x) (\<lambda>b. retA (ucast b))) x n"
proof (induction n arbitrary: x)
  case (Suc n)
  then show ?case by (auto simp: seqA_def retA_def fun_eq_iff bindF_assoc split_def intro!: bindF_cong)
qed simp



end
