(* ===== verification/Z8k_Opc.thy ===== *)
theory Z8k_Opc
  imports Prelude
begin

text \<open>
  The Z8000 instruction table \<open>src/src/opcodes/z8k-opc.h\<close>, which the assembler and the disassembler share: the
  classes of operands and of instruction fields, and the 418 entries in their order. The table is split by the first
  letter of the name. The terminating entry of the table, with no name, is left out; \<open>byte_info\<close> has ten elements, of which
  an initialiser gives nine.
\<close>

section \<open>Constants\<close>

abbreviation (input) "ARG_MASK \<equiv> 0xf :: uint32"
abbreviation (input) "ARG_SRC \<equiv> 0x1 :: uint32"
abbreviation (input) "ARG_DST \<equiv> 0x2 :: uint32"
abbreviation (input) "ARG_RS \<equiv> 0x1 :: uint32"
abbreviation (input) "ARG_RD \<equiv> 0x2 :: uint32"
abbreviation (input) "ARG_RA \<equiv> 0x3 :: uint32"
abbreviation (input) "ARG_RB \<equiv> 0x4 :: uint32"
abbreviation (input) "ARG_RR \<equiv> 0x5 :: uint32"
abbreviation (input) "ARG_RX \<equiv> 0x6 :: uint32"
abbreviation (input) "ARG_IMM4 \<equiv> 0x1 :: uint32"
abbreviation (input) "ARG_IMM8 \<equiv> 0x2 :: uint32"
abbreviation (input) "ARG_IMM16 \<equiv> 0x3 :: uint32"
abbreviation (input) "ARG_IMM32 \<equiv> 0x4 :: uint32"
abbreviation (input) "ARG_IMMN \<equiv> 0x5 :: uint32"
abbreviation (input) "ARG_IMMNMINUS1 \<equiv> 0x5 :: uint32"
abbreviation (input) "ARG_IMM_1 \<equiv> 0x6 :: uint32"
abbreviation (input) "ARG_IMM_2 \<equiv> 0x7 :: uint32"
abbreviation (input) "ARG_DISP16 \<equiv> 0x8 :: uint32"
abbreviation (input) "ARG_NIM8 \<equiv> 0x9 :: uint32"
abbreviation (input) "ARG_IMM2 \<equiv> 0xa :: uint32"
abbreviation (input) "ARG_IMM1OR2 \<equiv> 0xb :: uint32"
abbreviation (input) "ARG_DISP12 \<equiv> 0xb :: uint32"
abbreviation (input) "ARG_DISP8 \<equiv> 0xc :: uint32"
abbreviation (input) "ARG_IMM4M1 \<equiv> 0xd :: uint32"
abbreviation (input) "CLASS_MASK \<equiv> 0x1fff0 :: uint32"
abbreviation (input) "CLASS_X \<equiv> 0x10 :: uint32"
abbreviation (input) "CLASS_BA \<equiv> 0x20 :: uint32"
abbreviation (input) "CLASS_DA \<equiv> 0x30 :: uint32"
abbreviation (input) "CLASS_BX \<equiv> 0x40 :: uint32"
abbreviation (input) "CLASS_DISP \<equiv> 0x50 :: uint32"
abbreviation (input) "CLASS_IMM \<equiv> 0x60 :: uint32"
abbreviation (input) "CLASS_CC \<equiv> 0x70 :: uint32"
abbreviation (input) "CLASS_CTRL \<equiv> 0x80 :: uint32"
abbreviation (input) "CLASS_ADDRESS \<equiv> 0xd0 :: uint32"
abbreviation (input) "CLASS_0CCC \<equiv> 0xe0 :: uint32"
abbreviation (input) "CLASS_1CCC \<equiv> 0xf0 :: uint32"
abbreviation (input) "CLASS_0DISP7 \<equiv> 0x100 :: uint32"
abbreviation (input) "CLASS_1DISP7 \<equiv> 0x200 :: uint32"
abbreviation (input) "CLASS_01II \<equiv> 0x300 :: uint32"
abbreviation (input) "CLASS_00II \<equiv> 0x400 :: uint32"
abbreviation (input) "CLASS_BIT \<equiv> 0x500 :: uint32"
abbreviation (input) "CLASS_FLAGS \<equiv> 0x600 :: uint32"
abbreviation (input) "CLASS_IR \<equiv> 0x700 :: uint32"
abbreviation (input) "CLASS_DISP8 \<equiv> 0x800 :: uint32"
abbreviation (input) "CLASS_BIT_1OR2 \<equiv> 0x900 :: uint32"
abbreviation (input) "CLASS_REG \<equiv> 0x7000 :: uint32"
abbreviation (input) "CLASS_REG_BYTE \<equiv> 0x2000 :: uint32"
abbreviation (input) "CLASS_REG_WORD \<equiv> 0x3000 :: uint32"
abbreviation (input) "CLASS_REG_QUAD \<equiv> 0x4000 :: uint32"
abbreviation (input) "CLASS_REG_LONG \<equiv> 0x5000 :: uint32"
abbreviation (input) "CLASS_REGN0 \<equiv> 0x8000 :: uint32"
abbreviation (input) "CLASS_PR \<equiv> 0x10000 :: uint32"

section \<open>The table\<close>

record opcode_entry_type =
  z_name :: string
  z_opcode :: nat
  arg_info :: "uint32 list"
  byte_info :: "uint32 list"
  noperands :: nat
  z_length :: nat
  idx :: nat

definition z8k_entry :: "string \<Rightarrow> nat \<Rightarrow> uint32 list \<Rightarrow> uint32 list \<Rightarrow> nat \<Rightarrow> nat \<Rightarrow> nat \<Rightarrow> opcode_entry_type" where
  "z8k_entry name opc args bytes n len i =
     \<lparr>z_name = name, z_opcode = opc, arg_info = take 4 (args @ replicate 4 0), byte_info = take 10 (bytes @ replicate 10 0),
      noperands = n, z_length = len, idx = i\<rparr>"

definition z8k_table_a :: "opcode_entry_type list" where
  "z8k_table_a = [
     z8k_entry ''adc'' 0 [CLASS_REG_WORD + ARG_RD, CLASS_REG_WORD + ARG_RS] [CLASS_BIT + 0xb, CLASS_BIT + 5, CLASS_REG + ARG_RS, CLASS_REG + ARG_RD] 2 2 0,
     z8k_entry ''adcb'' 1 [CLASS_REG_BYTE + ARG_RD, CLASS_REG_BYTE + ARG_RS] [CLASS_BIT + 0xb, CLASS_BIT + 4, CLASS_REG + ARG_RS, CLASS_REG + ARG_RD] 2 2 1,
     z8k_entry ''add'' 2 [CLASS_REG_WORD + ARG_RD, CLASS_IR + ARG_RS] [CLASS_BIT + 0, CLASS_BIT + 1, CLASS_REGN0 + ARG_RS, CLASS_REG + ARG_RD] 2 2 2,
     z8k_entry ''add'' 2 [CLASS_REG_WORD + ARG_RD, CLASS_DA + ARG_SRC] [CLASS_BIT + 4, CLASS_BIT + 1, CLASS_BIT + 0, CLASS_REG + ARG_RD, CLASS_ADDRESS + ARG_SRC] 2 4 3,
     z8k_entry ''add'' 2 [CLASS_REG_WORD + ARG_RD, CLASS_X + ARG_RS] [CLASS_BIT + 4, CLASS_BIT + 1, CLASS_REGN0 + ARG_RS, CLASS_REG + ARG_RD, CLASS_ADDRESS + ARG_SRC] 2 4 4,
     z8k_entry ''add'' 2 [CLASS_REG_WORD + ARG_RD, CLASS_IMM + ARG_IMM16] [CLASS_BIT + 0, CLASS_BIT + 1, CLASS_BIT + 0, CLASS_REG + ARG_RD, CLASS_IMM + ARG_IMM16] 2 4 5,
     z8k_entry ''add'' 2 [CLASS_REG_WORD + ARG_RD, CLASS_REG_WORD + ARG_RS] [CLASS_BIT + 8, CLASS_BIT + 1, CLASS_REG + ARG_RS, CLASS_REG + ARG_RD] 2 2 6,
     z8k_entry ''addb'' 3 [CLASS_REG_BYTE + ARG_RD, CLASS_IR + ARG_RS] [CLASS_BIT + 0, CLASS_BIT + 0, CLASS_REGN0 + ARG_RS, CLASS_REG + ARG_RD] 2 2 7,
     z8k_entry ''addb'' 3 [CLASS_REG_BYTE + ARG_RD, CLASS_DA + ARG_SRC] [CLASS_BIT + 4, CLASS_BIT + 0, CLASS_BIT + 0, CLASS_REG + ARG_RD, CLASS_ADDRESS + ARG_SRC] 2 4 8,
     z8k_entry ''addb'' 3 [CLASS_REG_BYTE + ARG_RD, CLASS_X + ARG_RS] [CLASS_BIT + 4, CLASS_BIT + 0, CLASS_REGN0 + ARG_RS, CLASS_REG + ARG_RD, CLASS_ADDRESS + ARG_SRC] 2 4 9,
     z8k_entry ''addb'' 3 [CLASS_REG_BYTE + ARG_RD, CLASS_IMM + ARG_IMM8] [CLASS_BIT + 0, CLASS_BIT + 0, CLASS_BIT + 0, CLASS_REG + ARG_RD, CLASS_IMM + ARG_IMM8, CLASS_IMM + ARG_IMM8] 2 4 10,
     z8k_entry ''addb'' 3 [CLASS_REG_BYTE + ARG_RD, CLASS_REG_BYTE + ARG_RS] [CLASS_BIT + 8, CLASS_BIT + 0, CLASS_REG + ARG_RS, CLASS_REG + ARG_RD] 2 2 11,
     z8k_entry ''addl'' 4 [CLASS_REG_LONG + ARG_RD, CLASS_IR + ARG_RS] [CLASS_BIT + 1, CLASS_BIT + 6, CLASS_REGN0 + ARG_RS, CLASS_REG + ARG_RD] 2 2 12,
     z8k_entry ''addl'' 4 [CLASS_REG_LONG + ARG_RD, CLASS_DA + ARG_SRC] [CLASS_BIT + 5, CLASS_BIT + 6, CLASS_BIT + 0, CLASS_REG + ARG_RD, CLASS_ADDRESS + ARG_SRC] 2 4 13,
     z8k_entry ''addl'' 4 [CLASS_REG_LONG + ARG_RD, CLASS_X + ARG_RS] [CLASS_BIT + 5, CLASS_BIT + 6, CLASS_REGN0 + ARG_RS, CLASS_REG + ARG_RD, CLASS_ADDRESS + ARG_SRC] 2 4 14,
     z8k_entry ''addl'' 4 [CLASS_REG_LONG + ARG_RD, CLASS_IMM + ARG_IMM32] [CLASS_BIT + 1, CLASS_BIT + 6, CLASS_BIT + 0, CLASS_REG + ARG_RD, CLASS_IMM + ARG_IMM32] 2 6 15,
     z8k_entry ''addl'' 4 [CLASS_REG_LONG + ARG_RD, CLASS_REG_LONG + ARG_RS] [CLASS_BIT + 9, CLASS_BIT + 6, CLASS_REG + ARG_RS, CLASS_REG + ARG_RD] 2 2 16,
     z8k_entry ''and'' 5 [CLASS_REG_WORD + ARG_RD, CLASS_IR + ARG_RS] [CLASS_BIT + 0, CLASS_BIT + 7, CLASS_REGN0 + ARG_RS, CLASS_REG + ARG_RD] 2 2 17,
     z8k_entry ''and'' 5 [CLASS_REG_WORD + ARG_RD, CLASS_DA + ARG_SRC] [CLASS_BIT + 4, CLASS_BIT + 7, CLASS_BIT + 0, CLASS_REG + ARG_RD, CLASS_ADDRESS + ARG_SRC] 2 4 18,
     z8k_entry ''and'' 5 [CLASS_REG_WORD + ARG_RD, CLASS_X + ARG_RS] [CLASS_BIT + 4, CLASS_BIT + 7, CLASS_REGN0 + ARG_RS, CLASS_REG + ARG_RD, CLASS_ADDRESS + ARG_SRC] 2 4 19,
     z8k_entry ''and'' 5 [CLASS_REG_WORD + ARG_RD, CLASS_IMM + ARG_IMM16] [CLASS_BIT + 0, CLASS_BIT + 7, CLASS_BIT + 0, CLASS_REG + ARG_RD, CLASS_IMM + ARG_IMM16] 2 4 20,
     z8k_entry ''and'' 5 [CLASS_REG_WORD + ARG_RD, CLASS_REG_WORD + ARG_RS] [CLASS_BIT + 8, CLASS_BIT + 7, CLASS_REG + ARG_RS, CLASS_REG + ARG_RD] 2 2 21,
     z8k_entry ''andb'' 6 [CLASS_REG_BYTE + ARG_RD, CLASS_IR + ARG_RS] [CLASS_BIT + 0, CLASS_BIT + 6, CLASS_REGN0 + ARG_RS, CLASS_REG + ARG_RD] 2 2 22,
     z8k_entry ''andb'' 6 [CLASS_REG_BYTE + ARG_RD, CLASS_DA + ARG_SRC] [CLASS_BIT + 4, CLASS_BIT + 6, CLASS_BIT + 0, CLASS_REG + ARG_RD, CLASS_ADDRESS + ARG_SRC] 2 4 23,
     z8k_entry ''andb'' 6 [CLASS_REG_BYTE + ARG_RD, CLASS_X + ARG_RS] [CLASS_BIT + 4, CLASS_BIT + 6, CLASS_REGN0 + ARG_RS, CLASS_REG + ARG_RD, CLASS_ADDRESS + ARG_SRC] 2 4 24,
     z8k_entry ''andb'' 6 [CLASS_REG_BYTE + ARG_RD, CLASS_IMM + ARG_IMM8] [CLASS_BIT + 0, CLASS_BIT + 6, CLASS_BIT + 0, CLASS_REG + ARG_RD, CLASS_IMM + ARG_IMM8, CLASS_IMM + ARG_IMM8] 2 4 25,
     z8k_entry ''andb'' 6 [CLASS_REG_BYTE + ARG_RD, CLASS_REG_BYTE + ARG_RS] [CLASS_BIT + 8, CLASS_BIT + 6, CLASS_REG + ARG_RS, CLASS_REG + ARG_RD] 2 2 26]"

definition z8k_table_b :: "opcode_entry_type list" where
  "z8k_table_b = [
     z8k_entry ''bit'' 7 [CLASS_IR + ARG_RD, CLASS_IMM + ARG_IMM4] [CLASS_BIT + 2, CLASS_BIT + 7, CLASS_REGN0 + ARG_RD, CLASS_IMM + ARG_IMM4] 2 2 27,
     z8k_entry ''bit'' 7 [CLASS_X + ARG_RD, CLASS_IMM + ARG_IMM4] [CLASS_BIT + 6, CLASS_BIT + 7, CLASS_REGN0 + ARG_RD, CLASS_IMM + ARG_IMM4, CLASS_ADDRESS + ARG_DST] 2 4 28,
     z8k_entry ''bit'' 7 [CLASS_DA + ARG_DST, CLASS_IMM + ARG_IMM4] [CLASS_BIT + 6, CLASS_BIT + 7, CLASS_BIT + 0, CLASS_IMM + ARG_IMM4, CLASS_ADDRESS + ARG_DST] 2 4 29,
     z8k_entry ''bit'' 7 [CLASS_REG_WORD + ARG_RD, CLASS_IMM + ARG_IMM4] [CLASS_BIT + 0xa, CLASS_BIT + 7, CLASS_REG + ARG_RD, CLASS_IMM + ARG_IMM4] 2 2 30,
     z8k_entry ''bit'' 7 [CLASS_REG_WORD + ARG_RD, CLASS_REG_WORD + ARG_RS] [CLASS_BIT + 2, CLASS_BIT + 7, CLASS_BIT + 0, CLASS_REG + ARG_RS, CLASS_BIT + 0, CLASS_REG + ARG_RD, CLASS_BIT + 0, CLASS_BIT + 0] 2 4 31,
     z8k_entry ''bitb'' 8 [CLASS_IR + ARG_RD, CLASS_IMM + ARG_IMM4] [CLASS_BIT + 2, CLASS_BIT + 6, CLASS_REGN0 + ARG_RD, CLASS_IMM + ARG_IMM4] 2 2 32,
     z8k_entry ''bitb'' 8 [CLASS_X + ARG_RD, CLASS_IMM + ARG_IMM4] [CLASS_BIT + 6, CLASS_BIT + 6, CLASS_REGN0 + ARG_RD, CLASS_IMM + ARG_IMM4, CLASS_ADDRESS + ARG_DST] 2 4 33,
     z8k_entry ''bitb'' 8 [CLASS_DA + ARG_DST, CLASS_IMM + ARG_IMM4] [CLASS_BIT + 6, CLASS_BIT + 6, CLASS_BIT + 0, CLASS_IMM + ARG_IMM4, CLASS_ADDRESS + ARG_DST] 2 4 34,
     z8k_entry ''bitb'' 8 [CLASS_REG_BYTE + ARG_RD, CLASS_IMM + ARG_IMM4] [CLASS_BIT + 0xa, CLASS_BIT + 6, CLASS_REG + ARG_RD, CLASS_IMM + ARG_IMM4] 2 2 35,
     z8k_entry ''bitb'' 8 [CLASS_REG_BYTE + ARG_RD, CLASS_REG_WORD + ARG_RS] [CLASS_BIT + 2, CLASS_BIT + 6, CLASS_BIT + 0, CLASS_REG + ARG_RS, CLASS_BIT + 0, CLASS_REG + ARG_RD, CLASS_BIT + 0, CLASS_BIT + 0] 2 4 36,
     z8k_entry ''bpt'' 171 [] [CLASS_BIT + 3, CLASS_BIT + 6, CLASS_BIT + 0, CLASS_BIT + 0] 0 2 37]"

definition z8k_table_c :: "opcode_entry_type list" where
  "z8k_table_c = [
     z8k_entry ''call'' 9 [CLASS_IR + ARG_RD] [CLASS_BIT + 1, CLASS_BIT + 0xf, CLASS_REGN0 + ARG_RD, CLASS_BIT + 0] 1 2 38,
     z8k_entry ''call'' 9 [CLASS_DA + ARG_DST] [CLASS_BIT + 5, CLASS_BIT + 0xf, CLASS_BIT + 0, CLASS_BIT + 0, CLASS_ADDRESS + ARG_DST] 1 4 39,
     z8k_entry ''call'' 9 [CLASS_X + ARG_RD] [CLASS_BIT + 5, CLASS_BIT + 0xf, CLASS_REGN0 + ARG_RD, CLASS_BIT + 0, CLASS_ADDRESS + ARG_DST] 1 4 40,
     z8k_entry ''calr'' 10 [CLASS_DISP] [CLASS_BIT + 0xd, CLASS_DISP + ARG_DISP12] 1 2 41,
     z8k_entry ''clr'' 11 [CLASS_IR + ARG_RD] [CLASS_BIT + 0, CLASS_BIT + 0xd, CLASS_REGN0 + ARG_RD, CLASS_BIT + 8] 1 2 42,
     z8k_entry ''clr'' 11 [CLASS_DA + ARG_DST] [CLASS_BIT + 4, CLASS_BIT + 0xd, CLASS_BIT + 0, CLASS_BIT + 8, CLASS_ADDRESS + ARG_DST] 1 4 43,
     z8k_entry ''clr'' 11 [CLASS_X + ARG_RD] [CLASS_BIT + 4, CLASS_BIT + 0xd, CLASS_REGN0 + ARG_RD, CLASS_BIT + 8, CLASS_ADDRESS + ARG_DST] 1 4 44,
     z8k_entry ''clr'' 11 [CLASS_REG_WORD + ARG_RD] [CLASS_BIT + 8, CLASS_BIT + 0xd, CLASS_REG + ARG_RD, CLASS_BIT + 8] 1 2 45,
     z8k_entry ''clrb'' 12 [CLASS_IR + ARG_RD] [CLASS_BIT + 0, CLASS_BIT + 0xc, CLASS_REGN0 + ARG_RD, CLASS_BIT + 8] 1 2 46,
     z8k_entry ''clrb'' 12 [CLASS_DA + ARG_DST] [CLASS_BIT + 4, CLASS_BIT + 0xc, CLASS_BIT + 0, CLASS_BIT + 8, CLASS_ADDRESS + ARG_DST] 1 4 47,
     z8k_entry ''clrb'' 12 [CLASS_X + ARG_RD] [CLASS_BIT + 4, CLASS_BIT + 0xc, CLASS_REGN0 + ARG_RD, CLASS_BIT + 8, CLASS_ADDRESS + ARG_DST] 1 4 48,
     z8k_entry ''clrb'' 12 [CLASS_REG_BYTE + ARG_RD] [CLASS_BIT + 8, CLASS_BIT + 0xc, CLASS_REG + ARG_RD, CLASS_BIT + 8] 1 2 49,
     z8k_entry ''com'' 13 [CLASS_IR + ARG_RD] [CLASS_BIT + 0, CLASS_BIT + 0xd, CLASS_REGN0 + ARG_RD, CLASS_BIT + 0] 1 2 50,
     z8k_entry ''com'' 13 [CLASS_DA + ARG_DST] [CLASS_BIT + 4, CLASS_BIT + 0xd, CLASS_BIT + 0, CLASS_BIT + 0, CLASS_ADDRESS + ARG_DST] 1 4 51,
     z8k_entry ''com'' 13 [CLASS_X + ARG_RD] [CLASS_BIT + 4, CLASS_BIT + 0xd, CLASS_REGN0 + ARG_RD, CLASS_BIT + 0, CLASS_ADDRESS + ARG_DST] 1 4 52,
     z8k_entry ''com'' 13 [CLASS_REG_WORD + ARG_RD] [CLASS_BIT + 8, CLASS_BIT + 0xd, CLASS_REG + ARG_RD, CLASS_BIT + 0] 1 2 53,
     z8k_entry ''comb'' 14 [CLASS_IR + ARG_RD] [CLASS_BIT + 0, CLASS_BIT + 0xc, CLASS_REGN0 + ARG_RD, CLASS_BIT + 0] 1 2 54,
     z8k_entry ''comb'' 14 [CLASS_DA + ARG_DST] [CLASS_BIT + 4, CLASS_BIT + 0xc, CLASS_BIT + 0, CLASS_BIT + 0, CLASS_ADDRESS + ARG_DST] 1 4 55,
     z8k_entry ''comb'' 14 [CLASS_X + ARG_RD] [CLASS_BIT + 4, CLASS_BIT + 0xc, CLASS_REGN0 + ARG_RD, CLASS_BIT + 0, CLASS_ADDRESS + ARG_DST] 1 4 56,
     z8k_entry ''comb'' 14 [CLASS_REG_BYTE + ARG_RD] [CLASS_BIT + 8, CLASS_BIT + 0xc, CLASS_REG + ARG_RD, CLASS_BIT + 0] 1 2 57,
     z8k_entry ''comflg'' 15 [CLASS_FLAGS] [CLASS_BIT + 8, CLASS_BIT + 0xd, CLASS_FLAGS, CLASS_BIT + 5] 1 2 58,
     z8k_entry ''cp'' 16 [CLASS_IR + ARG_RD, CLASS_IMM + ARG_IMM16] [CLASS_BIT + 0, CLASS_BIT + 0xd, CLASS_REGN0 + ARG_RD, CLASS_BIT + 1, CLASS_IMM + ARG_IMM16] 2 4 59,
     z8k_entry ''cp'' 16 [CLASS_X + ARG_RD, CLASS_IMM + ARG_IMM16] [CLASS_BIT + 4, CLASS_BIT + 0xd, CLASS_REGN0 + ARG_RD, CLASS_BIT + 1, CLASS_ADDRESS + ARG_DST, CLASS_IMM + ARG_IMM16] 2 6 60,
     z8k_entry ''cp'' 16 [CLASS_DA + ARG_DST, CLASS_IMM + ARG_IMM16] [CLASS_BIT + 4, CLASS_BIT + 0xd, CLASS_BIT + 0, CLASS_BIT + 1, CLASS_ADDRESS + ARG_DST, CLASS_IMM + ARG_IMM16] 2 6 61,
     z8k_entry ''cp'' 16 [CLASS_REG_WORD + ARG_RD, CLASS_IR + ARG_RS] [CLASS_BIT + 0, CLASS_BIT + 0xb, CLASS_REGN0 + ARG_RS, CLASS_REG + ARG_RD] 2 2 62,
     z8k_entry ''cp'' 16 [CLASS_REG_WORD + ARG_RD, CLASS_DA + ARG_SRC] [CLASS_BIT + 4, CLASS_BIT + 0xb, CLASS_BIT + 0, CLASS_REG + ARG_RD, CLASS_ADDRESS + ARG_SRC] 2 4 63,
     z8k_entry ''cp'' 16 [CLASS_REG_WORD + ARG_RD, CLASS_X + ARG_RS] [CLASS_BIT + 4, CLASS_BIT + 0xb, CLASS_REGN0 + ARG_RS, CLASS_REG + ARG_RD, CLASS_ADDRESS + ARG_SRC] 2 4 64,
     z8k_entry ''cp'' 16 [CLASS_REG_WORD + ARG_RD, CLASS_IMM + ARG_IMM16] [CLASS_BIT + 0, CLASS_BIT + 0xb, CLASS_BIT + 0, CLASS_REG + ARG_RD, CLASS_IMM + ARG_IMM16] 2 4 65,
     z8k_entry ''cp'' 16 [CLASS_REG_WORD + ARG_RD, CLASS_REG_WORD + ARG_RS] [CLASS_BIT + 8, CLASS_BIT + 0xb, CLASS_REG + ARG_RS, CLASS_REG + ARG_RD] 2 2 66,
     z8k_entry ''cpb'' 17 [CLASS_IR + ARG_RD, CLASS_IMM + ARG_IMM8] [CLASS_BIT + 0, CLASS_BIT + 0xc, CLASS_REGN0 + ARG_RD, CLASS_BIT + 1, CLASS_IMM + ARG_IMM8, CLASS_IMM + ARG_IMM8] 2 4 67,
     z8k_entry ''cpb'' 17 [CLASS_X + ARG_RD, CLASS_IMM + ARG_IMM8] [CLASS_BIT + 4, CLASS_BIT + 0xc, CLASS_REGN0 + ARG_RD, CLASS_BIT + 1, CLASS_ADDRESS + ARG_DST, CLASS_IMM + ARG_IMM8, CLASS_IMM + ARG_IMM8] 2 6 68,
     z8k_entry ''cpb'' 17 [CLASS_DA + ARG_DST, CLASS_IMM + ARG_IMM8] [CLASS_BIT + 4, CLASS_BIT + 0xc, CLASS_BIT + 0, CLASS_BIT + 1, CLASS_ADDRESS + ARG_DST, CLASS_IMM + ARG_IMM8, CLASS_IMM + ARG_IMM8] 2 6 69,
     z8k_entry ''cpb'' 17 [CLASS_REG_BYTE + ARG_RD, CLASS_IR + ARG_RS] [CLASS_BIT + 0, CLASS_BIT + 0xa, CLASS_REGN0 + ARG_RS, CLASS_REG + ARG_RD] 2 2 70,
     z8k_entry ''cpb'' 17 [CLASS_REG_BYTE + ARG_RD, CLASS_DA + ARG_SRC] [CLASS_BIT + 4, CLASS_BIT + 0xa, CLASS_BIT + 0, CLASS_REG + ARG_RD, CLASS_ADDRESS + ARG_SRC] 2 4 71,
     z8k_entry ''cpb'' 17 [CLASS_REG_BYTE + ARG_RD, CLASS_X + ARG_RS] [CLASS_BIT + 4, CLASS_BIT + 0xa, CLASS_REGN0 + ARG_RS, CLASS_REG + ARG_RD, CLASS_ADDRESS + ARG_SRC] 2 4 72,
     z8k_entry ''cpb'' 17 [CLASS_REG_BYTE + ARG_RD, CLASS_IMM + ARG_IMM8] [CLASS_BIT + 0, CLASS_BIT + 0xa, CLASS_BIT + 0, CLASS_REG + ARG_RD, CLASS_IMM + ARG_IMM8, CLASS_IMM + ARG_IMM8] 2 4 73,
     z8k_entry ''cpb'' 17 [CLASS_REG_BYTE + ARG_RD, CLASS_REG_BYTE + ARG_RS] [CLASS_BIT + 8, CLASS_BIT + 0xa, CLASS_REG + ARG_RS, CLASS_REG + ARG_RD] 2 2 74,
     z8k_entry ''cpd'' 18 [CLASS_REG_WORD + ARG_RD, CLASS_IR + ARG_RS, CLASS_REG_WORD + ARG_RR, CLASS_CC] [CLASS_BIT + 0xb, CLASS_BIT + 0xb, CLASS_REGN0 + ARG_RS, CLASS_BIT + 8, CLASS_BIT + 0, CLASS_REG + ARG_RR, CLASS_REG + ARG_RD, CLASS_CC] 4 4 75,
     z8k_entry ''cpdb'' 19 [CLASS_REG_BYTE + ARG_RD, CLASS_IR + ARG_RS, CLASS_REG_WORD + ARG_RR, CLASS_CC] [CLASS_BIT + 0xb, CLASS_BIT + 0xa, CLASS_REGN0 + ARG_RS, CLASS_BIT + 8, CLASS_BIT + 0, CLASS_REG + ARG_RR, CLASS_REG + ARG_RD, CLASS_CC] 4 4 76,
     z8k_entry ''cpdr'' 20 [CLASS_REG_WORD + ARG_RD, CLASS_IR + ARG_RS, CLASS_REG_WORD + ARG_RR, CLASS_CC] [CLASS_BIT + 0xb, CLASS_BIT + 0xb, CLASS_REGN0 + ARG_RS, CLASS_BIT + 0xc, CLASS_BIT + 0, CLASS_REG + ARG_RR, CLASS_REG + ARG_RD, CLASS_CC] 4 4 77,
     z8k_entry ''cpdrb'' 21 [CLASS_REG_BYTE + ARG_RD, CLASS_IR + ARG_RS, CLASS_REG_WORD + ARG_RR, CLASS_CC] [CLASS_BIT + 0xb, CLASS_BIT + 0xa, CLASS_REGN0 + ARG_RS, CLASS_BIT + 0xc, CLASS_BIT + 0, CLASS_REG + ARG_RR, CLASS_REG + ARG_RD, CLASS_CC] 4 4 78,
     z8k_entry ''cpi'' 22 [CLASS_REG_WORD + ARG_RD, CLASS_IR + ARG_RS, CLASS_REG_WORD + ARG_RR, CLASS_CC] [CLASS_BIT + 0xb, CLASS_BIT + 0xb, CLASS_REGN0 + ARG_RS, CLASS_BIT + 0, CLASS_BIT + 0, CLASS_REG + ARG_RR, CLASS_REG + ARG_RD, CLASS_CC] 4 4 79,
     z8k_entry ''cpib'' 23 [CLASS_REG_BYTE + ARG_RD, CLASS_IR + ARG_RS, CLASS_REG_WORD + ARG_RR, CLASS_CC] [CLASS_BIT + 0xb, CLASS_BIT + 0xa, CLASS_REGN0 + ARG_RS, CLASS_BIT + 0, CLASS_BIT + 0, CLASS_REG + ARG_RR, CLASS_REG + ARG_RD, CLASS_CC] 4 4 80,
     z8k_entry ''cpir'' 24 [CLASS_REG_WORD + ARG_RD, CLASS_IR + ARG_RS, CLASS_REG_WORD + ARG_RR, CLASS_CC] [CLASS_BIT + 0xb, CLASS_BIT + 0xb, CLASS_REGN0 + ARG_RS, CLASS_BIT + 4, CLASS_BIT + 0, CLASS_REG + ARG_RR, CLASS_REG + ARG_RD, CLASS_CC] 4 4 81,
     z8k_entry ''cpirb'' 25 [CLASS_REG_BYTE + ARG_RD, CLASS_IR + ARG_RS, CLASS_REG_WORD + ARG_RR, CLASS_CC] [CLASS_BIT + 0xb, CLASS_BIT + 0xa, CLASS_REGN0 + ARG_RS, CLASS_BIT + 4, CLASS_BIT + 0, CLASS_REG + ARG_RR, CLASS_REG + ARG_RD, CLASS_CC] 4 4 82,
     z8k_entry ''cpl'' 26 [CLASS_REG_LONG + ARG_RD, CLASS_IR + ARG_RS] [CLASS_BIT + 1, CLASS_BIT + 0, CLASS_REGN0 + ARG_RS, CLASS_REG + ARG_RD] 2 2 83,
     z8k_entry ''cpl'' 26 [CLASS_REG_LONG + ARG_RD, CLASS_DA + ARG_SRC] [CLASS_BIT + 5, CLASS_BIT + 0, CLASS_BIT + 0, CLASS_REG + ARG_RD, CLASS_ADDRESS + ARG_SRC] 2 4 84,
     z8k_entry ''cpl'' 26 [CLASS_REG_LONG + ARG_RD, CLASS_X + ARG_RS] [CLASS_BIT + 5, CLASS_BIT + 0, CLASS_REGN0 + ARG_RS, CLASS_REG + ARG_RD, CLASS_ADDRESS + ARG_SRC] 2 4 85,
     z8k_entry ''cpl'' 26 [CLASS_REG_LONG + ARG_RD, CLASS_IMM + ARG_IMM32] [CLASS_BIT + 1, CLASS_BIT + 0, CLASS_BIT + 0, CLASS_REG + ARG_RD, CLASS_IMM + ARG_IMM32] 2 6 86,
     z8k_entry ''cpl'' 26 [CLASS_REG_LONG + ARG_RD, CLASS_REG_LONG + ARG_RS] [CLASS_BIT + 9, CLASS_BIT + 0, CLASS_REG + ARG_RS, CLASS_REG + ARG_RD] 2 2 87,
     z8k_entry ''cpsd'' 27 [CLASS_IR + ARG_RD, CLASS_IR + ARG_RS, CLASS_REG_WORD + ARG_RR, CLASS_CC] [CLASS_BIT + 0xb, CLASS_BIT + 0xb, CLASS_REGN0 + ARG_RS, CLASS_BIT + 0xa, CLASS_BIT + 0, CLASS_REG + ARG_RR, CLASS_REGN0 + ARG_RD, CLASS_CC] 4 4 88,
     z8k_entry ''cpsdb'' 28 [CLASS_IR + ARG_RD, CLASS_IR + ARG_RS, CLASS_REG_WORD + ARG_RR, CLASS_CC] [CLASS_BIT + 0xb, CLASS_BIT + 0xa, CLASS_REGN0 + ARG_RS, CLASS_BIT + 0xa, CLASS_BIT + 0, CLASS_REG + ARG_RR, CLASS_REGN0 + ARG_RD, CLASS_CC] 4 4 89,
     z8k_entry ''cpsdr'' 29 [CLASS_IR + ARG_RD, CLASS_IR + ARG_RS, CLASS_REG_WORD + ARG_RR, CLASS_CC] [CLASS_BIT + 0xb, CLASS_BIT + 0xb, CLASS_REGN0 + ARG_RS, CLASS_BIT + 0xe, CLASS_BIT + 0, CLASS_REG + ARG_RR, CLASS_REGN0 + ARG_RD, CLASS_CC] 4 4 90,
     z8k_entry ''cpsdrb'' 30 [CLASS_IR + ARG_RD, CLASS_IR + ARG_RS, CLASS_REG_WORD + ARG_RR, CLASS_CC] [CLASS_BIT + 0xb, CLASS_BIT + 0xa, CLASS_REGN0 + ARG_RS, CLASS_BIT + 0xe, CLASS_BIT + 0, CLASS_REG + ARG_RR, CLASS_REGN0 + ARG_RD, CLASS_CC] 4 4 91,
     z8k_entry ''cpsi'' 31 [CLASS_IR + ARG_RD, CLASS_IR + ARG_RS, CLASS_REG_WORD + ARG_RR, CLASS_CC] [CLASS_BIT + 0xb, CLASS_BIT + 0xb, CLASS_REGN0 + ARG_RS, CLASS_BIT + 2, CLASS_BIT + 0, CLASS_REG + ARG_RR, CLASS_REGN0 + ARG_RD, CLASS_CC] 4 4 92,
     z8k_entry ''cpsib'' 32 [CLASS_IR + ARG_RD, CLASS_IR + ARG_RS, CLASS_REG_WORD + ARG_RR, CLASS_CC] [CLASS_BIT + 0xb, CLASS_BIT + 0xa, CLASS_REGN0 + ARG_RS, CLASS_BIT + 2, CLASS_BIT + 0, CLASS_REG + ARG_RR, CLASS_REGN0 + ARG_RD, CLASS_CC] 4 4 93,
     z8k_entry ''cpsir'' 33 [CLASS_IR + ARG_RD, CLASS_IR + ARG_RS, CLASS_REG_WORD + ARG_RR, CLASS_CC] [CLASS_BIT + 0xb, CLASS_BIT + 0xb, CLASS_REGN0 + ARG_RS, CLASS_BIT + 6, CLASS_BIT + 0, CLASS_REG + ARG_RR, CLASS_REGN0 + ARG_RD, CLASS_CC] 4 4 94,
     z8k_entry ''cpsirb'' 34 [CLASS_IR + ARG_RD, CLASS_IR + ARG_RS, CLASS_REG_WORD + ARG_RR, CLASS_CC] [CLASS_BIT + 0xb, CLASS_BIT + 0xa, CLASS_REGN0 + ARG_RS, CLASS_BIT + 6, CLASS_BIT + 0, CLASS_REG + ARG_RR, CLASS_REGN0 + ARG_RD, CLASS_CC] 4 4 95]"

definition z8k_table_d :: "opcode_entry_type list" where
  "z8k_table_d = [
     z8k_entry ''dab'' 35 [CLASS_REG_BYTE + ARG_RD] [CLASS_BIT + 0xb, CLASS_BIT + 0, CLASS_REG + ARG_RD, CLASS_BIT + 0] 1 2 96,
     z8k_entry ''dbjnz'' 36 [CLASS_REG_BYTE + ARG_RD, CLASS_DISP] [CLASS_BIT + 0xf, CLASS_REG + ARG_RD, CLASS_0DISP7] 2 2 97,
     z8k_entry ''dec'' 37 [CLASS_IR + ARG_RD, CLASS_IMM + ARG_IMM4M1] [CLASS_BIT + 2, CLASS_BIT + 0xb, CLASS_REGN0 + ARG_RD, CLASS_IMM + ARG_IMM4M1] 2 2 98,
     z8k_entry ''dec'' 37 [CLASS_X + ARG_RD, CLASS_IMM + ARG_IMM4M1] [CLASS_BIT + 6, CLASS_BIT + 0xb, CLASS_REGN0 + ARG_RD, CLASS_IMM + ARG_IMM4M1, CLASS_ADDRESS + ARG_DST] 2 4 99,
     z8k_entry ''dec'' 37 [CLASS_DA + ARG_DST, CLASS_IMM + ARG_IMM4M1] [CLASS_BIT + 6, CLASS_BIT + 0xb, CLASS_BIT + 0, CLASS_IMM + ARG_IMM4M1, CLASS_ADDRESS + ARG_DST] 2 4 100,
     z8k_entry ''dec'' 37 [CLASS_REG_WORD + ARG_RD, CLASS_IMM + ARG_IMM4M1] [CLASS_BIT + 0xa, CLASS_BIT + 0xb, CLASS_REG + ARG_RD, CLASS_IMM + ARG_IMM4M1] 2 2 101,
     z8k_entry ''decb'' 38 [CLASS_IR + ARG_RD, CLASS_IMM + ARG_IMM4M1] [CLASS_BIT + 2, CLASS_BIT + 0xa, CLASS_REGN0 + ARG_RD, CLASS_IMM + ARG_IMM4M1] 2 2 102,
     z8k_entry ''decb'' 38 [CLASS_X + ARG_RD, CLASS_IMM + ARG_IMM4M1] [CLASS_BIT + 6, CLASS_BIT + 0xa, CLASS_REGN0 + ARG_RD, CLASS_IMM + ARG_IMM4M1, CLASS_ADDRESS + ARG_DST] 2 4 103,
     z8k_entry ''decb'' 38 [CLASS_DA + ARG_DST, CLASS_IMM + ARG_IMM4M1] [CLASS_BIT + 6, CLASS_BIT + 0xa, CLASS_BIT + 0, CLASS_IMM + ARG_IMM4M1, CLASS_ADDRESS + ARG_DST] 2 4 104,
     z8k_entry ''decb'' 38 [CLASS_REG_BYTE + ARG_RD, CLASS_IMM + ARG_IMM4M1] [CLASS_BIT + 0xa, CLASS_BIT + 0xa, CLASS_REG + ARG_RD, CLASS_IMM + ARG_IMM4M1] 2 2 105,
     z8k_entry ''di'' 39 [CLASS_IMM + ARG_IMM2] [CLASS_BIT + 7, CLASS_BIT + 0xc, CLASS_BIT + 0, CLASS_00II] 1 2 106,
     z8k_entry ''div'' 40 [CLASS_REG_LONG + ARG_RD, CLASS_IR + ARG_RS] [CLASS_BIT + 1, CLASS_BIT + 0xb, CLASS_REGN0 + ARG_RS, CLASS_REG + ARG_RD] 2 2 107,
     z8k_entry ''div'' 40 [CLASS_REG_LONG + ARG_RD, CLASS_DA + ARG_SRC] [CLASS_BIT + 5, CLASS_BIT + 0xb, CLASS_BIT + 0, CLASS_REG + ARG_RD, CLASS_ADDRESS + ARG_SRC] 2 4 108,
     z8k_entry ''div'' 40 [CLASS_REG_LONG + ARG_RD, CLASS_X + ARG_RS] [CLASS_BIT + 5, CLASS_BIT + 0xb, CLASS_REGN0 + ARG_RS, CLASS_REG + ARG_RD, CLASS_ADDRESS + ARG_SRC] 2 4 109,
     z8k_entry ''div'' 40 [CLASS_REG_LONG + ARG_RD, CLASS_IMM + ARG_IMM16] [CLASS_BIT + 1, CLASS_BIT + 0xb, CLASS_BIT + 0, CLASS_REG + ARG_RD, CLASS_IMM + ARG_IMM16] 2 4 110,
     z8k_entry ''div'' 40 [CLASS_REG_LONG + ARG_RD, CLASS_REG_WORD + ARG_RS] [CLASS_BIT + 9, CLASS_BIT + 0xb, CLASS_REG + ARG_RS, CLASS_REG + ARG_RD] 2 2 111,
     z8k_entry ''divl'' 41 [CLASS_REG_QUAD + ARG_RD, CLASS_IR + ARG_RS] [CLASS_BIT + 1, CLASS_BIT + 0xa, CLASS_REGN0 + ARG_RS, CLASS_REG + ARG_RD] 2 2 112,
     z8k_entry ''divl'' 41 [CLASS_REG_QUAD + ARG_RD, CLASS_DA + ARG_SRC] [CLASS_BIT + 5, CLASS_BIT + 0xa, CLASS_BIT + 0, CLASS_REG + ARG_RD, CLASS_ADDRESS + ARG_SRC] 2 4 113,
     z8k_entry ''divl'' 41 [CLASS_REG_QUAD + ARG_RD, CLASS_X + ARG_RS] [CLASS_BIT + 5, CLASS_BIT + 0xa, CLASS_REGN0 + ARG_RS, CLASS_REG + ARG_RD, CLASS_ADDRESS + ARG_SRC] 2 4 114,
     z8k_entry ''divl'' 41 [CLASS_REG_QUAD + ARG_RD, CLASS_IMM + ARG_IMM32] [CLASS_BIT + 1, CLASS_BIT + 0xa, CLASS_BIT + 0, CLASS_REG + ARG_RD, CLASS_IMM + ARG_IMM32] 2 6 115,
     z8k_entry ''divl'' 41 [CLASS_REG_QUAD + ARG_RD, CLASS_REG_LONG + ARG_RS] [CLASS_BIT + 9, CLASS_BIT + 0xa, CLASS_REG + ARG_RS, CLASS_REG + ARG_RD] 2 2 116,
     z8k_entry ''djnz'' 42 [CLASS_REG_WORD + ARG_RD, CLASS_DISP] [CLASS_BIT + 0xf, CLASS_REG + ARG_RD, CLASS_1DISP7] 2 2 117]"

definition z8k_table_e :: "opcode_entry_type list" where
  "z8k_table_e = [
     z8k_entry ''ei'' 43 [CLASS_IMM + ARG_IMM2] [CLASS_BIT + 7, CLASS_BIT + 0xc, CLASS_BIT + 0, CLASS_01II] 1 2 118,
     z8k_entry ''ex'' 44 [CLASS_REG_WORD + ARG_RD, CLASS_IR + ARG_RS] [CLASS_BIT + 2, CLASS_BIT + 0xd, CLASS_REGN0 + ARG_RS, CLASS_REG + ARG_RD] 2 2 119,
     z8k_entry ''ex'' 44 [CLASS_REG_WORD + ARG_RD, CLASS_DA + ARG_SRC] [CLASS_BIT + 6, CLASS_BIT + 0xd, CLASS_BIT + 0, CLASS_REG + ARG_RD, CLASS_ADDRESS + ARG_SRC] 2 4 120,
     z8k_entry ''ex'' 44 [CLASS_REG_WORD + ARG_RD, CLASS_X + ARG_RS] [CLASS_BIT + 6, CLASS_BIT + 0xd, CLASS_REGN0 + ARG_RS, CLASS_REG + ARG_RD, CLASS_ADDRESS + ARG_SRC] 2 4 121,
     z8k_entry ''ex'' 44 [CLASS_REG_WORD + ARG_RD, CLASS_REG_WORD + ARG_RS] [CLASS_BIT + 0xa, CLASS_BIT + 0xd, CLASS_REG + ARG_RS, CLASS_REG + ARG_RD] 2 2 122,
     z8k_entry ''exb'' 45 [CLASS_REG_BYTE + ARG_RD, CLASS_IR + ARG_RS] [CLASS_BIT + 2, CLASS_BIT + 0xc, CLASS_REGN0 + ARG_RS, CLASS_REG + ARG_RD] 2 2 123,
     z8k_entry ''exb'' 45 [CLASS_REG_BYTE + ARG_RD, CLASS_DA + ARG_SRC] [CLASS_BIT + 6, CLASS_BIT + 0xc, CLASS_BIT + 0, CLASS_REG + ARG_RD, CLASS_ADDRESS + ARG_SRC] 2 4 124,
     z8k_entry ''exb'' 45 [CLASS_REG_BYTE + ARG_RD, CLASS_X + ARG_RS] [CLASS_BIT + 6, CLASS_BIT + 0xc, CLASS_REGN0 + ARG_RS, CLASS_REG + ARG_RD, CLASS_ADDRESS + ARG_SRC] 2 4 125,
     z8k_entry ''exb'' 45 [CLASS_REG_BYTE + ARG_RD, CLASS_REG_BYTE + ARG_RS] [CLASS_BIT + 0xa, CLASS_BIT + 0xc, CLASS_REG + ARG_RS, CLASS_REG + ARG_RD] 2 2 126,
     z8k_entry ''ext0e'' 172 [CLASS_IMM + ARG_IMM8] [CLASS_BIT + 0, CLASS_BIT + 0xe, CLASS_IMM + ARG_IMM8] 1 2 127,
     z8k_entry ''ext0f'' 172 [CLASS_IMM + ARG_IMM8] [CLASS_BIT + 0, CLASS_BIT + 0xf, CLASS_IMM + ARG_IMM8] 1 2 128,
     z8k_entry ''ext8e'' 172 [CLASS_IMM + ARG_IMM8] [CLASS_BIT + 8, CLASS_BIT + 0xe, CLASS_IMM + ARG_IMM8] 1 2 129,
     z8k_entry ''ext8f'' 172 [CLASS_IMM + ARG_IMM8] [CLASS_BIT + 8, CLASS_BIT + 0xf, CLASS_IMM + ARG_IMM8] 1 2 130,
     z8k_entry ''exts'' 46 [CLASS_REG_LONG + ARG_RD] [CLASS_BIT + 0xb, CLASS_BIT + 1, CLASS_REG + ARG_RD, CLASS_BIT + 0xa] 1 2 131,
     z8k_entry ''extsb'' 47 [CLASS_REG_WORD + ARG_RD] [CLASS_BIT + 0xb, CLASS_BIT + 1, CLASS_REG + ARG_RD, CLASS_BIT + 0] 1 2 132,
     z8k_entry ''extsl'' 48 [CLASS_REG_QUAD + ARG_RD] [CLASS_BIT + 0xb, CLASS_BIT + 1, CLASS_REG + ARG_RD, CLASS_BIT + 7] 1 2 133]"

definition z8k_table_h :: "opcode_entry_type list" where
  "z8k_table_h = [
     z8k_entry ''halt'' 49 [] [CLASS_BIT + 7, CLASS_BIT + 0xa, CLASS_BIT + 0, CLASS_BIT + 0] 0 2 134]"

definition z8k_table_i :: "opcode_entry_type list" where
  "z8k_table_i = [
     z8k_entry ''in'' 50 [CLASS_REG_WORD + ARG_RD, CLASS_IR + ARG_RS] [CLASS_BIT + 3, CLASS_BIT + 0xd, CLASS_REGN0 + ARG_RS, CLASS_REG + ARG_RD] 2 2 135,
     z8k_entry ''in'' 50 [CLASS_REG_WORD + ARG_RD, CLASS_IMM + ARG_IMM16] [CLASS_BIT + 3, CLASS_BIT + 0xd, CLASS_REG + ARG_RD, CLASS_BIT + 4, CLASS_IMM + ARG_IMM16] 2 4 136,
     z8k_entry ''inb'' 51 [CLASS_REG_BYTE + ARG_RD, CLASS_IR + ARG_RS] [CLASS_BIT + 3, CLASS_BIT + 0xc, CLASS_REGN0 + ARG_RS, CLASS_REG + ARG_RD] 2 2 137,
     z8k_entry ''inb'' 51 [CLASS_REG_BYTE + ARG_RD, CLASS_IMM + ARG_IMM16] [CLASS_BIT + 3, CLASS_BIT + 0xa, CLASS_REG + ARG_RD, CLASS_BIT + 4, CLASS_IMM + ARG_IMM16] 2 4 138,
     z8k_entry ''inc'' 52 [CLASS_IR + ARG_RD, CLASS_IMM + ARG_IMM4M1] [CLASS_BIT + 2, CLASS_BIT + 9, CLASS_REGN0 + ARG_RD, CLASS_IMM + ARG_IMM4M1] 2 2 139,
     z8k_entry ''inc'' 52 [CLASS_X + ARG_RD, CLASS_IMM + ARG_IMM4M1] [CLASS_BIT + 6, CLASS_BIT + 9, CLASS_REGN0 + ARG_RD, CLASS_IMM + ARG_IMM4M1, CLASS_ADDRESS + ARG_DST] 2 4 140,
     z8k_entry ''inc'' 52 [CLASS_DA + ARG_DST, CLASS_IMM + ARG_IMM4M1] [CLASS_BIT + 6, CLASS_BIT + 9, CLASS_BIT + 0, CLASS_IMM + ARG_IMM4M1, CLASS_ADDRESS + ARG_DST] 2 4 141,
     z8k_entry ''inc'' 52 [CLASS_REG_WORD + ARG_RD, CLASS_IMM + ARG_IMM4M1] [CLASS_BIT + 0xa, CLASS_BIT + 9, CLASS_REG + ARG_RD, CLASS_IMM + ARG_IMM4M1] 2 2 142,
     z8k_entry ''incb'' 53 [CLASS_IR + ARG_RD, CLASS_IMM + ARG_IMM4M1] [CLASS_BIT + 2, CLASS_BIT + 8, CLASS_REGN0 + ARG_RD, CLASS_IMM + ARG_IMM4M1] 2 2 143,
     z8k_entry ''incb'' 53 [CLASS_X + ARG_RD, CLASS_IMM + ARG_IMM4M1] [CLASS_BIT + 6, CLASS_BIT + 8, CLASS_REGN0 + ARG_RD, CLASS_IMM + ARG_IMM4M1, CLASS_ADDRESS + ARG_DST] 2 4 144,
     z8k_entry ''incb'' 53 [CLASS_DA + ARG_DST, CLASS_IMM + ARG_IMM4M1] [CLASS_BIT + 6, CLASS_BIT + 8, CLASS_BIT + 0, CLASS_IMM + ARG_IMM4M1, CLASS_ADDRESS + ARG_DST] 2 4 145,
     z8k_entry ''incb'' 53 [CLASS_REG_BYTE + ARG_RD, CLASS_IMM + ARG_IMM4M1] [CLASS_BIT + 0xa, CLASS_BIT + 8, CLASS_REG + ARG_RD, CLASS_IMM + ARG_IMM4M1] 2 2 146,
     z8k_entry ''ind'' 54 [CLASS_IR + ARG_RD, CLASS_IR + ARG_RS, CLASS_REG_WORD + ARG_RA] [CLASS_BIT + 3, CLASS_BIT + 0xb, CLASS_REGN0 + ARG_RS, CLASS_BIT + 8, CLASS_BIT + 0, CLASS_REG + ARG_RA, CLASS_REGN0 + ARG_RD, CLASS_BIT + 8] 3 4 147,
     z8k_entry ''indb'' 55 [CLASS_IR + ARG_RD, CLASS_IR + ARG_RS, CLASS_REG_BYTE + ARG_RA] [CLASS_BIT + 3, CLASS_BIT + 0xa, CLASS_REGN0 + ARG_RS, CLASS_BIT + 8, CLASS_BIT + 0, CLASS_REG + ARG_RA, CLASS_REGN0 + ARG_RD, CLASS_BIT + 8] 3 4 148,
     z8k_entry ''inib'' 56 [CLASS_IR + ARG_RD, CLASS_IR + ARG_RS, CLASS_REG_WORD + ARG_RA] [CLASS_BIT + 3, CLASS_BIT + 0xa, CLASS_REGN0 + ARG_RS, CLASS_BIT + 0, CLASS_BIT + 0, CLASS_REG + ARG_RA, CLASS_REGN0 + ARG_RD, CLASS_BIT + 8] 3 4 149,
     z8k_entry ''inibr'' 57 [CLASS_IR + ARG_RD, CLASS_IR + ARG_RS, CLASS_REG_WORD + ARG_RA] [CLASS_BIT + 3, CLASS_BIT + 0xa, CLASS_REGN0 + ARG_RS, CLASS_BIT + 0, CLASS_BIT + 0, CLASS_REG + ARG_RA, CLASS_REGN0 + ARG_RD, CLASS_BIT + 0] 3 4 150,
     z8k_entry ''iret'' 58 [] [CLASS_BIT + 7, CLASS_BIT + 0xb, CLASS_BIT + 0, CLASS_BIT + 0] 0 2 151]"

definition z8k_table_j :: "opcode_entry_type list" where
  "z8k_table_j = [
     z8k_entry ''jp'' 59 [CLASS_CC, CLASS_IR + ARG_RD] [CLASS_BIT + 1, CLASS_BIT + 0xe, CLASS_REGN0 + ARG_RD, CLASS_CC] 2 2 152,
     z8k_entry ''jp'' 59 [CLASS_CC, CLASS_DA + ARG_DST] [CLASS_BIT + 5, CLASS_BIT + 0xe, CLASS_BIT + 0, CLASS_CC, CLASS_ADDRESS + ARG_DST] 2 4 153,
     z8k_entry ''jp'' 59 [CLASS_CC, CLASS_X + ARG_RD] [CLASS_BIT + 5, CLASS_BIT + 0xe, CLASS_REGN0 + ARG_RD, CLASS_CC, CLASS_ADDRESS + ARG_DST] 2 4 154,
     z8k_entry ''jr'' 60 [CLASS_CC, CLASS_DISP] [CLASS_BIT + 0xe, CLASS_CC, CLASS_DISP8] 2 2 155]"

definition z8k_table_l :: "opcode_entry_type list" where
  "z8k_table_l = [
     z8k_entry ''ld'' 61 [CLASS_IR + ARG_RD, CLASS_IMM + ARG_IMM16] [CLASS_BIT + 0, CLASS_BIT + 0xd, CLASS_REGN0 + ARG_RD, CLASS_BIT + 5, CLASS_IMM + ARG_IMM16] 2 4 156,
     z8k_entry ''ld'' 61 [CLASS_IR + ARG_RD, CLASS_REG_WORD + ARG_RS] [CLASS_BIT + 2, CLASS_BIT + 0xf, CLASS_REGN0 + ARG_RD, CLASS_REG + ARG_RS] 2 2 157,
     z8k_entry ''ld'' 61 [CLASS_X + ARG_RD, CLASS_IMM + ARG_IMM16] [CLASS_BIT + 4, CLASS_BIT + 0xd, CLASS_REGN0 + ARG_RD, CLASS_BIT + 5, CLASS_ADDRESS + ARG_DST, CLASS_IMM + ARG_IMM16] 2 6 158,
     z8k_entry ''ld'' 61 [CLASS_X + ARG_RD, CLASS_REG_WORD + ARG_RS] [CLASS_BIT + 6, CLASS_BIT + 0xf, CLASS_REGN0 + ARG_RD, CLASS_REG + ARG_RS, CLASS_ADDRESS + ARG_DST] 2 4 159,
     z8k_entry ''ld'' 61 [CLASS_DA + ARG_DST, CLASS_IMM + ARG_IMM16] [CLASS_BIT + 4, CLASS_BIT + 0xd, CLASS_BIT + 0, CLASS_BIT + 5, CLASS_ADDRESS + ARG_DST, CLASS_IMM + ARG_IMM16] 2 6 160,
     z8k_entry ''ld'' 61 [CLASS_DA + ARG_DST, CLASS_REG_WORD + ARG_RS] [CLASS_BIT + 6, CLASS_BIT + 0xf, CLASS_BIT + 0, CLASS_REG + ARG_RS, CLASS_ADDRESS + ARG_DST] 2 4 161,
     z8k_entry ''ld'' 61 [CLASS_BA + ARG_RD, CLASS_REG_WORD + ARG_RS] [CLASS_BIT + 3, CLASS_BIT + 3, CLASS_REGN0 + ARG_RD, CLASS_REG + ARG_RS, CLASS_IMM + ARG_IMM16] 2 4 162,
     z8k_entry ''ld'' 61 [CLASS_BX + ARG_RD, CLASS_REG_WORD + ARG_RS] [CLASS_BIT + 7, CLASS_BIT + 3, CLASS_REGN0 + ARG_RD, CLASS_REG + ARG_RS, CLASS_BIT + 0, CLASS_REG + ARG_RX, CLASS_BIT + 0, CLASS_BIT + 0] 2 4 163,
     z8k_entry ''ld'' 61 [CLASS_REG_WORD + ARG_RD, CLASS_IR + ARG_RS] [CLASS_BIT + 2, CLASS_BIT + 1, CLASS_REGN0 + ARG_RS, CLASS_REG + ARG_RD] 2 2 164,
     z8k_entry ''ld'' 61 [CLASS_REG_WORD + ARG_RD, CLASS_DA + ARG_SRC] [CLASS_BIT + 6, CLASS_BIT + 1, CLASS_BIT + 0, CLASS_REG + ARG_RD, CLASS_ADDRESS + ARG_SRC] 2 4 165,
     z8k_entry ''ld'' 61 [CLASS_REG_WORD + ARG_RD, CLASS_X + ARG_RS] [CLASS_BIT + 6, CLASS_BIT + 1, CLASS_REGN0 + ARG_RS, CLASS_REG + ARG_RD, CLASS_ADDRESS + ARG_SRC] 2 4 166,
     z8k_entry ''ld'' 61 [CLASS_REG_WORD + ARG_RD, CLASS_IMM + ARG_IMM16] [CLASS_BIT + 2, CLASS_BIT + 1, CLASS_BIT + 0, CLASS_REG + ARG_RD, CLASS_IMM + ARG_IMM16] 2 4 167,
     z8k_entry ''ld'' 61 [CLASS_REG_WORD + ARG_RD, CLASS_REG_WORD + ARG_RS] [CLASS_BIT + 0xa, CLASS_BIT + 1, CLASS_REG + ARG_RS, CLASS_REG + ARG_RD] 2 2 168,
     z8k_entry ''ld'' 61 [CLASS_REG_WORD + ARG_RD, CLASS_BA + ARG_RS] [CLASS_BIT + 3, CLASS_BIT + 1, CLASS_REGN0 + ARG_RS, CLASS_REG + ARG_RD, CLASS_IMM + ARG_IMM16] 2 4 169,
     z8k_entry ''ld'' 61 [CLASS_REG_WORD + ARG_RD, CLASS_BX + ARG_RS] [CLASS_BIT + 7, CLASS_BIT + 1, CLASS_REGN0 + ARG_RS, CLASS_REG + ARG_RD, CLASS_BIT + 0, CLASS_REG + ARG_RX, CLASS_BIT + 0, CLASS_BIT + 0] 2 4 170,
     z8k_entry ''lda'' 62 [CLASS_PR + ARG_RD, CLASS_DA + ARG_SRC] [CLASS_BIT + 7, CLASS_BIT + 6, CLASS_BIT + 0, CLASS_REG + ARG_RD, CLASS_ADDRESS + ARG_SRC] 2 4 171,
     z8k_entry ''lda'' 62 [CLASS_PR + ARG_RD, CLASS_X + ARG_RS] [CLASS_BIT + 7, CLASS_BIT + 6, CLASS_REGN0 + ARG_RS, CLASS_REG + ARG_RD, CLASS_ADDRESS + ARG_SRC] 2 4 172,
     z8k_entry ''lda'' 62 [CLASS_PR + ARG_RD, CLASS_BA + ARG_RS] [CLASS_BIT + 3, CLASS_BIT + 4, CLASS_REGN0 + ARG_RS, CLASS_REG + ARG_RD, CLASS_IMM + ARG_IMM16] 2 4 173,
     z8k_entry ''lda'' 62 [CLASS_PR + ARG_RD, CLASS_BX + ARG_RS] [CLASS_BIT + 7, CLASS_BIT + 4, CLASS_REGN0 + ARG_RS, CLASS_REG + ARG_RD, CLASS_BIT + 0, CLASS_REG + ARG_RX, CLASS_BIT + 0, CLASS_BIT + 0] 2 4 174,
     z8k_entry ''ldar'' 63 [CLASS_PR + ARG_RD, CLASS_DISP] [CLASS_BIT + 3, CLASS_BIT + 4, CLASS_BIT + 0, CLASS_REG + ARG_RD, CLASS_DISP + ARG_DISP16] 2 4 175,
     z8k_entry ''ldb'' 64 [CLASS_IR + ARG_RD, CLASS_IMM + ARG_IMM8] [CLASS_BIT + 0, CLASS_BIT + 0xc, CLASS_REGN0 + ARG_RD, CLASS_BIT + 5, CLASS_IMM + ARG_IMM8, CLASS_IMM + ARG_IMM8] 2 4 176,
     z8k_entry ''ldb'' 64 [CLASS_IR + ARG_RD, CLASS_REG_BYTE + ARG_RS] [CLASS_BIT + 2, CLASS_BIT + 0xe, CLASS_REGN0 + ARG_RD, CLASS_REG + ARG_RS] 2 2 177,
     z8k_entry ''ldb'' 64 [CLASS_X + ARG_RD, CLASS_IMM + ARG_IMM8] [CLASS_BIT + 4, CLASS_BIT + 0xc, CLASS_REGN0 + ARG_RD, CLASS_BIT + 5, CLASS_ADDRESS + ARG_DST, CLASS_IMM + ARG_IMM8, CLASS_IMM + ARG_IMM8] 2 6 178,
     z8k_entry ''ldb'' 64 [CLASS_X + ARG_RD, CLASS_REG_BYTE + ARG_RS] [CLASS_BIT + 6, CLASS_BIT + 0xe, CLASS_REGN0 + ARG_RD, CLASS_REG + ARG_RS, CLASS_ADDRESS + ARG_DST] 2 4 179,
     z8k_entry ''ldb'' 64 [CLASS_DA + ARG_DST, CLASS_IMM + ARG_IMM8] [CLASS_BIT + 4, CLASS_BIT + 0xc, CLASS_BIT + 0, CLASS_BIT + 5, CLASS_ADDRESS + ARG_DST, CLASS_IMM + ARG_IMM8, CLASS_IMM + ARG_IMM8] 2 6 180,
     z8k_entry ''ldb'' 64 [CLASS_DA + ARG_DST, CLASS_REG_BYTE + ARG_RS] [CLASS_BIT + 6, CLASS_BIT + 0xe, CLASS_BIT + 0, CLASS_REG + ARG_RS, CLASS_ADDRESS + ARG_DST] 2 4 181,
     z8k_entry ''ldb'' 64 [CLASS_REG_BYTE + ARG_RD, CLASS_IR + ARG_RS] [CLASS_BIT + 2, CLASS_BIT + 0, CLASS_REGN0 + ARG_RS, CLASS_REG + ARG_RD] 2 2 182,
     z8k_entry ''ldb'' 64 [CLASS_REG_BYTE + ARG_RD, CLASS_DA + ARG_SRC] [CLASS_BIT + 6, CLASS_BIT + 0, CLASS_BIT + 0, CLASS_REG + ARG_RD, CLASS_ADDRESS + ARG_SRC] 2 4 183,
     z8k_entry ''ldb'' 64 [CLASS_REG_BYTE + ARG_RD, CLASS_X + ARG_RS] [CLASS_BIT + 6, CLASS_BIT + 0, CLASS_REGN0 + ARG_RS, CLASS_REG + ARG_RD, CLASS_ADDRESS + ARG_SRC] 2 4 184,
     z8k_entry ''ldb'' 64 [CLASS_REG_BYTE + ARG_RD, CLASS_IMM + ARG_IMM8] [CLASS_BIT + 0xc, CLASS_REG + ARG_RD, CLASS_IMM + ARG_IMM8] 2 2 185,
     z8k_entry ''ldb'' 64 [CLASS_REG_BYTE + ARG_RD, CLASS_REG_BYTE + ARG_RS] [CLASS_BIT + 0xa, CLASS_BIT + 0, CLASS_REG + ARG_RS, CLASS_REG + ARG_RD] 2 2 186,
     z8k_entry ''ldb'' 64 [CLASS_REG_BYTE + ARG_RD, CLASS_BA + ARG_RS] [CLASS_BIT + 3, CLASS_BIT + 0, CLASS_REGN0 + ARG_RS, CLASS_REG + ARG_RD, CLASS_IMM + ARG_IMM16] 2 4 187,
     z8k_entry ''ldb'' 64 [CLASS_REG_BYTE + ARG_RD, CLASS_BX + ARG_RS] [CLASS_BIT + 7, CLASS_BIT + 0, CLASS_REGN0 + ARG_RS, CLASS_REG + ARG_RD, CLASS_BIT + 0, CLASS_REG + ARG_RX, CLASS_BIT + 0, CLASS_BIT + 0] 2 4 188,
     z8k_entry ''ldb'' 64 [CLASS_BA + ARG_RD, CLASS_REG_BYTE + ARG_RS] [CLASS_BIT + 3, CLASS_BIT + 2, CLASS_REGN0 + ARG_RD, CLASS_REG + ARG_RS, CLASS_IMM + ARG_IMM16] 2 4 189,
     z8k_entry ''ldb'' 64 [CLASS_BX + ARG_RD, CLASS_REG_BYTE + ARG_RS] [CLASS_BIT + 7, CLASS_BIT + 2, CLASS_REGN0 + ARG_RD, CLASS_REG + ARG_RS, CLASS_BIT + 0, CLASS_REG + ARG_RX, CLASS_BIT + 0, CLASS_BIT + 0] 2 4 190,
     z8k_entry ''ldctl'' 65 [CLASS_CTRL, CLASS_REG_WORD + ARG_RS] [CLASS_BIT + 7, CLASS_BIT + 0xd, CLASS_REG + ARG_RS, CLASS_1CCC] 2 2 191,
     z8k_entry ''ldctl'' 65 [CLASS_REG_WORD + ARG_RD, CLASS_CTRL] [CLASS_BIT + 7, CLASS_BIT + 0xd, CLASS_REG + ARG_RD, CLASS_0CCC] 2 2 192,
     z8k_entry ''ldd'' 164 [CLASS_IR + ARG_RD, CLASS_IR + ARG_RS, CLASS_REG_WORD + ARG_RR] [CLASS_BIT + 0xb, CLASS_BIT + 0xb, CLASS_REGN0 + ARG_RS, CLASS_BIT + 9, CLASS_BIT + 0, CLASS_REG + ARG_RR, CLASS_REGN0 + ARG_RD, CLASS_BIT + 8] 3 4 193,
     z8k_entry ''lddb'' 165 [CLASS_IR + ARG_RD, CLASS_IR + ARG_RS, CLASS_REG_WORD + ARG_RR] [CLASS_BIT + 0xb, CLASS_BIT + 0xa, CLASS_REGN0 + ARG_RS, CLASS_BIT + 9, CLASS_BIT + 0, CLASS_REG + ARG_RR, CLASS_REGN0 + ARG_RD, CLASS_BIT + 8] 3 4 194,
     z8k_entry ''lddr'' 166 [CLASS_IR + ARG_RD, CLASS_IR + ARG_RS, CLASS_REG_WORD + ARG_RR] [CLASS_BIT + 0xb, CLASS_BIT + 0xb, CLASS_REGN0 + ARG_RS, CLASS_BIT + 9, CLASS_BIT + 0, CLASS_REG + ARG_RR, CLASS_REGN0 + ARG_RD, CLASS_BIT + 0] 3 4 195,
     z8k_entry ''lddrb'' 167 [CLASS_IR + ARG_RD, CLASS_IR + ARG_RS, CLASS_REG_WORD + ARG_RR] [CLASS_BIT + 0xb, CLASS_BIT + 0xa, CLASS_REGN0 + ARG_RS, CLASS_BIT + 9, CLASS_BIT + 0, CLASS_REG + ARG_RR, CLASS_REGN0 + ARG_RD, CLASS_BIT + 0] 3 4 196,
     z8k_entry ''ldi'' 168 [CLASS_IR + ARG_RD, CLASS_IR + ARG_RS, CLASS_REG_WORD + ARG_RR] [CLASS_BIT + 0xb, CLASS_BIT + 0xb, CLASS_REGN0 + ARG_RS, CLASS_BIT + 1, CLASS_BIT + 0, CLASS_REG + ARG_RR, CLASS_REGN0 + ARG_RD, CLASS_BIT + 8] 3 4 197,
     z8k_entry ''ldib'' 169 [CLASS_IR + ARG_RD, CLASS_IR + ARG_RS, CLASS_REG_WORD + ARG_RR] [CLASS_BIT + 0xb, CLASS_BIT + 0xa, CLASS_REGN0 + ARG_RS, CLASS_BIT + 1, CLASS_BIT + 0, CLASS_REG + ARG_RR, CLASS_REGN0 + ARG_RD, CLASS_BIT + 8] 3 4 198,
     z8k_entry ''ldir'' 66 [CLASS_IR + ARG_RD, CLASS_IR + ARG_RS, CLASS_REG_WORD + ARG_RR] [CLASS_BIT + 0xb, CLASS_BIT + 0xb, CLASS_REGN0 + ARG_RS, CLASS_BIT + 1, CLASS_BIT + 0, CLASS_REG + ARG_RR, CLASS_REGN0 + ARG_RD, CLASS_BIT + 0] 3 4 199,
     z8k_entry ''ldirb'' 67 [CLASS_IR + ARG_RD, CLASS_IR + ARG_RS, CLASS_REG_WORD + ARG_RR] [CLASS_BIT + 0xb, CLASS_BIT + 0xa, CLASS_REGN0 + ARG_RS, CLASS_BIT + 1, CLASS_BIT + 0, CLASS_REG + ARG_RR, CLASS_REGN0 + ARG_RD, CLASS_BIT + 0] 3 4 200,
     z8k_entry ''ldk'' 68 [CLASS_REG_WORD + ARG_RD, CLASS_IMM + ARG_IMM4] [CLASS_BIT + 0xb, CLASS_BIT + 0xd, CLASS_REG + ARG_RD, CLASS_IMM + ARG_IMM4] 2 2 201,
     z8k_entry ''ldl'' 69 [CLASS_IR + ARG_RD, CLASS_REG_LONG + ARG_RS] [CLASS_BIT + 1, CLASS_BIT + 0xd, CLASS_REGN0 + ARG_RD, CLASS_REG + ARG_RS] 2 2 202,
     z8k_entry ''ldl'' 69 [CLASS_X + ARG_RD, CLASS_REG_LONG + ARG_RS] [CLASS_BIT + 5, CLASS_BIT + 0xd, CLASS_REGN0 + ARG_RD, CLASS_REG + ARG_RS, CLASS_ADDRESS + ARG_DST] 2 4 203,
     z8k_entry ''ldl'' 69 [CLASS_DA + ARG_DST, CLASS_REG_LONG + ARG_RS] [CLASS_BIT + 5, CLASS_BIT + 0xd, CLASS_BIT + 0, CLASS_REG + ARG_RS, CLASS_ADDRESS + ARG_DST] 2 4 204,
     z8k_entry ''ldl'' 69 [CLASS_BA + ARG_RD, CLASS_REG_LONG + ARG_RS] [CLASS_BIT + 3, CLASS_BIT + 7, CLASS_REGN0 + ARG_RD, CLASS_REG + ARG_RS, CLASS_IMM + ARG_IMM16] 2 4 205,
     z8k_entry ''ldl'' 69 [CLASS_BX + ARG_RD, CLASS_REG_LONG + ARG_RS] [CLASS_BIT + 7, CLASS_BIT + 7, CLASS_REGN0 + ARG_RD, CLASS_REG + ARG_RS, CLASS_BIT + 0, CLASS_REG + ARG_RX, CLASS_BIT + 0, CLASS_BIT + 0] 2 4 206,
     z8k_entry ''ldl'' 69 [CLASS_REG_LONG + ARG_RD, CLASS_IR + ARG_RS] [CLASS_BIT + 1, CLASS_BIT + 4, CLASS_REGN0 + ARG_RS, CLASS_REG + ARG_RD] 2 2 207,
     z8k_entry ''ldl'' 69 [CLASS_REG_LONG + ARG_RD, CLASS_DA + ARG_SRC] [CLASS_BIT + 5, CLASS_BIT + 4, CLASS_BIT + 0, CLASS_REG + ARG_RD, CLASS_ADDRESS + ARG_SRC] 2 4 208,
     z8k_entry ''ldl'' 69 [CLASS_REG_LONG + ARG_RD, CLASS_X + ARG_RS] [CLASS_BIT + 5, CLASS_BIT + 4, CLASS_REGN0 + ARG_RS, CLASS_REG + ARG_RD, CLASS_ADDRESS + ARG_SRC] 2 4 209,
     z8k_entry ''ldl'' 69 [CLASS_REG_LONG + ARG_RD, CLASS_IMM + ARG_IMM32] [CLASS_BIT + 1, CLASS_BIT + 4, CLASS_BIT + 0, CLASS_REG + ARG_RD, CLASS_IMM + ARG_IMM32] 2 6 210,
     z8k_entry ''ldl'' 69 [CLASS_REG_LONG + ARG_RD, CLASS_REG_LONG + ARG_RS] [CLASS_BIT + 9, CLASS_BIT + 4, CLASS_REG + ARG_RS, CLASS_REG + ARG_RD] 2 2 211,
     z8k_entry ''ldl'' 69 [CLASS_REG_LONG + ARG_RD, CLASS_BA + ARG_RS] [CLASS_BIT + 3, CLASS_BIT + 5, CLASS_REGN0 + ARG_RS, CLASS_REG + ARG_RD, CLASS_IMM + ARG_IMM16] 2 4 212,
     z8k_entry ''ldl'' 69 [CLASS_REG_LONG + ARG_RD, CLASS_BX + ARG_RS] [CLASS_BIT + 7, CLASS_BIT + 5, CLASS_REGN0 + ARG_RS, CLASS_REG + ARG_RD, CLASS_BIT + 0, CLASS_REG + ARG_RX, CLASS_BIT + 0, CLASS_BIT + 0] 2 4 213,
     z8k_entry ''ldm'' 70 [CLASS_IR + ARG_RD, CLASS_REG_WORD + ARG_RS, CLASS_IMM + ARG_IMMN] [CLASS_BIT + 1, CLASS_BIT + 0xc, CLASS_REGN0 + ARG_RD, CLASS_BIT + 9, CLASS_BIT + 0, CLASS_REG + ARG_RS, CLASS_BIT + 0, CLASS_IMM + ARG_IMMNMINUS1] 3 4 214,
     z8k_entry ''ldm'' 70 [CLASS_X + ARG_RD, CLASS_REG_WORD + ARG_RS, CLASS_IMM + ARG_IMMN] [CLASS_BIT + 5, CLASS_BIT + 0xc, CLASS_REGN0 + ARG_RD, CLASS_BIT + 9, CLASS_BIT + 0, CLASS_REG + ARG_RS, CLASS_BIT + 0, CLASS_IMM + ARG_IMMNMINUS1, CLASS_ADDRESS + ARG_DST] 3 6 215,
     z8k_entry ''ldm'' 70 [CLASS_DA + ARG_DST, CLASS_REG_WORD + ARG_RS, CLASS_IMM + ARG_IMMN] [CLASS_BIT + 5, CLASS_BIT + 0xc, CLASS_BIT + 0, CLASS_BIT + 9, CLASS_BIT + 0, CLASS_REG + ARG_RS, CLASS_BIT + 0, CLASS_IMM + ARG_IMMNMINUS1, CLASS_ADDRESS + ARG_DST] 3 6 216,
     z8k_entry ''ldm'' 70 [CLASS_REG_WORD + ARG_RD, CLASS_IR + ARG_RS, CLASS_IMM + ARG_IMMN] [CLASS_BIT + 1, CLASS_BIT + 0xc, CLASS_REGN0 + ARG_RS, CLASS_BIT + 1, CLASS_BIT + 0, CLASS_REG + ARG_RD, CLASS_BIT + 0, CLASS_IMM + ARG_IMMNMINUS1] 3 4 217,
     z8k_entry ''ldm'' 70 [CLASS_REG_WORD + ARG_RD, CLASS_X + ARG_RS, CLASS_IMM + ARG_IMMN] [CLASS_BIT + 5, CLASS_BIT + 0xc, CLASS_REGN0 + ARG_RS, CLASS_BIT + 1, CLASS_BIT + 0, CLASS_REG + ARG_RD, CLASS_BIT + 0, CLASS_IMM + ARG_IMMNMINUS1, CLASS_ADDRESS + ARG_SRC] 3 6 218,
     z8k_entry ''ldm'' 70 [CLASS_REG_WORD + ARG_RD, CLASS_DA + ARG_SRC, CLASS_IMM + ARG_IMMN] [CLASS_BIT + 5, CLASS_BIT + 0xc, CLASS_BIT + 0, CLASS_BIT + 1, CLASS_BIT + 0, CLASS_REG + ARG_RD, CLASS_BIT + 0, CLASS_IMM + ARG_IMMNMINUS1, CLASS_ADDRESS + ARG_SRC] 3 6 219,
     z8k_entry ''ldps'' 71 [CLASS_IR + ARG_RS] [CLASS_BIT + 3, CLASS_BIT + 9, CLASS_REGN0 + ARG_RS, CLASS_BIT + 0] 1 2 220,
     z8k_entry ''ldps'' 71 [CLASS_DA + ARG_SRC] [CLASS_BIT + 7, CLASS_BIT + 9, CLASS_BIT + 0, CLASS_BIT + 0, CLASS_ADDRESS + ARG_SRC] 1 4 221,
     z8k_entry ''ldps'' 71 [CLASS_X + ARG_RS] [CLASS_BIT + 7, CLASS_BIT + 9, CLASS_REGN0 + ARG_RS, CLASS_BIT + 0, CLASS_ADDRESS + ARG_SRC] 1 4 222,
     z8k_entry ''ldr'' 72 [CLASS_DISP, CLASS_REG_WORD + ARG_RS] [CLASS_BIT + 3, CLASS_BIT + 3, CLASS_BIT + 0, CLASS_REG + ARG_RS, CLASS_DISP + ARG_DISP16] 2 4 223,
     z8k_entry ''ldr'' 72 [CLASS_REG_WORD + ARG_RD, CLASS_DISP] [CLASS_BIT + 3, CLASS_BIT + 1, CLASS_BIT + 0, CLASS_REG + ARG_RD, CLASS_DISP + ARG_DISP16] 2 4 224,
     z8k_entry ''ldrb'' 73 [CLASS_DISP, CLASS_REG_BYTE + ARG_RS] [CLASS_BIT + 3, CLASS_BIT + 2, CLASS_BIT + 0, CLASS_REG + ARG_RS, CLASS_DISP + ARG_DISP16] 2 4 225,
     z8k_entry ''ldrb'' 73 [CLASS_REG_BYTE + ARG_RD, CLASS_DISP] [CLASS_BIT + 3, CLASS_BIT + 0, CLASS_BIT + 0, CLASS_REG + ARG_RD, CLASS_DISP + ARG_DISP16] 2 4 226,
     z8k_entry ''ldrl'' 74 [CLASS_DISP, CLASS_REG_LONG + ARG_RS] [CLASS_BIT + 3, CLASS_BIT + 7, CLASS_BIT + 0, CLASS_REG + ARG_RS, CLASS_DISP + ARG_DISP16] 2 4 227,
     z8k_entry ''ldrl'' 74 [CLASS_REG_LONG + ARG_RD, CLASS_DISP] [CLASS_BIT + 3, CLASS_BIT + 5, CLASS_BIT + 0, CLASS_REG + ARG_RD, CLASS_DISP + ARG_DISP16] 2 4 228]"

definition z8k_table_m :: "opcode_entry_type list" where
  "z8k_table_m = [
     z8k_entry ''mbit'' 75 [] [CLASS_BIT + 7, CLASS_BIT + 0xb, CLASS_BIT + 0, CLASS_BIT + 0xa] 0 2 229,
     z8k_entry ''mreq'' 76 [CLASS_REG_WORD + ARG_RD] [CLASS_BIT + 7, CLASS_BIT + 0xb, CLASS_REG + ARG_RD, CLASS_BIT + 0xd] 1 2 230,
     z8k_entry ''mres'' 77 [] [CLASS_BIT + 7, CLASS_BIT + 0xb, CLASS_BIT + 0, CLASS_BIT + 9] 0 2 231,
     z8k_entry ''mset'' 78 [] [CLASS_BIT + 7, CLASS_BIT + 0xb, CLASS_BIT + 0, CLASS_BIT + 8] 0 2 232,
     z8k_entry ''mult'' 79 [CLASS_REG_LONG + ARG_RD, CLASS_IR + ARG_RS] [CLASS_BIT + 1, CLASS_BIT + 9, CLASS_REGN0 + ARG_RS, CLASS_REG + ARG_RD] 2 2 233,
     z8k_entry ''mult'' 79 [CLASS_REG_LONG + ARG_RD, CLASS_DA + ARG_SRC] [CLASS_BIT + 5, CLASS_BIT + 9, CLASS_BIT + 0, CLASS_REG + ARG_RD, CLASS_ADDRESS + ARG_SRC] 2 4 234,
     z8k_entry ''mult'' 79 [CLASS_REG_LONG + ARG_RD, CLASS_X + ARG_RS] [CLASS_BIT + 5, CLASS_BIT + 9, CLASS_REGN0 + ARG_RS, CLASS_REG + ARG_RD, CLASS_ADDRESS + ARG_SRC] 2 4 235,
     z8k_entry ''mult'' 79 [CLASS_REG_LONG + ARG_RD, CLASS_IMM + ARG_IMM16] [CLASS_BIT + 1, CLASS_BIT + 9, CLASS_BIT + 0, CLASS_REG + ARG_RD, CLASS_IMM + ARG_IMM16] 2 4 236,
     z8k_entry ''mult'' 79 [CLASS_REG_LONG + ARG_RD, CLASS_REG_WORD + ARG_RS] [CLASS_BIT + 9, CLASS_BIT + 9, CLASS_REG + ARG_RS, CLASS_REG + ARG_RD] 2 2 237,
     z8k_entry ''multl'' 80 [CLASS_REG_QUAD + ARG_RD, CLASS_IR + ARG_RS] [CLASS_BIT + 1, CLASS_BIT + 8, CLASS_REGN0 + ARG_RS, CLASS_REG + ARG_RD] 2 2 238,
     z8k_entry ''multl'' 80 [CLASS_REG_QUAD + ARG_RD, CLASS_DA + ARG_SRC] [CLASS_BIT + 5, CLASS_BIT + 8, CLASS_BIT + 0, CLASS_REG + ARG_RD, CLASS_ADDRESS + ARG_SRC] 2 4 239,
     z8k_entry ''multl'' 80 [CLASS_REG_QUAD + ARG_RD, CLASS_X + ARG_RS] [CLASS_BIT + 5, CLASS_BIT + 8, CLASS_REGN0 + ARG_RS, CLASS_REG + ARG_RD, CLASS_ADDRESS + ARG_SRC] 2 4 240,
     z8k_entry ''multl'' 80 [CLASS_REG_QUAD + ARG_RD, CLASS_IMM + ARG_IMM32] [CLASS_BIT + 1, CLASS_BIT + 8, CLASS_BIT + 0, CLASS_REG + ARG_RD, CLASS_IMM + ARG_IMM32] 2 6 241,
     z8k_entry ''multl'' 80 [CLASS_REG_QUAD + ARG_RD, CLASS_REG_LONG + ARG_RS] [CLASS_BIT + 9, CLASS_BIT + 8, CLASS_REG + ARG_RS, CLASS_REG + ARG_RD] 2 2 242]"

definition z8k_table_n :: "opcode_entry_type list" where
  "z8k_table_n = [
     z8k_entry ''neg'' 81 [CLASS_IR + ARG_RD] [CLASS_BIT + 0, CLASS_BIT + 0xd, CLASS_REGN0 + ARG_RD, CLASS_BIT + 2] 1 2 243,
     z8k_entry ''neg'' 81 [CLASS_DA + ARG_DST] [CLASS_BIT + 4, CLASS_BIT + 0xd, CLASS_BIT + 0, CLASS_BIT + 2, CLASS_ADDRESS + ARG_DST] 1 4 244,
     z8k_entry ''neg'' 81 [CLASS_X + ARG_RD] [CLASS_BIT + 4, CLASS_BIT + 0xd, CLASS_REGN0 + ARG_RD, CLASS_BIT + 2, CLASS_ADDRESS + ARG_DST] 1 4 245,
     z8k_entry ''neg'' 81 [CLASS_REG_WORD + ARG_RD] [CLASS_BIT + 8, CLASS_BIT + 0xd, CLASS_REG + ARG_RD, CLASS_BIT + 2] 1 2 246,
     z8k_entry ''negb'' 82 [CLASS_IR + ARG_RD] [CLASS_BIT + 0, CLASS_BIT + 0xc, CLASS_REGN0 + ARG_RD, CLASS_BIT + 2] 1 2 247,
     z8k_entry ''negb'' 82 [CLASS_DA + ARG_DST] [CLASS_BIT + 4, CLASS_BIT + 0xc, CLASS_BIT + 0, CLASS_BIT + 2, CLASS_ADDRESS + ARG_DST] 1 4 248,
     z8k_entry ''negb'' 82 [CLASS_X + ARG_RD] [CLASS_BIT + 4, CLASS_BIT + 0xc, CLASS_REGN0 + ARG_RD, CLASS_BIT + 2, CLASS_ADDRESS + ARG_DST] 1 4 249,
     z8k_entry ''negb'' 82 [CLASS_REG_BYTE + ARG_RD] [CLASS_BIT + 8, CLASS_BIT + 0xc, CLASS_REG + ARG_RD, CLASS_BIT + 2] 1 2 250,
     z8k_entry ''nop'' 83 [] [CLASS_BIT + 8, CLASS_BIT + 0xd, CLASS_BIT + 0, CLASS_BIT + 7] 0 2 251]"

definition z8k_table_o :: "opcode_entry_type list" where
  "z8k_table_o = [
     z8k_entry ''or'' 84 [CLASS_REG_WORD + ARG_RD, CLASS_IR + ARG_RS] [CLASS_BIT + 0, CLASS_BIT + 5, CLASS_REGN0 + ARG_RS, CLASS_REG + ARG_RD] 2 2 252,
     z8k_entry ''or'' 84 [CLASS_REG_WORD + ARG_RD, CLASS_DA + ARG_SRC] [CLASS_BIT + 4, CLASS_BIT + 5, CLASS_BIT + 0, CLASS_REG + ARG_RD, CLASS_ADDRESS + ARG_SRC] 2 4 253,
     z8k_entry ''or'' 84 [CLASS_REG_WORD + ARG_RD, CLASS_X + ARG_RS] [CLASS_BIT + 4, CLASS_BIT + 5, CLASS_REGN0 + ARG_RS, CLASS_REG + ARG_RD, CLASS_ADDRESS + ARG_SRC] 2 4 254,
     z8k_entry ''or'' 84 [CLASS_REG_WORD + ARG_RD, CLASS_IMM + ARG_IMM16] [CLASS_BIT + 0, CLASS_BIT + 5, CLASS_BIT + 0, CLASS_REG + ARG_RD, CLASS_IMM + ARG_IMM16] 2 4 255,
     z8k_entry ''or'' 84 [CLASS_REG_WORD + ARG_RD, CLASS_REG_WORD + ARG_RS] [CLASS_BIT + 8, CLASS_BIT + 5, CLASS_REG + ARG_RS, CLASS_REG + ARG_RD] 2 2 256,
     z8k_entry ''orb'' 85 [CLASS_REG_BYTE + ARG_RD, CLASS_IR + ARG_RS] [CLASS_BIT + 0, CLASS_BIT + 4, CLASS_REGN0 + ARG_RS, CLASS_REG + ARG_RD] 2 2 257,
     z8k_entry ''orb'' 85 [CLASS_REG_BYTE + ARG_RD, CLASS_DA + ARG_SRC] [CLASS_BIT + 4, CLASS_BIT + 4, CLASS_BIT + 0, CLASS_REG + ARG_RD, CLASS_ADDRESS + ARG_SRC] 2 4 258,
     z8k_entry ''orb'' 85 [CLASS_REG_BYTE + ARG_RD, CLASS_X + ARG_RS] [CLASS_BIT + 4, CLASS_BIT + 4, CLASS_REGN0 + ARG_RS, CLASS_REG + ARG_RD, CLASS_ADDRESS + ARG_SRC] 2 4 259,
     z8k_entry ''orb'' 85 [CLASS_REG_BYTE + ARG_RD, CLASS_IMM + ARG_IMM8] [CLASS_BIT + 0, CLASS_BIT + 4, CLASS_BIT + 0, CLASS_REG + ARG_RD, CLASS_IMM + ARG_IMM8, CLASS_IMM + ARG_IMM8] 2 4 260,
     z8k_entry ''orb'' 85 [CLASS_REG_BYTE + ARG_RD, CLASS_REG_BYTE + ARG_RS] [CLASS_BIT + 8, CLASS_BIT + 4, CLASS_REG + ARG_RS, CLASS_REG + ARG_RD] 2 2 261,
     z8k_entry ''out'' 86 [CLASS_IR + ARG_RD, CLASS_REG_WORD + ARG_RS] [CLASS_BIT + 3, CLASS_BIT + 0xf, CLASS_REGN0 + ARG_RD, CLASS_REG + ARG_RS] 2 2 262,
     z8k_entry ''out'' 86 [CLASS_IMM + ARG_IMM16, CLASS_REG_WORD + ARG_RS] [CLASS_BIT + 3, CLASS_BIT + 0xb, CLASS_REG + ARG_RS, CLASS_BIT + 6, CLASS_IMM + ARG_IMM16] 2 4 263,
     z8k_entry ''outb'' 87 [CLASS_IR + ARG_RD, CLASS_REG_BYTE + ARG_RS] [CLASS_BIT + 3, CLASS_BIT + 0xe, CLASS_REGN0 + ARG_RD, CLASS_REG + ARG_RS] 2 2 264,
     z8k_entry ''outb'' 87 [CLASS_IMM + ARG_IMM16, CLASS_REG_BYTE + ARG_RS] [CLASS_BIT + 3, CLASS_BIT + 0xa, CLASS_REG + ARG_RS, CLASS_BIT + 6, CLASS_IMM + ARG_IMM16] 2 4 265,
     z8k_entry ''outd'' 88 [CLASS_IR + ARG_RD, CLASS_IR + ARG_RS, CLASS_REG_WORD + ARG_RA] [CLASS_BIT + 3, CLASS_BIT + 0xb, CLASS_REGN0 + ARG_RS, CLASS_BIT + 0xa, CLASS_BIT + 0, CLASS_REG + ARG_RA, CLASS_REGN0 + ARG_RD, CLASS_BIT + 8] 3 4 266,
     z8k_entry ''outdb'' 89 [CLASS_IR + ARG_RD, CLASS_IR + ARG_RS, CLASS_REG_BYTE + ARG_RA] [CLASS_BIT + 3, CLASS_BIT + 0xa, CLASS_REGN0 + ARG_RS, CLASS_BIT + 0xa, CLASS_BIT + 0, CLASS_REG + ARG_RA, CLASS_REGN0 + ARG_RD, CLASS_BIT + 8] 3 4 267,
     z8k_entry ''outi'' 173 [CLASS_IR + ARG_RD, CLASS_IR + ARG_RS, CLASS_REG_WORD + ARG_RA] [CLASS_BIT + 3, CLASS_BIT + 0xb, CLASS_REGN0 + ARG_RS, CLASS_BIT + 2, CLASS_BIT + 0, CLASS_REG + ARG_RA, CLASS_REGN0 + ARG_RD, CLASS_BIT + 8] 3 4 268,
     z8k_entry ''outib'' 90 [CLASS_IR + ARG_RD, CLASS_IR + ARG_RS, CLASS_REG_WORD + ARG_RA] [CLASS_BIT + 3, CLASS_BIT + 0xa, CLASS_REGN0 + ARG_RS, CLASS_BIT + 2, CLASS_BIT + 0, CLASS_REG + ARG_RA, CLASS_REGN0 + ARG_RD, CLASS_BIT + 8] 3 4 269,
     z8k_entry ''outibr'' 91 [CLASS_IR + ARG_RD, CLASS_IR + ARG_RS, CLASS_REG_WORD + ARG_RA] [CLASS_BIT + 3, CLASS_BIT + 0xa, CLASS_REGN0 + ARG_RS, CLASS_BIT + 2, CLASS_BIT + 0, CLASS_REG + ARG_RA, CLASS_REGN0 + ARG_RD, CLASS_BIT + 0] 3 4 270]"

definition z8k_table_p :: "opcode_entry_type list" where
  "z8k_table_p = [
     z8k_entry ''pop'' 92 [CLASS_IR + ARG_RD, CLASS_IR + ARG_RS] [CLASS_BIT + 1, CLASS_BIT + 7, CLASS_REGN0 + ARG_RS, CLASS_REGN0 + ARG_RD] 2 2 271,
     z8k_entry ''pop'' 92 [CLASS_X + ARG_RD, CLASS_IR + ARG_RS] [CLASS_BIT + 5, CLASS_BIT + 7, CLASS_REGN0 + ARG_RS, CLASS_REGN0 + ARG_RD, CLASS_ADDRESS + ARG_DST] 2 4 272,
     z8k_entry ''pop'' 92 [CLASS_DA + ARG_DST, CLASS_IR + ARG_RS] [CLASS_BIT + 5, CLASS_BIT + 7, CLASS_REGN0 + ARG_RS, CLASS_BIT + 0, CLASS_ADDRESS + ARG_DST] 2 4 273,
     z8k_entry ''pop'' 92 [CLASS_REG_WORD + ARG_RD, CLASS_IR + ARG_RS] [CLASS_BIT + 9, CLASS_BIT + 7, CLASS_REGN0 + ARG_RS, CLASS_REG + ARG_RD] 2 2 274,
     z8k_entry ''popl'' 93 [CLASS_IR + ARG_RD, CLASS_IR + ARG_RS] [CLASS_BIT + 1, CLASS_BIT + 5, CLASS_REGN0 + ARG_RS, CLASS_REGN0 + ARG_RD] 2 2 275,
     z8k_entry ''popl'' 93 [CLASS_X + ARG_RD, CLASS_IR + ARG_RS] [CLASS_BIT + 5, CLASS_BIT + 5, CLASS_REGN0 + ARG_RS, CLASS_REGN0 + ARG_RD, CLASS_ADDRESS + ARG_DST] 2 4 276,
     z8k_entry ''popl'' 93 [CLASS_DA + ARG_DST, CLASS_IR + ARG_RS] [CLASS_BIT + 5, CLASS_BIT + 5, CLASS_REGN0 + ARG_RS, CLASS_BIT + 0, CLASS_ADDRESS + ARG_DST] 2 4 277,
     z8k_entry ''popl'' 93 [CLASS_REG_LONG + ARG_RD, CLASS_IR + ARG_RS] [CLASS_BIT + 9, CLASS_BIT + 5, CLASS_REGN0 + ARG_RS, CLASS_REG + ARG_RD] 2 2 278,
     z8k_entry ''push'' 94 [CLASS_IR + ARG_RD, CLASS_IR + ARG_RS] [CLASS_BIT + 1, CLASS_BIT + 3, CLASS_REGN0 + ARG_RD, CLASS_REGN0 + ARG_RS] 2 2 279,
     z8k_entry ''push'' 94 [CLASS_IR + ARG_RD, CLASS_DA + ARG_SRC] [CLASS_BIT + 5, CLASS_BIT + 3, CLASS_REGN0 + ARG_RD, CLASS_BIT + 0, CLASS_ADDRESS + ARG_SRC] 2 4 280,
     z8k_entry ''push'' 94 [CLASS_IR + ARG_RD, CLASS_X + ARG_RS] [CLASS_BIT + 5, CLASS_BIT + 3, CLASS_REGN0 + ARG_RD, CLASS_REGN0 + ARG_RS, CLASS_ADDRESS + ARG_SRC] 2 4 281,
     z8k_entry ''push'' 94 [CLASS_IR + ARG_RD, CLASS_IMM + ARG_IMM16] [CLASS_BIT + 0, CLASS_BIT + 0xd, CLASS_REGN0 + ARG_RD, CLASS_BIT + 9, CLASS_IMM + ARG_IMM16] 2 4 282,
     z8k_entry ''push'' 94 [CLASS_IR + ARG_RD, CLASS_REG_WORD + ARG_RS] [CLASS_BIT + 9, CLASS_BIT + 3, CLASS_REGN0 + ARG_RD, CLASS_REG + ARG_RS] 2 2 283,
     z8k_entry ''pushl'' 95 [CLASS_IR + ARG_RD, CLASS_IR + ARG_RS] [CLASS_BIT + 1, CLASS_BIT + 1, CLASS_REGN0 + ARG_RD, CLASS_REGN0 + ARG_RS] 2 2 284,
     z8k_entry ''pushl'' 95 [CLASS_IR + ARG_RD, CLASS_DA + ARG_SRC] [CLASS_BIT + 5, CLASS_BIT + 1, CLASS_REGN0 + ARG_RD, CLASS_BIT + 0, CLASS_ADDRESS + ARG_SRC] 2 4 285,
     z8k_entry ''pushl'' 95 [CLASS_IR + ARG_RD, CLASS_X + ARG_RS] [CLASS_BIT + 5, CLASS_BIT + 1, CLASS_REGN0 + ARG_RD, CLASS_REGN0 + ARG_RS, CLASS_ADDRESS + ARG_SRC] 2 4 286,
     z8k_entry ''pushl'' 95 [CLASS_IR + ARG_RD, CLASS_REG_LONG + ARG_RS] [CLASS_BIT + 9, CLASS_BIT + 1, CLASS_REGN0 + ARG_RD, CLASS_REG + ARG_RS] 2 2 287]"

definition z8k_table_r :: "opcode_entry_type list" where
  "z8k_table_r = [
     z8k_entry ''res'' 96 [CLASS_IR + ARG_RD, CLASS_IMM + ARG_IMM4] [CLASS_BIT + 2, CLASS_BIT + 3, CLASS_REGN0 + ARG_RD, CLASS_IMM + ARG_IMM4] 2 2 288,
     z8k_entry ''res'' 96 [CLASS_X + ARG_RD, CLASS_IMM + ARG_IMM4] [CLASS_BIT + 6, CLASS_BIT + 3, CLASS_REGN0 + ARG_RD, CLASS_IMM + ARG_IMM4, CLASS_ADDRESS + ARG_DST] 2 4 289,
     z8k_entry ''res'' 96 [CLASS_DA + ARG_DST, CLASS_IMM + ARG_IMM4] [CLASS_BIT + 6, CLASS_BIT + 3, CLASS_BIT + 0, CLASS_IMM + ARG_IMM4, CLASS_ADDRESS + ARG_DST] 2 4 290,
     z8k_entry ''res'' 96 [CLASS_REG_WORD + ARG_RD, CLASS_IMM + ARG_IMM4] [CLASS_BIT + 0xa, CLASS_BIT + 3, CLASS_REG + ARG_RD, CLASS_IMM + ARG_IMM4] 2 2 291,
     z8k_entry ''res'' 96 [CLASS_REG_WORD + ARG_RD, CLASS_REG_WORD + ARG_RS] [CLASS_BIT + 2, CLASS_BIT + 3, CLASS_BIT + 0, CLASS_REG + ARG_RS, CLASS_BIT + 0, CLASS_REG + ARG_RD, CLASS_BIT + 0, CLASS_BIT + 0] 2 4 292,
     z8k_entry ''resb'' 97 [CLASS_IR + ARG_RD, CLASS_IMM + ARG_IMM4] [CLASS_BIT + 2, CLASS_BIT + 2, CLASS_REGN0 + ARG_RD, CLASS_IMM + ARG_IMM4] 2 2 293,
     z8k_entry ''resb'' 97 [CLASS_X + ARG_RD, CLASS_IMM + ARG_IMM4] [CLASS_BIT + 6, CLASS_BIT + 2, CLASS_REGN0 + ARG_RD, CLASS_IMM + ARG_IMM4, CLASS_ADDRESS + ARG_DST] 2 4 294,
     z8k_entry ''resb'' 97 [CLASS_DA + ARG_DST, CLASS_IMM + ARG_IMM4] [CLASS_BIT + 6, CLASS_BIT + 2, CLASS_BIT + 0, CLASS_IMM + ARG_IMM4, CLASS_ADDRESS + ARG_DST] 2 4 295,
     z8k_entry ''resb'' 97 [CLASS_REG_BYTE + ARG_RD, CLASS_IMM + ARG_IMM4] [CLASS_BIT + 0xa, CLASS_BIT + 2, CLASS_REG + ARG_RD, CLASS_IMM + ARG_IMM4] 2 2 296,
     z8k_entry ''resb'' 97 [CLASS_REG_BYTE + ARG_RD, CLASS_REG_WORD + ARG_RS] [CLASS_BIT + 2, CLASS_BIT + 2, CLASS_BIT + 0, CLASS_REG + ARG_RS, CLASS_BIT + 0, CLASS_REG + ARG_RD, CLASS_BIT + 0, CLASS_BIT + 0] 2 4 297,
     z8k_entry ''resflg'' 98 [CLASS_FLAGS] [CLASS_BIT + 8, CLASS_BIT + 0xd, CLASS_FLAGS, CLASS_BIT + 3] 1 2 298,
     z8k_entry ''ret'' 99 [CLASS_CC] [CLASS_BIT + 9, CLASS_BIT + 0xe, CLASS_BIT + 0, CLASS_CC] 1 2 299,
     z8k_entry ''rl'' 100 [CLASS_REG_WORD + ARG_RD, CLASS_IMM + ARG_IMM1OR2] [CLASS_BIT + 0xb, CLASS_BIT + 3, CLASS_REG + ARG_RD, CLASS_BIT_1OR2 + 0] 2 2 300,
     z8k_entry ''rlb'' 101 [CLASS_REG_BYTE + ARG_RD, CLASS_IMM + ARG_IMM1OR2] [CLASS_BIT + 0xb, CLASS_BIT + 2, CLASS_REG + ARG_RD, CLASS_BIT_1OR2 + 0] 2 2 301,
     z8k_entry ''rlc'' 102 [CLASS_REG_WORD + ARG_RD, CLASS_IMM + ARG_IMM1OR2] [CLASS_BIT + 0xb, CLASS_BIT + 3, CLASS_REG + ARG_RD, CLASS_BIT_1OR2 + 8] 2 2 302,
     z8k_entry ''rlcb'' 103 [CLASS_REG_BYTE + ARG_RD, CLASS_IMM + ARG_IMM1OR2] [CLASS_BIT + 0xb, CLASS_BIT + 2, CLASS_REG + ARG_RD, CLASS_BIT_1OR2 + 8] 2 2 303,
     z8k_entry ''rldb'' 104 [CLASS_REG_BYTE + ARG_RB, CLASS_REG_BYTE + ARG_RA] [CLASS_BIT + 0xb, CLASS_BIT + 0xe, CLASS_REG + ARG_RA, CLASS_REG + ARG_RB] 2 2 304,
     z8k_entry ''rr'' 105 [CLASS_REG_WORD + ARG_RD, CLASS_IMM + ARG_IMM1OR2] [CLASS_BIT + 0xb, CLASS_BIT + 3, CLASS_REG + ARG_RD, CLASS_BIT_1OR2 + 4] 2 2 305,
     z8k_entry ''rrb'' 106 [CLASS_REG_BYTE + ARG_RD, CLASS_IMM + ARG_IMM1OR2] [CLASS_BIT + 0xb, CLASS_BIT + 2, CLASS_REG + ARG_RD, CLASS_BIT_1OR2 + 4] 2 2 306,
     z8k_entry ''rrc'' 107 [CLASS_REG_WORD + ARG_RD, CLASS_IMM + ARG_IMM1OR2] [CLASS_BIT + 0xb, CLASS_BIT + 3, CLASS_REG + ARG_RD, CLASS_BIT_1OR2 + 0xc] 2 2 307,
     z8k_entry ''rrcb'' 108 [CLASS_REG_BYTE + ARG_RD, CLASS_IMM + ARG_IMM1OR2] [CLASS_BIT + 0xb, CLASS_BIT + 2, CLASS_REG + ARG_RD, CLASS_BIT_1OR2 + 0xc] 2 2 308,
     z8k_entry ''rrdb'' 109 [CLASS_REG_BYTE + ARG_RB, CLASS_REG_BYTE + ARG_RA] [CLASS_BIT + 0xb, CLASS_BIT + 0xc, CLASS_REG + ARG_RA, CLASS_REG + ARG_RB] 2 2 309,
     z8k_entry ''rsvd36'' 172 [] [CLASS_BIT + 3, CLASS_BIT + 6, CLASS_IMM + ARG_IMM8] 0 2 310,
     z8k_entry ''rsvd38'' 172 [] [CLASS_BIT + 3, CLASS_BIT + 8, CLASS_IMM + ARG_IMM8] 0 2 311,
     z8k_entry ''rsvd78'' 172 [] [CLASS_BIT + 7, CLASS_BIT + 8, CLASS_IMM + ARG_IMM8] 0 2 312,
     z8k_entry ''rsvd7e'' 172 [] [CLASS_BIT + 7, CLASS_BIT + 0xe, CLASS_IMM + ARG_IMM8] 0 2 313,
     z8k_entry ''rsvd9d'' 172 [] [CLASS_BIT + 9, CLASS_BIT + 0xd, CLASS_IMM + ARG_IMM8] 0 2 314,
     z8k_entry ''rsvd9f'' 172 [] [CLASS_BIT + 9, CLASS_BIT + 0xf, CLASS_IMM + ARG_IMM8] 0 2 315,
     z8k_entry ''rsvdb9'' 172 [] [CLASS_BIT + 0xb, CLASS_BIT + 9, CLASS_IMM + ARG_IMM8] 0 2 316,
     z8k_entry ''rsvdbf'' 172 [] [CLASS_BIT + 0xb, CLASS_BIT + 0xf, CLASS_IMM + ARG_IMM8] 0 2 317]"

definition z8k_table_s :: "opcode_entry_type list" where
  "z8k_table_s = [
     z8k_entry ''sbc'' 110 [CLASS_REG_WORD + ARG_RD, CLASS_REG_WORD + ARG_RS] [CLASS_BIT + 0xb, CLASS_BIT + 7, CLASS_REG + ARG_RS, CLASS_REG + ARG_RD] 2 2 318,
     z8k_entry ''sbcb'' 111 [CLASS_REG_BYTE + ARG_RD, CLASS_REG_BYTE + ARG_RS] [CLASS_BIT + 0xb, CLASS_BIT + 6, CLASS_REG + ARG_RS, CLASS_REG + ARG_RD] 2 2 319,
     z8k_entry ''sc'' 170 [CLASS_IMM + ARG_IMM8] [CLASS_BIT + 7, CLASS_BIT + 0xf, CLASS_IMM + ARG_IMM8] 1 2 320,
     z8k_entry ''sda'' 112 [CLASS_REG_WORD + ARG_RD, CLASS_REG_WORD + ARG_RS] [CLASS_BIT + 0xb, CLASS_BIT + 3, CLASS_REG + ARG_RD, CLASS_BIT + 0xb, CLASS_BIT + 0, CLASS_REG + ARG_RS, CLASS_BIT + 0, CLASS_BIT + 0] 2 4 321,
     z8k_entry ''sdab'' 113 [CLASS_REG_BYTE + ARG_RD, CLASS_REG_WORD + ARG_RS] [CLASS_BIT + 0xb, CLASS_BIT + 2, CLASS_REG + ARG_RD, CLASS_BIT + 0xb, CLASS_BIT + 0, CLASS_REG + ARG_RS, CLASS_BIT + 0, CLASS_BIT + 0] 2 4 322,
     z8k_entry ''sdal'' 114 [CLASS_REG_LONG + ARG_RD, CLASS_REG_WORD + ARG_RS] [CLASS_BIT + 0xb, CLASS_BIT + 3, CLASS_REG + ARG_RD, CLASS_BIT + 0xf, CLASS_BIT + 0, CLASS_REG + ARG_RS, CLASS_BIT + 0, CLASS_BIT + 0] 2 4 323,
     z8k_entry ''sdl'' 115 [CLASS_REG_WORD + ARG_RD, CLASS_REG_WORD + ARG_RS] [CLASS_BIT + 0xb, CLASS_BIT + 3, CLASS_REG + ARG_RD, CLASS_BIT + 3, CLASS_BIT + 0, CLASS_REG + ARG_RS, CLASS_BIT + 0, CLASS_BIT + 0] 2 4 324,
     z8k_entry ''sdlb'' 116 [CLASS_REG_BYTE + ARG_RD, CLASS_REG_WORD + ARG_RS] [CLASS_BIT + 0xb, CLASS_BIT + 2, CLASS_REG + ARG_RD, CLASS_BIT + 3, CLASS_BIT + 0, CLASS_REG + ARG_RS, CLASS_BIT + 0, CLASS_BIT + 0] 2 4 325,
     z8k_entry ''sdll'' 117 [CLASS_REG_LONG + ARG_RD, CLASS_REG_WORD + ARG_RS] [CLASS_BIT + 0xb, CLASS_BIT + 3, CLASS_REG + ARG_RD, CLASS_BIT + 7, CLASS_BIT + 0, CLASS_REG + ARG_RS, CLASS_BIT + 0, CLASS_BIT + 0] 2 4 326,
     z8k_entry ''set'' 118 [CLASS_IR + ARG_RD, CLASS_IMM + ARG_IMM4] [CLASS_BIT + 2, CLASS_BIT + 5, CLASS_REGN0 + ARG_RD, CLASS_IMM + ARG_IMM4] 2 2 327,
     z8k_entry ''set'' 118 [CLASS_X + ARG_RD, CLASS_IMM + ARG_IMM4] [CLASS_BIT + 6, CLASS_BIT + 5, CLASS_REGN0 + ARG_RD, CLASS_IMM + ARG_IMM4, CLASS_ADDRESS + ARG_DST] 2 4 328,
     z8k_entry ''set'' 118 [CLASS_DA + ARG_DST, CLASS_IMM + ARG_IMM4] [CLASS_BIT + 6, CLASS_BIT + 5, CLASS_BIT + 0, CLASS_IMM + ARG_IMM4, CLASS_ADDRESS + ARG_DST] 2 4 329,
     z8k_entry ''set'' 118 [CLASS_REG_WORD + ARG_RD, CLASS_IMM + ARG_IMM4] [CLASS_BIT + 0xa, CLASS_BIT + 5, CLASS_REG + ARG_RD, CLASS_IMM + ARG_IMM4] 2 2 330,
     z8k_entry ''set'' 118 [CLASS_REG_WORD + ARG_RD, CLASS_REG_WORD + ARG_RS] [CLASS_BIT + 2, CLASS_BIT + 5, CLASS_BIT + 0, CLASS_REG + ARG_RS, CLASS_BIT + 0, CLASS_REG + ARG_RD, CLASS_BIT + 0, CLASS_BIT + 0] 2 4 331,
     z8k_entry ''setb'' 119 [CLASS_IR + ARG_RD, CLASS_IMM + ARG_IMM4] [CLASS_BIT + 2, CLASS_BIT + 4, CLASS_REGN0 + ARG_RD, CLASS_IMM + ARG_IMM4] 2 2 332,
     z8k_entry ''setb'' 119 [CLASS_X + ARG_RD, CLASS_IMM + ARG_IMM4] [CLASS_BIT + 6, CLASS_BIT + 4, CLASS_REGN0 + ARG_RD, CLASS_IMM + ARG_IMM4, CLASS_ADDRESS + ARG_DST] 2 4 333,
     z8k_entry ''setb'' 119 [CLASS_DA + ARG_DST, CLASS_IMM + ARG_IMM4] [CLASS_BIT + 6, CLASS_BIT + 4, CLASS_BIT + 0, CLASS_IMM + ARG_IMM4, CLASS_ADDRESS + ARG_DST] 2 4 334,
     z8k_entry ''setb'' 119 [CLASS_REG_BYTE + ARG_RD, CLASS_IMM + ARG_IMM4] [CLASS_BIT + 0xa, CLASS_BIT + 4, CLASS_REG + ARG_RD, CLASS_IMM + ARG_IMM4] 2 2 335,
     z8k_entry ''setb'' 119 [CLASS_REG_BYTE + ARG_RD, CLASS_REG_WORD + ARG_RS] [CLASS_BIT + 2, CLASS_BIT + 4, CLASS_BIT + 0, CLASS_REG + ARG_RS, CLASS_BIT + 0, CLASS_REG + ARG_RD, CLASS_BIT + 0, CLASS_BIT + 0] 2 4 336,
     z8k_entry ''setflg'' 120 [CLASS_FLAGS] [CLASS_BIT + 8, CLASS_BIT + 0xd, CLASS_FLAGS, CLASS_BIT + 1] 1 2 337,
     z8k_entry ''sinb'' 121 [CLASS_REG_BYTE + ARG_RD, CLASS_IMM + ARG_IMM16] [CLASS_BIT + 3, CLASS_BIT + 0xa, CLASS_REG + ARG_RD, CLASS_BIT + 5, CLASS_IMM + ARG_IMM16] 2 4 338,
     z8k_entry ''sinb'' 121 [CLASS_REG_WORD + ARG_RD, CLASS_IMM + ARG_IMM16] [CLASS_BIT + 3, CLASS_BIT + 0xb, CLASS_REG + ARG_RD, CLASS_BIT + 5, CLASS_IMM + ARG_IMM16] 2 4 339,
     z8k_entry ''sind'' 122 [CLASS_IR + ARG_RD, CLASS_IR + ARG_RS, CLASS_REG_WORD + ARG_RA] [CLASS_BIT + 3, CLASS_BIT + 0xb, CLASS_REGN0 + ARG_RS, CLASS_BIT + 8, CLASS_BIT + 1, CLASS_REG + ARG_RA, CLASS_REGN0 + ARG_RD, CLASS_BIT + 8] 3 4 340,
     z8k_entry ''sindb'' 123 [CLASS_IR + ARG_RD, CLASS_IR + ARG_RS, CLASS_REG_BYTE + ARG_RA] [CLASS_BIT + 3, CLASS_BIT + 0xa, CLASS_REGN0 + ARG_RS, CLASS_BIT + 8, CLASS_BIT + 1, CLASS_REG + ARG_RA, CLASS_REGN0 + ARG_RD, CLASS_BIT + 8] 3 4 341,
     z8k_entry ''sinib'' 124 [CLASS_IR + ARG_RD, CLASS_IR + ARG_RS, CLASS_REG_WORD + ARG_RA] [CLASS_BIT + 3, CLASS_BIT + 0xa, CLASS_REGN0 + ARG_RS, CLASS_BIT + 1, CLASS_BIT + 0, CLASS_REG + ARG_RA, CLASS_REGN0 + ARG_RD, CLASS_BIT + 8] 3 4 342,
     z8k_entry ''sinibr'' 125 [CLASS_IR + ARG_RD, CLASS_IR + ARG_RS, CLASS_REG_WORD + ARG_RA] [CLASS_BIT + 3, CLASS_BIT + 0xa, CLASS_REGN0 + ARG_RS, CLASS_BIT + 1, CLASS_BIT + 0, CLASS_REG + ARG_RA, CLASS_REGN0 + ARG_RD, CLASS_BIT + 0] 3 4 343,
     z8k_entry ''sla'' 126 [CLASS_REG_WORD + ARG_RD, CLASS_IMM + ARG_IMM8] [CLASS_BIT + 0xb, CLASS_BIT + 3, CLASS_REG + ARG_RD, CLASS_BIT + 9, CLASS_BIT + 0, CLASS_BIT + 0, CLASS_IMM + ARG_IMM8] 2 4 344,
     z8k_entry ''slab'' 127 [CLASS_REG_BYTE + ARG_RD, CLASS_IMM + ARG_IMM8] [CLASS_BIT + 0xb, CLASS_BIT + 2, CLASS_REG + ARG_RD, CLASS_BIT + 9, CLASS_BIT + 0, CLASS_BIT + 0, CLASS_IMM + ARG_IMM8] 2 4 345,
     z8k_entry ''slal'' 128 [CLASS_REG_LONG + ARG_RD, CLASS_IMM + ARG_IMM8] [CLASS_BIT + 0xb, CLASS_BIT + 3, CLASS_REG + ARG_RD, CLASS_BIT + 0xd, CLASS_BIT + 0, CLASS_BIT + 0, CLASS_IMM + ARG_IMM8] 2 4 346,
     z8k_entry ''sll'' 129 [CLASS_REG_WORD + ARG_RD, CLASS_IMM + ARG_IMM8] [CLASS_BIT + 0xb, CLASS_BIT + 3, CLASS_REG + ARG_RD, CLASS_BIT + 1, CLASS_BIT + 0, CLASS_BIT + 0, CLASS_IMM + ARG_IMM8] 2 4 347,
     z8k_entry ''sllb'' 130 [CLASS_REG_BYTE + ARG_RD, CLASS_IMM + ARG_IMM8] [CLASS_BIT + 0xb, CLASS_BIT + 2, CLASS_REG + ARG_RD, CLASS_BIT + 1, CLASS_BIT + 0, CLASS_BIT + 0, CLASS_IMM + ARG_IMM8] 2 4 348,
     z8k_entry ''slll'' 131 [CLASS_REG_LONG + ARG_RD, CLASS_IMM + ARG_IMM8] [CLASS_BIT + 0xb, CLASS_BIT + 3, CLASS_REG + ARG_RD, CLASS_BIT + 5, CLASS_BIT + 0, CLASS_BIT + 0, CLASS_IMM + ARG_IMM8] 2 4 349,
     z8k_entry ''sout'' 132 [CLASS_IMM + ARG_IMM16, CLASS_REG_WORD + ARG_RS] [CLASS_BIT + 3, CLASS_BIT + 0xb, CLASS_REG + ARG_RS, CLASS_BIT + 7, CLASS_IMM + ARG_IMM16] 2 4 350,
     z8k_entry ''soutb'' 133 [CLASS_IMM + ARG_IMM16, CLASS_REG_BYTE + ARG_RS] [CLASS_BIT + 3, CLASS_BIT + 0xa, CLASS_REG + ARG_RS, CLASS_BIT + 7, CLASS_IMM + ARG_IMM16] 2 4 351,
     z8k_entry ''soutd'' 134 [CLASS_IR + ARG_RD, CLASS_IR + ARG_RS, CLASS_REG_WORD + ARG_RA] [CLASS_BIT + 3, CLASS_BIT + 0xb, CLASS_REGN0 + ARG_RS, CLASS_BIT + 0xb, CLASS_BIT + 0, CLASS_REG + ARG_RA, CLASS_REGN0 + ARG_RD, CLASS_BIT + 8] 3 4 352,
     z8k_entry ''soutdb'' 135 [CLASS_IR + ARG_RD, CLASS_IR + ARG_RS, CLASS_REG_BYTE + ARG_RA] [CLASS_BIT + 3, CLASS_BIT + 0xa, CLASS_REGN0 + ARG_RS, CLASS_BIT + 0xb, CLASS_BIT + 0, CLASS_REG + ARG_RA, CLASS_REGN0 + ARG_RD, CLASS_BIT + 8] 3 4 353,
     z8k_entry ''soutib'' 136 [CLASS_IR + ARG_RD, CLASS_IR + ARG_RS, CLASS_REG_WORD + ARG_RA] [CLASS_BIT + 3, CLASS_BIT + 0xa, CLASS_REGN0 + ARG_RS, CLASS_BIT + 3, CLASS_BIT + 0, CLASS_REG + ARG_RA, CLASS_REGN0 + ARG_RD, CLASS_BIT + 8] 3 4 354,
     z8k_entry ''soutibr'' 137 [CLASS_IR + ARG_RD, CLASS_IR + ARG_RS, CLASS_REG_WORD + ARG_RA] [CLASS_BIT + 3, CLASS_BIT + 0xa, CLASS_REGN0 + ARG_RS, CLASS_BIT + 3, CLASS_BIT + 0, CLASS_REG + ARG_RA, CLASS_REGN0 + ARG_RD, CLASS_BIT + 0] 3 4 355,
     z8k_entry ''sra'' 138 [CLASS_REG_WORD + ARG_RD, CLASS_IMM + ARG_IMM8] [CLASS_BIT + 0xb, CLASS_BIT + 3, CLASS_REG + ARG_RD, CLASS_BIT + 9, CLASS_BIT + 0xf, CLASS_BIT + 0xf, CLASS_IMM + ARG_NIM8] 2 4 356,
     z8k_entry ''srab'' 139 [CLASS_REG_BYTE + ARG_RD, CLASS_IMM + ARG_IMM8] [CLASS_BIT + 0xb, CLASS_BIT + 2, CLASS_REG + ARG_RD, CLASS_BIT + 9, CLASS_BIT + 0, CLASS_BIT + 0, CLASS_IMM + ARG_NIM8] 2 4 357,
     z8k_entry ''sral'' 140 [CLASS_REG_LONG + ARG_RD, CLASS_IMM + ARG_IMM8] [CLASS_BIT + 0xb, CLASS_BIT + 3, CLASS_REG + ARG_RD, CLASS_BIT + 0xd, CLASS_BIT + 0xf, CLASS_BIT + 0xf, CLASS_IMM + ARG_NIM8] 2 4 358,
     z8k_entry ''srl'' 141 [CLASS_REG_WORD + ARG_RD, CLASS_IMM + ARG_IMM8] [CLASS_BIT + 0xb, CLASS_BIT + 3, CLASS_REG + ARG_RD, CLASS_BIT + 1, CLASS_BIT + 0xf, CLASS_BIT + 0xf, CLASS_IMM + ARG_NIM8] 2 4 359,
     z8k_entry ''srlb'' 142 [CLASS_REG_BYTE + ARG_RD, CLASS_IMM + ARG_IMM8] [CLASS_BIT + 0xb, CLASS_BIT + 2, CLASS_REG + ARG_RD, CLASS_BIT + 1, CLASS_BIT + 0, CLASS_BIT + 0, CLASS_IMM + ARG_NIM8] 2 4 360,
     z8k_entry ''srll'' 143 [CLASS_REG_LONG + ARG_RD, CLASS_IMM + ARG_IMM8] [CLASS_BIT + 0xb, CLASS_BIT + 3, CLASS_REG + ARG_RD, CLASS_BIT + 5, CLASS_BIT + 0xf, CLASS_BIT + 0xf, CLASS_IMM + ARG_NIM8] 2 4 361,
     z8k_entry ''sub'' 144 [CLASS_REG_WORD + ARG_RD, CLASS_IR + ARG_RS] [CLASS_BIT + 0, CLASS_BIT + 3, CLASS_REGN0 + ARG_RS, CLASS_REG + ARG_RD] 2 2 362,
     z8k_entry ''sub'' 144 [CLASS_REG_WORD + ARG_RD, CLASS_DA + ARG_SRC] [CLASS_BIT + 4, CLASS_BIT + 3, CLASS_BIT + 0, CLASS_REG + ARG_RD, CLASS_ADDRESS + ARG_SRC] 2 4 363,
     z8k_entry ''sub'' 144 [CLASS_REG_WORD + ARG_RD, CLASS_X + ARG_RS] [CLASS_BIT + 4, CLASS_BIT + 3, CLASS_REGN0 + ARG_RS, CLASS_REG + ARG_RD, CLASS_ADDRESS + ARG_SRC] 2 4 364,
     z8k_entry ''sub'' 144 [CLASS_REG_WORD + ARG_RD, CLASS_IMM + ARG_IMM16] [CLASS_BIT + 0, CLASS_BIT + 3, CLASS_BIT + 0, CLASS_REG + ARG_RD, CLASS_IMM + ARG_IMM16] 2 4 365,
     z8k_entry ''sub'' 144 [CLASS_REG_WORD + ARG_RD, CLASS_REG_WORD + ARG_RS] [CLASS_BIT + 8, CLASS_BIT + 3, CLASS_REG + ARG_RS, CLASS_REG + ARG_RD] 2 2 366,
     z8k_entry ''subb'' 145 [CLASS_REG_BYTE + ARG_RD, CLASS_IR + ARG_RS] [CLASS_BIT + 0, CLASS_BIT + 2, CLASS_REGN0 + ARG_RS, CLASS_REG + ARG_RD] 2 2 367,
     z8k_entry ''subb'' 145 [CLASS_REG_BYTE + ARG_RD, CLASS_DA + ARG_SRC] [CLASS_BIT + 4, CLASS_BIT + 2, CLASS_BIT + 0, CLASS_REG + ARG_RD, CLASS_ADDRESS + ARG_SRC] 2 4 368,
     z8k_entry ''subb'' 145 [CLASS_REG_BYTE + ARG_RD, CLASS_X + ARG_RS] [CLASS_BIT + 4, CLASS_BIT + 2, CLASS_REGN0 + ARG_RS, CLASS_REG + ARG_RD, CLASS_ADDRESS + ARG_SRC] 2 4 369,
     z8k_entry ''subb'' 145 [CLASS_REG_BYTE + ARG_RD, CLASS_IMM + ARG_IMM8] [CLASS_BIT + 0, CLASS_BIT + 2, CLASS_BIT + 0, CLASS_REG + ARG_RD, CLASS_IMM + ARG_IMM8, CLASS_IMM + ARG_IMM8] 2 4 370,
     z8k_entry ''subb'' 145 [CLASS_REG_BYTE + ARG_RD, CLASS_REG_BYTE + ARG_RS] [CLASS_BIT + 8, CLASS_BIT + 2, CLASS_REG + ARG_RS, CLASS_REG + ARG_RD] 2 2 371,
     z8k_entry ''subl'' 146 [CLASS_REG_LONG + ARG_RD, CLASS_IR + ARG_RS] [CLASS_BIT + 1, CLASS_BIT + 2, CLASS_REGN0 + ARG_RS, CLASS_REG + ARG_RD] 2 2 372,
     z8k_entry ''subl'' 146 [CLASS_REG_LONG + ARG_RD, CLASS_DA + ARG_SRC] [CLASS_BIT + 5, CLASS_BIT + 2, CLASS_BIT + 0, CLASS_REG + ARG_RD, CLASS_ADDRESS + ARG_SRC] 2 4 373,
     z8k_entry ''subl'' 146 [CLASS_REG_LONG + ARG_RD, CLASS_X + ARG_RS] [CLASS_BIT + 5, CLASS_BIT + 2, CLASS_REGN0 + ARG_RS, CLASS_REG + ARG_RD, CLASS_ADDRESS + ARG_SRC] 2 4 374,
     z8k_entry ''subl'' 146 [CLASS_REG_LONG + ARG_RD, CLASS_IMM + ARG_IMM32] [CLASS_BIT + 1, CLASS_BIT + 2, CLASS_BIT + 0, CLASS_REG + ARG_RD, CLASS_IMM + ARG_IMM32] 2 6 375,
     z8k_entry ''subl'' 146 [CLASS_REG_LONG + ARG_RD, CLASS_REG_LONG + ARG_RS] [CLASS_BIT + 9, CLASS_BIT + 2, CLASS_REG + ARG_RS, CLASS_REG + ARG_RD] 2 2 376]"

definition z8k_table_t :: "opcode_entry_type list" where
  "z8k_table_t = [
     z8k_entry ''tcc'' 147 [CLASS_CC, CLASS_REG_WORD + ARG_RD] [CLASS_BIT + 0xa, CLASS_BIT + 0xf, CLASS_REG + ARG_RD, CLASS_CC] 2 2 377,
     z8k_entry ''tccb'' 148 [CLASS_CC, CLASS_REG_BYTE + ARG_RD] [CLASS_BIT + 0xa, CLASS_BIT + 0xe, CLASS_REG + ARG_RD, CLASS_CC] 2 2 378,
     z8k_entry ''test'' 149 [CLASS_IR + ARG_RD] [CLASS_BIT + 0, CLASS_BIT + 0xd, CLASS_REGN0 + ARG_RD, CLASS_BIT + 4] 1 2 379,
     z8k_entry ''test'' 149 [CLASS_DA + ARG_DST] [CLASS_BIT + 4, CLASS_BIT + 0xd, CLASS_BIT + 0, CLASS_BIT + 4, CLASS_ADDRESS + ARG_DST] 1 4 380,
     z8k_entry ''test'' 149 [CLASS_X + ARG_RD] [CLASS_BIT + 4, CLASS_BIT + 0xd, CLASS_REGN0 + ARG_RD, CLASS_BIT + 4, CLASS_ADDRESS + ARG_DST] 1 4 381,
     z8k_entry ''test'' 149 [CLASS_REG_WORD + ARG_RD] [CLASS_BIT + 8, CLASS_BIT + 0xd, CLASS_REG + ARG_RD, CLASS_BIT + 4] 1 2 382,
     z8k_entry ''testb'' 150 [CLASS_IR + ARG_RD] [CLASS_BIT + 0, CLASS_BIT + 0xc, CLASS_REGN0 + ARG_RD, CLASS_BIT + 4] 1 2 383,
     z8k_entry ''testb'' 150 [CLASS_DA + ARG_DST] [CLASS_BIT + 4, CLASS_BIT + 0xc, CLASS_BIT + 0, CLASS_BIT + 4, CLASS_ADDRESS + ARG_DST] 1 4 384,
     z8k_entry ''testb'' 150 [CLASS_X + ARG_RD] [CLASS_BIT + 4, CLASS_BIT + 0xc, CLASS_REGN0 + ARG_RD, CLASS_BIT + 4, CLASS_ADDRESS + ARG_DST] 1 4 385,
     z8k_entry ''testb'' 150 [CLASS_REG_BYTE + ARG_RD] [CLASS_BIT + 8, CLASS_BIT + 0xc, CLASS_REG + ARG_RD, CLASS_BIT + 4] 1 2 386,
     z8k_entry ''testl'' 151 [CLASS_IR + ARG_RD] [CLASS_BIT + 1, CLASS_BIT + 0xc, CLASS_REGN0 + ARG_RD, CLASS_BIT + 8] 1 2 387,
     z8k_entry ''testl'' 151 [CLASS_DA + ARG_DST] [CLASS_BIT + 5, CLASS_BIT + 0xc, CLASS_BIT + 0, CLASS_BIT + 8, CLASS_ADDRESS + ARG_DST] 1 4 388,
     z8k_entry ''testl'' 151 [CLASS_X + ARG_RD] [CLASS_BIT + 5, CLASS_BIT + 0xc, CLASS_REGN0 + ARG_RD, CLASS_BIT + 8, CLASS_ADDRESS + ARG_DST] 1 4 389,
     z8k_entry ''testl'' 151 [CLASS_REG_LONG + ARG_RD] [CLASS_BIT + 9, CLASS_BIT + 0xc, CLASS_REG + ARG_RD, CLASS_BIT + 8] 1 2 390,
     z8k_entry ''trdb'' 152 [CLASS_IR + ARG_RD, CLASS_IR + ARG_RS, CLASS_REG_BYTE + ARG_RA] [CLASS_BIT + 0xb, CLASS_BIT + 8, CLASS_REGN0 + ARG_RD, CLASS_BIT + 8, CLASS_BIT + 0, CLASS_REG + ARG_RA, CLASS_REGN0 + ARG_RS, CLASS_BIT + 0] 3 4 391,
     z8k_entry ''trdrb'' 153 [CLASS_IR + ARG_RD, CLASS_IR + ARG_RS, CLASS_REG_BYTE + ARG_RA] [CLASS_BIT + 0xb, CLASS_BIT + 8, CLASS_REGN0 + ARG_RD, CLASS_BIT + 0xc, CLASS_BIT + 0, CLASS_REG + ARG_RA, CLASS_REGN0 + ARG_RS, CLASS_BIT + 0] 3 4 392,
     z8k_entry ''trib'' 154 [CLASS_IR + ARG_RD, CLASS_IR + ARG_RS, CLASS_REG_BYTE + ARG_RR] [CLASS_BIT + 0xb, CLASS_BIT + 8, CLASS_REGN0 + ARG_RD, CLASS_BIT + 0, CLASS_BIT + 0, CLASS_REG + ARG_RR, CLASS_REGN0 + ARG_RS, CLASS_BIT + 0] 3 4 393,
     z8k_entry ''trirb'' 155 [CLASS_IR + ARG_RD, CLASS_IR + ARG_RS, CLASS_REG_BYTE + ARG_RR] [CLASS_BIT + 0xb, CLASS_BIT + 8, CLASS_REGN0 + ARG_RD, CLASS_BIT + 4, CLASS_BIT + 0, CLASS_REG + ARG_RR, CLASS_REGN0 + ARG_RS, CLASS_BIT + 0] 3 4 394,
     z8k_entry ''trtdb'' 159 [CLASS_IR + ARG_RA, CLASS_IR + ARG_RB, CLASS_REG_BYTE + ARG_RR] [CLASS_BIT + 0xb, CLASS_BIT + 8, CLASS_REGN0 + ARG_RA, CLASS_BIT + 0xa, CLASS_BIT + 0, CLASS_REG + ARG_RR, CLASS_REGN0 + ARG_RB, CLASS_BIT + 0] 3 4 395,
     z8k_entry ''trtdrb'' 156 [CLASS_IR + ARG_RA, CLASS_IR + ARG_RB, CLASS_REG_BYTE + ARG_RR] [CLASS_BIT + 0xb, CLASS_BIT + 8, CLASS_REGN0 + ARG_RA, CLASS_BIT + 0xe, CLASS_BIT + 0, CLASS_REG + ARG_RR, CLASS_REGN0 + ARG_RB, CLASS_BIT + 0xe] 3 4 396,
     z8k_entry ''trtib'' 157 [CLASS_IR + ARG_RA, CLASS_IR + ARG_RB, CLASS_REG_BYTE + ARG_RR] [CLASS_BIT + 0xb, CLASS_BIT + 8, CLASS_REGN0 + ARG_RA, CLASS_BIT + 2, CLASS_BIT + 0, CLASS_REG + ARG_RR, CLASS_REGN0 + ARG_RB, CLASS_BIT + 0] 3 4 397,
     z8k_entry ''trtirb'' 158 [CLASS_IR + ARG_RA, CLASS_IR + ARG_RB, CLASS_REG_BYTE + ARG_RR] [CLASS_BIT + 0xb, CLASS_BIT + 8, CLASS_REGN0 + ARG_RA, CLASS_BIT + 6, CLASS_BIT + 0, CLASS_REG + ARG_RR, CLASS_REGN0 + ARG_RB, CLASS_BIT + 0xe] 3 4 398,
     z8k_entry ''tset'' 160 [CLASS_IR + ARG_RD] [CLASS_BIT + 0, CLASS_BIT + 0xd, CLASS_REGN0 + ARG_RD, CLASS_BIT + 6] 1 2 399,
     z8k_entry ''tset'' 160 [CLASS_DA + ARG_DST] [CLASS_BIT + 4, CLASS_BIT + 0xd, CLASS_BIT + 0, CLASS_BIT + 6, CLASS_ADDRESS + ARG_DST] 1 4 400,
     z8k_entry ''tset'' 160 [CLASS_X + ARG_RD] [CLASS_BIT + 4, CLASS_BIT + 0xd, CLASS_REGN0 + ARG_RD, CLASS_BIT + 6, CLASS_ADDRESS + ARG_DST] 1 4 401,
     z8k_entry ''tset'' 160 [CLASS_REG_WORD + ARG_RD] [CLASS_BIT + 8, CLASS_BIT + 0xd, CLASS_REG + ARG_RD, CLASS_BIT + 6] 1 2 402,
     z8k_entry ''tsetb'' 161 [CLASS_IR + ARG_RD] [CLASS_BIT + 0, CLASS_BIT + 0xc, CLASS_REGN0 + ARG_RD, CLASS_BIT + 6] 1 2 403,
     z8k_entry ''tsetb'' 161 [CLASS_DA + ARG_DST] [CLASS_BIT + 4, CLASS_BIT + 0xc, CLASS_BIT + 0, CLASS_BIT + 6, CLASS_ADDRESS + ARG_DST] 1 4 404,
     z8k_entry ''tsetb'' 161 [CLASS_X + ARG_RD] [CLASS_BIT + 4, CLASS_BIT + 0xc, CLASS_REGN0 + ARG_RD, CLASS_BIT + 6, CLASS_ADDRESS + ARG_DST] 1 4 405,
     z8k_entry ''tsetb'' 161 [CLASS_REG_BYTE + ARG_RD] [CLASS_BIT + 8, CLASS_BIT + 0xc, CLASS_REG + ARG_RD, CLASS_BIT + 6] 1 2 406]"

definition z8k_table_x :: "opcode_entry_type list" where
  "z8k_table_x = [
     z8k_entry ''xor'' 162 [CLASS_REG_WORD + ARG_RD, CLASS_IR + ARG_RS] [CLASS_BIT + 0, CLASS_BIT + 9, CLASS_REGN0 + ARG_RS, CLASS_REG + ARG_RD] 2 2 407,
     z8k_entry ''xor'' 162 [CLASS_REG_WORD + ARG_RD, CLASS_DA + ARG_SRC] [CLASS_BIT + 4, CLASS_BIT + 9, CLASS_BIT + 0, CLASS_REG + ARG_RD, CLASS_ADDRESS + ARG_SRC] 2 4 408,
     z8k_entry ''xor'' 162 [CLASS_REG_WORD + ARG_RD, CLASS_X + ARG_RS] [CLASS_BIT + 4, CLASS_BIT + 9, CLASS_REGN0 + ARG_RS, CLASS_REG + ARG_RD, CLASS_ADDRESS + ARG_SRC] 2 4 409,
     z8k_entry ''xor'' 162 [CLASS_REG_WORD + ARG_RD, CLASS_IMM + ARG_IMM16] [CLASS_BIT + 0, CLASS_BIT + 9, CLASS_BIT + 0, CLASS_REG + ARG_RD, CLASS_IMM + ARG_IMM16] 2 4 410,
     z8k_entry ''xor'' 162 [CLASS_REG_WORD + ARG_RD, CLASS_REG_WORD + ARG_RS] [CLASS_BIT + 8, CLASS_BIT + 9, CLASS_REG + ARG_RS, CLASS_REG + ARG_RD] 2 2 411,
     z8k_entry ''xorb'' 163 [CLASS_REG_BYTE + ARG_RD, CLASS_IR + ARG_RS] [CLASS_BIT + 0, CLASS_BIT + 8, CLASS_REGN0 + ARG_RS, CLASS_REG + ARG_RD] 2 2 412,
     z8k_entry ''xorb'' 163 [CLASS_REG_BYTE + ARG_RD, CLASS_DA + ARG_SRC] [CLASS_BIT + 4, CLASS_BIT + 8, CLASS_BIT + 0, CLASS_REG + ARG_RD, CLASS_ADDRESS + ARG_SRC] 2 4 413,
     z8k_entry ''xorb'' 163 [CLASS_REG_BYTE + ARG_RD, CLASS_X + ARG_RS] [CLASS_BIT + 4, CLASS_BIT + 8, CLASS_REGN0 + ARG_RS, CLASS_REG + ARG_RD, CLASS_ADDRESS + ARG_SRC] 2 4 414,
     z8k_entry ''xorb'' 163 [CLASS_REG_BYTE + ARG_RD, CLASS_IMM + ARG_IMM8] [CLASS_BIT + 0, CLASS_BIT + 8, CLASS_BIT + 0, CLASS_REG + ARG_RD, CLASS_IMM + ARG_IMM8, CLASS_IMM + ARG_IMM8] 2 4 415,
     z8k_entry ''xorb'' 163 [CLASS_REG_BYTE + ARG_RD, CLASS_REG_BYTE + ARG_RS] [CLASS_BIT + 8, CLASS_BIT + 8, CLASS_REG + ARG_RS, CLASS_REG + ARG_RD] 2 2 416,
     z8k_entry ''xorb'' 163 [CLASS_REG_BYTE + ARG_RD, CLASS_REG_BYTE + ARG_RS] [CLASS_BIT + 8, CLASS_BIT + 8, CLASS_REG + ARG_RS, CLASS_REG + ARG_RD] 2 2 417]"

definition z8k_table :: "opcode_entry_type list" where
  "z8k_table = z8k_table_a @ z8k_table_b @ z8k_table_c @ z8k_table_d @ z8k_table_e @ z8k_table_h @ z8k_table_i @ z8k_table_j @ z8k_table_l @ z8k_table_m @ z8k_table_n @ z8k_table_o @ z8k_table_p @ z8k_table_r @ z8k_table_s @ z8k_table_t @ z8k_table_x"

lemmas z8k_tables = z8k_table_a_def
  z8k_table_b_def
  z8k_table_c_def
  z8k_table_d_def
  z8k_table_e_def
  z8k_table_h_def
  z8k_table_i_def
  z8k_table_j_def
  z8k_table_l_def
  z8k_table_m_def
  z8k_table_n_def
  z8k_table_o_def
  z8k_table_p_def
  z8k_table_r_def
  z8k_table_s_def
  z8k_table_t_def
  z8k_table_x_def

lemma length_z8k_table: "length z8k_table = 418"
  by (simp add: z8k_table_def z8k_tables)

end
