(* ===== verification/Z8k_Dis.thy ===== *)
theory Z8k_Dis
  imports Z8k_Opc Z8k_Base D10V_Dis
begin

text \<open>
  The Z8000 disassembler, \<open>src/src/opcodes/z8k-dis.c\<close>. What the code prints through \<open>fprintf_func\<close> is the text its
  functions return. Reading memory is a callback of the client, a parameter that takes the number of bytes from
  the start of the instruction. The record \<open>instr_data_s\<close> is a local variable of \<open>print_insn_z8k\<close>; what it holds before
  it is set is a parameter too.
\<close>

section \<open>Reading the instruction\<close>

text \<open>
  The three arrays are indexed by nibble number. \<open>arg_reg\<close> has 15 elements.
\<close>

record instr_data_s =
  nibbles :: "uint8 list"
  bytes :: "uint8 list"
  words :: "uint16 list"
  max_fetched :: nat
  arg_reg :: "uint32 list"
  immediate :: uint32
  displacement :: uint32
  address :: uint32
  cond_code :: uint32
  ctrl_code :: uint32
  dflags :: uint32
  interrupts :: uint32

type_synonym read_memory = "nat \<Rightarrow> uint8 list option"

definition fetch_data :: "read_memory \<Rightarrow> nat \<Rightarrow> instr_data_s \<Rightarrow> instr_data_s run" where
  "fetch_data rd nibble d =
     (if nibble mod 4 \<noteq> 0 then Inl Aborted
      else if nibble > 24 then Inl (Overrun ''nibbles'')
      else case rd (nibble div 2) of
             None \<Rightarrow> Inl Memory_error
           | Some p \<Rightarrow>
               Inr (d\<lparr>nibbles := map (\<lambda>i. if i < nibble then (if even i then drop_bit 4 (p ! (i div 2)) else p ! (i div 2) AND 0xf)
                                         else nibbles d ! i) [0 ..< 24],
                      bytes := map (\<lambda>i. if i < nibble \<and> even i then p ! (i div 2) else bytes d ! i) [0 ..< 24],
                      words := map (\<lambda>i. if i < nibble \<and> i mod 4 = 0
                                        then push_bit 8 (ucast (p ! (i div 2))) OR ucast (p ! (i div 2 + 1)) else words d ! i) [0 ..< 24],
                      max_fetched := nibble\<rparr>))"

definition FETCH_DATA :: "read_memory \<Rightarrow> nat \<Rightarrow> instr_data_s \<Rightarrow> instr_data_s run" where
  "FETCH_DATA rd nibble d = (if nibble < max_fetched d then Inr d else fetch_data rd nibble d)"

section \<open>Finding the table entry\<close>

text \<open>
  Whether the nibble fits the class and value of a field, and by how much the index advances. An index behind
  \<open>byte_info\<close> reads the next members of the structure.
\<close>

definition byte_info_at :: "opcode_entry_type \<Rightarrow> nat \<Rightarrow> uint32" where
  "byte_info_at op i = (byte_info op @ [of_nat (noperands op), of_nat (z_length op)]) ! i"

definition datum_class :: "uint32 \<Rightarrow> uint32" where
  "datum_class datum = (datum AND 0xffff) AND CLASS_MASK"

definition datum_value :: "uint32 \<Rightarrow> nat" where
  "datum_value datum = unat (NOT CLASS_MASK AND (datum AND 0xffff))"

definition nibble_matches :: "uint32 \<Rightarrow> nat \<Rightarrow> uint8 \<Rightarrow> bool" where
  "nibble_matches cls val nibl =
     (if cls = CLASS_BIT then unat nibl = val
      else if cls = CLASS_00II then NOT nibl AND 4 \<noteq> 0
      else if cls = CLASS_01II then nibl AND 4 \<noteq> 0
      else if cls = CLASS_0CCC \<or> cls = CLASS_0DISP7 then NOT nibl AND 8 \<noteq> 0
      else if cls = CLASS_1CCC \<or> cls = CLASS_1DISP7 then nibl AND 8 \<noteq> 0
      else if cls = CLASS_REGN0 then nibl \<noteq> 0
      else if cls = CLASS_BIT_1OR2 then nibl OR 2 = of_nat val OR 2
      else True)"

definition skips :: "uint32 \<Rightarrow> nat" where
  "skips cls = (if cls = CLASS_0DISP7 \<or> cls = CLASS_1DISP7 then 1 else 0)"

text \<open>The inner loop: it stops at the first nibble that does not fit.\<close>

function match_loop_z8k :: "read_memory \<Rightarrow> opcode_entry_type \<Rightarrow> nat \<Rightarrow> instr_data_s \<Rightarrow> (bool \<times> instr_data_s) run" where
  "match_loop_z8k rd op i d =
     (if i < z_length op * 2 then
        bindF (if i mod 4 = 0 then FETCH_DATA rd (i + 4) d else Inr d) (\<lambda>d.
          let cls = datum_class (byte_info_at op i) in
          if nibble_matches cls (datum_value (byte_info_at op i)) (nibbles d ! i)
          then match_loop_z8k rd op (i + skips cls + 1) d
          else Inr (False, d))
      else Inr (True, d))"
  by pat_completeness auto
termination
  by (relation "measure (\<lambda>(rd, op, i, d). z_length op * 2 - i)") auto

declare match_loop_z8k.simps [simp del]

fun lookup_loop :: "read_memory \<Rightarrow> opcode_entry_type list \<Rightarrow> nat \<Rightarrow> instr_data_s \<Rightarrow> (nat option \<times> instr_data_s) run" where
  "lookup_loop rd [] k d = Inr (None, d)"
| "lookup_loop rd (op # ops) k d =
     bindF (match_loop_z8k rd op 0 d) (\<lambda>(matched, d). if matched then Inr (Some k, d) else lookup_loop rd ops (k + 1) d)"

text \<open>\<open>None\<close> is the index -1.\<close>

definition z8k_lookup_instr :: "read_memory \<Rightarrow> instr_data_s \<Rightarrow> (nat option \<times> instr_data_s) run" where
  "z8k_lookup_instr rd d = lookup_loop rd z8k_table 0 d"

section \<open>Extracting the operands\<close>

text \<open>
  One field of the instruction at nibble \<open>n\<close>. The result has the nibble of the next field, less one as in the code.
\<close>

definition set_arg_reg :: "nat \<Rightarrow> uint8 \<Rightarrow> instr_data_s \<Rightarrow> instr_data_s run" where
  "set_arg_reg v nibl d =
     (if v < 15 then Inr (d\<lparr>arg_reg := (arg_reg d)[v := ucast nibl]\<rparr>) else Inl (Overrun ''arg_reg''))"

definition long_at :: "nat \<Rightarrow> instr_data_s \<Rightarrow> uint32" where
  "long_at n d = push_bit 16 (ucast (words d ! n)) OR ucast (words d ! (n + 4))"

definition unpack_disp :: "nat \<Rightarrow> nat \<Rightarrow> instr_data_s \<Rightarrow> (instr_data_s \<times> nat) run" where
  "unpack_disp val n d =
     (if val = unat ARG_DISP16 then Inr (d\<lparr>displacement := ucast (words d ! n)\<rparr>, n + 3)
      else if val = unat ARG_DISP12 then Inr (d\<lparr>displacement := ucast (words d ! n) AND 0xfff\<rparr>, n + 2)
      else Inr (d, n))"

definition unpack_imm :: "read_memory \<Rightarrow> nat \<Rightarrow> nat \<Rightarrow> instr_data_s \<Rightarrow> (instr_data_s \<times> nat) run" where
  "unpack_imm rd val n d =
     (let nibl = ucast (nibbles d ! n); byte = ucast (bytes d ! n); word = ucast (words d ! n) in
      if val = unat ARG_IMM4 then Inr (d\<lparr>immediate := nibl\<rparr>, n)
      else if val = unat ARG_NIM8 then Inr (d\<lparr>immediate := - byte\<rparr>, n + 1)
      else if val = unat ARG_IMM8 then Inr (d\<lparr>immediate := byte\<rparr>, n + 1)
      else if val = unat ARG_IMM16 then Inr (d\<lparr>immediate := word\<rparr>, n + 3)
      else if val = unat ARG_IMM32 then
        bindF (FETCH_DATA rd (n + 8) d) (\<lambda>d. Inr (d\<lparr>immediate := long_at n d\<rparr>, n + 7))
      else if val = unat ARG_IMMN then Inr (d\<lparr>immediate := nibl - 1\<rparr>, n)
      else if val = unat ARG_IMM4M1 then Inr (d\<lparr>immediate := nibl + 1\<rparr>, n)
      else if val = unat ARG_IMM_1 then Inr (d\<lparr>immediate := 1\<rparr>, n)
      else if val = unat ARG_IMM_2 then Inr (d\<lparr>immediate := 2\<rparr>, n)
      else if val = unat ARG_IMM2 then Inr (d\<lparr>immediate := nibl AND 3\<rparr>, n)
      else Inr (d, n))"

definition unpack_address :: "read_memory \<Rightarrow> bool \<Rightarrow> nat \<Rightarrow> instr_data_s \<Rightarrow> (instr_data_s \<times> nat) run" where
  "unpack_address rd is_segmented n d =
     (let word = ucast (words d ! n) :: uint32 in
      if is_segmented then
        (if nibbles d ! n AND 8 \<noteq> 0 then
           bindF (FETCH_DATA rd (n + 8) d) (\<lambda>d.
             Inr (d\<lparr>address := push_bit 8 (word AND 0x7f00) + (long_at n d AND 0xffff)\<rparr>, n + 7))
         else Inr (d\<lparr>address := push_bit 8 (word AND 0x7f00) + (word AND 0xff)\<rparr>, n + 3))
      else Inr (d\<lparr>address := word\<rparr>, n + 3))"

definition unpack_field :: "read_memory \<Rightarrow> bool \<Rightarrow> uint32 \<Rightarrow> nat \<Rightarrow> nat \<Rightarrow> instr_data_s \<Rightarrow> (instr_data_s \<times> nat) run" where
  "unpack_field rd is_segmented cls val n d =
     (let nibl = nibbles d ! n; byte = bytes d ! n in
      if cls = CLASS_X then Inr (d\<lparr>address := ucast nibl\<rparr>, n)
      else if cls = CLASS_BA then Inr (d\<lparr>displacement := ucast nibl\<rparr>, n)
      else if cls = CLASS_BX then bindF (set_arg_reg val nibl d) (\<lambda>d. Inr (d, n))
      else if cls = CLASS_DISP then unpack_disp val n d
      else if cls = CLASS_IMM then unpack_imm rd val n d
      else if cls = CLASS_CC then Inr (d\<lparr>cond_code := ucast nibl\<rparr>, n)
      else if cls = CLASS_CTRL then Inr (d\<lparr>ctrl_code := ucast nibl\<rparr>, n)
      else if cls = CLASS_DA \<or> cls = CLASS_ADDRESS then unpack_address rd is_segmented n d
      else if cls = CLASS_0CCC \<or> cls = CLASS_1CCC then Inr (d\<lparr>cond_code := ucast (nibl AND 7)\<rparr>, n)
      else if cls = CLASS_0DISP7 \<or> cls = CLASS_1DISP7 then Inr (d\<lparr>displacement := ucast (byte AND 0x7f)\<rparr>, n + 1)
      else if cls = CLASS_01II \<or> cls = CLASS_00II then Inr (d\<lparr>interrupts := ucast (nibl AND 3)\<rparr>, n)
      else if cls = CLASS_FLAGS then Inr (d\<lparr>dflags := ucast nibl\<rparr>, n)
      else if cls \<in> {CLASS_IR, CLASS_REG, CLASS_REG_BYTE, CLASS_REG_WORD, CLASS_REG_QUAD, CLASS_REG_LONG, CLASS_REGN0}
      then bindF (set_arg_reg val nibl d) (\<lambda>d. Inr (d, n))
      else Inr (d, n))"

fun unpack_loop :: "read_memory \<Rightarrow> bool \<Rightarrow> uint32 list \<Rightarrow> nat \<Rightarrow> instr_data_s \<Rightarrow> instr_data_s run" where
  "unpack_loop rd is_segmented [] n d = Inr d"
| "unpack_loop rd is_segmented (datum # data) n d =
     (if datum = 0 then Inr d
      else bindF (FETCH_DATA rd (n + 4 - n mod 4) d) (\<lambda>d.
           bindF (unpack_field rd is_segmented (datum_class datum) (datum_value datum) n d) (\<lambda>(d, n).
             unpack_loop rd is_segmented data (n + 1) d)))"

definition unpack_instr :: "read_memory \<Rightarrow> bool \<Rightarrow> opcode_entry_type \<Rightarrow> instr_data_s \<Rightarrow> instr_data_s run" where
  "unpack_instr rd is_segmented op d = unpack_loop rd is_segmented (byte_info op) 0 d"

section \<open>The text\<close>

text \<open>\<open>%02x\<close> of a byte.\<close>

definition print_02x :: "uint8 \<Rightarrow> string" where
  "print_02x b = (if b < 16 then ''0'' else '''') @ print_x (ucast b)"

definition codes :: "string list" where
  "codes = [''f'', ''lt'', ''le'', ''ule'', ''ov/pe'', ''mi'', ''eq'', ''c/ult'', ''t'', ''ge'', ''gt'', ''ugt'',
            ''nov/po'', ''pl'', ''ne'', ''nc/uge'']"

definition print_reg_byte :: "uint32 \<Rightarrow> string" where
  "print_reg_byte r = (if r \<ge> 8 then ''rl'' @ print_d (r - 8) else ''rh'' @ print_d r)"

text \<open>One operand; \<open>%ld\<close> prints an unsigned long as a signed number.\<close>

definition unparse_operand :: "uint32 \<Rightarrow> nat \<Rightarrow> instr_data_s \<Rightarrow> string run" where
  "unparse_operand cls val d =
     (let r = arg_reg d ! val in
      if cls = CLASS_X then Inr (''0x'' @ print_x (address d) @ ''(R'' @ print_d r @ '')'')
      else if cls = CLASS_BA then Inr (''r'' @ print_d r @ ''(#'' @ print_x (immediate d) @ '')'')
      else if cls = CLASS_BX then Inr (''r'' @ print_d r @ ''(R'' @ print_d (arg_reg d ! unat ARG_RX) @ '')'')
      else if cls = CLASS_DISP then Inr (''#0x'' @ print_x (displacement d))
      else if cls = CLASS_IMM then Inr (''#0x'' @ print_x (immediate d))
      else if cls = CLASS_CC then
        (if cond_code d < 16 then Inr (codes ! unat (cond_code d)) else Inl (Overrun ''codes''))
      else if cls = CLASS_CTRL then Inr (''0x'' @ print_x (ctrl_code d))
      else if cls = CLASS_DA \<or> cls = CLASS_ADDRESS then Inr (''#0x'' @ print_x (address d))
      else if cls = CLASS_IR then Inr (''@R'' @ print_d r)
      else if cls = CLASS_FLAGS then Inr (''0x'' @ print_x (dflags d))
      else if cls = CLASS_REG_BYTE then Inr (print_reg_byte r)
      else if cls = CLASS_REG_WORD then Inr (''r'' @ print_d r)
      else if cls = CLASS_REG_QUAD then Inr (''rq'' @ print_d r)
      else if cls = CLASS_REG_LONG then Inr (''rr'' @ print_d r)
      else Inr '''')"

text \<open>The operands are separated by commas. The text has to fit an array of 80 characters.\<close>

fun unparse_loop :: "uint32 list \<Rightarrow> instr_data_s \<Rightarrow> string \<Rightarrow> string run" where
  "unparse_loop [] d out = Inr out"
| "unparse_loop (datum # data) d out =
     bindF (unparse_operand (datum_class datum) (datum_value datum) d) (\<lambda>s.
       unparse_loop data d (out @ s @ (if data = [] then '''' else '','')))"

definition unparse_instr :: "opcode_entry_type \<Rightarrow> instr_data_s \<Rightarrow> string run" where
  "unparse_instr op d =
     bindF (unparse_loop (take (noperands op) (arg_info op)) d ([CHR 0x09] @ z_name op @ [CHR 0x09])) (\<lambda>out.
     if length out < 80 then Inr out else Inl (Overrun ''out_str''))"

definition output_instr :: "read_memory \<Rightarrow> opcode_entry_type \<Rightarrow> string \<Rightarrow> instr_data_s \<Rightarrow> string run" where
  "output_instr rd op asmsrc d =
     (let limit = z_length op * 2 in
      bindF (FETCH_DATA rd limit d) (\<lambda>d.
        Inr ([CHR 0x09] @ concat (map (\<lambda>n. print_x (ucast n)) (take limit (nibbles d)))
             @ replicate (8 - limit) (CHR '' '') @ asmsrc)))"

text \<open>
  The text and the length of the instruction. A failed read of memory makes the code return -1 and is the fault
  \<open>Memory_error\<close> here. The table index is accepted when it is greater than 0.
\<close>

definition print_insn_z8k :: "read_memory \<Rightarrow> bool \<Rightarrow> instr_data_s \<Rightarrow> (string \<times> nat) run" where
  "print_insn_z8k rd is_segmented junk =
     bindF (z8k_lookup_instr rd (junk\<lparr>max_fetched := 0\<rparr>)) (\<lambda>(tabl_index, d).
     if tabl_index \<noteq> None \<and> 0 < the tabl_index then
       (let op = z8k_table ! the tabl_index in
        bindF (unpack_instr rd is_segmented op d) (\<lambda>d.
        bindF (unparse_instr op d) (\<lambda>src.
        bindF (output_instr rd op src d) (\<lambda>text. Inr (text, z_length op)))))
     else
       bindF (FETCH_DATA rd 4 d) (\<lambda>d. Inr (''.word '' @ print_02x (bytes d ! 0) @ print_02x (bytes d ! 2), 2)))"

definition print_insn_z8001 :: "read_memory \<Rightarrow> instr_data_s \<Rightarrow> (string \<times> nat) run" where
  "print_insn_z8001 rd junk = print_insn_z8k rd True junk"

definition print_insn_z8002 :: "read_memory \<Rightarrow> instr_data_s \<Rightarrow> (string \<times> nat) run" where
  "print_insn_z8002 rd junk = print_insn_z8k rd False junk"

end
