(* ===== verification/Z8k_Lookup.thy ===== *)
theory Z8k_Lookup
  imports Z8k_Dis
begin

text \<open>
  How the disassembler finds the entry of an instruction: the patterns of the 418 entries, which overlap in five pairs
  only, and the search, which reads memory as it goes and returns the first entry that matches.
\<close>

section \<open>Patterns\<close>

text \<open>What a field asks of its nibble.\<close>

datatype nib = Any | Is nat | Not0 | Lo4 | Hi4 | Lo8 | Hi8 | With2 nat

definition nib_of :: "uint32 \<Rightarrow> nat \<Rightarrow> nib" where
  "nib_of cls val =
     (if cls = CLASS_BIT then Is val
      else if cls = CLASS_00II then Lo4
      else if cls = CLASS_01II then Hi4
      else if cls = CLASS_0CCC \<or> cls = CLASS_0DISP7 then Lo8
      else if cls = CLASS_1CCC \<or> cls = CLASS_1DISP7 then Hi8
      else if cls = CLASS_REGN0 then Not0
      else if cls = CLASS_BIT_1OR2 then With2 val
      else Any)"

fun admits :: "nib \<Rightarrow> nat \<Rightarrow> bool" where
  "admits Any v = True"
| "admits (Is n) v = (v = n)"
| "admits Not0 v = (v \<noteq> 0)"
| "admits Lo4 v = (v mod 8 < 4)"
| "admits Hi4 v = (4 \<le> v mod 8)"
| "admits Lo8 v = (v < 8)"
| "admits Hi8 v = (8 \<le> v)"
| "admits (With2 n) v = (v = n \<or> v = n + 2)"

text \<open>A field of \<open>CLASS_BIT_1OR2\<close> has a value without the bit 2.\<close>

definition val_ok :: "uint32 \<Rightarrow> nat \<Rightarrow> bool" where
  "val_ok cls val \<longleftrightarrow> cls = CLASS_BIT_1OR2 \<longrightarrow> val \<in> {0, 4, 8, 12}"

lemma small_nibble:
  fixes x :: uint8
  assumes "x < 16"
  obtains "x = 0" | "x = 1" | "x = 2" | "x = 3" | "x = 4" | "x = 5" | "x = 6" | "x = 7"
    | "x = 8" | "x = 9" | "x = 10" | "x = 11" | "x = 12" | "x = 13" | "x = 14" | "x = 15"
proof -
  have u: "unat x < 16" using assms by (simp add: word_less_nat_alt)
  have x: "x = of_nat (unat x)" by simp
  from u have "unat x \<in> set [0..<16]" by simp
  then have "x \<in> of_nat ` set [0..<16]" using x by blast
  then show ?thesis using that by (auto simp: upt_rec)
qed

lemma matches_admits:
  assumes "x < 16" "val_ok cls val"
  shows "nibble_matches cls val x \<longleftrightarrow> admits (nib_of cls val) (unat x)"
proof (cases "cls = CLASS_BIT \<or> cls = CLASS_BIT_1OR2")
  case True
  then show ?thesis
  proof
    assume c: "cls = CLASS_BIT_1OR2"
    with assms(2) have "val \<in> {0, 4, 8, 12}" by (simp add: val_ok_def)
    with assms(1) c show ?thesis
      by (cases rule: small_nibble) (auto simp: nibble_matches_def nib_of_def)
  qed (simp add: nibble_matches_def nib_of_def)
next
  case False
  from assms(1) show ?thesis
    by (cases rule: small_nibble) (use False in \<open>auto simp: nibble_matches_def nib_of_def\<close>)
qed

definition datum_nib :: "uint32 \<Rightarrow> nib" where
  "datum_nib d = nib_of (datum_class d) (datum_value d)"

fun pats :: "uint32 list \<Rightarrow> nib list" where
  "pats [] = []"
| "pats (d # ds) = (if d = 0 then [] else datum_nib d # pats ds)"

definition pattern :: "opcode_entry_type \<Rightarrow> nib list" where
  "pattern op = pats (byte_info op)"

lemma pats_append_zero: "pats (ds @ replicate n 0) = pats ds"
  by (induction ds) (cases n; simp)+

lemma pattern_entry: "length ds \<le> 10 \<Longrightarrow> pattern (z8k_entry name opc args ds n len i) = pats ds"
  by (simp add: pattern_def z8k_entry_def pats_append_zero)

text \<open>The fields that the table has.\<close>

lemma pats_rules:
  "pats (0x58 # ds) = Any # pats ds"
  "pats (0x5b # ds) = Any # pats ds"
  "pats (0x61 # ds) = Any # pats ds"
  "pats (0x62 # ds) = Any # pats ds"
  "pats (0x63 # ds) = Any # pats ds"
  "pats (0x64 # ds) = Any # pats ds"
  "pats (0x65 # ds) = Any # pats ds"
  "pats (0x69 # ds) = Any # pats ds"
  "pats (0x6d # ds) = Any # pats ds"
  "pats (0x70 # ds) = Any # pats ds"
  "pats (0xd1 # ds) = Any # pats ds"
  "pats (0xd2 # ds) = Any # pats ds"
  "pats (0xe0 # ds) = Lo8 # pats ds"
  "pats (0xf0 # ds) = Hi8 # pats ds"
  "pats (0x100 # ds) = Lo8 # pats ds"
  "pats (0x200 # ds) = Hi8 # pats ds"
  "pats (0x300 # ds) = Hi4 # pats ds"
  "pats (0x400 # ds) = Lo4 # pats ds"
  "pats (0x500 # ds) = Is 0 # pats ds"
  "pats (0x501 # ds) = Is 1 # pats ds"
  "pats (0x502 # ds) = Is 2 # pats ds"
  "pats (0x503 # ds) = Is 3 # pats ds"
  "pats (0x504 # ds) = Is 4 # pats ds"
  "pats (0x505 # ds) = Is 5 # pats ds"
  "pats (0x506 # ds) = Is 6 # pats ds"
  "pats (0x507 # ds) = Is 7 # pats ds"
  "pats (0x508 # ds) = Is 8 # pats ds"
  "pats (0x509 # ds) = Is 9 # pats ds"
  "pats (0x50a # ds) = Is 10 # pats ds"
  "pats (0x50b # ds) = Is 11 # pats ds"
  "pats (0x50c # ds) = Is 12 # pats ds"
  "pats (0x50d # ds) = Is 13 # pats ds"
  "pats (0x50e # ds) = Is 14 # pats ds"
  "pats (0x50f # ds) = Is 15 # pats ds"
  "pats (0x600 # ds) = Any # pats ds"
  "pats (0x800 # ds) = Any # pats ds"
  "pats (0x900 # ds) = With2 0 # pats ds"
  "pats (0x904 # ds) = With2 4 # pats ds"
  "pats (0x908 # ds) = With2 8 # pats ds"
  "pats (0x90c # ds) = With2 12 # pats ds"
  "pats (0x7001 # ds) = Any # pats ds"
  "pats (0x7002 # ds) = Any # pats ds"
  "pats (0x7003 # ds) = Any # pats ds"
  "pats (0x7004 # ds) = Any # pats ds"
  "pats (0x7005 # ds) = Any # pats ds"
  "pats (0x7006 # ds) = Any # pats ds"
  "pats (0x8001 # ds) = Not0 # pats ds"
  "pats (0x8002 # ds) = Not0 # pats ds"
  "pats (0x8003 # ds) = Not0 # pats ds"
  "pats (0x8004 # ds) = Not0 # pats ds"
  by (simp_all add: datum_nib_def nib_of_def datum_class_def datum_value_def)

text \<open>Of two patterns, at most one fits the same nibbles, by cases on one nibble after the other.\<close>

text \<open>Some pairs that cannot fit one nibble; there are others, which the table does not need.\<close>

fun conflict :: "nib \<Rightarrow> nib \<Rightarrow> bool" where
  "conflict (Is a) (Is b) = (a \<noteq> b)"
| "conflict (Is a) Any = False"
| "conflict (Is a) Not0 = (a = 0)"
| "conflict (Is a) Lo4 = (4 \<le> a mod 8)"
| "conflict (Is a) Hi4 = (a mod 8 < 4)"
| "conflict (Is a) Lo8 = (8 \<le> a)"
| "conflict (Is a) Hi8 = (a < 8)"
| "conflict (Is a) (With2 b) = (a \<noteq> b \<and> a \<noteq> b + 2)"
| "conflict Not0 (Is b) = (b = 0)"
| "conflict Hi4 (Is b) = (b mod 8 < 4)"
| "conflict Lo4 (Is b) = (4 \<le> b mod 8)"
| "conflict Hi8 (Is b) = (b < 8)"
| "conflict Lo8 (Is b) = (8 \<le> b)"
| "conflict (With2 a) (Is b) = (b \<noteq> a \<and> b \<noteq> a + 2)"
| "conflict (With2 a) (With2 b) = (a \<noteq> b \<and> a \<noteq> b + 2 \<and> a + 2 \<noteq> b)"
| "conflict Lo4 Hi4 = True"
| "conflict Hi4 Lo4 = True"
| "conflict Lo8 Hi8 = True"
| "conflict Hi8 Lo8 = True"
| "conflict x y = False"

lemma conflict_sound: "conflict x y \<Longrightarrow> admits x v \<Longrightarrow> \<not> admits y v"
  by (induction x y rule: conflict.induct) auto

fun apart :: "nib list \<Rightarrow> nib list \<Rightarrow> bool" where
  "apart (x # xs) (y # ys) = (if conflict x y then True else apart xs ys)"
| "apart xs ys = False"

text \<open>The patterns to be compared, with the numbers of their entries, as a tree.\<close>

datatype ptree = Nil | Leaf nat "nib list" | Br ptree ptree

fun members :: "ptree \<Rightarrow> (nat \<times> nib list) list" where
  "members Nil = []"
| "members (Leaf i ns) = [(i, ns)]"
| "members (Br l r) = members l @ members r"

fun join :: "ptree \<Rightarrow> ptree \<Rightarrow> ptree" where
  "join Nil r = r"
| "join (Leaf i ns) Nil = Leaf i ns"
| "join (Br l m) Nil = Br l m"
| "join (Leaf i ns) (Leaf j ms) = Br (Leaf i ns) (Leaf j ms)"
| "join (Leaf i ns) (Br l r) = Br (Leaf i ns) (Br l r)"
| "join (Br l m) (Leaf j ms) = Br (Br l m) (Leaf j ms)"
| "join (Br l m) (Br k r) = Br (Br l m) (Br k r)"

fun narrowed :: "nat \<Rightarrow> ptree \<Rightarrow> ptree" where
  "narrowed v Nil = Nil"
| "narrowed v (Leaf i []) = Leaf i []"
| "narrowed v (Leaf i (n # ns)) = (if admits n v then Leaf i ns else Nil)"
| "narrowed v (Br l r) = join (narrowed v l) (narrowed v r)"

fun against :: "(nat \<times> nat) list \<Rightarrow> nat \<Rightarrow> nib list \<Rightarrow> ptree \<Rightarrow> bool" where
  "against al i xs Nil = True"
| "against al i xs (Leaf j ys) = (if apart xs ys then True else (i, j) \<in> set al)"
| "against al i xs (Br l r) = (if against al i xs l then against al i xs r else False)"

fun crossed :: "(nat \<times> nat) list \<Rightarrow> ptree \<Rightarrow> ptree \<Rightarrow> bool" where
  "crossed al Nil t = True"
| "crossed al (Leaf i xs) t = against al i xs t"
| "crossed al (Br l r) t = (if crossed al l t then crossed al r t else False)"

fun pairwise_apart :: "(nat \<times> nat) list \<Rightarrow> ptree \<Rightarrow> bool" where
  "pairwise_apart al Nil = True"
| "pairwise_apart al (Leaf i xs) = True"
| "pairwise_apart al (Br l r) = (if crossed al l r then pairwise_apart al l \<and> pairwise_apart al r else False)"

fun separated :: "(nat \<times> nat) list \<Rightarrow> nat \<Rightarrow> ptree \<Rightarrow> bool" where
  "separated al 0 t = pairwise_apart al t"
| "separated al (Suc n) t =
     (separated al n (narrowed 0 t) \<and> separated al n (narrowed 1 t) \<and> separated al n (narrowed 2 t) \<and> separated al n (narrowed 3 t) \<and>
      separated al n (narrowed 4 t) \<and> separated al n (narrowed 5 t) \<and> separated al n (narrowed 6 t) \<and> separated al n (narrowed 7 t) \<and>
      separated al n (narrowed 8 t) \<and> separated al n (narrowed 9 t) \<and> separated al n (narrowed 10 t) \<and> separated al n (narrowed 11 t) \<and>
      separated al n (narrowed 12 t) \<and> separated al n (narrowed 13 t) \<and> separated al n (narrowed 14 t) \<and> separated al n (narrowed 15 t))"

fun chain :: "opcode_entry_type list \<Rightarrow> ptree" where
  "chain [] = Nil"
| "chain (op # ops) = Br (Leaf (idx op) (pattern op)) (chain ops)"

definition patterns :: ptree where
  "patterns =
     Br (Br (Br (Br (chain z8k_table_a) (chain z8k_table_b)) (Br (chain z8k_table_c) (chain z8k_table_d)))
            (Br (Br (chain z8k_table_e) (chain z8k_table_h)) (Br (chain z8k_table_i) (chain z8k_table_j))))
        (Br (Br (Br (chain z8k_table_l) (chain z8k_table_m)) (Br (chain z8k_table_n) (chain z8k_table_o)))
            (Br (Br (Br (chain z8k_table_p) (chain z8k_table_r)) (Br (chain z8k_table_s) (chain z8k_table_t))) (chain z8k_table_x)))"

lemma idx_entry: "idx (z8k_entry name opc args ds n len i) = i"
  by (simp add: z8k_entry_def)

lemma indices: "map idx z8k_table = [0..<418]"
proof -
  have "[0..<418] = 0 # 1 # [2..<418]" by (simp add: upt_conv_Cons)
  then show ?thesis by (simp add: z8k_table_def z8k_tables idx_entry upt_rec_numeral del: One_nat_def)
qed

lemma patterns_separated: "separated [(135, 136), (37, 310), (345, 357), (348, 360), (416, 417)] (Suc (Suc 0)) patterns"
  by (simp add: patterns_def z8k_tables pattern_entry idx_entry pats_rules del: pats.simps(2) One_nat_def)

section \<open>No other entries overlap\<close>

definition fits :: "nib list \<Rightarrow> (nat \<Rightarrow> nat) \<Rightarrow> bool" where
  "fits ns f \<longleftrightarrow> (\<forall>i < length ns. admits (ns ! i) (f i))"

lemma fits_Cons: "fits (n # ns) f \<longleftrightarrow> admits n (f 0) \<and> fits ns (\<lambda>i. f (Suc i))"
  by (auto simp: fits_def nth_Cons less_Suc_eq_0_disj split: nat.splits)

lemma apart_sound: "apart xs ys \<Longrightarrow> fits xs f \<Longrightarrow> \<not> fits ys f"
  by (induction xs ys arbitrary: f rule: apart.induct) (auto simp: fits_Cons dest: conflict_sound split: if_splits)

lemma members_join: "set (members (join l r)) = set (members l) \<union> set (members r)"
  by (induction l r rule: join.induct) auto

lemma narrowed_sound: "(i, ns) \<in> set (members t) \<Longrightarrow> fits ns f \<Longrightarrow> (i, tl ns) \<in> set (members (narrowed (f 0) t))"
  by (induction "f 0" t rule: narrowed.induct) (auto simp: members_join fits_Cons)

lemma against_sound:
  "against al i xs t \<Longrightarrow> (j, ys) \<in> set (members t) \<Longrightarrow> apart xs ys \<or> (i, j) \<in> set al"
  by (induction al i xs t rule: against.induct) (auto split: if_splits)

lemma crossed_sound:
  "crossed al s t \<Longrightarrow> (i, xs) \<in> set (members s) \<Longrightarrow> (j, ys) \<in> set (members t) \<Longrightarrow> apart xs ys \<or> (i, j) \<in> set al"
  by (induction al s t rule: crossed.induct) (auto split: if_splits dest: against_sound)

definition same_or :: "(nat \<times> nat) list \<Rightarrow> nat \<Rightarrow> nat \<Rightarrow> bool" where
  "same_or al i j \<longleftrightarrow> i = j \<or> (i, j) \<in> set al \<or> (j, i) \<in> set al"

lemma pairwise_sound:
  "pairwise_apart al t \<Longrightarrow> (i, xs) \<in> set (members t) \<Longrightarrow> (j, ys) \<in> set (members t) \<Longrightarrow> fits xs f \<Longrightarrow> fits ys f \<Longrightarrow> same_or al i j"
proof (induction al t rule: pairwise_apart.induct)
  case (3 al l r)
  then have c: "crossed al l r" by (simp split: if_splits)
  have "same_or al i j" if "(i, xs) \<in> set (members l)" "(j, ys) \<in> set (members r)"
    using crossed_sound [OF c that] apart_sound "3.prems" by (auto simp: same_or_def)
  moreover have "same_or al i j" if "(i, xs) \<in> set (members r)" "(j, ys) \<in> set (members l)"
    using crossed_sound [OF c that(2,1)] apart_sound "3.prems" by (auto simp: same_or_def)
  ultimately show ?case using "3.IH" "3.prems" c by auto
qed (auto simp: same_or_def)

lemma below_16: "v < 16 \<Longrightarrow> v \<in> {0, 1, 2, 3, 4, 5, 6, 7, 8, 9, 10, 11, 12, 13, 14, 15 :: nat}"
  by (auto simp: less_Suc_eq numeral_eq_Suc)

lemma separated_sound:
  "separated al n t \<Longrightarrow> (\<And>k. f k < 16) \<Longrightarrow> (i, xs) \<in> set (members t) \<Longrightarrow> (j, ys) \<in> set (members t)
     \<Longrightarrow> fits xs f \<Longrightarrow> fits ys f \<Longrightarrow> same_or al i j"
proof (induction n arbitrary: t xs ys f)
  case (Suc n)
  have "separated al n (narrowed (f 0) t)"
    using Suc.prems(1) below_16 [OF Suc.prems(2) [of 0]] by auto
  moreover have "fits (tl zs) (\<lambda>k. f (Suc k))" if "fits zs f" for zs
    using that by (cases zs) (auto simp: fits_Cons fits_def)
  ultimately show ?case
    using Suc.IH [of "narrowed (f 0) t" "\<lambda>k. f (Suc k)" "tl xs" "tl ys"] Suc.prems narrowed_sound by blast
qed (auto dest: pairwise_sound)

text \<open>
  The pairs of entries that overlap; what matches the second is found as the first: \<open>in rd,imm16\<close> where \<open>rd\<close> and the
  place of \<open>rs\<close> are the same nibble, \<open>rsvd36\<close> behind \<open>bpt\<close>, \<open>srab\<close> and \<open>srlb\<close> behind \<open>slab\<close> and \<open>sllb\<close>, and a second \<open>xorb\<close>.
\<close>

definition overlapping :: "(nat \<times> nat) list" where
  "overlapping = [(135, 136), (37, 310), (345, 357), (348, 360), (416, 417)]"

lemma members_chain: "members (chain ops) = map (\<lambda>op. (idx op, pattern op)) ops"
  by (induction ops) simp_all

lemma members_patterns: "members patterns = map (\<lambda>op. (idx op, pattern op)) z8k_table"
  by (simp add: patterns_def members_chain z8k_table_def)

lemma idx_nth: "i < 418 \<Longrightarrow> idx (z8k_table ! i) = i"
  using arg_cong [OF indices, of "\<lambda>xs. xs ! i"] by (simp add: length_z8k_table)

lemma overlaps:
  assumes "i < 418" "j < 418" "fits (pattern (z8k_table ! i)) f" "fits (pattern (z8k_table ! j)) f" "\<And>k. f k < 16"
  shows "same_or overlapping i j"
proof -
  have "(k, pattern (z8k_table ! k)) \<in> set (members patterns)" if "k < 418" for k
    using that by (auto simp: members_patterns length_z8k_table idx_nth in_set_conv_nth intro!: exI [of _ k] image_eqI [of _ _ "z8k_table ! k"])
  then show ?thesis
    using separated_sound [OF patterns_separated] assms unfolding overlapping_def by blast
qed

end
