(* ===== verification/Z8k_Search.thy ===== *)
theory Z8k_Search
  imports Z8k_Lookup
begin

text \<open>
  The search of the Z8000 disassembler for the entry of an instruction (\<open>z8k_lookup_instr\<close> of \<open>src/src/opcodes/z8k-dis.c\<close>)
  returns the first entry of the table that the nibbles in memory match, and which entry this is.
\<close>

section \<open>What the entries of the table have in common\<close>

text \<open>Fields of one nibble for the search, with values as \<open>val_ok\<close> wants them.\<close>

definition plain :: "uint32 \<Rightarrow> bool" where
  "plain d \<longleftrightarrow> d \<noteq> 0 \<and> val_ok (datum_class d) (datum_value d) \<and> skips (datum_class d) = 0"

text \<open>The fields are not more than the nibbles; a displacement of 7 bits is the last of them.\<close>

fun data_ok :: "nat \<Rightarrow> uint32 list \<Rightarrow> bool" where
  "data_ok k [] = True"
| "data_ok k (d # ds) = (if plain d then 0 < k \<and> data_ok (k - 1) ds else k = 2 \<and> ds = [] \<and> (d = CLASS_0DISP7 \<or> d = CLASS_1DISP7))"

definition entry_ok :: "opcode_entry_type \<Rightarrow> bool" where
  "entry_ok op \<longleftrightarrow> (\<exists>ds. byte_info op = ds @ replicate (10 - length ds) 0 \<and> length ds \<le> 9 \<and> data_ok (2 * z_length op) ds)
     \<and> z_length op \<le> 6 \<and> noperands op \<le> 4"

lemma entry_ok_entry:
  "length ds \<le> 9 \<Longrightarrow> data_ok (2 * len) ds \<Longrightarrow> len \<le> 6 \<Longrightarrow> n \<le> 4 \<Longrightarrow> entry_ok (z8k_entry name opc args ds n len i)"
  unfolding entry_ok_def z8k_entry_def by (auto intro!: exI [of _ ds] simp: take_append)

lemma plain_data: "list_all plain
    [0x58, 0x5b, 0x61, 0x62, 0x63, 0x64, 0x65, 0x69, 0x6d, 0x70, 0xd1, 0xd2, 0xe0, 0xf0, 0x300, 0x400, 0x500, 
     0x501, 0x502, 0x503, 0x504, 0x505, 0x506, 0x507, 0x508, 0x509, 0x50a, 0x50b, 0x50c, 0x50d, 0x50e, 0x50f, 
     0x600, 0x800, 0x900, 0x904, 0x908, 0x90c, 0x7001, 0x7002, 0x7003, 0x7004, 0x7005, 0x7006, 0x8001, 0x8002, 
     0x8003, 0x8004]"
  by (simp add: plain_def datum_class_def datum_value_def val_ok_def skips_def)

lemma not_plain: "\<not> plain CLASS_0DISP7" "\<not> plain CLASS_1DISP7"
  by (simp_all add: plain_def datum_class_def skips_def)

lemma entries_ok: "op \<in> set z8k_table \<Longrightarrow> entry_ok op"
proof -
  have "list_all entry_ok z8k_table"
    by (simp add: z8k_table_def z8k_tables entry_ok_entry plain_data [simplified] not_plain)
  then show "op \<in> set z8k_table \<Longrightarrow> entry_ok op" by (simp add: list_all_iff)
qed

section \<open>What it means to match\<close>

definition entry_matches :: "opcode_entry_type \<Rightarrow> (nat \<Rightarrow> uint8) \<Rightarrow> bool" where
  "entry_matches op nib \<longleftrightarrow>
     (\<forall>i < z_length op * 2. nibble_matches (datum_class (byte_info_at op i)) (datum_value (byte_info_at op i)) (nib i))"

lemma pats_all: "0 \<notin> set ds \<Longrightarrow> pats ds = map datum_nib ds"
  by (induction ds) auto

lemma plain_nonzero: "data_ok k ds \<Longrightarrow> 0 \<notin> set ds"
  by (induction k ds rule: data_ok.induct) (auto simp: plain_def split: if_splits)

lemma data_val_ok: "data_ok k ds \<Longrightarrow> d \<in> set ds \<Longrightarrow> val_ok (datum_class d) (datum_value d)"
  by (induction k ds rule: data_ok.induct) (auto simp: plain_def val_ok_def datum_class_def split: if_splits)

lemma data_length: "data_ok k ds \<Longrightarrow> length ds \<le> k"
  by (induction k ds rule: data_ok.induct) (auto split: if_splits)

lemma data_skips: "data_ok k ds \<Longrightarrow> j < length ds \<Longrightarrow> skips (datum_class (ds ! j)) = (if plain (ds ! j) then 0 else 1)
    \<and> (\<not> plain (ds ! j) \<longrightarrow> j + 2 = k \<and> j + 1 = length ds)"
proof (induction k ds arbitrary: j rule: data_ok.induct)
  case (2 k d ds)
  show ?case
  proof (cases j)
    case 0
    then show ?thesis using "2.prems" by (auto simp: plain_def skips_def datum_class_def split: if_splits)
  next
    case (Suc i)
    then show ?thesis using "2.prems" "2.IH" [of i] by (auto split: if_splits)
  qed
qed simp

lemma no_class: "n \<le> 6 \<Longrightarrow> datum_class (of_nat n) = 0"
proof -
  assume "n \<le> 6"
  then have "n \<in> {0, 1, 2, 3, 4, 5, 6}" by auto
  then show ?thesis by (auto simp: datum_class_def)
qed

lemma entry_data:
  assumes "entry_ok op"
  obtains ds where "byte_info op = ds @ replicate (10 - length ds) 0" "data_ok (2 * z_length op) ds" "z_length op \<le> 6"
    "\<And>i. i < 12 \<Longrightarrow> length ds \<le> i \<Longrightarrow> datum_class (byte_info_at op i) = 0"
    "\<And>i. i < length ds \<Longrightarrow> byte_info_at op i = ds ! i" "pattern op = map datum_nib ds"
proof -
  from assms obtain ds where ds: "byte_info op = ds @ replicate (10 - length ds) 0" "length ds \<le> 9" "data_ok (2 * z_length op) ds"
    and n: "z_length op \<le> 6" "noperands op \<le> 4"
    by (auto simp: entry_ok_def)
  have "datum_class (byte_info_at op i) = 0" if "i < 12" "length ds \<le> i" for i
  proof -
    have "i = 10 \<or> i = 11 \<or> i < 10" using that by linarith
    then show ?thesis
      using n ds that by (auto simp: byte_info_at_def nth_append no_class) (simp add: datum_class_def)
  qed
  moreover have "byte_info_at op i = ds ! i" if "i < length ds" for i
    using ds that by (simp add: byte_info_at_def nth_append)
  moreover have "pattern op = map datum_nib ds"
    using ds(1) plain_nonzero [OF ds(3)] by (simp add: pattern_def pats_append_zero pats_all)
  ultimately show ?thesis using that ds(1,3) n(1) by blast
qed

lemma entry_matches_fits:
  assumes "entry_ok op" "\<And>i. nib i < 16" "z_length op \<le> 6"
  shows "entry_matches op nib \<longleftrightarrow> fits (pattern op) (\<lambda>i. unat (nib i))"
proof -
  obtain ds where ds: "data_ok (2 * z_length op) ds"
    and none: "\<And>i. i < 12 \<Longrightarrow> length ds \<le> i \<Longrightarrow> datum_class (byte_info_at op i) = 0"
    and at: "\<And>i. i < length ds \<Longrightarrow> byte_info_at op i = ds ! i" and p: "pattern op = map datum_nib ds"
    using entry_data [OF assms(1)] by metis
  have "nibble_matches (datum_class (byte_info_at op i)) (datum_value (byte_info_at op i)) (nib i)
      \<longleftrightarrow> i < length ds \<longrightarrow> admits (datum_nib (ds ! i)) (unat (nib i))" if "i < z_length op * 2" for i
  proof (cases "i < length ds")
    case True
    then show ?thesis using matches_admits [OF assms(2) data_val_ok [OF ds]] by (simp add: at datum_nib_def)
  next
    case False
    then have "datum_class (byte_info_at op i) = 0" using none that assms(3) by simp
    then show ?thesis using False by (simp add: nibble_matches_def)
  qed
  moreover have "length ds \<le> z_length op * 2" using data_length [OF ds] by simp
  ultimately show ?thesis by (auto simp: entry_matches_def p fits_def)
qed

text \<open>The second entries of the overlapping pairs.\<close>

definition shadowed :: "nat \<Rightarrow> bool" where
  "shadowed i \<longleftrightarrow> i \<in> {136, 310, 357, 360, 417}"

lemma earlier_match:
  assumes "k < i" "i < 418" "entry_matches (z8k_table ! k) nib" "entry_matches (z8k_table ! i) nib" "\<And>i. nib i < 16"
  shows "shadowed i"
proof -
  have "z8k_table ! j \<in> set z8k_table" if "j < 418" for j using that by (simp add: length_z8k_table)
  then have ok: "entry_ok (z8k_table ! j)" if "j < 418" for j using that entries_ok by blast
  then have "fits (pattern (z8k_table ! k)) (\<lambda>i. unat (nib i))" "fits (pattern (z8k_table ! i)) (\<lambda>i. unat (nib i))"
    using entry_matches_fits [OF ok assms(5)] assms by (auto simp: entry_ok_def)
  moreover have "unat (nib j) < 16" for j using assms(5) [of j] by (simp add: word_less_nat_alt)
  ultimately have "same_or overlapping k i" using overlaps assms(1,2) by simp
  then show ?thesis using assms(1) by (auto simp: same_or_def overlapping_def shadowed_def)
qed

section \<open>Memory as it is fetched\<close>

definition reads :: "read_memory \<Rightarrow> uint8 list \<Rightarrow> bool" where
  "reads rd p \<longleftrightarrow> 12 \<le> length p \<and> (\<forall>n \<le> 12. rd n = Some (take n p))"

definition nib :: "uint8 list \<Rightarrow> nat \<Rightarrow> uint8" where
  "nib p i = (if even i then drop_bit 4 (p ! (i div 2)) else p ! (i div 2) AND 0xf)"

definition word_of :: "uint8 list \<Rightarrow> nat \<Rightarrow> uint16" where
  "word_of p i = push_bit 8 (ucast (p ! (i div 2))) OR ucast (p ! (i div 2 + 1))"

lemma unat_16: "unat (16 :: uint8) = 16"
  by simp

lemma nib_less: "nib p i < 16"
proof -
  have m: "x AND 0xf = take_bit 4 x" for x :: uint8 by (simp add: take_bit_eq_mask mask_eq_exp_minus_1)
  have "take_bit 4 (drop_bit 4 x) = drop_bit 4 x" for x :: uint8
    by (rule bit_word_eqI) (auto simp: bit_simps dest: bit_imp_le_length)
  then have "take_bit 4 (nib p i) = nib p i" by (simp add: nib_def m)
  moreover have "unat (take_bit 4 x) < 16" for x :: uint8
    using take_bit_nat_less_exp [of 4 "unat x"] by (simp add: unsigned_take_bit_eq)
  ultimately show ?thesis by (metis word_less_nat_alt unat_16)
qed

definition fetched :: "uint8 list \<Rightarrow> instr_data_s \<Rightarrow> bool" where
  "fetched p d \<longleftrightarrow> max_fetched d \<le> 24 \<and> max_fetched d mod 4 = 0
     \<and> (\<forall>i < max_fetched d. nibbles d ! i = nib p i \<and> (even i \<longrightarrow> bytes d ! i = p ! (i div 2)) \<and> (i mod 4 = 0 \<longrightarrow> words d ! i = word_of p i))"

text \<open>The members that a fetch leaves alone.\<close>

definition rest :: "instr_data_s \<Rightarrow> instr_data_s" where
  "rest d = d\<lparr>nibbles := [], bytes := [], words := [], max_fetched := 0\<rparr>"

lemma FETCH_reads:
  assumes "reads rd p" "fetched p d" "n mod 4 = 0" "n \<le> 24"
  shows "\<exists>d'. FETCH_DATA rd n d = Inr d' \<and> fetched p d' \<and> n \<le> max_fetched d' \<and> max_fetched d \<le> max_fetched d' \<and> rest d' = rest d"
proof (cases "n < max_fetched d")
  case False
  have "rd (n div 2) = Some (take (n div 2) p)" using assms by (simp add: reads_def)
  moreover have "i div 2 < n div 2" if "i < n" for i using that assms(3) by presburger
  moreover have "Suc (i div 2) < n div 2" if "i < n" "4 dvd i" for i using that assms(3) by presburger
  ultimately show ?thesis
    using False assms by (auto simp: FETCH_DATA_def fetch_data_def fetched_def nib_def word_of_def rest_def)
qed (use assms in \<open>auto simp: FETCH_DATA_def\<close>)

section \<open>The loops\<close>

lemma entry_skips:
  assumes "entry_ok op" "i < z_length op * 2"
  defines "s \<equiv> skips (datum_class (byte_info_at op i))"
  shows "s = 0 \<or> s = 1 \<and> i + 2 = z_length op * 2 \<and> datum_class (byte_info_at op (i + 1)) = 0"
proof -
  obtain ds where ds: "data_ok (2 * z_length op) ds" "z_length op \<le> 6"
    and none: "\<And>i. i < 12 \<Longrightarrow> length ds \<le> i \<Longrightarrow> datum_class (byte_info_at op i) = 0"
    and at: "\<And>i. i < length ds \<Longrightarrow> byte_info_at op i = ds ! i"
    using entry_data [OF assms(1)] by metis
  show ?thesis
  proof (cases "i < length ds")
    case True
    then show ?thesis using data_skips [OF ds(1) True] none [of "i + 1"] ds(2) by (auto simp: s_def at split: if_splits)
  next
    case False
    then have "datum_class (byte_info_at op i) = 0" using none [of i] assms(2) ds(2) by simp
    then show ?thesis by (simp add: s_def skips_def)
  qed
qed

definition nibble_ok :: "opcode_entry_type \<Rightarrow> uint8 list \<Rightarrow> nat \<Rightarrow> bool" where
  "nibble_ok op p j = nibble_matches (datum_class (byte_info_at op j)) (datum_value (byte_info_at op j)) (nib p j)"

lemma from_here:
  assumes "entry_ok op" "i < z_length op * 2"
  shows "(\<forall>j < z_length op * 2. i \<le> j \<longrightarrow> nibble_ok op p j)
    \<longleftrightarrow> nibble_ok op p i \<and> (\<forall>j < z_length op * 2. i + skips (datum_class (byte_info_at op i)) + 1 \<le> j \<longrightarrow> nibble_ok op p j)"
proof -
  have zero: "nibble_ok op p j" if "datum_class (byte_info_at op j) = 0" for j
    using that by (simp add: nibble_ok_def nibble_matches_def)
  have between: "nibble_ok op p j" if "i < j" "j < i + skips (datum_class (byte_info_at op i)) + 1" for j
  proof -
    have "j = i + 1" "datum_class (byte_info_at op (i + 1)) = 0" using entry_skips [OF assms] that by auto
    then show ?thesis using zero by simp
  qed
  let ?k = "i + skips (datum_class (byte_info_at op i)) + 1"
  have "nibble_ok op p j"
    if "nibble_ok op p i" "\<forall>j < z_length op * 2. ?k \<le> j \<longrightarrow> nibble_ok op p j" "j < z_length op * 2" "i \<le> j" for j
    using that between [of j] by (cases "j = i"; cases "?k \<le> j") auto
  then show ?thesis using assms(2) by auto
qed

lemma match_loop_reads:
  assumes "entry_ok op" "reads rd p" "fetched p d" "z_length op * 2 \<le> i \<or> i mod 4 = 0 \<or> i < max_fetched d"
  shows "\<exists>d'. match_loop_z8k rd op i d = Inr (\<forall>j < z_length op * 2. i \<le> j \<longrightarrow> nibble_ok op p j, d')
    \<and> fetched p d' \<and> rest d' = rest d \<and> max_fetched d \<le> max_fetched d'"
  using assms(3,4)
proof (induction "z_length op * 2 - i" arbitrary: i d rule: less_induct)
  case less
  show ?case
  proof (cases "i < z_length op * 2")
    case False
    then show ?thesis using less.prems by (subst match_loop_z8k.simps) auto
  next
    case True
    then have lim: "i < 12" using assms(1) by (auto simp: entry_ok_def)
    obtain d1 where d1: "(if i mod 4 = 0 then FETCH_DATA rd (i + 4) d else Inr d) = Inr d1" "fetched p d1" "i < max_fetched d1"
      "rest d1 = rest d" "max_fetched d \<le> max_fetched d1"
      using FETCH_reads [OF assms(2) less.prems(1), of "i + 4"] less.prems lim True by (cases "i mod 4 = 0") fastforce+
    let ?i = "i + skips (datum_class (byte_info_at op i)) + 1"
    have step: "match_loop_z8k rd op i d = (if nibble_ok op p i then match_loop_z8k rd op ?i d1 else Inr (False, d1))"
      using True d1 by (subst match_loop_z8k.simps) (simp add: fetched_def nibble_ok_def Let_def)
    show ?thesis
    proof (cases "nibble_ok op p i")
      case ok: True
      have "max_fetched d1 mod 4 = 0" using d1(2) by (simp add: fetched_def)
      then have "?i mod 4 = 0 \<or> ?i < max_fetched d1" if "skips (datum_class (byte_info_at op i)) = 0"
        using that d1(3) by simp presburger
      then have "z_length op * 2 \<le> ?i \<or> ?i mod 4 = 0 \<or> ?i < max_fetched d1" using entry_skips [OF assms(1) True] by auto
      then show ?thesis
        using less.hyps [of ?i d1] True d1 ok step from_here [OF assms(1) True, of p] by fastforce
    next
      case False
      then show ?thesis using True d1 step by auto
    qed
  qed
qed

text \<open>The first of some entries that the nibbles match, as the number that it has when the first of all has the number \<open>k\<close>.\<close>

fun first_match :: "opcode_entry_type list \<Rightarrow> nat \<Rightarrow> (nat \<Rightarrow> uint8) \<Rightarrow> nat option" where
  "first_match [] k nb = None"
| "first_match (op # ops) k nb = (if entry_matches op nb then Some k else first_match ops (k + 1) nb)"

lemma lookup_loop_reads:
  assumes "reads rd p" "fetched p d" "\<And>op. op \<in> set ops \<Longrightarrow> entry_ok op"
  shows "\<exists>d'. lookup_loop rd ops k d = Inr (first_match ops k (nib p), d') \<and> fetched p d' \<and> rest d' = rest d"
  using assms(2,3)
proof (induction ops arbitrary: k d)
  case (Cons op ops)
  obtain d1 where d1: "match_loop_z8k rd op 0 d = Inr (\<forall>j < z_length op * 2. nibble_ok op p j, d1)" "fetched p d1" "rest d1 = rest d"
    using match_loop_reads [OF _ assms(1), of op d 0] Cons.prems by auto
  have "(\<forall>j < z_length op * 2. nibble_ok op p j) \<longleftrightarrow> entry_matches op (nib p)"
    by (simp add: entry_matches_def nibble_ok_def)
  then show ?case using d1 Cons.IH [OF d1(2), of "k + 1"] Cons.prems(2) by auto
qed simp

lemma first_match_Some:
  "first_match ops k nb = Some n \<Longrightarrow>
     \<exists>m < length ops. n = k + m \<and> entry_matches (ops ! m) nb \<and> (\<forall>i < m. \<not> entry_matches (ops ! i) nb)"
proof (induction ops arbitrary: k)
  case (Cons op ops)
  show ?case
  proof (cases "entry_matches op nb")
    case False
    then obtain m where "m < length ops" "n = k + 1 + m" "entry_matches (ops ! m) nb" "\<forall>i < m. \<not> entry_matches (ops ! i) nb"
      using Cons.IH [of "k + 1"] Cons.prems by auto
    then show ?thesis using False by (intro exI [of _ "Suc m"]) (auto simp: All_less_Suc2)
  qed (use Cons.prems in auto)
qed simp

lemma first_match_None: "first_match ops k nb = None \<longleftrightarrow> (\<forall>op \<in> set ops. \<not> entry_matches op nb)"
  by (induction ops arbitrary: k) auto

text \<open>What it means that a search has the result \<open>r\<close>.\<close>

definition found_as :: "nat option \<Rightarrow> (nat \<Rightarrow> uint8) \<Rightarrow> bool" where
  "found_as r nb =
     (case r of None \<Rightarrow> \<forall>i < 418. \<not> entry_matches (z8k_table ! i) nb
      | Some k \<Rightarrow> k < 418 \<and> entry_matches (z8k_table ! k) nb \<and> (\<forall>i < k. \<not> entry_matches (z8k_table ! i) nb)
          \<and> (\<forall>i < 418. entry_matches (z8k_table ! i) nb \<longrightarrow> \<not> shadowed i \<longrightarrow> k = i))"

lemma first_match_found:
  assumes "\<And>i. nb i < 16"
  shows "found_as (first_match z8k_table 0 nb) nb"
proof (cases "first_match z8k_table 0 nb")
  case None
  then have "\<forall>op \<in> set z8k_table. \<not> entry_matches op nb" by (simp only: first_match_None)
  then have "\<forall>i < 418. \<not> entry_matches (z8k_table ! i) nb" by (simp add: all_set_conv_all_nth length_z8k_table)
  then show ?thesis by (simp add: None found_as_def)
next
  case (Some k)
  then have k: "k < 418" "entry_matches (z8k_table ! k) nb" "\<forall>i < k. \<not> entry_matches (z8k_table ! i) nb"
    using first_match_Some [OF Some] by (auto simp: length_z8k_table)
  have "k = i" if "i < 418" "entry_matches (z8k_table ! i) nb" "\<not> shadowed i" for i
  proof (cases k i rule: linorder_cases)
    case less
    then show ?thesis using earlier_match [OF less that(1) k(2) that(2) assms] that(3) by simp
  next
    case greater
    then show ?thesis using k(3) that(2) by simp
  qed
  then show ?thesis using k unfolding Some found_as_def option.case by blast
qed

text \<open>
  C35. Z8000 disassembler: which entry an instruction is found as. Where memory can be read, \<open>z8k_lookup_instr\<close> returns
  an entry exactly if the nibbles there match one, and then the first that they match. Any entry other than
  the five that are shadowed is found as itself, whatever its operands are: no two of the other
  entries of the table match the same instruction. Words are fetched as the search needs them; what has been fetched is
  what memory holds, and the rest of the state stays as it was.
\<close>

theorem instruction_found:
  assumes "reads rd p" "max_fetched d = 0"
  shows "\<exists>r d'. z8k_lookup_instr rd d = Inr (r, d') \<and> fetched p d' \<and> rest d' = rest d \<and> found_as r (nib p)"
proof -
  have "fetched p d" using assms(2) by (simp add: fetched_def)
  then obtain d' where d': "z8k_lookup_instr rd d = Inr (first_match z8k_table 0 (nib p), d')" "fetched p d'" "rest d' = rest d"
    using lookup_loop_reads [OF assms(1) _ entries_ok, of d z8k_table 0] unfolding z8k_lookup_instr_def by blast
  have "found_as (first_match z8k_table 0 (nib p)) (nib p)" by (rule first_match_found) (rule nib_less)
  then show ?thesis using d' by blast
qed

lemma all_less_4: "(\<forall>i < 4. P i) \<longleftrightarrow> P 0 \<and> P 1 \<and> P 2 \<and> P 3" for P :: "nat \<Rightarrow> bool"
  by (auto simp: numeral_eq_Suc less_Suc_eq)

text \<open>The instruction \<open>add r1,r2\<close>, which is entry 6.\<close>

theorem instruction_found_witness:
  "\<forall>d. \<exists>d'. z8k_lookup_instr (\<lambda>n. Some (take n (0x81 # 0x21 # replicate 10 0))) (d\<lparr>max_fetched := 0\<rparr>) = Inr (Some 6, d')"
proof
  fix d :: instr_data_s
  let ?p = "0x81 # 0x21 # replicate 10 0 :: uint8 list"
  have r: "reads (\<lambda>n. Some (take n ?p)) ?p" by (simp add: reads_def)
  have six: "z8k_table ! 6 = z8k_entry ''add'' 2 [CLASS_REG_WORD + ARG_RD, CLASS_REG_WORD + ARG_RS]
      [CLASS_BIT + 8, CLASS_BIT + 1, CLASS_REG + ARG_RS, CLASS_REG + ARG_RD] 2 2 6"
    by (simp add: z8k_table_def z8k_table_a_def)
  have m: "entry_matches (z8k_table ! 6) (nib ?p)"
    by (simp add: six entry_matches_def z8k_entry_def byte_info_at_def all_less_4 nib_def datum_class_def datum_value_def nibble_matches_def)
  have zero: "max_fetched (d\<lparr>max_fetched := 0\<rparr>) = 0" by simp
  obtain r d' where f: "z8k_lookup_instr (\<lambda>n. Some (take n ?p)) (d\<lparr>max_fetched := 0\<rparr>) = Inr (r, d')" "found_as r (nib ?p)"
    using instruction_found [OF r zero] by blast
  have "\<not> shadowed 6" "(6 :: nat) < 418" by (simp_all add: shadowed_def)
  then have "r = Some 6" using f(2) m unfolding found_as_def by (cases r) auto
  then show "\<exists>d'. z8k_lookup_instr (\<lambda>n. Some (take n ?p)) (d\<lparr>max_fetched := 0\<rparr>) = Inr (Some 6, d')"
    using f(1) by blast
qed

end
