(* ===== verification/Z8k_Operands.thy ===== *)
theory Z8k_Operands
  imports Z8k_Opc Z8k_Base Gas_Operands
begin

text \<open>
  The Z8000 assembler, \<open>src/src/gas/config/tc-z8k.c\<close>, up to the operands of an instruction.

  A pointer into gas's input buffer is the text from there on. The buffer goes on behind the line, which ends with a
  null character, and so does the text; what is behind the end of the text is null. A pointer to characters that may be null is an
  option. \<open>expr\<close> is gas's expression parser, a parameter. The static pointers \<open>da_operand\<close> and
  \<open>imm_operand\<close> point to the expression of an operand of the current call of \<open>md_assemble\<close>, or of an earlier call, whose
  operands are gone.
\<close>

section \<open>State\<close>

record z8k_op =
  op_mode :: uint32
  op_reg :: uint32
  x_reg :: uint32
  op_exp :: expressionS

datatype exp_ptr = Null | Operand nat | Stale

record z8k_fix =
  z_where :: nat
  z_exp :: expressionS
  z_r_type :: nat

record z8k_gas =
  segmented_mode :: bool
  machine :: nat
  coff_flags :: uint32
  operand :: "z8k_op list"
  da_operand :: exp_ptr
  imm_operand :: exp_ptr
  reg :: "uint32 list"
  the_cc :: uint32
  the_ctrl :: uint32
  the_flags :: uint32
  the_interrupt :: uint32
  input_line_pointer :: "string option"
  z_code :: "uint8 list"
  z_fixes :: "z8k_fix list"
  z_msgs :: msgs

type_synonym 'a z8k = "(z8k_gas, 'a) act"

abbreviation (input) "NUL \<equiv> CHR 0x00"

definition at :: "string \<Rightarrow> nat \<Rightarrow> char" where
  "at p i = (if i < length p then p ! i else NUL)"

definition as_bad :: "string \<Rightarrow> unit z8k" where
  "as_bad m = updA (\<lambda>g. g\<lparr>z_msgs := z_msgs g @ [m]\<rparr>)"

definition as_bads :: "msgs \<Rightarrow> unit z8k" where
  "as_bads ms = updA (\<lambda>g. g\<lparr>z_msgs := z_msgs g @ ms\<rparr>)"

definition set_operand :: "nat \<Rightarrow> (z8k_op \<Rightarrow> z8k_op) \<Rightarrow> unit z8k" where
  "set_operand k f =
     seqA (runA (check (k < 3) (Overrun ''operand''))) (\<lambda>_.
     updA (\<lambda>g. g\<lparr>operand := (operand g)[k := f (operand g ! k)]\<rparr>))"

abbreviation (input) "bfd_mach_z8001 \<equiv> 1 :: nat"
abbreviation (input) "bfd_mach_z8002 \<equiv> 2 :: nat"
abbreviation (input) "F_Z8001 \<equiv> 0x1000 :: uint32"
abbreviation (input) "F_Z8002 \<equiv> 0x2000 :: uint32"

definition s_segm :: "z8k_gas \<Rightarrow> z8k_gas" where
  "s_segm g = g\<lparr>segmented_mode := True, machine := bfd_mach_z8001, coff_flags := F_Z8001\<rparr>"

definition s_unseg :: "z8k_gas \<Rightarrow> z8k_gas" where
  "s_unseg g = g\<lparr>segmented_mode := False, machine := bfd_mach_z8002, coff_flags := F_Z8002\<rparr>"

section \<open>Registers\<close>

text \<open>Characters are signed, and \<open>isdigit\<close> is that of the C locale.\<close>

definition char_val :: "char \<Rightarrow> uint32" where
  "char_val c = scast (of_char c :: uint8)"

definition isdigit :: "char \<Rightarrow> bool" where
  "isdigit c \<longleftrightarrow> 48 \<le> (of_char c :: nat) \<and> (of_char c :: nat) \<le> 57"

definition whatreg :: "string \<Rightarrow> uint32 \<times> string" where
  "whatreg src =
     (if isdigit (at src 1)
      then ((char_val (at src 0) - 48) * 10 + char_val (at src 1) - 48, drop 2 src)
      else (char_val (at src 0) - 48, drop 1 src))"

text \<open>A register number read as \<open>char\<close> and compared with the largest that is allowed.\<close>

definition out_of_range :: "uint32 \<Rightarrow> uint32 \<Rightarrow> string \<Rightarrow> msgs" where
  "out_of_range r limit m = (if limit <s scast (ucast r :: uint8) then [m] else [])"

definition parse_reg :: "bool \<Rightarrow> string \<Rightarrow> (string \<times> uint32 \<times> uint32 \<times> msgs) option" where
  "parse_reg segmented src =
     (if at src 0 = CHR ''s'' \<and> at src 1 = CHR ''p'' then
        Some (drop 2 src, if segmented then CLASS_REG_LONG else CLASS_REG_WORD, if segmented then 14 else 15, [])
      else if at src 0 = CHR ''r'' then
        (if at src 1 = CHR ''r'' then
           (let (r, res) = whatreg (drop 2 src)
            in Some (res, CLASS_REG_LONG, r, out_of_range r 14 ''register rr out of range''))
         else if at src 1 = CHR ''h'' then
           (let (r, res) = whatreg (drop 2 src)
            in Some (res, CLASS_REG_BYTE, r, out_of_range r 7 ''register rh out of range''))
         else if at src 1 = CHR ''l'' then
           (let (r, res) = whatreg (drop 2 src)
            in Some (res, CLASS_REG_BYTE, r + 8, out_of_range r 7 ''register rl out of range''))
         else if at src 1 = CHR ''q'' then
           (let (r, res) = whatreg (drop 2 src)
            in Some (res, CLASS_REG_QUAD, r, out_of_range r 12 ''register rq out of range''))
         else
           (let (r, res) = whatreg (drop 1 src)
            in Some (res, CLASS_REG_WORD, r, out_of_range r 15 ''register r out of range'')))
      else None)"

section \<open>Operands\<close>

type_synonym parser = "string \<Rightarrow> expressionS \<times> string"

definition parse_exp :: "parser \<Rightarrow> nat \<Rightarrow> string \<Rightarrow> string z8k" where
  "parse_exp expr k s =
     (let (x, rest) = expr s in
      seqA (set_operand k (op_exp_update (\<lambda>_. x))) (\<lambda>_.
      seqA (if X_op x = O_absent then as_bad ''missing operand'' else retA ()) (\<lambda>_. retA rest)))"

definition checkfor :: "string \<Rightarrow> char \<Rightarrow> string z8k" where
  "checkfor ptr what =
     (if at ptr 0 = what then retA (drop 1 ptr) else seqA (as_bad ''expected character'') (\<lambda>_. retA ptr))"

definition regword :: "uint32 \<Rightarrow> unit z8k" where
  "regword m = (if m \<noteq> CLASS_REG_WORD then as_bad ''register is wrong size for a word'' else retA ())"

definition regaddr :: "uint32 \<Rightarrow> unit z8k" where
  "regaddr m =
     seqA (getA segmented_mode) (\<lambda>seg.
     if m \<noteq> (if seg then CLASS_REG_LONG else CLASS_REG_WORD) then as_bad ''register is wrong size for address'' else retA ())"

text \<open>The tables of names, and the search for the first name with which the text begins.\<close>

definition ctrl_table :: "(uint32 \<times> string) list" where
  "ctrl_table = [(0x2, ''fcw''), (0x3, ''refresh''), (0x4, ''psapseg''), (0x5, ''psapoff''), (0x5, ''psap''),
     (0x6, ''nspseg''), (0x7, ''nspoff''), (0x7, ''nsp'')]"

definition flag_table :: "(uint32 \<times> string) list" where
  "flag_table = [(0x1, ''p''), (0x1, ''v''), (0x2, ''s''), (0x4, ''z''), (0x8, ''c''), (0x0, ''+'')]"

definition intr_table :: "(uint32 \<times> string) list" where
  "intr_table = [(0x1, ''nvi''), (0x2, ''vi''), (0x3, ''both''), (0x3, ''all'')]"

definition cc_table :: "(uint32 \<times> string) list" where
  "cc_table = [(0x0, ''f''), (0x1, ''lt''), (0x2, ''le''), (0x3, ''ule''), (0x4, ''ov''), (0x4, ''pe''), (0x5, ''mi''),
     (0x6, ''eq''), (0x6, ''z''), (0x7, ''c''), (0x7, ''ult''), (0x8, ''t''), (0x9, ''ge''), (0xa, ''gt''),
     (0xb, ''ugt''), (0xc, ''nov''), (0xc, ''po''), (0xd, ''pl''), (0xe, ''ne''), (0xe, ''nz''), (0xf, ''nc''),
     (0xf, ''uge'')]"

definition skip_blanks :: "string \<Rightarrow> string" where
  "skip_blanks = dropWhile (\<lambda>c. c = CHR '' '')"

definition find_name :: "(uint32 \<times> string) list \<Rightarrow> string \<Rightarrow> (uint32 \<times> string) option" where
  "find_name names src =
     map_option (\<lambda>(v, n). (v, drop (length n) src)) (find (\<lambda>(v, n). take (length n) src = n) names)"

text \<open>The first component of the result is the new value of the caller's pointer.\<close>

definition get_ctrl_operand :: "string \<Rightarrow> nat \<Rightarrow> string z8k" where
  "get_ctrl_operand ptr k =
     seqA (set_operand k (op_mode_update (\<lambda>_. CLASS_CTRL))) (\<lambda>_.
     case find_name ctrl_table (skip_blanks ptr) of
       Some (v, rest) \<Rightarrow> seqA (updA (the_ctrl_update (\<lambda>_. v))) (\<lambda>_. retA rest)
     | None \<Rightarrow> seqA (updA (the_ctrl_update (\<lambda>_. 0))) (\<lambda>_. retA ptr))"

definition get_interrupt_operand :: "string \<Rightarrow> nat \<Rightarrow> string z8k" where
  "get_interrupt_operand ptr k =
     seqA (set_operand k (op_mode_update (\<lambda>_. CLASS_IMM))) (\<lambda>_.
     case find_name intr_table (skip_blanks ptr) of
       Some (v, rest) \<Rightarrow> seqA (updA (the_interrupt_update (\<lambda>_. v))) (\<lambda>_. retA rest)
     | None \<Rightarrow> seqA (updA (the_interrupt_update (\<lambda>_. 0))) (\<lambda>_. retA ptr))"

definition get_cc_operand :: "string \<Rightarrow> nat \<Rightarrow> string z8k" where
  "get_cc_operand ptr k =
     seqA (set_operand k (op_mode_update (\<lambda>_. CLASS_CC))) (\<lambda>_.
     case find_name cc_table (skip_blanks ptr) of
       Some (v, rest) \<Rightarrow> seqA (updA (the_cc_update (\<lambda>_. v))) (\<lambda>_. retA rest)
     | None \<Rightarrow> seqA (updA (the_cc_update (\<lambda>_. 8))) (\<lambda>_. retA ptr))"

text \<open>The flags of at most ten characters.\<close>

fun flags_loop :: "nat \<Rightarrow> string \<Rightarrow> uint32 \<Rightarrow> uint32 \<times> string" where
  "flags_loop 0 src fl = (fl, src)"
| "flags_loop (Suc n) src fl =
     (if at src 0 = NUL then (fl, src)
      else case find (\<lambda>(v, name). hd name = at src 0) flag_table of
             None \<Rightarrow> (fl, src)
           | Some (v, name) \<Rightarrow> flags_loop n (drop 1 src) (fl OR v))"

definition get_flags_operand :: "string \<Rightarrow> nat \<Rightarrow> string z8k" where
  "get_flags_operand ptr k =
     seqA (set_operand k (op_mode_update (\<lambda>_. CLASS_FLAGS))) (\<lambda>_.
     let (fl, rest) = flags_loop 10 (skip_blanks ptr) 0 in
     seqA (updA (the_flags_update (\<lambda>_. fl))) (\<lambda>_. retA rest))"

text \<open>
  \<open>get_operand\<close>. The local variables for the register of \<open>parse_reg\<close> keep what they hold when there is none, and
  the code then does not use them, with one exception: the base register of an address, where the null pointer that
  \<open>parse_reg\<close> returns is used before.
\<close>

definition based_operand :: "parser \<Rightarrow> nat \<Rightarrow> uint32 \<Rightarrow> uint32 \<Rightarrow> string \<Rightarrow> string z8k" where
  "based_operand expr k m regn src =
     seqA (getA segmented_mode) (\<lambda>seg.
     case parse_reg seg src of
       Some (end, nw, nr, ms) \<Rightarrow>
         seqA (as_bads ms) (\<lambda>_.
         seqA (if at end 0 \<noteq> CHR '')'' then seqA (as_bad ''Missing ) in ra(rb)'') (\<lambda>_. retA end) else retA (drop 1 end)) (\<lambda>src.
         seqA (regaddr m) (\<lambda>_.
         seqA (set_operand k (\<lambda>x. x\<lparr>op_mode := CLASS_BX, op_reg := regn, x_reg := nr\<rparr>)) (\<lambda>_.
         seqA (updA (\<lambda>g. g\<lparr>reg := (reg g)[unat ARG_RX := nr]\<rparr>)) (\<lambda>_. retA src)))))
     | None \<Rightarrow>
         seqA (parse_exp expr k (if at src 0 = CHR ''#'' then drop 1 src else src)) (\<lambda>src.
         seqA (checkfor src (CHR '')'')) (\<lambda>src.
         seqA (set_operand k (\<lambda>x. x\<lparr>op_mode := CLASS_BA, op_reg := regn, x_reg := 0\<rparr>)) (\<lambda>_.
         seqA (updA (imm_operand_update (\<lambda>_. Operand k))) (\<lambda>_. retA src)))))"

definition address_operand :: "parser \<Rightarrow> nat \<Rightarrow> string \<Rightarrow> string z8k" where
  "address_operand expr k src =
     seqA (parse_exp expr k src) (\<lambda>src.
     if at src 0 = CHR ''('' then
       seqA (getA segmented_mode) (\<lambda>seg.
       case parse_reg seg (drop 1 src) of
         None \<Rightarrow> runA (Inl (Null_deref ''end''))
       | Some (end, m, regn, ms) \<Rightarrow>
           seqA (as_bads ms) (\<lambda>_.
           seqA (regword m) (\<lambda>_.
           seqA (set_operand k (\<lambda>x. x\<lparr>op_mode := CLASS_X, op_reg := regn, x_reg := 0\<rparr>)) (\<lambda>_.
           seqA (updA (da_operand_update (\<lambda>_. Operand k))) (\<lambda>_. checkfor end (CHR '')''))))))
     else
       seqA (set_operand k (\<lambda>x. x\<lparr>op_mode := CLASS_DA, op_reg := 0, x_reg := 0\<rparr>)) (\<lambda>_.
       seqA (updA (da_operand_update (\<lambda>_. Operand k))) (\<lambda>_. retA src)))"

definition get_operand :: "parser \<Rightarrow> string \<Rightarrow> nat \<Rightarrow> string option z8k" where
  "get_operand expr ptr k =
     (let src = skip_blanks ptr in
      seqA (set_operand k (op_mode_update (\<lambda>_. 0))) (\<lambda>_.
      seqA (getA segmented_mode) (\<lambda>seg.
      if at src 0 = CHR ''#'' then
        seqA (set_operand k (op_mode_update (\<lambda>_. CLASS_IMM))) (\<lambda>_.
        seqA (updA (imm_operand_update (\<lambda>_. Operand k))) (\<lambda>_.
        seqA (parse_exp expr k (drop 1 src)) (\<lambda>src. retA (Some src))))
      else if at src 0 = CHR ''@'' then
        seqA (set_operand k (op_mode_update (\<lambda>_. CLASS_IR))) (\<lambda>_.
        case parse_reg seg (drop 1 src) of
          None \<Rightarrow> retA None
        | Some (rest, d, r, ms) \<Rightarrow>
            seqA (as_bads ms) (\<lambda>_.
            seqA (set_operand k (op_reg_update (\<lambda>_. r))) (\<lambda>_. retA (Some rest))))
      else
        case parse_reg seg src of
          Some (rest, m, regn, ms) \<Rightarrow>
            seqA (as_bads ms) (\<lambda>_.
            seqA (set_operand k (op_mode_update (\<lambda>_. m))) (\<lambda>_.
            if at rest 0 = CHR ''('' then seqA (based_operand expr k m regn (drop 1 rest)) (\<lambda>src. retA (Some src))
            else seqA (set_operand k (\<lambda>x. x\<lparr>op_reg := regn, x_reg := 0\<rparr>)) (\<lambda>_. retA (Some rest))))
        | None \<Rightarrow> seqA (address_operand expr k src) (\<lambda>src. retA (Some src)))))"

end
