(* ===== verification/Z8k_Gas.thy ===== *)
theory Z8k_Gas
  imports Z8k_Operands Gas_Pack
begin

text \<open>
  The Z8000 assembler, \<open>src/src/gas/config/tc-z8k.c\<close>, after the single operand: all operands of an instruction, the
  choice of the entry, and the encoding (\<open>build_bytes\<close>).
\<close>

section \<open>The operands of an instruction\<close>

text \<open>
  The result is the pointer that \<open>get_operands\<close> returns, which may be null. After a null pointer from the first of two
  operands the code returns without a value; with three or four operands it reads through the pointer.
\<close>

definition comma :: "string \<Rightarrow> string" where
  "comma ptr = (if at ptr 0 = CHR '','' then drop 1 ptr else ptr)"

definition not_null :: "string option \<Rightarrow> z8k_fault \<Rightarrow> string z8k" where
  "not_null ptr e = runA (case ptr of None \<Rightarrow> Inl e | Some p \<Rightarrow> Inr p)"

definition one_operand :: "parser \<Rightarrow> uint32 \<Rightarrow> string \<Rightarrow> string option z8k" where
  "one_operand expr info ptr =
     (if info = CLASS_CC then seqA (get_cc_operand ptr 0) (\<lambda>p. retA (Some p))
      else if info = CLASS_FLAGS then seqA (get_flags_operand ptr 0) (\<lambda>p. retA (Some p))
      else if info = CLASS_IMM + ARG_IMM2 then seqA (get_interrupt_operand ptr 0) (\<lambda>p. retA (Some p))
      else get_operand expr ptr 0)"

definition two_operands :: "parser \<Rightarrow> uint32 \<Rightarrow> string \<Rightarrow> string option z8k" where
  "two_operands expr info ptr =
     (let no_value = Undefined ''get_operands'';
          second = (\<lambda>p. seqA (not_null p no_value) (\<lambda>p. get_operand expr (comma p) 1)) in
      if info = CLASS_CC then seqA (get_cc_operand ptr 0) (\<lambda>p. second (Some p))
      else if info = CLASS_CTRL then
        seqA (get_ctrl_operand ptr 0) (\<lambda>p.
        seqA (getA the_ctrl) (\<lambda>ctrl.
        if ctrl = 0 then
          seqA (get_operand expr ptr 0) (\<lambda>p.
          seqA (not_null p no_value) (\<lambda>p.
          seqA (get_ctrl_operand (comma p) 1) (\<lambda>p. retA (Some p))))
        else second (Some p)))
      else seqA (get_operand expr ptr 0) second)"

definition three_operands :: "parser \<Rightarrow> string \<Rightarrow> string option z8k" where
  "three_operands expr ptr =
     seqA (get_operand expr ptr 0) (\<lambda>p. seqA (not_null p (Null_deref ''ptr'')) (\<lambda>p.
     seqA (get_operand expr (comma p) 1) (\<lambda>p. seqA (not_null p (Null_deref ''ptr'')) (\<lambda>p.
     get_operand expr (comma p) 2))))"

definition get_operands_z8k :: "parser \<Rightarrow> opcode_entry_type \<Rightarrow> string \<Rightarrow> string option z8k" where
  "get_operands_z8k expr op op_end =
     (let ptr = drop 1 op_end; info = arg_info op ! 0 in
      if noperands op = 0 then
        seqA (set_operand 0 (op_mode_update (\<lambda>_. 0))) (\<lambda>_.
        seqA (set_operand 1 (op_mode_update (\<lambda>_. 0))) (\<lambda>_. retA (Some op_end)))
      else if noperands op = 1 then
        seqA (one_operand expr info ptr) (\<lambda>p.
        seqA (set_operand 1 (op_mode_update (\<lambda>_. 0))) (\<lambda>_. retA p))
      else if noperands op = 2 then two_operands expr info ptr
      else if noperands op = 3 then three_operands expr ptr
      else if noperands op = 4 then
        seqA (three_operands expr ptr) (\<lambda>p.
        seqA (not_null p (Null_deref ''ptr'')) (\<lambda>p.
        seqA (get_cc_operand (comma p) 3) (\<lambda>p. retA (Some p))))
      else runA (Inl Aborted))"

section \<open>The choice of the entry\<close>

text \<open>
  One operand of a candidate: whether it fits. An address becomes a displacement when the candidate
  wants one, and stays one for the candidates after it. The registers are stored as the operands are
  tried.
\<close>

definition reg_classes :: "uint32 set" where
  "reg_classes = {CLASS_X, CLASS_IR, CLASS_BA, CLASS_BX, CLASS_DISP, CLASS_REG, CLASS_REG_WORD, CLASS_REG_BYTE,
     CLASS_REG_QUAD, CLASS_REG_LONG, CLASS_REGN0}"

definition mode_fits :: "bool \<Rightarrow> uint32 \<Rightarrow> uint32 \<Rightarrow> bool" where
  "mode_fits segmented m info \<longleftrightarrow>
     m AND CLASS_MASK = info AND CLASS_MASK
     \<or> (if m = CLASS_DA \<and> info = CLASS_DISP then True
         else if m = CLASS_BA \<and> info \<noteq> 0 then False
         else info AND CLASS_PR \<noteq> 0 \<and> (m = CLASS_REG_LONG \<and> segmented \<or> m = CLASS_REG_WORD \<and> \<not> segmented))"

definition try_operand :: "opcode_entry_type \<Rightarrow> nat \<Rightarrow> bool z8k" where
  "try_operand op i =
     seqA (runA (check (i < 3) (Overrun ''operand''))) (\<lambda>_.
     seqA (getA (\<lambda>g. operand g ! i)) (\<lambda>x.
     seqA (getA segmented_mode) (\<lambda>seg.
     let m = op_mode x; info = arg_info op ! i in
     if \<not> mode_fits seg m info then retA False
     else
       seqA (if m AND CLASS_MASK \<noteq> info AND CLASS_MASK \<and> m = CLASS_DA \<and> info = CLASS_DISP
             then set_operand i (op_mode_update (\<lambda>_. CLASS_DISP)) else retA ()) (\<lambda>_.
       seqA (if m AND CLASS_MASK \<in> reg_classes
             then updA (\<lambda>g. g\<lparr>reg := (reg g)[unat (info AND ARG_MASK) := op_reg x]\<rparr>) else retA ()) (\<lambda>_. retA True)))))"

fun try_operands :: "opcode_entry_type \<Rightarrow> nat list \<Rightarrow> bool z8k" where
  "try_operands op [] = retA True"
| "try_operands op (i # is) = seqA (try_operand op i) (\<lambda>ok. if ok then try_operands op is else retA False)"

text \<open>The candidates follow one another in the table; the terminating entry has the index 0.\<close>

fun specific_loop :: "nat \<Rightarrow> nat \<Rightarrow> opcode_entry_type list \<Rightarrow> opcode_entry_type option z8k" where
  "specific_loop this_index n [] = retA None"
| "specific_loop this_index n (op # ops) =
     (if idx op \<noteq> this_index then retA None
      else seqA (try_operands op [0 ..< n]) (\<lambda>found. if found then retA (Some op) else specific_loop this_index n ops))"

definition get_specific :: "opcode_entry_type list \<Rightarrow> opcode_entry_type option z8k" where
  "get_specific ops = specific_loop (idx (hd ops)) (noperands (hd ops)) ops"

section \<open>Encoding\<close>

abbreviation (input) "R_IMM16 \<equiv> 0x01 :: nat"
abbreviation (input) "R_JR \<equiv> 0x02 :: nat"
abbreviation (input) "R_IMM32 \<equiv> 0x11 :: nat"
abbreviation (input) "R_IMM8 \<equiv> 0x22 :: nat"
abbreviation (input) "R_IMM4L \<equiv> 0x23 :: nat"
abbreviation (input) "R_DISP7 \<equiv> 0x25 :: nat"

definition deref :: "exp_ptr \<Rightarrow> nat z8k" where
  "deref p = runA (case p of Null \<Rightarrow> Inl (Null_deref ''operand'') | Stale \<Rightarrow> Inl (Undefined ''operand'')
                   | Operand k \<Rightarrow> Inr k)"

text \<open>A fix for anything but the constant 0. Its place is a byte of the instruction, which begins at \<open>base\<close>.\<close>

definition newfix :: "nat \<Rightarrow> nat \<Rightarrow> nat \<Rightarrow> expressionS \<Rightarrow> unit z8k" where
  "newfix base ptr type x =
     (if X_add_symbol x \<noteq> None \<or> X_op_symbol x \<noteq> No_symbol \<or> X_add_number x \<noteq> 0
      then updA (\<lambda>g. g\<lparr>z_fixes := z_fixes g @ [\<lparr>z_where = base + ptr, z_exp = x, z_r_type = type\<rparr>]\<rparr>)
      else retA ())"

text \<open>
  The characters that \<open>apply_fix\<close> appends to the buffer; each holds one nibble in its low half, and what is above
  it in the number in its high half.
\<close>

definition fix_chars :: "nat \<Rightarrow> uint32 \<Rightarrow> uint8 list" where
  "fix_chars sz n =
     (if sz = 8 then [ucast (signed_drop_bit 28 n), ucast (signed_drop_bit 24 n), ucast (signed_drop_bit 20 n),
                      ucast (signed_drop_bit 16 n)] else [])
     @ (if sz = 8 \<or> sz = 4 then [ucast (signed_drop_bit 12 n), ucast (signed_drop_bit 8 n)] else [])
     @ (if sz = 8 \<or> sz = 4 \<or> sz = 2 then [ucast (signed_drop_bit 4 n)] else [])
     @ [ucast n]"

definition apply_fix :: "nat \<Rightarrow> uint8 list \<Rightarrow> nat \<Rightarrow> exp_ptr \<Rightarrow> nat \<Rightarrow> uint8 list z8k" where
  "apply_fix base out type p sz =
     seqA (deref p) (\<lambda>k.
     seqA (getA (\<lambda>g. op_exp (operand g ! k))) (\<lambda>x.
     seqA (newfix base (length out div 2) type x) (\<lambda>_.
     retA (out @ fix_chars sz (X_add_number x)))))"

definition adjust_exp :: "exp_ptr \<Rightarrow> (uint32 \<Rightarrow> uint32) \<Rightarrow> unit z8k" where
  "adjust_exp p f = seqA (deref p) (\<lambda>k. set_operand k (op_exp_update (X_add_number_update f)))"

definition use_da :: "nat \<Rightarrow> uint8 list \<Rightarrow> nat \<Rightarrow> nat \<Rightarrow> uint8 list z8k" where
  "use_da base out type sz =
     seqA (getA da_operand) (\<lambda>p.
     seqA (apply_fix base out type p sz) (\<lambda>out.
     seqA (updA (da_operand_update (\<lambda>_. Null))) (\<lambda>_. retA out)))"

definition use_imm :: "nat \<Rightarrow> uint8 list \<Rightarrow> nat \<Rightarrow> nat \<Rightarrow> (uint32 \<Rightarrow> uint32) \<Rightarrow> uint8 list z8k" where
  "use_imm base out type sz f =
     seqA (getA imm_operand) (\<lambda>p.
     seqA (adjust_exp p f) (\<lambda>_. apply_fix base out type p sz))"

definition encode_imm :: "nat \<Rightarrow> uint8 list \<Rightarrow> uint32 \<Rightarrow> uint8 list z8k" where
  "encode_imm base out arg =
     (if arg = ARG_IMM4 then use_imm base out R_IMM4L 1 (\<lambda>n. n)
      else if arg = ARG_IMM4M1 \<or> arg = ARG_IMMNMINUS1 then use_imm base out R_IMM4L 1 (\<lambda>n. n - 1)
      else if arg = ARG_NIM8 then use_imm base out R_IMM8 2 uminus
      else if arg = ARG_IMM8 then use_imm base out R_IMM8 2 (\<lambda>n. n)
      else if arg = ARG_IMM16 then use_imm base out R_IMM16 4 (\<lambda>n. n)
      else if arg = ARG_IMM32 then use_imm base out R_IMM32 8 (\<lambda>n. n)
      else runA (Inl Aborted))"

definition encode_1or2 :: "uint8 list \<Rightarrow> uint32 \<Rightarrow> uint8 list z8k" where
  "encode_1or2 out c =
     (let nib = ucast (c AND 0xf) :: uint8 in
      seqA (getA imm_operand) (\<lambda>p.
      if p = Null then seqA (as_bad ''immediate 1 or 2 expected'') (\<lambda>_. retA (out @ [nib]))
      else
        seqA (deref p) (\<lambda>k.
        seqA (getA (\<lambda>g. X_add_number (op_exp (operand g ! k)))) (\<lambda>n.
        seqA (if n \<noteq> 2 \<and> n \<noteq> 1 then as_bad ''immediate must be 1 or 2'' else retA ()) (\<lambda>_.
        retA (out @ [if n = 2 then nib OR 2 else nib]))))))"

text \<open>
  One field. The stores of 0 and \<open>0x80\<close> before the 7-bit displacements are overwritten by \<open>apply_fix\<close>.
\<close>

definition encode_field :: "nat \<Rightarrow> uint8 list \<Rightarrow> uint32 \<Rightarrow> uint8 list z8k" where
  "encode_field base out c =
     (let cls = c AND CLASS_MASK; val = unat (c AND 0xf); put = (\<lambda>f. getA (\<lambda>g. out @ [ucast (f g)])) in
      if cls = CLASS_ADDRESS then
        seqA (getA segmented_mode) (\<lambda>seg.
        if seg then
          seqA (getA da_operand) (\<lambda>p.
          seqA (adjust_exp p (\<lambda>n. n OR 0x80000000)) (\<lambda>_. use_da base out R_IMM32 8))
        else use_da base out R_IMM16 4)
      else if cls = CLASS_DISP8 then use_da base out R_JR 2
      else if cls = CLASS_0DISP7 then use_da base out R_DISP7 2
      else if cls = CLASS_1DISP7 then
        seqA (use_da base out R_DISP7 2) (\<lambda>out. retA (out[length out - 2 := 8]))
      else if cls = CLASS_BIT_1OR2 then encode_1or2 out c
      else if cls = CLASS_CC then put the_cc
      else if cls = CLASS_0CCC then put the_ctrl
      else if cls = CLASS_1CCC then put (\<lambda>g. the_ctrl g OR 8)
      else if cls = CLASS_00II then put (\<lambda>g. NOT (the_interrupt g) AND 3)
      else if cls = CLASS_01II then put (\<lambda>g. (NOT (the_interrupt g) AND 3) OR 4)
      else if cls = CLASS_FLAGS then put the_flags
      else if cls = CLASS_BIT then put (\<lambda>_. c AND 0xf)
      else if cls = CLASS_REGN0 then
        seqA (getA (\<lambda>g. reg g ! val)) (\<lambda>r.
        seqA (if r = 0 then as_bad ''cannot use R0 here'' else retA ()) (\<lambda>_. put (\<lambda>g. reg g ! val)))
      else if cls \<in> {CLASS_REG, CLASS_REG_BYTE, CLASS_REG_WORD, CLASS_REG_LONG, CLASS_REG_QUAD} then put (\<lambda>g. reg g ! val)
      else if cls = CLASS_DISP then use_da base out R_IMM16 4
      else if cls = CLASS_IMM then encode_imm base out (c AND ARG_MASK)
      else runA (Inl Aborted))"

fun encode_loop :: "nat \<Rightarrow> uint32 list \<Rightarrow> uint8 list \<Rightarrow> uint8 list z8k" where
  "encode_loop base [] out = retA out"
| "encode_loop base (c # cs) out =
     (if c = 0 then retA out else seqA (encode_field base out c) (encode_loop base cs))"

text \<open>
  The nibbles are copied in pairs. With an odd number of them the last byte is written behind the room that \<open>frag_more\<close> has
  made. Since the buffer is read only as far as it was written, \<open>buffer\<close> is a list that grows here.
\<close>

fun pack_nibbles :: "uint8 list \<Rightarrow> uint8 list" where
  "pack_nibbles (a # b # ns) = (push_bit 4 a OR b) # pack_nibbles ns"
| "pack_nibbles _ = []"

definition build_bytes :: "opcode_entry_type \<Rightarrow> unit z8k" where
  "build_bytes op =
     seqA (getA (\<lambda>g. length (z_code g))) (\<lambda>base.
     seqA (encode_loop base (byte_info op) []) (\<lambda>out.
     seqA (runA (check (even (length out)) (Overrun ''frag''))) (\<lambda>_.
     updA (\<lambda>g. g\<lparr>z_code := z_code g @ pack_nibbles out\<rparr>))))"

end
