(* ===== verification/Z8k_Assemble.thy ===== *)
theory Z8k_Assemble
  imports Z8k_Gas
begin

text \<open>
  The entries of the Z8000 assembler that gas calls, \<open>src/src/gas/config/tc-z8k.c\<close>: \<open>md_begin\<close>, \<open>md_assemble\<close>, the
  pseudo operations of the file, floating point constants, options, fixups and relocations.
\<close>

section \<open>Names\<close>

text \<open>
  Each run of entries with one name gets a number, and its first entry is put into the hash table, with the entries that follow it.
  A name that is in the hash table already is not put there again, so that the first one is found.
\<close>

fun number_names :: "string \<Rightarrow> nat \<Rightarrow> opcode_entry_type list \<Rightarrow> opcode_entry_type list" where
  "number_names prev_name k [] = []"
| "number_names prev_name k (op # ops) =
     (let k = (if z_name op \<noteq> prev_name then k + 1 else k) in op\<lparr>idx := k\<rparr> # number_names (z_name op) k ops)"

fun hash_names :: "string \<Rightarrow> opcode_entry_type list \<Rightarrow> (string \<times> opcode_entry_type list) list" where
  "hash_names prev_name [] = []"
| "hash_names prev_name (op # ops) =
     (if z_name op \<noteq> prev_name then [(z_name op, op # ops)] else []) @ hash_names (z_name op) ops"

definition opcode_hash :: "(string \<times> opcode_entry_type list) list" where
  "opcode_hash = hash_names '''' (number_names '''' 0 z8k_table)"

text \<open>The handlers of the pseudo operations; those of gas itself are named.\<close>

datatype poc_handler = S_segm | S_unseg | Sval | Even | Gas_core string

definition md_pseudo_table :: "(string \<times> poc_handler \<times> nat) list" where
  "md_pseudo_table = [
     (''int'', Gas_core ''cons'', 2), (''data.b'', Gas_core ''cons'', 1), (''data.w'', Gas_core ''cons'', 2),
     (''data.l'', Gas_core ''cons'', 4), (''form'', Gas_core ''listing_psize'', 0), (''heading'', Gas_core ''listing_title'', 0),
     (''import'', Gas_core ''s_ignore'', 0), (''page'', Gas_core ''listing_eject'', 0), (''program'', Gas_core ''s_ignore'', 0),
     (''z8001'', S_segm, 0), (''z8002'', S_unseg, 0), (''segm'', S_segm, 0), (''unsegm'', S_unseg, 0), (''unseg'', S_unseg, 0),
     (''name'', Gas_core ''s_app_file'', 0), (''global'', Gas_core ''s_globl'', 0), (''wval'', Gas_core ''cons'', 2),
     (''lval'', Gas_core ''cons'', 4), (''bval'', Gas_core ''cons'', 1), (''sval'', Sval, 0),
     (''rsect'', Gas_core ''obj_coff_section'', 0), (''sect'', Gas_core ''obj_coff_section'', 0),
     (''block'', Gas_core ''s_space'', 0), (''even'', Even, 0)]"

datatype hash_value = Op "opcode_entry_type list" | Pseudo poc_handler nat

definition hash_find :: "string \<Rightarrow> hash_value option" where
  "hash_find name =
     (case map_of opcode_hash name of
        Some ops \<Rightarrow> Some (Op ops)
      | None \<Rightarrow> map_option (\<lambda>(h, v). Pseudo h v) (map_of md_pseudo_table name))"

section \<open>Pseudo operations\<close>

text \<open>
  \<open>core\<close> is gas: its handlers (and \<open>demand_empty_rest_of_line\<close>, \<open>frag_align\<close> with \<open>record_alignment\<close>), which take a number and the text.
\<close>

type_synonym gas_core = "string \<Rightarrow> nat \<Rightarrow> string \<Rightarrow> z8k_gas \<Rightarrow> z8k_gas"

definition tohex :: "char \<Rightarrow> uint32" where
  "tohex c =
     (if isdigit c then char_val c - 48
      else if 97 \<le> (of_char c :: nat) \<and> (of_char c :: nat) \<le> 122 then char_val c - 97 + 10
      else char_val c - 65 + 10)"

text \<open>The characters up to the closing quote, which the code looks for without regard to the end of the line.\<close>

function sval_loop :: "string \<Rightarrow> uint8 list \<Rightarrow> (uint8 list \<times> string) run" where
  "sval_loop [] out = Inl (Overrun ''input line'')"
| "sval_loop (c # src) out =
     (if c = CHR 0x27 then Inr (out, src)
      else if c = CHR ''%''
      then sval_loop (drop 2 src) (out @ [ucast (push_bit 4 (tohex (at src 0)) OR tohex (at src 1))])
      else sval_loop src (out @ [of_char c]))"
  by pat_completeness auto
termination
  by (relation "measure (\<lambda>(src, out). length src)") auto

definition sval :: "gas_core \<Rightarrow> string \<Rightarrow> unit z8k" where
  "sval core text =
     (let text = (if at text 0 = CHR '' '' then drop 1 text else text) in
      if at text 0 \<noteq> CHR 0x27 then retA ()
      else
        seqA (runA (sval_loop (drop 1 text) [])) (\<lambda>(bs, rest).
        seqA (updA (\<lambda>g. g\<lparr>z_code := z_code g @ bs\<rparr>)) (\<lambda>_.
        updA (core ''demand_empty_rest_of_line'' 0 rest))))"

definition poc :: "gas_core \<Rightarrow> poc_handler \<Rightarrow> nat \<Rightarrow> string \<Rightarrow> unit z8k" where
  "poc core h v text =
     (case h of
        S_segm \<Rightarrow> updA s_segm
      | S_unseg \<Rightarrow> updA s_unseg
      | Sval \<Rightarrow> sval core text
      | Even \<Rightarrow> updA (core ''frag_align'' 1 text)
      | Gas_core f \<Rightarrow> updA (core f v text))"

section \<open>Assembling an instruction\<close>

text \<open>
  \<open>str\<close> is the input buffer from the start of the line, \<open>input_line_pointer\<close> its part from the null character that ends
  the line. \<open>junk\<close> is what the operands on the stack hold before they are set.
\<close>

definition stale :: "exp_ptr \<Rightarrow> exp_ptr" where
  "stale p = (case p of Operand k \<Rightarrow> Stale | _ \<Rightarrow> p)"

definition assemble_op :: "parser \<Rightarrow> opcode_entry_type list \<Rightarrow> string \<Rightarrow> unit z8k" where
  "assemble_op expr ops op_end =
     seqA (get_operands_z8k expr (hd ops) op_end) (\<lambda>p.
     seqA (updA (input_line_pointer_update (\<lambda>_. p))) (\<lambda>_.
     seqA (get_specific ops) (\<lambda>found.
     case found of
       None \<Rightarrow>
         seqA (updA (\<lambda>g. g\<lparr>z_code := z_code g @ [0, 0]\<rparr>)) (\<lambda>_. as_bad ''Can't find opcode to match operands'')
     | Some op \<Rightarrow> build_bytes op)))"

definition is_name_end :: "char \<Rightarrow> bool" where
  "is_name_end c \<longleftrightarrow> c = NUL \<or> c = CHR '' ''"

definition line_text :: "string \<Rightarrow> string" where
  "line_text p =
     (let line = takeWhile (\<lambda>c. c \<noteq> NUL) p
      in dropWhile (\<lambda>c. c = CHR '' '') (line @ CHR 0x0A # drop (length line + 1) p))"

definition md_assemble_z8k :: "gas_core \<Rightarrow> parser \<Rightarrow> z8k_op list \<Rightarrow> string \<Rightarrow> unit z8k" where
  "md_assemble_z8k core expr junk str =
     (let str = skip_blanks str;
          name = takeWhile (\<lambda>c. \<not> is_name_end c) str;
          op_end = dropWhile (\<lambda>c. \<not> is_name_end c) str in
      seqA (updA (\<lambda>g. g\<lparr>operand := junk, da_operand := stale (da_operand g), imm_operand := stale (imm_operand g)\<rparr>)) (\<lambda>_.
      seqA (if name = '''' then as_bad ''can't find opcode'' else retA ()) (\<lambda>_.
      case hash_find name of
        None \<Rightarrow> as_bad ''unknown opcode''
      | Some (Pseudo h v) \<Rightarrow>
          seqA (getA input_line_pointer) (\<lambda>old.
          seqA (poc core h v (line_text op_end)) (\<lambda>_. updA (input_line_pointer_update (\<lambda>_. old))))
      | Some (Op ops) \<Rightarrow> assemble_op expr ops (NUL # drop 1 op_end))))"

definition md_begin_z8k :: "z8k_gas \<Rightarrow> z8k_gas" where
  "md_begin_z8k g = s_unseg g"

section \<open>Constants, options, sections\<close>

definition md_atof_z8k :: "(string \<Rightarrow> char \<Rightarrow> string option \<times> (nat \<Rightarrow> uint16)) \<Rightarrow> char \<Rightarrow> string
    \<Rightarrow> string + uint8 list \<times> string" where
  "md_atof_z8k atof_ieee type line =
     (let prec = (if type \<in> set ''fFsS'' then Some 2 else if type \<in> set ''dDrR'' then Some 4
                  else if type \<in> set ''xXpP'' then Some 6 else None)
      in case prec of
           None \<Rightarrow> Inl ''Bad call to MD_ATOF()''
         | Some prec \<Rightarrow>
             (let (t, words) = atof_ieee line type
              in Inr (concat (map (\<lambda>i. number_to_chars_bigendian (ucast (words i)) 2) [0 ..< prec]),
                      case t of None \<Rightarrow> line | Some t \<Rightarrow> t)))"

definition md_parse_option_z8k :: "char \<Rightarrow> string \<Rightarrow> z8k_gas \<Rightarrow> bool \<times> z8k_gas" where
  "md_parse_option_z8k c arg g =
     (if c = CHR ''z'' then
        (if arg = ''8001'' then (True, s_segm g)
         else if arg = ''8002'' then (True, s_unseg g)
         else (False, g\<lparr>z_msgs := z_msgs g @ [''invalid architecture'']\<rparr>))
      else (False, g))"

definition md_section_align_z8k :: "nat \<Rightarrow> uint32 \<Rightarrow> uint32" where
  "md_section_align_z8k align sz = (sz + push_bit align 1 - 1) AND push_bit align (- 1)"

section \<open>Fixups\<close>

text \<open>The bytes of the fragment from \<open>fx_where\<close> on.\<close>

definition md_apply_fix :: "nat \<Rightarrow> nat \<Rightarrow> uint32 \<Rightarrow> uint8 list \<Rightarrow> uint8 list run" where
  "md_apply_fix r_type sz val buf =
     (let store = (\<lambda>new. if length new \<le> length buf then Inr (new @ drop (length new) buf) else Inl (Overrun ''frag''))
      in if r_type = R_IMM4L then store [(hd buf AND 0xf0) OR ((hd buf + ucast val) AND 0xf)]
         else if r_type = R_JR then store [ucast val]
         else if r_type = R_DISP7 \<or> r_type = R_IMM8 then store [hd buf + ucast val]
         else if r_type = R_IMM16 then store [ucast (drop_bit 8 val), ucast val]
         else if r_type = R_IMM32 then
           store [ucast (drop_bit 24 val), ucast (drop_bit 16 val), ucast (drop_bit 8 val), ucast val]
         else if r_type = 0 then store (number_to_chars_bigendian val sz)
         else Inl Aborted)"

text \<open>
  A fixup that is written as a relocation, with the symbols of its expression. A symbol index of -1 stands for no symbol.
\<close>

record z8k_symbol =
  z_segment :: nat
  z_value :: uint32
  sy_number :: int32

record z8k_fixS =
  zf_addsy :: "z8k_symbol option"
  zf_subsy :: "z8k_symbol option"
  zf_offset :: uint32
  zf_r_type :: nat
  zf_size :: nat
  zf_address :: uint32
  zf_where :: uint32

record internal_reloc =
  r_vaddr :: uint32
  r_symndx :: int32
  r_type :: nat
  r_offset :: uint32

definition cancel_symbols :: "z8k_fixS \<Rightarrow> z8k_fixS \<times> msgs" where
  "cancel_symbols f =
     (case (zf_addsy f, zf_subsy f) of
        (Some add, Some sub) \<Rightarrow>
          if z_segment add \<noteq> z_segment sub then (f, [''Can't subtract symbols in different sections''])
          else (f\<lparr>zf_addsy := None, zf_subsy := None, zf_offset := zf_offset f + (z_value add - z_value sub)\<rparr>, [])
      | _ \<Rightarrow> (f, []))"

definition tc_reloc_mangle :: "z8k_fixS \<Rightarrow> uint32 \<Rightarrow> (internal_reloc \<times> z8k_fixS \<times> msgs) run" where
  "tc_reloc_mangle f base =
     (let (f, m) = cancel_symbols f in
      bindF (if zf_r_type f \<noteq> 0 then Inr (zf_r_type f)
             else if zf_size f = 2 then Inr R_IMM16
             else if zf_size f = 1 then Inr R_IMM8
             else if zf_size f = 4 then Inr R_IMM32
             else Inl Aborted) (\<lambda>t.
      Inr (\<lparr>r_vaddr = zf_address f + zf_where f + base,
            r_symndx = (case zf_addsy f of Some s \<Rightarrow> sy_number s | None \<Rightarrow> - 1),
            r_type = t, r_offset = zf_offset f\<rparr>, f, m)))"

end
