(* ===== verification/Z8k_Encode.thy ===== *)
theory Z8k_Encode
  imports Z8k_Search Z8k_Assemble
begin

text \<open>
  The code that the Z8000 assembler builds for an entry of the table (\<open>build_bytes\<close> of \<open>src/src/gas/config/tc-z8k.c\<close>) is matched by
  the entry, so that the disassembler finds it, for instructions that are not segmented.
\<close>

section \<open>The fields of the table\<close>

text \<open>All fields but that of \<open>calr\<close>, with the number of nibbles that the assembler makes of them.\<close>

definition all_fields :: "uint32 list" where
  "all_fields = [0x58, 0x61, 0x62, 0x63, 0x64, 0x65, 0x69, 0x6d, 0x70, 0xd1, 0xd2, 0xe0, 0xf0, 0x100, 0x200, 0x300, 0x400,
     0x500, 0x501, 0x502, 0x503, 0x504, 0x505, 0x506, 0x507, 0x508, 0x509, 0x50a, 0x50b, 0x50c, 0x50d, 0x50e,
     0x50f, 0x600, 0x800, 0x900, 0x904, 0x908, 0x90c, 0x7001, 0x7002, 0x7003, 0x7004, 0x7005, 0x7006, 0x8001,
     0x8002, 0x8003, 0x8004]"

definition width :: "uint32 \<Rightarrow> nat" where
  "width d =
     (if d \<in> {CLASS_IMM + ARG_IMM8, CLASS_IMM + ARG_NIM8, CLASS_0DISP7, CLASS_1DISP7, CLASS_DISP8} then 2
      else if d \<in> {CLASS_IMM + ARG_IMM16, CLASS_ADDRESS + ARG_SRC, CLASS_ADDRESS + ARG_DST, CLASS_DISP + ARG_DISP16} then 4
      else if d = CLASS_IMM + ARG_IMM32 then 8 else 1)"

text \<open>The number of the expression of an operand.\<close>

definition number :: "z8k_gas \<Rightarrow> nat \<Rightarrow> uint32" where
  "number g k = X_add_number (op_exp (operand g ! k))"

definition number_at :: "z8k_gas \<Rightarrow> exp_ptr \<Rightarrow> uint32" where
  "number_at g p = (case p of Operand k \<Rightarrow> number g k | _ \<Rightarrow> 0)"

abbreviation (input) "da_number g \<equiv> number_at g (da_operand g)"
abbreviation (input) "imm_number g \<equiv> number_at g (imm_operand g)"

text \<open>The value of a field of one nibble, and the characters of any field, from the state before the instruction is built.\<close>

definition field_val :: "z8k_gas \<Rightarrow> uint32 \<Rightarrow> uint32" where
  "field_val g d =
     (let cls = d AND CLASS_MASK in
      if cls = CLASS_BIT then d AND 0xf
      else if cls = CLASS_CC then the_cc g
      else if cls = CLASS_0CCC then the_ctrl g
      else if cls = CLASS_1CCC then the_ctrl g OR 8
      else if cls = CLASS_00II then NOT (the_interrupt g) AND 3
      else if cls = CLASS_01II then (NOT (the_interrupt g) AND 3) OR 4
      else if cls = CLASS_FLAGS then the_flags g
      else if cls = CLASS_BIT_1OR2 then (if imm_number g = 2 then (d AND 0xf) OR 2 else d AND 0xf)
      else if cls = CLASS_IMM then (if d AND 0xf = ARG_IMM4 then imm_number g else imm_number g - 1)
      else reg g ! unat (d AND 0xf))"

definition field_chars :: "z8k_gas \<Rightarrow> uint32 \<Rightarrow> uint8 list" where
  "field_chars g d =
     (if width d = 1 then [ucast (field_val g d)]
      else if d AND CLASS_MASK = CLASS_IMM
      then fix_chars (width d) (if d = CLASS_IMM + ARG_NIM8 then - imm_number g else imm_number g)
      else if d = CLASS_1DISP7 then [8, ucast (da_number g)]
      else fix_chars (width d) (da_number g))"

lemma length_field_chars: "d \<in> set all_fields \<Longrightarrow> length (field_chars g d) = width d"
  unfolding all_fields_def by (auto simp: field_chars_def width_def fix_chars_def)

section \<open>Building the code\<close>

definition uses_imm :: "uint32 \<Rightarrow> bool" where
  "uses_imm d \<longleftrightarrow> d AND CLASS_MASK = CLASS_IMM \<or> d AND CLASS_MASK = CLASS_BIT_1OR2"

definition adjusts :: "uint32 \<Rightarrow> bool" where
  "adjusts d \<longleftrightarrow> d \<in> {CLASS_IMM + ARG_NIM8, CLASS_IMM + ARG_IMM4M1, CLASS_IMM + ARG_IMMNMINUS1}"

text \<open>The address and the immediate value are different operands. What the fields built so far leave as it was: \<open>b\<close> when the number of the immediate operand has not been changed.\<close>

definition separate :: "z8k_gas \<Rightarrow> bool" where
  "separate g \<longleftrightarrow> (\<forall>k. da_operand g = Operand k \<longrightarrow> imm_operand g \<noteq> Operand k)"

definition view :: "bool \<Rightarrow> z8k_gas \<Rightarrow> z8k_gas \<Rightarrow> bool" where
  "view b g h \<longleftrightarrow> segmented_mode h = segmented_mode g \<and> reg h = reg g \<and> the_cc h = the_cc g \<and> the_ctrl h = the_ctrl g
     \<and> the_flags h = the_flags g \<and> the_interrupt h = the_interrupt g \<and> imm_operand h = imm_operand g \<and> z_code h = z_code g
     \<and> (da_operand h = da_operand g \<or> da_operand h = Null)
     \<and> number_at h (da_operand g) = da_number g \<and> (b \<longrightarrow> number_at h (imm_operand g) = imm_number g)
     \<and> length (operand h) = length (operand g)"

lemma newfix_Inr: "newfix base ptr type x g = Inr (u, h) \<Longrightarrow> \<exists>fs. h = g\<lparr>z_fixes := fs\<rparr>"
  by (auto simp: newfix_def updA_def retA_def split: if_splits intro: exI [of _ "z_fixes g"])

lemma apply_fix_Inr:
  assumes "apply_fix base out type p sz g = Inr (out', h)"
  obtains k fs where "p = Operand k" "out' = out @ fix_chars sz (number g k)" "h = g\<lparr>z_fixes := fs\<rparr>"
  using assms by (auto simp: apply_fix_def deref_def run_iff number_def split: exp_ptr.splits dest!: newfix_Inr)

lemma use_da_Inr:
  assumes "use_da base out type sz g = Inr (out', h)"
  obtains fs where "out' = out @ fix_chars sz (da_number g)" "h = g\<lparr>z_fixes := fs, da_operand := Null\<rparr>" "da_operand g \<noteq> Null"
proof -
  from assms obtain h1 where a: "apply_fix base out type (da_operand g) sz g = Inr (out', h1)" "h = h1\<lparr>da_operand := Null\<rparr>"
    unfolding use_da_def run_iff by blast
  from a(1) obtain k fs where "da_operand g = Operand k" "out' = out @ fix_chars sz (number g k)" "h1 = g\<lparr>z_fixes := fs\<rparr>"
    by (rule apply_fix_Inr)
  then show ?thesis using that [of fs] a(2) by (simp add: number_at_def)
qed

definition adjusted :: "(uint32 \<Rightarrow> uint32) \<Rightarrow> nat \<Rightarrow> z8k_gas \<Rightarrow> z8k_gas" where
  "adjusted f k g = g\<lparr>operand := (operand g)[k := op_exp_update (X_add_number_update f) (operand g ! k)]\<rparr>"

lemma number_adjusted: "k < length (operand g) \<Longrightarrow> number (adjusted f k g) j = (if j = k then f (number g k) else number g j)"
  by (simp add: number_def adjusted_def)

lemma use_imm_Inr:
  assumes "use_imm base out type sz f g = Inr (out', h)" "3 \<le> length (operand g)"
  obtains fs k where "imm_operand g = Operand k" "k < 3" "out' = out @ fix_chars sz (f (imm_number g))"
    "h = (adjusted f k g)\<lparr>z_fixes := fs\<rparr>"
proof -
  from assms(1) obtain h1 where a: "adjust_exp (imm_operand g) f g = Inr ((), h1)"
    "apply_fix base out type (imm_operand g) sz h1 = Inr (out', h)"
    unfolding use_imm_def run_iff by auto
  from a(2) obtain k fs where k: "imm_operand g = Operand k" "out' = out @ fix_chars sz (number h1 k)" "h = h1\<lparr>z_fixes := fs\<rparr>"
    by (rule apply_fix_Inr)
  have "k < 3" "h1 = adjusted f k g"
    using a(1) unfolding adjust_exp_def deref_def set_operand_def run_iff k(1) by (auto simp: run_iff adjusted_def)
  then show ?thesis using that [of k fs] k assms(2) by (simp add: number_at_def number_adjusted)
qed

lemma adjusted_id: "adjusted (\<lambda>n. n) k g = g"
proof -
  have "op_exp_update (X_add_number_update (\<lambda>n. n)) x = x" for x
    by (cases x) simp
  then have "op_exp_update (X_add_number_update (\<lambda>n. n)) = (\<lambda>x :: z8k_op. x)" by (rule ext)
  then show ?thesis unfolding adjusted_def by (simp only: list_update_id) simp
qed

lemma number_at_simps [simp]:
  "number_at (h\<lparr>z_fixes := fs\<rparr>) p = number_at h p" "number_at (h\<lparr>z_msgs := ms\<rparr>) p = number_at h p"
  "number_at (h\<lparr>da_operand := q\<rparr>) p = number_at h p"
  by (simp_all add: number_at_def number_def split: exp_ptr.splits)

lemma view_simps [simp]:
  "view b g (h\<lparr>z_fixes := fs\<rparr>) = view b g h" "view b g (h\<lparr>z_msgs := ms\<rparr>) = view b g h"
  by (simp_all add: view_def)

lemma view_da: "view b g h \<Longrightarrow> view b g (h\<lparr>da_operand := Null\<rparr>)"
  by (simp add: view_def)

lemma view_weaken: "view True g h \<Longrightarrow> view b g h" "view b g h \<Longrightarrow> view False g h"
  by (simp_all add: view_def)

lemma view_adjusted:
  assumes "view b g h" "imm_operand h = Operand k" "separate g" "k < length (operand g)"
  shows "view False g (adjusted f k h)"
proof -
  have "imm_operand g = Operand k" using assms(1,2) by (simp add: view_def)
  then have "da_operand g \<noteq> Operand k" using assms(3) unfolding separate_def by blast
  moreover have "k < length (operand h)" using assms(1,4) by (simp add: view_def)
  ultimately have "number_at (adjusted f k h) (da_operand g) = number_at h (da_operand g)"
    by (cases "da_operand g") (simp_all add: number_at_def number_adjusted)
  then show ?thesis using assms(1) by (auto simp: view_def adjusted_def)
qed

text \<open>One field. A register that may not be 0 is not, or there is a message.\<close>

definition not_r0 :: "z8k_gas \<Rightarrow> uint32 \<Rightarrow> bool" where
  "not_r0 g d \<longleftrightarrow> d AND CLASS_MASK = CLASS_REGN0 \<longrightarrow> reg g ! unat (d AND 0xf) \<noteq> 0"

lemma encode_imm_step:
  assumes "use_imm base out type (width d) f h = Inr (out', h')" "view b g h" "b" "separate g" "3 \<le> length (operand g)"
  shows "out' = out @ fix_chars (width d) (f (imm_number g)) \<and> view False g h' \<and> (f = (\<lambda>n. n) \<longrightarrow> view b g h') \<and> z_msgs h' = z_msgs h"
proof -
  have len: "3 \<le> length (operand h)" using assms(2,5) by (simp add: view_def)
  obtain fs k where k: "imm_operand h = Operand k" "k < 3" "out' = out @ fix_chars (width d) (f (imm_number h))"
    "h' = (adjusted f k h)\<lparr>z_fixes := fs\<rparr>"
    using use_imm_Inr [OF assms(1) len] by blast
  have "imm_number h = imm_number g" using assms(2,3) by (simp add: view_def)
  moreover have "view False g (adjusted f k h)" using view_adjusted [OF assms(2) k(1) assms(4)] k(2) assms(5) by simp
  moreover have "z_msgs (adjusted f k h) = z_msgs h" by (simp add: adjusted_def)
  ultimately show ?thesis using k(3,4) assms(2) by (auto simp: adjusted_id)
qed

lemma encode_da_step:
  assumes "use_da base out type sz h = Inr (out', h')" "view b g h"
  shows "out' = out @ fix_chars sz (da_number g) \<and> view b g h' \<and> z_msgs h' = z_msgs h"
proof -
  obtain fs where h: "out' = out @ fix_chars sz (da_number h)" "h' = h\<lparr>z_fixes := fs, da_operand := Null\<rparr>" "da_operand h \<noteq> Null"
    using use_da_Inr [OF assms(1)] by blast
  then have "da_number h = da_number g" using assms(2) by (simp add: view_def)
  then show ?thesis using h assms(2) view_da [of b g "h\<lparr>z_fixes := fs\<rparr>"] by simp
qed

definition nibble_fields :: "uint32 list" where
  "nibble_fields = [0x70, 0xe0, 0xf0, 0x300, 0x400, 0x500, 0x501, 0x502, 0x503, 0x504, 0x505, 0x506, 0x507, 0x508, 0x509,
     0x50a, 0x50b, 0x50c, 0x50d, 0x50e, 0x50f, 0x600, 0x7001, 0x7002, 0x7003, 0x7004, 0x7005, 0x7006]"

lemma encode_nibble:
  "d \<in> set nibble_fields \<Longrightarrow> encode_field base out d h = Inr (out @ [ucast (field_val h d)], h)"
  unfolding nibble_fields_def set_simps
  by (elim insertE emptyE) (simp_all add: encode_field_def field_val_def getA_def Let_def)

lemma encode_regn0:
  assumes "d \<in> {CLASS_REGN0 + ARG_RS, CLASS_REGN0 + ARG_RD, CLASS_REGN0 + ARG_RA, CLASS_REGN0 + ARG_RB}"
    "encode_field base out d h = Inr (out', h')"
  shows "out' = out @ [ucast (field_val h d)] \<and> (h' = h \<and> not_r0 h d \<or> h' = h\<lparr>z_msgs := z_msgs h @ [''cannot use R0 here'']\<rparr>)"
  using assms
  by (elim insertE emptyE)
    (auto simp: encode_field_def field_val_def act_defs as_bad_def not_r0_def Let_def split: if_splits)

lemma encode_1or2:
  assumes "d \<in> {CLASS_BIT_1OR2 + 0, CLASS_BIT_1OR2 + 4, CLASS_BIT_1OR2 + 8, CLASS_BIT_1OR2 + 0xc}"
    "encode_field base out d h = Inr (out', h')"
  shows "out' = out @ [ucast (field_val h d)] \<and> (\<exists>ms. h' = h\<lparr>z_msgs := z_msgs h @ ms\<rparr>)"
proof -
  have "encode_1or2 out d h = Inr (out', h')"
    using assms by (elim insertE emptyE) (simp_all add: encode_field_def Let_def)
  then have "out' = out @ [if imm_number h = 2 then ucast (d AND 0xf) OR 2 else ucast (d AND 0xf)] \<and> (\<exists>ms. h' = h\<lparr>z_msgs := z_msgs h @ ms\<rparr>)"
  proof (cases "imm_operand h")
    case Null
    then show ?thesis using \<open>encode_1or2 out d h = _\<close>
      by (auto simp: encode_1or2_def act_defs as_bad_def number_at_def Let_def)
  next
    case Stale
    then show ?thesis using \<open>encode_1or2 out d h = _\<close>
      by (simp add: encode_1or2_def act_defs deref_def Let_def)
  next
    case (Operand k)
    define n where "n = number h k"
    have n: "imm_number h = n" by (simp add: Operand number_at_def n_def)
    have "h' = h\<lparr>z_msgs := z_msgs h @ (if n \<noteq> 2 \<and> n \<noteq> 1 then [''immediate must be 1 or 2''] else [])\<rparr>"
      "out' = out @ [if n = 2 then ucast (d AND 0xf) OR 2 else ucast (d AND 0xf)]"
      using Operand \<open>encode_1or2 out d h = _\<close>
      by (auto simp: encode_1or2_def act_defs deref_def as_bad_def number_def Let_def n_def split: if_splits)
    then show ?thesis unfolding n by blast
  qed
  then show ?thesis
    using assms(1) by (elim insertE emptyE) (simp_all add: field_val_def)
qed

lemma field_val_view:
  assumes "view b g h" "uses_imm d \<longrightarrow> b"
  shows "field_val h d = field_val g d"
proof -
  have "uses_imm d \<Longrightarrow> imm_number h = imm_number g" using assms by (auto simp: view_def)
  then show ?thesis using assms(1) by (auto simp: field_val_def uses_imm_def view_def Let_def)
qed

lemma encode_step:
  assumes d: "d \<in> set all_fields" and step: "encode_field base out d h = Inr (out', h')" and v: "view b g h"
    and imm: "uses_imm d \<longrightarrow> b" and g: "separate g" "3 \<le> length (operand g)" "\<not> segmented_mode g"
  shows "out' = out @ field_chars g d \<and> view (b \<and> \<not> adjusts d) g h' \<and> (\<exists>ms. z_msgs h' = z_msgs h @ ms \<and> (ms = [] \<longrightarrow> not_r0 g d))"
proof (cases "d \<in> {CLASS_IMM + ARG_IMM4, CLASS_IMM + ARG_IMM4M1, CLASS_IMM + ARG_IMMNMINUS1, CLASS_IMM + ARG_NIM8, CLASS_IMM + ARG_IMM8,
    CLASS_IMM + ARG_IMM16, CLASS_IMM + ARG_IMM32}")
  case True
  note S = encode_imm_step [OF _ v _ g(1,2), of base out _ d _ out' h']
  from True show ?thesis
    using step imm S v
    by (elim insertE emptyE) (auto simp: encode_field_def encode_imm_def uses_imm_def adjusts_def field_chars_def width_def field_val_def
        not_r0_def fix_chars_def Let_def)
next
  case no_imm: False
  show ?thesis
  proof (cases "d \<in> {CLASS_ADDRESS + ARG_SRC, CLASS_ADDRESS + ARG_DST, CLASS_DISP + ARG_DISP16, CLASS_DISP8, CLASS_0DISP7, CLASS_1DISP7}")
    case True
    have seg: "\<not> segmented_mode h" using v g(3) by (simp add: view_def)
    note S = encode_da_step [OF _ v, of base out _ _ _ h']
    have F: "(out @ fix_chars 2 n)[length out := 8] = out @ [8, ucast n]" for n
      by (simp add: fix_chars_def list_update_append)
    show ?thesis
    proof (cases "d = CLASS_1DISP7")
      case one: True
      obtain o1 where "use_da base out R_DISP7 2 h = Inr (o1, h')" "out' = o1[length o1 - 2 := 8]"
        using step unfolding one by (auto simp: encode_field_def run_iff Let_def)
      moreover have "length (fix_chars 2 n) = 2" for n by (simp add: fix_chars_def)
      ultimately show ?thesis
        using S [of R_DISP7 2 o1] one F by (auto simp: uses_imm_def adjusts_def field_chars_def width_def not_r0_def)
    next
      case False
      with True show ?thesis
        using step seg S [of _ _ out']
        by (elim insertE emptyE) (auto simp: encode_field_def uses_imm_def adjusts_def field_chars_def width_def not_r0_def run_iff Let_def)
    qed
  next
    case False
    then consider (nibble) "d \<in> set nibble_fields" | (regn0) "d \<in> {CLASS_REGN0 + ARG_RS, CLASS_REGN0 + ARG_RD, CLASS_REGN0 + ARG_RA, CLASS_REGN0 + ARG_RB}"
        | (one_or_two) "d \<in> {CLASS_BIT_1OR2 + 0, CLASS_BIT_1OR2 + 4, CLASS_BIT_1OR2 + 8, CLASS_BIT_1OR2 + 0xc}"
      using d no_imm unfolding all_fields_def nibble_fields_def by (simp; blast)
    moreover have f: "field_chars g d = [ucast (field_val h d)]" "\<not> adjusts d"
      using False no_imm field_val_view [OF v imm] by (auto simp: field_chars_def width_def adjusts_def)
    moreover have r0: "not_r0 h d = not_r0 g d" using v by (simp add: not_r0_def view_def)
    ultimately show ?thesis
    proof cases
      case nibble
      then have "not_r0 g d" unfolding nibble_fields_def not_r0_def by auto
      moreover have "out' = out @ [ucast (field_val h d)]" "h' = h" using encode_nibble [OF nibble, of base out h] step by auto
      ultimately show ?thesis using f v by simp
    next
      case regn0
      then show ?thesis using encode_regn0 [OF regn0 step] f v r0 by auto
    next
      case one_or_two
      then have "not_r0 g d" unfolding not_r0_def by auto
      moreover obtain ms where "out' = out @ [ucast (field_val h d)]" "h' = h\<lparr>z_msgs := z_msgs h @ ms\<rparr>"
        using encode_1or2 [OF one_or_two step] by blast
      ultimately show ?thesis using f v by simp
    qed
  qed
qed

section \<open>The layout of the entries\<close>

definition known :: "uint32 \<Rightarrow> bool" where
  "known d \<longleftrightarrow> d \<in> set all_fields"

text \<open>The immediate operand is not used again when its number has been changed.\<close>

fun imm_ok :: "bool \<Rightarrow> uint32 list \<Rightarrow> bool" where
  "imm_ok b [] = True"
| "imm_ok b (d # ds) = ((uses_imm d \<longrightarrow> b) \<and> imm_ok (b \<and> \<not> adjusts d) ds)"

text \<open>
  Fields of one nibble come first. The others are aligned and end with the sixth byte; a displacement of 7 bits is the
  first of them, one of 8 bits the last.
\<close>

fun wides :: "nat \<Rightarrow> uint32 list \<Rightarrow> bool" where
  "wides n [] = True"
| "wides n (d # ds) = (width d \<noteq> 1 \<and> n mod (if width d = 2 then 2 else 4) = 0 \<and> n + width d \<le> 12
     \<and> CLASS_0DISP7 \<notin> set ds \<and> CLASS_1DISP7 \<notin> set ds \<and> (d = CLASS_DISP8 \<longrightarrow> ds = []) \<and> wides (n + width d) ds)"

fun layout :: "nat \<Rightarrow> uint32 list \<Rightarrow> bool" where
  "layout n [] = True"
| "layout n (d # ds) = (if width d = 1 then n < 12 \<and> layout (n + 1) ds else wides n (d # ds))"

text \<open>The variable of the disassembler that a field is extracted to, as a number: a register of \<open>arg_reg\<close>, or another one.\<close>

definition target :: "uint32 \<Rightarrow> nat option" where
  "target d =
     (let cls = d AND CLASS_MASK in
      if cls = CLASS_IMM then Some 16
      else if cls = CLASS_ADDRESS then Some 17
      else if cls = CLASS_DISP \<or> cls = CLASS_0DISP7 \<or> cls = CLASS_1DISP7 then Some 18
      else if cls = CLASS_CC \<or> cls = CLASS_0CCC \<or> cls = CLASS_1CCC then Some 19
      else if cls = CLASS_00II \<or> cls = CLASS_01II then Some 20
      else if cls = CLASS_FLAGS then Some 21
      else if cls = CLASS_REG \<or> cls = CLASS_REGN0 then Some (unat (d AND 0xf))
      else None)"

fun targets_ok :: "uint32 list \<Rightarrow> bool" where
  "targets_ok [] = True"
| "targets_ok (d # ds) = (list_all (\<lambda>e. target e = None \<or> target e \<noteq> target d \<or> e = d) ds \<and> targets_ok ds)"

definition layout_ok :: "opcode_entry_type \<Rightarrow> bool" where
  "layout_ok op \<longleftrightarrow> (\<exists>ds. byte_info op = ds @ replicate (10 - length ds) 0 \<and> length ds \<le> 9
     \<and> list_all known ds \<and> imm_ok True ds \<and> layout 0 ds \<and> targets_ok ds)"

lemma layout_ok_entry:
  "length ds \<le> 9 \<Longrightarrow> list_all known ds \<Longrightarrow> imm_ok True ds \<Longrightarrow> layout 0 ds \<Longrightarrow> targets_ok ds
     \<Longrightarrow> layout_ok (z8k_entry name opc args ds n len i)"
  unfolding layout_ok_def z8k_entry_def by (auto intro!: exI [of _ ds] simp: take_append)

lemma known_fields: "list_all known all_fields"
  by (simp add: known_def list_all_iff)

lemma width_fields:
  "list_all (\<lambda>d. width d = 1) [0x61, 0x65, 0x6d, 0x70, 0xe0, 0xf0, 0x300, 0x400, 0x500, 0x501, 0x502, 0x503, 0x504, 0x505, 0x506, 0x507,
     0x508, 0x509, 0x50a, 0x50b, 0x50c, 0x50d, 0x50e, 0x50f, 0x600, 0x900, 0x904, 0x908, 0x90c, 0x7001,
     0x7002, 0x7003, 0x7004, 0x7005, 0x7006, 0x8001, 0x8002, 0x8003, 0x8004]"
  "list_all (\<lambda>d. width d = 2) [0x62, 0x69, 0x100, 0x200, 0x800]"
  "list_all (\<lambda>d. width d = 4) [0x58, 0x63, 0xd1, 0xd2]"
  "list_all (\<lambda>d. width d = 8) [0x64]"
  by (simp_all add: width_def)

lemma target_fields:
  "list_all (\<lambda>d. target d = Some 18) [0x58, 0x100, 0x200]"
  "list_all (\<lambda>d. target d = Some 16) [0x61, 0x62, 0x63, 0x64, 0x65, 0x69, 0x6d]"
  "list_all (\<lambda>d. target d = Some 19) [0x70, 0xe0, 0xf0]"
  "list_all (\<lambda>d. target d = Some 17) [0xd1, 0xd2]"
  "list_all (\<lambda>d. target d = Some 20) [0x300, 0x400]"
  "list_all (\<lambda>d. target d = None) [0x500, 0x501, 0x502, 0x503, 0x504, 0x505, 0x506, 0x507, 0x508, 0x509, 0x50a, 0x50b, 0x50c, 0x50d, 0x50e,
     0x50f, 0x800, 0x900, 0x904, 0x908, 0x90c]"
  "list_all (\<lambda>d. target d = Some 21) [0x600]"
  "list_all (\<lambda>d. target d = Some 1) [0x7001, 0x8001]"
  "list_all (\<lambda>d. target d = Some 2) [0x7002, 0x8002]"
  "list_all (\<lambda>d. target d = Some 3) [0x7003, 0x8003]"
  "list_all (\<lambda>d. target d = Some 4) [0x7004, 0x8004]"
  "list_all (\<lambda>d. target d = Some 5) [0x7005]"
  "list_all (\<lambda>d. target d = Some 6) [0x7006]"
  by (simp_all add: target_def Let_def)

lemma uses_fields:
  "list_all uses_imm [0x61, 0x62, 0x63, 0x64, 0x65, 0x69, 0x6d, 0x900, 0x904, 0x908, 0x90c]"
  "list_all (\<lambda>d. \<not> uses_imm d) [0x58, 0x70, 0xd1, 0xd2, 0xe0, 0xf0, 0x100, 0x200, 0x300, 0x400, 0x500, 0x501, 0x502, 0x503, 0x504, 0x505,
     0x506, 0x507, 0x508, 0x509, 0x50a, 0x50b, 0x50c, 0x50d, 0x50e, 0x50f, 0x600, 0x800, 0x7001, 0x7002,
     0x7003, 0x7004, 0x7005, 0x7006, 0x8001, 0x8002, 0x8003, 0x8004]"
  "list_all adjusts [0x65, 0x69, 0x6d]"
  "list_all (\<lambda>d. \<not> adjusts d) [0x58, 0x61, 0x62, 0x63, 0x64, 0x70, 0xd1, 0xd2, 0xe0, 0xf0, 0x100, 0x200, 0x300, 0x400, 0x500, 0x501,
     0x502, 0x503, 0x504, 0x505, 0x506, 0x507, 0x508, 0x509, 0x50a, 0x50b, 0x50c, 0x50d, 0x50e, 0x50f, 0x600,
     0x800, 0x900, 0x904, 0x908, 0x90c, 0x7001, 0x7002, 0x7003, 0x7004, 0x7005, 0x7006, 0x8001, 0x8002,
     0x8003, 0x8004]"
  by (simp_all add: uses_imm_def adjusts_def)

lemma layouts_ok: "i < 418 \<Longrightarrow> i \<noteq> 41 \<Longrightarrow> layout_ok (z8k_table ! i)"
proof -
  have "list_all (\<lambda>op. idx op = 41 \<or> layout_ok op) z8k_table"
    by (simp add: z8k_table_def z8k_tables idx_entry layout_ok_entry known_fields [unfolded all_fields_def, simplified]
        width_fields [simplified] target_fields [simplified] uses_fields [simplified] del: One_nat_def)
  then show "i < 418 \<Longrightarrow> i \<noteq> 41 \<Longrightarrow> layout_ok (z8k_table ! i)"
    by (auto simp: list_all_length length_z8k_table idx_nth)
qed

lemma encode_loop_Inr:
  assumes g: "separate g" "3 \<le> length (operand g)" "\<not> segmented_mode g"
  shows "encode_loop base (ds @ replicate n 0) out h = Inr (out', h') \<Longrightarrow> list_all known ds \<Longrightarrow> imm_ok b ds \<Longrightarrow> view b g h
    \<Longrightarrow> out' = out @ concat (map (field_chars g) ds) \<and> z_code h' = z_code g
      \<and> (\<exists>ms. z_msgs h' = z_msgs h @ ms \<and> (ms = [] \<longrightarrow> list_all (not_r0 g) ds))"
proof (induction ds arbitrary: b out h)
  case Nil
  then show ?case by (cases n) (auto simp: retA_def view_def)
next
  case (Cons d ds)
  have d: "d \<in> set all_fields" using Cons.prems(2) by (simp add: known_def)
  have "d \<noteq> 0" using d unfolding all_fields_def by auto
  then obtain o1 h1 where s: "encode_field base out d h = Inr (o1, h1)" "encode_loop base (ds @ replicate n 0) o1 h1 = Inr (out', h')"
    using Cons.prems(1) by (auto simp: run_iff)
  obtain ms where e: "o1 = out @ field_chars g d" "view (b \<and> \<not> adjusts d) g h1" "z_msgs h1 = z_msgs h @ ms" "ms = [] \<longrightarrow> not_r0 g d"
    using encode_step [OF d s(1) Cons.prems(4) _ g] Cons.prems(3) by auto
  show ?case using Cons.IH [OF s(2) _ _ e(2)] Cons.prems(2,3) e by auto
qed

end
