(* ===== verification/Z8k_Code.thy ===== *)
theory Z8k_Code
  imports Z8k_Encode
begin

text \<open>
  From the assembler to the disassembler: the code that \<open>build_bytes\<close> makes for an entry of the table is found as this entry, and
  \<open>unpack_instr\<close> gets the operands back that were put in.
\<close>

section \<open>Packed nibbles\<close>

lemma fourbits: "x AND 0xf = take_bit 4 x" for x :: "'a::len word"
  by (simp add: take_bit_eq_mask mask_eq_exp_minus_1)

lemma length_pack: "even (length cs) \<Longrightarrow> length (pack_nibbles cs) = length cs div 2"
  by (induction cs rule: pack_nibbles.induct) auto

lemma nth_pack: "even (length cs) \<Longrightarrow> j < length cs div 2 \<Longrightarrow> pack_nibbles cs ! j = push_bit 4 (cs ! (2 * j)) OR cs ! (2 * j + 1)"
proof (induction cs arbitrary: j rule: pack_nibbles.induct)
  case (1 a b ns)
  then show ?case by (cases j) auto
qed auto

lemma pack_append: "even (length cs) \<Longrightarrow> pack_nibbles (cs @ ds) = pack_nibbles cs @ pack_nibbles ds"
  by (induction cs rule: pack_nibbles.induct) auto

text \<open>A character of one nibble, the other one of its byte being clean.\<close>

lemma nib_pack:
  assumes "even (length cs)" "i < length cs" "take (length cs div 2) p = pack_nibbles cs"
  shows "nib p i = take_bit 4 (cs ! i) OR (if even i then drop_bit 4 (cs ! (i + 1)) else 0)"
proof -
  have j: "i div 2 < length cs div 2" using assms(1,2) by (metis div_less_mono dvd_div_mult_self less_mult_imp_div_less mult.commute)
  have "p ! (i div 2) = take (length cs div 2) p ! (i div 2)" using j by simp
  then have p: "p ! (i div 2) = push_bit 4 (cs ! (2 * (i div 2))) OR cs ! (2 * (i div 2) + 1)"
    using nth_pack [OF assms(1) j] assms(3) by simp
  show ?thesis
  proof (cases "even i")
    case True
    then have "p ! (i div 2) = push_bit 4 (cs ! i) OR cs ! (i + 1)" using p by simp
    then show ?thesis using True by (simp add: nib_def) (rule bit_word_eqI, auto simp: bit_simps)
  next
    case False
    then have "p ! (i div 2) = push_bit 4 (cs ! (i - 1)) OR cs ! i" using p by (simp add: odd_two_times_div_two_nat)
    then show ?thesis using False by (simp add: nib_def fourbits) (rule bit_word_eqI, auto simp: bit_simps)
  qed
qed

text \<open>The bytes of the longer fields.\<close>

lemma byte_of_chars:
  "push_bit 4 (ucast (signed_drop_bit 4 n)) OR ucast n = (ucast n :: uint8)"
  "push_bit 4 (ucast (signed_drop_bit 12 n)) OR ucast (signed_drop_bit 8 n) = (ucast (drop_bit 8 n) :: uint8)"
  "push_bit 4 (ucast (signed_drop_bit 20 n)) OR ucast (signed_drop_bit 16 n) = (ucast (drop_bit 16 n) :: uint8)"
  "push_bit 4 (ucast (signed_drop_bit 28 n)) OR ucast (signed_drop_bit 24 n) = (ucast (drop_bit 24 n) :: uint8)"
  for n :: uint32
  by (rule bit_word_eqI, auto simp: bit_simps)+

lemma pack_fix:
  "pack_nibbles (fix_chars 2 n) = [ucast n]"
  "pack_nibbles (fix_chars 4 n) = [ucast (drop_bit 8 n), ucast n]"
  "pack_nibbles (fix_chars 8 n) = [ucast (drop_bit 24 n), ucast (drop_bit 16 n), ucast (drop_bit 8 n), ucast n]"
  by (simp_all add: fix_chars_def byte_of_chars)

section \<open>Fields in memory\<close>

text \<open>The field at the nibble \<open>n\<close> of memory is what the assembler makes of it.\<close>

definition here :: "z8k_gas \<Rightarrow> uint8 list \<Rightarrow> nat \<Rightarrow> uint32 \<Rightarrow> bool" where
  "here g p n d \<longleftrightarrow>
     (if width d = 1 then nib p n = ucast (field_val g d)
      else take (width d div 2) (drop (n div 2) p) = pack_nibbles (field_chars g d))"

fun placed :: "z8k_gas \<Rightarrow> uint8 list \<Rightarrow> nat \<Rightarrow> uint32 list \<Rightarrow> bool" where
  "placed g p n [] = True"
| "placed g p n (d # ds) = (here g p n d \<and> placed g p (n + width d) ds)"

text \<open>The values of the fields of one nibble need not more than a nibble.\<close>

definition nibbles_fit :: "z8k_gas \<Rightarrow> uint32 list \<Rightarrow> bool" where
  "nibbles_fit g ds \<longleftrightarrow> (\<forall>d \<in> set ds. width d = 1 \<longrightarrow> field_val g d < 16)"

lemma small_char: "v < 16 \<Longrightarrow> drop_bit 4 (ucast v :: uint8) = 0 \<and> take_bit 4 (ucast v :: uint8) = ucast v" for v :: uint32
proof -
  assume "v < 16"
  then have "take_bit 4 (unat v) = unat v" by (simp add: word_less_nat_alt take_bit_nat_eq_self)
  then have v: "take_bit 4 v = v" by (simp add: word_unat_eq_iff unsigned_take_bit_eq)
  have "drop_bit 4 (ucast (take_bit 4 v) :: uint8) = 0 \<and> take_bit 4 (ucast (take_bit 4 v) :: uint8) = ucast (take_bit 4 v)"
    by (auto intro!: bit_word_eqI simp: bit_simps)
  then show ?thesis by (simp only: v)
qed

lemma width_pos: "0 < width d"
  by (simp add: width_def)

lemma width_cases: "width d \<in> {1, 2, 4, 8}"
  by (simp add: width_def)

lemma concat_chars_length:
  "list_all known ds \<Longrightarrow> length (concat (map (field_chars g) ds)) = sum_list (map width ds)"
  by (induction ds) (simp_all add: length_field_chars known_def)

lemma drop_pack:
  assumes "even (length pre)" "take (length (pre @ cs) div 2) p = pack_nibbles (pre @ cs)" "even (length cs)"
  shows "take (length cs div 2) (drop (length pre div 2) p) = pack_nibbles cs"
proof -
  have "length (pre @ cs) div 2 = length pre div 2 + length cs div 2" using assms(1,3) by (simp add: div_plus_div_distrib_dvd_left)
  then have "take (length cs div 2) (drop (length pre div 2) p) = drop (length pre div 2) (pack_nibbles (pre @ cs))"
    using assms(2) by (simp add: take_drop add.commute)
  then show ?thesis using assms(1) by (simp add: pack_append length_pack)
qed

definition chars :: "z8k_gas \<Rightarrow> uint32 list \<Rightarrow> uint8 list" where
  "chars g ds = concat (map (field_chars g) ds)"

lemma chars_simps [simp]: "chars g [] = []" "chars g (d # ds) = field_chars g d @ chars g ds"
  by (simp_all add: chars_def)

lemma wide_even: "width d \<noteq> 1 \<Longrightarrow> even (width d)"
  using width_cases [of d] by auto

lemma wides_placed:
  assumes "take (length (pre @ chars g ds) div 2) p = pack_nibbles (pre @ chars g ds)"
  shows "wides (length pre) ds \<Longrightarrow> list_all known ds \<Longrightarrow> even (length pre) \<Longrightarrow> even (length (chars g ds)) \<Longrightarrow> placed g p (length pre) ds"
  using assms
proof (induction ds arbitrary: pre)
  case (Cons d ds)
  have w: "width d \<noteq> 1" "length (field_chars g d) = width d"
    using Cons.prems(1,2) by (simp_all add: length_field_chars known_def)
  have ev: "even (width d)" using wide_even w(1) by simp
  have rest: "even (length (chars g ds))" using Cons.prems(4) w(2) ev by simp
  have "take (length (chars g (d # ds)) div 2) (drop (length pre div 2) p) = pack_nibbles (field_chars g d) @ pack_nibbles (chars g ds)"
    using drop_pack [OF Cons.prems(3,5,4)] w(2) ev by (simp add: pack_append)
  then have "take (width d div 2) (take (length (chars g (d # ds)) div 2) (drop (length pre div 2) p)) = pack_nibbles (field_chars g d)"
    using w(2) ev by (simp add: length_pack)
  then have "here g p (length pre) d" using w by (simp add: here_def min_def div_le_mono)
  moreover have "placed g p (length (pre @ field_chars g d)) ds"
    by (rule Cons.IH) (use Cons.prems w ev rest in auto)
  ultimately show ?case using w(2) by simp
qed simp

lemma code_placed:
  assumes "take (length (pre @ chars g ds) div 2) p = pack_nibbles (pre @ chars g ds)"
  shows "layout (length pre) ds \<Longrightarrow> list_all known ds \<Longrightarrow> nibbles_fit g ds \<Longrightarrow> even (length (pre @ chars g ds)) \<Longrightarrow> placed g p (length pre) ds"
  using assms
proof (induction ds arbitrary: pre)
  case (Cons d ds)
  show ?case
  proof (cases "width d = 1")
    case False
    then have w: "wides (length pre) (d # ds)" "even (width d)" using Cons.prems(1) wide_even by simp_all
    then have "length pre mod 2 = 0"
      by (auto split: if_splits)
    then show ?thesis using wides_placed [OF Cons.prems(5) w(1) Cons.prems(2)] Cons.prems(4) by auto
  next
    case True
    then have c: "field_chars g d = [ucast (field_val g d)]" by (simp add: field_chars_def)
    have small: "field_val g e < 16" if "e \<in> set (d # ds)" "width e = 1" for e
      using Cons.prems(3) that by (auto simp: nibbles_fit_def)
    let ?cs = "pre @ chars g (d # ds)"
    have n: "nib p (length pre) = take_bit 4 (?cs ! length pre) OR (if even (length pre) then drop_bit 4 (?cs ! (length pre + 1)) else 0)"
      by (rule nib_pack) (use Cons.prems c in auto)
    have "drop_bit 4 (?cs ! (length pre + 1)) = 0" if e: "even (length pre)"
    proof (cases ds)
      case Nil
      then show ?thesis using Cons.prems(4) e c by simp
    next
      case (Cons d' ds')
      have "width d' = 1"
      proof (rule ccontr)
        assume "width d' \<noteq> 1"
        then have "Suc (length pre) mod (if width d' = 2 then 2 else 4) = 0" using \<open>layout (length pre) (d # ds)\<close> Cons True by simp
        then show False using e by (auto split: if_splits) presburger+
      qed
      then have "chars g ds = ucast (field_val g d') # chars g ds'" using Cons by (simp add: field_chars_def)
      then show ?thesis using c small [of d'] Cons \<open>width d' = 1\<close> small_char by (simp add: nth_append)
    qed
    then have "here g p (length pre) d"
      using n c small [of d] True small_char [of "field_val g d"] by (simp add: here_def nth_append)
    moreover have "placed g p (length (pre @ field_chars g d)) ds"
      by (rule Cons.IH) (use Cons.prems c True in \<open>auto simp: nibbles_fit_def\<close>)
    ultimately show ?thesis using c True by simp
  qed
qed simp

section \<open>The entry matches its code\<close>

lemma build_bytes_Inr:
  assumes "build_bytes op g = Inr ((), g')" "z_msgs g' = z_msgs g"
    and ds: "byte_info op = ds @ replicate n 0" "list_all known ds" "imm_ok True ds"
    and g: "separate g" "3 \<le> length (operand g)" "\<not> segmented_mode g"
  shows "z_code g' = z_code g @ pack_nibbles (chars g ds) \<and> even (length (chars g ds)) \<and> list_all (not_r0 g) ds"
proof -
  obtain out h where o: "encode_loop (length (z_code g)) (byte_info op) [] g = Inr (out, h)" "even (length out)"
    "g' = h\<lparr>z_code := z_code h @ pack_nibbles out\<rparr>"
    using assms(1) by (auto simp: build_bytes_def run_iff)
  have "view True g g" by (simp add: view_def)
  then obtain ms where "out = chars g ds" "z_code h = z_code g" "z_msgs h = z_msgs g @ ms" "ms = [] \<longrightarrow> list_all (not_r0 g) ds"
    using encode_loop_Inr [OF g o(1) [unfolded ds(1)] ds(2,3)] by (auto simp: chars_def)
  then show ?thesis using o(2,3) assms(2) by simp
qed

lemma and_4: "x AND 4 \<noteq> 0 \<longleftrightarrow> bit x 2" "x AND 8 \<noteq> 0 \<longleftrightarrow> bit x 3" for x :: "'a::len word"
  using and_exp_eq_0_iff_not_bit [of x 2] and_exp_eq_0_iff_not_bit [of x 3] by simp_all

lemma small_bits: "v < 16 \<Longrightarrow> bit v k \<Longrightarrow> k < 4" for v :: uint32
proof -
  assume "v < 16" "bit v k"
  then have "take_bit 4 (unat v) = unat v" by (simp add: word_less_nat_alt take_bit_nat_eq_self)
  then have "take_bit 4 v = v" by (simp add: word_unat_eq_iff unsigned_take_bit_eq)
  then have "bit (take_bit 4 v) k" using \<open>bit v k\<close> by simp
  then show "k < 4" by (simp add: bit_simps)
qed

lemma nonzero_char: "v < 16 \<Longrightarrow> v \<noteq> 0 \<Longrightarrow> (ucast v :: uint8) \<noteq> 0" for v :: uint32
proof
  assume v: "v < 16" "v \<noteq> 0" "(ucast v :: uint8) = 0"
  have "bit v k \<longleftrightarrow> k < 8 \<and> bit (ucast v :: uint8) k" for k
    using small_bits [OF v(1), of k] by (auto simp: bit_simps)
  then have "v = 0" using v(3) by (intro bit_word_eqI) simp
  then show False using v(2) by simp
qed

lemma three_bits: "v < 8 \<Longrightarrow> \<not> bit v 3" for v :: uint32
proof
  assume "v < 8" "bit v 3"
  then have "take_bit 3 (unat v) = unat v" by (simp add: word_less_nat_alt take_bit_nat_eq_self)
  then have "take_bit 3 v = v" by (simp add: word_unat_eq_iff unsigned_take_bit_eq)
  then have "bit (take_bit 3 v) 3" using \<open>bit v 3\<close> by simp
  then show False by (simp add: bit_simps)
qed

text \<open>A control code needs only three bits, and a displacement of 7 bits behind \<open>djnz\<close> leaves the eighth clear.\<close>

definition values_fit :: "z8k_gas \<Rightarrow> uint32 list \<Rightarrow> bool" where
  "values_fit g ds \<longleftrightarrow> nibbles_fit g ds \<and> (CLASS_0CCC \<in> set ds \<longrightarrow> the_ctrl g < 8)
     \<and> (CLASS_0DISP7 \<in> set ds \<longrightarrow> \<not> bit (da_number g) 7)"

lemma single_matches:
  assumes "known d" "width d = 1" "field_val g d < 16" "not_r0 g d" "d = CLASS_0CCC \<longrightarrow> the_ctrl g < 8"
  shows "nibble_matches (datum_class d) (datum_value d) (ucast (field_val g d))"
proof -
  consider (bit) "d \<in> {0x500, 0x501, 0x502, 0x503, 0x504, 0x505, 0x506, 0x507, 0x508, 0x509, 0x50a, 0x50b, 0x50c, 0x50d, 0x50e, 0x50f}"
    | (regn0) "d \<in> {CLASS_REGN0 + ARG_RS, CLASS_REGN0 + ARG_RD, CLASS_REGN0 + ARG_RA, CLASS_REGN0 + ARG_RB}"
    | (some_bits) "d \<in> {CLASS_0CCC, CLASS_1CCC, CLASS_00II, CLASS_01II}"
    | (one_or_two) "d \<in> {CLASS_BIT_1OR2 + 0, CLASS_BIT_1OR2 + 4, CLASS_BIT_1OR2 + 8, CLASS_BIT_1OR2 + 0xc}"
    | (any) "d \<in> {CLASS_CC, CLASS_FLAGS, CLASS_REG + 1, CLASS_REG + 2, CLASS_REG + 3, CLASS_REG + 4, CLASS_REG + 5, CLASS_REG + 6,
        CLASS_IMM + ARG_IMM4, CLASS_IMM + ARG_IMM4M1, CLASS_IMM + ARG_IMMNMINUS1}"
    | (wide) "d \<in> {CLASS_IMM + ARG_IMM8, CLASS_IMM + ARG_NIM8, CLASS_IMM + ARG_IMM16, CLASS_IMM + ARG_IMM32, CLASS_ADDRESS + ARG_SRC,
        CLASS_ADDRESS + ARG_DST, CLASS_DISP + ARG_DISP16, CLASS_0DISP7, CLASS_1DISP7, CLASS_DISP8}"
    using assms(1) unfolding known_def all_fields_def by (simp; blast)
  then show ?thesis
  proof cases
    case bit
    then show ?thesis
      by (elim insertE emptyE; simp add: nibble_matches_def datum_class_def datum_value_def field_val_def)
  next
    case regn0
    then have "field_val g d \<noteq> 0" "datum_class d = CLASS_REGN0"
      using assms(4) by (elim insertE emptyE; simp add: field_val_def not_r0_def datum_class_def)+
    then show ?thesis using nonzero_char [OF assms(3)] by (simp add: nibble_matches_def)
  next
    case some_bits
    then show ?thesis
      using assms(5) three_bits
      by (elim insertE emptyE; simp add: nibble_matches_def datum_class_def field_val_def and_4 bit_simps)
  next
    case one_or_two
    then show ?thesis
      by (elim insertE emptyE; simp add: nibble_matches_def datum_class_def datum_value_def field_val_def)
  next
    case any
    then show ?thesis by (elim insertE emptyE; simp add: nibble_matches_def datum_class_def)
  next
    case wide
    then show ?thesis using assms(2) by (elim insertE emptyE; simp add: width_def)
  qed
qed

lemma known_width:
  "d \<in> set all_fields \<Longrightarrow> width d = 1 \<or> d \<in> {CLASS_IMM + ARG_IMM8, CLASS_IMM + ARG_NIM8, CLASS_IMM + ARG_IMM16,
     CLASS_IMM + ARG_IMM32, CLASS_ADDRESS + ARG_SRC, CLASS_ADDRESS + ARG_DST, CLASS_DISP + ARG_DISP16, CLASS_0DISP7, CLASS_1DISP7, CLASS_DISP8}"
  by (auto simp: width_def)

lemma wide_matches:
  assumes "known d" "width d \<noteq> 1" "d \<noteq> CLASS_0DISP7" "d \<noteq> CLASS_1DISP7"
  shows "nibble_matches (datum_class d) (datum_value d) x"
proof -
  have "d \<in> {CLASS_IMM + ARG_IMM8, CLASS_IMM + ARG_NIM8, CLASS_IMM + ARG_IMM16, CLASS_IMM + ARG_IMM32, CLASS_ADDRESS + ARG_SRC,
      CLASS_ADDRESS + ARG_DST, CLASS_DISP + ARG_DISP16, CLASS_0DISP7, CLASS_1DISP7, CLASS_DISP8}"
    using assms(1,2) known_width unfolding known_def by blast
  then show ?thesis using assms(3,4) by (elim insertE emptyE; simp add: nibble_matches_def datum_class_def)
qed

text \<open>The byte at which a longer field begins.\<close>

lemma first_nibble:
  assumes "take k (drop (n div 2) p) = b # bs" "even n"
  shows "nib p n = drop_bit 4 b"
proof -
  obtain cs where "drop (n div 2) p = b # cs" using assms(1) by (cases "drop (n div 2) p"; cases k) auto
  then have "p ! (n div 2) = b" by (rule nth_via_drop)
  then show ?thesis using assms(2) by (simp add: nib_def)
qed

lemma disp7_matches:
  assumes "d = CLASS_0DISP7 \<or> d = CLASS_1DISP7" "here g p n d" "even n" "d = CLASS_0DISP7 \<longrightarrow> \<not> bit (da_number g) 7"
  shows "nibble_matches (datum_class d) (datum_value d) (nib p n)"
  using assms(1)
proof
  assume d: "d = CLASS_0DISP7"
  then have "take 1 (drop (n div 2) p) = [ucast (da_number g)]"
    using assms(2) by (simp add: here_def width_def field_chars_def pack_fix)
  then have "nib p n = drop_bit 4 (ucast (da_number g))" using first_nibble assms(3) by blast
  then show ?thesis using d assms(4) by (simp add: nibble_matches_def datum_class_def and_4 bit_simps)
next
  assume d: "d = CLASS_1DISP7"
  then have "take 1 (drop (n div 2) p) = [push_bit 4 8 OR ucast (da_number g)]"
    using assms(2) by (simp add: here_def width_def field_chars_def)
  then have "nib p n = drop_bit 4 (push_bit 4 8 OR ucast (da_number g))" using first_nibble assms(3) by blast
  then have "bit (nib p n) 3" by (simp add: bit_simps)
  then show ?thesis using d by (simp add: nibble_matches_def datum_class_def and_4)
qed

lemma placed_matches:
  "layout n ds \<Longrightarrow> placed g p n ds \<Longrightarrow> list_all known ds \<Longrightarrow> values_fit g ds \<Longrightarrow> list_all (not_r0 g) ds \<Longrightarrow> i < length ds
     \<Longrightarrow> nibble_matches (datum_class (ds ! i)) (datum_value (ds ! i)) (nib p (n + i))"
proof (induction ds arbitrary: n i)
  case (Cons d ds)
  have rest: "values_fit g ds" using Cons.prems(4) by (auto simp: values_fit_def nibbles_fit_def)
  show ?case
  proof (cases "width d = 1")
    case True
    show ?thesis
    proof (cases i)
      case 0
      have "field_val g d < 16" "d = CLASS_0CCC \<longrightarrow> the_ctrl g < 8"
        using Cons.prems(4) True by (auto simp: values_fit_def nibbles_fit_def)
      then show ?thesis using single_matches [of d g] Cons.prems 0 True by (simp add: here_def)
    next
      case (Suc j)
      then show ?thesis using Cons.IH [of "n + 1" j] Cons.prems True rest by simp
    qed
  next
    case False
    then have w: "wides n (d # ds)" using Cons.prems(1) by simp
    then have ev: "even n" by (auto split: if_splits)
    have k: "known ((d # ds) ! i)" using Cons.prems(3,6) by (metis list_all_length)
    show ?thesis
    proof (cases i)
      case 0
      then show ?thesis
        using Cons.prems k False ev wide_matches [of d] disp7_matches [of d g p n] by (auto simp: values_fit_def)
    next
      case (Suc j)
      then have j: "ds ! j \<in> set ds" using Cons.prems(6) by simp
      then have "ds ! j \<noteq> CLASS_0DISP7" "ds ! j \<noteq> CLASS_1DISP7" using w by auto
      moreover have "width e \<noteq> 1" if "e \<in> set ds" for e
      proof -
        have "width e \<noteq> 1" if "wides m es" "e \<in> set es" for m es e using that by (induction m es rule: wides.induct) auto
        then show ?thesis using w that by auto
      qed
      ultimately show ?thesis using wide_matches [of "ds ! j"] k j Suc by auto
    qed
  qed
qed simp

end
