(* ===== verification/Z8k_Back.thy ===== *)
theory Z8k_Back
  imports Z8k_Code
begin

text \<open>
  The operands of an instruction, put in by the Z8000 assembler and extracted by the disassembler, and the way of an
  instruction through both.
\<close>

section \<open>What is extracted\<close>

text \<open>
  The operand of a field in the variables of the disassembler, from the state of the assembler. The count of \<open>ldm\<close> has lost two, and the
  negated count of a shift to the right comes back with the upper bits set.
\<close>

definition variable :: "nat \<Rightarrow> instr_data_s \<Rightarrow> uint32" where
  "variable t d =
     (if t = 16 then immediate d else if t = 17 then address d else if t = 18 then displacement d
      else if t = 19 then cond_code d else if t = 20 then interrupts d else if t = 21 then dflags d else arg_reg d ! t)"

definition operand_val :: "z8k_gas \<Rightarrow> uint32 \<Rightarrow> nat \<Rightarrow> uint32" where
  "operand_val g e t =
     (if t = 16 then
        (if e = CLASS_IMM + ARG_IMMNMINUS1 then imm_number g - 2
         else if e = CLASS_IMM + ARG_NIM8 then - take_bit 8 (- imm_number g)
         else if e = CLASS_IMM + ARG_IMM8 then take_bit 8 (imm_number g)
         else if e = CLASS_IMM + ARG_IMM16 then take_bit 16 (imm_number g)
         else imm_number g)
      else if t = 17 then take_bit 16 (da_number g)
      else if t = 18 then take_bit (if e = CLASS_DISP + ARG_DISP16 then 16 else 7) (da_number g)
      else if t = 19 then (if e = CLASS_CC then the_cc g else take_bit 3 (the_ctrl g))
      else if t = 20 then NOT (the_interrupt g) AND 3
      else if t = 21 then the_flags g
      else reg g ! t)"

definition extracted :: "z8k_gas \<Rightarrow> uint32 \<Rightarrow> instr_data_s \<Rightarrow> bool" where
  "extracted g e d \<longleftrightarrow> (case target e of None \<Rightarrow> True | Some t \<Rightarrow> variable t d = operand_val g e t)"

lemma take_drop_nth: "take (length xs) (drop m p) = xs \<Longrightarrow> i < length xs \<Longrightarrow> p ! (m + i) = xs ! i"
proof -
  assume a: "take (length xs) (drop m p) = xs" "i < length xs"
  then have "length (take (length xs) (drop m p)) = length xs" by simp
  then have m: "m \<le> length p" using a(2) by simp
  have "xs ! i = take (length xs) (drop m p) ! i" using a(1) by simp
  also have "\<dots> = p ! (m + i)" using a(2) m by simp
  finally show ?thesis by simp
qed

lemma here_bytes:
  assumes "here g p n e" "width e \<noteq> 1" "i < length (pack_nibbles (field_chars g e))" "length (pack_nibbles (field_chars g e)) = width e div 2"
  shows "p ! (n div 2 + i) = pack_nibbles (field_chars g e) ! i"
  by (rule take_drop_nth) (use assms in \<open>simp_all add: here_def\<close>)

text \<open>Extracting a register.\<close>

lemma set_arg_reg_ok: "v < 15 \<Longrightarrow> set_arg_reg v x d = Inr (d\<lparr>arg_reg := (arg_reg d)[v := ucast x]\<rparr>)"
  by (simp add: set_arg_reg_def)

definition frame :: "z8k_gas \<Rightarrow> uint32 \<Rightarrow> instr_data_s \<Rightarrow> instr_data_s \<Rightarrow> bool" where
  "frame g e d d' \<longleftrightarrow> (\<forall>e'. target e' \<noteq> target e \<longrightarrow> extracted g e' d \<longrightarrow> extracted g e' d') \<and> length (arg_reg d') = length (arg_reg d)"

lemma frameI:
  assumes "\<And>t. target e \<noteq> Some t \<Longrightarrow> variable t d' = variable t d" "length (arg_reg d') = length (arg_reg d)"
  shows "frame g e d d'"
  using assms by (force simp: frame_def extracted_def split: option.splits)

lemma ucast_small: "v < 16 \<Longrightarrow> ucast (ucast v :: uint8) = v" for v :: uint32
proof -
  assume v: "v < 16"
  show ?thesis
    by (rule bit_word_eqI) (use small_bits [OF v] in \<open>fastforce simp: bit_simps\<close>)
qed

definition step_ok :: "read_memory \<Rightarrow> z8k_gas \<Rightarrow> uint8 list \<Rightarrow> nat \<Rightarrow> uint32 \<Rightarrow> instr_data_s \<Rightarrow> bool" where
  "step_ok rd g p n e d \<longleftrightarrow>
     (\<exists>d'. unpack_field rd False (datum_class e) (datum_value e) n d = Inr (d', n + (if e = CLASS_DISP8 then 1 else width e) - 1)
        \<and> extracted g e d' \<and> frame g e d d' \<and> fetched p d')"

lemma unpack_nothing:
  assumes "e \<in> {0x500, 0x501, 0x502, 0x503, 0x504, 0x505, 0x506, 0x507, 0x508, 0x509, 0x50a, 0x50b, 0x50c, 0x50d, 0x50e, 0x50f,
      CLASS_BIT_1OR2 + 0, CLASS_BIT_1OR2 + 4, CLASS_BIT_1OR2 + 8, CLASS_BIT_1OR2 + 0xc, CLASS_DISP8}" "fetched p d"
  shows "step_ok rd g p n e d"
  using assms
  by (elim insertE emptyE; simp add: step_ok_def unpack_field_def datum_class_def extracted_def target_def frame_def width_def Let_def)

lemma unpack_reg:
  assumes e: "e \<in> {CLASS_REG + 1, CLASS_REG + 2, CLASS_REG + 3, CLASS_REG + 4, CLASS_REG + 5, CLASS_REG + 6,
      CLASS_REGN0 + 1, CLASS_REGN0 + 2, CLASS_REGN0 + 3, CLASS_REGN0 + 4}"
    and "fetched p d" "n < max_fetched d" "here g p n e" "field_val g e < 16" "length (arg_reg d) = 15"
  shows "step_ok rd g p n e d"
proof -
  have w: "width e = 1" "e \<noteq> CLASS_DISP8" using e by (elim insertE emptyE; simp add: width_def)+
  have nb: "nibbles d ! n = ucast (field_val g e)" using assms w by (simp add: fetched_def here_def)
  obtain v where v: "v < 15" "datum_value e = v" "target e = Some v" "field_val g e = reg g ! v"
    "unpack_field rd False (datum_class e) (datum_value e) n d = bindF (set_arg_reg v (nibbles d ! n) d) (\<lambda>d. Inr (d, n))"
    using e by (elim insertE emptyE; simp add: unpack_field_def datum_class_def datum_value_def target_def field_val_def Let_def)
  let ?d = "d\<lparr>arg_reg := (arg_reg d)[v := reg g ! v]\<rparr>"
  have "unpack_field rd False (datum_class e) (datum_value e) n d = Inr (?d, n)"
    using v nb ucast_small [of "reg g ! v"] assms(5) by (simp add: set_arg_reg_ok)
  moreover have "extracted g e ?d" using v assms(6) by (simp add: extracted_def variable_def operand_val_def)
  moreover have "frame g e d ?d" using v by (intro frameI) (auto simp: variable_def)
  moreover have "fetched p ?d" using assms(2) by (simp add: fetched_def)
  ultimately show ?thesis using w by (auto simp: step_ok_def)
qed

lemma step_okI:
  assumes "unpack_field rd False (datum_class e) (datum_value e) n d = Inr (d', n + width e - 1)" "e \<noteq> CLASS_DISP8"
    "target e = Some t" "variable t d' = operand_val g e t" "\<And>s. s \<noteq> t \<Longrightarrow> variable s d' = variable s d"
    "length (arg_reg d') = length (arg_reg d)" "fetched p d'"
  shows "step_ok rd g p n e d"
proof -
  have "extracted g e d'" using assms(3,4) by (simp add: extracted_def)
  moreover have "frame g e d d'" using assms(3,5,6) by (intro frameI) auto
  ultimately show ?thesis using assms(1,2,7) by (auto simp: step_ok_def)
qed

lemma low_nibble_bits:
  fixes v :: uint32
  shows "ucast (ucast v AND 7 :: uint8) = take_bit 3 v" "ucast (ucast (v OR 8) AND 7 :: uint8) = take_bit 3 v"
    "ucast (ucast (v AND 3) AND 3 :: uint8) = v AND 3" "ucast (ucast (v AND 3 OR 4) AND 3 :: uint8) = v AND 3"
proof -
  have m: "x AND 7 = take_bit 3 x" "x AND 3 = take_bit 2 x" for x :: "'a::len word"
    by (simp_all add: take_bit_eq_mask mask_eq_exp_minus_1)
  have c: "(8 :: uint32) = push_bit 3 1" "(4 :: uint32) = push_bit 2 1" by simp_all
  show "ucast (ucast v AND 7 :: uint8) = take_bit 3 v" "ucast (ucast (v AND 3) AND 3 :: uint8) = v AND 3"
    unfolding m by (rule bit_word_eqI, auto simp: bit_simps)+
  show "ucast (ucast (v OR 8) AND 7 :: uint8) = take_bit 3 v" "ucast (ucast (v AND 3 OR 4) AND 3 :: uint8) = v AND 3"
    unfolding m c by (rule bit_word_eqI, auto simp: bit_simps simp del: push_bit_of_1 push_bit_numeral)+
qed

lemma unpack_code:
  assumes e: "e \<in> {CLASS_CC, CLASS_FLAGS, CLASS_0CCC, CLASS_1CCC, CLASS_00II, CLASS_01II}"
    and "fetched p d" "n < max_fetched d" "here g p n e" "field_val g e < 16"
  shows "step_ok rd g p n e d"
proof -
  have w: "width e = 1" using e by (elim insertE emptyE; simp add: width_def)
  have nb: "nibbles d ! n = ucast (field_val g e)" using assms w by (simp add: fetched_def here_def)
  have s: "ucast (ucast (field_val g e) :: uint8) = field_val g e" by (rule ucast_small [OF assms(5)])
  note D = unpack_field_def datum_class_def datum_value_def target_def Let_def nb
  have f: "fetched p (d\<lparr>cond_code := x\<rparr>)" "fetched p (d\<lparr>dflags := x\<rparr>)" "fetched p (d\<lparr>interrupts := x\<rparr>)" for x
    using assms(2) by (simp_all add: fetched_def)
  show ?thesis
    using e
  proof (elim insertE emptyE)
    assume e: "e = CLASS_CC"
    show ?thesis by (rule step_okI [of _ _ _ _ "d\<lparr>cond_code := the_cc g\<rparr>" 19])
      (use e s f in \<open>simp_all add: D width_def field_val_def variable_def operand_val_def\<close>)
  next
    assume e: "e = CLASS_FLAGS"
    show ?thesis by (rule step_okI [of _ _ _ _ "d\<lparr>dflags := the_flags g\<rparr>" 21])
      (use e s f in \<open>simp_all add: D width_def field_val_def variable_def operand_val_def\<close>)
  next
    assume e: "e = CLASS_0CCC"
    show ?thesis by (rule step_okI [of _ _ _ _ "d\<lparr>cond_code := take_bit 3 (the_ctrl g)\<rparr>" 19])
      (use e f low_nibble_bits in \<open>simp_all add: D width_def field_val_def variable_def operand_val_def\<close>)
  next
    assume e: "e = CLASS_1CCC"
    show ?thesis by (rule step_okI [of _ _ _ _ "d\<lparr>cond_code := take_bit 3 (the_ctrl g)\<rparr>" 19])
      (use e f low_nibble_bits in \<open>simp_all add: D width_def field_val_def variable_def operand_val_def\<close>)
  next
    assume e: "e = CLASS_00II"
    show ?thesis by (rule step_okI [of _ _ _ _ "d\<lparr>interrupts := NOT (the_interrupt g) AND 3\<rparr>" 20])
      (use e f low_nibble_bits in \<open>simp_all add: D width_def field_val_def variable_def operand_val_def\<close>)
  next
    assume e: "e = CLASS_01II"
    show ?thesis by (rule step_okI [of _ _ _ _ "d\<lparr>interrupts := NOT (the_interrupt g) AND 3\<rparr>" 20])
      (use e f low_nibble_bits in \<open>simp_all add: D width_def field_val_def variable_def operand_val_def\<close>)
  qed
qed

lemma unpack_small_imm:
  assumes e: "e \<in> {CLASS_IMM + ARG_IMM4, CLASS_IMM + ARG_IMM4M1, CLASS_IMM + ARG_IMMNMINUS1}"
    and "fetched p d" "n < max_fetched d" "here g p n e" "field_val g e < 16"
  shows "step_ok rd g p n e d"
proof -
  have w: "width e = 1" using e by (elim insertE emptyE; simp add: width_def)
  have nb: "nibbles d ! n = ucast (field_val g e)" using assms w by (simp add: fetched_def here_def)
  have s: "ucast (ucast (field_val g e) :: uint8) = field_val g e" by (rule ucast_small [OF assms(5)])
  note D = unpack_field_def datum_class_def datum_value_def target_def Let_def nb
  have f: "fetched p (d\<lparr>immediate := x\<rparr>)" for x
    using assms(2) by (simp_all add: fetched_def)
  show ?thesis
    using e
  proof (elim insertE emptyE)
    assume e: "e = CLASS_IMM + ARG_IMM4"
    show ?thesis by (rule step_okI [of _ _ _ _ "d\<lparr>immediate := imm_number g\<rparr>" 16])
      (use e s f in \<open>simp_all add: D unpack_imm_def width_def field_val_def variable_def operand_val_def\<close>)
  next
    assume e: "e = CLASS_IMM + ARG_IMM4M1"
    show ?thesis by (rule step_okI [of _ _ _ _ "d\<lparr>immediate := imm_number g\<rparr>" 16])
      (use e s f in \<open>simp_all add: D unpack_imm_def width_def field_val_def variable_def operand_val_def\<close>)
  next
    assume e: "e = CLASS_IMM + ARG_IMMNMINUS1"
    show ?thesis by (rule step_okI [of _ _ _ _ "d\<lparr>immediate := imm_number g - 2\<rparr>" 16])
      (use e s f in \<open>simp_all add: D unpack_imm_def width_def field_val_def variable_def operand_val_def\<close>)
  qed
qed

lemma two_bytes_word:
  "push_bit 8 (ucast (ucast (drop_bit 8 v) :: uint8)) OR ucast (ucast v :: uint8) = (ucast v :: uint16)" for v :: uint32
  by (rule bit_word_eqI) (auto simp: bit_simps)

lemma ucast_take:
  "ucast (ucast v :: uint16) = take_bit 16 v" "ucast (ucast v :: uint8) = take_bit 8 v"
  "ucast (ucast v AND 0x7f :: uint8) = take_bit 7 v" "ucast ((push_bit 4 8 OR ucast v) AND 0x7f :: uint8) = take_bit 7 v" for v :: uint32
proof -
  show "ucast (ucast v :: uint16) = take_bit 16 v" "ucast (ucast v :: uint8) = take_bit 8 v"
    by (rule bit_word_eqI, auto simp: bit_simps)+
  have m: "x AND 0x7f = take_bit 7 x" for x :: uint8 by (simp add: take_bit_eq_mask mask_eq_exp_minus_1)
  show "ucast (ucast v AND 0x7f :: uint8) = take_bit 7 v" unfolding m by (rule bit_word_eqI) (auto simp: bit_simps)
  have "(push_bit 4 8 OR ucast v) AND 0x7f = (ucast v AND 0x7f :: uint8)" by (simp add: bit.conj_disj_distrib2)
  then show "ucast ((push_bit 4 8 OR ucast v) AND 0x7f :: uint8) = take_bit 7 v"
    unfolding m by (simp, intro bit_word_eqI, auto simp: bit_simps)
qed

lemma long_words: "push_bit 16 (ucast (ucast (drop_bit 16 v) :: uint16)) OR ucast (ucast v :: uint16) = v" for v :: uint32
  by (rule bit_word_eqI) (auto simp: bit_simps)

lemma unpack_byte:
  assumes e: "e \<in> {CLASS_IMM + ARG_IMM8, CLASS_IMM + ARG_NIM8, CLASS_0DISP7, CLASS_1DISP7}"
    and "fetched p d" "n < max_fetched d" "here g p n e" "even n"
  shows "step_ok rd g p n e d"
proof -
  have b: "bytes d ! n = pack_nibbles (field_chars g e) ! 0"
    using here_bytes [OF assms(4), of 0] e assms(2,3,5)
    by (elim insertE emptyE; simp add: fetched_def width_def field_chars_def pack_fix)
  note D = unpack_field_def datum_class_def datum_value_def target_def Let_def unpack_imm_def width_def variable_def operand_val_def
    field_chars_def pack_fix ucast_take
  have f: "fetched p (d\<lparr>displacement := x\<rparr>)" "fetched p (d\<lparr>immediate := x\<rparr>)" for x
    using assms(2) by (simp_all add: fetched_def)
  show ?thesis
    using e
  proof (elim insertE emptyE)
    assume e: "e = CLASS_IMM + ARG_IMM8"
    show ?thesis by (rule step_okI [of _ _ _ _ "d\<lparr>immediate := take_bit 8 (imm_number g)\<rparr>" 16]) (use e b f in \<open>simp_all add: D\<close>)
  next
    assume e: "e = CLASS_IMM + ARG_NIM8"
    show ?thesis by (rule step_okI [of _ _ _ _ "d\<lparr>immediate := - take_bit 8 (- imm_number g)\<rparr>" 16]) (use e b f in \<open>simp_all add: D\<close>)
  next
    assume e: "e = CLASS_0DISP7"
    show ?thesis by (rule step_okI [of _ _ _ _ "d\<lparr>displacement := take_bit 7 (da_number g)\<rparr>" 18]) (use e b f in \<open>simp_all add: D\<close>)
  next
    assume e: "e = CLASS_1DISP7"
    show ?thesis by (rule step_okI [of _ _ _ _ "d\<lparr>displacement := take_bit 7 (da_number g)\<rparr>" 18])
      (use e b f ucast_take(4) [of "da_number g"] in \<open>simp_all add: D\<close>)
  qed
qed

lemma unpack_word_field:
  assumes e: "e \<in> {CLASS_IMM + ARG_IMM16, CLASS_ADDRESS + ARG_SRC, CLASS_ADDRESS + ARG_DST, CLASS_DISP + ARG_DISP16}"
    and "fetched p d" "n < max_fetched d" "here g p n e" "n mod 4 = 0"
  shows "step_ok rd g p n e d"
proof -
  define v where "v = (if e = CLASS_IMM + ARG_IMM16 then imm_number g else da_number g)"
  have "pack_nibbles (field_chars g e) = [ucast (drop_bit 8 v), ucast v]" "width e = 4"
    using e by (elim insertE emptyE; simp add: width_def field_chars_def pack_fix v_def)+
  then have "p ! (n div 2) = ucast (drop_bit 8 v)" "p ! (n div 2 + 1) = ucast v"
    using here_bytes [OF assms(4), of 0] here_bytes [OF assms(4), of 1] by simp_all
  then have b: "words d ! n = ucast v" using assms(2,3,5) by (simp add: fetched_def word_of_def two_bytes_word)
  note D = unpack_field_def datum_class_def datum_value_def target_def Let_def unpack_imm_def unpack_address_def unpack_disp_def width_def
    variable_def operand_val_def b ucast_take v_def
  have f: "fetched p (d\<lparr>displacement := x\<rparr>)" "fetched p (d\<lparr>immediate := x\<rparr>)" "fetched p (d\<lparr>address := x\<rparr>)" for x
    using assms(2) by (simp_all add: fetched_def)
  show ?thesis
    using e
  proof (elim insertE emptyE)
    assume e: "e = CLASS_IMM + ARG_IMM16"
    show ?thesis by (rule step_okI [of _ _ _ _ "d\<lparr>immediate := take_bit 16 (imm_number g)\<rparr>" 16]) (use e f in \<open>simp_all add: D\<close>)
  next
    assume e: "e = CLASS_ADDRESS + ARG_SRC"
    show ?thesis by (rule step_okI [of _ _ _ _ "d\<lparr>address := take_bit 16 (da_number g)\<rparr>" 17]) (use e f in \<open>simp_all add: D\<close>)
  next
    assume e: "e = CLASS_ADDRESS + ARG_DST"
    show ?thesis by (rule step_okI [of _ _ _ _ "d\<lparr>address := take_bit 16 (da_number g)\<rparr>" 17]) (use e f in \<open>simp_all add: D\<close>)
  next
    assume e: "e = CLASS_DISP + ARG_DISP16"
    show ?thesis by (rule step_okI [of _ _ _ _ "d\<lparr>displacement := take_bit 16 (da_number g)\<rparr>" 18]) (use e f in \<open>simp_all add: D\<close>)
  qed
qed

lemma rest_variable: "rest d' = rest d \<Longrightarrow> variable t d' = variable t d \<and> arg_reg d' = arg_reg d"
  by (cases d; cases d') (simp add: rest_def variable_def)

lemma variable_imm: "variable s (d\<lparr>immediate := x\<rparr>) = (if s = 16 then x else variable s d)"
  by (simp add: variable_def)

lemma unpack_long:
  assumes e: "e = CLASS_IMM + ARG_IMM32" and "reads rd p" "fetched p d" "here g p n e" "n mod 4 = 0" "n + 8 \<le> 12"
  shows "step_ok rd g p n e d"
proof -
  have w: "width e = 8" "pack_nibbles (field_chars g e) = [ucast (drop_bit 24 (imm_number g)), ucast (drop_bit 16 (imm_number g)),
      ucast (drop_bit 8 (imm_number g)), ucast (imm_number g)]"
    by (simp_all add: e width_def field_chars_def pack_fix)
  then have b: "p ! (n div 2) = ucast (drop_bit 8 (drop_bit 16 (imm_number g)))" "p ! (n div 2 + 1) = ucast (drop_bit 16 (imm_number g))"
      "p ! (n div 2 + 2) = ucast (drop_bit 8 (imm_number g))" "p ! (n div 2 + 3) = ucast (imm_number g)"
    using here_bytes [OF assms(4), of 0] here_bytes [OF assms(4), of 1] here_bytes [OF assms(4), of 2] here_bytes [OF assms(4), of 3]
    by (simp_all add: drop_bit_drop_bit)
  obtain d1 where d1: "FETCH_DATA rd (n + 8) d = Inr d1" "fetched p d1" "n + 8 \<le> max_fetched d1" "rest d1 = rest d"
    using FETCH_reads [OF assms(2,3), of "n + 8"] assms(5,6) by auto
  have four: "(n + 4) div 2 = n div 2 + 2" by simp
  have "word_of p n = ucast (drop_bit 16 (imm_number g))" "word_of p (n + 4) = ucast (imm_number g)"
    unfolding word_of_def four using b two_bytes_word [of "drop_bit 16 (imm_number g)"] two_bytes_word [of "imm_number g"]
    by (simp_all add: eval_nat_numeral)
  then have "words d1 ! n = ucast (drop_bit 16 (imm_number g))" "words d1 ! (n + 4) = ucast (imm_number g)"
    using d1(2,3) assms(5) by (simp_all add: fetched_def)
  then have l: "long_at n d1 = imm_number g" by (simp add: long_at_def long_words)
  have "fetched p (d1\<lparr>immediate := imm_number g\<rparr>)" using d1(2) by (simp add: fetched_def)
  moreover have "variable s (d1\<lparr>immediate := x\<rparr>) = variable s d" if "s \<noteq> 16" for s x
    using that rest_variable [OF d1(4), of s] by (simp add: variable_imm)
  ultimately show ?thesis
    by (intro step_okI [of _ _ _ _ "d1\<lparr>immediate := imm_number g\<rparr>" 16])
      (use d1 l rest_variable [OF d1(4)] in \<open>simp_all add: e unpack_field_def datum_class_def datum_value_def target_def Let_def unpack_imm_def
        width_def variable_imm operand_val_def\<close>)
qed

text \<open>Any field, aligned as the layouts have it.\<close>

definition aligned :: "nat \<Rightarrow> uint32 \<Rightarrow> bool" where
  "aligned n e \<longleftrightarrow> n + width e \<le> 12 \<and> (width e = 2 \<longrightarrow> even n) \<and> (width e = 4 \<or> width e = 8 \<longrightarrow> n mod 4 = 0)"

lemma unpack_step:
  assumes "known e" "aligned n e" "reads rd p" "fetched p d" "n < max_fetched d" "here g p n e" "nibbles_fit g [e]" "length (arg_reg d) = 15"
  shows "step_ok rd g p n e d"
proof -
  consider "e \<in> {0x500, 0x501, 0x502, 0x503, 0x504, 0x505, 0x506, 0x507, 0x508, 0x509, 0x50a, 0x50b, 0x50c, 0x50d, 0x50e, 0x50f,
        CLASS_BIT_1OR2 + 0, CLASS_BIT_1OR2 + 4, CLASS_BIT_1OR2 + 8, CLASS_BIT_1OR2 + 0xc, CLASS_DISP8}"
    | "e \<in> {CLASS_REG + 1, CLASS_REG + 2, CLASS_REG + 3, CLASS_REG + 4, CLASS_REG + 5, CLASS_REG + 6,
        CLASS_REGN0 + 1, CLASS_REGN0 + 2, CLASS_REGN0 + 3, CLASS_REGN0 + 4}"
    | "e \<in> {CLASS_CC, CLASS_FLAGS, CLASS_0CCC, CLASS_1CCC, CLASS_00II, CLASS_01II}"
    | "e \<in> {CLASS_IMM + ARG_IMM4, CLASS_IMM + ARG_IMM4M1, CLASS_IMM + ARG_IMMNMINUS1}"
    | "e \<in> {CLASS_IMM + ARG_IMM8, CLASS_IMM + ARG_NIM8, CLASS_0DISP7, CLASS_1DISP7}"
    | "e \<in> {CLASS_IMM + ARG_IMM16, CLASS_ADDRESS + ARG_SRC, CLASS_ADDRESS + ARG_DST, CLASS_DISP + ARG_DISP16}"
    | "e = CLASS_IMM + ARG_IMM32"
    using assms(1) unfolding known_def all_fields_def by (simp; blast)
  then show ?thesis
  proof cases
    case 1
    then show ?thesis using assms(4) by (rule unpack_nothing)
  next
    case 2
    then have "width e = 1" by (elim insertE emptyE; simp add: width_def)
    then show ?thesis using unpack_reg [OF 2 assms(4,5,6)] assms(7,8) by (simp add: nibbles_fit_def)
  next
    case 3
    then have "width e = 1" by (elim insertE emptyE; simp add: width_def)
    then show ?thesis using unpack_code [OF 3 assms(4,5,6)] assms(7) by (simp add: nibbles_fit_def)
  next
    case 4
    then have "width e = 1" by (elim insertE emptyE; simp add: width_def)
    then show ?thesis using unpack_small_imm [OF 4 assms(4,5,6)] assms(7) by (simp add: nibbles_fit_def)
  next
    case 5
    then have "width e = 2" by (elim insertE emptyE; simp add: width_def)
    then show ?thesis using unpack_byte [OF 5 assms(4,5,6)] assms(2) by (simp add: aligned_def)
  next
    case 6
    then have "width e = 4" by (elim insertE emptyE; simp add: width_def)
    then show ?thesis using unpack_word_field [OF 6 assms(4,5,6)] assms(2) by (simp add: aligned_def)
  next
    case 7
    then have "width e = 8" by (simp add: width_def)
    then show ?thesis using unpack_long [OF 7 assms(3,4,6)] assms(2) by (simp add: aligned_def)
  qed
qed

section \<open>All fields\<close>

fun all_aligned :: "nat \<Rightarrow> uint32 list \<Rightarrow> bool" where
  "all_aligned n [] = True"
| "all_aligned n (e # es) = (aligned n e \<and> (e = CLASS_DISP8 \<longrightarrow> es = []) \<and> all_aligned (n + width e) es)"

lemma wides_aligned: "wides n es \<Longrightarrow> all_aligned n es"
proof (induction n es rule: wides.induct)
  case (2 n e es)
  then show ?case using width_cases [of e] by (auto simp: aligned_def)
qed simp

lemma layout_aligned: "layout n es \<Longrightarrow> all_aligned n es"
proof (induction n es rule: layout.induct)
  case (2 n e es)
  show ?case
  proof (cases "width e = 1")
    case True
    then have "e \<noteq> CLASS_DISP8" by (auto simp: width_def)
    then show ?thesis using 2 True by (simp add: aligned_def)
  next
    case False
    then show ?thesis using 2 by (intro wides_aligned) simp
  qed
qed simp

lemma frame_rest: "rest d1 = rest d \<Longrightarrow> extracted g e d \<Longrightarrow> extracted g e d1"
  using rest_variable [of d1 d] by (simp add: extracted_def split: option.splits)

lemma unpack_loop_ok:
  assumes "reads rd p"
  shows "all_aligned n es \<Longrightarrow> placed g p n es \<Longrightarrow> list_all known es \<Longrightarrow> nibbles_fit g es \<Longrightarrow> targets_ok es \<Longrightarrow> fetched p d
    \<Longrightarrow> length (arg_reg d) = 15
    \<Longrightarrow> \<exists>d'. unpack_loop rd False (es @ replicate k 0) n d = Inr d' \<and> (\<forall>e \<in> set es. extracted g e d')
      \<and> (\<forall>e. (\<forall>e' \<in> set es. target e \<noteq> target e') \<longrightarrow> extracted g e d \<longrightarrow> extracted g e d')"
proof (induction es arbitrary: n d)
  case Nil
  then show ?case by (cases k) auto
next
  case (Cons e es)
  have e: "e \<in> set all_fields" "known e" using Cons.prems(3) by (simp_all add: known_def)
  have "e \<noteq> 0" using e(1) unfolding all_fields_def by auto
  have al: "aligned n e" "n < 12" using Cons.prems(1) width_pos [of e] by (auto simp: aligned_def)
  have "(n + 4 - n mod 4) mod 4 = 0" "n + 4 - n mod 4 \<le> 24" "n < n + 4 - n mod 4" using al(2) by presburger+
  then obtain d1 where d1: "FETCH_DATA rd (n + 4 - n mod 4) d = Inr d1" "fetched p d1" "n < max_fetched d1" "rest d1 = rest d"
    using FETCH_reads [OF assms Cons.prems(6), of "n + 4 - n mod 4"] by auto
  have len: "length (arg_reg d1) = 15" using rest_variable [OF d1(4)] Cons.prems(7) by simp
  have "step_ok rd g p n e d1"
    using unpack_step [OF e(2) al(1) assms d1(2,3) _ _ len] Cons.prems by (simp add: nibbles_fit_def)
  then obtain d2 where d2: "unpack_field rd False (datum_class e) (datum_value e) n d1 = Inr (d2, n + (if e = CLASS_DISP8 then 1 else width e) - 1)"
    "extracted g e d2" "frame g e d1 d2" "fetched p d2"
    by (auto simp: step_ok_def)
  have len2: "length (arg_reg d2) = 15" using d2(3) len by (simp add: frame_def)
  let ?n = "n + (if e = CLASS_DISP8 then 1 else width e) - 1 + 1"
  have step: "unpack_loop rd False ((e # es) @ replicate k 0) n d = unpack_loop rd False (es @ replicate k 0) ?n d2"
    using \<open>e \<noteq> 0\<close> d1(1) d2(1) by simp
  have "all_aligned ?n es" "placed g p ?n es"
    using Cons.prems(1,2) width_pos [of e] by (auto simp: le_add_diff_inverse2 Suc_leI)
  then obtain d' where d': "unpack_loop rd False (es @ replicate k 0) ?n d2 = Inr d'" "\<forall>e \<in> set es. extracted g e d'"
    "\<forall>e. (\<forall>e' \<in> set es. target e \<noteq> target e') \<longrightarrow> extracted g e d2 \<longrightarrow> extracted g e d'"
    using Cons.IH [of ?n d2] Cons.prems(3-5) d2(4) len2 by (auto simp: nibbles_fit_def)
  have "extracted g e d'"
  proof (cases "\<exists>e' \<in> set es. target e' = target e")
    case True
    then obtain e' where "e' \<in> set es" "target e' = target e" by blast
    then have "target e = None \<or> e' = e" using Cons.prems(5) by (auto simp: list_all_iff)
    then show ?thesis using d'(2) \<open>e' \<in> set es\<close> by (auto simp: extracted_def)
  next
    case False
    then show ?thesis using d'(3) d2(2) by metis
  qed
  moreover have "extracted g x d'" if "\<forall>e' \<in> set (e # es). target x \<noteq> target e'" "extracted g x d" for x
    using that d'(3) d2(3) frame_rest [OF d1(4)] by (auto simp: frame_def)
  ultimately show ?case unfolding step using d'(1,2) by auto
qed

section \<open>From the assembler to the disassembler\<close>

text \<open>The fields of an entry.\<close>

definition fields :: "opcode_entry_type \<Rightarrow> uint32 list" where
  "fields op = takeWhile (\<lambda>e. e \<noteq> 0) (byte_info op)"

lemma known_nonzero: "known e \<Longrightarrow> e \<noteq> 0"
  unfolding known_def all_fields_def by auto

lemma layout_fields:
  assumes "layout_ok op"
  shows "byte_info op = fields op @ replicate (10 - length (fields op)) 0" "list_all known (fields op)" "imm_ok True (fields op)"
    "layout 0 (fields op)" "targets_ok (fields op)"
proof -
  obtain ds where ds: "byte_info op = ds @ replicate (10 - length ds) 0" "list_all known ds" "imm_ok True ds" "layout 0 ds" "targets_ok ds"
    using assms by (auto simp: layout_ok_def)
  have "\<forall>e \<in> set ds. e \<noteq> 0" using ds(2) known_nonzero by (auto simp: list_all_iff)
  then have "fields op = ds" unfolding fields_def ds(1) by (simp add: takeWhile_append takeWhile_eq_all_conv)
  then show "byte_info op = fields op @ replicate (10 - length (fields op)) 0" "list_all known (fields op)" "imm_ok True (fields op)"
    "layout 0 (fields op)" "targets_ok (fields op)"
    using ds by simp_all
qed

lemma placed_entry_matches:
  assumes "entry_ok op" "byte_info op = fields op @ replicate (10 - length (fields op)) 0" "list_all known (fields op)" "layout 0 (fields op)"
    "placed g p 0 (fields op)" "values_fit g (fields op)" "list_all (not_r0 g) (fields op)"
  shows "entry_matches op (nib p)"
proof -
  obtain ds where ds: "byte_info op = ds @ replicate (10 - length ds) 0" "data_ok (2 * z_length op) ds" "z_length op \<le> 6"
    "\<And>i. i < 12 \<Longrightarrow> length ds \<le> i \<Longrightarrow> datum_class (byte_info_at op i) = 0" "\<And>i. i < length ds \<Longrightarrow> byte_info_at op i = ds ! i"
    using entry_data [OF assms(1)] by metis
  have "\<forall>e \<in> set ds. e \<noteq> 0" using plain_nonzero [OF ds(2)] by auto
  then have f: "fields op = ds" unfolding fields_def ds(1) by (simp add: takeWhile_append takeWhile_eq_all_conv)
  have "nibble_matches (datum_class (byte_info_at op i)) (datum_value (byte_info_at op i)) (nib p i)" if "i < z_length op * 2" for i
  proof (cases "i < length ds")
    case True
    then show ?thesis using placed_matches [OF assms(4,5,3,6,7)] ds(5) f by simp
  next
    case False
    then show ?thesis using ds(3) ds(4) [of i] that by (simp add: nibble_matches_def)
  qed
  then show ?thesis by (simp add: entry_matches_def)
qed

lemma found_entry:
  assumes "reads rd p" "max_fetched d = 0" "i < 418" "entry_matches (z8k_table ! i) (nib p)"
  shows "\<exists>k d1. z8k_lookup_instr rd d = Inr (Some k, d1) \<and> fetched p d1 \<and> rest d1 = rest d \<and> k \<le> i \<and> (shadowed i \<or> k = i)"
proof -
  have "fetched p d" using assms(2) by (simp add: fetched_def)
  then obtain d1 where d1: "z8k_lookup_instr rd d = Inr (first_match z8k_table 0 (nib p), d1)" "fetched p d1" "rest d1 = rest d"
    using lookup_loop_reads [OF assms(1) _ entries_ok, of d z8k_table 0] unfolding z8k_lookup_instr_def by blast
  have f: "found_as (first_match z8k_table 0 (nib p)) (nib p)" by (rule first_match_found) (rule nib_less)
  then obtain k where k: "first_match z8k_table 0 (nib p) = Some k"
    using assms(3,4) by (cases "first_match z8k_table 0 (nib p)") (auto simp: found_as_def)
  then have "\<not> k > i" "shadowed i \<or> k = i" using f assms(3,4) by (auto simp: found_as_def)
  then show ?thesis using d1 k by (intro exI [of _ k] exI [of _ d1]) simp
qed

text \<open>\<open>calr\<close> has one nibble too many.\<close>

lemma replicate_10: "replicate 10 x = [x, x, x, x, x, x, x, x, x, x]"
  by (simp add: numeral_eq_Suc)

lemma replicate_5: "replicate 5 x = [x, x, x, x, x]"
  by (simp add: numeral_eq_Suc)

lemma calr_not_built: "build_bytes (z8k_table ! 41) g \<noteq> Inr ((), g')"
proof
  assume b: "build_bytes (z8k_table ! 41) g = Inr ((), g')"
  have calr: "byte_info (z8k_table ! 41) = [CLASS_BIT + 0xd, CLASS_DISP + ARG_DISP12, 0, 0, 0, 0, 0, 0, 0, 0]"
    by (simp add: z8k_table_def z8k_table_a_def z8k_table_b_def z8k_table_c_def z8k_entry_def replicate_10)
  obtain out h where o: "encode_loop (length (z_code g)) (byte_info (z8k_table ! 41)) [] g = Inr (out, h)" "even (length out)"
    using b by (auto simp: build_bytes_def run_iff)
  obtain h' where "use_da (length (z_code g)) [0xd] R_IMM16 4 g = Inr (out, h')"
    using o(1) unfolding calr by (auto simp: encode_field_def run_iff Let_def)
  then have "length out = 5" by (auto simp: fix_chars_def elim!: use_da_Inr)
  then show False using o(2) by simp
qed


text \<open>The instruction \<open>add r3,#0x1234\<close>, which is entry 5, with 0x5678 behind it.\<close>

definition sample_op :: z8k_op where
  "sample_op = \<lparr>op_mode = CLASS_IMM, op_reg = 0, x_reg = 0, op_exp = \<lparr>X_add_symbol = None, X_op_symbol = No_symbol, X_add_number = 0x1234, X_op = O_constant\<rparr>\<rparr>"

definition sample_gas :: z8k_gas where
  "sample_gas = \<lparr>segmented_mode = False, machine = bfd_mach_z8002, coff_flags = F_Z8002, operand = [sample_op, sample_op, sample_op], da_operand = Null,
     imm_operand = Operand 1, reg = [0, 0, 3, 0, 0, 0, 0, 0, 0, 0, 0, 0, 0, 0, 0, 0], the_cc = 0, the_ctrl = 0, the_flags = 0, the_interrupt = 0,
     input_line_pointer = None, z_code = [], z_fixes = [], z_msgs = []\<rparr>"

lemma table_5: "z8k_table ! 5 = z8k_entry ''add'' 2 [CLASS_REG_WORD + ARG_RD, CLASS_IMM + ARG_IMM16]
    [CLASS_BIT + 0, CLASS_BIT + 1, CLASS_BIT + 0, CLASS_REG + ARG_RD, CLASS_IMM + ARG_IMM16] 2 4 5"
  by (simp add: z8k_table_def z8k_table_a_def)


end
