(* ===== verification/Z8k_Link.thy ===== *)
theory Z8k_Link
  imports Z8k_Base Bfd_Reloc
begin

text \<open>
  Linking of Z8000 objects: the relocations of \<open>src/src/bfd/coff-z8k.c\<close> and the section contents of
  \<open>src/src/bfd/reloc16.c\<close>. \<open>bfd_vma\<close> has 32 bits. What the linker knows of the symbols that are not defined in the
  object, and the answers of its callbacks, are parameters.
\<close>

section \<open>Kinds of relocations\<close>

definition r_imm32 :: reloc_howto where
  "r_imm32 = reloc_howto.make 0x11 0 1 32 False 0 complain_overflow_bitfield No_function ''r_imm32'' True 0xffffffff 0xffffffff False"

definition r_imm4l :: reloc_howto where
  "r_imm4l = reloc_howto.make 0x23 0 1 4 False 0 complain_overflow_bitfield No_function ''r_imm4l'' True 0xf 0xf False"

definition r_da :: reloc_howto where
  "r_da = reloc_howto.make 0x01 0 1 16 False 0 complain_overflow_bitfield No_function ''r_da'' True 0xffff 0xffff False"

definition r_imm8 :: reloc_howto where
  "r_imm8 = reloc_howto.make 0x22 0 1 8 False 0 complain_overflow_bitfield No_function ''r_imm8'' True 0xff 0xff False"

definition r_jr :: reloc_howto where
  "r_jr = reloc_howto.make 0x02 0 1 8 True 0 complain_overflow_signed No_function ''r_jr'' True 0 0 True"

definition rtype2howto :: "nat \<Rightarrow> reloc_howto run" where
  "rtype2howto t =
     (if t = 0x22 then Inr r_imm8 else if t = 0x01 then Inr r_da else if t = 0x02 then Inr r_jr
      else if t = 0x11 then Inr r_imm32 else if t = 0x23 then Inr r_imm4l else Inl Aborted)"

text \<open>A relocation of the object as the linker works with it.\<close>

record z8k_reloc =
  rel_address :: uint32
  rel_howto :: reloc_howto
  rel_symbol :: asymbol
  rel_addend :: uint32

text \<open>
  \<open>reloc_processing\<close>, from the fields of the relocation in the file. The index 0 is taken as no symbol, as
  a negative one is; a relocation without symbol refers to the absolute section's symbol \<open>abs_sym\<close>.
\<close>

definition reloc_processing :: "(nat \<Rightarrow> asymbol) \<Rightarrow> asymbol \<Rightarrow> uint32 \<Rightarrow> uint32 \<Rightarrow> int32 \<Rightarrow> nat \<Rightarrow> uint32 \<Rightarrow> z8k_reloc run" where
  "reloc_processing symbols abs_sym vma vaddr symndx t off =
     bindF (rtype2howto t) (\<lambda>h.
     Inr \<lparr>rel_address = vaddr - vma, rel_howto = h,
          rel_symbol = (if 0 <s symndx then symbols (unat symndx) else abs_sym), rel_addend = off\<rparr>)"

section \<open>Values\<close>

text \<open>
  What the linker's hash table says of an undefined or common symbol: defined with a value in a section, common
  with a size, or anything else.
\<close>

datatype link_hash = Hash_defined uint32 asection | Hash_common uint32 | Hash_other

record link_info =
  link_hash_lookup :: "asymbol \<Rightarrow> link_hash"
  undefined_symbol :: "asymbol \<Rightarrow> bool"
  reloc_overflow :: "z8k_reloc \<Rightarrow> bool"

datatype complaint = Undefined_symbol | Reloc_overflow

definition bfd_coff_reloc16_get_value :: "link_info \<Rightarrow> z8k_reloc \<Rightarrow> (uint32 \<times> complaint list) run" where
  "bfd_coff_reloc16_get_value info rel =
     (let sym = rel_symbol rel in
      bindF (if sym_kind sym = Und_section \<or> sym_kind sym = Com_section then
               (case link_hash_lookup info sym of
                  Hash_defined v sec \<Rightarrow> Inr (v + output_vma sec + output_offset sec, [])
                | Hash_common sz \<Rightarrow> Inr (sz, [])
                | Hash_other \<Rightarrow>
                    if undefined_symbol info sym then Inr (0, [Undefined_symbol]) else Inl Aborted)
             else Inr (sym_value sym + output_offset (sym_section sym) + output_vma (sym_section sym), []))
        (\<lambda>(value, cs). Inr (value + rel_addend rel, cs)))"

section \<open>Contents of a section\<close>

text \<open>
  The bytes of the section, in which the input is overwritten by the output, the two addresses, and what the
  callbacks have been told.
\<close>

record section_state =
  sec_data :: "uint8 list"
  src_address :: nat
  dst_address :: nat
  complaints :: "complaint list"

definition put_field :: "uint8 list \<Rightarrow> section_state \<Rightarrow> section_state run" where
  "put_field new s =
     (if dst_address s + length new \<le> length (sec_data s)
      then Inr (s\<lparr>sec_data := put_bytes (dst_address s) new (sec_data s),
                  dst_address := dst_address s + length new, src_address := src_address s + length new\<rparr>)
      else Inl (Overrun ''data''))"

text \<open>\<open>gap\<close> is even when it is halved. The section of the relocation is at \<open>offset\<close> of its output section, which is at \<open>vma\<close>.\<close>

definition jr_field :: "link_info \<Rightarrow> uint32 \<Rightarrow> uint32 \<Rightarrow> z8k_reloc \<Rightarrow> uint32 \<Rightarrow> section_state \<Rightarrow> section_state run" where
  "jr_field info offset vma rel dst s =
     (let dot = offset + of_nat (dst_address s) + vma; gap = dst - dot - 1 :: int32 in
      if gap AND 1 \<noteq> 0 then Inl Aborted
      else
        (let gap = word_of_int (sint gap div 2) :: int32; over = (128 <s gap \<or> gap <s - 128) in
         if over \<and> \<not> reloc_overflow info rel then Inl Aborted
         else put_field [ucast gap] (s\<lparr>complaints := complaints s @ (if over then [Reloc_overflow] else [])\<rparr>)))"

definition extra_case :: "link_info \<Rightarrow> uint32 \<Rightarrow> uint32 \<Rightarrow> z8k_reloc \<Rightarrow> section_state \<Rightarrow> section_state run" where
  "extra_case info offset vma rel s =
     (let t = howto_type (rel_howto rel) in
      if t \<notin> {0x22, 0x11, 0x23, 0x01, 0x02} then Inl Aborted
      else if dst_address s \<ge> length (sec_data s) then Inl (Overrun ''data'')
      else
        bindF (bfd_coff_reloc16_get_value info rel) (\<lambda>(v, cs).
        let s = s\<lparr>complaints := complaints s @ cs\<rparr> in
        if t = 0x22 then put_field [ucast v] s
        else if t = 0x11 then put_field (bfd_putb32 v) s
        else if t = 0x23 then put_field [(sec_data s ! dst_address s AND 0xf0) OR (0x0f AND ucast v)] s
        else if t = 0x01 then put_field (bfd_putb16 v) s
        else jr_field info offset vma rel v s))"

fun copy_run :: "nat \<Rightarrow> section_state \<Rightarrow> section_state run" where
  "copy_run 0 s = Inr s"
| "copy_run (Suc n) s =
     (if src_address s < length (sec_data s) \<and> dst_address s < length (sec_data s)
      then copy_run n (s\<lparr>sec_data := (sec_data s)[dst_address s := sec_data s ! src_address s],
                         dst_address := dst_address s + 1, src_address := src_address s + 1\<rparr>)
      else Inl (Overrun ''data''))"

text \<open>The loop over the relocations; \<open>sz\<close> is the size of the output.\<close>

fun contents_loop :: "link_info \<Rightarrow> uint32 \<Rightarrow> uint32 \<Rightarrow> nat \<Rightarrow> z8k_reloc list \<Rightarrow> section_state \<Rightarrow> section_state run" where
  "contents_loop info offset vma sz [] s = (if dst_address s < sz then copy_run (sz - dst_address s) s else Inr s)"
| "contents_loop info offset vma sz (rel # rels) s =
     (if dst_address s < sz then
        bindF (copy_run (unat (rel_address rel - of_nat (src_address s))) s) (\<lambda>s.
        bindF (extra_case info offset vma rel s) (contents_loop info offset vma sz rels))
      else Inr s)"

definition reloc16_section_contents :: "link_info \<Rightarrow> uint32 \<Rightarrow> uint32 \<Rightarrow> nat \<Rightarrow> z8k_reloc list \<Rightarrow> uint8 list
    \<Rightarrow> (uint8 list \<times> complaint list) run" where
  "reloc16_section_contents info offset vma sz rels data =
     (if rels = [] then Inr (data, [])
      else bindF (contents_loop info offset vma sz rels \<lparr>sec_data = data, src_address = 0, dst_address = 0, complaints = []\<rparr>)
             (\<lambda>s. Inr (sec_data s, complaints s)))"

section \<open>Relaxation\<close>

text \<open>
  \<open>coff-z8k.c\<close> defines no function that estimates how much a relocation can shrink, so that the default of
  \<open>coffcode.h\<close> is taken, which aborts.
\<close>

definition dummy_reloc16_estimate :: "z8k_reloc \<Rightarrow> int32 \<Rightarrow> int32 run" where
  "dummy_reloc16_estimate rel shrink = Inl Aborted"

fun relax_pass :: "(z8k_reloc \<Rightarrow> int32 \<Rightarrow> int32 run) \<Rightarrow> nat \<Rightarrow> z8k_reloc list \<Rightarrow> int32 list \<Rightarrow> int32 \<Rightarrow> bool
    \<Rightarrow> (int32 list \<times> int32 \<times> bool) run" where
  "relax_pass estimate i [] shrinks shrink another = Inr (shrinks, shrink, another)"
| "relax_pass estimate i (rel # rels) shrinks shrink another =
     bindF (estimate rel (shrinks ! i)) (\<lambda>shrink.
     if shrink \<noteq> shrinks ! i then
       relax_pass estimate (i + 1) rels
         (take (i + 1) shrinks @ map (\<lambda>x. x + (shrink - shrinks ! i)) (drop (i + 1) shrinks)) shrink True
     else relax_pass estimate (i + 1) rels shrinks shrink another)"

text \<open>The passes are repeated until nothing changes, which is not sure to happen: \<open>fuel\<close> bounds their number.\<close>

fun relax_loop :: "(z8k_reloc \<Rightarrow> int32 \<Rightarrow> int32 run) \<Rightarrow> nat \<Rightarrow> z8k_reloc list \<Rightarrow> int32 list \<Rightarrow> int32 \<Rightarrow> int32 run option" where
  "relax_loop estimate 0 rels shrinks shrink = None"
| "relax_loop estimate (Suc fuel) rels shrinks shrink =
     (case relax_pass estimate 0 rels shrinks shrink False of
        Inl e \<Rightarrow> Some (Inl e)
      | Inr (shrinks, shrink, another) \<Rightarrow>
          if another then relax_loop estimate fuel rels shrinks shrink else Some (Inr shrink))"

definition bfd_coff_reloc16_relax_section :: "nat \<Rightarrow> z8k_reloc list \<Rightarrow> asection \<Rightarrow> asection run option" where
  "bfd_coff_reloc16_relax_section fuel rels sec =
     (if rels = [] then Some (Inr sec)
      else map_option (\<lambda>r. bindF r (\<lambda>shrink. Inr (sec\<lparr>cooked_size := cooked_size sec - shrink\<rparr>)))
             (relax_loop dummy_reloc16_estimate fuel rels (replicate (length rels) 0) 0))"

text \<open>
  \<open>bfd_perform_slip\<close>: the symbols of the section behind \<open>value\<close> move down. A symbol may have an entry in the hash table, which
  holds the same value.
\<close>

record slip_symbol =
  in_section :: bool
  slip_value :: uint32
  slip_hash :: "uint32 option"

definition bfd_perform_slip :: "uint32 \<Rightarrow> uint32 \<Rightarrow> slip_symbol list \<Rightarrow> slip_symbol list" where
  "bfd_perform_slip slip value =
     map (\<lambda>p. if in_section p \<and> slip_value p > value
              then p\<lparr>slip_value := slip_value p - slip, slip_hash := map_option (\<lambda>v. v - slip) (slip_hash p)\<rparr> else p)"

end
