(* ===== verification/Z8k_Link_Correct.thy ===== *)
theory Z8k_Link_Correct
  imports Z8k_Link
begin

text \<open>
  What linking makes of a section of a Z8000 object: the copying loop of \<open>src/src/bfd/reloc16.c\<close> changes the fields of the
  relocations and nothing else, and the displacement of \<open>jr\<close> in \<open>src/src/bfd/coff-z8k.c\<close> reaches its target in a range.
\<close>

section \<open>Fields\<close>

definition field_size :: "z8k_reloc \<Rightarrow> nat" where
  "field_size rel = (let t = howto_type (rel_howto rel) in if t = 0x11 then 4 else if t = 0x01 then 2 else 1)"

definition field_place :: "z8k_reloc \<Rightarrow> nat" where
  "field_place rel = unat (rel_address rel)"

text \<open>What is put at the place of a relocation, from the byte there, and the complaints.\<close>

definition linked_field :: "link_info \<Rightarrow> uint32 \<Rightarrow> uint32 \<Rightarrow> z8k_reloc \<Rightarrow> uint8 \<Rightarrow> (uint8 list \<times> complaint list) run" where
  "linked_field info offset vma rel old =
     (let t = howto_type (rel_howto rel) in
      if t \<notin> {0x22, 0x11, 0x23, 0x01, 0x02} then Inl Aborted
      else
        bindF (bfd_coff_reloc16_get_value info rel) (\<lambda>(v, cs).
        if t = 0x22 then Inr ([ucast v], cs)
        else if t = 0x11 then Inr (bfd_putb32 v, cs)
        else if t = 0x23 then Inr ([(old AND 0xf0) OR (0x0f AND ucast v)], cs)
        else if t = 0x01 then Inr (bfd_putb16 v, cs)
        else
          (let gap = v - (offset + rel_address rel + vma) - 1 :: int32; words = word_of_int (sint gap div 2) :: int32;
               over = (128 <s words \<or> words <s - 128) in
           if gap AND 1 \<noteq> 0 then Inl Aborted
           else if over \<and> \<not> reloc_overflow info rel then Inl Aborted
           else Inr ([ucast words], cs @ (if over then [Reloc_overflow] else [])))))"

text \<open>The fields are put in one by one, each at its own place.\<close>

fun patched :: "link_info \<Rightarrow> uint32 \<Rightarrow> uint32 \<Rightarrow> z8k_reloc list \<Rightarrow> uint8 list \<Rightarrow> complaint list \<Rightarrow> (uint8 list \<times> complaint list) run" where
  "patched info offset vma [] d cs = Inr (d, cs)"
| "patched info offset vma (rel # rels) d cs =
     bindF (linked_field info offset vma rel (d ! field_place rel)) (\<lambda>(new, cs').
     patched info offset vma rels (put_bytes (field_place rel) new d) (cs @ cs'))"

text \<open>The fields are in order, apart, and inside of the section.\<close>

fun in_order :: "nat \<Rightarrow> nat \<Rightarrow> z8k_reloc list \<Rightarrow> bool" where
  "in_order n sz [] = (n \<le> sz)"
| "in_order n sz (rel # rels) = (n \<le> field_place rel \<and> in_order (field_place rel + field_size rel) sz rels)"

section \<open>Copying\<close>

lemma in_order_le: "in_order n sz rels \<Longrightarrow> n \<le> sz"
  by (induction n sz rels rule: in_order.induct) auto

lemma copy_run_same:
  "src_address s = dst_address s \<Longrightarrow> dst_address s + k \<le> length (sec_data s)
     \<Longrightarrow> copy_run k s = Inr (s\<lparr>dst_address := dst_address s + k, src_address := src_address s + k\<rparr>)"
  by (induction k arbitrary: s) simp_all

text \<open>The state in which a number of bytes has been dealt with.\<close>

definition upto :: "nat \<Rightarrow> uint8 list \<Rightarrow> complaint list \<Rightarrow> section_state" where
  "upto n d cs = \<lparr>sec_data = d, src_address = n, dst_address = n, complaints = cs\<rparr>"

lemma upto_simps [simp]:
  "sec_data (upto n d cs) = d" "src_address (upto n d cs) = n" "dst_address (upto n d cs) = n" "complaints (upto n d cs) = cs"
  by (simp_all add: upto_def)

lemma upto_complaints [simp]:
  "complaints_update f (upto n d cs) = upto n d (f cs)"
  by (simp_all add: upto_def)

lemma copy_run_upto: "n + k \<le> length d \<Longrightarrow> copy_run k (upto n d cs) = Inr (upto (n + k) d cs)"
  by (simp add: copy_run_same upto_def)

lemma linked_field_length:
  "linked_field info offset vma rel old = Inr (new, cs) \<Longrightarrow> length new = field_size rel"
  by (auto simp: linked_field_def field_size_def Let_def bindF_Inr bfd_putb32_def bfd_putb16_def split: if_splits)

lemma put_field_upto:
  "n + length new \<le> length d \<Longrightarrow> put_field new (upto n d cs) = Inr (upto (n + length new) (put_bytes n new d) cs)"
  by (simp add: put_field_def upto_def)

lemma extra_case_linked:
  assumes "field_place rel + field_size rel \<le> length d"
  defines "a \<equiv> field_place rel"
  shows "extra_case info offset vma rel (upto a d cs) =
    bindF (linked_field info offset vma rel (d ! a)) (\<lambda>(new, cs'). Inr (upto (a + length new) (put_bytes a new d) (cs @ cs')))"
proof (cases "howto_type (rel_howto rel) \<in> {0x22, 0x11, 0x23, 0x01, 0x02}")
  case False
  then show ?thesis by (simp add: extra_case_def linked_field_def)
next
  case True
  have "0 < field_size rel" by (simp add: field_size_def Let_def)
  then have a: "a < length d" using assms by simp
  have size: "length (bfd_putb32 v) = 4" "length (bfd_putb16 w) = 2" for v w by (simp_all add: bfd_putb32_def bfd_putb16_def)
  have dot: "of_nat a = rel_address rel" by (simp add: a_def field_place_def)
  show ?thesis
  proof (cases "bfd_coff_reloc16_get_value info rel")
    case (Inl e)
    then show ?thesis using True a by (auto simp: extra_case_def linked_field_def Let_def)
  next
    case (Inr r)
    obtain v c where r: "r = (v, c)" by (cases r)
    note S = extra_case_def linked_field_def Inr r Let_def
    consider "howto_type (rel_howto rel) = 0x22" | "howto_type (rel_howto rel) = 0x11" | "howto_type (rel_howto rel) = 0x23"
      | "howto_type (rel_howto rel) = 0x01" | "howto_type (rel_howto rel) = 0x02" using True by blast
    then show ?thesis
    proof cases
      case 5
      then show ?thesis using a by (auto simp: S jr_field_def dot put_field_upto)
    qed (use a assms in \<open>simp_all add: S put_field_upto size field_size_def\<close>)
  qed
qed

lemma length_put_bytes: "a + length new \<le> length d \<Longrightarrow> length (put_bytes a new d) = length d"
  by (simp add: put_bytes_def)

lemma contents_patched:
  assumes "in_order n (length d) rels" "length d < 2 ^ 32"
  shows "map_sum id (\<lambda>s. (sec_data s, complaints s)) (contents_loop info offset vma (length d) rels (upto n d cs))
    = patched info offset vma rels d cs"
  using assms
proof (induction rels arbitrary: n d cs)
  case Nil
  then have "n \<le> length d" by simp
  then show ?case by (cases "n < length d") (simp_all add: copy_run_upto)
next
  case (Cons rel rels)
  let ?a = "field_place rel"
  have o: "n \<le> ?a" "in_order (?a + field_size rel) (length d) rels" "?a + field_size rel \<le> length d"
    using Cons.prems(1) in_order_le by auto
  have "0 < field_size rel" by (simp add: field_size_def Let_def)
  then have n: "n < length d" "?a < 2 ^ 32" using o Cons.prems(2) by linarith+
  have "unat (rel_address rel - of_nat n) = ?a - n"
  proof -
    have "n < 2 ^ 32" using n(1) Cons.prems(2) by linarith
    then have "unat (of_nat n :: uint32) = n" by (simp add: unsigned_of_nat take_bit_nat_eq_self)
    then show ?thesis using o(1) by (simp add: field_place_def unat_sub word_le_nat_alt)
  qed
  then have run: "copy_run (unat (rel_address rel - of_nat (src_address (upto n d cs)))) (upto n d cs) = Inr (upto ?a d cs)"
    using copy_run_upto [of n "?a - n" d cs] o by (simp add: upto_def)
  show ?case
  proof (cases "linked_field info offset vma rel (d ! ?a)")
    case (Inl e)
    then show ?thesis using n run extra_case_linked [OF o(3), of info offset vma cs] by (simp add: upto_def)
  next
    case (Inr r)
    obtain new c where r: "r = (new, c)" by (cases r)
    have len: "length new = field_size rel" using linked_field_length Inr r by blast
    then have "length (put_bytes ?a new d) = length d" using o(3) length_put_bytes by simp
    then show ?thesis
      using n run Inr r len extra_case_linked [OF o(3), of info offset vma cs]
        Cons.IH [of "?a + field_size rel" "put_bytes ?a new d" "cs @ c"] o(2) Cons.prems(2)
      by (simp add: upto_def)
  qed
qed

section \<open>The section that is linked\<close>

text \<open>A byte outside of all fields stays as it is.\<close>

definition outside :: "z8k_reloc list \<Rightarrow> nat \<Rightarrow> bool" where
  "outside rels i \<longleftrightarrow> (\<forall>rel \<in> set rels. i < field_place rel \<or> field_place rel + field_size rel \<le> i)"

lemma patched_outside:
  "in_order n (length d) rels \<Longrightarrow> patched info offset vma rels d cs = Inr (d', cs')
     \<Longrightarrow> length d' = length d \<and> (\<forall>i < length d. outside rels i \<longrightarrow> d' ! i = d ! i)"
proof (induction rels arbitrary: n d cs)
  case (Cons rel rels)
  let ?a = "field_place rel"
  obtain new c where l: "linked_field info offset vma rel (d ! ?a) = Inr (new, c)"
    "patched info offset vma rels (put_bytes ?a new d) (cs @ c) = Inr (d', cs')"
    using Cons.prems(2) by (auto simp: bindF_Inr)
  have o: "in_order (?a + field_size rel) (length d) rels" "?a + length new \<le> length d"
    using Cons.prems(1) in_order_le linked_field_length [OF l(1)] by auto
  have "d' ! i = put_bytes ?a new d ! i" if "i < length d" "outside (rel # rels) i" for i
    using Cons.IH [OF _ l(2)] o length_put_bytes [OF o(2)] that by (simp add: outside_def)
  moreover have "put_bytes ?a new d ! i = d ! i" if "i < length d" "outside (rel # rels) i" for i
    using that o(2) linked_field_length [OF l(1)] by (auto simp: put_bytes_def outside_def nth_append)
  ultimately show ?case using Cons.IH [OF _ l(2)] o length_put_bytes [OF o(2)] by auto
qed simp


text \<open>A word of code, the address 0x1234 of a symbol, and a byte.\<close>

definition sample_rel :: z8k_reloc where
  "sample_rel = \<lparr>rel_address = 2, rel_howto = r_da,
     rel_symbol = \<lparr>sym_kind = Other_section, sym_section = \<lparr>output_vma = 0x1000, output_offset = 0, cooked_size = 0\<rparr>, sym_value = 0x230,
       sym_weak = False, sym_is_section = False\<rparr>, rel_addend = 4\<rparr>"


section \<open>Relative jumps\<close>

lemma even_gap:
  fixes g :: int32
  assumes "g AND 1 = 0"
  shows "g = word_of_int (2 * (sint g div 2))" "- (2 ^ 30) \<le> sint g div 2" "sint g div 2 < 2 ^ 30"
proof -
  have "\<not> bit g 0" using and_exp_eq_0_iff_not_bit [of g 0] assms by simp
  then have "\<not> bit (sint g) 0" by (simp add: bit_signed_iff)
  then have "even (sint g)" by (simp add: bit_0)
  then have "2 * (sint g div 2) = sint g" by simp
  then show "g = word_of_int (2 * (sint g div 2))" by simp
  show "- (2 ^ 30) \<le> sint g div 2" "sint g div 2 < 2 ^ 30"
    using sint_greater_eq [of g] sint_less [of g] by simp_all
qed

lemma ucast_byte_of_int: "(ucast (word_of_int k :: int32) :: uint8) = word_of_int k"
  by transfer simp

lemma jr_reach:
  assumes "- 128 \<le> dist" "dist \<le> 128"
  shows "2 * scast (word_of_int dist :: uint8) = (word_of_int (2 * dist) :: int32) \<longleftrightarrow> dist \<noteq> 128"
proof (cases "dist = 128")
  case False
  then have "signed_take_bit 7 dist = dist" using assms by (simp add: signed_take_bit_int_eq_self)
  then have "(scast (word_of_int dist :: uint8) :: int32) = word_of_int dist" by transfer simp
  then show ?thesis using False by simp
qed simp

text \<open>
  C39. Z8000 linker: the displacement of \<open>jr\<close>. For a target at an even distance from the end of the instruction, \<open>jr_field\<close> stores the
  distance in words as one byte, and complains of an overflow exactly when it is not between -128 and 128. The instruction,
  which the processor ends at the address behind the displacement and which counts in words of two bytes, then jumps to the
  target for every distance without complaint except for 128, which is stored as -128.
\<close>

theorem jr_displacement:
  fixes offset vma target :: uint32 and s :: section_state
  defines "place \<equiv> offset + of_nat (dst_address s) + vma"
  defines "dist \<equiv> sint (target - place - 1) div 2"
  assumes "(target - place - 1) AND 1 = 0" "dst_address s < length (sec_data s)" "reloc_overflow info rel"
  shows "\<exists>s'. jr_field info offset vma rel target s = Inr s'
    \<and> sec_data s' = (sec_data s)[dst_address s := word_of_int dist] \<and> dst_address s' = dst_address s + 1
    \<and> (complaints s' = complaints s \<longleftrightarrow> - 128 \<le> dist \<and> dist \<le> 128)
    \<and> (complaints s' = complaints s \<longrightarrow>
        (place + 1 + 2 * scast (sec_data s' ! dst_address s) = target \<longleftrightarrow> dist \<noteq> 128))"
proof -
  have gap: "target - place - 1 = word_of_int (2 * dist)" "- (2 ^ 30) \<le> dist" "dist < 2 ^ 30"
    using even_gap [OF assms(3)] by (simp_all add: dist_def)
  have words: "sint (word_of_int dist :: int32) = dist"
    using gap(2,3) by (simp add: signed_of_int signed_take_bit_int_eq_self)
  define over where "over \<longleftrightarrow> 128 < dist \<or> dist < - 128"
  define s' where "s' = s\<lparr>sec_data := (sec_data s)[dst_address s := word_of_int dist], dst_address := dst_address s + 1,
    src_address := src_address s + 1, complaints := complaints s @ (if over then [Reloc_overflow] else [])\<rparr>"
  have "put_bytes (dst_address s) [b] (sec_data s) = (sec_data s)[dst_address s := b]" for b
    using assms(4) by (simp add: put_bytes_def upd_conv_take_nth_drop)
  then have "jr_field info offset vma rel target s = Inr s'"
    using assms(3,4,5) words
    by (simp add: jr_field_def put_field_def place_def [symmetric] dist_def [symmetric] Let_def word_sless_alt s'_def over_def ucast_byte_of_int)
  moreover have "complaints s' = complaints s \<longleftrightarrow> - 128 \<le> dist \<and> dist \<le> 128"
    by (auto simp: s'_def over_def)
  moreover have "place + 1 + 2 * scast (word_of_int dist :: uint8) = target \<longleftrightarrow> dist \<noteq> 128" if "- 128 \<le> dist" "dist \<le> 128"
  proof -
    have "place + 1 + 2 * x = target \<longleftrightarrow> 2 * x = target - place - 1" for x by (auto simp: algebra_simps)
    then show ?thesis using jr_reach [OF that] gap(1) by simp
  qed
  ultimately show ?thesis using assms(4) by (intro exI [of _ s']) (auto simp: s'_def)
qed

text \<open>A jump at 0x1000 of a section of four bytes to the address behind the section, and the place of its displacement.\<close>

definition sample_section :: section_state where
  "sample_section = \<lparr>sec_data = [0xe8, 0, 0x8d, 0x07], src_address = 1, dst_address = 1, complaints = []\<rparr>"

definition sample_link :: link_info where
  "sample_link = \<lparr>link_hash_lookup = (\<lambda>_. Hash_other), undefined_symbol = (\<lambda>_. False), reloc_overflow = (\<lambda>_. True)\<rparr>"

theorem jr_displacement_witness:
  "\<exists>s'. jr_field sample_link 0 0x1000 sample_rel 0x1004 sample_section = Inr s' \<and> sec_data s' = [0xe8, 1, 0x8d, 0x07]
     \<and> complaints s' = []"
proof -
  have "(0x1004 - (0 + of_nat (dst_address sample_section) + 0x1000) - 1 :: uint32) AND 1 = 0"
    "dst_address sample_section < length (sec_data sample_section)"
    "sint (0x1004 - (0 + of_nat (dst_address sample_section) + 0x1000) - 1 :: uint32) div 2 = 1"
    "reloc_overflow sample_link sample_rel"
    by (simp_all add: sample_section_def sample_link_def)
  then show ?thesis
    using jr_displacement [of "0x1004" 0 sample_section "0x1000" sample_link sample_rel] by (auto simp: sample_section_def)
qed

end
