(* ===== verification/Spec2Isabelle.thy ===== *)
theory Spec2Isabelle
  imports Alu_Correct Acc_Correct Fix_Correct Dis_Correct Trace_Correct Call_Correct
    Z8k_Sim_Correct Z8k_Back Z8k_Link_Correct
begin

text \<open>
  A verification library for the D10V and Z8000 tool chains of ecosSWtools.

  The repository is a GNU tool chain; its README names the Mitsubishi D10V and the Zilog Z8000
  targets as the reason it is kept. This library models, first, the D10V instruction set, its simulator, which
  defines what a D10V program means, and the tools that make and read such programs:
  \<open>src/src/include/opcode/d10v.h\<close> and \<open>src/src/opcodes/d10v-opc.c\<close> (instruction tables), \<open>src/src/sim/d10v\<close>
  (simulator), \<open>src/src/gas/config/tc-d10v.c\<close> (assembler), \<open>src/src/opcodes/d10v-dis.c\<close> (disassembler),
  \<open>src/src/bfd/elf32-d10v.c\<close> with \<open>src/src/bfd/reloc.c\<close> (relocation), \<open>src/src/gdb/d10v-tdep.c\<close> and
  \<open>src/src/gdb/remote-d10v.c\<close> with the parts of \<open>src/src/gdb\<close> that they rest on (debugger). Second, of the Z8000, it models the
  instruction table \<open>src/src/opcodes/z8k-opc.h\<close>, the disassembler \<open>z8k-dis.c\<close>, the assembler \<open>src/src/gas/config/tc-z8k.c\<close>, linking
  (\<open>src/src/bfd/coff-z8k.c\<close>, \<open>reloc16.c\<close>), and the support code of the simulator \<open>src/src/sim/z8k\<close>.

  \<^bold>\<open>The program.\<close> The simulator keeps one global state: sixteen general registers, sixteen control
  registers (with the status word \<open>PSW\<close> and the program counter), two held stack pointers, two 40-bit
  accumulators, instruction memory, data memory and 128 segments of unified memory. A 32-bit
  instruction word holds one long instruction or two short ones, which run in parallel, left to right or
  right to left. \<open>sim_resume\<close> fetches a word, looks its instructions up in a hash table built from a
  generated table, extracts the operands and calls the function of each instruction. A function
  writes no register: it appends a write-back slot, and the slots are committed at the end of the
  packet (or between the two instructions of a sequential pair). The debugger starts, stops and
  inspects the simulator.

  The assembler reads one line at a time, chooses a table entry by the name and the operands, fills the
  operands into the instruction word, and holds a short instruction back to pack it with the next one into
  one word, in parallel when it may. Operands whose value is not known become fixups; when gas knows the value it
  stores it, or else writes a relocation that the linker performs. The disassembler searches the same table.

  The debugger keeps a cache of the registers of its target, the simulator, as bytes in target order. It finds the caller of a
  function by decoding the instructions of its prologue, which push registers, and reads the saved registers from the stack. To call
  a function of the debugged program it saves the cache in a dummy frame, pushes the arguments, runs the
  simulator, reads the result and restores the cache. For the evaluation board it translates addresses by
  the same map registers as the simulator and reads the board's trace buffer.

  The Z8000 tools share one table of 418 entries. An entry describes the instruction nibble by nibble: a fixed nibble, or a class that says which
  register, condition, address or number is stored there. The assembler parses the operands of a line into the structure \<open>z8k_op\<close>, tries the
  entries of that name one after the other, and writes nibbles as the entry directs, with a fix for each address or number. The
  disassembler looks for the first entry that the nibbles in memory match and takes the operands out of them. The linker copies a section and
  puts the value of each relocation into its field. The simulator's instruction functions are
  generated; what they call, registers, memory, flags, conditions, system calls, is written by hand, as are its main loop and interface.

  \<^bold>\<open>The theories.\<close>
  \<^item> \<open>Prelude\<close>: integer types, casts, sign extension as \<open>signed_take_bit\<close>, searches; the locale
    \<open>hashed_search\<close>.
  \<^item> \<open>D10V_Sim\<close>: the state record \<open>sim\<close> (the globals \<open>State\<close>, \<open>OP\<close>, \<open>stop_simulator\<close>,
    \<open>ins_type_counters\<close>), the macros of \<open>d10v_sim.h\<close>, \<open>move_to_cr\<close>; the invariant \<open>sim_ok\<close>; the locale
    \<open>writeback\<close> with its interpretations for 16-bit registers and for accumulators.
  \<^item> \<open>D10V_Mem\<close>: byte order (\<open>endian.c\<close>), address translation and debugger transfers (\<open>interp.c\<close>).
  \<^item> \<open>Simops_Alu\<close>, \<open>Simops_Acc\<close>, \<open>Simops_Mem\<close>, \<open>Simops_Ctl\<close>: the 157 instruction functions of \<open>simops.c\<close>,
    one definition each with the name of the C function.
  \<^item> \<open>D10V_Opc\<close>: the tables of \<open>d10v-opc.c\<close> and the table that \<open>gencode.c\<close> generates from them.
  \<^item> \<open>Simops_Table\<close>: the functions in table order; the contract \<open>issue_ok\<close> of an instruction function
    and its proof for all of them; the consistency of table and functions.
  \<^item> \<open>Interp\<close>: the hash table, decoding, the three kinds of packets, the main loop, the debugger's
    interface (\<open>interp.c\<close>).
  \<^item> \<open>Interp_Inv\<close>: the invariant and the slot bound up to the reachable states; when \<open>sim_resume\<close> returns.
  \<^item> \<open>Commit\<close>: the architected state (\<open>view\<close>) and the effect of an instruction on it once its slots are
    committed (\<open>commit\<close>); instructions are specified as direct writes to it.
  \<^item> \<open>Alu_Correct\<close>, \<open>Acc_Correct\<close>, \<open>Mem_Correct\<close>, \<open>Ctl_Correct\<close>: what the instructions compute, over the
    integers: arithmetic and flags, division, 40-bit accumulators, rounding, memory (locale \<open>codec\<close>), the
    stack, exceptions, the hardware loop, system calls, the debugger's registers.
  \<^item> \<open>Bfd_Reloc\<close>, \<open>Elf32_D10V\<close>: byte access, relocation codes and \<open>bfd_perform_relocation\<close> of BFD; the relocation
    table of the D10V and its lookups.
  \<^item> \<open>Gas_Operands\<close>, \<open>Gas_Insn\<close>, \<open>Gas_Pack\<close>, \<open>Gas_Fix\<close>: the assembler, \<open>tc-d10v.c\<close>, in this order: registers and
    operands; the choice of the entry, \<open>build_insn\<close>, \<open>do_assemble\<close>; packing and \<open>md_assemble\<close> on the state \<open>gas\<close>;
    fixups, options, labels and data.
  \<^item> \<open>D10V_Dis\<close>: the disassembler, \<open>d10v-dis.c\<close>.
  \<^item> \<open>Asm_Correct\<close>: the register search (locale \<open>register_table\<close>), the range check, and that the simulator decodes
    what the assembler encodes (C17 to C19).
  \<^item> \<open>Pack_Correct\<close>: the order of packed instructions, the program held by the bytes of a segment, an error
    after a change of segment, a pair wrongly taken as independent (C20 to C23).
  \<^item> \<open>Fix_Correct\<close>: short branches resolved by the assembler and by the linker, relocations (C24, C25).
  \<^item> \<open>Dis_Correct\<close>: the disassembler names what is executed, and the text of registers (C26, C27).
  \<^item> \<open>Gdb_Target\<close>, \<open>Gdb_D10V\<close>, \<open>Gdb_Call\<close>, \<open>Gdb_Remote\<close>: the debugger on the state \<open>gdb\<close>, in this order: integers in target order, the
    register cache (\<open>findvar.c\<close>), the simulator as target (\<open>remote-sim.c\<close>), memory transfers (\<open>target.c\<close>,
    \<open>corefile.c\<close>); addresses, prologues and frames (\<open>d10v-tdep.c\<close>, \<open>tm-d10v.h\<close>); dummy frames (\<open>blockframe.c\<close>), popping a frame,
    arguments, return values; the board's addresses (\<open>remote-d10v.c\<close>) and the trace buffer.
  \<^item> \<open>Gdb_Cache\<close>: the cache and the simulator's registers as stores with fields (locale \<open>fields\<close>); coherence of
    the two; dummy frames (C29, C30).
  \<^item> \<open>Board_Correct\<close>: the addresses of the board are those of the simulator (C32).
  \<^item> \<open>Prologue_Run\<close>, \<open>Prologue_Correct\<close>: the instructions of a prologue run in the simulator, and the debugger's analysis
    finds the registers they saved (C28).
  \<^item> \<open>Call_Correct\<close>, \<open>Trace_Correct\<close>: arguments and return values, the trace buffer (C31, C33).
  \<^item> \<open>Z8k_Base\<close>: how a run of the Z8000 tools can fail (\<open>z8k_fault\<close>), sequences of steps.
  \<^item> \<open>Z8k_Opc\<close>, \<open>Z8k_Dis\<close>: the instruction table, split by the first letter of the names; the disassembler on the record \<open>instr_data_s\<close>.
  \<^item> \<open>Z8k_Operands\<close>, \<open>Z8k_Gas\<close>, \<open>Z8k_Assemble\<close>: the assembler \<open>tc-z8k.c\<close> on the state \<open>z8k_gas\<close>, its static variables, in this order: registers and
    operands; the choice of the entry and the encoding; names, pseudo operations, \<open>md_assemble\<close>, constants, fixups, relocations.
  \<^item> \<open>Z8k_Link\<close>: relocations of Z8000 objects, the contents of a section, relaxation.
  \<^item> \<open>Z8k_Sim\<close>, \<open>Z8k_Support\<close>: the simulator on the state \<open>z8k_sim\<close>: registers and memory (\<open>inlines.h\<close>, \<open>mem.c\<close>); flags, conditions, main loop, system
    calls (\<open>support.c\<close>), the debugger's interface (\<open>iface.c\<close>).
  \<^item> \<open>Z8k_Sim_Correct\<close>: conditions mean what their names say, memory keeps what is written (locale \<open>byte_access\<close>; C36, C37, C40).
  \<^item> \<open>Z8k_Lookup\<close>, \<open>Z8k_Search\<close>: the nibble patterns of the table, which of them overlap, and what the search therefore finds (C35).
  \<^item> \<open>Z8k_Encode\<close>, \<open>Z8k_Code\<close>, \<open>Z8k_Back\<close>: what the encoding writes for each class of field, that it matches the entry, and that the
    disassembler takes the operands out again (C34).
  \<^item> \<open>Z8k_Link_Correct\<close>: the linked section, and the reach of relative jumps (C38, C39).
  \<^item> \<open>Spec2Isabelle\<close>: the properties of the simulator as a whole (C1 to C6).

  \<^bold>\<open>Modelling.\<close> C integers are words of their width; signed comparisons are \<open><s\<close>, \<open><=s\<close>, signed shifts
  \<open>signed_drop_bit\<close>. Pointers into simulated memory are values of type \<open>ptr\<close>. The host (system calls,
  \<open>calloc\<close>) is a parameter: its answers are arguments of the operations and the theorems hold for all of them.
  The write-back buffer is a list without bound; C2 shows that the array of 16 slots is enough, so
  the list behaves as the array. The interpreter's loop may run forever and is a partial function into
  \<open>option\<close>; \<open>single_step_returns\<close> and C6 say when it returns. A call of \<open>exit\<close>, a null dereference and an array
  read out of bounds end the run and are recorded in \<open>status\<close>.

  In the assembler a call of \<open>as_fatal\<close>, a write behind a local array and a null pointer are values of type
  \<open>as_error\<close>; \<open>as_bad\<close> adds a message. gas's expression parser, symbol table, \<open>emit_expr\<close> and \<open>atof_ieee\<close> are
  parameters. The loop over the operands of a line ends because the array has six elements, the loop of
  \<open>.word\<close> has the length of the line as fuel, which \<open>dot_word_loop_returns\<close> shows to be enough.

  In the debugger an operation is a function from the state \<open>gdb\<close> to a fault (a call of \<open>error\<close>, a write or read beyond an array,
  a transfer that fails) or a result with the new state. The symbol table is the
  parameter \<open>symtab\<close>, a record of the functions that look something up in it; the theorems state what they need of it. The two prologue
  scans read one word after the other up to an instruction that they do not know. They end because the simulator has no memory
  behind its last segment and a read there fails, which is the measure of their termination proofs.

  In the Z8000 theories \<open>abort\<close>, an access outside of an array, the use of a null pointer or of an undefined value are faults of type
  \<open>z8k_fault\<close>. \<open>long\<close> has 32 bits. The loops of the disassembler are bounded by the length of an entry, with a measure in its termination proof.
  The simulator's main loop is a partial function into \<open>option\<close>; the passes of section relaxation, which need not end, take fuel, for which no bound
  is claimed: the Z8000 aborts in the first pass.

  \<^bold>\<open>Not modelled.\<close> Trace output and the arguments of messages; loading of executables through BFD; the parts of gas, BFD and
  the linker that are not specific to the D10V, beyond performing a relocation; of the debugger, its commands and their output, symbol
  tables, expressions, breakpoints, other targets; compilers and libraries. Of the Z8000: the instruction functions of the simulator and their table
  \<open>op_info_table\<close>, which a program of the repository generates when the simulator is built, its trace output, and the debugger's part.

  \<^bold>\<open>Plan.\<close> Soundness of \<open>parallel_ok\<close> for the pairs whose effects the table describes; whole programs from
  source lines to simulated runs; the generator \<open>sim/z8k/writecode.c\<close> of the Z8000 instruction functions and \<open>gdb/z8k-tdep.c\<close>.
\<close>

section \<open>The invariant of the simulator\<close>

text \<open>
  C1. Whatever the debugger does and whatever the host answers, every reachable state of the
  simulator is well-formed: the reserved bits of \<open>PSW\<close>, \<open>BPSW\<close> and \<open>DPSW\<close> are clear, the modulo
  limits are even, the accumulators have 40 bits, the arrays have their declared sizes; and between
  two instructions no register write is pending.
\<close>

theorem reachable_sim_ok:
  "reachable s \<Longrightarrow> sim_ok s \<and> (status s = Running \<longrightarrow> slot s = [])"
  using reachable_inv by (auto simp: inv_def)

theorem reachable_sim_ok_witness:
  "sim_ok (sim_open (boot True)) \<and> slot (sim_open (boot True)) = []"
  using reachable_sim_ok [OF reachable.opened [of True]] status_open by simp

text \<open>
  C2. The \<open>NR_SLOTS\<close> write-back slots are always enough, although \<open>SLOT_PEND\<close> does not check: from any
  reachable state, whatever instruction word is executed, the slots pending when the packet is
  written back number at most 16, and so do those pending after the first instruction of a
  sequential pair.
\<close>

theorem slots_never_overflow:
  assumes "reachable s" and "status s = Running" and "lookup_hash ins False = Found i"
  shows "length (slot (breakpoint (next_pc (dispatch host inst (s\<lparr>pc_changed := False\<rparr>))))) \<le> NR_SLOTS
    \<and> length (slot (issue host i ins t s)) \<le> NR_SLOTS"
proof
  have ok: "sim_ok s" "slot s = []" using assms reachable_inv by (auto simp: inv_def)
  then show "length (slot (breakpoint (next_pc (dispatch host inst (s\<lparr>pc_changed := False\<rparr>))))) \<le> NR_SLOTS"
    using dispatch_ok [of "s\<lparr>pc_changed := False\<rparr>"] writeback_ok(2) by simp
  show "length (slot (issue host i ins t s)) \<le> NR_SLOTS"
    using issue_slots(1) [OF lookup_hash_decodes [OF assms(3)] ok(1), of host t] ok(2)
    by (auto simp: NR_SLOTS_def split: if_splits)
qed

theorem slots_never_overflow_witness:
  "lookup_hash 0x0200 False = Found 2 \<and>
   (\<forall>host. length (slot (issue host 2 0x0200 INS_LEFT (sim_open (boot True)))) \<le> NR_SLOTS)"
proof -
  have "lookup_hash 0x0200 False = Found 2"
    by (rule lookup_hash_Found) (simp_all add: op_matches_eval)
  then show ?thesis
    using slots_never_overflow [OF reachable.opened status_open] by blast
qed

section \<open>Decoding\<close>

text \<open>
  C3. Looking an instruction up in the hash table is a search of the generated table in its order:
  \<open>lookup_hash\<close> finds exactly the first entry whose mask and opcode match the instruction word and
  whose length is the one asked for.
\<close>

theorem lookup_hash_first_match:
  "lookup_hash ins sz = Found i \<longleftrightarrow>
     i < length Simops \<and> ins AND so_mask (Simops ! i) = so_opcode (Simops ! i)
     \<and> so_is_long (Simops ! i) = sz
     \<and> (\<nexists>j. j < i \<and> ins AND so_mask (Simops ! j) = so_opcode (Simops ! j)
            \<and> so_is_long (Simops ! j) = sz)"
  by (auto simp: lookup_hash_Found_iff op_matches_def)

text \<open>
  C4. The generated table is consistent with the functions of \<open>simops.c\<close>: the entry at position \<open>i\<close>
  names the function of its opcode, and every operand the decoder extracts from a matching
  instruction word is one the function may use as an index: general and control registers are
  below 16, accumulators below 2, and the second register of a pair exists.
\<close>

theorem decoded_operands_ok:
  assumes "lookup_hash ins sz = Found i" and "length (OP s) = 4"
  shows "fst (simop_table host ! i) = so_opcode (Simops ! i)
    \<and> ops_ok (fst (snd (simop_table host ! i))) (get_operands (Simops ! i) ins s)"
  using get_operands_ok [OF lookup_hash_decodes [OF assms(1)] assms(2)]
    simop_table_classes [of i host] lookup_hash_decodes [OF assms(1)]
  by (simp add: decodes_def)

theorem decoded_operands_ok_witness:
  "\<forall>host. ops_ok (fst (snd (simop_table host ! 2))) (get_operands (Simops ! 2) 0x0242 (boot True))"
proof -
  have "lookup_hash 0x0242 False = Found 2"
    by (rule lookup_hash_Found) (simp_all add: op_matches_eval)
  then show ?thesis using decoded_operands_ok [where ins = "0x0242" and s = "boot True"] by (simp add: boot_def)
qed

text \<open>
  C5. An instruction changes no register while it executes: whatever instruction is decoded and
  whatever the host answers, the function leaves the general registers, the control registers, the
  held stack pointers and the accumulators as they are, and appends its writes to the pending
  slots. So the two instructions of a parallel packet both read the state before the packet.
\<close>

theorem instruction_defers_writes:
  assumes "lookup_hash ins sz = Found i" and "length (OP s) = 4"
  shows "\<exists>xs. slot (issue host i ins t s) = slot s @ xs \<and> list_all slot_ok xs
    \<and> regs (issue host i ins t s) = regs s \<and> cregs (issue host i ins t s) = cregs s
    \<and> sp (issue host i ins t s) = sp s \<and> acc (issue host i ins t s) = acc s"
  using issue_contract [OF lookup_hash_decodes [OF assms(1)] assms(2), of t host]
  by (auto simp: issue_ok_def Simops_Table.frame_def pends_def)

theorem instruction_defers_writes_witness:
  "\<forall>host. regs (issue host 2 0x0242 INS_LEFT (boot True)) = replicate 16 0"
proof
  fix host
  have "lookup_hash 0x0242 False = Found 2"
    by (rule lookup_hash_Found) (simp_all add: op_matches_eval)
  then show "regs (issue host 2 0x0242 INS_LEFT (boot True)) = replicate 16 0"
    using instruction_defers_writes [where ins = "0x0242" and s = "boot True"] by (auto simp: boot_def)
qed

section \<open>Running a program\<close>

text \<open>
  A single step of the debugger always returns: \<open>sim_resume\<close> with \<open>step\<close> set executes the loop body
  exactly once, and reports \<open>SIGTRAP\<close> when the instruction itself raised nothing.
\<close>

theorem single_step_returns:
  assumes "reachable s" and "status s = Running"
  shows "sim_resume hosts True s =
     Some (let t = resume_step (hosts 0) (s\<lparr>exception := 0, stop_simulator := True\<rparr>)
           in if status t = Running \<and> exception t = 0 then t\<lparr>exception := SIGTRAP\<rparr> else t)"
  using reachable_inv [OF assms(1)] assms(2)
  by (simp add: sim_resume_def sim_stop_def resume_loop_stop inv_def Let_def)

theorem single_step_returns_witness:
  "\<forall>hosts. \<exists>t. sim_resume hosts True (sim_open (boot True)) = Some t"
  using single_step_returns [OF reachable.opened status_open] by blast

end
